(* ===== verification/Prelude.thy ===== *)
theory Prelude
  imports Complex_Main "HOL-Library.Sublist" "HOL-Library.AList" "HOL-Library.Char_ord"
    "HOL-Library.List_Lexorder" "HOL-Library.Product_Lexorder"
begin

text \<open>
  Shared vocabulary of the development: results with errors, traversals that stop at the first
  error, list facts used by several components, and two locales that state once what a
  transactional component owes its clients: operations that keep an invariant, and runs of them.
\<close>

section \<open>Collections of facts\<close>

named_theorems py_simps \<open>rewrite rules for dictionaries, strings and results\<close>
named_theorems table_simps \<open>rewrite rules for the tables of the store\<close>

section \<open>Results\<close>

text \<open>
  A Python call either returns or raises. \<open>Inl e\<close> is the raised exception, \<open>Inr x\<close> the
  returned value; \<open>bindE\<close> is sequencing, which stops at the first exception.
\<close>

definition bindE :: "'e + 'a \<Rightarrow> ('a \<Rightarrow> 'e + 'b) \<Rightarrow> 'e + 'b" where
  "bindE m f = (case m of Inl e \<Rightarrow> Inl e | Inr x \<Rightarrow> f x)"

lemma bindE_Inl [simp]: "bindE (Inl e) f = Inl e"
  by (simp add: bindE_def)

lemma bindE_Inr [simp]: "bindE (Inr x) f = f x"
  by (simp add: bindE_def)

lemma bindE_eq_Inr: "bindE m f = Inr y \<longleftrightarrow> (\<exists>x. m = Inr x \<and> f x = Inr y)"
  by (cases m) auto

lemma bindE_eq_Inl: "bindE m f = Inl e \<longleftrightarrow> m = Inl e \<or> (\<exists>x. m = Inr x \<and> f x = Inl e)"
  by (cases m) auto

lemma bindE_InrE:
  assumes "bindE m f = Inr y"
  obtains x where "m = Inr x" and "f x = Inr y"
  using assms by (auto simp: bindE_eq_Inr)

lemma bindE_assoc: "bindE (bindE m f) g = bindE m (\<lambda>x. bindE (f x) g)"
  by (cases m) auto

lemma bindE_cong [fundef_cong]:
  "m = m' \<Longrightarrow> (\<And>x. m' = Inr x \<Longrightarrow> f x = f' x) \<Longrightarrow> bindE m f = bindE m' f'"
  by (cases m') auto

text \<open>\<open>check c e\<close> is the statement \<open>if not c: raise e\<close>.\<close>

definition check :: "bool \<Rightarrow> 'e \<Rightarrow> 'e + unit" where
  "check c e = (if c then Inr () else Inl e)"

lemma check_simps [simp]: "check True e = Inr ()" "check False e = Inl e"
  by (simp_all add: check_def)

lemma check_eq_Inr: "check c e = Inr u \<longleftrightarrow> c"
  by (cases c) auto

lemma check_eq_Inl: "check c e = Inl e' \<longleftrightarrow> \<not> c \<and> e = e'"
  by (cases c) auto

text \<open>A comprehension whose body may raise.\<close>

primrec mapE :: "('a \<Rightarrow> 'e + 'b) \<Rightarrow> 'a list \<Rightarrow> 'e + 'b list" where
  "mapE f [] = Inr []"
| "mapE f (x # xs) = bindE (f x) (\<lambda>y. bindE (mapE f xs) (\<lambda>ys. Inr (y # ys)))"

lemma mapE_length: "mapE f xs = Inr ys \<Longrightarrow> length ys = length xs"
  by (induction xs arbitrary: ys) (auto simp: bindE_eq_Inr)

lemma mapE_nth: "mapE f xs = Inr ys \<Longrightarrow> i < length xs \<Longrightarrow> f (xs ! i) = Inr (ys ! i)"
proof (induction xs arbitrary: ys i)
  case Nil
  then show ?case by simp
next
  case (Cons x xs)
  then show ?case by (cases i) (auto simp: bindE_eq_Inr)
qed

lemma mapE_Inr_iff:
  "mapE f xs = Inr ys \<longleftrightarrow> list_all2 (\<lambda>x y. f x = Inr y) xs ys"
  by (induction xs arbitrary: ys) (auto simp: bindE_eq_Inr list_all2_Cons1)

lemma mapE_Inr_set: "mapE f xs = Inr ys \<Longrightarrow> y \<in> set ys \<Longrightarrow> \<exists>x \<in> set xs. f x = Inr y"
  by (induction xs arbitrary: ys) (auto simp: bindE_eq_Inr)

lemma mapE_total: "(\<And>x. x \<in> set xs \<Longrightarrow> f x = Inr (g x)) \<Longrightarrow> mapE f xs = Inr (map g xs)"
  by (induction xs) auto

lemma mapE_cong [fundef_cong]:
  "xs = ys \<Longrightarrow> (\<And>x. x \<in> set ys \<Longrightarrow> f x = g x) \<Longrightarrow> mapE f xs = mapE g ys"
  by (induction ys arbitrary: xs) (auto simp: bindE_def split: sum.splits)

lemma mapE_keys:
  "mapE f xs = Inr ys \<Longrightarrow> (\<And>x y. x \<in> set xs \<Longrightarrow> f x = Inr y \<Longrightarrow> k y = h x) \<Longrightarrow> map k ys = map h xs"
  by (induction xs arbitrary: ys) (auto simp: bindE_eq_Inr)

lemmas result_simps = bindE_eq_Inr bindE_eq_Inl check_eq_Inr check_eq_Inl

section \<open>Lists\<close>

lemma find_Some_iff_set: "find P xs = Some x \<Longrightarrow> x \<in> set xs \<and> P x"
  by (induction xs) (auto split: if_splits)

lemma find_key_Some:
  "distinct (map key xs) \<Longrightarrow> find (\<lambda>r. key r = k) xs = Some x \<longleftrightarrow> x \<in> set xs \<and> key x = k"
proof (induction xs)
  case Nil
  then show ?case by simp
next
  case (Cons a xs)
  then show ?case by (cases "key a = k") (force simp: image_iff)+
qed

lemma find_key_None: "find (\<lambda>r. key r = k) xs = None \<longleftrightarrow> k \<notin> key ` set xs"
  by (auto simp: find_None_iff)

lemma map_key_update:
  "(\<And>r. key (f r) = key r) \<Longrightarrow> map key (map (\<lambda>r. if P r then f r else r) xs) = map key xs"
  by (induction xs) auto

lemma distinct_map_filter: "distinct (map f xs) \<Longrightarrow> distinct (map f (filter P xs))"
  by (induction xs) auto

section \<open>Components with an invariant\<close>

text \<open>
  A component is a step function on its state and a predicate every step keeps. What a client
  then knows of any run is proved once, here; every component of the store interprets it.
\<close>

locale invariant_system =
  fixes step :: "'s \<Rightarrow> 'e \<Rightarrow> 's"
    and inv :: "'s \<Rightarrow> bool"
  assumes step_inv: "inv s \<Longrightarrow> inv (step s e)"
begin

lemma run_inv: "inv s \<Longrightarrow> inv (foldl step s es)"
  by (induction es arbitrary: s) (auto intro: step_inv)

lemma run_prefix_inv: "inv s \<Longrightarrow> prefix ps es \<Longrightarrow> inv (foldl step s ps)"
  by (auto intro: run_inv)

end

text \<open>
  A transactional body either fails, and then nothing of it is kept, or returns a value and a
  new state. If the body keeps the invariant when it succeeds, the committed system keeps it
  always: the errors need no case of their own.
\<close>

definition commit :: "('s \<Rightarrow> 'e + ('a \<times> 's)) \<Rightarrow> 's \<Rightarrow> 's" where
  "commit body s = (case body s of Inl _ \<Rightarrow> s | Inr (_, s') \<Rightarrow> s')"

lemma commit_Inl [simp]: "body s = Inl e \<Longrightarrow> commit body s = s"
  by (simp add: commit_def)

lemma commit_Inr [simp]: "body s = Inr (a, s') \<Longrightarrow> commit body s = s'"
  by (simp add: commit_def)

locale transactional_system =
  fixes body :: "'c \<Rightarrow> 's \<Rightarrow> 'e + ('a \<times> 's)"
    and inv :: "'s \<Rightarrow> bool"
  assumes body_inv: "inv s \<Longrightarrow> body c s = Inr (a, s') \<Longrightarrow> inv s'"
begin

lemma commit_inv: "inv s \<Longrightarrow> inv (commit (body c) s)"
  by (auto simp: commit_def split: sum.splits intro: body_inv)

end

sublocale transactional_system \<subseteq> invariant_system "\<lambda>s c. commit (body c) s" inv
  by unfold_locales (rule commit_inv)

end
