(* ===== verification/PyString.thy ===== *)
theory PyString
  imports Prelude
begin

text \<open>
  The string operations of the Python standard library that the gateway uses, on \<open>string\<close>
  (lists of characters). A character is one of the code points 0 to 255; the case mapping and
  the white-space class are Python's on that range, so the model covers Latin-1 text.
\<close>

section \<open>Characters\<close>

definition ord_of :: "char \<Rightarrow> nat" where
  "ord_of c = of_char c"

definition is_ascii_digit :: "char \<Rightarrow> bool" where
  "is_ascii_digit c \<longleftrightarrow> 48 \<le> ord_of c \<and> ord_of c \<le> 57"

definition is_ascii_upper :: "char \<Rightarrow> bool" where
  "is_ascii_upper c \<longleftrightarrow> 65 \<le> ord_of c \<and> ord_of c \<le> 90"

definition is_ascii_lower :: "char \<Rightarrow> bool" where
  "is_ascii_lower c \<longleftrightarrow> 97 \<le> ord_of c \<and> ord_of c \<le> 122"

definition is_ascii_alpha :: "char \<Rightarrow> bool" where
  "is_ascii_alpha c \<longleftrightarrow> is_ascii_upper c \<or> is_ascii_lower c"

definition is_ascii_alnum :: "char \<Rightarrow> bool" where
  "is_ascii_alnum c \<longleftrightarrow> is_ascii_alpha c \<or> is_ascii_digit c"

text \<open>\<open>str.isspace\<close> on one character.\<close>

definition is_space :: "char \<Rightarrow> bool" where
  "is_space c \<longleftrightarrow> 9 \<le> ord_of c \<and> ord_of c \<le> 13 \<or> 28 \<le> ord_of c \<and> ord_of c \<le> 32
     \<or> ord_of c = 133 \<or> ord_of c = 160"

text \<open>\<open>str.lower\<close>: the Latin capital letters are 32 below their small letters.\<close>

definition lower_char :: "char \<Rightarrow> char" where
  "lower_char c = (if 65 \<le> ord_of c \<and> ord_of c \<le> 90 \<or> 192 \<le> ord_of c \<and> ord_of c \<le> 222 \<and> ord_of c \<noteq> 215
     then char_of (ord_of c + 32) else c)"

lemma ord_of_less [simp]: "ord_of c < 256"
  by (simp add: ord_of_def)

lemma ord_of_inject [simp]: "ord_of c = ord_of d \<longleftrightarrow> c = d"
  by (simp add: ord_of_def)

lemma ord_of_char_of [simp]: "n < 256 \<Longrightarrow> ord_of (char_of n) = n"
  by (simp add: ord_of_def of_char_of)

lemma lower_char_idem [simp]: "lower_char (lower_char c) = lower_char c"
proof (cases "65 \<le> ord_of c \<and> ord_of c \<le> 90 \<or> 192 \<le> ord_of c \<and> ord_of c \<le> 222 \<and> ord_of c \<noteq> 215")
  case True
  then have "ord_of c + 32 < 256" by auto
  with True have "ord_of (lower_char c) = ord_of c + 32" by (simp add: lower_char_def)
  with True show ?thesis by (auto simp: lower_char_def [of "lower_char c"])
next
  case False
  then have "lower_char c = c" unfolding lower_char_def by presburger
  then show ?thesis by simp
qed

section \<open>Case, white space, prefixes\<close>

definition lower :: "string \<Rightarrow> string" where
  "lower = map lower_char"

definition lstrip :: "string \<Rightarrow> string" where
  "lstrip = dropWhile is_space"

definition strip :: "string \<Rightarrow> string" where
  "strip s = rev (dropWhile is_space (rev (dropWhile is_space s)))"

definition startswith :: "string \<Rightarrow> string \<Rightarrow> bool" where
  "startswith s p = (take (length p) s = p)"

definition endswith :: "string \<Rightarrow> string \<Rightarrow> bool" where
  "endswith s p = (length p \<le> length s \<and> drop (length s - length p) s = p)"

text \<open>\<open>p in s\<close> for strings.\<close>

fun contains :: "string \<Rightarrow> string \<Rightarrow> bool" where
  "contains p [] = (p = [])"
| "contains p (c # cs) = (startswith (c # cs) p \<or> contains p cs)"

lemma lower_idem [simp]: "lower (lower s) = lower s"
  by (simp add: lower_def)

lemma length_lower [simp]: "length (lower s) = length s"
  by (simp add: lower_def)

lemma lower_append [simp]: "lower (s @ t) = lower s @ lower t"
  by (simp add: lower_def)

lemma startswith_prefix: "startswith s p \<longleftrightarrow> prefix p s"
  by (auto simp: startswith_def prefix_def) (metis append_take_drop_id)

lemma startswith_Nil [simp]: "startswith s []"
  by (simp add: startswith_def)

lemma startswith_Cons [simp]: "startswith (c # s) (d # p) \<longleftrightarrow> c = d \<and> startswith s p"
  by (simp add: startswith_def)

lemma startswith_empty [simp]: "startswith [] p \<longleftrightarrow> p = []"
  by (auto simp: startswith_def)

lemma startswith_append [simp]: "startswith (p @ s) p"
  by (simp add: startswith_def)

lemma contains_sublist: "contains p s \<longleftrightarrow> sublist p s"
  by (induction s) (auto simp: sublist_Cons_right startswith_prefix)

lemma contains_Nil [simp]: "contains [] s"
  by (cases s) auto

lemma contains_append: "contains p (xs @ p @ ys)"
  by (simp add: contains_sublist)

lemma contains_iff: "contains p s \<longleftrightarrow> (\<exists>xs ys. s = xs @ p @ ys)"
  by (auto simp: contains_sublist sublist_def)

lemma contains_take: "contains p (take n s) \<Longrightarrow> contains p s"
  by (auto simp: contains_sublist intro: sublist_order.order_trans sublist_take)

lemma dropWhile_rev_space:
  assumes "xs \<noteq> []" and "\<not> P (last xs)"
  shows "rev (dropWhile P (rev xs)) = xs"
  using assms by (cases xs rule: rev_cases) auto

lemma strip_last: "strip s \<noteq> [] \<Longrightarrow> \<not> is_space (last (strip s))"
  unfolding strip_def
  by (metis hd_dropWhile hd_rev last_rev rev_is_Nil_conv dropWhile_eq_Nil_conv)

lemma strip_hd: "strip s \<noteq> [] \<Longrightarrow> \<not> is_space (hd (strip s))"
proof -
  assume ne: "strip s \<noteq> []"
  let ?t = "dropWhile is_space s"
  obtain zs where "rev ?t = zs @ dropWhile is_space (rev ?t)"
    by (metis takeWhile_dropWhile_id)
  then have "?t = strip s @ rev zs" by (metis rev_append rev_rev_ident strip_def)
  then have "hd ?t = hd (strip s)" and "?t \<noteq> []" using ne by auto
  then show ?thesis using hd_dropWhile by metis
qed

lemma strip_idem [simp]: "strip (strip s) = strip s"
proof (cases "strip s = []")
  case True
  have "strip [] = []" by (simp add: strip_def)
  with True show ?thesis by simp
next
  case False
  then have "dropWhile is_space (strip s) = strip s"
    using strip_hd [OF False] by (cases "strip s") auto
  then have "strip (strip s) = rev (dropWhile is_space (rev (strip s)))"
    by (subst strip_def) simp
  also have "\<dots> = strip s"
    using False strip_last [OF False] by (rule dropWhile_rev_space)
  finally show ?thesis .
qed

lemma strip_empty_iff: "strip s = [] \<longleftrightarrow> (\<forall>c \<in> set s. is_space c)"
proof -
  have "strip s = [] \<longleftrightarrow> (\<forall>c \<in> set (dropWhile is_space s). is_space c)"
    unfolding strip_def by (metis dropWhile_eq_Nil_conv rev_is_Nil_conv set_rev)
  also have "\<dots> \<longleftrightarrow> (\<forall>c \<in> set s. is_space c)"
    by (metis dropWhile_eq_Nil_conv hd_dropWhile hd_in_set set_dropWhileD)
  finally show ?thesis .
qed

lemma set_strip: "set (strip s) \<subseteq> set s"
  by (auto simp: strip_def dest!: set_dropWhileD)

lemma length_strip: "length (strip s) \<le> length s"
  unfolding strip_def by (metis length_dropWhile_le length_rev order_trans)

section \<open>Splitting and joining\<close>

text \<open>\<open>s.split(c)\<close> for a one-character separator, and \<open>c.join(parts)\<close>.\<close>

fun split_on :: "char \<Rightarrow> string \<Rightarrow> string list" where
  "split_on c [] = [[]]"
| "split_on c (x # xs) = (if x = c then [] # split_on c xs
     else (case split_on c xs of [] \<Rightarrow> [[x]] | p # ps \<Rightarrow> (x # p) # ps))"

fun join :: "string \<Rightarrow> string list \<Rightarrow> string" where
  "join sep [] = []"
| "join sep [p] = p"
| "join sep (p # q # ps) = p @ sep @ join sep (q # ps)"

lemma split_on_neq_Nil [simp]: "split_on c s \<noteq> []"
  by (induction s) (auto split: list.splits)

lemma split_on_clean: "c \<notin> set s \<Longrightarrow> split_on c s = [s]"
  by (induction s) auto

lemma split_on_append: "c \<notin> set p \<Longrightarrow> split_on c (p @ c # s) = p # split_on c s"
  by (induction p) auto

lemma split_on_join:
  "ps \<noteq> [] \<Longrightarrow> \<forall>p \<in> set ps. c \<notin> set p \<Longrightarrow> split_on c (join [c] ps) = ps"
proof (induction "[c]" ps rule: join.induct)
  case (3 p q ps)
  then show ?case by (simp add: split_on_append)
qed (auto simp: split_on_clean)

lemma join_split_on: "join [c] (split_on c s) = s"
proof (induction s)
  case Nil
  then show ?case by simp
next
  case (Cons x xs)
  obtain p ps where "split_on c xs = p # ps" by (cases "split_on c xs") auto
  with Cons show ?case by (cases ps) auto
qed

lemma split_on_pieces: "p \<in> set (split_on c s) \<Longrightarrow> c \<notin> set p"
  by (induction s arbitrary: p) (auto split: list.splits if_splits)

text \<open>\<open>s.rsplit(c, 1)\<close> when \<open>c\<close> occurs: the text before and after the last occurrence.\<close>

definition rsplit1 :: "char \<Rightarrow> string \<Rightarrow> (string \<times> string) option" where
  "rsplit1 c s = (if c \<in> set s
     then Some (rev (tl (dropWhile (\<lambda>x. x \<noteq> c) (rev s))), rev (takeWhile (\<lambda>x. x \<noteq> c) (rev s)))
     else None)"

lemma rsplit1_append: "c \<notin> set b \<Longrightarrow> rsplit1 c (a @ c # b) = Some (a, b)"
  by (simp add: rsplit1_def takeWhile_append dropWhile_append)

lemma rsplit1_Some: "rsplit1 c s = Some (a, b) \<Longrightarrow> s = a @ c # b"
proof -
  assume r: "rsplit1 c s = Some (a, b)"
  then have c: "c \<in> set (rev s)" and a: "a = rev (tl (dropWhile (\<lambda>x. x \<noteq> c) (rev s)))"
    and b: "b = rev (takeWhile (\<lambda>x. x \<noteq> c) (rev s))"
    by (auto simp: rsplit1_def split: if_splits)
  have "dropWhile (\<lambda>x. x \<noteq> c) (rev s) \<noteq> []" using c by (simp add: dropWhile_eq_Nil_conv)
  then have "dropWhile (\<lambda>x. x \<noteq> c) (rev s) = c # rev a"
    using hd_dropWhile [of "\<lambda>x. x \<noteq> c" "rev s"] a
    by (metis hd_Cons_tl rev_rev_ident)
  then have "rev s = rev b @ c # rev a"
    using takeWhile_dropWhile_id [of "\<lambda>x. x \<noteq> c" "rev s"] b by simp
  then show ?thesis by (metis append_assoc append_Cons append_Nil rev.simps(2) rev_append rev_rev_ident)
qed

lemma startswithD: "startswith s p \<Longrightarrow> s = p @ drop (length p) s"
  by (metis append_take_drop_id startswith_def)

section \<open>Replacement\<close>

text \<open>
  \<open>re_sub m new s\<close> is \<open>re.sub(pattern, new, s)\<close> for a pattern whose matches are not empty:
  the matcher \<open>m\<close> gives the length of the match that starts at the head of its argument. The
  text is scanned from the left, and the scan goes on after each match.
\<close>

function re_sub :: "(string \<Rightarrow> nat option) \<Rightarrow> string \<Rightarrow> string \<Rightarrow> string" where
  "re_sub m new [] = []"
| "re_sub m new (c # cs) = (case m (c # cs) of
      Some n \<Rightarrow> new @ re_sub m new (drop (n - 1) cs)
    | None \<Rightarrow> c # re_sub m new cs)"
  by pat_completeness auto
termination
  by (relation "measure (\<lambda>(m, new, s). length s)") auto

definition literal :: "string \<Rightarrow> string \<Rightarrow> nat option" where
  "literal old s = (if startswith s old then Some (length old) else None)"

text \<open>
  \<open>s.replace(old, new)\<close>: left-most, non-overlapping occurrences. For an empty \<open>old\<close> Python
  inserts \<open>new\<close> around every character.
\<close>

definition replace :: "string \<Rightarrow> string \<Rightarrow> string \<Rightarrow> string" where
  "replace s old new = (if old = [] then concat (map (\<lambda>c. new @ [c]) s) @ new
     else re_sub (literal old) new s)"

lemma re_sub_id: "(\<And>t. suffix t s \<Longrightarrow> t \<noteq> [] \<Longrightarrow> m t = None) \<Longrightarrow> re_sub m new s = s"
proof (induction s)
  case Nil
  then show ?case by simp
next
  case (Cons c s)
  have "m (c # s) = None" by (rule Cons.prems) auto
  moreover have "re_sub m new s = s"
    by (rule Cons.IH) (auto intro: Cons.prems suffix_ConsI)
  ultimately show ?case by simp
qed

text \<open>
  \<open>clear_of w p\<close>: wherever two copies of \<open>w\<close> and \<open>p\<close> are laid over one text they are apart. Two
  words agree when one begins the other; the word is not clear of the placeholder when some rest of
  the one agrees with the other, which covers a word inside the placeholder, the placeholder
  inside the word, and one that begins where the other ends.
\<close>

definition agree :: "string \<Rightarrow> string \<Rightarrow> bool" where
  "agree u v \<longleftrightarrow> startswith u v \<or> startswith v u"

definition clear_of :: "string \<Rightarrow> string \<Rightarrow> bool" where
  "clear_of w p \<longleftrightarrow> (\<forall>n < length w. \<not> agree (drop n w) p) \<and> (\<forall>n < length p. \<not> agree w (drop n p))"

lemma agree_append: "agree w p" if "startswith (p @ s) w"
  using that by (auto simp: agree_def startswith_prefix dest: prefix_same_cases [OF _ prefixI])

lemma clear_of_tail: "\<forall>n < length (x # w). \<not> agree (drop n (x # w)) p \<Longrightarrow> \<forall>n < length w. \<not> agree (drop n w) p"
  by (metis drop_Suc_Cons length_Cons not_less_eq)

lemma clear_of_nonempty: "p \<noteq> [] \<Longrightarrow> clear_of w p \<Longrightarrow> w \<noteq> []"
  by (auto simp: clear_of_def agree_def)

text \<open>
  A word that is clear of the replacement can only be read off the kept text: it begins the result
  only if it begins the source, and occurs in the result only if it occurs in the source.
\<close>

lemma re_sub_startswith:
  assumes "\<forall>n < length w. \<not> agree (drop n w) new" and "startswith (re_sub m new s) w"
  shows "startswith s w"
  using assms
proof (induction m new s arbitrary: w rule: re_sub.induct)
  case (1 m new)
  then show ?case by simp
next
  case (2 m new c cs)
  show ?case
  proof (cases w)
    case (Cons x xs)
    have "\<not> agree w new" using 2(3) Cons by (metis drop0 length_greater_0_conv list.distinct(1))
    then have "m (c # cs) = None"
      using 2(4) agree_append by (auto split: option.splits)
    then show ?thesis using 2(1) [of xs] 2(3,4) clear_of_tail Cons by auto
  qed simp
qed

lemma contains_append_clear:
  assumes "\<forall>n < length p. \<not> agree w (drop n p)" and "contains w (p @ s)"
  shows "contains w s"
  using assms
proof (induction p)
  case (Cons a p)
  have "\<not> startswith ((a # p) @ s) w" using Cons.prems(1) agree_append by force
  moreover have "\<forall>n < length p. \<not> agree w (drop n p)" using Cons.prems(1) by auto
  ultimately show ?case using Cons by simp
qed simp

lemma contains_drop: "contains w (drop n s) \<Longrightarrow> contains w s"
  by (auto simp: contains_sublist intro: sublist_order.order_trans sublist_drop)

lemma re_sub_contains:
  assumes "clear_of w new" and "contains w (re_sub m new s)"
  shows "contains w s"
  using assms
proof (induction m new s rule: re_sub.induct)
  case (1 m new)
  then show ?case by simp
next
  case (2 m new c cs)
  show ?case
  proof (cases "m (c # cs)")
    case None
    with 2 show ?thesis using re_sub_startswith [of w new m "c # cs"] by (auto simp: clear_of_def)
  next
    case (Some n)
    then have "contains w (re_sub m new (drop (n - 1) cs))"
      using 2(3,4) contains_append_clear by (auto simp: clear_of_def)
    with 2 Some have "contains w (drop (n - 1) cs)" by simp
    then show ?thesis by (auto dest: contains_drop)
  qed
qed

lemma replace_contains:
  assumes "old \<noteq> []" and "clear_of w new" and "contains w (replace s old new)"
  shows "contains w s"
  using assms re_sub_contains [of w new "literal old" s] by (simp add: replace_def)

lemma re_sub_literal_removes:
  assumes "w \<noteq> []" and "clear_of w new"
  shows "\<not> contains w (re_sub (literal w) new s)"
  using assms(2)
proof (induction "literal w" new s rule: re_sub.induct)
  case (1 new)
  then show ?case using assms(1) by simp
next
  case (2 new c cs)
  show ?case
  proof (cases "literal w (c # cs)")
    case None
    then have "\<not> startswith (c # cs) w" by (simp add: literal_def split: if_splits)
    then have "\<not> startswith (re_sub (literal w) new (c # cs)) w"
      using re_sub_startswith 2(3) unfolding clear_of_def by metis
    with None 2 show ?thesis by auto
  next
    case (Some n)
    with 2 have "\<not> contains w (re_sub (literal w) new (drop (n - 1) cs))" by simp
    with Some show ?thesis using contains_append_clear 2(3) by (auto simp: clear_of_def)
  qed
qed

lemma replace_removes: "w \<noteq> [] \<Longrightarrow> clear_of w new \<Longrightarrow> \<not> contains w (replace s w new)"
  by (simp add: replace_def re_sub_literal_removes)

lemma replace_id: "\<not> contains old s \<Longrightarrow> replace s old new = s"
proof (cases "old = []")
  case False
  assume "\<not> contains old s"
  then have "re_sub (literal old) new s = s"
    by (intro re_sub_id) (auto simp: literal_def contains_sublist startswith_prefix
        intro: sublist_order.order_trans)
  with False show ?thesis by (simp add: replace_def)
qed simp

section \<open>Decimal numbers\<close>

definition digit_char :: "nat \<Rightarrow> char" where
  "digit_char n = char_of (48 + n)"

definition digit_val :: "char \<Rightarrow> nat" where
  "digit_val c = ord_of c - 48"

fun show_nat :: "nat \<Rightarrow> string" where
  "show_nat n = (if n < 10 then [digit_char n] else show_nat (n div 10) @ [digit_char (n mod 10)])"

declare show_nat.simps [simp del]

definition show_int :: "int \<Rightarrow> string" where
  "show_int i = (if i < 0 then ''-'' @ show_nat (nat (- i)) else show_nat (nat i))"

definition read_nat :: "string \<Rightarrow> nat" where
  "read_nat s = foldl (\<lambda>n c. 10 * n + digit_val c) 0 s"

lemma digit_char_digit [simp]: "n < 10 \<Longrightarrow> is_ascii_digit (digit_char n)"
  by (simp add: is_ascii_digit_def digit_char_def)

lemma digit_val_char [simp]: "n < 10 \<Longrightarrow> digit_val (digit_char n) = n"
  by (simp add: digit_val_def digit_char_def)

lemma show_nat_neq_Nil [simp]: "show_nat n \<noteq> []"
  by (subst show_nat.simps) simp

lemma show_nat_digits: "\<forall>c \<in> set (show_nat n). is_ascii_digit c"
proof (induction n rule: show_nat.induct)
  case (1 n)
  then show ?case by (subst show_nat.simps) auto
qed

lemma read_nat_snoc: "read_nat (s @ [c]) = 10 * read_nat s + digit_val c"
  by (simp add: read_nat_def)

lemma read_nat_show: "read_nat (show_nat n) = n"
proof (induction n rule: show_nat.induct)
  case (1 n)
  show ?case
  proof (cases "n < 10")
    case True
    then show ?thesis by (subst show_nat.simps) (simp add: read_nat_def)
  next
    case False
    with 1 have "read_nat (show_nat (n div 10)) = n div 10" by simp
    with False show ?thesis by (subst show_nat.simps) (simp add: read_nat_snoc)
  qed
qed

lemma show_nat_inject [simp]: "show_nat m = show_nat n \<longleftrightarrow> m = n"
  by (metis read_nat_show)

lemma length_show_nat_le: "0 < k \<Longrightarrow> n < 10 ^ k \<Longrightarrow> length (show_nat n) \<le> k"
proof (induction k arbitrary: n)
  case 0
  then show ?case by simp
next
  case (Suc k)
  show ?case
  proof (cases "n < 10")
    case True
    then show ?thesis by (subst show_nat.simps) simp
  next
    case False
    then have "k \<noteq> 0" using Suc.prems by (cases k) auto
    moreover have "n div 10 < 10 ^ k" using Suc.prems by (simp add: less_mult_imp_div_less mult.commute)
    ultimately have "length (show_nat (n div 10)) \<le> k" using Suc.IH by simp
    with False show ?thesis by (subst show_nat.simps) simp
  qed
qed

lemma hd_show_nat_zero: "hd (show_nat n) = digit_char 0 \<Longrightarrow> n = 0"
proof (induction n rule: show_nat.induct)
  case (1 n)
  show ?case
  proof (cases "n < 10")
    case True
    with 1 have "digit_char n = digit_char 0" by (subst (asm) show_nat.simps) simp
    with True show ?thesis by (metis digit_val_char zero_less_numeral)
  next
    case False
    then have "hd (show_nat n) = hd (show_nat (n div 10))"
      by (subst show_nat.simps) simp
    with 1 False have "n div 10 = 0" by simp
    with False show ?thesis by simp
  qed
qed

end
