(* ===== verification/PyValue.thy ===== *)
theory PyValue
  imports PyString
begin

text \<open>
  Python values as the gateway handles them: the JSON data that request bodies, database JSON
  columns, decrypted credentials and audit states are made of, dictionaries with their insertion
  order, and the exceptions the code raises and catches.
\<close>

section \<open>Values\<close>

text \<open>
  A Python float is a rational or one of the three special values; the code only compares floats
  with bounds and asks \<open>math.isfinite\<close>.
\<close>

datatype pyfloat = Finite rat | PosInf | NegInf | NaN

definition isfinite :: "pyfloat \<Rightarrow> bool" where
  "isfinite x = (case x of Finite _ \<Rightarrow> True | _ \<Rightarrow> False)"

text \<open>\<open>lo <= x\<close> and \<open>x <= hi\<close>: every comparison with \<open>nan\<close> is false.\<close>

definition fl_ge :: "pyfloat \<Rightarrow> rat \<Rightarrow> bool" where
  "fl_ge x lo = (case x of Finite r \<Rightarrow> lo \<le> r | PosInf \<Rightarrow> True | _ \<Rightarrow> False)"

definition fl_le :: "pyfloat \<Rightarrow> rat \<Rightarrow> bool" where
  "fl_le x hi = (case x of Finite r \<Rightarrow> r \<le> hi | NegInf \<Rightarrow> True | _ \<Rightarrow> False)"

datatype json =
    JNull
  | JBool bool
  | JInt int
  | JFloat pyfloat
  | JStr string
  | JList "json list"
  | JObj "(string \<times> json) list"

type_synonym dict = "(string \<times> json) list"

text \<open>\<open>bool(value)\<close>.\<close>

definition truthy :: "json \<Rightarrow> bool" where
  "truthy v = (case v of
      JNull \<Rightarrow> False
    | JBool b \<Rightarrow> b
    | JInt i \<Rightarrow> i \<noteq> 0
    | JFloat f \<Rightarrow> f \<noteq> Finite 0
    | JStr s \<Rightarrow> s \<noteq> []
    | JList xs \<Rightarrow> xs \<noteq> []
    | JObj kvs \<Rightarrow> kvs \<noteq> [])"

lemma truthy_simps [simp]:
  "\<not> truthy JNull" "truthy (JBool b) = b" "truthy (JInt i) = (i \<noteq> 0)"
  "truthy (JFloat f) = (f \<noteq> Finite 0)" "truthy (JStr s) = (s \<noteq> [])"
  "truthy (JList xs) = (xs \<noteq> [])" "truthy (JObj d) = (d \<noteq> [])"
  by (simp_all add: truthy_def)

definition is_str :: "json \<Rightarrow> bool" where
  "is_str v = (case v of JStr _ \<Rightarrow> True | _ \<Rightarrow> False)"

definition is_bool :: "json \<Rightarrow> bool" where
  "is_bool v = (case v of JBool _ \<Rightarrow> True | _ \<Rightarrow> False)"

definition is_dict :: "json \<Rightarrow> bool" where
  "is_dict v = (case v of JObj _ \<Rightarrow> True | _ \<Rightarrow> False)"

definition is_list :: "json \<Rightarrow> bool" where
  "is_list v = (case v of JList _ \<Rightarrow> True | _ \<Rightarrow> False)"

lemma is_type_simps [simp]:
  "is_str (JStr s)" "is_bool (JBool b)" "is_dict (JObj d)" "is_list (JList xs)"
  "\<not> is_str JNull" "\<not> is_dict JNull" "\<not> is_list JNull" "\<not> is_bool JNull"
  "\<not> is_dict (JStr s)" "\<not> is_list (JStr s)" "\<not> is_str (JObj d)" "\<not> is_str (JList xs)"
  by (simp_all add: is_str_def is_bool_def is_dict_def is_list_def)

lemma is_strE: "is_str v \<Longrightarrow> \<exists>s. v = JStr s"
  by (cases v) (auto simp: is_str_def)

lemma is_dictE: "is_dict v \<Longrightarrow> \<exists>d. v = JObj d"
  by (cases v) (auto simp: is_dict_def)

text \<open>An optional string, as nullable database columns hold it.\<close>

definition opt_str :: "string option \<Rightarrow> json" where
  "opt_str x = (case x of None \<Rightarrow> JNull | Some s \<Rightarrow> JStr s)"

lemma opt_str_simps [simp]: "opt_str None = JNull" "opt_str (Some s) = JStr s"
  by (simp_all add: opt_str_def)

lemma opt_str_inject [simp]: "opt_str x = opt_str y \<longleftrightarrow> x = y"
  by (cases x; cases y) auto

section \<open>Dictionaries\<close>

text \<open>
  A dictionary is its items in insertion order, one per key (\<open>wf_dict\<close>). \<open>dget d k\<close> is
  \<open>d.get(k)\<close>, \<open>dget_or d k x\<close> is \<open>d.get(k, x)\<close>, \<open>dhas d k\<close> is \<open>k in d\<close>,
  \<open>dset k v d\<close> is \<open>d[k] = v\<close> (an existing key keeps its place), \<open>dpop k d\<close> is
  \<open>d.pop(k, None)\<close> and \<open>dmerge d e\<close> is \<open>{**d, **e}\<close>.
\<close>

definition dget :: "dict \<Rightarrow> string \<Rightarrow> json" where
  "dget d k = (case map_of d k of None \<Rightarrow> JNull | Some v \<Rightarrow> v)"

definition dget_or :: "dict \<Rightarrow> string \<Rightarrow> json \<Rightarrow> json" where
  "dget_or d k x = (case map_of d k of None \<Rightarrow> x | Some v \<Rightarrow> v)"

definition dhas :: "dict \<Rightarrow> string \<Rightarrow> bool" where
  "dhas d k \<longleftrightarrow> map_of d k \<noteq> None"

definition dset :: "string \<Rightarrow> json \<Rightarrow> dict \<Rightarrow> dict" where
  "dset k v d = AList.update k v d"

definition dpop :: "string \<Rightarrow> dict \<Rightarrow> dict" where
  "dpop k d = filter (\<lambda>p. fst p \<noteq> k) d"

primrec dmerge :: "dict \<Rightarrow> dict \<Rightarrow> dict" where
  "dmerge d [] = d"
| "dmerge d (p # e) = dmerge (dset (fst p) (snd p) d) e"

definition dsetdefault :: "string \<Rightarrow> json \<Rightarrow> dict \<Rightarrow> dict" where
  "dsetdefault k v d = (if dhas d k then d else dset k v d)"

text \<open>\<open>{k: d[k] for k in ks if k in d}\<close>.\<close>

definition dselect :: "string list \<Rightarrow> dict \<Rightarrow> dict" where
  "dselect ks d = concat (map (\<lambda>k. case map_of d k of None \<Rightarrow> [] | Some v \<Rightarrow> [(k, v)]) ks)"

definition wf_dict :: "dict \<Rightarrow> bool" where
  "wf_dict d \<longleftrightarrow> distinct (map fst d)"

lemma map_of_dset [py_simps]: "map_of (dset k v d) = (map_of d)(k \<mapsto> v)"
  by (rule ext) (simp add: dset_def update_conv')

lemma map_of_dpop [py_simps]: "map_of (dpop k d) k' = (if k' = k then None else map_of d k')"
  by (induction d) (auto simp: dpop_def)

lemma wf_dset [simp]: "wf_dict d \<Longrightarrow> wf_dict (dset k v d)"
  by (simp add: wf_dict_def dset_def distinct_update)

lemma wf_dpop [simp]: "wf_dict d \<Longrightarrow> wf_dict (dpop k d)"
  by (simp add: wf_dict_def dpop_def distinct_map_filter)

lemma wf_dmerge [simp]: "wf_dict d \<Longrightarrow> wf_dict (dmerge d e)"
  by (induction e arbitrary: d) auto

lemma map_of_dmerge: "map_of (dmerge d e) k = (case map_of (rev e) k of None \<Rightarrow> map_of d k | Some v \<Rightarrow> Some v)"
  by (induction e arbitrary: d) (auto simp: map_of_dset map_add_def split: option.splits)

lemma map_of_rev_wf: "wf_dict e \<Longrightarrow> map_of (rev e) = map_of e"
  by (rule map_of_eqI) (auto simp: wf_dict_def map_of_inject_set rev_map [symmetric]
      intro!: map_of_is_SomeI dest!: map_of_SomeD)

lemma map_of_dmerge_wf [py_simps]:
  "wf_dict e \<Longrightarrow> map_of (dmerge d e) k = (case map_of e k of None \<Rightarrow> map_of d k | Some v \<Rightarrow> Some v)"
  by (simp add: map_of_dmerge map_of_rev_wf)

lemma map_of_dselect [py_simps]: "map_of (dselect ks d) k = (if k \<in> set ks then map_of d k else None)"
  by (induction ks) (auto simp: dselect_def map_add_def split: option.splits)

lemma keys_dselect: "set (map fst (dselect ks d)) \<subseteq> set ks"
  by (auto simp: dselect_def split: option.splits)

lemma wf_dselect: "distinct ks \<Longrightarrow> wf_dict (dselect ks d)"
proof (induction ks)
  case Nil
  then show ?case by (simp add: dselect_def wf_dict_def)
next
  case (Cons k ks)
  then have "wf_dict (dselect ks d)" and "k \<notin> set (map fst (dselect ks d))"
    using keys_dselect [of ks d] by auto
  then show ?case by (auto simp: dselect_def wf_dict_def split: option.splits)
qed

lemma dget_dset [simp]: "dget (dset k v d) k' = (if k' = k then v else dget d k')"
  by (simp add: dget_def map_of_dset)

lemma dhas_dset [simp]: "dhas (dset k v d) k' \<longleftrightarrow> k' = k \<or> dhas d k'"
  by (simp add: dhas_def map_of_dset)

lemma dget_dpop [simp]: "dget (dpop k d) k' = (if k' = k then JNull else dget d k')"
  by (simp add: dget_def map_of_dpop)

lemma dhas_dpop [simp]: "dhas (dpop k d) k' \<longleftrightarrow> k' \<noteq> k \<and> dhas d k'"
  by (auto simp: dhas_def map_of_dpop)

lemma dget_dmerge: "wf_dict e \<Longrightarrow> dget (dmerge d e) k = (if dhas e k then dget e k else dget d k)"
  by (auto simp: dget_def dhas_def map_of_dmerge_wf split: option.splits)

lemma dhas_dmerge: "wf_dict e \<Longrightarrow> dhas (dmerge d e) k \<longleftrightarrow> dhas d k \<or> dhas e k"
  by (auto simp: dhas_def map_of_dmerge_wf split: option.splits)

lemma dget_not_dhas: "\<not> dhas d k \<Longrightarrow> dget d k = JNull"
  by (simp add: dget_def dhas_def)

lemma dhas_iff_key: "dhas d k \<longleftrightarrow> k \<in> fst ` set d"
  by (simp add: dhas_def map_of_eq_None_iff)

lemma dget_Cons: "dget ((k, v) # d) k' = (if k' = k then v else dget d k')"
  by (simp add: dget_def)

lemma dhas_Cons: "dhas ((k, v) # d) k' \<longleftrightarrow> k' = k \<or> dhas d k'"
  by (auto simp: dhas_def)

lemma dget_Nil [simp]: "dget [] k = JNull"
  by (simp add: dget_def)

lemma dhas_Nil [simp]: "\<not> dhas [] k"
  by (simp add: dhas_def)

lemma dget_or_def2: "dget_or d k x = (if dhas d k then dget d k else x)"
  by (auto simp: dget_or_def dget_def dhas_def split: option.splits)

text \<open>Which keys the operations leave.\<close>

lemma keys_dset: "fst ` set (dset k v d) = insert k (fst ` set d)"
  by (simp add: dset_def dom_update)

lemma keys_dpop: "fst ` set (dpop k d) = fst ` set d - {k}"
  by (auto simp: dpop_def)

lemma keys_dmerge: "fst ` set (dmerge d e) = fst ` set d \<union> fst ` set e"
  by (induction e arbitrary: d) (auto simp: keys_dset)

lemma set_dset: "set (dset k v d) \<subseteq> insert (k, v) (set d)"
  unfolding dset_def by (induction d) auto

lemma set_dmerge: "set (dmerge d e) \<subseteq> set d \<union> set e"
proof (induction e arbitrary: d)
  case Nil
  then show ?case by simp
next
  case (Cons p e)
  from Cons [of "dset (fst p) (snd p) d"] set_dset [of "fst p" "snd p" d]
  show ?case by auto
qed

lemma set_dpop: "set (dpop k d) \<subseteq> set d"
  by (auto simp: dpop_def)

lemma dpop_other: "k \<notin> fst ` set d \<Longrightarrow> dpop k d = d"
  unfolding dpop_def by (rule filter_True) (auto simp: image_iff)

lemma set_dselect: "set (dselect ks d) \<subseteq> set d"
proof -
  have "(k, v) \<in> set d" if "Some v = map_of d k" for k v
    using that by (simp add: map_of_SomeD)
  then show ?thesis by (auto simp: dselect_def split: option.splits)
qed

lemma dget_dmerge_other: "k \<notin> fst ` set e \<Longrightarrow> dget (dmerge d e) k = dget d k"
  by (induction e arbitrary: d) auto

lemma dhas_dmerge_keys: "dhas (dmerge d e) k \<longleftrightarrow> dhas d k \<or> dhas e k"
  by (simp add: dhas_iff_key keys_dmerge)

lemma dget_item: "dhas d k \<Longrightarrow> (k, dget d k) \<in> set d"
  by (auto simp: dhas_def dget_def map_of_SomeD split: option.splits)

lemma dhas_truthy: "truthy (dget d k) \<Longrightarrow> dhas d k"
  by (rule ccontr) (simp add: dget_not_dhas)

lemmas dict_simps = dget_Cons dhas_Cons dget_or_def2 dget_dmerge dhas_dmerge

section \<open>Exceptions\<close>

text \<open>
  What the code can raise. \<open>StoreError\<close> carries its HTTP status; the reason, grouped by
  the part of the store that gives it, stands for the message text. \<open>SecretError\<close>, \<open>IntegrityError\<close> and \<open>SQLAlchemyError\<close> are what the
  store translates at the transaction boundary. \<open>PyError\<close> is any other Python exception, by
  its class name, which nothing below the service layer catches.
\<close>

datatype store_reason =
    UnknownResource | ResourceNotFound | StillReferenced | ReferenceConflict | StoreClosed
  | DatabaseFailed | UndecryptableSecrets | MissingSecretKey | InvalidSecretKey
  | InitializationFailed

datatype config_reason =
    UnknownConfiguration | ConfigurationMissing | ConfigurationNotObject | InvalidDeviceLookup
  | InvalidMappingShape | InvalidKeyColumns | InvalidMappingEntries | InvalidMappingKey
  | InvalidClientMapping | InvalidProxyMapping

datatype field_reason =
    InvalidField string | FieldRequired string | InvalidPort | InvalidTimeout | InvalidFields
  | InvalidUuid string | InvalidFilterTime string

datatype profile_reason =
    InvalidAuthType | PasswordWithKey | PasswordRequired | KeyWithPassword | KeyRequired
  | InvalidPrivateKey | BothCredentials | PassphraseWithoutKey | UnsupportedConnector
  | DirectWithSettings | RoleWithInline | UnsupportedProxyType | UnsupportedProtocol
  | InvalidClientType | ProxyWithConnector

datatype route_reason =
    RouteFieldsRequired | InvalidPrefix | AddressFamilyMismatch | UnsupportedInterface
  | InvalidMetric | InvalidEnabled | NotAFakeConnection | FakePathUnsupported
  | FakeDeviceRejected | FakeProxyRejected

datatype job_reason =
    SelectConnections | DuplicateConnections | JobAlreadyActive | InvalidJobResult | JobNotActive
  | ResultNotInJob | ResultExists | InvalidDuration | InvalidSuccess | SimulationMismatch
  | InvalidJobStatus | InvalidTransition | MissingResults

datatype audit_reason =
    TransactionNotObject | RolesNotList | RolesUnknown | InvalidAuthMode | InvalidOutcome
  | InvalidState string | InvalidFilters | InvalidLimit | InvalidOffset | InvalidOutcomeFilter

datatype reason =
    Store store_reason | Config config_reason | Field field_reason | Profile profile_reason
  | Route route_reason | Job job_reason | Audit audit_reason

datatype exn =
    StoreError reason nat
  | SecretError reason
  | IntegrityError
  | SQLAlchemyError
  | PyError string

text \<open>\<open>d[k]\<close>, which raises \<open>KeyError\<close>.\<close>

definition dreq :: "dict \<Rightarrow> string \<Rightarrow> exn + json" where
  "dreq d k = (case map_of d k of None \<Rightarrow> Inl (PyError ''KeyError'') | Some v \<Rightarrow> Inr v)"

lemma dreq_eq_Inr: "dreq d k = Inr v \<longleftrightarrow> dhas d k \<and> dget d k = v"
  by (auto simp: dreq_def dhas_def dget_def split: option.splits)

lemma dreq_has [simp]: "dhas d k \<Longrightarrow> dreq d k = Inr (dget d k)"
  by (simp add: dreq_eq_Inr)

end
