(* ===== verification/Identity.thy ===== *)
theory Identity
  imports PyValue
begin

text \<open>
  Application identity and role checks: \<open>app/common/identity.py\<close> and the guard of the legacy
  routes in \<open>app/routes.py\<close>. The order of the roles is the order of their ranks.
\<close>

section \<open>Roles\<close>

datatype gateway_role = Viewer | Operator | Administrator

definition role_rank :: "gateway_role \<Rightarrow> nat" where
  "role_rank r = (case r of Viewer \<Rightarrow> 1 | Operator \<Rightarrow> 2 | Administrator \<Rightarrow> 3)"

definition role_name :: "gateway_role \<Rightarrow> string" where
  "role_name r = (case r of Viewer \<Rightarrow> ''Viewer'' | Operator \<Rightarrow> ''Operator''
     | Administrator \<Rightarrow> ''Administrator'')"

definition role_of_name :: "string \<Rightarrow> gateway_role option" where
  "role_of_name s = (if s = ''Viewer'' then Some Viewer
     else if s = ''Operator'' then Some Operator
     else if s = ''Administrator'' then Some Administrator else None)"

instantiation gateway_role :: linorder
begin

definition less_eq_gateway_role :: "gateway_role \<Rightarrow> gateway_role \<Rightarrow> bool" where
  "less_eq_gateway_role r s \<longleftrightarrow> role_rank r \<le> role_rank s"

definition less_gateway_role :: "gateway_role \<Rightarrow> gateway_role \<Rightarrow> bool" where
  "less_gateway_role r s \<longleftrightarrow> role_rank r < role_rank s"

instance
proof
  fix r s t :: gateway_role
  show "r < s \<longleftrightarrow> r \<le> s \<and> \<not> s \<le> r"
    by (auto simp: less_eq_gateway_role_def less_gateway_role_def)
  show "r \<le> r" by (simp add: less_eq_gateway_role_def)
  show "r \<le> s \<Longrightarrow> s \<le> t \<Longrightarrow> r \<le> t" by (simp add: less_eq_gateway_role_def)
  show "r \<le> s \<Longrightarrow> s \<le> r \<Longrightarrow> r = s"
    by (cases r; cases s) (simp_all add: less_eq_gateway_role_def role_rank_def)
  show "r \<le> s \<or> s \<le> r" by (auto simp: less_eq_gateway_role_def)
qed

end

lemma role_order_simps [simp]:
  "Viewer \<le> r" "r \<le> Administrator" "\<not> Operator \<le> Viewer" "\<not> Administrator \<le> Viewer"
  "\<not> Administrator \<le> Operator"
  by (cases r; simp add: less_eq_gateway_role_def role_rank_def)+

lemma role_of_name_name [simp]: "role_of_name (role_name r) = Some r"
  by (cases r) (simp_all add: role_of_name_def role_name_def)

lemma role_of_name_Some: "role_of_name s = Some r \<longleftrightarrow> s = role_name r"
  by (auto simp: role_of_name_def role_name_def split: if_splits gateway_role.splits)

lemma role_name_inject [simp]: "role_name r = role_name s \<longleftrightarrow> r = s"
  by (metis role_of_name_name option.inject)

section \<open>Users\<close>

datatype auth_mode = Entra | Demo

definition mode_name :: "auth_mode \<Rightarrow> string" where
  "mode_name m = (case m of Entra \<Rightarrow> ''entra'' | Demo \<Rightarrow> ''demo'')"

record authenticated_user =
  subject :: string
  tenant_id :: "string option"
  user_name :: string
  email :: "string option"
  roles :: "gateway_role set"
  auth_mode :: auth_mode

text \<open>\<open>sorted(self.roles)\<close> sorts the role names.\<close>

definition sorted_role_names :: "gateway_role set \<Rightarrow> string list" where
  "sorted_role_names R =
     map role_name (filter (\<lambda>r. r \<in> R) [Administrator, Operator, Viewer])"

definition public_user :: "authenticated_user \<Rightarrow> dict" where
  "public_user u =
     [(''subject'', JStr (subject u)),
      (''tenant_id'', opt_str (tenant_id u)),
      (''name'', JStr (user_name u)),
      (''email'', opt_str (email u)),
      (''roles'', JList (map JStr (sorted_role_names (roles u)))),
      (''auth_mode'', JStr (mode_name (auth_mode u)))]"

definition has_role :: "authenticated_user \<Rightarrow> gateway_role \<Rightarrow> bool" where
  "has_role u required \<longleftrightarrow> (\<exists>r \<in> roles u. role_rank required \<le> role_rank r)"

lemma has_role_iff: "has_role u required \<longleftrightarrow> (\<exists>r \<in> roles u. required \<le> r)"
  by (simp add: has_role_def less_eq_gateway_role_def)

lemma has_role_mono: "has_role u r \<Longrightarrow> s \<le> r \<Longrightarrow> has_role u s"
  unfolding has_role_iff by (meson order_trans)

lemma has_role_viewer: "has_role u Viewer \<longleftrightarrow> roles u \<noteq> {}"
  by (auto simp: has_role_iff)

lemma has_role_administrator: "has_role u Administrator \<longleftrightarrow> Administrator \<in> roles u"
proof -
  have "Administrator \<le> r \<longleftrightarrow> r = Administrator" for r by (cases r) auto
  then show ?thesis by (auto simp: has_role_iff)
qed

lemma set_sorted_role_names: "set (sorted_role_names R) = role_name ` R"
proof -
  have "set [Administrator, Operator, Viewer] = (UNIV :: gateway_role set)"
    by (auto intro: gateway_role.exhaust)
  then have "{r \<in> set [Administrator, Operator, Viewer]. r \<in> R} = R" by blast
  then show ?thesis unfolding sorted_role_names_def set_map set_filter by (rule arg_cong)
qed

lemma sorted_role_names_sorted: "sorted_wrt (<) (sorted_role_names R)"
  by (auto simp: sorted_role_names_def role_name_def less_list_code)

section \<open>HTTP dependencies\<close>

text \<open>
  What a dependency of a route raises: \<open>HTTPException\<close> with its status, or a \<open>ValueError\<close> or
  another Python exception of the authentication service.
\<close>

datatype http_exn = HTTPException nat | ValueError | OtherError string

text \<open>
  \<open>current_user\<close> turns a \<open>ValueError\<close> of the service into 401 and lets an \<open>HTTPException\<close>
  through; the service call is the argument.
\<close>

definition current_user :: "http_exn + authenticated_user \<Rightarrow> http_exn + authenticated_user" where
  "current_user call = (case call of
      Inl (HTTPException code) \<Rightarrow> Inl (HTTPException code)
    | Inl ValueError \<Rightarrow> Inl (HTTPException 401)
    | Inl e \<Rightarrow> Inl e
    | Inr u \<Rightarrow> Inr u)"

definition require_role ::
    "gateway_role \<Rightarrow> http_exn + authenticated_user \<Rightarrow> http_exn + authenticated_user" where
  "require_role required call = bindE (current_user call)
     (\<lambda>user. if \<not> has_role user required then Inl (HTTPException 403) else Inr user)"

text \<open>The guard of every legacy router: reads need a viewer, mutations are never executed.\<close>

definition require_legacy_read_only ::
    "string \<Rightarrow> http_exn + authenticated_user \<Rightarrow> http_exn + authenticated_user" where
  "require_legacy_read_only req_method call = bindE (require_role Viewer call)
     (\<lambda>user. if req_method \<in> {''GET'', ''HEAD''} then Inr user
       else if \<not> has_role user Administrator then Inl (HTTPException 403)
       else Inl (HTTPException 501))"

lemma require_role_Inr:
  "require_role required call = Inr u \<longleftrightarrow> call = Inr u \<and> has_role u required"
  by (auto simp: require_role_def current_user_def bindE_def split: sum.splits http_exn.splits)

text \<open>
  No mutation of the legacy routes ever passes its guard: an
  authenticated administrator gets 501, every other caller 401 or 403 (or the status the
  authentication service chose), and a read passes exactly for an authenticated viewer.
\<close>

theorem legacy_mutations_never_run:
  "(require_legacy_read_only req_method call = Inr u \<longleftrightarrow>
     req_method \<in> {''GET'', ''HEAD''} \<and> call = Inr u \<and> has_role u Viewer)
   \<and> (req_method \<notin> {''GET'', ''HEAD''} \<longrightarrow> require_legacy_read_only req_method (Inr u) =
     Inl (HTTPException (if Administrator \<in> roles u then 501 else 403)))"
proof (intro conjI)
  show "require_legacy_read_only req_method call = Inr u \<longleftrightarrow>
     req_method \<in> {''GET'', ''HEAD''} \<and> call = Inr u \<and> has_role u Viewer"
    by (auto simp: require_legacy_read_only_def bindE_eq_Inr require_role_Inr split: if_splits)
  have "Administrator \<in> roles u \<Longrightarrow> has_role u Viewer"
    using has_role_viewer [of u] by auto
  then show "req_method \<notin> {''GET'', ''HEAD''} \<longrightarrow> require_legacy_read_only req_method (Inr u) =
     Inl (HTTPException (if Administrator \<in> roles u then 501 else 403))"
    by (auto simp: require_legacy_read_only_def require_role_def current_user_def
        has_role_administrator)
qed

definition sample_user :: authenticated_user where
  "sample_user = \<lparr>subject = ''s-1'', tenant_id = None, user_name = ''Ana'', email = None,
     roles = {Administrator}, auth_mode = Entra\<rparr>"

theorem legacy_mutations_never_run_witness:
  "require_legacy_read_only ''DELETE'' (Inr sample_user) = Inl (HTTPException 501)"
  using legacy_mutations_never_run [of "''DELETE''" _ sample_user] by (simp add: sample_user_def)

end
