(* ===== verification/Schema.thy ===== *)
theory Schema
  imports PyValue
begin

text \<open>
  The tables of \<open>app/dal/db/storage.py\<close>: one record per table with its columns, the database as
  the record of the tables, and the integrity constraints of the schema (primary keys, foreign
  keys, UNIQUE and CHECK) as executable predicates. A statement of the store that would leave
  the constraints broken raises \<open>IntegrityError\<close> (\<open>execute\<close>).
\<close>

section \<open>Rows\<close>

record role_row =
  ra_id :: string
  ra_name :: string
  ra_username :: string
  ra_authentication_type :: string
  ra_secrets :: string

record proxy_row =
  px_id :: string
  px_name :: string
  px_type :: string
  px_host :: string
  px_port :: int
  px_role_account_id :: "string option"
  px_configuration :: dict
  px_secrets :: string

record conn_row =
  cn_id :: string
  cn_name :: string
  cn_protocol :: string
  cn_host :: string
  cn_port :: int
  cn_timeout_seconds :: rat
  cn_role_account_id :: "string option"
  cn_proxy_id :: "string option"
  cn_configuration :: dict
  cn_secrets :: string

record route_row =
  rt_id :: string
  rt_connection_id :: string
  rt_destination :: string
  rt_next_hop :: string
  rt_interface :: "string option"
  rt_metric :: int
  rt_description :: string
  rt_enabled :: bool

datatype job_status = Queued | Running | Completed | Failed

record job_row =
  jb_id :: string
  jb_status :: job_status
  jb_total :: int
  jb_completed :: int
  jb_snapshot :: string
  jb_results :: "dict list"
  jb_error :: "string option"
  jb_active_slot :: "int option"

record txn_row =
  tx_id :: string
  tx_timestamp_utc :: string
  tx_correlation_id :: string
  tx_actor_subject :: string
  tx_actor_tenant_id :: "string option"
  tx_actor_name :: string
  tx_actor_email :: "string option"
  tx_actor_roles :: "string list"
  tx_auth_mode :: string
  tx_action :: string
  tx_resource_type :: string
  tx_resource_id :: "string option"
  tx_connection_id :: "string option"
  tx_outcome :: string
  tx_before_state :: json
  tx_after_state :: json
  tx_detail :: "string option"
  tx_request_method :: "string option"
  tx_request_path :: "string option"

record db =
  configurations :: "(string \<times> json) list"
  role_accounts :: "role_row list"
  proxies :: "proxy_row list"
  connections :: "conn_row list"
  route_inits :: "string list"
  static_routes :: "route_row list"
  jobs :: "job_row list"
  gateway_transactions :: "txn_row list"

definition empty_db :: db where
  "empty_db = \<lparr>configurations = [], role_accounts = [], proxies = [], connections = [],
     route_inits = [], static_routes = [], jobs = [], gateway_transactions = []\<rparr>"

section \<open>Constraints\<close>

definition config_names :: "string list" where
  "config_names = [''device_lookup'', ''client_mapping'', ''proxy_mapping'']"

definition configurations_ok :: "db \<Rightarrow> bool" where
  "configurations_ok d \<longleftrightarrow> distinct (map fst (configurations d))
     \<and> list_all (\<lambda>p. fst p \<in> set config_names) (configurations d)"

definition role_accounts_ok :: "db \<Rightarrow> bool" where
  "role_accounts_ok d \<longleftrightarrow> distinct (map ra_id (role_accounts d))
     \<and> list_all (\<lambda>r. ra_authentication_type r \<in> {''password'', ''ssh_key''}) (role_accounts d)"

text \<open>A nullable foreign key: NULL, or the key of a row of the other table.\<close>

definition fk_ok :: "string option \<Rightarrow> string list \<Rightarrow> bool" where
  "fk_ok ref ids = (case ref of None \<Rightarrow> True | Some i \<Rightarrow> i \<in> set ids)"

definition proxy_types :: "string list" where
  "proxy_types = [''ssh_tunnel'', ''ssh_shell'', ''socks5'', ''http_connect'']"

definition proxies_ok :: "db \<Rightarrow> bool" where
  "proxies_ok d \<longleftrightarrow> distinct (map px_id (proxies d))
     \<and> list_all (\<lambda>p. 1 \<le> px_port p \<and> px_port p \<le> 65535 \<and> px_type p \<in> set proxy_types
         \<and> fk_ok (px_role_account_id p) (map ra_id (role_accounts d))) (proxies d)"

definition protocols :: "string list" where
  "protocols = [''ssh'', ''netconf'', ''telnet'']"

definition connections_ok :: "db \<Rightarrow> bool" where
  "connections_ok d \<longleftrightarrow> distinct (map cn_id (connections d))
     \<and> list_all (\<lambda>c. 1 \<le> cn_port c \<and> cn_port c \<le> 65535
         \<and> 1 \<le> cn_timeout_seconds c \<and> cn_timeout_seconds c \<le> 30
         \<and> cn_protocol c \<in> set protocols
         \<and> fk_ok (cn_role_account_id c) (map ra_id (role_accounts d))
         \<and> fk_ok (cn_proxy_id c) (map px_id (proxies d))) (connections d)"

definition route_inits_ok :: "db \<Rightarrow> bool" where
  "route_inits_ok d \<longleftrightarrow> distinct (route_inits d)
     \<and> list_all (\<lambda>c. c \<in> set (map cn_id (connections d))) (route_inits d)"

definition route_interfaces :: "string list" where
  "route_interfaces = [''eth0'', ''eth1'', ''lo'']"

definition static_routes_ok :: "db \<Rightarrow> bool" where
  "static_routes_ok d \<longleftrightarrow> distinct (map rt_id (static_routes d))
     \<and> distinct (map (\<lambda>r. (rt_connection_id r, rt_destination r)) (static_routes d))
     \<and> list_all (\<lambda>r. rt_connection_id r \<in> set (map cn_id (connections d))
         \<and> 0 \<le> rt_metric r \<and> rt_metric r \<le> 65535
         \<and> fk_ok (rt_interface r) route_interfaces) (static_routes d)"

definition job_slot_ok :: "job_row \<Rightarrow> bool" where
  "job_slot_ok j \<longleftrightarrow> (jb_status j \<in> {Queued, Running} \<and> jb_active_slot j = Some 1)
     \<or> (jb_status j \<in> {Completed, Failed} \<and> jb_active_slot j = None)"

definition job_progress_ok :: "job_row \<Rightarrow> bool" where
  "job_progress_ok j \<longleftrightarrow> 0 < jb_total j \<and> 0 \<le> jb_completed j \<and> jb_completed j \<le> jb_total j"

definition jobs_ok :: "db \<Rightarrow> bool" where
  "jobs_ok d \<longleftrightarrow> distinct (map jb_id (jobs d))
     \<and> distinct (List.map_filter jb_active_slot (jobs d))
     \<and> list_all (\<lambda>j. job_progress_ok j \<and> job_slot_ok j) (jobs d)"

definition transactions_ok :: "db \<Rightarrow> bool" where
  "transactions_ok d \<longleftrightarrow> distinct (map tx_id (gateway_transactions d))
     \<and> list_all (\<lambda>t. tx_auth_mode t \<in> {''entra'', ''demo''}
         \<and> tx_outcome t \<in> {''succeeded'', ''failed''}) (gateway_transactions d)"

definition schema_ok :: "db \<Rightarrow> bool" where
  "schema_ok d \<longleftrightarrow> configurations_ok d \<and> role_accounts_ok d \<and> proxies_ok d \<and> connections_ok d
     \<and> route_inits_ok d \<and> static_routes_ok d \<and> jobs_ok d \<and> transactions_ok d"

text \<open>One SQL statement, given the database it would leave: the constraints decide.\<close>

definition execute :: "db \<Rightarrow> exn + db" where
  "execute d = (if schema_ok d then Inr d else Inl IntegrityError)"

lemma execute_eq_Inr: "execute d = Inr d' \<longleftrightarrow> d' = d \<and> schema_ok d"
  by (auto simp: execute_def)

lemma execute_eq_Inl: "execute d = Inl e \<longleftrightarrow> e = IntegrityError \<and> \<not> schema_ok d"
  by (auto simp: execute_def)

lemma execute_ok [simp]: "schema_ok d \<Longrightarrow> execute d = Inr d"
  by (simp add: execute_def)

lemma schema_ok_empty [simp]: "schema_ok empty_db"
  by (simp add: schema_ok_def empty_db_def configurations_ok_def role_accounts_ok_def proxies_ok_def
      connections_ok_def route_inits_ok_def static_routes_ok_def jobs_ok_def transactions_ok_def
      map_filter_simps)

lemma schema_okD:
  assumes "schema_ok d"
  shows "distinct (map ra_id (role_accounts d))" and "distinct (map px_id (proxies d))"
    and "distinct (map cn_id (connections d))" and "distinct (map rt_id (static_routes d))"
    and "distinct (map jb_id (jobs d))" and "distinct (map tx_id (gateway_transactions d))"
    and "distinct (map fst (configurations d))"
  using assms by (auto simp: schema_ok_def role_accounts_ok_def proxies_ok_def connections_ok_def
      static_routes_ok_def jobs_ok_def transactions_ok_def configurations_ok_def)

lemmas schema_defs = schema_ok_def configurations_ok_def role_accounts_ok_def proxies_ok_def
  connections_ok_def route_inits_ok_def static_routes_ok_def jobs_ok_def transactions_ok_def

text \<open>
  Which tables each constraint reads: a change to the other tables keeps it.
\<close>

lemma schema_frame [table_simps]:
  "configurations_ok (role_accounts_update f d) = configurations_ok d"
  "configurations_ok (proxies_update g d) = configurations_ok d"
  "configurations_ok (connections_update h d) = configurations_ok d"
  "configurations_ok (route_inits_update i d) = configurations_ok d"
  "configurations_ok (static_routes_update k d) = configurations_ok d"
  "configurations_ok (jobs_update l d) = configurations_ok d"
  "configurations_ok (gateway_transactions_update m d) = configurations_ok d"
  by (simp_all add: configurations_ok_def)

lemma schema_frame_jobs [table_simps]:
  "schema_ok (jobs_update f d) \<longleftrightarrow> configurations_ok d \<and> role_accounts_ok d \<and> proxies_ok d
     \<and> connections_ok d \<and> route_inits_ok d \<and> static_routes_ok d \<and> jobs_ok (jobs_update f d)
     \<and> transactions_ok d"
  by (simp add: schema_defs)

lemma schema_frame_transactions [table_simps]:
  "schema_ok (gateway_transactions_update f d) \<longleftrightarrow> configurations_ok d \<and> role_accounts_ok d
     \<and> proxies_ok d \<and> connections_ok d \<and> route_inits_ok d \<and> static_routes_ok d \<and> jobs_ok d
     \<and> transactions_ok (gateway_transactions_update f d)"
  by (simp add: schema_defs)

lemma schema_frame_routes [table_simps]:
  "schema_ok (static_routes_update f d) \<longleftrightarrow> configurations_ok d \<and> role_accounts_ok d
     \<and> proxies_ok d \<and> connections_ok d \<and> route_inits_ok d
     \<and> static_routes_ok (static_routes_update f d) \<and> jobs_ok d \<and> transactions_ok d"
  by (simp add: schema_defs)

lemma schema_frame_configurations [table_simps]:
  "schema_ok (configurations_update f d) \<longleftrightarrow> configurations_ok (configurations_update f d)
     \<and> role_accounts_ok d \<and> proxies_ok d \<and> connections_ok d \<and> route_inits_ok d
     \<and> static_routes_ok d \<and> jobs_ok d \<and> transactions_ok d"
  by (simp add: schema_defs)

lemma schema_ok_parts:
  "schema_ok d \<Longrightarrow> configurations_ok d" "schema_ok d \<Longrightarrow> role_accounts_ok d"
  "schema_ok d \<Longrightarrow> proxies_ok d" "schema_ok d \<Longrightarrow> connections_ok d"
  "schema_ok d \<Longrightarrow> route_inits_ok d" "schema_ok d \<Longrightarrow> static_routes_ok d"
  "schema_ok d \<Longrightarrow> jobs_ok d" "schema_ok d \<Longrightarrow> transactions_ok d"
  by (simp_all add: schema_ok_def)

end
