(* ===== verification/StoreCore.thy ===== *)
theory StoreCore
  imports Schema Secrets
begin

text \<open>
  The core of \<open>GatewayStore\<close> (\<open>app/dal/db/store.py\<close>): the transaction boundary, the field
  validators, row lookup, the decryption of stored profiles, the resolution of role and proxy
  references, and the public reads \<open>list\<close>, \<open>get\<close> and \<open>resolve_connection\<close>.

  Third-party code is the record \<open>services\<close>: \<open>seal\<close> and \<open>unseal\<close> are the Fernet cipher over
  JSON text (\<open>None\<close> for a value it cannot open), \<open>key_accepted\<close> is the private-key loader.
  What a call draws from the operating system is the record \<open>draws\<close>: random UUIDs and the time.
\<close>

section \<open>Surroundings of a call\<close>

record services =
  seal :: "json \<Rightarrow> string"
  unseal :: "string \<Rightarrow> json option"
  key_accepted :: "json \<Rightarrow> json \<Rightarrow> bool"
  parse_instant :: "string \<Rightarrow> string option"
  py_repr :: "json \<Rightarrow> string"

text \<open>The documented law of the cipher: what was sealed opens to itself.\<close>

definition vault_law :: "services \<Rightarrow> bool" where
  "vault_law sv \<longleftrightarrow> (\<forall>v. unseal sv (seal sv v) = Some v)"

lemma vault_lawD [simp]: "vault_law sv \<Longrightarrow> unseal sv (seal sv v) = Some v"
  by (simp add: vault_law_def)

record draws =
  uuid4 :: "nat \<Rightarrow> string"
  utc_now :: string

definition decrypt :: "services \<Rightarrow> string \<Rightarrow> exn + json" where
  "decrypt sv s = (case unseal sv s of
      None \<Rightarrow> Inl (SecretError (Store UndecryptableSecrets)) | Some v \<Rightarrow> Inr v)"

lemma decrypt_seal [simp]: "vault_law sv \<Longrightarrow> decrypt sv (seal sv v) = Inr v"
  by (simp add: decrypt_def)

text \<open>\<open>str(value)\<close>: the text itself for a string, the representation for any other value.\<close>

definition py_str :: "services \<Rightarrow> json \<Rightarrow> string" where
  "py_str sv v = (case v of JStr s \<Rightarrow> s | _ \<Rightarrow> py_repr sv v)"

text \<open>Using a value as a dictionary raises when it is not one.\<close>

definition as_dict :: "json \<Rightarrow> exn + dict" where
  "as_dict v = (case v of JObj d \<Rightarrow> Inr d | _ \<Rightarrow> Inl (PyError ''AttributeError''))"

lemma as_dict_simps [simp]: "as_dict (JObj d) = Inr d"
  by (simp add: as_dict_def)

lemma as_dict_eq_Inr: "as_dict v = Inr d \<longleftrightarrow> v = JObj d"
  by (cases v) (auto simp: as_dict_def)

section \<open>The transaction boundary\<close>

text \<open>
  The state of the store object: the database and the closed flag. \<open>_transaction\<close> holds the
  lock for the whole body, refuses a closed store, commits the new database when the body
  returns and rolls back when it raises; the exceptions of the layers below become store errors.
\<close>

record store =
  st_db :: db
  st_closed :: bool

definition translate :: "exn \<Rightarrow> exn" where
  "translate e = (case e of
      SecretError r \<Rightarrow> StoreError r 503
    | IntegrityError \<Rightarrow> StoreError (Store ReferenceConflict) 409
    | SQLAlchemyError \<Rightarrow> StoreError (Store DatabaseFailed) 503
    | other \<Rightarrow> other)"

definition transaction :: "(db \<Rightarrow> exn + ('a \<times> db)) \<Rightarrow> store \<Rightarrow> exn + ('a \<times> store)" where
  "transaction body st = (if st_closed st then Inl (StoreError (Store StoreClosed) 503)
     else (case body (st_db st) of
         Inl e \<Rightarrow> Inl (translate e)
       | Inr (x, d) \<Rightarrow> Inr (x, st\<lparr>st_db := d\<rparr>)))"

text \<open>A body that only reads.\<close>

definition reading :: "(db \<Rightarrow> exn + 'a) \<Rightarrow> db \<Rightarrow> exn + ('a \<times> db)" where
  "reading f d = bindE (f d) (\<lambda>x. Inr (x, d))"

definition close_store :: "store \<Rightarrow> store" where
  "close_store st = (if \<not> st_closed st then st\<lparr>st_closed := True\<rparr> else st)"

section \<open>Validators\<close>

definition text_field :: "json \<Rightarrow> string \<Rightarrow> bool \<Rightarrow> int \<Rightarrow> exn + string" where
  "text_field value label required limit = (case value of
      JStr s \<Rightarrow>
        if limit < int (length s) \<or> char_of (0::nat) \<in> set s
        then Inl (StoreError (Field (InvalidField label)) 400)
        else if required \<and> strip s = []
        then Inl (StoreError (Field (FieldRequired label)) 400)
        else Inr (if required then strip s else s)
    | _ \<Rightarrow> Inl (StoreError (Field (InvalidField label)) 400))"

definition port_field :: "json \<Rightarrow> exn + int" where
  "port_field value = (case value of
      JInt i \<Rightarrow> if 1 \<le> i \<and> i \<le> 65535 then Inr i else Inl (StoreError (Field InvalidPort) 400)
    | _ \<Rightarrow> Inl (StoreError (Field InvalidPort) 400))"

definition timeout_field :: "json \<Rightarrow> exn + rat" where
  "timeout_field value = (case value of
      JInt i \<Rightarrow> if 1 \<le> i \<and> i \<le> 30 then Inr (of_int i)
        else Inl (StoreError (Field InvalidTimeout) 400)
    | JFloat (Finite r) \<Rightarrow> if 1 \<le> r \<and> r \<le> 30 then Inr r
        else Inl (StoreError (Field InvalidTimeout) 400)
    | _ \<Rightarrow> Inl (StoreError (Field InvalidTimeout) 400))"

definition check_fields :: "json \<Rightarrow> string list \<Rightarrow> exn + dict" where
  "check_fields payload allowed = (case payload of
      JObj d \<Rightarrow> if list_ex (\<lambda>p. fst p \<notin> set allowed) d
        then Inl (StoreError (Field InvalidFields) 400) else Inr d
    | _ \<Rightarrow> Inl (StoreError (Field InvalidFields) 400))"

lemma text_field_Inr:
  "text_field v label required limit = Inr s \<longleftrightarrow> (\<exists>t. v = JStr t \<and> int (length t) \<le> limit
     \<and> char_of (0::nat) \<notin> set t \<and> (if required then s = strip t \<and> strip t \<noteq> [] else s = t))"
  by (cases v) (auto simp: text_field_def)

lemma text_field_length: "text_field v label required limit = Inr s \<Longrightarrow> int (length s) \<le> limit"
proof -
  have "int (length (strip t)) \<le> limit" if "int (length t) \<le> limit" for t
    using that length_strip [of t] by linarith
  then show "text_field v label required limit = Inr s \<Longrightarrow> int (length s) \<le> limit"
    by (auto simp: text_field_Inr split: if_splits)
qed

lemma text_field_required: "text_field v label True limit = Inr s \<Longrightarrow> s \<noteq> [] \<and> strip s = s"
  by (auto simp: text_field_Inr)

lemma port_field_Inr: "port_field v = Inr p \<longleftrightarrow> v = JInt p \<and> 1 \<le> p \<and> p \<le> 65535"
  by (cases v) (auto simp: port_field_def)

lemma timeout_field_Inr: "timeout_field v = Inr r \<Longrightarrow> 1 \<le> r \<and> r \<le> 30"
  by (auto simp: timeout_field_def split: json.splits pyfloat.splits if_splits)

lemma check_fields_Inr:
  "check_fields v allowed = Inr d \<longleftrightarrow> v = JObj d \<and> fst ` set d \<subseteq> set allowed"
  by (cases v) (auto simp: check_fields_def list_ex_iff)

text \<open>
  \<open>refuses N m\<close>: if \<open>m\<close> raises, it raises a store error with a status of \<open>N\<close>. The rules below
  compose, so that the refusals of an operation follow from those of its parts.
\<close>

definition refuses :: "nat set \<Rightarrow> exn + 'a \<Rightarrow> bool" where
  "refuses N m \<longleftrightarrow> (\<forall>e. m = Inl e \<longrightarrow> (\<exists>r n. e = StoreError r n \<and> n \<in> N))"

named_theorems refusal \<open>which errors an operation can raise\<close>

lemma refuses_Inr [refusal]: "refuses N (Inr x)"
  by (simp add: refuses_def)

lemma refuses_StoreError [refusal]: "n \<in> N \<Longrightarrow> refuses N (Inl (StoreError r n))"
  by (simp add: refuses_def)

lemma refuses_bindE [refusal]:
  "refuses N m \<Longrightarrow> (\<And>x. m = Inr x \<Longrightarrow> refuses N (f x)) \<Longrightarrow> refuses N (bindE m f)"
  by (cases m) (auto simp: refuses_def)

lemma refuses_check [refusal]: "n \<in> N \<Longrightarrow> refuses N (check c (StoreError r n))"
  by (auto simp: refuses_def check_eq_Inl)

lemma refuses_if [refusal]:
  "(c \<Longrightarrow> refuses N m) \<Longrightarrow> (\<not> c \<Longrightarrow> refuses N m') \<Longrightarrow> refuses N (if c then m else m')"
  by simp

lemma refuses_mapE [refusal]:
  "(\<And>x. x \<in> set xs \<Longrightarrow> refuses N (f x)) \<Longrightarrow> refuses N (mapE f xs)"
  by (induction xs) (auto intro: refuses_bindE refuses_Inr)

lemma refuses_text_field [refusal]: "400 \<in> N \<Longrightarrow> refuses N (text_field v label required limit)"
  by (auto simp: text_field_def refuses_def split: json.splits if_splits)

lemma refuses_port_field [refusal]: "400 \<in> N \<Longrightarrow> refuses N (port_field v)"
  by (auto simp: port_field_def refuses_def split: json.splits if_splits)

lemma refuses_timeout_field [refusal]: "400 \<in> N \<Longrightarrow> refuses N (timeout_field v)"
  by (auto simp: timeout_field_def refuses_def split: json.splits if_splits pyfloat.splits)

lemma refuses_check_fields [refusal]: "400 \<in> N \<Longrightarrow> refuses N (check_fields v ks)"
  by (auto simp: check_fields_def refuses_def split: json.splits if_splits)

section \<open>Rows\<close>

definition lookup_row :: "('r \<Rightarrow> string) \<Rightarrow> json \<Rightarrow> 'r list \<Rightarrow> exn + 'r" where
  "lookup_row key item_id rows =
     (case find (\<lambda>r. JStr (key r) = item_id) rows of
        None \<Rightarrow> Inl (StoreError (Store ResourceNotFound) 404)
      | Some r \<Rightarrow> Inr r)"

lemma lookup_row_Inr:
  assumes "distinct (map key rows)"
  shows "lookup_row key (JStr i) rows = Inr r \<longleftrightarrow> r \<in> set rows \<and> key r = i"
  using assms find_key_Some [of key rows i r]
  by (auto simp: lookup_row_def split: option.splits)

lemma lookup_row_InrD: "lookup_row key v rows = Inr r \<Longrightarrow> r \<in> set rows \<and> v = JStr (key r)"
  by (auto simp: lookup_row_def split: option.splits dest!: find_Some_iff_set)

lemma lookup_row_Inl:
  "lookup_row key (JStr i) rows = Inl e \<longleftrightarrow>
     i \<notin> key ` set rows \<and> e = StoreError (Store ResourceNotFound) 404"
  by (auto simp: lookup_row_def find_None_iff split: option.splits dest: find_Some_iff_set)

lemma refuses_lookup_row [refusal]: "404 \<in> N \<Longrightarrow> refuses N (lookup_row key v rows)"
  by (auto simp: lookup_row_def refuses_def split: option.splits)

lemma lookup_row_app_last:
  "key row \<notin> key ` set rows \<Longrightarrow> lookup_row key (JStr (key row)) (rows @ [row]) = Inr row"
  by (induction rows) (auto simp: lookup_row_def)

definition role_dict :: "role_row \<Rightarrow> dict" where
  "role_dict r = [(''id'', JStr (ra_id r)), (''name'', JStr (ra_name r)),
     (''username'', JStr (ra_username r)),
     (''authentication_type'', JStr (ra_authentication_type r))]"

definition proxy_dict :: "proxy_row \<Rightarrow> dict" where
  "proxy_dict p = [(''id'', JStr (px_id p)), (''name'', JStr (px_name p)),
     (''type'', JStr (px_type p)), (''host'', JStr (px_host p)), (''port'', JInt (px_port p)),
     (''role_account_id'', opt_str (px_role_account_id p))]"

definition conn_dict :: "conn_row \<Rightarrow> dict" where
  "conn_dict c = [(''id'', JStr (cn_id c)), (''name'', JStr (cn_name c)),
     (''protocol'', JStr (cn_protocol c)), (''host'', JStr (cn_host c)),
     (''port'', JInt (cn_port c)), (''timeout_seconds'', JFloat (Finite (cn_timeout_seconds c))),
     (''role_account_id'', opt_str (cn_role_account_id c)),
     (''proxy_id'', opt_str (cn_proxy_id c))]"

lemma wf_row_dicts [simp]: "wf_dict (role_dict r)" "wf_dict (proxy_dict p)" "wf_dict (conn_dict c)"
  by (simp_all add: wf_dict_def role_dict_def proxy_dict_def conn_dict_def)

section \<open>Stored and resolved profiles\<close>

text \<open>
  \<open>_stored_profile\<close>: the columns of a row, its JSON configuration, and its decrypted secrets; the
  secrets of an inline connector are kept under \<open>connector\<close> and go into the connector.
\<close>

definition stored_profile :: "services \<Rightarrow> dict \<Rightarrow> dict \<Rightarrow> string \<Rightarrow> exn + dict" where
  "stored_profile sv columns configuration secrets =
     bindE (decrypt sv secrets) (\<lambda>v. bindE (as_dict v) (\<lambda>secret_data.
       let result = dmerge columns configuration;
           connector_secrets = dget secret_data ''connector'';
           result = dmerge result (dpop ''connector'' secret_data)
       in if truthy connector_secrets then
            (let result = dsetdefault ''connector'' (JObj []) result in
             bindE (as_dict (dget result ''connector'')) (\<lambda>conn.
             bindE (as_dict connector_secrets) (\<lambda>cs.
             Inr (dset ''connector'' (JObj (dmerge conn cs)) result))))
          else Inr result))"

definition stored_role :: "services \<Rightarrow> role_row \<Rightarrow> exn + dict" where
  "stored_role sv r = stored_profile sv (role_dict r) [] (ra_secrets r)"

definition stored_proxy :: "services \<Rightarrow> proxy_row \<Rightarrow> exn + dict" where
  "stored_proxy sv p = stored_profile sv (proxy_dict p) (px_configuration p) (px_secrets p)"

definition stored_connection :: "services \<Rightarrow> conn_row \<Rightarrow> exn + dict" where
  "stored_connection sv c = stored_profile sv (conn_dict c) (cn_configuration c) (cn_secrets c)"

definition role_credentials :: "services \<Rightarrow> db \<Rightarrow> json \<Rightarrow> exn + dict" where
  "role_credentials sv d role_id =
     bindE (lookup_row ra_id role_id (role_accounts d)) (\<lambda>role.
     bindE (decrypt sv (ra_secrets role)) (\<lambda>v. bindE (as_dict v) (\<lambda>secrets.
     Inr (dmerge [(''username'', JStr (ra_username role)),
                  (''authentication_type'', JStr (ra_authentication_type role))] secrets))))"

text \<open>\<open>if profile.get("role_account_id"): profile.update(self._role_credentials(...))\<close>.\<close>

definition with_role :: "services \<Rightarrow> db \<Rightarrow> dict \<Rightarrow> exn + dict" where
  "with_role sv d profile = (if truthy (dget profile ''role_account_id'')
     then bindE (role_credentials sv d (dget profile ''role_account_id''))
            (\<lambda>creds. Inr (dmerge profile creds))
     else Inr profile)"

definition resolve_proxy :: "services \<Rightarrow> db \<Rightarrow> proxy_row \<Rightarrow> exn + dict" where
  "resolve_proxy sv d row = bindE (stored_proxy sv row) (with_role sv d)"

definition resolve_connection_in :: "services \<Rightarrow> db \<Rightarrow> json \<Rightarrow> exn + dict" where
  "resolve_connection_in sv d item_id =
     bindE (lookup_row cn_id item_id (connections d)) (\<lambda>row.
     bindE (stored_connection sv row) (\<lambda>profile.
     let profile = dsetdefault ''client_type'' (JStr ''network'') profile in
     bindE (with_role sv d profile) (\<lambda>profile.
     bindE (if truthy (dget profile ''proxy_id'')
            then bindE (lookup_row px_id (dget profile ''proxy_id'') (proxies d)) (\<lambda>prow.
                 bindE (resolve_proxy sv d prow) (\<lambda>c.
                 Inr (dset ''connector'' (JObj c) profile)))
            else Inr profile) (\<lambda>profile.
     Inr (dsetdefault ''connector'' (JObj [(''type'', JStr ''direct'')]) profile)))))"

section \<open>Public views\<close>

lemma size_map_of_item [termination_simp]:
  "map_of d k = Some v \<Longrightarrow> size v < Suc (size_list (size_prod (\<lambda>_. 0) size) d)"
  by (rule size_dict_item [OF map_of_SomeD])

lemma map_of_obj_size:
  "map_of d k = Some (JObj c) \<Longrightarrow>
     size_list (size_prod (\<lambda>_. 0) size) c < size_list (size_prod (\<lambda>_. 0) size) d"
  using size_map_of_item [of d k "JObj c"] by simp

function public_runtime :: "dict \<Rightarrow> exn + dict" where
  "public_runtime profile =
     (let result = dset ''password_configured'' (JBool (truthy (dget profile ''password'')))
                     (public_dict profile)
      in case map_of profile ''connector'' of
           Some (JObj c) \<Rightarrow> bindE (public_runtime c)
             (\<lambda>c'. Inr (dset ''connector'' (JObj c') result))
         | Some _ \<Rightarrow> Inl (PyError ''AttributeError'')
         | None \<Rightarrow> Inr result)"
  by pat_completeness auto
termination
  by (relation "measure (size_list (size_prod (\<lambda>_. 0) size))") (auto intro: map_of_obj_size)

declare public_runtime.simps [simp del]

definition public_role :: "services \<Rightarrow> role_row \<Rightarrow> exn + dict" where
  "public_role sv row = bindE (decrypt sv (ra_secrets row)) (\<lambda>v. bindE (as_dict v) (\<lambda>secrets.
     Inr (role_dict row @
       [(''password_configured'', JBool (truthy (dget secrets ''password''))),
        (''private_key_configured'', JBool (truthy (dget secrets ''private_key'')))])))"

definition public_proxy :: "services \<Rightarrow> db \<Rightarrow> proxy_row \<Rightarrow> exn + dict" where
  "public_proxy sv d row = bindE (resolve_proxy sv d row) public_runtime"

definition public_connection :: "services \<Rightarrow> db \<Rightarrow> conn_row \<Rightarrow> exn + dict" where
  "public_connection sv d row =
     bindE (resolve_connection_in sv d (JStr (cn_id row))) public_runtime"

section \<open>Reads\<close>

datatype resource = RoleAccounts | Proxies | Connections

definition table_of :: "string \<Rightarrow> exn + resource" where
  "table_of name = (if name = ''connections'' then Inr Connections
     else if name = ''proxies'' then Inr Proxies
     else if name = ''role_accounts'' then Inr RoleAccounts
     else Inl (StoreError (Store UnknownResource) 404))"

definition list_public :: "services \<Rightarrow> resource \<Rightarrow> db \<Rightarrow> exn + dict list" where
  "list_public sv res d = (case res of
      RoleAccounts \<Rightarrow> mapE (public_role sv) (sort_key (\<lambda>r. (ra_name r, ra_id r)) (role_accounts d))
    | Proxies \<Rightarrow> mapE (public_proxy sv d) (sort_key (\<lambda>p. (px_name p, px_id p)) (proxies d))
    | Connections \<Rightarrow> mapE (public_connection sv d) (sort_key (\<lambda>c. (cn_name c, cn_id c)) (connections d)))"

definition get_public :: "services \<Rightarrow> resource \<Rightarrow> json \<Rightarrow> db \<Rightarrow> exn + dict" where
  "get_public sv res item_id d = (case res of
      RoleAccounts \<Rightarrow> bindE (lookup_row ra_id item_id (role_accounts d)) (public_role sv)
    | Proxies \<Rightarrow> bindE (lookup_row px_id item_id (proxies d)) (public_proxy sv d)
    | Connections \<Rightarrow> bindE (lookup_row cn_id item_id (connections d)) (public_connection sv d))"

definition store_list :: "services \<Rightarrow> string \<Rightarrow> store \<Rightarrow> exn + (dict list \<times> store)" where
  "store_list sv name st = bindE (table_of name) (\<lambda>res. transaction (reading (list_public sv res)) st)"

definition store_get :: "services \<Rightarrow> string \<Rightarrow> json \<Rightarrow> store \<Rightarrow> exn + (dict \<times> store)" where
  "store_get sv name item_id st =
     bindE (table_of name) (\<lambda>res. transaction (reading (get_public sv res item_id)) st)"

definition store_resolve_connection :: "services \<Rightarrow> json \<Rightarrow> store \<Rightarrow> exn + (dict \<times> store)" where
  "store_resolve_connection sv item_id st =
     transaction (reading (\<lambda>d. resolve_connection_in sv d item_id)) st"

end
