(* ===== verification/Instance.thy ===== *)
theory Instance
  imports StoreCore
begin

text \<open>
  One concrete choice of the third-party parameters, used by the witnesses: a cipher that only
  serialises (a prefix code of JSON values with its decoder, proved inverse), and a source of
  UUIDs that counts. It computes, so that witnesses evaluate whole operations of the store.
\<close>

section \<open>A prefix code of JSON values\<close>

definition enc_nat :: "nat \<Rightarrow> string" where
  "enc_nat n = replicate n CHR ''1'' @ ''0''"

definition dec_nat :: "string \<Rightarrow> nat \<times> string" where
  "dec_nat s = (length (takeWhile (\<lambda>c. c = CHR ''1'') s), drop 1 (dropWhile (\<lambda>c. c = CHR ''1'') s))"

lemma dec_enc_nat [simp]: "dec_nat (enc_nat n @ r) = (n, r)"
proof -
  have "takeWhile (\<lambda>c. c = CHR ''1'') (replicate n CHR ''1'' @ CHR ''0'' # r) = replicate n CHR ''1''"
    and "dropWhile (\<lambda>c. c = CHR ''1'') (replicate n CHR ''1'' @ CHR ''0'' # r) = CHR ''0'' # r"
    by (induction n) auto
  then show ?thesis by (simp add: dec_nat_def enc_nat_def)
qed

definition enc_int :: "int \<Rightarrow> string" where
  "enc_int i = (if i < 0 then CHR ''-'' else CHR ''+'') # enc_nat (nat \<bar>i\<bar>)"

definition dec_int :: "string \<Rightarrow> int \<times> string" where
  "dec_int s = (let (n, r) = dec_nat (drop 1 s)
     in (if take 1 s = ''-'' then - int n else int n, r))"

lemma dec_enc_int [simp]: "dec_int (enc_int i @ r) = (i, r)"
  by (simp add: dec_int_def enc_int_def)

definition enc_str :: "string \<Rightarrow> string" where
  "enc_str s = enc_nat (length s) @ s"

definition dec_str :: "string \<Rightarrow> string \<times> string" where
  "dec_str s = (let (n, r) = dec_nat s in (take n r, drop n r))"

lemma dec_enc_str [simp]: "dec_str (enc_str s @ r) = (s, r)"
  by (simp add: dec_str_def enc_str_def)

fun enc :: "json \<Rightarrow> string" where
  "enc JNull = ''n''"
| "enc (JBool b) = (if b then ''t'' else ''f'')"
| "enc (JInt i) = ''i'' @ enc_int i"
| "enc (JFloat (Finite q)) = ''q'' @ enc_int (fst (quotient_of q)) @ enc_int (snd (quotient_of q))"
| "enc (JFloat PosInf) = ''p''"
| "enc (JFloat NegInf) = ''m''"
| "enc (JFloat NaN) = ''a''"
| "enc (JStr s) = ''s'' @ enc_str s"
| "enc (JList xs) = ''l'' @ enc_nat (length xs) @ concat (map enc xs)"
| "enc (JObj d) = ''o'' @ enc_nat (length d) @ concat (map (\<lambda>(k, v). enc_str k @ enc v) d)"

primrec repeat :: "nat \<Rightarrow> (string \<Rightarrow> ('a \<times> string) option) \<Rightarrow> string \<Rightarrow> ('a list \<times> string) option" where
  "repeat 0 p s = Some ([], s)"
| "repeat (Suc n) p s = (case p s of None \<Rightarrow> None | Some (x, r) \<Rightarrow>
     (case repeat n p r of None \<Rightarrow> None | Some (xs, t) \<Rightarrow> Some (x # xs, t)))"

definition dec_item :: "(string \<Rightarrow> (json \<times> string) option) \<Rightarrow> string \<Rightarrow> ((string \<times> json) \<times> string) option" where
  "dec_item p s = (let (k, r) = dec_str s in
     case p r of None \<Rightarrow> None | Some (v, t) \<Rightarrow> Some ((k, v), t))"

primrec dec :: "nat \<Rightarrow> string \<Rightarrow> (json \<times> string) option" where
  "dec 0 s = None"
| "dec (Suc f) s = (case s of [] \<Rightarrow> None | c # r \<Rightarrow>
     if c = CHR ''n'' then Some (JNull, r)
     else if c = CHR ''t'' then Some (JBool True, r)
     else if c = CHR ''f'' then Some (JBool False, r)
     else if c = CHR ''i'' then (let (i, t) = dec_int r in Some (JInt i, t))
     else if c = CHR ''q'' then (let (n, t) = dec_int r; (m, u) = dec_int t
       in Some (JFloat (Finite (Fract n m)), u))
     else if c = CHR ''p'' then Some (JFloat PosInf, r)
     else if c = CHR ''m'' then Some (JFloat NegInf, r)
     else if c = CHR ''a'' then Some (JFloat NaN, r)
     else if c = CHR ''s'' then (let (x, t) = dec_str r in Some (JStr x, t))
     else if c = CHR ''l'' then (let (n, t) = dec_nat r in
       map_option (\<lambda>(xs, u). (JList xs, u)) (repeat n (dec f) t))
     else if c = CHR ''o'' then (let (n, t) = dec_nat r in
       map_option (\<lambda>(d, u). (JObj d, u)) (repeat n (dec_item (dec f)) t))
     else None)"

lemma repeat_inverse:
  "(\<And>x r. x \<in> set xs \<Longrightarrow> p (e x @ r) = Some (x, r)) \<Longrightarrow>
     repeat (length xs) p (concat (map e xs) @ r) = Some (xs, r)"
  by (induction xs arbitrary: r) auto

text \<open>The number of nested levels bounds the fuel, and the length of the code bounds it.\<close>

fun weight :: "json \<Rightarrow> nat" where
  "weight (JList xs) = Suc (sum_list (map weight xs))"
| "weight (JObj d) = Suc (sum_list (map (\<lambda>(k, v). weight v) d))"
| "weight _ = 1"

lemma weight_member:
  "x \<in> set xs \<Longrightarrow> weight x < weight (JList xs)" "(k, v) \<in> set d \<Longrightarrow> weight v < weight (JObj d)"
  using member_le_sum_list [of "weight x" "map weight xs"]
    member_le_sum_list [of "weight v" "map (\<lambda>(k, v). weight v) d"]
  by (auto simp: less_Suc_eq_le image_iff) force

lemma dec_enc: "weight v \<le> f \<Longrightarrow> dec f (enc v @ r) = Some (v, r)"
proof (induction v arbitrary: f r rule: json_induct)
  case (List xs)
  then obtain g where f: "f = Suc g" by (cases f) auto
  have "repeat (length xs) (dec g) (concat (map enc xs) @ r) = Some (xs, r)"
    using List weight_member(1) f by (intro repeat_inverse) fastforce
  then show ?case using f by simp
next
  case (Obj d)
  then obtain g where f: "f = Suc g" by (cases f) auto
  have "repeat (length d) (dec_item (dec g)) (concat (map (\<lambda>(k, v). enc_str k @ enc v) d) @ r) = Some (d, r)"
    using Obj weight_member(2) f by (intro repeat_inverse) (fastforce simp: dec_item_def)
  then show ?case using f by simp
next
  case (Float x)
  have "rat_of_int (fst (quotient_of q)) / rat_of_int (snd (quotient_of q)) = q" for q
    using quotient_of_div [OF surjective_pairing, of q] by simp
  then show ?case using Float
    by (cases f; cases x) (auto simp: Fract_of_int_quotient)
next
  case Null
  then show ?case by (cases f) simp_all
next
  case (Bool b)
  then show ?case by (cases f) simp_all
next
  case (Int i)
  then show ?case by (cases f) simp_all
next
  case (Str s)
  then show ?case by (cases f) simp_all
qed

lemma weight_le_length: "weight v \<le> length (enc v)"
proof (induction v rule: json_induct)
  case (List xs)
  then have "sum_list (map weight xs) \<le> sum_list (map (\<lambda>x. length (enc x)) xs)"
    by (intro sum_list_mono) auto
  then show ?case by (simp add: length_concat comp_def)
next
  case (Obj d)
  then have "\<forall>(k, v) \<in> set d. weight v \<le> length (enc_str k) + length (enc v)"
    by (auto intro: trans_le_add2)
  then have "sum_list (map (\<lambda>(k, v). weight v) d)
      \<le> sum_list (map (\<lambda>p. length (case p of (k, v) \<Rightarrow> enc_str k @ enc v)) d)"
    by (intro sum_list_mono) auto
  then show ?case by (simp add: length_concat comp_def)
next
  case (Float x)
  then show ?case by (cases x) auto
qed simp_all

section \<open>The sample services\<close>

definition sample_services :: services where
  "sample_services = \<lparr>seal = enc, unseal = (\<lambda>s. map_option fst (dec (length s) s)),
     key_accepted = (\<lambda>key passphrase. key = JStr ''KEY''),
     parse_instant = (\<lambda>s. Some s),
     py_repr = (\<lambda>v. ''value'')\<rparr>"

definition sample_draws :: draws where
  "sample_draws = \<lparr>uuid4 = show_nat, utc_now = ''2026-01-01T00:00:00.000000Z''\<rparr>"

lemma sample_services_law [simp]: "vault_law sample_services"
  using dec_enc [OF weight_le_length, where r = "[]"]
  by (simp add: vault_law_def sample_services_def)

definition empty_store :: store where
  "empty_store = \<lparr>st_db = empty_db, st_closed = False\<rparr>"

lemma empty_store_simps [simp]: "st_db empty_store = empty_db" "\<not> st_closed empty_store"
  by (simp_all add: empty_store_def)

end
