(* ===== verification/ProfileLaws.thy ===== *)
theory ProfileLaws
  imports Profiles
begin

text \<open>
  What saving and deleting guarantee. \<open>readable\<close> is the invariant of the stored secrets: every
  profile can be decrypted and its parts have the shape the readers rely on. Every save keeps it,
  and it is what makes the reads total.
\<close>

section \<open>The shape of stored profiles\<close>

definition keys_in :: "string list \<Rightarrow> dict \<Rightarrow> bool" where
  "keys_in ks d = list_all (\<lambda>p. fst p \<in> set ks) d"

definition connectors_in :: "string list \<Rightarrow> dict \<Rightarrow> bool" where
  "connectors_in ks d = list_all (\<lambda>p. fst p = ''connector'' \<longrightarrow>
     (case snd p of JObj c \<Rightarrow> keys_in ks c | _ \<Rightarrow> False)) d"

definition trust_fields :: "string list" where
  "trust_fields = [''username'', ''private_key_path'', ''known_hosts_path'']"

definition opened :: "services \<Rightarrow> string \<Rightarrow> (dict \<Rightarrow> bool) \<Rightarrow> bool" where
  "opened sv s P = (case unseal sv s of Some (JObj d) \<Rightarrow> P d | _ \<Rightarrow> False)"

definition role_readable :: "services \<Rightarrow> role_row \<Rightarrow> bool" where
  "role_readable sv r = opened sv (ra_secrets r) (keys_in secret_fields)"

definition proxy_readable :: "services \<Rightarrow> proxy_row \<Rightarrow> bool" where
  "proxy_readable sv p \<longleftrightarrow> opened sv (px_secrets p) (keys_in secret_fields)
     \<and> keys_in trust_fields (px_configuration p)"

definition conn_readable :: "services \<Rightarrow> conn_row \<Rightarrow> bool" where
  "conn_readable sv c \<longleftrightarrow> opened sv (cn_secrets c)
       (\<lambda>s. keys_in (''connector'' # secret_fields) s \<and> connectors_in connector_fields s)
     \<and> keys_in (''client_type'' # ''connector'' # trust_fields) (cn_configuration c)
     \<and> connectors_in connector_fields (cn_configuration c)"

definition readable :: "services \<Rightarrow> db \<Rightarrow> bool" where
  "readable sv d \<longleftrightarrow> list_all (role_readable sv) (role_accounts d)
     \<and> list_all (proxy_readable sv) (proxies d) \<and> list_all (conn_readable sv) (connections d)"

lemma subset_not_in: "A \<subseteq> B \<Longrightarrow> x \<notin> B \<Longrightarrow> x \<notin> A"
  by (rule contra_subsetD)

lemma keys_in_iff: "keys_in ks d \<longleftrightarrow> fst ` set d \<subseteq> set ks"
  by (auto simp: keys_in_def list_all_iff)

lemma connectors_in_iff: "connectors_in ks d \<longleftrightarrow>
    (\<forall>v. (''connector'', v) \<in> set d \<longrightarrow> (\<exists>c. v = JObj c \<and> keys_in ks c))"
proof -
  have "(case v of JObj c \<Rightarrow> keys_in ks c | _ \<Rightarrow> False) \<longleftrightarrow> (\<exists>c. v = JObj c \<and> keys_in ks c)" for v
    by (cases v) auto
  then show ?thesis by (auto simp: connectors_in_def list_all_iff)
qed

lemma connectors_inD:
  "connectors_in ks d \<Longrightarrow> dhas d ''connector'' \<Longrightarrow> \<exists>c. dget d ''connector'' = JObj c \<and> keys_in ks c"
  using dget_item [of d "''connector''"] by (auto simp: connectors_in_iff)

lemma connectors_in_mono: "connectors_in ks d \<Longrightarrow> set e \<subseteq> set d \<Longrightarrow> connectors_in ks e"
  by (auto simp: connectors_in_iff)

lemma connectors_in_dmerge:
  "connectors_in ks d \<Longrightarrow> connectors_in ks e \<Longrightarrow> connectors_in ks (dmerge d e)"
  using set_dmerge [of d e] by (auto simp: connectors_in_iff)

lemma connectors_in_none: "''connector'' \<notin> fst ` set d \<Longrightarrow> connectors_in ks d"
  by (force simp: connectors_in_iff)

lemma connectors_in_dset:
  "connectors_in ks d \<Longrightarrow> (k = ''connector'' \<Longrightarrow> \<exists>c. v = JObj c \<and> keys_in ks c) \<Longrightarrow>
     connectors_in ks (dset k v d)"
  using set_dset [of k v d] by (auto simp: connectors_in_iff)

lemma opened_iff: "opened sv s P \<longleftrightarrow> (\<exists>d. unseal sv s = Some (JObj d) \<and> P d)"
  by (auto simp: opened_def split: option.splits json.splits)

lemma opened_seal [simp]: "vault_law sv \<Longrightarrow> opened sv (seal sv (JObj d)) P = P d"
  by (simp add: opened_def)

section \<open>What the validators return\<close>

lemma keys_pick_truthy: "fst ` set (pick_truthy ks d) \<subseteq> set ks"
  using keys_dselect [of ks d] by (auto simp: pick_truthy_def)

lemma set_pick_truthy: "set (pick_truthy ks d) \<subseteq> set d"
  using set_dselect [of ks d] by (auto simp: pick_truthy_def)

lemma keys_in_pick_truthy [simp]: "keys_in ks (pick_truthy ks d)"
  by (simp add: keys_in_iff keys_pick_truthy)

lemma set_fold_dpop: "set (fold dpop ks d) \<subseteq> set d"
proof (induction ks arbitrary: d)
  case Nil
  then show ?case by simp
next
  case (Cons k ks)
  from Cons [of "dpop k d"] set_dpop [of k d] show ?case by auto
qed

lemma inline_credentials_set: "inline_credentials profile payload = Inr p \<Longrightarrow> set p \<subseteq> set profile"
  using set_fold_dpop by (fastforce simp: inline_credentials_def Let_def result_simps)

lemma save_role_Inr:
  assumes "save_role sv i payload previous = Inr r"
  shows "ra_id r = i" and "ra_authentication_type r \<in> {''password'', ''ssh_key''}"
    and "\<exists>s. ra_secrets r = seal sv (JObj s) \<and> keys_in secret_fields s"
  using assms
  by (auto simp: save_role_def Let_def result_simps password_secrets_def key_secrets_def
      keys_in_def secret_fields_def split: if_splits)

lemma base_profile_Inr:
  assumes "base_profile d payload previous = Inr b"
  shows "1 \<le> bv_port b \<and> bv_port b \<le> 65535"
    and "fk_ok (bv_role b) (map ra_id (role_accounts d))"
    and "keys_in trust_fields (bv_configuration b)"
    and "keys_in secret_fields (bv_secret_data b)"
    and "set (bv_profile b) \<subseteq> set previous \<union> set payload"
proof -
  let ?p = "dmerge previous payload" and ?r = "dget (dmerge previous payload) ''role_account_id''"
  from assms obtain name host port q p where
    port: "port_field (dget ?p ''port'') = Inr port"
    and q: "(if ?r \<noteq> JNull then
         bindE (text_field ?r ''role reference'' True 36) (\<lambda>_.
         bindE (lookup_row ra_id ?r (role_accounts d)) (\<lambda>_.
         bindE (check (\<not> list_ex (\<lambda>f. truthy (dget payload f)) inline_fields) (bad RoleWithInline)) (\<lambda>_.
         Inr (fold dpop inline_fields ?p)))) else Inr ?p) = Inr q"
    and p: "inline_credentials q payload = Inr p"
    and b: "b = \<lparr>bv_name = name, bv_host = host, bv_port = port, bv_role = opt_of ?r,
          bv_configuration = dselect trust_fields p,
          bv_secret_data = pick_truthy secret_fields p, bv_profile = p\<rparr>"
    unfolding base_profile_def Let_def trust_fields_def
    by (elim bindE_InrE) (simp only: sum.inject, metis)
  show "1 \<le> bv_port b \<and> bv_port b \<le> 65535"
    using port by (simp add: b port_field_Inr)
  show "fk_ok (bv_role b) (map ra_id (role_accounts d))"
    using q by (auto simp: b fk_ok_def result_simps dest!: lookup_row_InrD split: if_splits)
  show "keys_in trust_fields (bv_configuration b)"
    using keys_dselect [of trust_fields p] by (simp add: b keys_in_iff)
  show "keys_in secret_fields (bv_secret_data b)" by (simp add: b)
  have "set q \<subseteq> set ?p"
    using q set_fold_dpop [of inline_fields ?p] by (auto simp: result_simps split: if_splits)
  then show "set (bv_profile b) \<subseteq> set previous \<union> set payload"
    using inline_credentials_set [OF p] set_dmerge [of previous payload] by (auto simp: b)
qed

lemma save_proxy_Inr:
  assumes "save_proxy sv d i payload previous = Inr p"
  shows "px_id p = i" and "1 \<le> px_port p \<and> px_port p \<le> 65535" and "px_type p \<in> set proxy_types"
    and "fk_ok (px_role_account_id p) (map ra_id (role_accounts d))"
    and "keys_in trust_fields (px_configuration p)"
    and "\<exists>s. px_secrets p = seal sv (JObj s) \<and> keys_in secret_fields s"
  using assms base_profile_Inr [of d payload previous]
  by (auto simp: save_proxy_def Let_def result_simps)

lemma save_connector_keys:
  assumes "save_connector sv given previous = Inr c"
    and "\<And>p. previous = JObj p \<Longrightarrow> keys_in connector_fields p"
  shows "keys_in connector_fields c"
proof -
  from assms(1) obtain "value" prev where "value": "check_fields given connector_fields = Inr value"
    and prev: "(if truthy previous then as_dict previous else Inr []) = Inr prev"
    unfolding save_connector_def by (elim bindE_InrE) simp
  have keys_value: "fst ` set value \<subseteq> set connector_fields"
    using "value" by (simp add: check_fields_Inr)
  have keys_prev: "fst ` set prev \<subseteq> set connector_fields"
    using prev assms(2) by (auto simp: as_dict_eq_Inr keys_in_iff split: if_splits)
  define p where "p = (if truthy previous \<and> dget prev ''type'' \<noteq>
      dget_or (dmerge prev value) ''type'' (JStr ''direct'') then value else dmerge prev value)"
  have keys_p: "fst ` set p \<subseteq> set connector_fields"
    using keys_value keys_prev by (simp add: p_def keys_dmerge)
  have *: "fst ` set c \<subseteq> set connector_fields"
    if "inline_credentials (dset ''port'' port (dset ''host'' host (dset ''type'' kind p))) value = Inr c"
    for port host kind
    using image_mono [OF inline_credentials_set [OF that(1)], of fst] keys_p
    by (auto simp: keys_dset connector_fields_def)
  have "c = [(''type'', JStr ''direct'')] \<or> (\<exists>port host kind.
      inline_credentials (dset ''port'' port (dset ''host'' host (dset ''type'' kind p))) value = Inr c)"
    using assms(1) unfolding save_connector_def "value" prev Let_def bindE_Inr
    by (elim bindE_InrE) (auto simp: p_def [symmetric] split: if_splits elim!: bindE_InrE)
  then have "fst ` set c \<subseteq> set connector_fields"
    using * by (elim disjE exE) (simp_all add: connector_fields_def)
  then show ?thesis by (simp add: keys_in_iff)
qed

lemma keys_public_dict: "fst ` set (public_dict c) \<subseteq> fst ` set c"
  by (force simp: public_dict_def)

lemma save_connector_in:
  assumes "save_connector sv given previous = Inr c"
    and "\<And>p. previous = JObj p \<Longrightarrow> keys_in connector_fields p"
  shows "keys_in connector_fields (public_dict c)"
    and "keys_in connector_fields (pick_truthy secret_fields c)"
proof -
  have "fst ` set c \<subseteq> set connector_fields"
    using save_connector_keys [OF assms] by (simp add: keys_in_iff)
  then show "keys_in connector_fields (public_dict c)"
    and "keys_in connector_fields (pick_truthy secret_fields c)"
    using keys_public_dict [of c] image_mono [OF set_pick_truthy [of secret_fields c], of fst]
    by (auto simp only: keys_in_iff)
qed

lemma proxy_or_connector_Inr:
  assumes "proxy_or_connector sv d payload previous b conf = Inr (conf', sec)"
    and "connectors_in connector_fields previous"
    and "''connector'' \<notin> fst ` set conf" and "keys_in secret_fields (bv_secret_data b)"
  shows "fk_ok (opt_of (dget (bv_profile b) ''proxy_id'')) (map px_id (proxies d))"
    and "fst ` set conf' \<subseteq> insert ''connector'' (fst ` set conf)"
    and "connectors_in connector_fields conf'"
    and "keys_in (''connector'' # secret_fields) sec" and "connectors_in connector_fields sec"
proof -
  let ?pid = "dget (bv_profile b) ''proxy_id''"
  have none: "connectors_in connector_fields conf"
    "''connector'' \<notin> fst ` set (bv_secret_data b)"
    "connectors_in connector_fields (bv_secret_data b)"
    using assms(3,4) by (auto simp: keys_in_iff secret_fields_def intro!: connectors_in_none)
  have sub: "set secret_fields \<subseteq> set (''connector'' # secret_fields)" by auto
  have "fk_ok (opt_of ?pid) (map px_id (proxies d)) \<and> fst ` set conf' \<subseteq> insert ''connector'' (fst ` set conf)
     \<and> connectors_in connector_fields conf' \<and> keys_in (''connector'' # secret_fields) sec
     \<and> connectors_in connector_fields sec"
  proof (cases "?pid = JNull")
    case False
    then have "?pid \<in> JStr ` set (map px_id (proxies d))" and "conf' = conf" and "sec = bv_secret_data b"
      using assms(1) by (auto simp: proxy_or_connector_def Let_def result_simps dest!: lookup_row_InrD)
    then show ?thesis
      using none assms(4) by (auto simp: fk_ok_def keys_in_iff)
  next
    case True
    let ?prev = "if dhas payload ''connector'' then dget previous ''connector'' else JNull"
    from True assms(1) obtain given c where c: "save_connector sv given ?prev = Inr c"
      and conf': "conf' = dset ''connector'' (JObj (public_dict c)) conf"
      and sec: "sec = (if pick_truthy secret_fields c \<noteq> []
          then dset ''connector'' (JObj (pick_truthy secret_fields c)) (bv_secret_data b)
          else bv_secret_data b)"
      by (auto simp: proxy_or_connector_def Let_def result_simps)
    have "keys_in connector_fields p" if "?prev = JObj p" for p
      using that connectors_inD [OF assms(2)]
      by (cases "dhas previous ''connector''") (auto simp: dget_not_dhas split: if_splits)
    note in_c = save_connector_in [OF c this]
    have "connectors_in connector_fields conf'" and "connectors_in connector_fields sec"
      unfolding conf' sec using in_c none by (auto intro!: connectors_in_dset)
    then show ?thesis
      using True assms(4) sub by (auto simp: conf' sec keys_dset keys_in_iff fk_ok_def)
  qed
  then show "fk_ok (opt_of ?pid) (map px_id (proxies d))"
    and "fst ` set conf' \<subseteq> insert ''connector'' (fst ` set conf)"
    and "connectors_in connector_fields conf'"
    and "keys_in (''connector'' # secret_fields) sec" and "connectors_in connector_fields sec"
    by simp_all
qed

lemma save_connection_Inr:
  assumes "save_connection sv d i payload previous = Inr c"
    and "connectors_in connector_fields previous"
  shows "cn_id c = i" and "1 \<le> cn_port c \<and> cn_port c \<le> 65535"
    and "1 \<le> cn_timeout_seconds c \<and> cn_timeout_seconds c \<le> 30"
    and "cn_protocol c \<in> set protocols"
    and "fk_ok (cn_role_account_id c) (map ra_id (role_accounts d))"
    and "fk_ok (cn_proxy_id c) (map px_id (proxies d))"
    and "vault_law sv \<Longrightarrow> conn_readable sv c"
proof -
  from assms(1) obtain b ct t conf sec where b: "base_profile d payload previous = Inr b"
    and proto: "dget (bv_profile b) ''protocol'' \<in> JStr ` set protocols"
    and t: "timeout_field (dget_or (bv_profile b) ''timeout_seconds'' (JInt 10)) = Inr t"
    and pc: "proxy_or_connector sv d payload previous b
       (dset ''client_type'' ct (bv_configuration b)) = Inr (conf, sec)"
    and c: "c = \<lparr>cn_id = i, cn_name = bv_name b, cn_protocol = str_of (dget (bv_profile b) ''protocol''),
          cn_host = bv_host b, cn_port = bv_port b, cn_timeout_seconds = t,
          cn_role_account_id = bv_role b, cn_proxy_id = opt_of (dget (bv_profile b) ''proxy_id''),
          cn_configuration = conf, cn_secrets = seal sv (JObj sec)\<rparr>"
    unfolding save_connection_def Let_def
    by (elim bindE_InrE) (auto simp: check_eq_Inr)
  note base = base_profile_Inr [OF b]
  have conf_keys: "fst ` set (dset ''client_type'' ct (bv_configuration b)) \<subseteq> set (''client_type'' # trust_fields)"
    using base(3) by (auto simp: keys_dset keys_in_iff)
  then have "''connector'' \<notin> fst ` set (dset ''client_type'' ct (bv_configuration b))"
    by (auto simp: trust_fields_def)
  note pcd = proxy_or_connector_Inr [OF pc assms(2) this base(4)]
  show "cn_id c = i" "1 \<le> cn_port c \<and> cn_port c \<le> 65535"
    "fk_ok (cn_role_account_id c) (map ra_id (role_accounts d))"
    "fk_ok (cn_proxy_id c) (map px_id (proxies d))"
    using base pcd by (simp_all add: c)
  show "1 \<le> cn_timeout_seconds c \<and> cn_timeout_seconds c \<le> 30"
    using timeout_field_Inr [OF t] by (simp add: c)
  show "cn_protocol c \<in> set protocols"
    using proto by (auto simp: c)
  have "keys_in (''client_type'' # ''connector'' # trust_fields) conf"
    using pcd(2) conf_keys by (fastforce simp: keys_in_iff)
  then show "vault_law sv \<Longrightarrow> conn_readable sv c"
    using pcd by (simp add: c conn_readable_def)
qed

section \<open>Statements of save\<close>

lemma set_put_row: "set (put_row key target row rows) \<subseteq> insert row (set rows)"
  by (auto simp: put_row_def split: option.splits if_splits)

lemma put_row_keys:
  "(\<And>i. target = Some i \<Longrightarrow> key row = i) \<Longrightarrow>
     map key (put_row key target row rows) = map key rows @ (if target = None then [key row] else [])"
  by (auto simp: put_row_def split: option.splits)

lemma list_all_put_row:
  "list_all P rows \<Longrightarrow> P row \<Longrightarrow> list_all P (put_row key target row rows)"
  using set_put_row [of key target row rows] by (auto simp: list_all_iff)

lemma fk_ok_mono: "fk_ok r ks \<Longrightarrow> set ks \<subseteq> set ks' \<Longrightarrow> fk_ok r ks'"
  by (auto simp: fk_ok_def split: option.splits)

lemma list_all_mono: "list_all P xs \<Longrightarrow> (\<And>x. P x \<Longrightarrow> Q x) \<Longrightarrow> list_all Q xs"
  by (auto simp: list_all_iff)

text \<open>
  An inserted or updated row that satisfies the CHECK constraints and the foreign keys of its own
  table leaves the whole schema satisfied: the keys of the table only grow.
\<close>

definition fresh_or_update :: "string option \<Rightarrow> string \<Rightarrow> string list \<Rightarrow> bool" where
  "fresh_or_update target i ks = (case target of Some j \<Rightarrow> j = i | None \<Rightarrow> i \<notin> set ks)"

lemma put_row_distinct:
  assumes "distinct (map key rows)" and "fresh_or_update target (key row) (map key rows)"
  shows "distinct (map key (put_row key target row rows))"
    and "set (map key rows) \<subseteq> set (map key (put_row key target row rows))"
proof -
  have "map key (put_row key target row rows) = map key rows @ (if target = None then [key row] else [])"
    using assms(2) by (intro put_row_keys) (auto simp: fresh_or_update_def)
  then show "distinct (map key (put_row key target row rows))"
    and "set (map key rows) \<subseteq> set (map key (put_row key target row rows))"
    using assms by (auto simp: fresh_or_update_def split: option.splits)
qed

lemma schema_put_role:
  assumes "schema_ok d" and "ra_authentication_type r \<in> {''password'', ''ssh_key''}"
    and "fresh_or_update target (ra_id r) (map ra_id (role_accounts d))"
  shows "schema_ok (d\<lparr>role_accounts := put_row ra_id target r (role_accounts d)\<rparr>)"
proof -
  note keys = put_row_distinct [OF schema_okD(1) [OF assms(1)] assms(3)]
  have "role_accounts_ok (d\<lparr>role_accounts := put_row ra_id target r (role_accounts d)\<rparr>)"
    using assms(1,2) keys(1) unfolding schema_ok_def role_accounts_ok_def
    by (auto intro!: list_all_put_row)
  moreover have "proxies_ok (d\<lparr>role_accounts := put_row ra_id target r (role_accounts d)\<rparr>)"
    using schema_ok_parts(3) [OF assms(1)] fk_ok_mono [OF _ keys(2)]
    unfolding proxies_ok_def by (auto elim!: list_all_mono)
  moreover have "connections_ok (d\<lparr>role_accounts := put_row ra_id target r (role_accounts d)\<rparr>)"
    using schema_ok_parts(4) [OF assms(1)] fk_ok_mono [OF _ keys(2)]
    unfolding connections_ok_def by (auto elim!: list_all_mono)
  ultimately show ?thesis
    using assms(1) by (simp add: schema_ok_def configurations_ok_def route_inits_ok_def
        static_routes_ok_def jobs_ok_def transactions_ok_def)
qed

lemma schema_put_proxy:
  assumes "schema_ok d" and "1 \<le> px_port p \<and> px_port p \<le> 65535" and "px_type p \<in> set proxy_types"
    and "fk_ok (px_role_account_id p) (map ra_id (role_accounts d))"
    and "fresh_or_update target (px_id p) (map px_id (proxies d))"
  shows "schema_ok (d\<lparr>proxies := put_row px_id target p (proxies d)\<rparr>)"
proof -
  note keys = put_row_distinct [OF schema_okD(2) [OF assms(1)] assms(5)]
  have "proxies_ok (d\<lparr>proxies := put_row px_id target p (proxies d)\<rparr>)"
    using schema_ok_parts(3) [OF assms(1)] assms(2-4) keys(1) unfolding proxies_ok_def
    by (auto intro!: list_all_put_row)
  moreover have "connections_ok (d\<lparr>proxies := put_row px_id target p (proxies d)\<rparr>)"
    using schema_ok_parts(4) [OF assms(1)] fk_ok_mono [OF _ keys(2)]
    unfolding connections_ok_def by (auto elim!: list_all_mono)
  ultimately show ?thesis
    using assms(1) by (simp add: schema_ok_def configurations_ok_def role_accounts_ok_def
        route_inits_ok_def static_routes_ok_def jobs_ok_def transactions_ok_def)
qed

lemma schema_put_connection:
  assumes "schema_ok d" and "1 \<le> cn_port c \<and> cn_port c \<le> 65535"
    and "1 \<le> cn_timeout_seconds c \<and> cn_timeout_seconds c \<le> 30"
    and "cn_protocol c \<in> set protocols"
    and "fk_ok (cn_role_account_id c) (map ra_id (role_accounts d))"
    and "fk_ok (cn_proxy_id c) (map px_id (proxies d))"
    and "fresh_or_update target (cn_id c) (map cn_id (connections d))"
  shows "schema_ok (d\<lparr>connections := put_row cn_id target c (connections d)\<rparr>)"
proof -
  note keys = put_row_distinct [OF schema_okD(3) [OF assms(1)] assms(7)]
  have "connections_ok (d\<lparr>connections := put_row cn_id target c (connections d)\<rparr>)"
    using schema_ok_parts(4) [OF assms(1)] assms(2-6) keys(1) unfolding connections_ok_def
    by (auto intro!: list_all_put_row)
  moreover have "route_inits_ok (d\<lparr>connections := put_row cn_id target c (connections d)\<rparr>)"
    using schema_ok_parts(5) [OF assms(1)] keys(2) unfolding route_inits_ok_def
    by (auto elim!: list_all_mono)
  moreover have "static_routes_ok (d\<lparr>connections := put_row cn_id target c (connections d)\<rparr>)"
    using schema_ok_parts(6) [OF assms(1)] keys(2) unfolding static_routes_ok_def
    by (auto elim!: list_all_mono)
  ultimately show ?thesis
    using assms(1) by (simp add: schema_ok_def configurations_ok_def role_accounts_ok_def
        proxies_ok_def jobs_ok_def transactions_ok_def)
qed

section \<open>Reading a profile back\<close>

lemma stored_profile_keys:
  assumes "unseal sv sec = Some (JObj s)" and "''connector'' \<notin> fst ` set s"
  shows "stored_profile sv cols conf sec = Inr (dmerge (dmerge cols conf) s)"
  using assms by (simp add: stored_profile_def decrypt_def dpop_other dget_not_dhas dhas_iff_key)

lemma secret_fields_no_connector: "keys_in secret_fields s \<Longrightarrow> ''connector'' \<notin> fst ` set s"
  by (auto simp: keys_in_iff secret_fields_def)

lemma stored_role_Inr:
  assumes "role_readable sv r"
  shows "\<exists>s. unseal sv (ra_secrets r) = Some (JObj s) \<and> keys_in secret_fields s
     \<and> stored_role sv r = Inr (dmerge (role_dict r) s)"
  using assms by (auto simp: role_readable_def opened_iff stored_role_def stored_profile_keys
      secret_fields_no_connector)

lemma stored_proxy_Inr:
  assumes "proxy_readable sv p"
  shows "\<exists>s. unseal sv (px_secrets p) = Some (JObj s) \<and> keys_in secret_fields s
     \<and> stored_proxy sv p = Inr (dmerge (dmerge (proxy_dict p) (px_configuration p)) s)"
  using assms by (auto simp: proxy_readable_def opened_iff stored_proxy_def stored_profile_keys
      secret_fields_no_connector)

lemma stored_profile_total:
  assumes "unseal sv sec = Some (JObj s)" and "connectors_in ks s"
    and "connectors_in ks cols" and "connectors_in ks conf"
  shows "\<exists>p. stored_profile sv cols conf sec = Inr p \<and> connectors_in ks p
     \<and> fst ` set p \<subseteq> fst ` set cols \<union> fst ` set conf \<union> fst ` set s
     \<and> (\<forall>k. k \<notin> fst ` set conf \<union> fst ` set s \<longrightarrow> dget p k = dget cols k)"
proof -
  define r where "r = dmerge (dmerge cols conf) (dpop ''connector'' s)"
  have keys_r: "fst ` set r \<subseteq> fst ` set cols \<union> fst ` set conf \<union> fst ` set s"
    by (auto simp: r_def keys_dmerge keys_dpop)
  have get_r: "dget r k = dget cols k" if "k \<notin> fst ` set conf \<union> fst ` set s" for k
    using that by (simp add: r_def dget_dmerge_other keys_dpop)
  have in_r: "connectors_in ks r"
    unfolding r_def using assms(2-4) set_dpop [of "''connector''" s]
    by (intro connectors_in_dmerge) (auto intro: connectors_in_mono)
  show ?thesis
  proof (cases "truthy (dget s ''connector'')")
    case False
    then have "stored_profile sv cols conf sec = Inr r"
      using assms(1) by (simp add: stored_profile_def decrypt_def Let_def r_def)
    then show ?thesis using keys_r get_r in_r by blast
  next
    case True
    then have has: "dhas s ''connector''" by (rule dhas_truthy)
    then obtain cs where cs: "dget s ''connector'' = JObj cs" and cs_in: "keys_in ks cs"
      using connectors_inD [OF assms(2)] by auto
    define q where "q = dsetdefault ''connector'' (JObj []) r"
    have in_q: "connectors_in ks q" and has_q: "dhas q ''connector''"
      using in_r by (auto simp: q_def dsetdefault_def keys_in_def intro!: connectors_in_dset)
    then obtain c where c: "dget q ''connector'' = JObj c" and c_in: "keys_in ks c"
      using connectors_inD by blast
    let ?p = "dset ''connector'' (JObj (dmerge c cs)) q"
    have "stored_profile sv cols conf sec = Inr ?p"
      using assms(1) True cs c
      by (simp add: stored_profile_def decrypt_def Let_def r_def q_def)
    moreover have "connectors_in ks ?p"
      using in_q c_in cs_in by (auto intro!: connectors_in_dset simp: keys_in_iff keys_dmerge)
    moreover have key_c: "''connector'' \<in> fst ` set s"
      using has by (simp add: dhas_iff_key)
    then have "fst ` set ?p \<subseteq> fst ` set cols \<union> fst ` set conf \<union> fst ` set s"
      using keys_r by (auto simp: q_def dsetdefault_def keys_dset)
    moreover have "dget ?p k = dget cols k" if "k \<notin> fst ` set conf \<union> fst ` set s" for k
      using that get_r [OF that] key_c by (auto simp: q_def dsetdefault_def)
    ultimately show ?thesis by blast
  qed
qed

lemma stored_connection_Inr:
  assumes "conn_readable sv c"
  shows "\<exists>p. stored_connection sv c = Inr p \<and> connectors_in connector_fields p
     \<and> fst ` set p \<subseteq> fst ` set (conn_dict c) \<union> {''client_type'', ''connector''} \<union> set trust_fields \<union> set secret_fields
     \<and> dget p ''id'' = JStr (cn_id c) \<and> dget p ''role_account_id'' = opt_str (cn_role_account_id c)
     \<and> dget p ''proxy_id'' = opt_str (cn_proxy_id c)"
proof -
  from assms obtain s where s: "unseal sv (cn_secrets c) = Some (JObj s)"
    "keys_in (''connector'' # secret_fields) s" "connectors_in connector_fields s"
    and conf: "keys_in (''client_type'' # ''connector'' # trust_fields) (cn_configuration c)"
      "connectors_in connector_fields (cn_configuration c)"
    by (auto simp: conn_readable_def opened_iff)
  have "connectors_in connector_fields (conn_dict c)"
    by (rule connectors_in_none) (simp add: conn_dict_def)
  from stored_profile_total [OF s(1) s(3) this conf(2)] obtain p
    where p: "stored_connection sv c = Inr p" "connectors_in connector_fields p"
      "fst ` set p \<subseteq> fst ` set (conn_dict c) \<union> fst ` set (cn_configuration c) \<union> fst ` set s"
    and get: "\<And>k. k \<notin> fst ` set (cn_configuration c) \<union> fst ` set s \<Longrightarrow> dget p k = dget (conn_dict c) k"
    by (auto simp: stored_connection_def)
  have other: "k \<notin> fst ` set (cn_configuration c) \<union> fst ` set s"
    if "k \<in> {''id'', ''role_account_id'', ''proxy_id''}" for k
    using that s(2) conf(1) by (auto simp: keys_in_iff secret_fields_def trust_fields_def)
  have "dget p ''id'' = JStr (cn_id c)" "dget p ''role_account_id'' = opt_str (cn_role_account_id c)"
    "dget p ''proxy_id'' = opt_str (cn_proxy_id c)"
    using get [OF other] by (simp_all add: conn_dict_def dget_Cons)
  moreover have "fst ` set p \<subseteq> fst ` set (conn_dict c) \<union> {''client_type'', ''connector''} \<union> set trust_fields \<union> set secret_fields"
    using p(3) s(2) conf(1) unfolding keys_in_iff by (simp only: list.set) blast
  ultimately show ?thesis using p by blast
qed

lemma role_credentials_Inr:
  assumes "i \<in> ra_id ` set (role_accounts d)" and "list_all (role_readable sv) (role_accounts d)"
  shows "\<exists>c. role_credentials sv d (JStr i) = Inr c
     \<and> fst ` set c \<subseteq> {''username'', ''authentication_type''} \<union> set secret_fields"
proof -
  obtain r where r: "lookup_row ra_id (JStr i) (role_accounts d) = Inr r"
    using lookup_row_Inl [of ra_id i "role_accounts d"] assms(1)
    by (cases "lookup_row ra_id (JStr i) (role_accounts d)") auto
  then have "role_readable sv r"
    using assms(2) by (auto simp: list_all_iff dest: lookup_row_InrD)
  then obtain s where "unseal sv (ra_secrets r) = Some (JObj s)" "keys_in secret_fields s"
    by (auto simp: role_readable_def opened_iff)
  then show ?thesis
    using r by (auto simp: role_credentials_def decrypt_def keys_dmerge keys_in_iff)
qed

lemma with_role_Inr:
  assumes "dget p ''role_account_id'' = opt_str ref" and "fk_ok ref (map ra_id (role_accounts d))"
    and "list_all (role_readable sv) (role_accounts d)"
  shows "\<exists>q. with_role sv d p = Inr q
     \<and> (\<exists>c. q = dmerge p c \<and> fst ` set c \<subseteq> {''username'', ''authentication_type''} \<union> set secret_fields)"
proof (cases "truthy (opt_str ref)")
  case False
  then show ?thesis using assms(1) by (auto simp: with_role_def intro!: exI [of _ "[]"])
next
  case True
  then obtain i where ref: "ref = Some i" by (cases ref) auto
  then have "i \<in> ra_id ` set (role_accounts d)" using assms(2) by (simp add: fk_ok_def)
  from role_credentials_Inr [OF this assms(3)] show ?thesis
    using True assms(1) ref by (auto simp: with_role_def)
qed

text \<open>
  A resolved profile with at most one level of connector has a public view.
\<close>

lemma public_runtime_flat:
  "''connector'' \<notin> fst ` set p \<Longrightarrow> public_runtime p =
     Inr (dset ''password_configured'' (JBool (truthy (dget p ''password''))) (public_dict p))"
  by (simp add: public_runtime.simps [of p] dhas_iff_key [symmetric] dhas_def Let_def)

lemma public_runtime_nested:
  assumes "dget p ''connector'' = JObj c" and "''connector'' \<notin> fst ` set c"
  shows "\<exists>q. public_runtime p = Inr (dset ''connector'' (JObj q)
     (dset ''password_configured'' (JBool (truthy (dget p ''password''))) (public_dict p)))"
proof -
  have "map_of p ''connector'' = Some (JObj c)"
    using assms(1) by (auto simp: dget_def split: option.splits)
  then show ?thesis
    using public_runtime_flat [OF assms(2)] by (auto simp: public_runtime.simps [of p] Let_def)
qed

lemma not_connector [simp]: "''connector'' \<notin> set secret_fields" "''id'' \<notin> set secret_fields"
  "''connector'' \<notin> set connector_fields" "''connector'' \<notin> set trust_fields"
  "''id'' \<notin> set trust_fields" "''role_account_id'' \<notin> set secret_fields"
  "''role_account_id'' \<notin> set trust_fields"
  "''proxy_id'' \<notin> set secret_fields" "''proxy_id'' \<notin> set trust_fields"
  by (simp_all add: secret_fields_def connector_fields_def trust_fields_def)

lemma resolve_proxy_Inr:
  assumes "schema_ok d" and "readable sv d" and "p \<in> set (proxies d)"
  shows "\<exists>q. resolve_proxy sv d p = Inr q \<and> ''connector'' \<notin> fst ` set q \<and> dget q ''id'' = JStr (px_id p)"
proof -
  have pr: "proxy_readable sv p" and roles: "list_all (role_readable sv) (role_accounts d)"
    using assms(2,3) by (auto simp: readable_def list_all_iff)
  have fk: "fk_ok (px_role_account_id p) (map ra_id (role_accounts d))"
    using assms(1,3) by (auto simp: schema_ok_def proxies_ok_def list_all_iff)
  obtain s where s: "keys_in secret_fields s"
    "stored_proxy sv p = Inr (dmerge (dmerge (proxy_dict p) (px_configuration p)) s)"
    using stored_proxy_Inr [OF pr] by auto
  let ?q = "dmerge (dmerge (proxy_dict p) (px_configuration p)) s"
  have conf: "fst ` set (px_configuration p) \<subseteq> set trust_fields"
    using pr by (simp add: proxy_readable_def keys_in_iff)
  have other: "dget ?q k = dget (proxy_dict p) k"
    if "k \<notin> set secret_fields" "k \<notin> set trust_fields" for k
    using that s(1) conf by (subst dget_dmerge_other, force simp: keys_in_iff)+ simp
  have "dget ?q ''role_account_id'' = opt_str (px_role_account_id p)"
    by (simp add: other) (simp add: proxy_dict_def dget_Cons)
  from with_role_Inr [OF this fk roles] obtain c where c: "resolve_proxy sv d p = Inr (dmerge ?q c)"
    "fst ` set c \<subseteq> {''username'', ''authentication_type''} \<union> set secret_fields"
    using s(2) by (auto simp: resolve_proxy_def)
  have "''connector'' \<notin> fst ` set (dmerge ?q c)"
    using c(2) s(1) conf by (auto simp: keys_dmerge keys_in_iff proxy_dict_def dest!: subsetD)
  moreover have "dget (dmerge ?q c) ''id'' = JStr (px_id p)"
  proof -
    have "''id'' \<notin> fst ` set c" using c(2) by (rule subset_not_in) simp
    then show ?thesis by (simp add: dget_dmerge_other other) (simp add: proxy_dict_def dget_Cons)
  qed
  ultimately show ?thesis using c(1) by blast
qed

lemma resolve_connection_Inr:
  assumes "schema_ok d" and "readable sv d" and "c \<in> set (connections d)"
  shows "\<exists>q cc. resolve_connection_in sv d (JStr (cn_id c)) = Inr q
     \<and> dget q ''connector'' = JObj cc \<and> ''connector'' \<notin> fst ` set cc \<and> dget q ''id'' = JStr (cn_id c)"
proof -
  have cr: "conn_readable sv c" and roles: "list_all (role_readable sv) (role_accounts d)"
    using assms(2,3) by (auto simp: readable_def list_all_iff)
  have fks: "fk_ok (cn_role_account_id c) (map ra_id (role_accounts d))"
    "fk_ok (cn_proxy_id c) (map px_id (proxies d))"
    using assms(1,3) by (auto simp: schema_ok_def connections_ok_def list_all_iff)
  have row: "lookup_row cn_id (JStr (cn_id c)) (connections d) = Inr c"
    using schema_okD(3) [OF assms(1)] assms(3) by (simp add: lookup_row_Inr)
  obtain p0 where p0: "stored_connection sv c = Inr p0" "connectors_in connector_fields p0"
    "dget p0 ''id'' = JStr (cn_id c)" "dget p0 ''role_account_id'' = opt_str (cn_role_account_id c)"
    "dget p0 ''proxy_id'' = opt_str (cn_proxy_id c)"
    using stored_connection_Inr [OF cr] by blast
  define p where "p = dsetdefault ''client_type'' (JStr ''network'') p0"
  have p: "connectors_in connector_fields p" "dget p ''id'' = JStr (cn_id c)"
    "dget p ''role_account_id'' = opt_str (cn_role_account_id c)"
    "dget p ''proxy_id'' = opt_str (cn_proxy_id c)"
    using p0 by (auto simp: p_def dsetdefault_def intro: connectors_in_dset)
  from with_role_Inr [OF p(3) fks(1) roles] obtain cr where q: "with_role sv d p = Inr (dmerge p cr)"
    and cr_keys: "fst ` set cr \<subseteq> {''username'', ''authentication_type''} \<union> set secret_fields" by auto
  have no: "k \<notin> fst ` set cr" if "k \<in> {''connector'', ''id'', ''proxy_id''}" for k
    by (rule subset_not_in [OF cr_keys]) (use that in auto)
  let ?q = "dmerge p cr"
  have q_get: "dget ?q ''id'' = JStr (cn_id c)" "dget ?q ''proxy_id'' = opt_str (cn_proxy_id c)"
    using p no by (simp_all add: dget_dmerge_other)
  have q_in: "connectors_in connector_fields ?q"
    using p(1) by (rule connectors_in_dmerge) (simp add: connectors_in_none no)
  have unfold: "resolve_connection_in sv d (JStr (cn_id c)) =
     bindE (if truthy (opt_str (cn_proxy_id c))
        then bindE (lookup_row px_id (opt_str (cn_proxy_id c)) (proxies d)) (\<lambda>prow.
             bindE (resolve_proxy sv d prow) (\<lambda>c. Inr (dset ''connector'' (JObj c) ?q)))
        else Inr ?q) (\<lambda>profile.
     Inr (dsetdefault ''connector'' (JObj [(''type'', JStr ''direct'')]) profile))"
    by (simp add: resolve_connection_in_def row p0(1) p_def [symmetric] q q_get)
  show ?thesis
  proof (cases "truthy (opt_str (cn_proxy_id c))")
    case True
    then obtain i where i: "cn_proxy_id c = Some i" by (cases "cn_proxy_id c") auto
    then obtain pr where pr: "pr \<in> set (proxies d)" "px_id pr = i"
      using fks(2) by (auto simp: fk_ok_def)
    then have "lookup_row px_id (JStr i) (proxies d) = Inr pr"
      using schema_okD(2) [OF assms(1)] by (simp add: lookup_row_Inr)
    moreover obtain r where "resolve_proxy sv d pr = Inr r" "''connector'' \<notin> fst ` set r"
      using resolve_proxy_Inr [OF assms(1,2) pr(1)] by auto
    ultimately show ?thesis
      using True i q_get(1) by (simp add: unfold dsetdefault_def)
  next
    case False
    show ?thesis
    proof (cases "dhas ?q ''connector''")
      case True
      then show ?thesis
        using connectors_inD [OF q_in True] False q_get(1)
        by (auto simp: unfold dsetdefault_def keys_in_iff)
    next
      case has: False
      then show ?thesis
        using False q_get(1) by (simp add: unfold dsetdefault_def)
    qed
  qed
qed

section \<open>The store invariant\<close>

definition profiles_ok :: "services \<Rightarrow> db \<Rightarrow> bool" where
  "profiles_ok sv d \<longleftrightarrow> schema_ok d \<and> readable sv d"

lemma lookup_row_self:
  "distinct (map key rows) \<Longrightarrow> r \<in> set rows \<Longrightarrow> lookup_row key (JStr (key r)) rows = Inr r"
  by (simp add: lookup_row_Inr)

lemma get_public_total:
  assumes "profiles_ok sv d" and "i \<in> set (row_keys res d)"
  shows "\<exists>p. get_public sv res (JStr i) d = Inr p \<and> dget p ''id'' = JStr i"
proof (cases res)
  case RoleAccounts
  then obtain r where r: "r \<in> set (role_accounts d)" "ra_id r = i"
    using assms(2) by (auto simp: row_keys_def)
  moreover have "lookup_row ra_id (JStr i) (role_accounts d) = Inr r"
    using r assms(1) schema_okD(1) by (auto simp: profiles_ok_def lookup_row_Inr)
  moreover obtain s where "unseal sv (ra_secrets r) = Some (JObj s)"
    using r(1) assms(1) by (auto simp: profiles_ok_def readable_def list_all_iff role_readable_def opened_iff)
  ultimately show ?thesis
    using RoleAccounts by (simp add: get_public_def public_role_def decrypt_def role_dict_def dget_Cons)
next
  case Proxies
  then obtain r where r: "r \<in> set (proxies d)" "px_id r = i"
    using assms(2) by (auto simp: row_keys_def)
  moreover have "lookup_row px_id (JStr i) (proxies d) = Inr r"
    using r assms(1) schema_okD(2) by (auto simp: profiles_ok_def lookup_row_Inr)
  moreover obtain q where "resolve_proxy sv d r = Inr q" "''connector'' \<notin> fst ` set q"
    "dget q ''id'' = JStr i"
    using resolve_proxy_Inr [of d sv r] r assms(1) by (auto simp: profiles_ok_def)
  ultimately show ?thesis
    using Proxies
    by (simp add: get_public_def public_proxy_def public_runtime_flat dget_public_dict)
next
  case Connections
  then obtain r where r: "r \<in> set (connections d)" "cn_id r = i"
    using assms(2) by (auto simp: row_keys_def)
  moreover have "lookup_row cn_id (JStr i) (connections d) = Inr r"
    using r assms(1) schema_okD(3) by (auto simp: profiles_ok_def lookup_row_Inr)
  moreover obtain q cc where q: "resolve_connection_in sv d (JStr (cn_id r)) = Inr q"
    "dget q ''connector'' = JObj cc" "''connector'' \<notin> fst ` set cc" "dget q ''id'' = JStr i"
    using resolve_connection_Inr [of d sv r] r assms(1) by (auto simp: profiles_ok_def)
  moreover obtain v where "public_runtime q = Inr (dset ''connector'' (JObj v)
     (dset ''password_configured'' (JBool (truthy (dget q ''password''))) (public_dict q)))"
    using public_runtime_nested [OF q(2,3)] by blast
  ultimately show ?thesis
    using Connections by (simp add: get_public_def public_connection_def dget_public_dict)
qed

section \<open>What a save can refuse\<close>

text \<open>On a consistent store the previous profile of an update is always found or refused with 404.\<close>

lemma refuses_previous_of:
  assumes "404 \<in> N" and "\<And>r. r \<in> set rows \<Longrightarrow> \<exists>p. stored r = Inr p"
  shows "refuses N (previous_of key stored target rows)"
  using assms(1) unfolding previous_of_def
  by (auto intro!: refusal split: option.splits)
    (use assms(2) in \<open>force simp: refuses_def dest!: lookup_row_InrD\<close>)

lemma refuses_accept_key [refusal]: "400 \<in> N \<Longrightarrow> refuses N (accept_key sv k p)"
  by (simp add: accept_key_def bad_def refuses_check)

lemma refuses_save_role: "refuses {400, 404} (save_role sv i payload previous)"
  unfolding save_role_def password_secrets_def key_secrets_def credential_texts_def Let_def bad_def
  by (intro refusal) simp_all

lemma refuses_inline [refusal]: "400 \<in> N \<Longrightarrow> refuses N (inline_credentials p payload)"
  unfolding inline_credentials_def Let_def bad_def by (intro refusal) simp_all

lemma refuses_base_profile: "refuses {400, 404} (base_profile d payload previous)"
  unfolding base_profile_def Let_def bad_def by (intro refusal) simp_all

lemma refuses_save_connector:
  assumes "\<exists>p. previous = JNull \<or> previous = JObj p"
  shows "refuses {400, 404} (save_connector sv given previous)"
proof -
  have "refuses {400, 404} (if truthy previous then as_dict previous else Inr [])"
    using assms by (auto simp: refuses_def)
  then show ?thesis
    unfolding save_connector_def Let_def bad_def by (intro refusal) simp_all
qed

lemma refuses_save_proxy: "refuses {400, 404} (save_proxy sv d i payload previous)"
  unfolding save_proxy_def Let_def bad_def by (intro refusal refuses_base_profile) simp_all

lemma refuses_save_connection:
  assumes "connectors_in ks previous"
  shows "refuses {400, 404} (save_connection sv d i payload previous)"
proof -
  have "\<exists>p. (if dhas payload ''connector'' then dget previous ''connector'' else JNull) = JNull
     \<or> (if dhas payload ''connector'' then dget previous ''connector'' else JNull) = JObj p"
    using connectors_inD [OF assms] by (cases "dhas previous ''connector''") (auto simp: dget_not_dhas)
  note conn = refuses_save_connector [OF this]
  have "refuses {400, 404} (case x of (conf, sec) \<Rightarrow> Inr (f conf sec))" for x :: "dict \<times> dict" and f
    by (cases x) (simp add: refuses_Inr)
  then show ?thesis
    unfolding save_connection_def proxy_or_connector_def Let_def bad_def
    by (intro refusal refuses_base_profile conn) simp_all
qed

lemma refuses_execute: "schema_ok d \<Longrightarrow> refuses N (execute d)"
  by (simp add: refuses_Inr)

lemma fresh_key:
  "(target = None \<longrightarrow> fresh \<notin> set ks) \<Longrightarrow> fresh_or_update target (key_of target fresh) ks"
  by (auto simp: fresh_or_update_def key_of_def split: option.splits)

lemma previous_of_connectors:
  assumes "readable sv d" and "previous_of cn_id (stored_connection sv) target (connections d) = Inr previous"
  shows "connectors_in connector_fields previous"
proof (cases target)
  case None
  then show ?thesis using assms(2) by (simp add: previous_of_def connectors_in_def)
next
  case (Some i)
  then obtain c where "c \<in> set (connections d)" "stored_connection sv c = Inr previous"
    using assms(2) by (auto simp: previous_of_def result_simps dest!: lookup_row_InrD)
  then show ?thesis
    using stored_connection_Inr [of sv c] assms(1) by (auto simp: readable_def list_all_iff)
qed

lemma previous_of_found:
  "previous_of key stored target rows = Inr p \<Longrightarrow> target = Some i \<Longrightarrow> i \<in> set (map key rows)"
  by (auto simp: previous_of_def result_simps dest!: lookup_row_InrD)

lemma put_row_has:
  assumes "key row = key_of target fresh"
    and "\<And>i. target = Some i \<Longrightarrow> i \<in> set (map key rows)"
  shows "key_of target fresh \<in> set (map key (put_row key target row rows))"
proof -
  have "map key (put_row key target row rows) = map key rows @ (if target = None then [key row] else [])"
    using assms(1) by (intro put_row_keys) (auto simp: key_of_def)
  then show ?thesis using assms by (auto simp: key_of_def split: option.splits)
qed

text \<open>
  The statement of a save on a consistent store: the schema never refuses it, the row is there
  afterwards, and the store stays consistent.
\<close>

lemma write_row_keeps:
  assumes "write_row sv fresh res payload target d = Inr d'" and "profiles_ok sv d" and "vault_law sv"
  shows "profiles_ok sv d'" and "key_of target fresh \<in> set (row_keys res d')"
proof -
  let ?i = "key_of target fresh"
  have rd: "readable sv d"
    and rds: "list_all (role_readable sv) (role_accounts d)" "list_all (proxy_readable sv) (proxies d)"
    "list_all (conn_readable sv) (connections d)"
    using assms(2) by (simp_all add: profiles_ok_def readable_def)
  have "profiles_ok sv d' \<and> ?i \<in> set (row_keys res d')"
  proof (cases res)
    case RoleAccounts
    with assms(1) obtain previous row where row: "save_role sv ?i payload previous = Inr row"
      and prev: "previous_of ra_id (stored_role sv) target (role_accounts d) = Inr previous"
      and d': "d' = d\<lparr>role_accounts := put_row ra_id target row (role_accounts d)\<rparr>" "schema_ok d'"
      by (auto simp: write_row_def Let_def result_simps execute_eq_Inr)
    then have "role_readable sv row"
      using save_role_Inr(3) assms(3) by (fastforce simp: role_readable_def)
    moreover have "?i \<in> set (map ra_id (role_accounts d'))"
      using put_row_has [of ra_id row target fresh "role_accounts d"] save_role_Inr(1) [OF row]
        previous_of_found [OF prev] d'(1) by simp
    ultimately show ?thesis
      using d' rds RoleAccounts by (simp add: profiles_ok_def readable_def list_all_put_row row_keys_def)
  next
    case Proxies
    with assms(1) obtain previous row where row: "save_proxy sv d ?i payload previous = Inr row"
      and prev: "previous_of px_id (stored_proxy sv) target (proxies d) = Inr previous"
      and d': "d' = d\<lparr>proxies := put_row px_id target row (proxies d)\<rparr>" "schema_ok d'"
      by (auto simp: write_row_def Let_def result_simps execute_eq_Inr)
    then have "proxy_readable sv row"
      using save_proxy_Inr(5,6) assms(3) by (fastforce simp: proxy_readable_def)
    moreover have "?i \<in> set (map px_id (proxies d'))"
      using put_row_has [of px_id row target fresh "proxies d"] save_proxy_Inr(1) [OF row]
        previous_of_found [OF prev] d'(1) by simp
    ultimately show ?thesis
      using d' rds Proxies by (simp add: profiles_ok_def readable_def list_all_put_row row_keys_def)
  next
    case Connections
    with assms(1) obtain previous row where row: "save_connection sv d ?i payload previous = Inr row"
      and prev: "previous_of cn_id (stored_connection sv) target (connections d) = Inr previous"
      and d': "d' = d\<lparr>connections := put_row cn_id target row (connections d)\<rparr>" "schema_ok d'"
      by (auto simp: write_row_def Let_def result_simps execute_eq_Inr)
    have "conn_readable sv row"
      by (rule save_connection_Inr(7) [OF row previous_of_connectors [OF rd prev] assms(3)])
    moreover have "?i \<in> set (map cn_id (connections d'))"
      using put_row_has [of cn_id row target fresh "connections d"]
        save_connection_Inr(1) [OF row previous_of_connectors [OF rd prev]]
        previous_of_found [OF prev] d'(1) by simp
    ultimately show ?thesis
      using d' rds Connections by (simp add: profiles_ok_def readable_def list_all_put_row row_keys_def)
  qed
  then show "profiles_ok sv d'" and "?i \<in> set (row_keys res d')" by simp_all
qed

lemma write_row_refusals:
  assumes "profiles_ok sv d" and "target = None \<longrightarrow> fresh \<notin> set (row_keys res d)"
  shows "refuses {400, 404} (write_row sv fresh res payload target d)"
proof -
  let ?i = "key_of target fresh"
  have ok: "schema_ok d" and rd: "readable sv d"
    using assms(1) by (simp_all add: profiles_ok_def)
  have rows: "r \<in> set (role_accounts d) \<Longrightarrow> \<exists>p. stored_role sv r = Inr p"
    "p \<in> set (proxies d) \<Longrightarrow> \<exists>q. stored_proxy sv p = Inr q"
    "c \<in> set (connections d) \<Longrightarrow> \<exists>q. stored_connection sv c = Inr q" for r p c
    using rd stored_role_Inr [of sv r] stored_proxy_Inr [of sv p] stored_connection_Inr [of sv c]
    by (auto simp: readable_def list_all_iff)
  note key = fresh_key [OF assms(2)]
  show ?thesis
  proof (cases res)
    case RoleAccounts
    have "refuses {400, 404} (bindE (previous_of ra_id (stored_role sv) target (role_accounts d)) (\<lambda>previous.
           bindE (save_role sv ?i payload previous) (\<lambda>row.
           execute (d\<lparr>role_accounts := put_row ra_id target row (role_accounts d)\<rparr>))))"
      using RoleAccounts key
      by (intro refuses_bindE refuses_previous_of refuses_save_role refuses_execute schema_put_role [OF ok])
        (auto simp: row_keys_def save_role_Inr(1) rows dest: save_role_Inr(2))
    then show ?thesis using RoleAccounts by (simp add: write_row_def)
  next
    case Proxies
    have "refuses {400, 404} (bindE (previous_of px_id (stored_proxy sv) target (proxies d)) (\<lambda>previous.
           bindE (save_proxy sv d ?i payload previous) (\<lambda>row.
           execute (d\<lparr>proxies := put_row px_id target row (proxies d)\<rparr>))))"
      using Proxies key
      by (intro refuses_bindE refuses_previous_of refuses_save_proxy refuses_execute schema_put_proxy [OF ok])
        (auto simp: row_keys_def save_proxy_Inr(1) rows dest: save_proxy_Inr(2-4))
    then show ?thesis using Proxies by (simp add: write_row_def)
  next
    case Connections
    have "refuses {400, 404} (bindE (previous_of cn_id (stored_connection sv) target (connections d)) (\<lambda>previous.
           bindE (save_connection sv d ?i payload previous) (\<lambda>row.
           execute (d\<lparr>connections := put_row cn_id target row (connections d)\<rparr>))))"
    proof (intro refuses_bindE refuses_previous_of refuses_execute)
      fix previous row
      assume "previous_of cn_id (stored_connection sv) target (connections d) = Inr previous"
      note prev = previous_of_connectors [OF rd this]
      then show "refuses {400, 404} (save_connection sv d ?i payload previous)"
        by (rule refuses_save_connection)
      assume row: "save_connection sv d ?i payload previous = Inr row"
      show "schema_ok (d\<lparr>connections := put_row cn_id target row (connections d)\<rparr>)"
        using save_connection_Inr(1-6) [OF row prev] key Connections
        by (intro schema_put_connection [OF ok]) (auto simp: row_keys_def)
    qed (auto simp: rows)
    then show ?thesis using Connections by (simp add: write_row_def)
  qed
qed

section \<open>Deletion\<close>

lemma schema_delete:
  assumes "schema_ok d" and "\<not> referenced res i d"
  shows "schema_ok (delete_row res i d)"
proof (cases res)
  case RoleAccounts
  have fk: "fk_ok r (map ra_id (filter (\<lambda>r. ra_id r \<noteq> i) (role_accounts d)))"
    if "fk_ok r (map ra_id (role_accounts d))" and "r \<noteq> Some i" for r
    using that by (auto simp: fk_ok_def split: option.splits)
  show ?thesis
    using assms RoleAccounts fk distinct_map_filter
    by (auto simp: schema_defs delete_row_def referenced_def list_all_iff list_ex_iff)
next
  case Proxies
  have fk: "fk_ok r (map px_id (filter (\<lambda>r. px_id r \<noteq> i) (proxies d)))"
    if "fk_ok r (map px_id (proxies d))" and "r \<noteq> Some i" for r
    using that by (auto simp: fk_ok_def split: option.splits)
  show ?thesis
    using assms Proxies fk distinct_map_filter
    by (auto simp: schema_defs delete_row_def referenced_def list_all_iff list_ex_iff)
next
  case Connections
  then show ?thesis
    using assms
      distinct_map_filter [of rt_id "static_routes d" "\<lambda>r. rt_connection_id r \<noteq> i"]
      distinct_map_filter [of "\<lambda>r. (rt_connection_id r, rt_destination r)" "static_routes d"
        "\<lambda>r. rt_connection_id r \<noteq> i"]
      distinct_map_filter [of cn_id "connections d" "\<lambda>c. cn_id c \<noteq> i"]
    by (auto simp: schema_defs delete_row_def list_all_iff)
qed

lemma readable_delete: "readable sv d \<Longrightarrow> readable sv (delete_row res i d)"
  by (auto simp: readable_def delete_row_def list_all_iff split: resource.splits)

lemma delete_body_exact:
  "schema_ok d \<Longrightarrow> delete_body res i d =
     (if i \<notin> set (row_keys res d) then Inl (StoreError (Store ResourceNotFound) 404)
      else if referenced res i d then Inl (StoreError (Store StillReferenced) 409)
      else Inr ((), delete_row res i d))"
  using schema_delete by (auto simp: delete_body_def)

section \<open>The profile component as a transactional system\<close>

datatype profile_command =
    SaveProfile resource dict "string option" string
  | DeleteProfile resource string

definition profile_step :: "services \<Rightarrow> profile_command \<Rightarrow> db \<Rightarrow> exn + (dict option \<times> db)" where
  "profile_step sv c d = (case c of
      SaveProfile res payload item_id fresh \<Rightarrow>
        bindE (save_body sv fresh res payload item_id d) (\<lambda>(p, d'). Inr (Some p, d'))
    | DeleteProfile res i \<Rightarrow> bindE (delete_body res i d) (\<lambda>(_, d'). Inr (None, d')))"

lemma save_body_keeps:
  assumes "save_body sv fresh res payload item_id d = Inr (p, d')" and "profiles_ok sv d" and "vault_law sv"
  shows "profiles_ok sv d'" and "dget p ''id'' = JStr (key_of (target_of item_id) fresh)"
    and "get_public sv res (dget p ''id'') d' = Inr p"
proof -
  let ?i = "key_of (target_of item_id) fresh"
  from assms(1) have w: "write_row sv fresh res payload (target_of item_id) d = Inr d'"
    and g: "get_public sv res (JStr ?i) d' = Inr p"
    by (auto simp: save_body_def Let_def result_simps)
  note keeps = write_row_keeps [OF w assms(2,3)]
  then show "profiles_ok sv d'" by simp
  from get_public_total [OF keeps] g show "dget p ''id'' = JStr ?i" by simp
  with g show "get_public sv res (dget p ''id'') d' = Inr p" by simp
qed

lemma profile_step_keeps:
  "vault_law sv \<Longrightarrow> profiles_ok sv d \<Longrightarrow> profile_step sv c d = Inr (x, d') \<Longrightarrow> profiles_ok sv d'"
proof (cases c)
  case (SaveProfile res payload item_id fresh)
  then show "vault_law sv \<Longrightarrow> profiles_ok sv d \<Longrightarrow> profile_step sv c d = Inr (x, d') \<Longrightarrow> profiles_ok sv d'"
    by (auto simp: profile_step_def result_simps dest: save_body_keeps(1))
next
  case (DeleteProfile res i)
  then show "vault_law sv \<Longrightarrow> profiles_ok sv d \<Longrightarrow> profile_step sv c d = Inr (x, d') \<Longrightarrow> profiles_ok sv d'"
    using schema_delete [of d res i] readable_delete [of sv d res i]
    by (auto simp: profile_step_def profiles_ok_def delete_body_exact split: if_splits)
qed

text \<open>
  The cipher is a parameter with a law; the system is interpreted for the services whose cipher
  satisfies it, and the invariant says so.
\<close>

interpretation profile_store: transactional_system "profile_step sv"
  "\<lambda>d. vault_law sv \<and> profiles_ok sv d" for sv
  by unfold_locales (auto dest: profile_step_keeps)

lemma profiles_ok_empty: "profiles_ok sv empty_db"
  by (simp add: profiles_ok_def) (simp add: readable_def empty_db_def)

section \<open>Properties\<close>

text \<open>
  Whatever sequence of saves and deletes runs against an empty store,
  failed ones included, the database satisfies its schema and every profile in it can be
  decrypted and read.
\<close>

theorem profiles_consistent:
  assumes "vault_law sv"
  shows "profiles_ok sv (foldl (\<lambda>d c. commit (profile_step sv c) d) empty_db commands)"
  using profile_store.run_inv [of sv empty_db commands] assms profiles_ok_empty by simp

text \<open>
  C6. A save that succeeds on a consistent open store leaves it consistent, and
  returns exactly what a \<open>get\<close> of the id it reports returns afterwards.
\<close>

theorem save_then_get:
  assumes "vault_law sv" and "profiles_ok sv (st_db st)"
    and "store_save sv dr name payload item_id st = Inr (p, st')"
  shows "profiles_ok sv (st_db st') \<and> store_get sv name (dget p ''id'') st' = Inr (p, st')
     \<and> dget p ''id'' = JStr (key_of (target_of item_id) (uuid4 dr 0))"
proof -
  from assms(3) obtain res payload' where t: "table_of name = Inr res"
    and s: "transaction (save_body sv (uuid4 dr 0) res payload' item_id) st = Inr (p, st')"
    by (auto simp: store_save_def result_simps)
  then have b: "save_body sv (uuid4 dr 0) res payload' item_id (st_db st) = Inr (p, st_db st')"
    and "\<not> st_closed st" and "st' = st\<lparr>st_db := st_db st'\<rparr>"
    by (auto simp: transaction_def split: if_splits sum.splits)
  then have "\<not> st_closed st'" by (metis store.select_convs(2) store.surjective store.update_convs(1))
  then show ?thesis
    using save_body_keeps [OF b assms(2,1)] t
    by (simp add: store_get_def transaction_def reading_def)
qed

text \<open>
  C3. On a consistent open store a save is accepted or refused with 400 or 404: the
  validators imply every constraint of the schema, so that the database never refuses a row
  that they accepted (409), no stored credential is undecryptable (503), and no other exception
  is raised. A new row needs an unused UUID.
\<close>

theorem save_refusals:
  assumes "vault_law sv" and "profiles_ok sv (st_db st)" and "\<not> st_closed st"
    and "table_of name = Inr res" and "uuid4 dr 0 \<notin> set (row_keys res (st_db st))"
  shows "refuses {400, 404} (store_save sv dr name payload item_id st)"
proof -
  have "refuses {400, 404} (save_body sv (uuid4 dr 0) res p item_id (st_db st))" for p
    unfolding save_body_def Let_def
  proof (rule refuses_bindE)
    show "refuses {400, 404} (write_row sv (uuid4 dr 0) res p (target_of item_id) (st_db st))"
      by (rule write_row_refusals) (use assms in auto)
    fix d' assume "write_row sv (uuid4 dr 0) res p (target_of item_id) (st_db st) = Inr d'"
    from get_public_total [OF write_row_keeps [OF this assms(2,1)]]
    show "refuses {400, 404} (bindE (get_public sv res (JStr (key_of (target_of item_id) (uuid4 dr 0))) d')
       (\<lambda>p. Inr (p, d')))"
      by (auto simp: refuses_def)
  qed
  then have "refuses {400, 404} (transaction (save_body sv (uuid4 dr 0) res p item_id) st)" for p
    using assms(3) by (fastforce simp: transaction_def refuses_def translate_def split: sum.splits)
  then show ?thesis
    using assms(4) by (auto simp: store_save_def intro!: refusal)
qed

text \<open>A payload and the store after it was saved, for the witnesses.\<close>

definition sample_role :: dict where
  "sample_role = [(''name'', JStr '' core ''), (''username'', JStr ''admin''),
     (''authentication_type'', JStr ''password''), (''password'', JStr ''s3cret'')]"

definition sample_role_row :: role_row where
  "sample_role_row = \<lparr>ra_id = ''0'', ra_name = ''core'', ra_username = ''admin'',
     ra_authentication_type = ''password'',
     ra_secrets = seal sample_services (JObj [(''password'', JStr ''s3cret'')])\<rparr>"

definition sample_public_role :: dict where
  "sample_public_role = [(''id'', JStr ''0''), (''name'', JStr ''core''),
     (''username'', JStr ''admin''), (''authentication_type'', JStr ''password''),
     (''password_configured'', JBool True), (''private_key_configured'', JBool False)]"

definition sample_store :: store where
  "sample_store = empty_store\<lparr>st_db := empty_db\<lparr>role_accounts := [sample_role_row]\<rparr>\<rparr>"

lemma sample_save: "store_save sample_services sample_draws ''role_accounts'' (JObj sample_role)
    None empty_store = Inr (sample_public_role, sample_store)"
  by code_simp

theorem profiles_consistent_witness:
  "profiles_ok sample_services (foldl (\<lambda>d c. commit (profile_step sample_services c) d) empty_db
     [SaveProfile RoleAccounts sample_role None ''0'', DeleteProfile RoleAccounts ''0''])"
  by (rule profiles_consistent [OF sample_services_law])

theorem save_then_get_witness:
  "profiles_ok sample_services (st_db sample_store)
     \<and> store_get sample_services ''role_accounts'' (JStr ''0'') sample_store = Inr (sample_public_role, sample_store)"
proof -
  have "profiles_ok sample_services (st_db empty_store)" by (simp add: profiles_ok_empty)
  note get = save_then_get [OF sample_services_law this sample_save]
  have id: "dget sample_public_role ''id'' = JStr ''0''" by code_simp
  from get show ?thesis unfolding id by blast
qed

theorem save_refusals_witness:
  "refuses {400, 404} (store_save sample_services sample_draws ''proxies''
     (JObj [(''name'', JStr ''edge''), (''port'', JInt 70000)]) None empty_store)"
proof (rule save_refusals [where res = Proxies, OF sample_services_law])
  show "profiles_ok sample_services (st_db empty_store)" by (simp add: profiles_ok_empty)
  show "\<not> st_closed empty_store" by simp
  show "table_of ''proxies'' = Inr Proxies" by code_simp
  show "uuid4 sample_draws 0 \<notin> set (row_keys Proxies (st_db empty_store))"
    by (simp add: row_keys_def empty_db_def)
qed

text \<open>
  On a consistent open store every \<open>list\<close> succeeds and reports every row of its
  table once, in the order of the names and then the ids; the store is unchanged.
\<close>

theorem reads_total:
  assumes "profiles_ok sv (st_db st)" and "\<not> st_closed st" and "table_of name = Inr res"
  shows "\<exists>l. store_list sv name st = Inr (l, st)
     \<and> map (\<lambda>p. dget p ''id'') l = map JStr (case res of
         RoleAccounts \<Rightarrow> map ra_id (sort_key (\<lambda>r. (ra_name r, ra_id r)) (role_accounts (st_db st)))
       | Proxies \<Rightarrow> map px_id (sort_key (\<lambda>p. (px_name p, px_id p)) (proxies (st_db st)))
       | Connections \<Rightarrow> map cn_id (sort_key (\<lambda>c. (cn_name c, cn_id c)) (connections (st_db st))))"
proof -
  let ?d = "st_db st"
  have pub: "\<exists>p. get_public sv res (JStr i) ?d = Inr p \<and> dget p ''id'' = JStr i"
    if "i \<in> set (row_keys res ?d)" for i res
    using get_public_total [OF assms(1) that] .
  have ok: "schema_ok ?d" using assms(1) by (simp add: profiles_ok_def)
  have all: "\<exists>ys. mapE f xs = Inr ys \<and> map (\<lambda>p. dget p ''id'') ys = map JStr (map key xs)"
    if "\<And>x. x \<in> set xs \<Longrightarrow> \<exists>p. f x = Inr p \<and> dget p ''id'' = JStr (key x)"
    for f :: "'r \<Rightarrow> exn + dict" and xs key
    using that
  proof (induction xs)
    case Nil
    then show ?case by simp
  next
    case (Cons x xs)
    then obtain y ys where "f x = Inr y" "dget y ''id'' = JStr (key x)" "mapE f xs = Inr ys"
      "map (\<lambda>p. dget p ''id'') ys = map JStr (map key xs)"
      by (metis list.set_intros)
    then show ?case by simp
  qed
  have role: "\<exists>p. public_role sv r = Inr p \<and> dget p ''id'' = JStr (ra_id r)"
    if "r \<in> set (role_accounts ?d)" for r
    using pub [of "ra_id r" RoleAccounts] that lookup_row_self [OF schema_okD(1) [OF ok] that]
    by (simp add: get_public_def row_keys_def)
  have proxy: "\<exists>p. public_proxy sv ?d r = Inr p \<and> dget p ''id'' = JStr (px_id r)"
    if "r \<in> set (proxies ?d)" for r
    using pub [of "px_id r" Proxies] that lookup_row_self [OF schema_okD(2) [OF ok] that]
    by (simp add: get_public_def row_keys_def)
  have conn: "\<exists>p. public_connection sv ?d r = Inr p \<and> dget p ''id'' = JStr (cn_id r)"
    if "r \<in> set (connections ?d)" for r
    using pub [of "cn_id r" Connections] that lookup_row_self [OF schema_okD(3) [OF ok] that]
    by (simp add: get_public_def row_keys_def)
  obtain l where "list_public sv res ?d = Inr l" and "map (\<lambda>p. dget p ''id'') l = map JStr (case res of
         RoleAccounts \<Rightarrow> map ra_id (sort_key (\<lambda>r. (ra_name r, ra_id r)) (role_accounts ?d))
       | Proxies \<Rightarrow> map px_id (sort_key (\<lambda>p. (px_name p, px_id p)) (proxies ?d))
       | Connections \<Rightarrow> map cn_id (sort_key (\<lambda>c. (cn_name c, cn_id c)) (connections ?d)))"
    using all [of "sort_key (\<lambda>r. (ra_name r, ra_id r)) (role_accounts ?d)" "public_role sv" ra_id, OF role]
      all [of "sort_key (\<lambda>r. (px_name r, px_id r)) (proxies ?d)" "public_proxy sv ?d" px_id, OF proxy]
      all [of "sort_key (\<lambda>r. (cn_name r, cn_id r)) (connections ?d)" "public_connection sv ?d" cn_id, OF conn]
    by (cases res) (auto simp: list_public_def)
  then show ?thesis
    using assms(2,3) by (simp add: store_list_def transaction_def reading_def)
qed

theorem reads_total_witness:
  "\<exists>l. store_list sample_services ''role_accounts'' sample_store = Inr (l, sample_store)
     \<and> map (\<lambda>p. dget p ''id'') l = [JStr ''0'']"
proof -
  have "profiles_ok sample_services (st_db sample_store)" and "\<not> st_closed sample_store"
    by code_simp+
  moreover have "table_of ''role_accounts'' = Inr RoleAccounts" by code_simp
  ultimately show ?thesis
    using reads_total [of sample_services sample_store "''role_accounts''" RoleAccounts]
    by (simp add: sample_store_def sample_role_row_def)
qed

lemma all_keys_dset: "all_keys (JObj (dset k v d)) \<subseteq> insert k (all_keys v \<union> all_keys (JObj d))"
  using set_dset [of k v d] by (auto simp: image_iff)

lemma all_keys_dset_disjoint:
  "k \<notin> S \<Longrightarrow> all_keys v \<inter> S = {} \<Longrightarrow> all_keys (JObj d) \<inter> S = {} \<Longrightarrow> all_keys (JObj (dset k v d)) \<inter> S = {}"
  using all_keys_dset [of k v d] by blast

lemma public_runtime_no_secret:
  "public_runtime p = Inr q \<Longrightarrow> all_keys (JObj q) \<inter> set secret_fields = {}"
proof (induction p arbitrary: q rule: public_runtime.induct)
  case (1 profile)
  let ?r = "dset ''password_configured'' (JBool (truthy (dget profile ''password''))) (public_dict profile)"
  have "all_keys (JObj (public_dict profile)) \<inter> set secret_fields = {}"
    using public_fields_keys [of "JObj profile"] by (simp only: public_fields_obj)
  moreover have "''password_configured'' \<notin> set secret_fields" by (simp add: secret_fields_def)
  ultimately have r: "all_keys (JObj ?r) \<inter> set secret_fields = {}"
    by (intro all_keys_dset_disjoint) simp_all
  show ?case
  proof (cases "map_of profile ''connector''")
    case None
    then show ?thesis using 1 r by (simp add: public_runtime.simps [of profile] Let_def)
  next
    case (Some v)
    with 1(2) obtain c c' where v: "v = JObj c" "public_runtime c = Inr c'"
      and q: "q = dset ''connector'' (JObj c') ?r"
      by (cases v) (auto simp: public_runtime.simps [of profile] Let_def result_simps)
    then have "all_keys (JObj c') \<inter> set secret_fields = {}"
      using 1(1) Some by auto
    then show ?thesis
      unfolding q using r by (rule all_keys_dset_disjoint [OF not_connector(1)])
  qed
qed

lemma public_role_no_secret:
  "public_role sv r = Inr p \<Longrightarrow> all_keys (JObj p) \<inter> set secret_fields = {}"
  by (auto simp: public_role_def result_simps role_dict_def secret_fields_def)

lemma get_public_no_secret:
  "get_public sv res v d = Inr p \<Longrightarrow> all_keys (JObj p) \<inter> set secret_fields = {}"
  by (auto simp only: get_public_def public_proxy_def public_connection_def bindE_eq_Inr
      split: resource.splits dest!: public_role_no_secret public_runtime_no_secret)

text \<open>
  C7. What \<open>get\<close> and \<open>list\<close> return has no key of a secret field at any
  depth, whatever the database holds.
\<close>

theorem public_views_hold_no_secret:
  assumes "store_get sv name item_id st = Inr (p, st') \<or> store_save sv dr name payload target st = Inr (p, st')
     \<or> (\<exists>l. store_list sv name st = Inr (l, st') \<and> p \<in> set l)"
  shows "all_keys (JObj p) \<inter> set secret_fields = {}"
  using assms
proof (elim disjE exE conjE)
  assume "store_get sv name item_id st = Inr (p, st')"
  then obtain res where "get_public sv res item_id (st_db st) = Inr p"
    by (auto simp: store_get_def transaction_def reading_def result_simps split: if_splits sum.splits)
  then show ?thesis by (rule get_public_no_secret)
next
  assume "store_save sv dr name payload target st = Inr (p, st')"
  then obtain res i d where "get_public sv res i d = Inr p"
    by (auto simp: store_save_def transaction_def save_body_def Let_def result_simps
        split: if_splits sum.splits)
  then show ?thesis by (rule get_public_no_secret)
next
  fix l assume "store_list sv name st = Inr (l, st')" and p: "p \<in> set l"
  then obtain res where l: "list_public sv res (st_db st) = Inr l"
    by (auto simp: store_list_def transaction_def reading_def result_simps split: if_splits sum.splits)
  show ?thesis
  proof (cases res)
    case RoleAccounts
    then show ?thesis using mapE_Inr_set [OF _ p] l public_role_no_secret by (fastforce simp only: list_public_def resource.case)
  next
    case Proxies
    then obtain x where "public_proxy sv (st_db st) x = Inr p"
      using mapE_Inr_set [OF _ p] l by (fastforce simp only: list_public_def resource.case)
    then show ?thesis by (auto simp only: public_proxy_def bindE_eq_Inr dest!: public_runtime_no_secret)
  next
    case Connections
    then obtain x where "public_connection sv (st_db st) x = Inr p"
      using mapE_Inr_set [OF _ p] l by (fastforce simp only: list_public_def resource.case)
    then show ?thesis by (auto simp only: public_connection_def bindE_eq_Inr dest!: public_runtime_no_secret)
  qed
qed

theorem public_views_hold_no_secret_witness:
  "all_keys (JObj sample_public_role) \<inter> set secret_fields = {}"
  by (rule public_views_hold_no_secret [OF disjI2 [OF disjI1 [OF sample_save]]])

text \<open>
  C13. Deletion on an open store whose schema holds: 404 for an unknown id, 409 while
  another profile refers to the row, and otherwise exactly the row goes, with the simulated
  routes of a connection; the foreign keys of the database never refuse it.
\<close>

theorem delete_exact:
  assumes "schema_ok (st_db st)" and "\<not> st_closed st" and "table_of name = Inr res"
  shows "store_delete name i st =
     (if i \<notin> set (row_keys res (st_db st)) then Inl (StoreError (Store ResourceNotFound) 404)
      else if referenced res i (st_db st) then Inl (StoreError (Store StillReferenced) 409)
      else Inr ((), st\<lparr>st_db := delete_row res i (st_db st)\<rparr>))"
  using assms
  by (simp add: store_delete_def transaction_def delete_body_exact translate_def)

theorem delete_exact_witness:
  "store_delete ''role_accounts'' ''0'' sample_store = Inr ((), empty_store)"
proof -
  have "schema_ok (st_db sample_store)" "\<not> st_closed sample_store" by code_simp+
  moreover have "table_of ''role_accounts'' = Inr RoleAccounts" by code_simp
  ultimately show ?thesis
    using delete_exact [of sample_store "''role_accounts''" RoleAccounts "''0''"]
    by (simp add: row_keys_def referenced_def delete_row_def sample_store_def sample_role_row_def
        empty_store_def empty_db_def)
qed

text \<open>
  A saved role account holds the credentials of its authentication method
  and of no other: a password account one non-empty password, a key account an accepted private
  key and at most a passphrase. When the method changes, the credential comes from the request:
  an old one is never carried over.
\<close>

theorem role_has_one_method:
  assumes "vault_law sv" and "save_role sv i payload previous = Inr r"
  shows "\<exists>s. unseal sv (ra_secrets r) = Some (JObj s) \<and>
     (let method = ra_authentication_type r in
       (method = ''password'' \<and> fst ` set s = {''password''} \<and> truthy (dget s ''password'')
         \<and> (dget previous ''authentication_type'' \<noteq> JStr method \<longrightarrow>
              dget s ''password'' = dget payload ''password''))
     \<or> (method = ''ssh_key'' \<and> fst ` set s \<subseteq> {''private_key'', ''key_passphrase''}
         \<and> truthy (dget s ''private_key'')
         \<and> (\<exists>passphrase. key_accepted sv (dget s ''private_key'') passphrase)
         \<and> (dget previous ''authentication_type'' \<noteq> JStr method \<longrightarrow>
              dget s ''private_key'' = dget payload ''private_key''
              \<and> (dhas s ''key_passphrase'' \<longrightarrow> dget s ''key_passphrase'' = dget payload ''key_passphrase''))))"
proof -
  define profile where "profile = dmerge previous payload"
  define auth where "auth = dget profile ''authentication_type''"
  define switched where "switched \<longleftrightarrow> dget previous ''authentication_type'' \<noteq> auth"
  from assms(2) obtain s where auth: "auth \<in> {JStr ''password'', JStr ''ssh_key''}"
    and s: "(if auth = JStr ''password'' then password_secrets payload profile switched
         else key_secrets sv payload previous profile switched) = Inr s"
    and r: "ra_authentication_type r = str_of auth" "ra_secrets r = seal sv (JObj s)"
    unfolding save_role_def Let_def profile_def [symmetric] auth_def [symmetric] switched_def [symmetric]
    by (elim bindE_InrE) (auto simp: check_eq_Inr)
  show ?thesis
  proof (cases "auth = JStr ''password''")
    case True
    then have "s = [(''password'', if switched then dget payload ''password'' else dget profile ''password'')]"
      and "truthy (if switched then dget payload ''password'' else dget profile ''password'')"
      using s by (auto simp: password_secrets_def Let_def result_simps)
    then show ?thesis using assms(1) r True by (auto simp: Let_def dget_Cons switched_def)
  next
    case False
    then have key: "auth = JStr ''ssh_key''" using auth by simp
    let ?k = "if switched then dget payload ''private_key'' else dget profile ''private_key''"
    let ?p = "dget_or payload ''key_passphrase''
      (if switched then JStr [] else dget_or previous ''key_passphrase'' (JStr []))"
    from False s have "truthy ?k" and "key_accepted sv ?k ?p"
      and "s = (''private_key'', ?k) # (if truthy ?p then [(''key_passphrase'', ?p)] else [])"
      by (auto simp: key_secrets_def accept_key_def Let_def result_simps)
    moreover have "?p = dget payload ''key_passphrase''" if switched and "truthy ?p"
      using that by (auto simp: dget_or_def2 split: if_splits)
    ultimately show ?thesis using assms(1) r key by (auto simp: Let_def dget_Cons dhas_Cons switched_def)
  qed
qed

theorem role_has_one_method_witness:
  "\<exists>s. unseal sample_services (ra_secrets sample_role_row) = Some (JObj s) \<and> fst ` set s = {''password''}"
proof -
  have "save_role sample_services ''0'' sample_role [] = Inr sample_role_row" by code_simp
  from role_has_one_method [OF sample_services_law this] show ?thesis
    by (auto simp: Let_def sample_role_row_def)
qed

lemma wf_role_credentials: "role_credentials sv d v = Inr c \<Longrightarrow> wf_dict c"
  by (auto simp: role_credentials_def result_simps intro!: wf_dmerge) (simp add: wf_dict_def)

text \<open>
  A resolved connection takes every credential of its role
  account from the account, over what the connection itself stores, and its connector is the
  referenced proxy with the proxy's own role resolved. This is what devices are dialled with.
\<close>

theorem resolution_follows_references:
  assumes "profiles_ok sv d" and "c \<in> set (connections d)"
    and "resolve_connection_in sv d (JStr (cn_id c)) = Inr q"
  shows "(\<forall>i. cn_role_account_id c = Some i \<and> i \<noteq> [] \<longrightarrow>
            (\<exists>creds. role_credentials sv d (JStr i) = Inr creds
               \<and> (\<forall>k. dhas creds k \<longrightarrow> dget q k = dget creds k)))
     \<and> (\<forall>j. cn_proxy_id c = Some j \<and> j \<noteq> [] \<longrightarrow>
            (\<exists>p pr. p \<in> set (proxies d) \<and> px_id p = j \<and> resolve_proxy sv d p = Inr pr
               \<and> dget q ''connector'' = JObj pr))"
proof -
  have row: "lookup_row cn_id (JStr (cn_id c)) (connections d) = Inr c"
    using assms(1,2) by (intro lookup_row_self schema_okD(3)) (auto simp: profiles_ok_def)
  have cr: "conn_readable sv c" and roles: "list_all (role_readable sv) (role_accounts d)"
    using assms(1,2) by (auto simp: profiles_ok_def readable_def list_all_iff)
  have fk: "fk_ok (cn_role_account_id c) (map ra_id (role_accounts d))"
    using assms(1,2) by (auto simp: profiles_ok_def schema_ok_def connections_ok_def list_all_iff)
  obtain p0 where p0: "stored_connection sv c = Inr p0"
    "dget p0 ''role_account_id'' = opt_str (cn_role_account_id c)"
    "dget p0 ''proxy_id'' = opt_str (cn_proxy_id c)"
    using stored_connection_Inr [OF cr] by blast
  define p where "p = dsetdefault ''client_type'' (JStr ''network'') p0"
  have p: "dget p ''role_account_id'' = opt_str (cn_role_account_id c)"
    "dget p ''proxy_id'' = opt_str (cn_proxy_id c)"
    using p0 by (simp_all add: p_def dsetdefault_def)
  from assms(3) obtain w u where w: "with_role sv d p = Inr w"
    and u: "(if truthy (dget w ''proxy_id'')
            then bindE (lookup_row px_id (dget w ''proxy_id'') (proxies d)) (\<lambda>prow.
                 bindE (resolve_proxy sv d prow) (\<lambda>c. Inr (dset ''connector'' (JObj c) w)))
            else Inr w) = Inr u"
    and q: "q = dsetdefault ''connector'' (JObj [(''type'', JStr ''direct'')]) u"
    by (auto simp: resolve_connection_in_def row p0(1) p_def Let_def bindE_eq_Inr)
  have q_get: "dget q k = dget w k" if "k \<noteq> ''connector''" for k
    using u that by (auto simp: q dsetdefault_def result_simps split: if_splits)
  obtain cr' where cr': "w = dmerge p cr'"
    "fst ` set cr' \<subseteq> {''username'', ''authentication_type''} \<union> set secret_fields"
    using with_role_Inr [OF p(1) fk roles] w by auto
  have "''proxy_id'' \<notin> fst ` set cr'" by (rule subset_not_in [OF cr'(2)]) simp
  then have w_proxy: "dget w ''proxy_id'' = opt_str (cn_proxy_id c)"
    using p(2) cr'(1) by (simp add: dget_dmerge_other)
  show ?thesis
  proof (intro conjI allI impI; elim conjE)
    fix i assume i: "cn_role_account_id c = Some i" "i \<noteq> []"
    then obtain creds where c: "role_credentials sv d (JStr i) = Inr creds" and wd: "w = dmerge p creds"
      using w p(1) by (auto simp: with_role_def result_simps)
    have "i \<in> ra_id ` set (role_accounts d)" using fk i by (simp add: fk_ok_def)
    from role_credentials_Inr [OF this roles] c
    have keys: "fst ` set creds \<subseteq> {''username'', ''authentication_type''} \<union> set secret_fields" by auto
    have "dget q k = dget creds k" if "dhas creds k" for k
    proof -
      have "''connector'' \<notin> fst ` set creds" by (rule subset_not_in [OF keys]) simp
      then have "k \<noteq> ''connector''" using that by (metis dhas_iff_key)
      then show ?thesis
        using that wf_role_credentials [OF c] by (simp add: q_get wd dget_dmerge)
    qed
    with c show "\<exists>creds. role_credentials sv d (JStr i) = Inr creds
       \<and> (\<forall>k. dhas creds k \<longrightarrow> dget q k = dget creds k)" by blast
  next
    fix j assume j: "cn_proxy_id c = Some j" "j \<noteq> []"
    then obtain pr r where "lookup_row px_id (JStr j) (proxies d) = Inr r"
      and "resolve_proxy sv d r = Inr pr" and "u = dset ''connector'' (JObj pr) w"
      using u w_proxy by (auto simp: result_simps)
    then show "\<exists>p pr. p \<in> set (proxies d) \<and> px_id p = j \<and> resolve_proxy sv d p = Inr pr
       \<and> dget q ''connector'' = JObj pr"
      by (auto simp: q dsetdefault_def dest!: lookup_row_InrD)
  qed
qed

definition sample_proxy_row :: proxy_row where
  "sample_proxy_row = \<lparr>px_id = ''1'', px_name = ''jump'', px_type = ''socks5'', px_host = ''10.0.0.1'',
     px_port = 1080, px_role_account_id = None, px_configuration = [(''username'', JStr ''u'')],
     px_secrets = seal sample_services (JObj [(''password'', JStr ''proxypw'')])\<rparr>"

definition sample_conn_row :: conn_row where
  "sample_conn_row = \<lparr>cn_id = ''2'', cn_name = ''edge'', cn_protocol = ''ssh'', cn_host = ''10.0.0.2'',
     cn_port = 22, cn_timeout_seconds = 10, cn_role_account_id = Some ''0'', cn_proxy_id = Some ''1'',
     cn_configuration = [(''client_type'', JStr ''network'')],
     cn_secrets = seal sample_services (JObj [])\<rparr>"

definition sample_db :: db where
  "sample_db = empty_db\<lparr>role_accounts := [sample_role_row], proxies := [sample_proxy_row],
     connections := [sample_conn_row]\<rparr>"

lemma sample_db_ok: "profiles_ok sample_services sample_db"
  by code_simp

theorem resolution_follows_references_witness:
  "\<exists>q. resolve_connection_in sample_services sample_db (JStr ''2'') = Inr q
     \<and> dget q ''username'' = JStr ''admin'' \<and> dget q ''password'' = JStr ''s3cret''"
proof -
  have c: "sample_conn_row \<in> set (connections sample_db)" "cn_id sample_conn_row = ''2''"
    "cn_role_account_id sample_conn_row = Some ''0''"
    by (simp_all add: sample_db_def sample_conn_row_def)
  obtain q where q: "resolve_connection_in sample_services sample_db (JStr ''2'') = Inr q"
    using resolve_connection_Inr [of sample_db sample_services sample_conn_row] sample_db_ok c
    by (auto simp: profiles_ok_def)
  have creds: "role_credentials sample_services sample_db (JStr ''0'') = Inr
     [(''username'', JStr ''admin''), (''authentication_type'', JStr ''password''), (''password'', JStr ''s3cret'')]"
    by code_simp
  from resolution_follows_references [OF sample_db_ok c(1), unfolded c(2), OF q] c(3) creds
  have "dget q k = dget [(''username'', JStr ''admin''), (''authentication_type'', JStr ''password''),
       (''password'', JStr ''s3cret'')] k" if "k \<in> {''username'', ''password''}" for k
    using that by (auto simp: dhas_Cons)
  then show ?thesis using q by (simp add: dget_Cons)
qed

end
