(* ===== verification/Configs.thy ===== *)
theory Configs
  imports Instance
begin

text \<open>
  The operational mappings of the gateway (\<open>validate_config\<close>, \<open>get_config\<close> and \<open>save_config\<close> of
  \<open>app/dal/db/store.py\<close>): which table and column describe a device, and which client class and
  proxy its metadata selects. A configuration is validated when it is written and again when it is
  read, so that a value edited behind the store's back is refused.
\<close>

section \<open>Validation\<close>

definition client_classes :: "string list" where
  "client_classes = [
     ''app.dal.device.nccclient_adva.AdvaFSP114ProNCCClient'',
     ''app.dal.device.nccclient_alcatel.AlcatelNCCClient'',
     ''app.dal.device.nccclient_ceina.CeinaNCCClient'',
     ''app.dal.device.nccclient_ios.IOSNCCClient'',
     ''app.dal.device.nccclient_iox.IOXNCCClient'',
     ''app.dal.device.nccclient_juniper.JuniperNCCClient'',
     ''app.dal.device.telnet_client.GenericTelnetNCCClient'']"

definition bad_config :: "config_reason \<Rightarrow> exn" where
  "bad_config r = StoreError (Config r) 400"

text \<open>\<open>[A-Za-z_][A-Za-z0-9_]*\<close>, at most 128 characters and not the word \<open>none\<close>.\<close>

definition metadata_identifier :: "json \<Rightarrow> bool" where
  "metadata_identifier v = (case v of
      JStr s \<Rightarrow> int (length s) \<le> 128 \<and> lower s \<noteq> ''none''
        \<and> (case s of [] \<Rightarrow> False
           | c # cs \<Rightarrow> (is_ascii_alpha c \<or> c = CHR ''_'')
               \<and> list_all (\<lambda>x. is_ascii_alnum x \<or> x = CHR ''_'') cs)
    | _ \<Rightarrow> False)"

definition host_char :: "char \<Rightarrow> bool" where
  "host_char c \<longleftrightarrow> is_ascii_alnum c \<or> c \<in> set ''_.:-''"

definition mapping_key_ok :: "string \<Rightarrow> bool" where
  "mapping_key_ok key \<longleftrightarrow> key \<noteq> [] \<and> int (length key) \<le> 255 \<and> key = lower key
     \<and> list_all (\<lambda>c. 32 \<le> ord_of c) key"

definition mapping_value_check :: "string \<Rightarrow> json \<Rightarrow> exn + unit" where
  "mapping_value_check name v =
     (if name = ''client_mapping''
      then check (v \<in> JStr ` set client_classes) (bad_config InvalidClientMapping)
      else check (v = JNull \<or> (case v of
             JStr s \<Rightarrow> int (length s) \<le> 255 \<and> s \<noteq> [] \<and> list_all host_char s | _ \<Rightarrow> False))
           (bad_config InvalidProxyMapping))"

definition validate_lookup :: "dict \<Rightarrow> exn + dict" where
  "validate_lookup payload =
     bindE (check (set (map fst payload) = {''table'', ''search_column''}
         \<and> list_all (\<lambda>p. metadata_identifier (snd p)) payload) (bad_config InvalidDeviceLookup)) (\<lambda>_.
     Inr payload)"

definition validate_mapping :: "string \<Rightarrow> dict \<Rightarrow> exn + dict" where
  "validate_mapping name payload =
     bindE (check (set (map fst payload) = {''key_columns'', ''map''}) (bad_config InvalidMappingShape)) (\<lambda>_.
     bindE (case dget payload ''key_columns'' of
         JList columns \<Rightarrow> if 1 \<le> int (length columns) \<and> int (length columns) \<le> 8
             \<and> list_all metadata_identifier columns \<and> distinct columns
           then Inr columns else Inl (bad_config InvalidKeyColumns)
       | _ \<Rightarrow> Inl (bad_config InvalidKeyColumns)) (\<lambda>columns.
     bindE (case dget payload ''map'' of
         JObj mappings \<Rightarrow> if int (length mappings) \<le> 1000
             \<and> \<not> (name = ''client_mapping'' \<and> mappings = [])
           then Inr mappings else Inl (bad_config InvalidMappingEntries)
       | _ \<Rightarrow> Inl (bad_config InvalidMappingEntries)) (\<lambda>mappings.
     bindE (mapE (\<lambda>p. bindE (check (mapping_key_ok (fst p)) (bad_config InvalidMappingKey))
         (\<lambda>_. mapping_value_check name (snd p))) mappings) (\<lambda>_.
     Inr [(''key_columns'', JList columns), (''map'', JObj mappings)]))))"

definition validate_config :: "string \<Rightarrow> json \<Rightarrow> exn + dict" where
  "validate_config name payload =
     bindE (check (name \<in> set config_names) (StoreError (Config UnknownConfiguration) 404)) (\<lambda>_.
     case payload of
       JObj d \<Rightarrow> if name = ''device_lookup'' then validate_lookup d else validate_mapping name d
     | _ \<Rightarrow> Inl (bad_config ConfigurationNotObject))"

section \<open>Operations\<close>

text \<open>A missing row and a JSON null both read as \<open>None\<close>.\<close>

definition get_config_body :: "string \<Rightarrow> db \<Rightarrow> exn + dict" where
  "get_config_body name d = (case map_of (configurations d) name of
      None \<Rightarrow> Inl (StoreError (Config ConfigurationMissing) 404)
    | Some JNull \<Rightarrow> Inl (StoreError (Config ConfigurationMissing) 404)
    | Some payload \<Rightarrow> validate_config name payload)"

definition store_get_config :: "string \<Rightarrow> store \<Rightarrow> exn + (dict \<times> store)" where
  "store_get_config name st =
     bindE (check (name \<in> set config_names) (StoreError (Config UnknownConfiguration) 404)) (\<lambda>_.
     transaction (reading (get_config_body name)) st)"

text \<open>\<open>INSERT ... ON CONFLICT (name) DO UPDATE\<close>.\<close>

definition upsert_config :: "string \<Rightarrow> dict \<Rightarrow> db \<Rightarrow> db" where
  "upsert_config name validated d =
     d\<lparr>configurations := AList.update name (JObj validated) (configurations d)\<rparr>"

definition store_save_config :: "string \<Rightarrow> json \<Rightarrow> store \<Rightarrow> exn + (dict \<times> store)" where
  "store_save_config name payload st =
     bindE (validate_config name payload) (\<lambda>validated.
     bindE (transaction (\<lambda>d. bindE (execute (upsert_config name validated d)) (\<lambda>d'. Inr ((), d'))) st)
       (\<lambda>(_, st'). Inr (validated, st')))"

section \<open>Lemmas\<close>

lemma mapping_value_client:
  "mapping_value_check ''client_mapping'' v = Inr u \<longleftrightarrow> v \<in> JStr ` set client_classes"
  by (auto simp: mapping_value_check_def check_eq_Inr)

lemma validate_mapping_Inr:
  assumes "validate_mapping name payload = Inr q"
  shows "\<exists>columns mappings. q = [(''key_columns'', JList columns), (''map'', JObj mappings)]
     \<and> columns \<noteq> [] \<and> distinct columns \<and> list_all metadata_identifier columns
     \<and> (\<forall>(k, v) \<in> set mappings. mapping_key_ok k \<and> mapping_value_check name v = Inr ())
     \<and> validate_mapping name q = Inr q"
proof -
  let ?entry = "\<lambda>p. bindE (check (mapping_key_ok (fst p)) (bad_config InvalidMappingKey))
         (\<lambda>_. mapping_value_check name (snd p))"
  from assms obtain columns mappings us
    where c: "1 \<le> int (length columns)" "int (length columns) \<le> 8" "list_all metadata_identifier columns"
      "distinct columns"
      and m: "int (length mappings) \<le> 1000" "\<not> (name = ''client_mapping'' \<and> mappings = [])"
      and e: "mapE ?entry mappings = Inr us"
      and q: "q = [(''key_columns'', JList columns), (''map'', JObj mappings)]"
    by (auto simp: validate_mapping_def result_simps split: json.splits if_splits)
  have "mapping_key_ok k \<and> mapping_value_check name v = Inr ()" if "(k, v) \<in> set mappings" for k v
  proof -
    from that e obtain u where "?entry (k, v) = Inr u"
      by (auto simp: mapE_Inr_iff list_all2_conv_all_nth in_set_conv_nth)
    then show ?thesis by (auto simp: result_simps)
  qed
  moreover have "validate_mapping name q = Inr q"
    using c m e by (auto simp: validate_mapping_def q dget_Cons)
  ultimately show ?thesis using c q by auto
qed

lemma validate_config_stable:
  "validate_config name payload = Inr q \<Longrightarrow> validate_config name (JObj q) = Inr q"
  using validate_mapping_Inr
  by (fastforce simp: validate_config_def validate_lookup_def result_simps split: json.splits if_splits)

lemma schema_upsert:
  assumes "schema_ok d" and "name \<in> set config_names"
  shows "schema_ok (upsert_config name q d)"
proof -
  have "set (AList.update name (JObj q) (configurations d)) \<subseteq> insert (name, JObj q) (set (configurations d))"
    using set_dset [of name "JObj q" "configurations d"] by (simp add: dset_def)
  then show ?thesis
    using assms by (auto simp: upsert_config_def schema_defs distinct_update list_all_iff)
qed

lemma get_config_upsert:
  "map_of (configurations (upsert_config name q d)) k =
     (if k = name then Some (JObj q) else map_of (configurations d) k)"
  by (simp add: upsert_config_def update_conv')

section \<open>Properties\<close>

text \<open>
  On an open store whose schema holds, saving a configuration fails
  exactly when it is invalid; otherwise the schema still holds, the configuration reads back as it
  was returned, and the other configurations read as before.
\<close>

theorem saved_config_is_served:
  assumes "schema_ok (st_db st)" and "\<not> st_closed st"
  shows "case validate_config name payload of
      Inl e \<Rightarrow> store_save_config name payload st = Inl e
    | Inr q \<Rightarrow> (\<exists>st'. store_save_config name payload st = Inr (q, st')
         \<and> schema_ok (st_db st') \<and> store_get_config name st' = Inr (q, st')
         \<and> (\<forall>other. other \<noteq> name \<longrightarrow> get_config_body other (st_db st') = get_config_body other (st_db st)))"
proof (cases "validate_config name payload")
  case (Inl e)
  then show ?thesis by (simp add: store_save_config_def)
next
  case (Inr q)
  let ?d = "upsert_config name q (st_db st)"
  have name: "name \<in> set config_names" using Inr by (auto simp: validate_config_def result_simps)
  have ok: "schema_ok ?d" by (rule schema_upsert [OF assms(1) name])
  then have "store_save_config name payload st = Inr (q, st\<lparr>st_db := ?d\<rparr>)"
    using Inr assms(2) by (simp add: store_save_config_def transaction_def)
  moreover have "store_get_config name (st\<lparr>st_db := ?d\<rparr>) = Inr (q, st\<lparr>st_db := ?d\<rparr>)"
    using name assms(2) validate_config_stable [OF Inr]
    by (simp add: store_get_config_def transaction_def reading_def get_config_body_def get_config_upsert)
  moreover have "get_config_body other ?d = get_config_body other (st_db st)" if "other \<noteq> name" for other
    using that by (simp add: get_config_body_def get_config_upsert)
  ultimately show ?thesis using Inr ok by auto
qed

definition sample_client_config :: json where
  "sample_client_config = JObj [(''key_columns'', JList [JStr ''vendor'']),
     (''map'', JObj [(''cisco'', JStr ''app.dal.device.nccclient_ios.IOSNCCClient'')])]"

theorem saved_config_is_served_witness:
  "\<exists>q st. store_save_config ''client_mapping'' sample_client_config empty_store = Inr (q, st)
     \<and> store_get_config ''client_mapping'' st = Inr (q, st)"
proof -
  have "schema_ok (st_db empty_store)" by simp
  from saved_config_is_served [OF this, of "''client_mapping''" sample_client_config]
  have *: "case validate_config ''client_mapping'' sample_client_config of
      Inl e \<Rightarrow> store_save_config ''client_mapping'' sample_client_config empty_store = Inl e
    | Inr q \<Rightarrow> (\<exists>st'. store_save_config ''client_mapping'' sample_client_config empty_store = Inr (q, st')
         \<and> store_get_config ''client_mapping'' st' = Inr (q, st'))"
    by (auto split: sum.splits)
  have "case validate_config ''client_mapping'' sample_client_config of Inl e \<Rightarrow> False | Inr q \<Rightarrow> True"
    by code_simp
  with * show ?thesis by (auto split: sum.splits)
qed

lemma served_mapping:
  assumes "get_config_body name d = Inr q" and "name \<noteq> ''device_lookup''"
  shows "\<exists>columns mappings. q = [(''key_columns'', JList columns), (''map'', JObj mappings)]
     \<and> columns \<noteq> [] \<and> list_all metadata_identifier columns
     \<and> (\<forall>(k, v) \<in> set mappings. mapping_key_ok k \<and> mapping_value_check name v = Inr ())"
proof -
  from assms(1) obtain payload where "validate_config name payload = Inr q"
    by (auto simp: get_config_body_def split: option.splits json.splits)
  then obtain p where "validate_mapping name p = Inr q"
    using assms(2) by (auto simp: validate_config_def result_simps split: json.splits if_splits)
  from validate_mapping_Inr [OF this] show ?thesis by auto
qed

end
