(* ===== verification/Factories.thy ===== *)
theory Factories
  imports Configs
begin

text \<open>
  The legacy path from a device name to a client object: the metadata lookup of
  \<open>app/dal/db/db_client.py\<close>, the client factory and the proxy factory
  (\<open>app/bl/factories/client_factory.py\<close>, \<open>proxy_factory.py\<close>). The metadata database is third
  party: a parameter that maps a table name to its rows. The import of the class the mapping names
  is Python's: the model returns the module and class names that are imported.
\<close>

datatype gateway_error =
  ConfigNotFoundError | DeviceNotFoundError | ClientMappingError | ProxyMappingError | DatabaseError

text \<open>A table of the metadata database: its columns and its rows.\<close>

type_synonym metadata_db = "string \<Rightarrow> (string list \<times> dict list) option"

section \<open>Device metadata\<close>

definition validate_identifier :: "json \<Rightarrow> gateway_error + string" where
  "validate_identifier v = (case v of
      JStr s \<Rightarrow>
        let normalized = strip s in
        if normalized = [] \<or> lower normalized = ''none''
           \<or> \<not> (is_ascii_alpha (hd normalized) \<or> hd normalized = CHR ''_'')
           \<or> \<not> list_all (\<lambda>x. is_ascii_alnum x \<or> x = CHR ''_'') normalized
        then Inl ConfigNotFoundError else Inr normalized
    | _ \<Rightarrow> Inl ConfigNotFoundError)"

text \<open>
  \<open>SELECT * FROM table WHERE column = :value LIMIT 1\<close>: an unknown table or column is a database
  error.
\<close>

definition select_one :: "metadata_db \<Rightarrow> string \<Rightarrow> string \<Rightarrow> json \<Rightarrow> gateway_error + dict option" where
  "select_one meta tbl col v = (case meta tbl of
      None \<Rightarrow> Inl DatabaseError
    | Some (columns, rows) \<Rightarrow> if col \<in> set columns
        then Inr (find (\<lambda>r. dget r col = v) rows) else Inl DatabaseError)"

definition get_device_info :: "metadata_db \<Rightarrow> store \<Rightarrow> json \<Rightarrow> gateway_error + dict option" where
  "get_device_info meta st search_value =
     (case store_get_config ''device_lookup'' st of
        Inl _ \<Rightarrow> Inl ConfigNotFoundError
      | Inr (cfg, _) \<Rightarrow>
          bindE (validate_identifier (dget cfg ''table'')) (\<lambda>table_name.
          bindE (validate_identifier (dget cfg ''search_column'')) (\<lambda>search_column.
          select_one meta table_name search_column search_value)))"

section \<open>Mapping keys\<close>

text \<open>\<open>str(router_info.get(col, "*") or "*").lower()\<close>.\<close>

definition key_part :: "services \<Rightarrow> dict \<Rightarrow> json \<Rightarrow> string" where
  "key_part sv router_info col =
     (let v = dget_or router_info (py_str sv col) (JStr ''*'')
      in lower (py_str sv (if truthy v then v else JStr ''*'')))"

definition key_columns_of :: "dict \<Rightarrow> string \<Rightarrow> json list" where
  "key_columns_of cfg dflt = (case dget_or cfg ''key_columns'' (JList [JStr dflt]) of
      JList cols \<Rightarrow> cols | _ \<Rightarrow> [])"

definition map_entries :: "dict \<Rightarrow> dict" where
  "map_entries cfg = (case dget_or cfg ''map'' (JObj []) of JObj d \<Rightarrow> d | _ \<Rightarrow> [])"

section \<open>The client factory\<close>

definition resolve_class_path :: "services \<Rightarrow> dict \<Rightarrow> dict \<Rightarrow> gateway_error + json" where
  "resolve_class_path sv router_info cfg =
     (let client_map = map_entries cfg;
          key_parts = map (key_part sv router_info) (key_columns_of cfg ''vendor'');
          class_path = dget client_map (join '':'' key_parts);
          class_path = if \<not> truthy class_path \<and> 1 < length key_parts
            then dget client_map (join '':'' (butlast key_parts @ [''*''])) else class_path;
          class_path = if \<not> truthy class_path \<and> key_parts \<noteq> []
            then dget client_map (hd key_parts) else class_path;
          class_path = if \<not> truthy class_path then dget client_map ''default'' else class_path
      in if \<not> truthy class_path then Inl ClientMappingError else Inr class_path)"

record client_handle =
  cl_module :: string
  cl_class :: string
  cl_host :: string
  cl_router_info :: dict

definition first_truthy :: "json list \<Rightarrow> json \<Rightarrow> json" where
  "first_truthy vs dflt = (case find truthy vs of Some v \<Rightarrow> v | None \<Rightarrow> dflt)"

text \<open>
  \<open>get_client\<close>: the two mapping errors pass, every other exception of the body, a failed lookup
  included, becomes a \<open>ClientMappingError\<close>.
\<close>

definition get_client_body ::
  "services \<Rightarrow> metadata_db \<Rightarrow> store \<Rightarrow> string \<Rightarrow> gateway_error + client_handle" where
  "get_client_body sv meta st device =
     bindE (get_device_info meta st (JStr device)) (\<lambda>info.
     bindE (case info of None \<Rightarrow> Inl DeviceNotFoundError
       | Some r \<Rightarrow> if r = [] then Inl DeviceNotFoundError else Inr r) (\<lambda>router_info.
     bindE (case store_get_config ''client_mapping'' st of
         Inl _ \<Rightarrow> Inl ConfigNotFoundError | Inr (cfg, _) \<Rightarrow> Inr cfg) (\<lambda>cfg.
     bindE (resolve_class_path sv router_info cfg) (\<lambda>class_path.
     bindE (case rsplit1 CHR ''.'' (py_str sv class_path) of
         None \<Rightarrow> Inl ClientMappingError | Some p \<Rightarrow> Inr p) (\<lambda>(module_name, class_name).
     let host = py_str sv (first_truthy (map (dget router_info)
           [''mgmt_ip'', ''ip'', ''host'', ''hostname'']) (JStr device))
     in Inr \<lparr>cl_module = module_name, cl_class = class_name, cl_host = host,
             cl_router_info = router_info\<rparr>)))))"

definition get_client ::
  "services \<Rightarrow> metadata_db \<Rightarrow> store \<Rightarrow> string \<Rightarrow> gateway_error + client_handle" where
  "get_client sv meta st device = (case get_client_body sv meta st device of
      Inl e \<Rightarrow> Inl (if e \<in> {ClientMappingError, DeviceNotFoundError} then e else ClientMappingError)
    | Inr c \<Rightarrow> Inr c)"

section \<open>The proxy factory\<close>

definition proxy_candidates :: "string list \<Rightarrow> string list" where
  "proxy_candidates key_parts =
     [join '':'' key_parts]
     @ (if 1 < length key_parts then [join '':'' (butlast key_parts @ [''*''])] else [])
     @ (if key_parts \<noteq> [] then [hd key_parts] else [])
     @ [''default'', ''*:*'']"

definition get_proxy :: "services \<Rightarrow> store \<Rightarrow> dict \<Rightarrow> gateway_error + string option" where
  "get_proxy sv st router_info = (case store_get_config ''proxy_mapping'' st of
      Inl _ \<Rightarrow> Inl ProxyMappingError
    | Inr (cfg, _) \<Rightarrow>
        let proxy_map = map_entries cfg;
            key_parts = map (key_part sv router_info) (key_columns_of cfg ''owner'');
            proxy_host = (case find (dhas proxy_map) (proxy_candidates key_parts) of
                Some candidate \<Rightarrow> dget proxy_map candidate | None \<Rightarrow> JNull)
        in if \<not> truthy proxy_host then Inr None else Inr (Some (py_str sv proxy_host)))"

section \<open>Lemmas\<close>

definition class_candidates :: "string list \<Rightarrow> string list" where
  "class_candidates key_parts =
     [join '':'' key_parts]
     @ (if 1 < length key_parts then [join '':'' (butlast key_parts @ [''*''])] else [])
     @ (if key_parts \<noteq> [] then [hd key_parts] else [])
     @ [''default'']"

lemma resolve_class_path_first:
  "resolve_class_path sv info cfg =
     (case find truthy (map (dget (map_entries cfg))
         (class_candidates (map (key_part sv info) (key_columns_of cfg ''vendor'')))) of
        None \<Rightarrow> Inl ClientMappingError | Some v \<Rightarrow> Inr v)"
  by (simp add: resolve_class_path_def class_candidates_def Let_def)

lemma dget_value: "truthy (dget d k) \<Longrightarrow> (k, dget d k) \<in> set d"
  by (rule dget_item [OF dhas_truthy])

lemma served_value:
  assumes "get_config_body name d = Inr cfg" and "name \<noteq> ''device_lookup''"
    and "truthy (dget (map_entries cfg) k)"
  shows "mapping_value_check name (dget (map_entries cfg) k) = Inr ()"
proof -
  from served_mapping [OF assms(1,2)] obtain columns mappings
    where cfg: "cfg = [(''key_columns'', JList columns), (''map'', JObj mappings)]"
      and all: "\<forall>(k, v) \<in> set mappings. mapping_key_ok k \<and> mapping_value_check name v = Inr ()"
    by blast
  then have "map_entries cfg = mappings" by (simp add: map_entries_def dget_or_def)
  then show ?thesis using all dget_value [OF assms(3)] by auto
qed

lemma store_get_config_body:
  "store_get_config name st = Inr (cfg, st') \<Longrightarrow> get_config_body name (st_db st) = Inr cfg"
  by (auto simp: store_get_config_def transaction_def reading_def result_simps split: if_splits sum.splits)

section \<open>Properties\<close>

text \<open>
  Whatever the databases hold, the class the factory imports is one of
  the supported client classes, and the only errors callers see are the two the legacy routes
  expect.
\<close>

theorem client_class_is_supported:
  "case get_client sv meta st device of
     Inr c \<Rightarrow> cl_module c @ ''.'' @ cl_class c \<in> set client_classes \<and> cl_router_info c \<noteq> []
   | Inl e \<Rightarrow> e \<in> {ClientMappingError, DeviceNotFoundError}"
proof (cases "get_client_body sv meta st device")
  case (Inl e)
  then show ?thesis by (simp add: get_client_def)
next
  case (Inr c)
  then obtain info cfg st' path where cfg: "store_get_config ''client_mapping'' st = Inr (cfg, st')"
    and path: "resolve_class_path sv info cfg = Inr path" and info: "cl_router_info c = info" "info \<noteq> []"
    and split: "rsplit1 CHR ''.'' (py_str sv path) = Some (cl_module c, cl_class c)"
    by (auto simp: get_client_body_def Let_def bindE_eq_Inr split: option.splits sum.splits if_splits)
  from path obtain k where "path = dget (map_entries cfg) k" and "truthy path"
    by (auto simp: resolve_class_path_first split: option.splits dest!: find_Some_iff_set)
  then obtain s where "path = JStr s" and "s \<in> set client_classes"
    using served_value [OF store_get_config_body [OF cfg]] by (auto simp: mapping_value_client)
  then show ?thesis
    using Inr rsplit1_Some [OF split] info by (simp add: get_client_def py_str_def)
qed

text \<open>
  The class comes from the first entry that exists, in the order: the
  joined key, the key with its last part replaced by a star, its first part, and \<open>default\<close>.
\<close>

theorem client_lookup_precedence:
  "resolve_class_path sv info cfg =
     (case find truthy (map (dget (map_entries cfg))
         (class_candidates (map (key_part sv info) (key_columns_of cfg ''vendor'')))) of
        None \<Rightarrow> Inl ClientMappingError | Some v \<Rightarrow> Inr v)"
  by (rule resolve_class_path_first)

text \<open>
  A proxy the factory selects is a non-empty name of host characters
  only, under the first candidate key that the mapping has; an explicit null under an earlier
  key means direct access, even when a later wildcard names a proxy.
\<close>

theorem proxy_host_is_validated:
  assumes "get_proxy sv st info = Inr (Some h)"
  shows "h \<noteq> [] \<and> list_all host_char h
     \<and> (\<exists>cfg k. store_get_config ''proxy_mapping'' st = Inr (cfg, st)
          \<and> find (dhas (map_entries cfg)) (proxy_candidates
               (map (key_part sv info) (key_columns_of cfg ''owner''))) = Some k
          \<and> dget (map_entries cfg) k = JStr h)"
proof -
  from assms obtain cfg st' k where cfg: "store_get_config ''proxy_mapping'' st = Inr (cfg, st')"
    and k: "find (dhas (map_entries cfg)) (proxy_candidates
               (map (key_part sv info) (key_columns_of cfg ''owner''))) = Some k"
    and t: "truthy (dget (map_entries cfg) k)" and h: "h = py_str sv (dget (map_entries cfg) k)"
    by (auto simp: get_proxy_def Let_def split: sum.splits option.splits if_splits)
  have "mapping_value_check ''proxy_mapping'' (dget (map_entries cfg) k) = Inr ()"
    by (rule served_value [OF store_get_config_body [OF cfg] _ t]) simp
  with t obtain s where s: "dget (map_entries cfg) k = JStr s" "s \<noteq> []" "list_all host_char s"
    by (auto simp: mapping_value_check_def check_eq_Inr split: json.splits)
  have "st' = st"
    using cfg by (auto simp: store_get_config_def transaction_def reading_def result_simps
        split: if_splits sum.splits)
  then show ?thesis using cfg k h s by (auto simp: py_str_def)
qed

definition sample_proxy_config :: dict where
  "sample_proxy_config = [(''key_columns'', JList [JStr ''owner'']),
     (''map'', JObj [(''lab'', JStr ''jump-1''), (''isp'', JNull), (''*:*'', JStr ''jump-2'')])]"

definition sample_config_store :: store where
  "sample_config_store = empty_store\<lparr>st_db := empty_db\<lparr>configurations :=
     [(''proxy_mapping'', JObj sample_proxy_config)]\<rparr>\<rparr>"

theorem proxy_host_is_validated_witness:
  "get_proxy sample_services sample_config_store [(''owner'', JStr ''LAB'')] = Inr (Some ''jump-1'')
     \<and> list_all host_char ''jump-1''
     \<and> get_proxy sample_services sample_config_store [(''owner'', JStr ''isp'')] = Inr None"
proof -
  have "get_proxy sample_services sample_config_store [(''owner'', JStr ''LAB'')] = Inr (Some ''jump-1'')"
    and "get_proxy sample_services sample_config_store [(''owner'', JStr ''isp'')] = Inr None"
    by code_simp+
  then show ?thesis using proxy_host_is_validated by blast
qed

end
