(* ===== verification/Jobs.thy ===== *)
theory Jobs
  imports Profiles
begin

text \<open>
  The connection-test jobs of \<open>GatewayStore\<close>: creation with an encrypted snapshot of the resolved
  profiles, the recording of one result per connection, the status machine, and the opening of
  the store, which checks the key against every stored secret and fails interrupted jobs.
\<close>

section \<open>Public projection\<close>

definition status_name :: "job_status \<Rightarrow> string" where
  "status_name s = (case s of Queued \<Rightarrow> ''queued'' | Running \<Rightarrow> ''running''
     | Completed \<Rightarrow> ''completed'' | Failed \<Rightarrow> ''failed'')"

definition public_job :: "job_row \<Rightarrow> dict" where
  "public_job row =
     [(''id'', JStr (jb_id row)), (''status'', JStr (status_name (jb_status row))),
      (''total'', JInt (jb_total row)), (''completed'', JInt (jb_completed row)),
      (''results'', JList (map (\<lambda>result. JObj (dmerge [(''simulated'', JBool False)] result)) (jb_results row)))]
     @ (case jb_error row of None \<Rightarrow> []
        | Some e \<Rightarrow> if e = [] then [] else [(''error'', JStr e)])"

section \<open>Creation and reads\<close>

definition job_ids :: "json \<Rightarrow> exn + string list" where
  "job_ids connection_ids = (case connection_ids of
      JList xs \<Rightarrow> if xs = [] \<or> 1000 < int (length xs) \<or> \<not> list_all is_str xs
        then Inl (StoreError (Job SelectConnections) 400)
        else if \<not> distinct xs then Inl (StoreError (Job DuplicateConnections) 400)
        else Inr (map str_of xs)
    | _ \<Rightarrow> Inl (StoreError (Job SelectConnections) 400))"

definition snapshot_item :: "services \<Rightarrow> db \<Rightarrow> string \<Rightarrow> exn + json" where
  "snapshot_item sv d item_id = bindE (resolve_connection_in sv d (JStr item_id)) (\<lambda>profile.
     Inr (JObj [(''id'', JStr item_id), (''profile'', JObj profile)]))"

definition create_job_body ::
  "services \<Rightarrow> draws \<Rightarrow> string list \<Rightarrow> db \<Rightarrow> exn + (dict \<times> db)" where
  "create_job_body sv dr ids d =
     bindE (check (\<not> list_ex (\<lambda>j. jb_active_slot j = Some 1) (jobs d))
        (StoreError (Job JobAlreadyActive) 409)) (\<lambda>_.
     bindE (mapE (snapshot_item sv d) ids) (\<lambda>snapshot.
     let row = \<lparr>jb_id = uuid4 dr 0, jb_status = Queued, jb_total = int (length snapshot),
                jb_completed = 0, jb_snapshot = seal sv (JList snapshot), jb_results = [],
                jb_error = None, jb_active_slot = Some 1\<rparr> in
     bindE (execute (d\<lparr>jobs := jobs d @ [row]\<rparr>)) (\<lambda>d.
     bindE (lookup_row jb_id (JStr (uuid4 dr 0)) (jobs d)) (\<lambda>row. Inr (public_job row, d)))))"

definition create_job :: "services \<Rightarrow> draws \<Rightarrow> json \<Rightarrow> store \<Rightarrow> exn + (dict \<times> store)" where
  "create_job sv dr connection_ids st =
     bindE (job_ids connection_ids) (\<lambda>ids. transaction (create_job_body sv dr ids) st)"

definition get_job :: "json \<Rightarrow> store \<Rightarrow> exn + (dict \<times> store)" where
  "get_job job_id st = transaction (reading (\<lambda>d.
     bindE (lookup_row jb_id job_id (jobs d)) (\<lambda>row. Inr (public_job row)))) st"

text \<open>Iterating over the snapshot, whose items are indexed by name.\<close>

definition as_list :: "json \<Rightarrow> exn + json list" where
  "as_list v = (case v of JList xs \<Rightarrow> Inr xs | _ \<Rightarrow> Inl (PyError ''TypeError''))"

definition snapshot_entry :: "json \<Rightarrow> exn + (json \<times> json)" where
  "snapshot_entry item = bindE (as_dict item) (\<lambda>d. bindE (dreq d ''id'') (\<lambda>i.
     bindE (dreq d ''profile'') (\<lambda>p. Inr (i, p))))"

definition job_connections :: "services \<Rightarrow> json \<Rightarrow> db \<Rightarrow> exn + (json \<times> dict) list" where
  "job_connections sv job_id d =
     bindE (lookup_row jb_id job_id (jobs d)) (\<lambda>row.
     bindE (decrypt sv (jb_snapshot row)) (\<lambda>v. bindE (as_list v)
       (mapE (\<lambda>item. bindE (snapshot_entry item) (\<lambda>(i, p). bindE (as_dict p) (\<lambda>profile.
          Inr (i, dmerge [(''client_type'', JStr ''network'')] profile)))))))"

definition get_job_connections ::
  "services \<Rightarrow> json \<Rightarrow> store \<Rightarrow> exn + ((json \<times> dict) list \<times> store)" where
  "get_job_connections sv job_id st = transaction (reading (job_connections sv job_id)) st"

section \<open>Results\<close>

text \<open>
  \<open>math.isfinite\<close> converts an integer to a float first, which overflows from \<open>2^1024 - 2^970\<close>,
  the first integer that rounds above the largest double.
\<close>

definition result_duration :: "json \<Rightarrow> exn + json" where
  "result_duration v = (case v of
      JInt i \<Rightarrow> if 2 ^ 1024 - 2 ^ 970 \<le> \<bar>i\<bar> then Inl (PyError ''OverflowError'')
        else if i < 0 then Inl (StoreError (Job InvalidDuration) 400) else Inr v
    | JFloat (Finite r) \<Rightarrow> if r < 0 then Inl (StoreError (Job InvalidDuration) 400) else Inr v
    | _ \<Rightarrow> Inl (StoreError (Job InvalidDuration) 400))"

definition cleaned_result ::
  "services \<Rightarrow> string list \<Rightarrow> string \<Rightarrow> dict \<Rightarrow> dict \<Rightarrow> bool \<Rightarrow> json \<Rightarrow> exn + dict" where
  "cleaned_result sv secrets item_id profile result simulated duration =
     bindE (dreq profile ''name'') (\<lambda>name.
     bindE (dreq profile ''protocol'') (\<lambda>protocol.
     bindE (dreq profile ''host'') (\<lambda>host.
     bindE (dreq profile ''port'') (\<lambda>port.
     bindE (dreq profile ''connector'') (\<lambda>c. bindE (as_dict c) (\<lambda>c. bindE (dreq c ''type'') (\<lambda>connector_type.
     Inr [(''connection_id'', JStr item_id),
          (''name'', JStr (redact (py_str sv name) secrets)),
          (''protocol'', protocol),
          (''host'', JStr (redact (py_str sv host) secrets)),
          (''port'', port),
          (''connector_type'', connector_type),
          (''success'', dget result ''success''),
          (''simulated'', JBool simulated),
          (''stage'', JStr (redact (py_str sv (dget_or result ''stage'' (JStr ''unknown''))) secrets)),
          (''detail'', JStr (redact (py_str sv (dget_or result ''detail'' (JStr []))) secrets)),
          (''duration_ms'', duration)])))))))"

definition update_job :: "string \<Rightarrow> (job_row \<Rightarrow> job_row) \<Rightarrow> db \<Rightarrow> db" where
  "update_job job_id f d = d\<lparr>jobs := map (\<lambda>j. if jb_id j = job_id then f j else j) (jobs d)\<rparr>"

text \<open>The profile of the connection the result names; rows with the same id: the last one.\<close>

definition result_profile :: "(json \<times> json) list \<Rightarrow> json \<Rightarrow> exn + (string \<times> json)" where
  "result_profile profiles v = (case v of
      JStr item_id \<Rightarrow> (case map_of (rev profiles) v of
          None \<Rightarrow> Inl (StoreError (Job ResultNotInJob) 400)
        | Some p \<Rightarrow> Inr (item_id, p))
    | _ \<Rightarrow> Inl (StoreError (Job ResultNotInJob) 400))"

definition record_result_body ::
  "services \<Rightarrow> json \<Rightarrow> dict \<Rightarrow> db \<Rightarrow> exn + (unit \<times> db)" where
  "record_result_body sv job_id result d =
     bindE (lookup_row jb_id job_id (jobs d)) (\<lambda>row.
     bindE (check (jb_status row \<in> {Queued, Running}) (StoreError (Job JobNotActive) 409)) (\<lambda>_.
     bindE (decrypt sv (jb_snapshot row)) (\<lambda>snapshot. bindE (as_list snapshot) (\<lambda>items.
     bindE (mapE snapshot_entry items) (\<lambda>profiles.
     bindE (result_profile profiles (dget result ''connection_id'')) (\<lambda>(item_id, p).
     bindE (check (\<not> list_ex (\<lambda>r. dget r ''connection_id'' = JStr item_id) (jb_results row))
        (StoreError (Job ResultExists) 409)) (\<lambda>_.
     let secrets = credential_values snapshot in
     bindE (result_duration (dget_or result ''duration_ms'' (JInt 0))) (\<lambda>duration.
     bindE (check (is_bool (dget result ''success'')) (StoreError (Job InvalidSuccess) 400)) (\<lambda>_.
     bindE (as_dict p) (\<lambda>profile.
     let simulated = (dget_or profile ''client_type'' (JStr ''network'') = JStr ''fake'') in
     bindE (check (dhas result ''simulated'' \<longrightarrow> dget result ''simulated'' = JBool simulated)
        (StoreError (Job SimulationMismatch) 400)) (\<lambda>_.
     bindE (cleaned_result sv secrets item_id profile result simulated duration) (\<lambda>cleaned.
     bindE (execute (update_job (jb_id row) (\<lambda>j. j\<lparr>jb_results := jb_results row @ [cleaned],
         jb_completed := int (length (jb_results row @ [cleaned]))\<rparr>) d)) (\<lambda>d.
     Inr ((), d))))))))))))))"

definition record_job_result ::
  "services \<Rightarrow> json \<Rightarrow> json \<Rightarrow> store \<Rightarrow> exn + (unit \<times> store)" where
  "record_job_result sv job_id result st = (case result of
      JObj r \<Rightarrow> transaction (record_result_body sv job_id r) st
    | _ \<Rightarrow> Inl (StoreError (Job InvalidJobResult) 400))"

section \<open>The status machine\<close>

definition status_of :: "json \<Rightarrow> exn + job_status" where
  "status_of v = (case v of
      JStr s \<Rightarrow> if s = ''queued'' then Inr Queued else if s = ''running'' then Inr Running
        else if s = ''completed'' then Inr Completed else if s = ''failed'' then Inr Failed
        else Inl (StoreError (Job InvalidJobStatus) 400)
    | _ \<Rightarrow> Inl (StoreError (Job InvalidJobStatus) 400))"

definition allowed_moves :: "job_status \<Rightarrow> job_status list" where
  "allowed_moves s = (case s of
      Queued \<Rightarrow> [Queued, Running, Failed]
    | Running \<Rightarrow> [Running, Completed, Failed]
    | Completed \<Rightarrow> [Completed]
    | Failed \<Rightarrow> [Failed])"

definition set_status_body ::
  "services \<Rightarrow> json \<Rightarrow> job_status \<Rightarrow> json \<Rightarrow> db \<Rightarrow> exn + (unit \<times> db)" where
  "set_status_body sv job_id status error d =
     bindE (lookup_row jb_id job_id (jobs d)) (\<lambda>row.
     bindE (check (status \<in> set (allowed_moves (jb_status row)))
        (StoreError (Job InvalidTransition) 409)) (\<lambda>_.
     bindE (check (\<not> (status = Completed \<and> jb_completed row \<noteq> jb_total row))
        (StoreError (Job MissingResults) 409)) (\<lambda>_.
     bindE (decrypt sv (jb_snapshot row)) (\<lambda>snapshot.
     let clean_error = (if truthy error
           then Some (redact (py_str sv error) (credential_values snapshot)) else None) in
     bindE (execute (update_job (jb_id row) (\<lambda>j. j\<lparr>jb_status := status,
         jb_active_slot := (if status \<in> {Queued, Running} then Some 1 else None),
         jb_error := clean_error\<rparr>) d)) (\<lambda>d.
     Inr ((), d))))))"

definition set_job_status ::
  "services \<Rightarrow> json \<Rightarrow> json \<Rightarrow> json \<Rightarrow> store \<Rightarrow> exn + (unit \<times> store)" where
  "set_job_status sv job_id status error st =
     bindE (status_of status) (\<lambda>status. transaction (set_status_body sv job_id status error) st)"

section \<open>Opening the store\<close>

definition stored_secrets :: "db \<Rightarrow> string list" where
  "stored_secrets d = map ra_secrets (role_accounts d) @ map px_secrets (proxies d)
     @ map cn_secrets (connections d) @ map jb_snapshot (jobs d)"

definition interrupt :: "job_row \<Rightarrow> job_row" where
  "interrupt j = (if jb_active_slot j = Some 1
     then j\<lparr>jb_status := Failed, jb_active_slot := None,
            jb_error := Some ''Interrupted by gateway restart.''\<rparr> else j)"

definition recovery_body :: "services \<Rightarrow> db \<Rightarrow> exn + (unit \<times> db)" where
  "recovery_body sv d =
     bindE (mapE (decrypt sv) (stored_secrets d)) (\<lambda>_.
     bindE (execute (d\<lparr>jobs := map interrupt (jobs d)\<rparr>)) (\<lambda>d. Inr ((), d)))"

text \<open>
  \<open>GatewayStore.__init__\<close> on the database it finds: \<open>vault\<close> is the construction of the cipher
  from the key text, which rejects malformed keys; \<open>metadata.create_all\<close> leaves existing tables
  as they are. Every exception but a store error becomes a 503.
\<close>

definition open_store ::
  "(string \<Rightarrow> services option) \<Rightarrow> string option \<Rightarrow> string option \<Rightarrow> db \<Rightarrow> exn + (services \<times> store)" where
  "open_store vault secret_key environment_key d =
     (let key = (case secret_key of Some k \<Rightarrow> Some k | None \<Rightarrow> environment_key) in
      case key of
        None \<Rightarrow> Inl (StoreError (Store MissingSecretKey) 503)
      | Some [] \<Rightarrow> Inl (StoreError (Store MissingSecretKey) 503)
      | Some k \<Rightarrow> (case vault k of
            None \<Rightarrow> Inl (StoreError (Store InvalidSecretKey) 503)
          | Some sv \<Rightarrow> (case transaction (recovery_body sv) \<lparr>st_db = d, st_closed = False\<rparr> of
                Inr (_, st) \<Rightarrow> Inr (sv, st)
              | Inl (StoreError r n) \<Rightarrow> Inl (StoreError r n)
              | Inl _ \<Rightarrow> Inl (StoreError (Store InitializationFailed) 503))))"

end
