(* ===== verification/JobLaws.thy ===== *)
theory JobLaws
  imports Jobs ProfileLaws
begin

text \<open>
  The laws of the connection-test jobs: the invariant that ties the results of a job to its
  encrypted snapshot, the moves of the status machine as an inductive relation, what a recorded
  result can reveal, and the recovery of interrupted jobs when the store opens.
\<close>

section \<open>The invariant\<close>

definition entry_id :: "json \<Rightarrow> string option" where
  "entry_id v = (case v of
      JObj d \<Rightarrow> (case (map_of d ''id'', map_of d ''profile'') of
          (Some (JStr i), Some (JObj _)) \<Rightarrow> Some i | _ \<Rightarrow> None)
    | _ \<Rightarrow> None)"

definition snapshot_ids :: "services \<Rightarrow> job_row \<Rightarrow> string list" where
  "snapshot_ids sv j = (case unseal sv (jb_snapshot j) of
      Some (JList items) \<Rightarrow> List.map_filter entry_id items | _ \<Rightarrow> [])"

definition snapshot_readable :: "services \<Rightarrow> job_row \<Rightarrow> bool" where
  "snapshot_readable sv j = (case unseal sv (jb_snapshot j) of
      Some (JList items) \<Rightarrow> list_all (\<lambda>v. entry_id v \<noteq> None) items | _ \<Rightarrow> False)"

definition result_ids :: "job_row \<Rightarrow> json list" where
  "result_ids j = map (\<lambda>r. dget r ''connection_id'') (jb_results j)"

definition job_consistent :: "services \<Rightarrow> job_row \<Rightarrow> bool" where
  "job_consistent sv j \<longleftrightarrow> snapshot_readable sv j \<and> distinct (snapshot_ids sv j)
     \<and> jb_total j = int (length (snapshot_ids sv j))
     \<and> jb_completed j = int (length (jb_results j))
     \<and> distinct (result_ids j) \<and> list_all (\<lambda>i. i \<in> set (map JStr (snapshot_ids sv j))) (result_ids j)
     \<and> (jb_status j = Completed \<longrightarrow> jb_completed j = jb_total j)"

definition jobs_consistent :: "services \<Rightarrow> db \<Rightarrow> bool" where
  "jobs_consistent sv d \<longleftrightarrow> schema_ok d \<and> list_all (job_consistent sv) (jobs d)"

lemma snapshot_ids_cong:
  "jb_snapshot j' = jb_snapshot j \<Longrightarrow> snapshot_ids sv j' = snapshot_ids sv j"
  "jb_snapshot j' = jb_snapshot j \<Longrightarrow> snapshot_readable sv j' = snapshot_readable sv j"
  by (simp_all add: snapshot_ids_def snapshot_readable_def)

text \<open>What the store writes as a snapshot reads back as one.\<close>

lemma snapshot_item_id: "snapshot_item sv d i = Inr v \<Longrightarrow> entry_id v = Some i"
  by (auto simp: snapshot_item_def result_simps entry_id_def)

lemma snapshot_items_ids:
  "mapE (snapshot_item sv d) ids = Inr items \<Longrightarrow>
     List.map_filter entry_id items = ids \<and> list_all (\<lambda>v. entry_id v \<noteq> None) items"
  by (induction ids arbitrary: items) (auto simp: result_simps map_filter_simps dest: snapshot_item_id)

lemma snapshot_entry_id: "snapshot_entry v = Inr (JStr i, p) \<Longrightarrow> entry_id v \<noteq> None \<Longrightarrow> entry_id v = Some i"
  by (auto simp: snapshot_entry_def result_simps as_dict_eq_Inr dreq_def entry_id_def
      split: option.splits json.splits)

lemma snapshot_entry_ids:
  "mapE snapshot_entry items = Inr entries \<Longrightarrow> list_all (\<lambda>v. entry_id v \<noteq> None) items \<Longrightarrow>
     map fst entries = map JStr (List.map_filter entry_id items)"
proof (induction items arbitrary: entries)
  case (Cons v items)
  then obtain i p es where e: "snapshot_entry v = Inr (i, p)" "entries = (i, p) # es"
    and es: "mapE snapshot_entry items = Inr es"
    by (auto simp: result_simps)
  from Cons.prems(2) obtain k where k: "entry_id v = Some k" by auto
  then have "i = JStr k"
    using e(1) by (auto simp: snapshot_entry_def result_simps as_dict_eq_Inr dreq_def entry_id_def
        split: option.splits json.splits)
  with Cons.IH [OF es] Cons.prems(2) e(2) k show ?case by (simp add: map_filter_simps)
qed simp

section \<open>Operations\<close>

lemma job_ids_Inr:
  "job_ids v = Inr ids \<Longrightarrow> v = JList (map JStr ids) \<and> ids \<noteq> [] \<and> distinct ids \<and> length ids \<le> 1000"
proof -
  assume j: "job_ids v = Inr ids"
  then obtain xs where xs: "v = JList xs" "xs \<noteq> []" "length xs \<le> 1000" "list_all is_str xs" "distinct xs"
    and ids: "ids = map str_of xs"
    by (auto simp: job_ids_def split: json.splits if_splits)
  have "map (\<lambda>x. JStr (str_of x)) xs = xs"
    using xs(4) by (intro map_idI) (auto simp: list_all_iff dest!: is_strE)
  then have v: "map JStr ids = xs" by (simp add: ids comp_def)
  then have "distinct ids" using xs(5) by (metis distinct_map)
  with v xs ids show ?thesis by auto
qed

lemma set_update_job:
  "set (jobs (update_job i f d)) = (\<lambda>j. if jb_id j = i then f j else j) ` set (jobs d)"
  by (simp add: update_job_def)

lemma same_job: "schema_ok d \<Longrightarrow> j \<in> set (jobs d) \<Longrightarrow> row \<in> set (jobs d) \<Longrightarrow> jb_id j = jb_id row \<Longrightarrow> j = row"
  using schema_okD(5) [of d] by (metis distinct_map inj_on_def)

lemma list_all_update_job:
  assumes "schema_ok d" and "row \<in> set (jobs d)" and "list_all P (jobs d)" and "P (f row)"
  shows "list_all P (jobs (update_job (jb_id row) f d))"
  using assms same_job [OF assms(1) _ assms(2)] by (auto simp: list_all_iff set_update_job)

lemma create_job_body_Inr:
  assumes "create_job_body sv dr ids d = Inr (p, d')"
  obtains items row where "mapE (snapshot_item sv d) ids = Inr items"
    and "row = \<lparr>jb_id = uuid4 dr 0, jb_status = Queued, jb_total = int (length items),
           jb_completed = 0, jb_snapshot = seal sv (JList items), jb_results = [],
           jb_error = None, jb_active_slot = Some 1\<rparr>"
    and "d' = d\<lparr>jobs := jobs d @ [row]\<rparr>" and "schema_ok d'" and "p = public_job row"
    and "\<forall>j \<in> set (jobs d). jb_active_slot j \<noteq> Some 1"
proof -
  from assms obtain items row where i: "mapE (snapshot_item sv d) ids = Inr items"
    and r: "row = \<lparr>jb_id = uuid4 dr 0, jb_status = Queued, jb_total = int (length items),
           jb_completed = 0, jb_snapshot = seal sv (JList items), jb_results = [],
           jb_error = None, jb_active_slot = Some 1\<rparr>"
    and d: "d' = d\<lparr>jobs := jobs d @ [row]\<rparr>" "schema_ok d'"
    and l: "bindE (lookup_row jb_id (JStr (uuid4 dr 0)) (jobs d')) (\<lambda>row. Inr (public_job row, d')) = Inr (p, d')"
    and a: "\<not> list_ex (\<lambda>j. jb_active_slot j = Some 1) (jobs d)"
    by (auto simp: create_job_body_def result_simps execute_eq_Inr Let_def)
  have "distinct (map jb_id (jobs d @ [row]))" using d schema_okD(5) [of d'] by simp
  then have "lookup_row jb_id (JStr (uuid4 dr 0)) (jobs d') = Inr row"
    using lookup_row_app_last [of jb_id row "jobs d"] by (simp add: d r)
  with l have "p = public_job row" by simp
  with i r d a show ?thesis by (intro that) (auto simp: list_ex_iff)
qed

lemma record_result_body_Inr:
  assumes "record_result_body sv job_id result d = Inr (u, d')"
  obtains row items entries i profile cleaned
  where "row \<in> set (jobs d)" and "job_id = JStr (jb_id row)" and "jb_status row \<in> {Queued, Running}"
    and "unseal sv (jb_snapshot row) = Some (JList items)" and "mapE snapshot_entry items = Inr entries"
    and "map_of (rev entries) (JStr i) = Some (JObj profile)" and "JStr i \<notin> set (result_ids row)"
    and "cleaned_result sv (credential_values (JList items)) i profile result
        (dget_or profile ''client_type'' (JStr ''network'') = JStr ''fake'')
        (dget_or result ''duration_ms'' (JInt 0)) = Inr cleaned"
    and "is_bool (dget result ''success'')" and "\<forall>t. dget_or result ''duration_ms'' (JInt 0) \<noteq> JStr t"
    and "d' = update_job (jb_id row) (\<lambda>j. j\<lparr>jb_results := jb_results row @ [cleaned],
         jb_completed := int (length (jb_results row) + 1)\<rparr>) d" and "schema_ok d'"
proof -
  have dur: "result_duration v = Inr w \<Longrightarrow> w = v \<and> (\<forall>t. v \<noteq> JStr t)" for v w
    by (auto simp: result_duration_def split: json.splits pyfloat.splits if_splits)
  have res: "result_profile entries v = Inr (i, p) \<Longrightarrow> v = JStr i \<and> map_of (rev entries) (JStr i) = Some p"
    for entries v i p by (auto simp: result_profile_def split: json.splits option.splits)
  have dec: "decrypt sv s = Inr v \<Longrightarrow> unseal sv s = Some v" for s v
    by (auto simp: decrypt_def split: option.splits)
  have lst: "as_list v = Inr xs \<Longrightarrow> v = JList xs" for v xs
    by (auto simp: as_list_def split: json.splits)
  show thesis
    using assms unfolding record_result_body_def
    apply (elim bindE_InrE)
    apply (clarsimp simp: Let_def split: prod.splits)
    apply (elim bindE_InrE)
    apply (clarsimp simp: check_eq_Inr execute_eq_Inr as_dict_eq_Inr list_ex_iff dest!: dur res dec lst lookup_row_InrD)
    apply (rule that)
    apply assumption
    apply (auto simp: result_ids_def)
    done
qed

lemma set_status_body_Inr:
  assumes "set_status_body sv job_id status error d = Inr (u, d')"
  obtains row snapshot where "row \<in> set (jobs d)" and "job_id = JStr (jb_id row)"
    and "status \<in> set (allowed_moves (jb_status row))"
    and "status = Completed \<longrightarrow> jb_completed row = jb_total row"
    and "unseal sv (jb_snapshot row) = Some snapshot"
    and "d' = update_job (jb_id row) (\<lambda>j. j\<lparr>jb_status := status,
         jb_active_slot := (if status \<in> {Queued, Running} then Some 1 else None),
         jb_error := (if truthy error then Some (redact (py_str sv error) (credential_values snapshot)) else None)\<rparr>) d"
    and "schema_ok d'"
proof -
  have dec: "decrypt sv s = Inr v \<Longrightarrow> unseal sv s = Some v" for s v
    by (auto simp: decrypt_def split: option.splits)
  show thesis
    using assms unfolding set_status_body_def Let_def
    apply (elim bindE_InrE)
    apply (clarsimp simp: check_eq_Inr execute_eq_Inr dest!: dec lookup_row_InrD)
    apply (rule that)
    apply assumption
    apply auto
    done
qed

lemma cleaned_result_id:
  "cleaned_result sv secrets i profile result simulated duration = Inr cleaned \<Longrightarrow>
     dget cleaned ''connection_id'' = JStr i"
  by (auto simp: cleaned_result_def result_simps dget_Cons)

lemma create_job_consistent:
  assumes "vault_law sv" and "jobs_consistent sv d" and "distinct ids"
    and "create_job_body sv dr ids d = Inr (p, d')"
  shows "jobs_consistent sv d'"
  using assms(4)
proof (rule create_job_body_Inr)
  fix items row assume "mapE (snapshot_item sv d) ids = Inr items"
    and row: "row = \<lparr>jb_id = uuid4 dr 0, jb_status = Queued, jb_total = int (length items),
           jb_completed = 0, jb_snapshot = seal sv (JList items), jb_results = [],
           jb_error = None, jb_active_slot = Some 1\<rparr>"
    and d': "d' = d\<lparr>jobs := jobs d @ [row]\<rparr>" "schema_ok d'"
  then have "List.map_filter entry_id items = ids \<and> list_all (\<lambda>v. entry_id v \<noteq> None) items"
    and "length items = length ids"
    by (auto dest: snapshot_items_ids mapE_length)
  then have "job_consistent sv row"
    using assms(1,3) by (simp add: row job_consistent_def snapshot_readable_def snapshot_ids_def result_ids_def)
  then show ?thesis using assms(2) d' by (simp add: jobs_consistent_def)
qed

lemma record_result_consistent:
  assumes "jobs_consistent sv d" and "record_result_body sv job_id result d = Inr (u, d')"
  shows "jobs_consistent sv d'"
  using assms(2)
proof (rule record_result_body_Inr)
  fix row items entries i profile cleaned
  assume row: "row \<in> set (jobs d)" "jb_status row \<in> {Queued, Running}"
    and items: "unseal sv (jb_snapshot row) = Some (JList items)" "mapE snapshot_entry items = Inr entries"
    and i: "map_of (rev entries) (JStr i) = Some (JObj profile)" "JStr i \<notin> set (result_ids row)"
    and cleaned: "cleaned_result sv (credential_values (JList items)) i profile result
        (dget_or profile ''client_type'' (JStr ''network'') = JStr ''fake'')
        (dget_or result ''duration_ms'' (JInt 0)) = Inr cleaned"
    and d': "d' = update_job (jb_id row) (\<lambda>j. j\<lparr>jb_results := jb_results row @ [cleaned],
         jb_completed := int (length (jb_results row) + 1)\<rparr>) d" "schema_ok d'"
  have c: "job_consistent sv row" using assms(1) row by (auto simp: jobs_consistent_def list_all_iff)
  then have "map fst entries = map JStr (snapshot_ids sv row)"
    using items snapshot_entry_ids [OF items(2)]
    by (auto simp: job_consistent_def snapshot_readable_def snapshot_ids_def)
  moreover have "JStr i \<in> set (map fst entries)"
    using i(1) by (force dest!: map_of_SomeD)
  ultimately have mem: "i \<in> set (snapshot_ids sv row)" by auto
  let ?f = "\<lambda>j. j\<lparr>jb_results := jb_results row @ [cleaned], jb_completed := int (length (jb_results row) + 1)\<rparr>"
  have "job_consistent sv (?f row)"
    using c row(2) mem i(2) cleaned_result_id [OF cleaned] snapshot_ids_cong [of "?f row" row]
    by (auto simp: job_consistent_def result_ids_def)
  then have "list_all (job_consistent sv) (jobs d')"
    unfolding d'(1) using assms(1) row(1) by (intro list_all_update_job) (auto simp: jobs_consistent_def)
  then show ?thesis using d'(2) by (simp add: jobs_consistent_def)
qed

lemma set_status_consistent:
  assumes "jobs_consistent sv d" and "set_status_body sv job_id status error d = Inr (u, d')"
  shows "jobs_consistent sv d'"
  using assms(2)
proof (rule set_status_body_Inr)
  fix row snapshot
  let ?f = "\<lambda>j. j\<lparr>jb_status := status, jb_active_slot := (if status \<in> {Queued, Running} then Some 1 else None),
     jb_error := (if truthy error then Some (redact (py_str sv error) (credential_values snapshot)) else None)\<rparr>"
  assume row: "row \<in> set (jobs d)" and full: "status = Completed \<longrightarrow> jb_completed row = jb_total row"
    and d': "d' = update_job (jb_id row) ?f d" "schema_ok d'"
  have "job_consistent sv row" using assms(1) row by (auto simp: jobs_consistent_def list_all_iff)
  then have "job_consistent sv (?f row)"
    using full snapshot_ids_cong [of "?f row" row] by (auto simp: job_consistent_def result_ids_def)
  then have "list_all (job_consistent sv) (jobs d')"
    unfolding d'(1) using assms(1) row by (intro list_all_update_job) (simp_all add: jobs_consistent_def)
  then show ?thesis using d'(2) by (simp add: jobs_consistent_def)
qed

section \<open>Recovery\<close>

lemma distinct_map_filter_drop:
  "distinct (List.map_filter f xs) \<Longrightarrow> (\<And>x. x \<in> set xs \<Longrightarrow> f (g x) = f x \<or> f (g x) = None)
     \<Longrightarrow> distinct (List.map_filter f (map g xs))
         \<and> set (List.map_filter f (map g xs)) \<subseteq> set (List.map_filter f xs)"
proof (induction xs)
  case (Cons x xs)
  have "f (g x) = f x \<or> f (g x) = None" by (rule Cons.prems(2)) simp
  moreover have "distinct (List.map_filter f (map g xs))
      \<and> set (List.map_filter f (map g xs)) \<subseteq> set (List.map_filter f xs)"
    using Cons.prems by (intro Cons.IH) (auto simp: map_filter_simps split: option.splits)
  ultimately show ?case
    using Cons.prems(1) by (cases "f x") (auto simp: map_filter_simps)
qed (simp add: map_filter_simps)

text \<open>An update of jobs that keeps their ids and never takes a slot keeps the constraints.\<close>

lemma schema_map_jobs:
  assumes "schema_ok d" and "\<And>j. j \<in> set (jobs d) \<Longrightarrow> jb_id (g j) = jb_id j"
    and "\<And>j. j \<in> set (jobs d) \<Longrightarrow> jb_active_slot (g j) = jb_active_slot j \<or> jb_active_slot (g j) = None"
    and "\<And>j. j \<in> set (jobs d) \<Longrightarrow> job_progress_ok j \<and> job_slot_ok j \<Longrightarrow> job_progress_ok (g j) \<and> job_slot_ok (g j)"
  shows "schema_ok (d\<lparr>jobs := map g (jobs d)\<rparr>)"
proof -
  have ok: "jobs_ok d" by (rule schema_ok_parts [OF assms(1)])
  have "map (jb_id \<circ> g) (jobs d) = map jb_id (jobs d)" using assms(2) by simp
  then have "distinct (map (jb_id \<circ> g) (jobs d))" using ok by (simp only: jobs_ok_def)
  moreover have "distinct (List.map_filter jb_active_slot (map g (jobs d)))"
    using distinct_map_filter_drop [of jb_active_slot "jobs d" g] ok assms(3) by (simp add: jobs_ok_def)
  ultimately have "jobs_ok (d\<lparr>jobs := map g (jobs d)\<rparr>)"
    using ok assms(4) by (simp add: jobs_ok_def list_all_iff)
  then show ?thesis unfolding schema_frame_jobs using schema_ok_parts [OF assms(1)] by blast
qed

lemma schema_interrupt: "schema_ok d \<Longrightarrow> schema_ok (d\<lparr>jobs := map interrupt (jobs d)\<rparr>)"
  by (rule schema_map_jobs) (auto simp: interrupt_def job_slot_ok_def job_progress_ok_def)

lemma interrupt_terminal:
  "job_slot_ok j \<Longrightarrow> jb_active_slot (interrupt j) = None \<and> jb_results (interrupt j) = jb_results j
     \<and> jb_status (interrupt j) \<in> {Completed, Failed} \<and> (jb_active_slot j = None \<longrightarrow> interrupt j = j)"
  by (auto simp: job_slot_ok_def interrupt_def)

lemma interrupt_exact:
  "job_slot_ok j \<Longrightarrow> interrupt j = (if jb_status j \<in> {Queued, Running}
     then j\<lparr>jb_status := Failed, jb_active_slot := None, jb_error := Some ''Interrupted by gateway restart.''\<rparr>
     else j)"
  by (auto simp: job_slot_ok_def interrupt_def)

lemma recovery_body_Inr:
  assumes "recovery_body sv d = Inr (u, d')"
  shows "d' = d\<lparr>jobs := map interrupt (jobs d)\<rparr> \<and> schema_ok d'"
  using assms by (auto simp: recovery_body_def result_simps execute_eq_Inr)

lemma recovery_consistent:
  assumes "jobs_consistent sv d" and "recovery_body sv d = Inr (u, d')"
  shows "jobs_consistent sv d'"
proof -
  have "job_consistent sv (interrupt j)" if "job_consistent sv j" for j
    using that snapshot_ids_cong [of "interrupt j" j]
    by (auto simp: job_consistent_def interrupt_def result_ids_def)
  then show ?thesis
    using assms(1) recovery_body_Inr [OF assms(2)] by (auto simp: jobs_consistent_def list_all_iff)
qed

section \<open>Runs\<close>

datatype job_command =
    CreateJob draws json
  | RecordResult json dict
  | SetStatus json job_status json
  | Restart

definition job_step :: "services \<Rightarrow> job_command \<Rightarrow> db \<Rightarrow> exn + (unit \<times> db)" where
  "job_step sv c d = (case c of
      CreateJob dr ids \<Rightarrow> bindE (job_ids ids) (\<lambda>ids. bindE (create_job_body sv dr ids d) (\<lambda>(_, d). Inr ((), d)))
    | RecordResult i r \<Rightarrow> record_result_body sv i r d
    | SetStatus i status error \<Rightarrow> set_status_body sv i status error d
    | Restart \<Rightarrow> recovery_body sv d)"

lemma job_step_consistent:
  assumes "vault_law sv" and "jobs_consistent sv d" and "job_step sv c d = Inr (u, d')"
  shows "jobs_consistent sv d'"
  using assms
  by (cases c) (auto simp: job_step_def bindE_eq_Inr dest: job_ids_Inr
      intro: create_job_consistent record_result_consistent set_status_consistent recovery_consistent)

text \<open>
  The moves of the status machine, and what a step may do to a job that exists: it keeps its
  identity and its snapshot, its results are only appended to, its status moves along the
  relation, and once terminal it has all the results it will ever have.
\<close>

inductive job_moves :: "job_status \<Rightarrow> job_status \<Rightarrow> bool" where
  stay: "job_moves s s"
| start: "job_moves Queued Running"
| finish: "job_moves Running Completed"
| fail_queued: "job_moves Queued Failed"
| fail_running: "job_moves Running Failed"

inductive_cases from_completed: "job_moves Completed s"
inductive_cases from_failed: "job_moves Failed s"

lemma allowed_moves_iff: "s' \<in> set (allowed_moves s) \<longleftrightarrow> job_moves s s'"
  by (cases s) (auto simp: allowed_moves_def intro: job_moves.intros elim: job_moves.cases)

lemma terminal_moves: "job_moves\<^sup>*\<^sup>* s s' \<Longrightarrow> s \<in> {Completed, Failed} \<Longrightarrow> s' = s"
  by (induction rule: rtranclp_induct) (auto elim: from_completed from_failed)

definition progresses :: "job_row \<Rightarrow> job_row \<Rightarrow> bool" where
  "progresses j j' \<longleftrightarrow> jb_id j' = jb_id j \<and> jb_snapshot j' = jb_snapshot j \<and> jb_total j' = jb_total j
     \<and> job_moves\<^sup>*\<^sup>* (jb_status j) (jb_status j') \<and> prefix (jb_results j) (jb_results j')
     \<and> (jb_status j \<in> {Completed, Failed} \<longrightarrow> jb_results j' = jb_results j)"

lemma progresses_refl [simp]: "progresses j j"
  by (simp add: progresses_def)

lemma progresses_trans: "progresses j k \<Longrightarrow> progresses k l \<Longrightarrow> progresses j l"
  unfolding progresses_def using terminal_moves by (auto intro: rtranclp_trans prefix_order.trans)

definition history :: "db \<Rightarrow> db \<Rightarrow> bool" where
  "history d d' \<longleftrightarrow> length (jobs d) \<le> length (jobs d')
     \<and> list_all2 progresses (jobs d) (take (length (jobs d)) (jobs d'))"

lemma history_map: "(\<And>j. j \<in> set (jobs d) \<Longrightarrow> progresses j (f j)) \<Longrightarrow> jobs d' = map f (jobs d) \<Longrightarrow> history d d'"
  by (simp add: history_def list_all2_conv_all_nth)

lemma history_update:
  assumes "schema_ok d" and "row \<in> set (jobs d)" and "progresses row (f row)"
  shows "history d (update_job (jb_id row) f d)"
proof (rule history_map)
  show "progresses j (if jb_id j = jb_id row then f j else j)" if "j \<in> set (jobs d)" for j
    using assms same_job [OF assms(1) that assms(2)] by auto
qed (simp add: update_job_def)

lemma history_app: "jobs d' = jobs d @ js \<Longrightarrow> history d d'"
  by (simp add: history_def list_all2_conv_all_nth)

lemma history_trans:
  assumes "history d e" and "history e f"
  shows "history d f"
proof -
  have "progresses (jobs d ! i) (jobs f ! i)" if "i < length (jobs d)" for i
  proof (rule progresses_trans)
    show "progresses (jobs d ! i) (jobs e ! i)"
      using assms(1) that by (auto simp: history_def list_all2_conv_all_nth)
    show "progresses (jobs e ! i) (jobs f ! i)"
      using assms that by (auto simp: history_def list_all2_conv_all_nth)
  qed
  then show ?thesis using assms by (auto simp: history_def list_all2_conv_all_nth)
qed

lemma job_step_history:
  assumes "schema_ok d" and "job_step sv c d = Inr (u, d')"
  shows "history d d'"
proof (cases c)
  case (CreateJob dr v)
  with assms(2) obtain ids p where "create_job_body sv dr ids d = Inr (p, d')"
    by (auto simp: job_step_def result_simps)
  then show ?thesis by (rule create_job_body_Inr) (auto intro: history_app)
next
  case (RecordResult i r)
  with assms(2) have "record_result_body sv i r d = Inr (u, d')" by (simp add: job_step_def)
  then show ?thesis
    by (rule record_result_body_Inr) (auto intro!: history_update [OF assms(1)] simp: progresses_def)
next
  case (SetStatus i s e)
  with assms(2) have "set_status_body sv i s e d = Inr (u, d')" by (simp add: job_step_def)
  then show ?thesis
  proof (rule set_status_body_Inr)
    fix row snapshot
    let ?f = "\<lambda>j. j\<lparr>jb_status := s, jb_active_slot := (if s \<in> {Queued, Running} then Some 1 else None),
       jb_error := (if truthy e then Some (redact (py_str sv e) (credential_values snapshot)) else None)\<rparr>"
    assume r: "row \<in> set (jobs d)" "s \<in> set (allowed_moves (jb_status row))"
      and d': "d' = update_job (jb_id row) ?f d"
    have "progresses row (?f row)" using r(2) by (simp add: progresses_def allowed_moves_iff r_into_rtranclp)
    then show ?thesis unfolding d' by (rule history_update [OF assms(1) r(1)])
  qed
next
  case Restart
  with assms(2) have "recovery_body sv d = Inr (u, d')" by (simp add: job_step_def)
  from recovery_body_Inr [OF this] have d': "jobs d' = map interrupt (jobs d)" by simp
  have "progresses j (interrupt j)" if "j \<in> set (jobs d)" for j
  proof -
    have "job_slot_ok j" using assms(1) that by (auto simp: schema_ok_def jobs_ok_def list_all_iff)
    then show ?thesis
      by (auto simp: progresses_def interrupt_def job_slot_ok_def r_into_rtranclp [of job_moves]
          job_moves.intros)
  qed
  then show ?thesis using d' by (rule history_map)
qed

interpretation job_store: transactional_system "job_step sv" "\<lambda>d. vault_law sv \<and> jobs_consistent sv d \<and> history d0 d"
  for sv d0
proof (unfold_locales, elim conjE, intro conjI)
  fix s c a s' assume v: "vault_law sv" and c: "jobs_consistent sv s" and h: "history d0 s"
    and b: "job_step sv c s = Inr (a, s')"
  show "vault_law sv" by (rule v)
  show "jobs_consistent sv s'" using v c b by (rule job_step_consistent)
  have "schema_ok s" using c by (simp add: jobs_consistent_def)
  then show "history d0 s'" using h b by (blast intro: history_trans job_step_history)
qed

section \<open>Properties\<close>

text \<open>
  Whatever sequence of job operations and restarts runs, failed ones
  included, the schema holds and every job agrees with its encrypted snapshot: the snapshot
  opens to the selected connections, each result belongs to one of them and no two to the same,
  the progress count is the number of results, and a completed job has all of them.
\<close>

theorem jobs_stay_consistent:
  assumes "vault_law sv" and "jobs_consistent sv d"
  shows "jobs_consistent sv (foldl (\<lambda>d c. commit (job_step sv c) d) d commands)"
  using job_store.run_inv [of sv d d commands] assms by (simp add: history_app [of d d "[]"])

text \<open>
  C16. Along any run the jobs that exist stay, in place, with their snapshot and
  total; their status moves only along queued, running, completed or failed; results are only
  appended; and a job that is completed or failed keeps its status and its results for good.
\<close>

theorem jobs_only_progress:
  assumes "vault_law sv" and "jobs_consistent sv d" and "k < length (jobs d)"
  shows "progresses (jobs d ! k) (jobs (foldl (\<lambda>d c. commit (job_step sv c) d) d commands) ! k)"
  using job_store.run_inv [of sv d d commands] assms
  by (simp add: history_app [of d d "[]"]) (simp add: history_def list_all2_conv_all_nth)

text \<open>
  A completed job of a consistent store has exactly one result for
  each connection that was selected.
\<close>

theorem completed_jobs_are_complete:
  assumes "jobs_consistent sv d" and "j \<in> set (jobs d)" and "jb_status j = Completed"
  shows "distinct (result_ids j) \<and> set (result_ids j) = JStr ` set (snapshot_ids sv j)"
proof -
  have c: "job_consistent sv j" using assms(1,2) by (auto simp: jobs_consistent_def list_all_iff)
  then have sub: "set (result_ids j) \<subseteq> JStr ` set (snapshot_ids sv j)"
    and len: "length (result_ids j) = length (snapshot_ids sv j)"
    using assms(3) by (auto simp: job_consistent_def list_all_iff result_ids_def)
  have "card (set (result_ids j)) = card (JStr ` set (snapshot_ids sv j))"
    using c len by (simp add: job_consistent_def distinct_card card_image inj_on_def)
  then show ?thesis using c sub by (simp add: job_consistent_def card_subset_eq)
qed

text \<open>
  While a job is active no other can be created, and the attempt changes
  nothing; a creation that succeeds makes its job, queued and without results, the only active
  one, with one entry for each distinct connection asked for.
\<close>

theorem one_job_at_a_time:
  assumes "schema_ok (st_db st)"
  shows "case create_job sv dr v st of
      Inl e \<Rightarrow> True
    | Inr (p, st') \<Rightarrow> (\<forall>j \<in> set (jobs (st_db st)). jb_active_slot j = None)
        \<and> (\<exists>row ids. v = JList (map JStr ids) \<and> distinct ids \<and> jb_total row = int (length ids)
             \<and> jobs (st_db st') = jobs (st_db st) @ [row] \<and> p = public_job row
             \<and> jb_status row = Queued \<and> jb_active_slot row = Some 1 \<and> jb_results row = [])"
proof (cases "create_job sv dr v st")
  case (Inr r)
  then obtain p st' ids d' where r: "r = (p, st')" and ids: "job_ids v = Inr ids"
    and b: "create_job_body sv dr ids (st_db st) = Inr (p, d')" and st': "st_db st' = d'"
    by (cases r) (auto simp: create_job_def transaction_def result_simps split: if_splits sum.splits)
  have slots: "jb_active_slot j \<noteq> Some 1 \<Longrightarrow> jb_active_slot j = None" if "j \<in> set (jobs (st_db st))" for j
    using assms that by (auto simp: schema_ok_def jobs_ok_def list_all_iff job_slot_ok_def)
  from b show ?thesis
  proof (rule create_job_body_Inr)
    fix items row assume "mapE (snapshot_item sv (st_db st)) ids = Inr items"
      and "row = \<lparr>jb_id = uuid4 dr 0, jb_status = Queued, jb_total = int (length items),
           jb_completed = 0, jb_snapshot = seal sv (JList items), jb_results = [],
           jb_error = None, jb_active_slot = Some 1\<rparr>"
      and "d' = (st_db st)\<lparr>jobs := jobs (st_db st) @ [row]\<rparr>" and "p = public_job row"
      and "\<forall>j \<in> set (jobs (st_db st)). jb_active_slot j \<noteq> Some 1"
    then show ?thesis
      using Inr r st' slots job_ids_Inr [OF ids]
      by (auto intro!: exI [of _ row] exI [of _ ids] dest: mapE_length)
  qed
qed simp

lemma schema_set_status:
  assumes "schema_ok d" and "row \<in> set (jobs d)" and "job_moves (jb_status row) s"
  shows "schema_ok (update_job (jb_id row) (\<lambda>j. j\<lparr>jb_status := s,
     jb_active_slot := (if s \<in> {Queued, Running} then Some 1 else None), jb_error := e\<rparr>) d)"
proof -
  have slot: "job_slot_ok row" using assms(1,2) by (auto simp: schema_ok_def jobs_ok_def list_all_iff)
  show ?thesis
    unfolding update_job_def
  proof (rule schema_map_jobs [OF assms(1)])
    fix j assume "j \<in> set (jobs d)"
    note same_job [OF assms(1) this assms(2)]
    then show "jb_active_slot (if jb_id j = jb_id row then j\<lparr>jb_status := s, jb_active_slot :=
        (if s \<in> {Queued, Running} then Some 1 else None), jb_error := e\<rparr> else j) = jb_active_slot j \<or>
      jb_active_slot (if jb_id j = jb_id row then j\<lparr>jb_status := s, jb_active_slot :=
        (if s \<in> {Queued, Running} then Some 1 else None), jb_error := e\<rparr> else j) = None"
      using slot assms(3) by (auto simp: job_slot_ok_def elim: job_moves.cases)
  qed (cases s; auto simp: job_progress_ok_def job_slot_ok_def)+
qed

text \<open>
  Setting the status of a job of a consistent store: 404 for an unknown
  job, 409 for a move the state machine does not have or for a completion with results missing,
  and else the job moves, with its slot freed exactly when it becomes terminal.
\<close>

theorem status_change_exact:
  assumes "jobs_consistent sv d"
  shows "set_status_body sv (JStr i) s e d =
    (case find (\<lambda>j. jb_id j = i) (jobs d) of
       None \<Rightarrow> Inl (StoreError (Store ResourceNotFound) 404)
     | Some row \<Rightarrow>
         if \<not> job_moves (jb_status row) s then Inl (StoreError (Job InvalidTransition) 409)
         else if s = Completed \<and> length (jb_results row) \<noteq> length (snapshot_ids sv row)
         then Inl (StoreError (Job MissingResults) 409)
         else Inr ((), update_job i (\<lambda>j. j\<lparr>jb_status := s,
           jb_active_slot := (if s \<in> {Queued, Running} then Some 1 else None),
           jb_error := (if truthy e then Some (redact (py_str sv e)
              (credential_values (the (unseal sv (jb_snapshot row))))) else None)\<rparr>) d))"
proof (cases "find (\<lambda>j. jb_id j = i) (jobs d)")
  case None
  then show ?thesis by (simp add: set_status_body_def lookup_row_def)
next
  case (Some row)
  then have row: "row \<in> set (jobs d)" "jb_id row = i" using find_Some_iff_set by fastforce+
  have l: "lookup_row jb_id (JStr i) (jobs d) = Inr row" using Some by (simp add: lookup_row_def)
  have c: "job_consistent sv row" and ok: "schema_ok d"
    using assms row by (auto simp: jobs_consistent_def list_all_iff)
  then obtain v where v: "unseal sv (jb_snapshot row) = Some v"
    by (auto simp: job_consistent_def snapshot_readable_def split: option.splits)
  show ?thesis
    using Some l c v schema_set_status [OF ok row(1), of s] row(2)
    by (auto simp: set_status_body_def allowed_moves_iff [symmetric] job_consistent_def decrypt_def check_def
        Let_def execute_def)
qed

lemma cleaned_result_Inr:
  assumes "cleaned_result sv ss i profile result simulated duration = Inr cleaned"
  obtains a b e g c where "dget profile ''connector'' = JObj c"
    and "cleaned = [(''connection_id'', JStr i), (''name'', JStr (redact a ss)),
      (''protocol'', dget profile ''protocol''), (''host'', JStr (redact b ss)), (''port'', dget profile ''port''),
      (''connector_type'', dget c ''type''), (''success'', dget result ''success''),
      (''simulated'', JBool simulated), (''stage'', JStr (redact e ss)), (''detail'', JStr (redact g ss)),
      (''duration_ms'', duration)]"
proof -
  have d: "dreq p k = Inr v \<Longrightarrow> dget p k = v" for p k v by (auto simp: dreq_def dget_def split: option.splits)
  obtain x xa xb xc xd xe xf where "dreq profile ''protocol'' = Inr xa" "dreq profile ''port'' = Inr xc"
    "dreq profile ''connector'' = Inr xd" "as_dict xd = Inr xe" "dreq xe ''type'' = Inr xf"
    and "cleaned = [(''connection_id'', JStr i), (''name'', JStr (redact (py_str sv x) ss)),
      (''protocol'', xa), (''host'', JStr (redact (py_str sv xb) ss)), (''port'', xc),
      (''connector_type'', xf), (''success'', dget result ''success''), (''simulated'', JBool simulated),
      (''stage'', JStr (redact (py_str sv (dget_or result ''stage'' (JStr ''unknown''))) ss)),
      (''detail'', JStr (redact (py_str sv (dget_or result ''detail'' (JStr []))) ss)),
      (''duration_ms'', duration)]"
    using assms unfolding cleaned_result_def by (elim bindE_InrE) (drule Inr_inject, drule sym, assumption | rule)+
  moreover from this have "dget profile ''connector'' = JObj xe" and "dget profile ''protocol'' = xa"
    and "dget profile ''port'' = xc" and "dget xe ''type'' = xf" by (simp_all add: as_dict_eq_Inr d)
  ultimately show thesis using that by blast
qed

lemma cleaned_result_fields:
  assumes "cleaned_result sv ss i profile result simulated duration = Inr cleaned"
  shows "\<forall>f \<in> {''name'', ''host'', ''stage'', ''detail''}. \<exists>t0. dget cleaned f = JStr (redact t0 ss)"
    and "\<exists>c. dget profile ''connector'' = JObj c \<and> dget cleaned ''connector_type'' = dget c ''type''"
    and "dget cleaned ''connection_id'' = JStr i \<and> dget cleaned ''protocol'' = dget profile ''protocol''
      \<and> dget cleaned ''port'' = dget profile ''port''"
    and "is_bool (dget result ''success'') \<Longrightarrow> \<forall>t. duration \<noteq> JStr t \<Longrightarrow> (f, JStr t) \<in> set cleaned \<Longrightarrow>
      f \<in> {''connection_id'', ''protocol'', ''port'', ''connector_type''} \<or> (\<exists>t0. t = redact t0 ss)"
proof -
  obtain a b e g c where c: "dget profile ''connector'' = JObj c"
    and eq: "cleaned = [(''connection_id'', JStr i), (''name'', JStr (redact a ss)),
      (''protocol'', dget profile ''protocol''), (''host'', JStr (redact b ss)), (''port'', dget profile ''port''),
      (''connector_type'', dget c ''type''), (''success'', dget result ''success''),
      (''simulated'', JBool simulated), (''stage'', JStr (redact e ss)), (''detail'', JStr (redact g ss)),
      (''duration_ms'', duration)]"
    by (rule cleaned_result_Inr [OF assms])
  show "\<forall>f \<in> {''name'', ''host'', ''stage'', ''detail''}. \<exists>t0. dget cleaned f = JStr (redact t0 ss)"
    by (auto simp: eq dget_Cons)
  show "\<exists>c. dget profile ''connector'' = JObj c \<and> dget cleaned ''connector_type'' = dget c ''type''"
    by (rule exI [of _ c]) (simp add: eq c dget_Cons)
  show "dget cleaned ''connection_id'' = JStr i \<and> dget cleaned ''protocol'' = dget profile ''protocol''
      \<and> dget cleaned ''port'' = dget profile ''port''"
    by (simp add: eq dget_Cons)
  assume "is_bool (dget result ''success'')" and d: "\<forall>t. duration \<noteq> JStr t" and m: "(f, JStr t) \<in> set cleaned"
  then have s: "dget result ''success'' \<noteq> JStr t" "JBool simulated \<noteq> JStr t" "duration \<noteq> JStr t"
    by (auto simp: is_bool_def)
  from m show "f \<in> {''connection_id'', ''protocol'', ''port'', ''connector_type''} \<or> (\<exists>t0. t = redact t0 ss)"
    unfolding eq list.set insert_iff prod.inject json.inject empty_iff
    by (elim disjE conjE; insert s; auto)
qed

text \<open>
  C17. The result that is recorded is appended to its job. Its name, host, stage and detail are texts;
  its connection id, protocol, port and connector type are those of the connection in the snapshot of
  the job, which holds checked words and numbers there; and every other text of it has at most 2000
  characters and contains no credential of any connection of the job that is clear of the placeholder
  \<open>[redacted]\<close>, whatever the caller put into the result.
\<close>

theorem results_hide_credentials:
  assumes "record_result_body sv job_id result d = Inr (u, d')"
  shows "\<exists>row \<in> set (jobs d). \<exists>row' \<in> set (jobs d'). \<exists>items entries i profile c cleaned.
     job_id = JStr (jb_id row) \<and> jb_id row' = jb_id row \<and> jb_results row' = jb_results row @ [cleaned]
     \<and> unseal sv (jb_snapshot row) = Some (JList items) \<and> mapE snapshot_entry items = Inr entries
     \<and> map_of (rev entries) (JStr i) = Some (JObj profile) \<and> dget profile ''connector'' = JObj c
     \<and> dget cleaned ''connection_id'' = JStr i \<and> dget cleaned ''protocol'' = dget profile ''protocol''
     \<and> dget cleaned ''port'' = dget profile ''port'' \<and> dget cleaned ''connector_type'' = dget c ''type''
     \<and> (\<forall>f \<in> {''name'', ''host'', ''stage'', ''detail''}. \<exists>t. dget cleaned f = JStr t)
     \<and> (\<forall>f t. (f, JStr t) \<in> set cleaned
          \<and> f \<notin> {''connection_id'', ''protocol'', ''port'', ''connector_type''} \<longrightarrow>
          length t \<le> 2000
          \<and> (\<forall>w \<in> set (credential_values (JList items)). clear_of w redacted \<longrightarrow> \<not> contains w t))"
  using assms
proof (rule record_result_body_Inr)
  fix row items entries i profile cleaned
  assume row: "row \<in> set (jobs d)" "job_id = JStr (jb_id row)"
    and items: "unseal sv (jb_snapshot row) = Some (JList items)" "mapE snapshot_entry items = Inr entries"
      "map_of (rev entries) (JStr i) = Some (JObj profile)"
    and cleaned: "cleaned_result sv (credential_values (JList items)) i profile result
        (dget_or profile ''client_type'' (JStr ''network'') = JStr ''fake'')
        (dget_or result ''duration_ms'' (JInt 0)) = Inr cleaned"
    and kinds: "is_bool (dget result ''success'')" "\<forall>t. dget_or result ''duration_ms'' (JInt 0) \<noteq> JStr t"
    and d': "d' = update_job (jb_id row) (\<lambda>j. j\<lparr>jb_results := jb_results row @ [cleaned],
         jb_completed := int (length (jb_results row) + 1)\<rparr>) d"
  let ?ss = "credential_values (JList items)"
  let ?row' = "row\<lparr>jb_results := jb_results row @ [cleaned], jb_completed := int (length (jb_results row) + 1)\<rparr>"
  have row': "?row' \<in> set (jobs d')"
    unfolding d' set_update_job using row(1) by (auto intro: rev_image_eqI)
  obtain c where c: "dget profile ''connector'' = JObj c \<and> dget cleaned ''connector_type'' = dget c ''type''"
    using cleaned_result_fields(2) [OF cleaned] by blast
  have gone: "\<not> contains w (redact t0 ?ss)" if "w \<in> set ?ss" "clear_of w redacted" for w t0
    using redact_removes that credential_list_nonempty by auto
  have hidden: "length t \<le> 2000 \<and> (\<forall>w \<in> set ?ss. clear_of w redacted \<longrightarrow> \<not> contains w t)"
    if "(f, JStr t) \<in> set cleaned \<and> f \<notin> {''connection_id'', ''protocol'', ''port'', ''connector_type''}" for f t
    using cleaned_result_fields(4) [OF cleaned kinds, of f t] that gone length_redact by blast
  have names: "\<forall>f \<in> {''name'', ''host'', ''stage'', ''detail''}. \<exists>t. dget cleaned f = JStr t"
    using cleaned_result_fields(1) [OF cleaned] by blast
  show ?thesis
    using row(2) items c cleaned_result_fields(3) [OF cleaned] names hidden
    by (intro bexI [OF _ row(1)] bexI [OF _ row'] exI [of _ items] exI [of _ entries] exI [of _ i]
        exI [of _ profile] exI [of _ c] exI [of _ cleaned] conjI allI impI) auto
qed

text \<open>
  C18. Opening the store with a key that does not open every stored secret is refused with 503 and
  changes nothing; else every queued or running job has failed, with its slot free, the error
  \<open>Interrupted by gateway restart.\<close> and everything else of it as it was, so no job is active, and
  every other job and every other table is as it was.
\<close>

theorem restart_recovers:
  assumes "schema_ok d" and "vault k = Some sv" and "k \<noteq> []"
  shows "case open_store vault (Some k) environment_key d of
      Inl e \<Rightarrow> e = StoreError (Store UndecryptableSecrets) 503 \<and> (\<exists>s \<in> set (stored_secrets d). unseal sv s = None)
    | Inr (sv', st) \<Rightarrow> sv' = sv \<and> \<not> st_closed st \<and> (\<forall>s \<in> set (stored_secrets d). unseal sv s \<noteq> None)
        \<and> st_db st = d\<lparr>jobs := jobs (st_db st)\<rparr>
        \<and> list_all2 (\<lambda>j j'. jb_active_slot j' = None \<and> jb_status j' \<in> {Completed, Failed}
             \<and> j' = (if jb_status j \<in> {Queued, Running}
                 then j\<lparr>jb_status := Failed, jb_active_slot := None,
                        jb_error := Some ''Interrupted by gateway restart.''\<rparr>
                 else j))
            (jobs d) (jobs (st_db st))"
proof (cases "\<forall>s \<in> set (stored_secrets d). unseal sv s \<noteq> None")
  case True
  then have "mapE (decrypt sv) (stored_secrets d) = Inr (map (\<lambda>s. the (unseal sv s)) (stored_secrets d))"
    by (intro mapE_total) (auto simp: decrypt_def)
  then have "recovery_body sv d = Inr ((), d\<lparr>jobs := map interrupt (jobs d)\<rparr>)"
    using schema_interrupt [OF assms(1)] by (simp add: recovery_body_def)
  moreover have "\<forall>j \<in> set (jobs d). job_slot_ok j"
    using assms(1) by (auto simp: schema_ok_def jobs_ok_def list_all_iff)
  then have "list_all2 (\<lambda>j j'. jb_active_slot j' = None \<and> jb_status j' \<in> {Completed, Failed}
      \<and> j' = (if jb_status j \<in> {Queued, Running}
          then j\<lparr>jb_status := Failed, jb_active_slot := None,
                 jb_error := Some ''Interrupted by gateway restart.''\<rparr>
          else j)) (jobs d) (map interrupt (jobs d))"
    unfolding list_all2_map2 list_all2_same using interrupt_terminal interrupt_exact by blast
  ultimately show ?thesis
    using True assms(2,3) by (cases k) (simp_all add: open_store_def transaction_def)
next
  case False
  have "mapE (decrypt sv) ss = Inl (SecretError (Store UndecryptableSecrets))"
    if "\<exists>s \<in> set ss. unseal sv s = None" for ss
    using that
  proof (induction ss)
    case (Cons s ss)
    then show ?case by (cases "unseal sv s") (auto simp: decrypt_def)
  qed simp
  with False have "recovery_body sv d = Inl (SecretError (Store UndecryptableSecrets))"
    by (simp add: recovery_body_def)
  with False assms(2,3) show ?thesis
    by (cases k) (auto simp: open_store_def transaction_def translate_def)
qed

section \<open>A sample run\<close>

definition sample_result :: dict where
  "sample_result = [(''connection_id'', JStr ''2''), (''success'', JBool False),
     (''detail'', JStr ''login s3cret failed''), (''duration_ms'', JInt 5)]"

definition sample_commands :: "job_command list" where
  "sample_commands = [CreateJob sample_draws (JList [JStr ''2'']), SetStatus (JStr ''0'') Running JNull,
     RecordResult (JStr ''0'') sample_result, SetStatus (JStr ''0'') Completed JNull]"

text \<open>
  The cipher of the sample run writes the snapshot of the run as a one-letter code, and every
  other value as \<open>Instance\<close> does.
\<close>

definition sample_snapshot :: json where
  "sample_snapshot = JList [JObj [(''id'', JStr ''2''), (''profile'', JObj
     [(''id'', JStr ''2''), (''name'', JStr ''edge''), (''protocol'', JStr ''ssh''),
      (''host'', JStr ''10.0.0.2''), (''port'', JInt 22), (''timeout_seconds'', JFloat (Finite 10)),
      (''role_account_id'', JStr ''0''), (''proxy_id'', JStr ''1''), (''client_type'', JStr ''network''),
      (''username'', JStr ''admin''), (''authentication_type'', JStr ''password''),
      (''password'', JStr ''s3cret''), (''connector'', JObj
         [(''id'', JStr ''1''), (''name'', JStr ''jump''), (''type'', JStr ''socks5''),
          (''host'', JStr ''10.0.0.1''), (''port'', JInt 1080), (''role_account_id'', JNull),
          (''username'', JStr ''u''), (''password'', JStr ''proxypw'')])])]]"

definition run_services :: services where
  "run_services = sample_services
     \<lparr>seal := (\<lambda>v. if v = sample_snapshot then ''#'' else enc v),
       unseal := (\<lambda>s. if s = ''#'' then Some sample_snapshot else unseal sample_services s)\<rparr>"

lemma run_services_law: "vault_law run_services"
proof -
  have "enc v \<noteq> ''#''" for v
  proof (cases v)
    case (JFloat x)
    then show ?thesis by (cases x) simp_all
  qed simp_all
  then show ?thesis
    using dec_enc [OF weight_le_length, where r = "[]"]
    by (simp add: vault_law_def run_services_def sample_services_def)
qed

definition sample_job_run :: "nat \<Rightarrow> db" where
  "sample_job_run n = foldl (\<lambda>d c. commit (job_step run_services c) d) sample_db (take n sample_commands)"

lemma sample_db_jobs: "jobs_consistent run_services sample_db"
  using sample_db_ok by (simp add: jobs_consistent_def profiles_ok_def sample_db_def empty_db_def)

lemma sample_run: "case jobs (sample_job_run 4) of [j] \<Rightarrow> jb_status j = Completed \<and> length (jb_results j) = 1 \<and> jb_id j = ''0'' | _ \<Rightarrow> False"
  by code_simp

lemma sample_run_consistent: "jobs_consistent run_services (sample_job_run n)"
  unfolding sample_job_run_def
  using job_store.run_inv [of run_services sample_db sample_db] run_services_law sample_db_jobs
  by (simp add: history_app [of _ _ "[]"])

theorem jobs_stay_consistent_witness:
  "jobs_consistent run_services (foldl (\<lambda>d c. commit (job_step run_services c) d) sample_db sample_commands)"
  by (rule jobs_stay_consistent [OF run_services_law sample_db_jobs])

lemma sample_created: "length (jobs (sample_job_run 1)) = 1"
  by code_simp

theorem jobs_only_progress_witness:
  "progresses (jobs (sample_job_run 1) ! 0) (jobs (foldl (\<lambda>d c. commit (job_step run_services c) d)
     (sample_job_run 1) (drop 1 sample_commands)) ! 0)"
  using sample_created by (intro jobs_only_progress [OF run_services_law sample_run_consistent]) linarith

theorem completed_jobs_are_complete_witness:
  "\<exists>j \<in> set (jobs (sample_job_run 4)). jb_status j = Completed \<and> set (result_ids j) = JStr ` set (snapshot_ids run_services j)"
proof -
  obtain j where j: "jobs (sample_job_run 4) = [j]" "jb_status j = Completed"
    using sample_run by (auto split: list.splits)
  then show ?thesis using completed_jobs_are_complete [OF sample_run_consistent, of j 4] by simp
qed

theorem one_job_at_a_time_witness:
  "\<exists>p st' row. create_job run_services sample_draws (JList [JStr ''2'']) \<lparr>st_db = sample_db, st_closed = False\<rparr> = Inr (p, st')
     \<and> jobs (st_db st') = jobs sample_db @ [row] \<and> jb_status row = Queued"
proof -
  have "case create_job run_services sample_draws (JList [JStr ''2'']) \<lparr>st_db = sample_db, st_closed = False\<rparr> of
      Inl e \<Rightarrow> False | Inr r \<Rightarrow> True" by code_simp
  then obtain p st' where c: "create_job run_services sample_draws (JList [JStr ''2''])
      \<lparr>st_db = sample_db, st_closed = False\<rparr> = Inr (p, st')"
    by (auto split: sum.splits)
  have "schema_ok (st_db \<lparr>st_db = sample_db, st_closed = False\<rparr>)"
    using sample_db_jobs by (simp add: jobs_consistent_def)
  from one_job_at_a_time [OF this, where sv = run_services and dr = sample_draws and v = "JList [JStr ''2'']"] c
  show ?thesis by auto
qed

theorem status_change_exact_witness:
  "set_status_body run_services (JStr ''0'') Running JNull (sample_job_run 4)
     = Inl (StoreError (Job InvalidTransition) 409)"
proof -
  obtain j where "jobs (sample_job_run 4) = [j]" "jb_status j = Completed" "jb_id j = ''0''"
    using sample_run by (auto split: list.splits)
  then show ?thesis
    by (simp add: status_change_exact [OF sample_run_consistent]) (auto elim: from_completed)
qed

lemma sample_record: "case record_result_body run_services (JStr ''0'') sample_result (sample_job_run 2) of
    Inl e \<Rightarrow> False | Inr r \<Rightarrow> True"
  by code_simp

lemma sample_record_snapshot:
  "case jobs (sample_job_run 2) of [j] \<Rightarrow> unseal run_services (jb_snapshot j) = Some sample_snapshot | _ \<Rightarrow> False"
  "''s3cret'' \<in> set (credential_values sample_snapshot)" "clear_of ''s3cret'' redacted"
  by code_simp+

theorem results_hide_credentials_witness:
  "\<exists>d'. record_result_body run_services (JStr ''0'') sample_result (sample_job_run 2) = Inr ((), d')
     \<and> (\<exists>row' \<in> set (jobs d'). \<exists>t. dget (last (jb_results row')) ''detail'' = JStr t \<and> \<not> contains ''s3cret'' t)"
proof -
  obtain d' where r: "record_result_body run_services (JStr ''0'') sample_result (sample_job_run 2) = Inr ((), d')"
    using sample_record by (auto split: sum.splits)
  from results_hide_credentials [OF r] obtain row row' items cleaned where row: "row \<in> set (jobs (sample_job_run 2))"
      "unseal run_services (jb_snapshot row) = Some (JList items)"
    and row': "row' \<in> set (jobs d')" "jb_results row' = jb_results row @ [cleaned]"
    and texts: "\<forall>f \<in> {''name'', ''host'', ''stage'', ''detail''}. \<exists>t. dget cleaned f = JStr t"
    and hidden: "\<forall>f t. (f, JStr t) \<in> set cleaned
        \<and> f \<notin> {''connection_id'', ''protocol'', ''port'', ''connector_type''} \<longrightarrow>
        length t \<le> 2000 \<and> (\<forall>w \<in> set (credential_values (JList items)). clear_of w redacted \<longrightarrow> \<not> contains w t)"
    by (elim bexE exE conjE) rule
  obtain t where t: "dget cleaned ''detail'' = JStr t" using texts by auto
  have "JList items = sample_snapshot"
    using sample_record_snapshot(1) row by (auto split: list.splits)
  moreover have "(''detail'', JStr t) \<in> set cleaned"
    using t by (auto simp: dget_def dest: map_of_SomeD split: option.splits)
  moreover have "''detail'' \<notin> {''connection_id'', ''protocol'', ''port'', ''connector_type''}" by simp
  ultimately have "\<not> contains ''s3cret'' t" using hidden sample_record_snapshot(2,3) by metis
  with r row' t show ?thesis by (intro exI [of _ d'] conjI bexI [of _ row'] exI [of _ t]) simp_all
qed

theorem restart_recovers_witness:
  "case open_store (\<lambda>k. Some run_services) (Some ''key'') None (sample_job_run 2) of
     Inl e \<Rightarrow> e = StoreError (Store UndecryptableSecrets) 503
   | Inr (sv, st) \<Rightarrow> (case jobs (st_db st) of
       [j] \<Rightarrow> jb_status j = Failed \<and> jb_error j = Some ''Interrupted by gateway restart.'' | _ \<Rightarrow> False)"
proof -
  have ok: "schema_ok (sample_job_run 2)"
    using sample_run_consistent [of 2] by (simp add: jobs_consistent_def)
  have "case jobs (sample_job_run 2) of [j] \<Rightarrow> jb_status j = Running | _ \<Rightarrow> False" by code_simp
  then obtain j where "jobs (sample_job_run 2) = [j]" and "jb_status j = Running" by (auto split: list.splits)
  then show ?thesis
    using restart_recovers [OF ok, of "\<lambda>k. Some run_services" "''key''" run_services None]
    by (auto simp: list_all2_Cons1 split: sum.splits)
qed

end
