(* ===== verification/IpAddress.thy ===== *)
theory IpAddress
  imports PyString "HOL-Library.Word"
begin

text \<open>
  The part of Python's \<open>ipaddress\<close> module that the gateway uses: parsing and printing of IPv4 and
  IPv6 addresses and of networks with a prefix length in strict mode, and \<open>is_loopback\<close>. An
  address is a 32 or 128 bit word. The lemmas show that printing is canonical: what is printed
  parses back to the same address, so that two texts of one network have one stored form.
\<close>

unbundle bit_operations_syntax

section \<open>Positional digits\<close>

definition to_digits :: "int \<Rightarrow> nat \<Rightarrow> int \<Rightarrow> int list" where
  "to_digits b k n = map (\<lambda>i. n div b ^ (k - 1 - i) mod b) [0..<k]"

definition of_digits :: "int \<Rightarrow> int list \<Rightarrow> int" where
  "of_digits b ds = foldl (\<lambda>a d. a * b + d) 0 ds"

lemma length_to_digits [simp]: "length (to_digits b k n) = k"
  by (simp add: to_digits_def)

lemma to_digits_less: "0 < b \<Longrightarrow> d \<in> set (to_digits b k n) \<Longrightarrow> 0 \<le> d \<and> d < b"
  by (auto simp: to_digits_def)

lemma to_digits_Suc: "0 < b \<Longrightarrow> to_digits b (Suc k) n = to_digits b k (n div b) @ [n mod b]"
proof -
  assume b: "0 < b"
  have "n div b ^ (k - i) mod b = n div b div b ^ (k - 1 - i) mod b" if "i < k" for i
  proof -
    have "b ^ (k - i) = b * b ^ (k - 1 - i)"
      using that by (metis Suc_diff_Suc diff_Suc_eq_diff_pred diff_commute power_Suc diff_right_commute)
    then show ?thesis using b by (simp add: zdiv_zmult2_eq)
  qed
  then show ?thesis by (simp add: to_digits_def)
qed

lemma div_less_mult: "0 < b \<Longrightarrow> n < b * c \<Longrightarrow> n div b < c" for b n c :: int
proof -
  assume b: "0 < b" and n: "n < b * c"
  have "b * (n div b) \<le> n" using mult_div_mod_eq [of b n] pos_mod_sign [OF b, of n] by linarith
  then have "b * (n div b) < b * c" using n by linarith
  then show "n div b < c" using b by simp
qed

lemma of_to_digits: "0 \<le> n \<Longrightarrow> n < b ^ k \<Longrightarrow> 0 < b \<Longrightarrow> of_digits b (to_digits b k n) = n"
proof (induction k arbitrary: n)
  case 0
  then show ?case by (simp add: to_digits_def of_digits_def)
next
  case (Suc k)
  then have "n div b < b ^ k" and "0 \<le> n div b"
    by (auto simp: div_less_mult pos_imp_zdiv_nonneg_iff)
  with Suc have "of_digits b (to_digits b k (n div b)) = n div b" by simp
  then show ?case using Suc.prems(3) by (simp add: to_digits_Suc of_digits_def)
qed

section \<open>Hexadecimal\<close>

definition hex_char :: "int \<Rightarrow> char" where
  "hex_char n = ''0123456789abcdef'' ! nat n"

definition hex_val :: "char \<Rightarrow> int" where
  "hex_val c = int (if is_ascii_digit c then ord_of c - 48 else ord_of (lower_char c) - 87)"

definition is_hex :: "char \<Rightarrow> bool" where
  "is_hex c \<longleftrightarrow> is_ascii_digit c \<or> (97 \<le> ord_of c \<and> ord_of c \<le> 102) \<or> (65 \<le> ord_of c \<and> ord_of c \<le> 70)"

function show_hex :: "int \<Rightarrow> string" where
  "show_hex n = (if n < 16 then [hex_char n] else show_hex (n div 16) @ [hex_char (n mod 16)])"
  by auto
termination
  by (relation "measure nat") auto

declare show_hex.simps [simp del]

definition read_hex :: "string \<Rightarrow> int" where
  "read_hex s = foldl (\<lambda>n c. 16 * n + hex_val c) 0 s"

lemma hex_char_facts:
  assumes "0 \<le> n" and "n < 16"
  shows "is_hex (hex_char n)" and "hex_val (hex_char n) = n" and "hex_char n \<notin> set '':./%''"
proof -
  have all: "list_all (\<lambda>n. is_hex (hex_char n) \<and> hex_val (hex_char n) = n \<and> hex_char n \<notin> set '':./%'') [0..15]"
    by code_simp
  have "n \<in> set [0..15]" using assms by simp
  with all show "is_hex (hex_char n)" and "hex_val (hex_char n) = n" and "hex_char n \<notin> set '':./%''"
    unfolding list_all_iff by blast+
qed

lemma show_hex_neq_Nil [simp]: "show_hex n \<noteq> []" "[] \<noteq> show_hex n"
proof -
  show "show_hex n \<noteq> []" by (subst show_hex.simps) simp
  then show "[] \<noteq> show_hex n" by metis
qed

lemma show_hex_induct [consumes 1, case_names digit more]:
  assumes "0 \<le> (n :: int)" and "\<And>n. 0 \<le> n \<Longrightarrow> n < 16 \<Longrightarrow> P n"
    and "\<And>n. 16 \<le> n \<Longrightarrow> P (n div 16) \<Longrightarrow> P n"
  shows "P n"
  using assms(1)
proof (induction n rule: show_hex.induct)
  case (1 n)
  then show ?case using assms(2,3) by (cases "n < 16") auto
qed

lemma show_hex_step:
  "n < 16 \<Longrightarrow> show_hex n = [hex_char n]"
  "16 \<le> n \<Longrightarrow> show_hex n = show_hex (n div 16) @ [hex_char (n mod 16)]"
  by (subst show_hex.simps, simp)+

lemma show_hex_chars: "0 \<le> n \<Longrightarrow> c \<in> set (show_hex n) \<Longrightarrow> is_hex c \<and> c \<notin> set '':./%''"
proof (induction n rule: show_hex_induct)
  case (digit n)
  then show ?case using hex_char_facts(1,3) [of n] by (auto simp: show_hex_step(1))
next
  case (more n)
  then show ?case using hex_char_facts(1,3) [of "n mod 16"] by (auto simp: show_hex_step(2))
qed

lemma read_show_hex: "0 \<le> n \<Longrightarrow> read_hex (show_hex n) = n"
proof (induction n rule: show_hex_induct)
  case (digit n)
  then show ?case by (simp add: show_hex_step read_hex_def hex_char_facts)
next
  case (more n)
  then show ?case by (simp add: show_hex_step read_hex_def hex_char_facts)
qed

lemma length_show_hex: "0 \<le> n \<Longrightarrow> n < 16 ^ k \<Longrightarrow> 0 < k \<Longrightarrow> length (show_hex n) \<le> k"
proof (induction k arbitrary: n)
  case 0
  then show ?case by simp
next
  case (Suc k)
  show ?case
  proof (cases "n < 16")
    case True
    then show ?thesis by (simp add: show_hex_step)
  next
    case False
    then have "k \<noteq> 0" using Suc.prems by (cases k) auto
    moreover have "n div 16 < 16 ^ k" using Suc.prems by (simp add: div_less_mult)
    ultimately have "length (show_hex (n div 16)) \<le> k" using Suc False by simp
    with False show ?thesis by (simp add: show_hex_step)
  qed
qed

section \<open>IPv4\<close>

text \<open>\<open>_parse_octet\<close>: decimal digits, at most three, no leading zero, at most 255.\<close>

definition parse_octet :: "string \<Rightarrow> int option" where
  "parse_octet s = (if s \<noteq> [] \<and> list_all is_ascii_digit s \<and> length s \<le> 3
       \<and> \<not> (s \<noteq> ''0'' \<and> hd s = CHR ''0'') \<and> read_nat s \<le> 255
     then Some (int (read_nat s)) else None)"

definition parse_all :: "('a \<Rightarrow> 'b option) \<Rightarrow> 'a list \<Rightarrow> 'b list option" where
  "parse_all f xs = (if list_all (\<lambda>x. f x \<noteq> None) xs then Some (map (\<lambda>x. the (f x)) xs) else None)"

definition parse_ipv4 :: "string \<Rightarrow> 32 word option" where
  "parse_ipv4 s = (let octets = split_on CHR ''.'' s in
     if length octets \<noteq> 4 then None
     else map_option (\<lambda>ds. word_of_int (of_digits 256 ds)) (parse_all parse_octet octets))"

definition show_ipv4 :: "32 word \<Rightarrow> string" where
  "show_ipv4 w = join ''.'' (map show_int (to_digits 256 4 (uint w)))"

lemma parse_all_map: "(\<And>x. x \<in> set xs \<Longrightarrow> f (g x) = Some x) \<Longrightarrow> parse_all f (map g xs) = Some xs"
  by (auto simp: parse_all_def list_all_iff intro: map_idI)

lemma parse_octet_show: "n < 256 \<Longrightarrow> parse_octet (show_nat n) = Some (int n)"
proof -
  assume n: "n < 256"
  have "show_nat n = ''0''" if "hd (show_nat n) = CHR ''0''"
  proof -
    have "digit_char 0 = CHR ''0''" by code_simp
    then have "n = 0" using that hd_show_nat_zero by metis
    then show ?thesis by (simp add: show_nat.simps \<open>digit_char 0 = CHR ''0''\<close>)
  qed
  moreover have "length (show_nat n) \<le> 3" using length_show_nat_le [of 3 n] n by simp
  ultimately show ?thesis
    using n show_nat_digits [of n] by (auto simp: parse_octet_def read_nat_show list_all_iff)
qed

lemma digit_no_separator: "is_ascii_digit c \<Longrightarrow> c \<noteq> CHR ''.'' \<and> c \<noteq> CHR ''/'' \<and> c \<noteq> CHR '':'' \<and> c \<noteq> CHR ''%''"
  by (auto simp: is_ascii_digit_def ord_of_def)

lemma show_int_digits: "0 \<le> n \<Longrightarrow> \<forall>c \<in> set (show_int n). is_ascii_digit c"
  using show_nat_digits by (simp add: show_int_def)

theorem parse_show_ipv4: "parse_ipv4 (show_ipv4 w) = Some w"
proof -
  let ?ds = "to_digits 256 4 (uint w)"
  have less: "uint w < 256 ^ 4" using unsigned_less [of w, where ?'a = int] by simp
  have ds: "0 \<le> d \<and> d < 256" if "d \<in> set ?ds" for d using to_digits_less [of 256] that by simp
  have "split_on CHR ''.'' (show_ipv4 w) = map show_int ?ds"
    unfolding show_ipv4_def
  proof (rule split_on_join)
    show "map show_int ?ds \<noteq> []" by (simp add: to_digits_def)
    show "\<forall>p \<in> set (map show_int ?ds). CHR ''.'' \<notin> set p"
    proof
      fix p assume "p \<in> set (map show_int ?ds)"
      then obtain d where "p = show_int d" "d \<in> set ?ds" by auto
      then show "CHR ''.'' \<notin> set p" using show_int_digits [of d] ds [of d] digit_no_separator by auto
    qed
  qed
  moreover have "parse_octet (show_int d) = Some d" if "0 \<le> d \<and> d < 256" for d
  proof -
    have "nat d < 256" using that by (simp add: nat_less_iff)
    then show ?thesis using parse_octet_show [of "nat d"] that by (simp add: show_int_def)
  qed
  then have "parse_all parse_octet (map show_int ?ds) = Some ?ds"
    using ds by (intro parse_all_map) auto
  ultimately show ?thesis
    using of_to_digits [OF _ less] by (simp add: parse_ipv4_def)
qed

section \<open>IPv6\<close>

definition parse_hextet :: "string \<Rightarrow> int option" where
  "parse_hextet s = (if s \<noteq> [] \<and> list_all is_hex s \<and> length s \<le> 4 then Some (read_hex s) else None)"

text \<open>
  An IPv4 suffix stands for the last two hextets. The interior empty part is the double colon: at
  most one, and an empty first or last part only next to it.
\<close>

definition expand_suffix :: "string list \<Rightarrow> string list option" where
  "expand_suffix parts = (if CHR ''.'' \<in> set (last parts) then
      (case parse_ipv4 (last parts) of
         None \<Rightarrow> None
       | Some w \<Rightarrow> Some (butlast parts @ [show_hex (uint w div 65536), show_hex (uint w mod 65536)]))
    else Some parts)"

definition parse_parts :: "string list \<Rightarrow> int list option" where
  "parse_parts parts = (if 9 < length parts then None else
     (case filter (\<lambda>i. parts ! i = []) [1..<length parts - 1] of
        [] \<Rightarrow> if length parts \<noteq> 8 \<or> hd parts = [] \<or> last parts = [] then None
              else parse_all parse_hextet parts
      | [skip] \<Rightarrow>
          let hi = (if hd parts = [] then skip - 1 else skip);
              lo = (if last parts = [] then length parts - skip - 2 else length parts - skip - 1);
              skipped = 8 - (hi + lo)
          in if (hd parts = [] \<and> hi \<noteq> 0) \<or> (last parts = [] \<and> lo \<noteq> 0) \<or> 8 \<le> hi + lo then None
             else (case (parse_all parse_hextet (take hi parts),
                         parse_all parse_hextet (drop (length parts - lo) parts)) of
                 (Some a, Some b) \<Rightarrow> Some (a @ replicate skipped 0 @ b)
               | _ \<Rightarrow> None)
      | _ \<Rightarrow> None))"

definition parse_ipv6 :: "string \<Rightarrow> 128 word option" where
  "parse_ipv6 s = (let parts = split_on CHR '':'' s in
     if CHR ''/'' \<in> set s \<or> length parts < 3 then None
     else (case expand_suffix parts of
         None \<Rightarrow> None
       | Some parts \<Rightarrow> map_option (\<lambda>ds. word_of_int (of_digits 65536 ds)) (parse_parts parts)))"

text \<open>
  \<open>_compress_hextets\<close>: the scan keeps the current run of zeros and the first longest one.
\<close>

primrec scan_zeros :: "string list \<Rightarrow> nat \<Rightarrow> nat \<Rightarrow> nat \<Rightarrow> nat \<Rightarrow> nat \<times> nat" where
  "scan_zeros [] i len best_start best_len = (best_start, best_len)"
| "scan_zeros (h # hs) i len best_start best_len =
     (if h = ''0'' then
        (if best_len < Suc len then scan_zeros hs (Suc i) (Suc len) (Suc i - Suc len) (Suc len)
         else scan_zeros hs (Suc i) (Suc len) best_start best_len)
      else scan_zeros hs (Suc i) 0 best_start best_len)"

definition compress_hextets :: "string list \<Rightarrow> string list" where
  "compress_hextets hs = (let (start, len) = scan_zeros hs 0 0 0 0 in
     if 1 < len then
       (if start = 0 then [[]] else [])
       @ take start hs @ [[]]
       @ (if start + len = length hs then [[]] else drop (start + len) hs)
     else hs)"

definition show_ipv6 :: "128 word \<Rightarrow> string" where
  "show_ipv6 w = join '':'' (compress_hextets (map show_hex (to_digits 65536 8 (uint w))))"

lemma scan_zeros_inv:
  assumes "i + length hs = length all" and "drop i all = hs" and "len \<le> i"
    and "\<forall>j. i - len \<le> j \<and> j < i \<longrightarrow> all ! j = ''0''"
    and "bs + bl \<le> i" and "\<forall>j. bs \<le> j \<and> j < bs + bl \<longrightarrow> all ! j = ''0''"
    and "scan_zeros hs i len bs bl = (s, l)"
  shows "s + l \<le> length all \<and> (\<forall>j. s \<le> j \<and> j < s + l \<longrightarrow> all ! j = ''0'')"
  using assms
proof (induction hs arbitrary: i len bs bl)
  case Nil
  then show ?case by auto
next
  case (Cons h hs)
  have i: "i < length all" using Cons.prems(1) by simp
  have hd: "all ! i = h" and tl: "drop (Suc i) all = hs"
    using Cons_nth_drop_Suc [OF i] Cons.prems(2) by auto
  show ?case
  proof (cases "h = ''0''")
    case False
    then show ?thesis
      using Cons.prems i tl by (intro Cons.IH [of "Suc i" 0 bs bl]) auto
  next
    case True
    then have run: "\<forall>j. Suc i - Suc len \<le> j \<and> j < Suc i \<longrightarrow> all ! j = ''0''"
      using Cons.prems(4) hd by (auto simp: less_Suc_eq)
    show ?thesis
    proof (cases "bl < Suc len")
      case longer: True
      then show ?thesis
        using Cons.prems(1,3,7) True i tl run
        by (intro Cons.IH [of "Suc i" "Suc len" "Suc i - Suc len" "Suc len"]) auto
    next
      case False
      then show ?thesis
        using Cons.prems True i tl run by (intro Cons.IH [of "Suc i" "Suc len" bs bl]) auto
    qed
  qed
qed

text \<open>The parts around a double colon parse to the hextets around the zeros.\<close>

definition pad :: "string list \<Rightarrow> string list" where
  "pad ps = (if ps = [] then [[]] else ps)"

lemma length_pad: "1 \<le> length (pad ps)"
  by (auto simp: pad_def Suc_le_eq)

lemma parse_parts_one:
  assumes "length parts \<le> 9" and "filter (\<lambda>i. parts ! i = []) [1..<length parts - 1] = [skip]"
    and "hi = (if hd parts = [] then skip - 1 else skip)"
    and "lo = (if last parts = [] then length parts - skip - 2 else length parts - skip - 1)"
    and "hd parts = [] \<Longrightarrow> hi = 0" and "last parts = [] \<Longrightarrow> lo = 0" and "hi + lo < 8"
    and "parse_all parse_hextet (take hi parts) = Some a"
    and "parse_all parse_hextet (drop (length parts - lo) parts) = Some b"
  shows "parse_parts parts = Some (a @ replicate (8 - (hi + lo)) 0 @ b)"
proof -
  have "\<not> 9 < length parts" "\<not> 8 \<le> hi + lo" using assms(1,7) by simp_all
  moreover have "\<not> ((hd parts = [] \<and> hi \<noteq> 0) \<or> (last parts = [] \<and> lo \<noteq> 0))"
    using assms(5,6) by blast
  ultimately show ?thesis
    using assms(2,8,9) unfolding parse_parts_def Let_def assms(3) [symmetric] assms(4) [symmetric]
    by (simp only: list.case assms(3) [symmetric] assms(4) [symmetric] if_False prod.case option.case disj_not1 simp_thms)
qed

lemma parse_parts_colon:
  assumes "\<forall>p \<in> set pre \<union> set post. p \<noteq> []" and "length pre + length post < 8"
    and "length pre + length post \<le> 7"
    and "parse_all parse_hextet pre = Some a" and "parse_all parse_hextet post = Some b"
  shows "parse_parts (pad pre @ [[]] @ pad post) =
     Some (a @ replicate (8 - (length pre + length post)) 0 @ b)"
proof -
  let ?n = "length (pad pre)" and ?parts = "pad pre @ [[]] @ pad post"
  have len: "length ?parts = ?n + 1 + length (pad post)" by simp
  have n: "1 \<le> ?n" "1 \<le> length (pad post)" by (auto simp: pad_def Suc_le_eq)
  have skip: "filter (\<lambda>i. ?parts ! i = []) [1..<length ?parts - 1] = [?n]"
  proof -
    have before: "?parts ! i \<noteq> []" if "1 \<le> i" "i < ?n" for i
      using that assms(1) by (auto simp: pad_def nth_append split: if_splits)
    have at: "?parts ! ?n = []" by simp
    have after: "?parts ! i \<noteq> []" if "?n < i" "i < length ?parts - 1" for i
    proof -
      have "?parts ! i = pad post ! (i - ?n - 1)" using that by (simp add: nth_append)
      moreover have "i - ?n - 1 < length post" "post \<noteq> []"
        using that len by (auto simp: pad_def split: if_splits)
      ultimately show ?thesis using assms(1) by (auto simp: pad_def)
    qed
    have split: "[1..<length ?parts - 1] = [1..<?n] @ ?n # [Suc ?n..<length ?parts - 1]"
    proof -
      have "length ?parts - 1 = ?n + length (pad post)" by simp
      moreover have "[?n..<?n + length (pad post)] = ?n # [Suc ?n..<?n + length (pad post)]"
        using n(2) by (intro upt_conv_Cons) linarith
      ultimately show ?thesis using upt_add_eq_append [OF n(1), of "length (pad post)"] by (simp only:)
    qed
    show ?thesis
      unfolding split using before at after by (auto simp: filter_empty_conv)
  qed
  have hd: "hd ?parts = [] \<longleftrightarrow> pre = []"
    using assms(1) by (cases pre) (auto simp: pad_def)
  have last: "last ?parts = [] \<longleftrightarrow> post = []"
    using assms(1) by (cases post rule: rev_cases) (auto simp: pad_def)
  have hi: "(if hd ?parts = [] then ?n - 1 else ?n) = length pre"
    unfolding hd by (simp add: pad_def)
  have lo: "(if last ?parts = [] then length ?parts - ?n - 2 else length ?parts - ?n - 1) = length post"
    unfolding last by (simp add: pad_def)
  have "take (length pre) ?parts = pre" by (simp add: pad_def)
  moreover have "drop (length ?parts - length post) ?parts = post" by (simp add: pad_def)
  moreover have "length ?parts \<le> 9" using assms(3) by (auto simp: pad_def)
  ultimately show ?thesis
    using assms(2,4,5)
    by (intro parse_parts_one [OF _ skip hi [symmetric] lo [symmetric]]) (simp_all only: hd last list.size)
qed

lemma parse_hextet_show: "0 \<le> n \<Longrightarrow> n < 65536 \<Longrightarrow> parse_hextet (show_hex n) = Some n"
  using length_show_hex [of n 4] show_hex_chars [of n]
  by (auto simp: parse_hextet_def list_all_iff read_show_hex)

lemma parse_parts_plain:
  assumes "length ps = 8" and "\<forall>p \<in> set ps. p \<noteq> []"
  shows "parse_parts ps = parse_all parse_hextet ps"
proof -
  have "ps ! i \<noteq> []" if "i < 8" for i using that assms by simp
  then have "filter (\<lambda>i. ps ! i = []) [1..<length ps - 1] = []"
    using assms(1) by (auto simp: filter_empty_conv)
  moreover have "ps \<noteq> []" using assms(1) by auto
  then have "hd ps \<noteq> []" "last ps \<noteq> []" using assms(2) by auto
  ultimately show ?thesis using assms(1) by (simp add: parse_parts_def)
qed

lemma parse_compressed:
  assumes "length ds = 8" and "\<forall>d \<in> set ds. 0 \<le> d \<and> d < 65536"
  shows "parse_parts (compress_hextets (map show_hex ds)) = Some ds"
    and "\<exists>pre post. compress_hextets (map show_hex ds) = pad pre @ [[]] @ pad post
        \<and> set pre \<union> set post \<subseteq> set (map show_hex ds)
      \<or> compress_hextets (map show_hex ds) = map show_hex ds"
proof -
  let ?hs = "map show_hex ds"
  obtain s l where sl: "scan_zeros ?hs 0 0 0 0 = (s, l)" by force
  have run: "s + l \<le> 8 \<and> (\<forall>j. s \<le> j \<and> j < s + l \<longrightarrow> ?hs ! j = ''0'')"
    using scan_zeros_inv [of 0 ?hs ?hs 0 0 0 s l] sl assms(1) by (simp del: nth_map)
  have all: "parse_all parse_hextet (map show_hex es) = Some es" if "set es \<subseteq> set ds" for es
    using that assms(2) by (intro parse_all_map parse_hextet_show) auto
  let ?pre = "take s ?hs" and ?post = "drop (s + l) ?hs"
  have "parse_parts (compress_hextets ?hs) = Some ds \<and> (\<exists>pre post. compress_hextets ?hs = pad pre @ [[]] @ pad post
        \<and> set pre \<union> set post \<subseteq> set ?hs \<or> compress_hextets ?hs = ?hs)"
  proof (cases "1 < l")
    case False
    then have "compress_hextets ?hs = ?hs" by (simp add: compress_hextets_def sl)
    then show ?thesis using parse_parts_plain [of ?hs] assms(1) all by auto
  next
    case True
    have zero: "ds ! j = 0" if "s \<le> j" "j < s + l" for j
    proof -
      have "show_hex (ds ! j) = show_hex 0"
        using run that assms(1) by (auto simp: show_hex.simps [of 0] hex_char_def)
      moreover have "0 \<le> ds ! j" using assms run that by simp
      ultimately show ?thesis using read_show_hex by (metis order_refl)
    qed
    have ds: "take s ds @ replicate l 0 @ drop (s + l) ds = ds"
    proof (rule nth_equalityI)
      show "length (take s ds @ replicate l 0 @ drop (s + l) ds) = length ds"
        using run assms(1) by simp
      fix j assume "j < length (take s ds @ replicate l 0 @ drop (s + l) ds)"
      then show "(take s ds @ replicate l 0 @ drop (s + l) ds) ! j = ds ! j"
        using run assms(1) zero by (auto simp: nth_append)
    qed
    have comp: "compress_hextets ?hs = pad ?pre @ [[]] @ pad ?post"
      using True run assms(1) by (auto simp: compress_hextets_def sl pad_def)
    have "parse_parts (pad ?pre @ [[]] @ pad ?post) =
        Some (take s ds @ replicate (8 - (length ?pre + length ?post)) 0 @ drop (s + l) ds)"
    proof (rule parse_parts_colon)
      show "\<forall>p \<in> set ?pre \<union> set ?post. p \<noteq> []"
        by (auto dest!: in_set_takeD in_set_dropD)
      show "length ?pre + length ?post < 8" "length ?pre + length ?post \<le> 7"
        using run True assms(1) by auto
      show "parse_all parse_hextet ?pre = Some (take s ds)"
        unfolding take_map by (rule all) (rule set_take_subset)
      show "parse_all parse_hextet ?post = Some (drop (s + l) ds)"
        unfolding drop_map by (rule all) (rule set_drop_subset)
    qed
    moreover have "8 - (length ?pre + length ?post) = l" using run assms(1) by auto
    moreover have "set ?pre \<union> set ?post \<subseteq> set ?hs"
      using set_take_subset [of s ?hs] set_drop_subset [of "s + l" ?hs] by blast
    ultimately show ?thesis using ds comp by metis
  qed
  then show "parse_parts (compress_hextets ?hs) = Some ds"
    and "\<exists>pre post. compress_hextets ?hs = pad pre @ [[]] @ pad post
        \<and> set pre \<union> set post \<subseteq> set ?hs \<or> compress_hextets ?hs = ?hs" by blast+
qed

lemma set_join: "set (join sep ps) \<subseteq> set sep \<union> (\<Union>p \<in> set ps. set p)"
  by (induction sep ps rule: join.induct) auto

theorem parse_show_ipv6: "parse_ipv6 (show_ipv6 w) = Some w"
proof -
  let ?ds = "to_digits 65536 8 (uint w)"
  let ?cs = "compress_hextets (map show_hex ?ds)"
  have ds: "length ?ds = 8" "\<forall>d \<in> set ?ds. 0 \<le> d \<and> d < 65536" using to_digits_less [of 65536] by auto
  have "uint w < 65536 ^ 8" using unsigned_less [of w, where ?'a = int] by simp
  note digits_back = of_to_digits [OF _ this]
  note comp = parse_compressed [OF ds]
  have chars: "c \<notin> set '':./%''" if "p \<in> set ?cs" "c \<in> set p" for p c
  proof -
    from comp(2) obtain pre post where "(?cs = pad pre @ [[]] @ pad post
        \<and> set pre \<union> set post \<subseteq> set (map show_hex ?ds)) \<or> ?cs = map show_hex ?ds"
      by blast
    then have "p = [] \<or> p \<in> set (map show_hex ?ds)"
      using that(1) by (auto simp: pad_def split: if_splits)
    then show ?thesis using that(2) show_hex_chars ds(2) by fastforce
  qed
  have len: "3 \<le> length ?cs"
  proof -
    from comp(2) obtain pre post where "?cs = pad pre @ [[]] @ pad post \<or> ?cs = map show_hex ?ds"
      by blast
    then show ?thesis using length_pad [of pre] length_pad [of post] ds(1) by auto
  qed
  then have ne: "?cs \<noteq> []" by auto
  have split: "split_on CHR '':'' (show_ipv6 w) = ?cs"
    unfolding show_ipv6_def using ne chars by (intro split_on_join) auto
  have "CHR ''/'' \<notin> set (show_ipv6 w)"
    using set_join [of "'':''" ?cs] chars by (auto simp: show_ipv6_def)
  moreover have "CHR ''.'' \<notin> set (last ?cs)"
    using chars [OF last_in_set [OF ne]] by force
  then have "expand_suffix ?cs = Some ?cs"
    by (simp add: expand_suffix_def)
  ultimately show ?thesis
    using split len comp(1) digits_back by (simp add: parse_ipv6_def Let_def)
qed

section \<open>Addresses and networks\<close>

datatype ip_address = V4 "32 word" | V6 "128 word"

datatype ip_network = Net4 "32 word" nat | Net6 "128 word" nat

definition version :: "ip_address \<Rightarrow> nat" where
  "version a = (case a of V4 _ \<Rightarrow> 4 | V6 _ \<Rightarrow> 6)"

definition net_version :: "ip_network \<Rightarrow> nat" where
  "net_version n = (case n of Net4 _ _ \<Rightarrow> 4 | Net6 _ _ \<Rightarrow> 6)"

definition parse_address :: "string \<Rightarrow> ip_address option" where
  "parse_address s = (case parse_ipv4 s of Some w \<Rightarrow> Some (V4 w)
     | None \<Rightarrow> map_option V6 (parse_ipv6 s))"

definition show_address :: "ip_address \<Rightarrow> string" where
  "show_address a = (case a of V4 w \<Rightarrow> show_ipv4 w | V6 w \<Rightarrow> show_ipv6 w)"

text \<open>The network mask of a prefix, and the strict check that no host bit is set.\<close>

definition netmask :: "nat \<Rightarrow> 'w::len word" where
  "netmask p = NOT (mask (LENGTH('w) - p))"

definition host_bits_clear :: "'w::len word \<Rightarrow> nat \<Rightarrow> bool" where
  "host_bits_clear w p \<longleftrightarrow> p \<le> LENGTH('w) \<and> w AND netmask p = w"

definition parse_prefix :: "string \<Rightarrow> nat option" where
  "parse_prefix s = (if s \<noteq> [] \<and> list_all is_ascii_digit s then Some (read_nat s) else None)"

text \<open>
  \<open>ip_network(text, strict=True)\<close> for a text with one slash and a decimal prefix length, which is
  what the callers' pattern lets through.
\<close>

definition parse_network :: "string \<Rightarrow> ip_network option" where
  "parse_network s = (case split_on CHR ''/'' s of
      [a, p] \<Rightarrow> (case parse_prefix p of None \<Rightarrow> None | Some n \<Rightarrow>
        (case parse_address a of
           None \<Rightarrow> None
         | Some (V4 w) \<Rightarrow> if host_bits_clear w n then Some (Net4 w n) else None
         | Some (V6 w) \<Rightarrow> if host_bits_clear w n then Some (Net6 w n) else None))
    | _ \<Rightarrow> None)"

definition show_network :: "ip_network \<Rightarrow> string" where
  "show_network n = (case n of
      Net4 w p \<Rightarrow> show_ipv4 w @ ''/'' @ show_nat p
    | Net6 w p \<Rightarrow> show_ipv6 w @ ''/'' @ show_nat p)"

definition network_valid :: "ip_network \<Rightarrow> bool" where
  "network_valid n = (case n of Net4 w p \<Rightarrow> host_bits_clear w p | Net6 w p \<Rightarrow> host_bits_clear w p)"

definition is_loopback :: "ip_address \<Rightarrow> bool" where
  "is_loopback a = (case a of V4 w \<Rightarrow> drop_bit 24 w = 127 | V6 w \<Rightarrow> w = 1)"

lemma parse_ipv4_colon: "CHR '':'' \<in> set s \<Longrightarrow> parse_ipv4 s = None"
proof -
  assume c: "CHR '':'' \<in> set s"
  have "\<exists>p \<in> set (split_on CHR ''.'' s). CHR '':'' \<in> set p"
    using c
  proof (induction s)
    case (Cons a s)
    then show ?case
      by (cases "split_on CHR ''.'' s") (auto split: if_splits)
  qed simp
  then obtain p where p: "p \<in> set (split_on CHR ''.'' s)" "CHR '':'' \<in> set p" ..
  have "\<not> is_ascii_digit CHR '':''" by code_simp
  then have "parse_octet p = None" using p(2) by (auto simp: parse_octet_def list_all_iff)
  then show ?thesis using p(1) by (auto simp: parse_ipv4_def parse_all_def list_all_iff Let_def)
qed

lemma show_ipv6_colon: "CHR '':'' \<in> set (show_ipv6 w)"
proof (rule ccontr)
  assume "CHR '':'' \<notin> set (show_ipv6 w)"
  then have "split_on CHR '':'' (show_ipv6 w) = [show_ipv6 w]" by (rule split_on_clean)
  then show False using parse_show_ipv6 [of w] by (simp add: parse_ipv6_def split: if_splits)
qed

theorem parse_show_address: "parse_address (show_address a) = Some a"
  using parse_ipv4_colon [OF show_ipv6_colon]
  by (cases a) (simp_all add: parse_address_def show_address_def parse_show_ipv4 parse_show_ipv6)

lemma show_address_no_slash: "CHR ''/'' \<notin> set (show_address a)"
proof (cases a)
  case (V6 w)
  then show ?thesis using parse_show_ipv6 [of w]
    by (auto simp: show_address_def parse_ipv6_def Let_def split: if_splits)
next
  case (V4 w)
  have "CHR ''/'' \<notin> set (show_int n)" if "n \<in> set (to_digits 256 4 (uint w))" for n
    using show_int_digits [of n] digit_no_separator to_digits_less [OF _ that] by auto
  then show ?thesis
    using set_join [of "''.''" "map show_int (to_digits 256 4 (uint w))"]
    by (auto simp: show_address_def show_ipv4_def V4)
qed

lemma split_network:
  assumes "CHR ''/'' \<notin> set a"
  shows "split_on CHR ''/'' (a @ ''/'' @ show_nat p) = [a, show_nat p]"
proof -
  have "CHR ''/'' \<notin> set (show_nat p)"
    using show_nat_digits [of p] digit_no_separator by auto
  then have "split_on CHR ''/'' (join ''/'' [a, show_nat p]) = [a, show_nat p]"
    using assms by (intro split_on_join) auto
  then show ?thesis by simp
qed

theorem parse_show_network: "network_valid n \<Longrightarrow> parse_network (show_network n) = Some n"
proof -
  assume v: "network_valid n"
  have prefix: "parse_prefix (show_nat p) = Some p" for p
    using show_nat_digits [of p] by (simp add: parse_prefix_def read_nat_show list_all_iff)
  show ?thesis
  proof (cases n)
    case (Net4 w p)
    then show ?thesis
      using v split_network [OF show_address_no_slash [of "V4 w"], of p] parse_show_address [of "V4 w"]
      by (simp add: parse_network_def show_network_def show_address_def prefix network_valid_def)
  next
    case (Net6 w p)
    then show ?thesis
      using v split_network [OF show_address_no_slash [of "V6 w"], of p] parse_show_address [of "V6 w"]
      by (simp add: parse_network_def show_network_def show_address_def prefix network_valid_def)
  qed
qed

lemma parse_network_valid: "parse_network s = Some n \<Longrightarrow> network_valid n"
  by (auto simp: parse_network_def network_valid_def split: list.splits option.splits ip_address.splits if_splits)

lemma show_network_inject:
  "network_valid m \<Longrightarrow> network_valid n \<Longrightarrow> show_network m = show_network n \<longleftrightarrow> m = n"
  using parse_show_network by (metis option.inject)

end
