(* ===== verification/Routes.thy ===== *)
theory Routes
  imports ProfileLaws IpAddress
begin

text \<open>
  Simulated static routes of fake connections (\<open>app/dal/db/store.py\<close>, \<open>_validate_static_route\<close> to
  \<open>delete_static_route\<close>): validation into a canonical form, the two documentation routes a
  connection gets the first time its routes are used, and the operations on the routes of one
  connection. The UUIDs of a call are drawn in the order 0, 1 (initialisation) and 2 (creation).
\<close>

section \<open>Validation\<close>

record route_values =
  rv_destination :: string
  rv_next_hop :: string
  rv_interface :: "string option"
  rv_metric :: int
  rv_description :: string
  rv_enabled :: bool

definition route_fields :: "string list" where
  "route_fields = [''destination'', ''next_hop'', ''interface'', ''metric'', ''description'', ''enabled'']"

definition bad_route :: "route_reason \<Rightarrow> exn" where
  "bad_route r = StoreError (Route r) 400"

text \<open>\<open>[^/]+/[0-9]{1,3}\<close>.\<close>

definition prefix_shape :: "string \<Rightarrow> bool" where
  "prefix_shape s = (case split_on CHR ''/'' s of
      [a, p] \<Rightarrow> a \<noteq> [] \<and> 1 \<le> length p \<and> length p \<le> 3 \<and> list_all is_ascii_digit p
    | _ \<Rightarrow> False)"

definition route_addresses :: "json \<Rightarrow> json \<Rightarrow> exn + (ip_network \<times> ip_address)" where
  "route_addresses destination next_hop =
     (case (destination, next_hop) of
        (JStr dest, JStr hop) \<Rightarrow>
          if \<not> prefix_shape dest \<or> CHR ''%'' \<in> set dest \<or> CHR ''%'' \<in> set hop
          then Inl (bad_route InvalidPrefix)
          else (case (parse_network dest, parse_address hop) of
              (Some network, Some address) \<Rightarrow>
                if net_version network \<noteq> version address
                then Inl (bad_route AddressFamilyMismatch) else Inr (network, address)
            | _ \<Rightarrow> Inl (bad_route InvalidPrefix))
      | _ \<Rightarrow> Inl (bad_route InvalidPrefix))"

definition route_metric :: "json \<Rightarrow> exn + int" where
  "route_metric v = (case v of
      JInt i \<Rightarrow> if 0 \<le> i \<and> i \<le> 65535 then Inr i else Inl (bad_route InvalidMetric)
    | _ \<Rightarrow> Inl (bad_route InvalidMetric))"

definition validate_static_route :: "json \<Rightarrow> exn + route_values" where
  "validate_static_route v =
     bindE (case v of
         JObj d \<Rightarrow> if set (map fst d) = set route_fields then Inr d
           else Inl (bad_route RouteFieldsRequired)
       | _ \<Rightarrow> Inl (bad_route RouteFieldsRequired)) (\<lambda>payload.
     bindE (route_addresses (dget payload ''destination'') (dget payload ''next_hop'')) (\<lambda>(network, address).
     bindE (check (dget payload ''interface'' = JNull \<or> dget payload ''interface'' \<in> JStr ` set route_interfaces)
       (bad_route UnsupportedInterface)) (\<lambda>_.
     bindE (route_metric (dget payload ''metric'')) (\<lambda>metric.
     bindE (text_field (dget payload ''description'') ''route description'' False 200) (\<lambda>description.
     bindE (case dget payload ''enabled'' of JBool b \<Rightarrow> Inr b | _ \<Rightarrow> Inl (bad_route InvalidEnabled)) (\<lambda>enabled.
     Inr \<lparr>rv_destination = show_network network, rv_next_hop = show_address address,
          rv_interface = opt_of (dget payload ''interface''), rv_metric = metric,
          rv_description = description, rv_enabled = enabled\<rparr>))))))"

definition route_payload :: "route_values \<Rightarrow> dict" where
  "route_payload v = [(''destination'', JStr (rv_destination v)), (''next_hop'', JStr (rv_next_hop v)),
     (''interface'', opt_str (rv_interface v)), (''metric'', JInt (rv_metric v)),
     (''description'', JStr (rv_description v)), (''enabled'', JBool (rv_enabled v))]"

definition route_of :: "string \<Rightarrow> string \<Rightarrow> route_values \<Rightarrow> route_row" where
  "route_of i connection_id v = \<lparr>rt_id = i, rt_connection_id = connection_id,
     rt_destination = rv_destination v, rt_next_hop = rv_next_hop v, rt_interface = rv_interface v,
     rt_metric = rv_metric v, rt_description = rv_description v, rt_enabled = rv_enabled v\<rparr>"

definition route_dict :: "route_row \<Rightarrow> dict" where
  "route_dict r = [(''id'', JStr (rt_id r)), (''connection_id'', JStr (rt_connection_id r)),
     (''destination'', JStr (rt_destination r)), (''next_hop'', JStr (rt_next_hop r)),
     (''interface'', opt_str (rt_interface r)), (''metric'', JInt (rt_metric r)),
     (''description'', JStr (rt_description r)), (''enabled'', JBool (rt_enabled r))]"

section \<open>Initialisation\<close>

definition default_routes :: "json list" where
  "default_routes = [
     JObj [(''destination'', JStr ''198.51.100.0/24''), (''next_hop'', JStr ''192.0.2.1''),
       (''interface'', JStr ''eth0''), (''metric'', JInt 10),
       (''description'', JStr ''Simulated documentation route''), (''enabled'', JBool True)],
     JObj [(''destination'', JStr ''2001:db8:2::/64''), (''next_hop'', JStr ''2001:db8:1::1''),
       (''interface'', JStr ''eth1''), (''metric'', JInt 20),
       (''description'', JStr ''Simulated IPv6 documentation route''), (''enabled'', JBool True)]]"

definition insert_route :: "route_row \<Rightarrow> db \<Rightarrow> exn + db" where
  "insert_route r d = execute (d\<lparr>static_routes := static_routes d @ [r]\<rparr>)"

primrec insert_defaults :: "(nat \<Rightarrow> string) \<Rightarrow> string \<Rightarrow> nat \<Rightarrow> json list \<Rightarrow> db \<Rightarrow> exn + db" where
  "insert_defaults uuids connection_id n [] d = Inr d"
| "insert_defaults uuids connection_id n (p # ps) d =
     bindE (validate_static_route p) (\<lambda>values.
     bindE (insert_route (route_of (uuids n) connection_id values) d) (\<lambda>d'.
     insert_defaults uuids connection_id (Suc n) ps d'))"

definition fake_connection :: "services \<Rightarrow> string \<Rightarrow> db \<Rightarrow> exn + unit" where
  "fake_connection sv connection_id d =
     bindE (lookup_row cn_id (JStr connection_id) (connections d)) (\<lambda>row.
     bindE (stored_connection sv row) (\<lambda>profile.
     check (dget_or profile ''client_type'' (JStr ''network'') = JStr ''fake'')
       (StoreError (Route NotAFakeConnection) 501)))"

definition initialize_static_routes ::
  "services \<Rightarrow> (nat \<Rightarrow> string) \<Rightarrow> string \<Rightarrow> db \<Rightarrow> exn + db" where
  "initialize_static_routes sv uuids connection_id d =
     bindE (fake_connection sv connection_id d) (\<lambda>_.
     if connection_id \<in> set (route_inits d) then Inr d
     else bindE (execute (d\<lparr>route_inits := route_inits d @ [connection_id]\<rparr>)) (\<lambda>d.
       insert_defaults uuids connection_id 0 default_routes d))"

section \<open>Operations\<close>

definition owned_static_route :: "string \<Rightarrow> string \<Rightarrow> db \<Rightarrow> exn + route_row" where
  "owned_static_route connection_id route_id d =
     bindE (lookup_row rt_id (JStr route_id) (static_routes d)) (\<lambda>row.
     if rt_connection_id row \<noteq> connection_id
     then Inl (StoreError (Store ResourceNotFound) 404) else Inr row)"

definition routes_of :: "string \<Rightarrow> db \<Rightarrow> route_row list" where
  "routes_of connection_id d = sort_key (\<lambda>r. (rt_destination r, rt_id r))
     (filter (\<lambda>r. rt_connection_id r = connection_id) (static_routes d))"

definition list_routes_body ::
  "services \<Rightarrow> (nat \<Rightarrow> string) \<Rightarrow> string \<Rightarrow> db \<Rightarrow> exn + (route_row list \<times> db)" where
  "list_routes_body sv uuids connection_id d =
     bindE (initialize_static_routes sv uuids connection_id d) (\<lambda>d.
     Inr (routes_of connection_id d, d))"

definition create_static_route_row ::
  "services \<Rightarrow> (nat \<Rightarrow> string) \<Rightarrow> string \<Rightarrow> json \<Rightarrow> db \<Rightarrow> exn + (route_row \<times> db)" where
  "create_static_route_row sv uuids connection_id payload d =
     bindE (initialize_static_routes sv uuids connection_id d) (\<lambda>d.
     bindE (validate_static_route payload) (\<lambda>values.
     bindE (insert_route (route_of (uuids 2) connection_id values) d) (\<lambda>d.
     bindE (lookup_row rt_id (JStr (uuids 2)) (static_routes d)) (\<lambda>row. Inr (row, d)))))"

definition replace_route :: "string \<Rightarrow> route_values \<Rightarrow> route_row list \<Rightarrow> route_row list" where
  "replace_route route_id v rows =
     map (\<lambda>r. if rt_id r = route_id then route_of route_id (rt_connection_id r) v else r) rows"

definition update_static_route_row ::
  "services \<Rightarrow> (nat \<Rightarrow> string) \<Rightarrow> string \<Rightarrow> string \<Rightarrow> json \<Rightarrow> db \<Rightarrow> exn + ((route_row \<times> route_row) \<times> db)" where
  "update_static_route_row sv uuids connection_id route_id payload d =
     bindE (initialize_static_routes sv uuids connection_id d) (\<lambda>d.
     bindE (owned_static_route connection_id route_id d) (\<lambda>before.
     bindE (validate_static_route payload) (\<lambda>values.
     bindE (execute (d\<lparr>static_routes := replace_route route_id values (static_routes d)\<rparr>)) (\<lambda>d.
     bindE (lookup_row rt_id (JStr route_id) (static_routes d)) (\<lambda>after. Inr ((before, after), d))))))"

definition delete_static_route_row ::
  "services \<Rightarrow> (nat \<Rightarrow> string) \<Rightarrow> string \<Rightarrow> string \<Rightarrow> db \<Rightarrow> exn + (route_row \<times> db)" where
  "delete_static_route_row sv uuids connection_id route_id d =
     bindE (initialize_static_routes sv uuids connection_id d) (\<lambda>d.
     bindE (owned_static_route connection_id route_id d) (\<lambda>before.
     bindE (execute (d\<lparr>static_routes := filter (\<lambda>r. rt_id r \<noteq> route_id) (static_routes d)\<rparr>)) (\<lambda>d.
     Inr (before, d))))"

definition store_list_routes ::
  "services \<Rightarrow> draws \<Rightarrow> string \<Rightarrow> store \<Rightarrow> exn + (dict list \<times> store)" where
  "store_list_routes sv dr connection_id st =
     bindE (transaction (list_routes_body sv (uuid4 dr) connection_id) st)
       (\<lambda>(rows, st). Inr (map route_dict rows, st))"

definition store_create_route ::
  "services \<Rightarrow> draws \<Rightarrow> string \<Rightarrow> json \<Rightarrow> store \<Rightarrow> exn + (dict \<times> store)" where
  "store_create_route sv dr connection_id payload st =
     bindE (transaction (create_static_route_row sv (uuid4 dr) connection_id payload) st)
       (\<lambda>(row, st). Inr (route_dict row, st))"

definition store_update_route ::
  "services \<Rightarrow> draws \<Rightarrow> string \<Rightarrow> string \<Rightarrow> json \<Rightarrow> store \<Rightarrow> exn + (dict \<times> store)" where
  "store_update_route sv dr connection_id route_id payload st =
     bindE (transaction (update_static_route_row sv (uuid4 dr) connection_id route_id payload) st)
       (\<lambda>((_, after), st). Inr (route_dict after, st))"

definition store_delete_route ::
  "services \<Rightarrow> draws \<Rightarrow> string \<Rightarrow> string \<Rightarrow> store \<Rightarrow> exn + (unit \<times> store)" where
  "store_delete_route sv dr connection_id route_id st =
     bindE (transaction (delete_static_route_row sv (uuid4 dr) connection_id route_id) st)
       (\<lambda>(_, st). Inr ((), st))"

end
