(* ===== verification/RouteLaws.thy ===== *)
theory RouteLaws
  imports Routes
begin

text \<open>
  What the simulated routes guarantee: a stored route is in canonical form, so that the UNIQUE
  constraint on (connection, destination) compares networks and not spellings; a connection gets
  its documentation routes once; an operation on one connection never touches another one's
  routes; and the only conflict the schema can report is a second route to one network.
\<close>

section \<open>Canonical form\<close>

lemma show_address_no_percent: "CHR ''%'' \<notin> set (show_address a)"
proof (cases a)
  case (V4 w)
  have "CHR ''%'' \<notin> set (show_int n)" if "n \<in> set (to_digits 256 4 (uint w))" for n
    using show_int_digits [of n] digit_no_separator to_digits_less [OF _ that] by auto
  then show ?thesis
    using set_join [of "''.''" "map show_int (to_digits 256 4 (uint w))"]
    by (auto simp: show_address_def show_ipv4_def V4)
next
  case (V6 w)
  let ?ds = "to_digits 65536 8 (uint w)"
  have ds: "length ?ds = 8" "\<forall>d \<in> set ?ds. 0 \<le> d \<and> d < 65536"
    using to_digits_less [of 65536] by auto
  obtain pre post where cs: "(compress_hextets (map show_hex ?ds) = pad pre @ [[]] @ pad post
        \<and> set pre \<union> set post \<subseteq> set (map show_hex ?ds)) \<or> compress_hextets (map show_hex ?ds) = map show_hex ?ds"
    using parse_compressed(2) [OF ds] by blast
  have "p = [] \<or> p \<in> set (map show_hex ?ds)" if "p \<in> set (compress_hextets (map show_hex ?ds))" for p
    using that cs by (auto simp: pad_def split: if_splits)
  then have "CHR ''%'' \<notin> set p" if "p \<in> set (compress_hextets (map show_hex ?ds))" for p
    using that show_hex_chars ds(2) by fastforce
  then show ?thesis
    using set_join [of "'':''" "compress_hextets (map show_hex ?ds)"]
    by (auto simp: show_address_def show_ipv6_def V6)
qed

lemma show_network_address: "\<exists>a p. show_network n = show_address a @ ''/'' @ show_nat p
    \<and> net_version n = version a \<and> (network_valid n \<longrightarrow> p \<le> 128)"
proof (cases n)
  case (Net4 w p)
  then show ?thesis
    by (intro exI [of _ "V4 w"] exI [of _ p])
      (auto simp: show_network_def show_address_def net_version_def version_def network_valid_def host_bits_clear_def)
next
  case (Net6 w p)
  then show ?thesis
    by (intro exI [of _ "V6 w"] exI [of _ p])
      (auto simp: show_network_def show_address_def net_version_def version_def network_valid_def host_bits_clear_def)
qed

lemma show_network_shape:
  assumes "network_valid n"
  shows "prefix_shape (show_network n)" and "CHR ''%'' \<notin> set (show_network n)"
proof -
  obtain a p where n: "show_network n = show_address a @ ''/'' @ show_nat p" and p: "p \<le> 128"
    using show_network_address [of n] assms by auto
  have "show_address a \<noteq> []"
    using parse_show_address [of a]
    by (auto simp: parse_address_def parse_ipv4_def parse_ipv6_def parse_all_def split: if_splits)
  moreover have "1 \<le> length (show_nat p)" by (simp add: Suc_le_eq)
  moreover have "length (show_nat p) \<le> 3" using length_show_nat_le [of 3 p] p by simp
  ultimately show "prefix_shape (show_network n)"
    using show_nat_digits [of p] split_network [OF show_address_no_slash [of a], of p]
    by (simp add: prefix_shape_def n list_all_iff)
  show "CHR ''%'' \<notin> set (show_network n)"
    using show_address_no_percent [of a] show_nat_digits [of p] digit_no_separator by (auto simp: n)
qed

lemma route_addresses_Inr:
  assumes "route_addresses destination next_hop = Inr (network, address)"
  shows "network_valid network"
    and "route_addresses (JStr (show_network network)) (JStr (show_address address)) = Inr (network, address)"
proof -
  from assms obtain dest hop where n: "parse_network dest = Some network"
    and v: "net_version network = version address"
    by (auto simp: route_addresses_def split: json.splits if_splits option.splits)
  show valid: "network_valid network" by (rule parse_network_valid [OF n])
  show "route_addresses (JStr (show_network network)) (JStr (show_address address)) = Inr (network, address)"
    using show_network_shape [OF valid] show_address_no_percent [of address] v
      parse_show_network [OF valid] parse_show_address [of address]
    by (simp add: route_addresses_def)
qed

lemma validate_static_route_Inr:
  assumes "validate_static_route v = Inr r"
  shows "validate_static_route (JObj (route_payload r)) = Inr r"
    and "0 \<le> rv_metric r \<and> rv_metric r \<le> 65535" and "fk_ok (rv_interface r) route_interfaces"
    and "\<exists>n. network_valid n \<and> rv_destination r = show_network n"
proof -
  from assms obtain payload network address metric description enabled where
    a: "route_addresses (dget payload ''destination'') (dget payload ''next_hop'') = Inr (network, address)"
    and i: "dget payload ''interface'' = JNull \<or> dget payload ''interface'' \<in> JStr ` set route_interfaces"
    and m: "route_metric (dget payload ''metric'') = Inr metric"
    and t: "text_field (dget payload ''description'') ''route description'' False 200 = Inr description"
    and r: "r = \<lparr>rv_destination = show_network network, rv_next_hop = show_address address,
          rv_interface = opt_of (dget payload ''interface''), rv_metric = metric,
          rv_description = description, rv_enabled = enabled\<rparr>"
    unfolding validate_static_route_def
    by (elim bindE_InrE) (auto simp only: check_eq_Inr sum.inject prod.case split: prod.splits elim!: bindE_InrE)
  note addr = route_addresses_Inr [OF a]
  have metric: "route_metric (JInt metric) = Inr metric" "0 \<le> metric \<and> metric \<le> 65535"
    using m by (auto simp: route_metric_def split: json.splits if_splits)
  have descr: "text_field (JStr description) ''route description'' False 200 = Inr description"
    using t by (auto simp: text_field_Inr)
  have iface: "opt_str (opt_of (dget payload ''interface'')) = dget payload ''interface''"
    using i by auto
  have keys: "set (map fst (route_payload r)) = set route_fields"
    by (auto simp: route_payload_def route_fields_def)
  show "validate_static_route (JObj (route_payload r)) = Inr r"
    using addr(2) metric(1) descr iface i keys
    by (simp add: validate_static_route_def r route_payload_def dget_Cons)
  show "0 \<le> rv_metric r \<and> rv_metric r \<le> 65535" using metric by (simp add: r)
  show "fk_ok (rv_interface r) route_interfaces" using i by (auto simp: r fk_ok_def)
  show "\<exists>n. network_valid n \<and> rv_destination r = show_network n" using addr(1) by (auto simp: r)
qed

section \<open>Statements on the route table\<close>

definition destinations :: "string \<Rightarrow> db \<Rightarrow> string list" where
  "destinations connection_id d =
     map rt_destination (filter (\<lambda>r. rt_connection_id r = connection_id) (static_routes d))"

definition route_ids :: "db \<Rightarrow> string list" where
  "route_ids d = map rt_id (static_routes d)"

lemma static_routes_schema:
  "schema_ok (d\<lparr>static_routes := rows\<rparr>) \<longleftrightarrow> configurations_ok d \<and> role_accounts_ok d
     \<and> proxies_ok d \<and> connections_ok d \<and> route_inits_ok d
     \<and> static_routes_ok (d\<lparr>static_routes := rows\<rparr>) \<and> jobs_ok d \<and> transactions_ok d"
  by (rule schema_frame_routes)

lemma insert_route_exact:
  assumes "schema_ok d" and "c \<in> set (map cn_id (connections d))" and "i \<notin> set (route_ids d)"
    and "0 \<le> rv_metric v \<and> rv_metric v \<le> 65535" and "fk_ok (rv_interface v) route_interfaces"
  shows "insert_route (route_of i c v) d = (if rv_destination v \<in> set (destinations c d)
     then Inl IntegrityError else Inr (d\<lparr>static_routes := static_routes d @ [route_of i c v]\<rparr>))"
proof -
  have pair: "(c, rv_destination v) \<in> (\<lambda>r. (rt_connection_id r, rt_destination r)) ` set (static_routes d)
      \<longleftrightarrow> rv_destination v \<in> set (destinations c d)"
    by (auto simp: destinations_def)
  have "schema_ok (d\<lparr>static_routes := static_routes d @ [route_of i c v]\<rparr>)
      \<longleftrightarrow> rv_destination v \<notin> set (destinations c d)"
    unfolding static_routes_schema using assms pair
    by (simp add: static_routes_ok_def schema_ok_def route_of_def route_ids_def)
  then show ?thesis by (simp add: insert_route_def execute_def)
qed

section \<open>Initialisation happens once\<close>

text \<open>
  The invariant of the route tables: the schema, and routes only for initialised connections. The
  UUIDs a call draws are new and distinct.
\<close>

definition routes_ok :: "db \<Rightarrow> bool" where
  "routes_ok d \<longleftrightarrow> schema_ok d \<and> list_all (\<lambda>r. rt_connection_id r \<in> set (route_inits d)) (static_routes d)"

definition fresh_ids :: "(nat \<Rightarrow> string) \<Rightarrow> db \<Rightarrow> bool" where
  "fresh_ids uuids d \<longleftrightarrow> distinct [uuids 0, uuids 1, uuids 2]
     \<and> set [uuids 0, uuids 1, uuids 2] \<inter> set (route_ids d) = {}"

definition default_ipv4 :: route_values where
  "default_ipv4 = \<lparr>rv_destination = ''198.51.100.0/24'', rv_next_hop = ''192.0.2.1'',
     rv_interface = Some ''eth0'', rv_metric = 10, rv_description = ''Simulated documentation route'',
     rv_enabled = True\<rparr>"

definition default_ipv6 :: route_values where
  "default_ipv6 = \<lparr>rv_destination = ''2001:db8:2::/64'', rv_next_hop = ''2001:db8:1::1'',
     rv_interface = Some ''eth1'', rv_metric = 20,
     rv_description = ''Simulated IPv6 documentation route'', rv_enabled = True\<rparr>"

lemma default_routes_valid:
  "map validate_static_route default_routes = [Inr default_ipv4, Inr default_ipv6]"
  by code_simp

definition initialized :: "(nat \<Rightarrow> string) \<Rightarrow> string \<Rightarrow> db \<Rightarrow> db" where
  "initialized uuids c d = (if c \<in> set (route_inits d) then d
     else d\<lparr>route_inits := route_inits d @ [c],
            static_routes := static_routes d @ [route_of (uuids 0) c default_ipv4,
              route_of (uuids 1) c default_ipv6]\<rparr>)"

lemma fake_connection_exists:
  "fake_connection sv c d = Inr u \<Longrightarrow> c \<in> set (map cn_id (connections d))"
  by (auto simp: fake_connection_def result_simps dest!: lookup_row_InrD)

lemma initialize_exact:
  assumes "routes_ok d" and "fresh_ids uuids d"
  shows "initialize_static_routes sv uuids c d = (case fake_connection sv c d of
      Inl e \<Rightarrow> Inl e | Inr _ \<Rightarrow> Inr (initialized uuids c d))"
    and "fake_connection sv c d = Inr u \<Longrightarrow> routes_ok (initialized uuids c d)"
proof -
  have key: "initialize_static_routes sv uuids c d = Inr (initialized uuids c d)
      \<and> routes_ok (initialized uuids c d)" if fake: "fake_connection sv c d = Inr u" for u
  proof (cases "c \<in> set (route_inits d)")
    case True
    then show ?thesis
      using fake assms(1) by (simp add: initialize_static_routes_def initialized_def)
  next
    case False
    note conn = fake_connection_exists [OF fake]
    define d1 where "d1 = d\<lparr>route_inits := route_inits d @ [c]\<rparr>"
    have ok: "schema_ok d" using assms(1) by (simp add: routes_ok_def)
    have ok1: "schema_ok d1"
      using ok False conn unfolding d1_def by (auto simp: schema_defs)
    have none: "destinations c d1 = []"
      using assms(1) False by (auto simp: routes_ok_def destinations_def d1_def filter_empty_conv list_all_iff)
    have conn1: "c \<in> set (map cn_id (connections d1))" using conn by (simp add: d1_def)
    have fresh: "uuids 0 \<notin> set (route_ids d1)" "uuids 1 \<notin> set (route_ids d1)" "uuids 0 \<noteq> uuids 1"
      using assms(2) by (auto simp: fresh_ids_def route_ids_def d1_def)
    define d2 where "d2 = d1\<lparr>static_routes := static_routes d1 @ [route_of (uuids 0) c default_ipv4]\<rparr>"
    have i1: "insert_route (route_of (uuids 0) c default_ipv4) d1 = Inr d2"
      unfolding d2_def using none
      by (subst insert_route_exact [OF ok1 conn1 fresh(1)]) (simp_all add: default_ipv4_def route_interfaces_def fk_ok_def)
    then have ok2: "schema_ok d2" by (auto simp: insert_route_def execute_eq_Inr d2_def)
    have i2: "insert_route (route_of (uuids 1) c default_ipv6) d2 = Inr (initialized uuids c d)"
    proof (subst insert_route_exact [OF ok2])
      show "c \<in> set (map cn_id (connections d2))" using conn1 by (simp add: d2_def)
      show "uuids 1 \<notin> set (route_ids d2)" using fresh by (simp add: d2_def route_ids_def route_of_def)
      show "0 \<le> rv_metric default_ipv6 \<and> rv_metric default_ipv6 \<le> 65535"
        "fk_ok (rv_interface default_ipv6) route_interfaces"
        by (simp_all add: default_ipv6_def fk_ok_def route_interfaces_def)
      have "destinations c d2 = [rv_destination default_ipv4]"
        using none by (simp add: d2_def destinations_def route_of_def)
      moreover have "rv_destination default_ipv6 \<noteq> rv_destination default_ipv4"
        by (simp add: default_ipv4_def default_ipv6_def)
      ultimately show "(if rv_destination default_ipv6 \<in> set (destinations c d2) then Inl IntegrityError
          else Inr (d2\<lparr>static_routes := static_routes d2 @ [route_of (uuids 1) c default_ipv6]\<rparr>)) =
          Inr (initialized uuids c d)"
        using False by (simp add: initialized_def d2_def d1_def)
    qed
    have "schema_ok (initialized uuids c d)"
      using i2 by (auto simp: insert_route_def execute_eq_Inr)
    then have "routes_ok (initialized uuids c d)"
      using assms(1) False
      by (auto simp: routes_ok_def initialized_def route_of_def list_all_iff)
    moreover have "initialize_static_routes sv uuids c d = Inr (initialized uuids c d)"
      using fake False ok1 i1 i2 default_routes_valid
      by (simp add: initialize_static_routes_def d1_def [symmetric] default_routes_def)
    ultimately show ?thesis by blast
  qed
  show "initialize_static_routes sv uuids c d = (case fake_connection sv c d of
      Inl e \<Rightarrow> Inl e | Inr _ \<Rightarrow> Inr (initialized uuids c d))"
    using key by (cases "fake_connection sv c d") (auto simp: initialize_static_routes_def)
  show "fake_connection sv c d = Inr u \<Longrightarrow> routes_ok (initialized uuids c d)"
    using key by blast
qed

section \<open>One connection at a time\<close>

text \<open>
  \<open>touches_only c d d'\<close>: the two databases differ at most in the routes of \<open>c\<close> and in whether \<open>c\<close>
  is initialised; afterwards it is.
\<close>

definition touches_only :: "string \<Rightarrow> db \<Rightarrow> db \<Rightarrow> bool" where
  "touches_only c d d' \<longleftrightarrow>
     configurations d' = configurations d \<and> role_accounts d' = role_accounts d
     \<and> proxies d' = proxies d \<and> connections d' = connections d \<and> jobs d' = jobs d
     \<and> gateway_transactions d' = gateway_transactions d
     \<and> filter (\<lambda>r. rt_connection_id r \<noteq> c) (static_routes d') = filter (\<lambda>r. rt_connection_id r \<noteq> c) (static_routes d)
     \<and> set (route_inits d') = insert c (set (route_inits d))"

lemma touches_only_routes:
  assumes "touches_only c d d1"
    and "filter (\<lambda>r. rt_connection_id r \<noteq> c) rows = filter (\<lambda>r. rt_connection_id r \<noteq> c) (static_routes d1)"
  shows "touches_only c d (d1\<lparr>static_routes := rows\<rparr>)"
  using assms by (simp add: touches_only_def)

lemma insert_route_Inr:
  "insert_route r d = Inr d' \<longleftrightarrow> d' = d\<lparr>static_routes := static_routes d @ [r]\<rparr> \<and> schema_ok d'"
  by (auto simp: insert_route_def execute_eq_Inr)

lemma insert_defaults_Inr:
  assumes "insert_defaults uuids c n ps d1 = Inr d'" and "touches_only c d d1" and "schema_ok d1"
    and "list_all (\<lambda>r. rt_connection_id r \<in> set (route_inits d1)) (static_routes d1)"
  shows "touches_only c d d' \<and> schema_ok d'
     \<and> list_all (\<lambda>r. rt_connection_id r \<in> set (route_inits d')) (static_routes d')"
  using assms
proof (induction ps arbitrary: n d1)
  case Nil
  then show ?case by simp
next
  case (Cons p ps)
  then obtain v d2 where d2: "d2 = d1\<lparr>static_routes := static_routes d1 @ [route_of (uuids n) c v]\<rparr>" "schema_ok d2"
    and rest: "insert_defaults uuids c (Suc n) ps d2 = Inr d'"
    by (auto simp: result_simps insert_route_Inr)
  have "touches_only c d d2"
    unfolding d2 by (rule touches_only_routes [OF Cons.prems(2)]) (simp add: route_of_def)
  moreover have "list_all (\<lambda>r. rt_connection_id r \<in> set (route_inits d2)) (static_routes d2)"
    using Cons.prems(2,4) by (simp add: d2 route_of_def touches_only_def)
  ultimately show ?case using Cons.IH [OF rest _ d2(2)] by simp
qed

lemma initialize_Inr:
  assumes "initialize_static_routes sv uuids c d = Inr d'" and "routes_ok d"
  shows "touches_only c d d' \<and> routes_ok d'"
proof (cases "c \<in> set (route_inits d)")
  case True
  then show ?thesis
    using assms by (auto simp: initialize_static_routes_def result_simps touches_only_def)
next
  case False
  then obtain d1 where d1: "d1 = d\<lparr>route_inits := route_inits d @ [c]\<rparr>" "schema_ok d1"
    and rest: "insert_defaults uuids c 0 default_routes d1 = Inr d'"
    using assms(1) by (auto simp: initialize_static_routes_def result_simps execute_eq_Inr)
  have "touches_only c d d1" by (auto simp: d1 touches_only_def)
  moreover have "list_all (\<lambda>r. rt_connection_id r \<in> set (route_inits d1)) (static_routes d1)"
    using assms(2) by (auto simp: d1 routes_ok_def list_all_iff)
  ultimately show ?thesis
    using insert_defaults_Inr [OF rest _ d1(2)] by (simp add: routes_ok_def)
qed

section \<open>The route component as a transactional system\<close>

datatype route_command =
    ListRoutes string "nat \<Rightarrow> string"
  | CreateRoute string json "nat \<Rightarrow> string"
  | UpdateRoute string string json "nat \<Rightarrow> string"
  | DeleteRoute string string "nat \<Rightarrow> string"

primrec command_connection :: "route_command \<Rightarrow> string" where
  "command_connection (ListRoutes c u) = c"
| "command_connection (CreateRoute c p u) = c"
| "command_connection (UpdateRoute c i p u) = c"
| "command_connection (DeleteRoute c i u) = c"

definition route_step :: "services \<Rightarrow> route_command \<Rightarrow> db \<Rightarrow> exn + (route_row list \<times> db)" where
  "route_step sv c d = (case c of
      ListRoutes cid u \<Rightarrow> list_routes_body sv u cid d
    | CreateRoute cid p u \<Rightarrow>
        bindE (create_static_route_row sv u cid p d) (\<lambda>(r, d'). Inr ([r], d'))
    | UpdateRoute cid i p u \<Rightarrow>
        bindE (update_static_route_row sv u cid i p d) (\<lambda>((b, a), d'). Inr ([b, a], d'))
    | DeleteRoute cid i u \<Rightarrow>
        bindE (delete_static_route_row sv u cid i d) (\<lambda>(r, d'). Inr ([r], d')))"

lemma filter_replace_route:
  assumes "distinct (map rt_id rows)" and "r0 \<in> set rows" and "rt_id r0 = i" and "rt_connection_id r0 = c"
  shows "filter (\<lambda>r. rt_connection_id r \<noteq> c) (replace_route i v rows) = filter (\<lambda>r. rt_connection_id r \<noteq> c) rows"
proof -
  have "rt_connection_id r = c" if "r \<in> set rows" "rt_id r = i" for r
    using assms that by (metis distinct_map inj_on_def)
  then show ?thesis
    by (induction rows) (auto simp: replace_route_def route_of_def)
qed

lemma owned_Inr:
  "owned_static_route c i d = Inr r \<Longrightarrow> r \<in> set (static_routes d) \<and> rt_id r = i \<and> rt_connection_id r = c"
  by (auto simp: owned_static_route_def result_simps split: if_splits dest!: lookup_row_InrD)

lemma route_step_keeps:
  assumes "routes_ok d" and "route_step sv cmd d = Inr (x, d')"
  shows "touches_only (command_connection cmd) d d' \<and> routes_ok d'"
proof (cases cmd)
  case (ListRoutes c u)
  then show ?thesis
    using assms initialize_Inr by (auto simp: route_step_def list_routes_body_def result_simps)
next
  case (CreateRoute c p u)
  with assms(2) obtain d1 v where d1: "initialize_static_routes sv u c d = Inr d1"
    and d': "d' = d1\<lparr>static_routes := static_routes d1 @ [route_of (u 2) c v]\<rparr>" "schema_ok d'"
    by (auto simp: route_step_def create_static_route_row_def result_simps insert_route_Inr)
  note ini = initialize_Inr [OF d1 assms(1)]
  have "touches_only c d d'"
    unfolding d' by (rule touches_only_routes) (use ini in \<open>simp_all add: route_of_def\<close>)
  then show ?thesis
    using ini d' CreateRoute by (auto simp: routes_ok_def route_of_def touches_only_def)
next
  case (UpdateRoute c i p u)
  with assms(2) obtain d1 v r0 where d1: "initialize_static_routes sv u c d = Inr d1"
    and r0: "owned_static_route c i d1 = Inr r0"
    and d': "d' = d1\<lparr>static_routes := replace_route i v (static_routes d1)\<rparr>" "schema_ok d'"
    by (auto simp: route_step_def update_static_route_row_def result_simps execute_eq_Inr)
  note ini = initialize_Inr [OF d1 assms(1)]
  then have "distinct (map rt_id (static_routes d1))" by (auto simp: routes_ok_def intro: schema_okD)
  then have "touches_only c d d'"
    unfolding d' using owned_Inr [OF r0] ini
    by (intro touches_only_routes) (auto intro!: filter_replace_route)
  then show ?thesis
    using ini d' UpdateRoute
    by (auto simp: routes_ok_def replace_route_def route_of_def list_all_iff)
next
  case (DeleteRoute c i u)
  with assms(2) obtain d1 r0 where d1: "initialize_static_routes sv u c d = Inr d1"
    and r0: "owned_static_route c i d1 = Inr r0"
    and d': "d' = d1\<lparr>static_routes := filter (\<lambda>r. rt_id r \<noteq> i) (static_routes d1)\<rparr>" "schema_ok d'"
    by (auto simp: route_step_def delete_static_route_row_def result_simps execute_eq_Inr)
  note ini = initialize_Inr [OF d1 assms(1)]
  then have "distinct (map rt_id (static_routes d1))" by (auto simp: routes_ok_def intro: schema_okD)
  then have own: "rt_connection_id r = c" if "r \<in> set (static_routes d1)" "rt_id r = i" for r
    using owned_Inr [OF r0] that by (metis distinct_map inj_on_def)
  have "filter (\<lambda>r. rt_connection_id r \<noteq> c) (filter (\<lambda>r. rt_id r \<noteq> i) (static_routes d1)) =
      filter (\<lambda>r. rt_connection_id r \<noteq> c) (static_routes d1)"
    using own by (auto simp: filter_filter intro!: filter_cong)
  then have "touches_only c d d'"
    unfolding d' using ini by (intro touches_only_routes) auto
  then show ?thesis
    using ini d' DeleteRoute by (auto simp: routes_ok_def list_all_iff)
qed

interpretation route_store: transactional_system "route_step sv" routes_ok for sv
  by unfold_locales (auto dest: route_step_keeps)

section \<open>Properties\<close>

text \<open>
  Any sequence of route operations, on any connections, keeps the
  schema and keeps routes only for initialised connections.
\<close>

theorem route_runs_stay_consistent:
  assumes "routes_ok d"
  shows "routes_ok (foldl (\<lambda>d c. commit (route_step sv c) d) d commands)"
  using route_store.run_inv assms .

text \<open>
  An operation on the routes of one connection that succeeds leaves the
  routes of every other connection and every other table as they were; one that fails leaves
  the whole database as it was.
\<close>

theorem routes_are_isolated:
  assumes "routes_ok d"
  shows "case route_step sv cmd d of
      Inl e \<Rightarrow> commit (route_step sv cmd) d = d
    | Inr (x, d') \<Rightarrow> commit (route_step sv cmd) d = d' \<and> touches_only (command_connection cmd) d d'"
  using route_step_keeps [OF assms] by (auto split: sum.splits)

text \<open>
  The validator returns a canonical form: it accepts its own result
  unchanged, and its destination is the printed form of a network without host bits, which
  determines the network. So the UNIQUE constraint on the text compares networks.
\<close>

theorem stored_routes_are_canonical:
  assumes "validate_static_route v = Inr r"
  shows "validate_static_route (JObj (route_payload r)) = Inr r
     \<and> (\<exists>!n. network_valid n \<and> show_network n = rv_destination r)
     \<and> 0 \<le> rv_metric r \<and> rv_metric r \<le> 65535"
  using validate_static_route_Inr [OF assms] show_network_inject by auto

text \<open>
  Creating a route: 501 for a connection that is not a fake, then the
  validation error, then a conflict exactly when this connection already has a route to the same
  network, its documentation routes included; otherwise exactly the route is added, after the
  documentation routes on first use.
\<close>

theorem create_route_exact:
  assumes "routes_ok d" and "fresh_ids uuids d"
  shows "create_static_route_row sv uuids c payload d =
     bindE (fake_connection sv c d) (\<lambda>_. bindE (validate_static_route payload) (\<lambda>v.
     let d1 = initialized uuids c d in
     if rv_destination v \<in> set (destinations c d1) then Inl IntegrityError
     else Inr (route_of (uuids 2) c v,
               d1\<lparr>static_routes := static_routes d1 @ [route_of (uuids 2) c v]\<rparr>)))"
proof (cases "fake_connection sv c d")
  case (Inl e)
  then show ?thesis using initialize_exact(1) [OF assms] by (simp add: create_static_route_row_def)
next
  case (Inr u)
  let ?d1 = "initialized uuids c d"
  have ok: "schema_ok ?d1" using initialize_exact(2) [OF assms Inr] by (simp add: routes_ok_def)
  have conn: "c \<in> set (map cn_id (connections ?d1))"
    using fake_connection_exists [OF Inr] by (simp add: initialized_def)
  have fresh: "uuids 2 \<notin> set (route_ids ?d1)"
    using assms(2) by (auto simp: fresh_ids_def route_ids_def initialized_def route_of_def)
  have row: "lookup_row rt_id (JStr (uuids 2)) (static_routes ?d1 @ [route_of (uuids 2) c v]) = Inr (route_of (uuids 2) c v)" for v
    using lookup_row_app_last [of rt_id "route_of (uuids 2) c v" "static_routes ?d1"] fresh
    by (simp add: route_of_def route_ids_def)
  show ?thesis
  proof (cases "validate_static_route payload")
    case (Inl e)
    then show ?thesis using initialize_exact(1) [OF assms] Inr by (simp add: create_static_route_row_def)
  next
    case v: (Inr v)
    then show ?thesis
      using initialize_exact(1) [OF assms] Inr row
        insert_route_exact [OF ok conn fresh validate_static_route_Inr(2,3) [OF v]]
      by (simp add: create_static_route_row_def Let_def)
  qed
qed

definition sample_fake_row :: conn_row where
  "sample_fake_row = \<lparr>cn_id = ''f'', cn_name = ''sim'', cn_protocol = ''ssh'', cn_host = ''sim'',
     cn_port = 22, cn_timeout_seconds = 10, cn_role_account_id = None, cn_proxy_id = None,
     cn_configuration = [(''client_type'', JStr ''fake'')],
     cn_secrets = seal sample_services (JObj [])\<rparr>"

definition sample_fake_db :: db where
  "sample_fake_db = empty_db\<lparr>connections := [sample_fake_row]\<rparr>"

definition sample_route :: json where
  "sample_route = JObj [(''destination'', JStr ''10.1.0.0/016''), (''next_hop'', JStr ''10.0.0.1''),
     (''interface'', JNull), (''metric'', JInt 1), (''description'', JStr []), (''enabled'', JBool True)]"

lemma sample_fake_db_ok: "routes_ok sample_fake_db" "fresh_ids show_nat sample_fake_db"
  by code_simp+

theorem route_runs_stay_consistent_witness:
  "routes_ok (foldl (\<lambda>d c. commit (route_step sample_services c) d) sample_fake_db
     [ListRoutes ''f'' show_nat, DeleteRoute ''f'' ''0'' show_nat])"
  by (rule route_runs_stay_consistent [OF sample_fake_db_ok(1)])

theorem routes_are_isolated_witness:
  "case route_step sample_services (ListRoutes ''f'' show_nat) sample_fake_db of
      Inl e \<Rightarrow> commit (route_step sample_services (ListRoutes ''f'' show_nat)) sample_fake_db = sample_fake_db
    | Inr (x, d') \<Rightarrow> commit (route_step sample_services (ListRoutes ''f'' show_nat)) sample_fake_db = d'
        \<and> touches_only ''f'' sample_fake_db d'"
  using routes_are_isolated [OF sample_fake_db_ok(1), of sample_services "ListRoutes ''f'' show_nat"]
  unfolding command_connection.simps .

theorem stored_routes_are_canonical_witness:
  "\<exists>r. validate_static_route sample_route = Inr r \<and> validate_static_route (JObj (route_payload r)) = Inr r
     \<and> rv_destination r = ''10.1.0.0/16''"
proof -
  have "case validate_static_route sample_route of Inl e \<Rightarrow> False
      | Inr r \<Rightarrow> rv_destination r = ''10.1.0.0/16''"
    by code_simp
  then obtain r where r: "validate_static_route sample_route = Inr r" "rv_destination r = ''10.1.0.0/16''"
    by (auto split: sum.splits)
  from stored_routes_are_canonical [OF r(1)] r show ?thesis by blast
qed

theorem create_route_exact_witness:
  "create_static_route_row sample_services show_nat ''f'' (default_routes ! 0) sample_fake_db = Inl IntegrityError"
proof -
  have "fake_connection sample_services ''f'' sample_fake_db = Inr ()" by code_simp
  moreover have "validate_static_route (default_routes ! 0) = Inr default_ipv4"
    using default_routes_valid by (simp add: default_routes_def)
  moreover have "rv_destination default_ipv4 \<in> set (destinations ''f'' (initialized show_nat ''f'' sample_fake_db))"
    by code_simp
  ultimately show ?thesis
    using create_route_exact [OF sample_fake_db_ok, of sample_services "''f''" "default_routes ! 0"]
    by (simp add: Let_def)
qed

end
