(* ===== verification/Uuid.thy ===== *)
theory Uuid
  imports IpAddress
begin

text \<open>
  Python's \<open>uuid.UUID(text)\<close> and \<open>str\<close> of the result, as \<open>_validate_uuid\<close> of the store uses them:
  many spellings (braces, a URN prefix, missing dashes, and whatever \<open>int(text, 16)\<close> accepts) are
  read, one canonical text of 36 characters is written.
\<close>

section \<open>\<open>int(text, 16)\<close>\<close>

text \<open>Digits with single underscores between them.\<close>

fun hex_digits :: "string \<Rightarrow> string option" where
  "hex_digits [] = None"
| "hex_digits [c] = (if is_hex c then Some [c] else None)"
| "hex_digits (c # d # cs) = (if \<not> is_hex c then None
     else if d = CHR ''_'' then map_option ((#) c) (hex_digits cs)
     else map_option ((#) c) (hex_digits (d # cs)))"

definition drop_0x :: "string \<Rightarrow> string" where
  "drop_0x s = (if lower (take 2 s) = ''0x''
     then (if take 1 (drop 2 s) = ''_'' then drop 3 s else drop 2 s) else s)"

definition int_base16 :: "string \<Rightarrow> int option" where
  "int_base16 s = (let t = strip s in
     if take 1 t = ''-'' then map_option (\<lambda>d. - read_hex d) (hex_digits (drop_0x (drop 1 t)))
     else if take 1 t = ''+'' then map_option read_hex (hex_digits (drop_0x (drop 1 t)))
     else map_option read_hex (hex_digits (drop_0x t)))"

section \<open>UUIDs\<close>

definition strip_braces :: "string \<Rightarrow> string" where
  "strip_braces s = rev (dropWhile (\<lambda>c. c \<in> set ''{}'') (rev (dropWhile (\<lambda>c. c \<in> set ''{}'') s)))"

definition parse_uuid :: "string \<Rightarrow> int option" where
  "parse_uuid s = (let h = filter (\<lambda>c. c \<noteq> CHR ''-'') (strip_braces (replace (replace s ''urn:'' []) ''uuid:'' [])) in
     if length h \<noteq> 32 then None
     else (case int_base16 h of None \<Rightarrow> None
       | Some i \<Rightarrow> if 0 \<le> i \<and> i < 2 ^ 128 then Some i else None))"

definition show_uuid :: "int \<Rightarrow> string" where
  "show_uuid i = (let h = map hex_char (to_digits 16 32 i) in
     take 8 h @ ''-'' @ take 4 (drop 8 h) @ ''-'' @ take 4 (drop 12 h) @ ''-'' @ take 4 (drop 16 h)
       @ ''-'' @ drop 20 h)"

lemma hex_digits_id: "s \<noteq> [] \<Longrightarrow> \<forall>c \<in> set s. is_hex c \<and> c \<noteq> CHR ''_'' \<Longrightarrow> hex_digits s = Some s"
  by (induction s rule: hex_digits.induct) auto

lemma read_hex_digits:
  "\<forall>d \<in> set ds. 0 \<le> d \<and> d < 16 \<Longrightarrow> read_hex (map hex_char ds) = of_digits 16 ds"
proof (induction ds rule: rev_induct)
  case (snoc d ds)
  then show ?case by (simp add: read_hex_def of_digits_def hex_char_facts mult.commute)
qed (simp add: read_hex_def of_digits_def)

lemma hex_char_other: "is_hex c \<Longrightarrow> c \<notin> set ''-_{}urx:+'' \<and> \<not> is_space c"
  by (auto simp: is_hex_def is_ascii_digit_def is_space_def ord_of_def)

lemma length_show_uuid: "length (show_uuid i) = 36"
  by (simp add: show_uuid_def Let_def)

lemma dropWhile_none: "\<forall>c \<in> set s. \<not> P c \<Longrightarrow> dropWhile P s = s"
  by (cases s) auto

lemma strip_none: "\<forall>c \<in> set s. \<not> is_space c \<Longrightarrow> strip s = s"
  by (simp add: strip_def dropWhile_none)

lemma contains_chars: "contains w s \<Longrightarrow> set w \<subseteq> set s"
  by (auto simp: contains_iff)

lemma int_base16_hex:
  assumes "s \<noteq> []" and "\<forall>c \<in> set s. is_hex c"
  shows "int_base16 s = Some (read_hex s)"
proof -
  have other: "\<forall>c \<in> set s. c \<notin> set ''-_{}urx:+'' \<and> \<not> is_space c"
    using assms(2) hex_char_other by blast
  obtain c cs where s: "s = c # cs" using assms(1) by (cases s) auto
  have "drop_0x s = s"
  proof (cases cs)
    case Nil
    then show ?thesis by (simp add: drop_0x_def s lower_def)
  next
    case (Cons d ds)
    have "lower_char d \<noteq> CHR ''x''"
    proof
      assume x: "lower_char d = CHR ''x''"
      have "is_hex d" using assms(2) s Cons by simp
      then show False
        using x by (auto simp: is_hex_def is_ascii_digit_def lower_char_def ord_of_def split: if_splits
            dest!: arg_cong [of _ _ ord_of])
    qed
    then show ?thesis by (simp add: drop_0x_def s Cons lower_def)
  qed
  moreover have "hex_digits s = Some s"
    using assms other by (intro hex_digits_id) auto
  moreover have "strip s = s" using other by (intro strip_none) blast
  ultimately show ?thesis using other by (simp add: int_base16_def Let_def s)
qed

theorem parse_show_uuid: "0 \<le> i \<Longrightarrow> i < 2 ^ 128 \<Longrightarrow> parse_uuid (show_uuid i) = Some i"
proof -
  assume i: "0 \<le> i" "i < 2 ^ 128"
  let ?ds = "to_digits 16 32 i"
  define h where "h = map hex_char ?ds"
  have ds: "0 \<le> d \<and> d < 16" if "d \<in> set ?ds" for d using to_digits_less [of 16] that by simp
  have hex: "\<forall>c \<in> set h. is_hex c" using ds hex_char_facts(1) by (auto simp: h_def)
  then have other: "\<forall>c \<in> set h. c \<notin> set ''-_{}urx:+''" using hex_char_other by blast
  have len: "length h = 32" by (simp add: h_def)
  have u: "show_uuid i = take 8 h @ ''-'' @ take 4 (drop 8 h) @ ''-'' @ take 4 (drop 12 h) @ ''-''
      @ take 4 (drop 16 h) @ ''-'' @ drop 20 h"
    by (simp add: show_uuid_def h_def Let_def)
  have "set (show_uuid i) \<subseteq> insert CHR ''-'' (set h)"
    unfolding u by (auto dest!: in_set_takeD in_set_dropD)
  then have chars: "c \<notin> set ''{}u''" if "c \<in> set (show_uuid i)" for c
    using that other by auto
  have "\<not> contains ''urn:'' (show_uuid i)" "\<not> contains ''uuid:'' (show_uuid i)"
    using contains_chars [of _ "show_uuid i"] chars by force+
  then have r: "replace (replace (show_uuid i) ''urn:'' []) ''uuid:'' [] = show_uuid i"
    by (simp add: replace_id)
  have braces: "strip_braces (show_uuid i) = show_uuid i"
    using chars by (simp add: strip_braces_def dropWhile_none)
  have "filter (\<lambda>c. c \<noteq> CHR ''-'') t = t" if "set t \<subseteq> set h" for t
    using that other by (intro filter_True) auto
  then have "filter (\<lambda>c. c \<noteq> CHR ''-'') (show_uuid i) =
      take 8 h @ take 4 (drop 8 h) @ take 4 (drop 12 h) @ take 4 (drop 16 h) @ drop 20 h"
    unfolding u by (simp add: set_take_subset set_drop_subset subset_trans [OF set_take_subset set_drop_subset])
  also have "\<dots> = h"
  proof -
    have "take 4 (drop 16 h) @ drop 20 h = drop 16 h" using append_take_drop_id [of 4 "drop 16 h"] by simp
    moreover have "take 4 (drop 12 h) @ drop 16 h = drop 12 h" using append_take_drop_id [of 4 "drop 12 h"] by simp
    moreover have "take 4 (drop 8 h) @ drop 12 h = drop 8 h" using append_take_drop_id [of 4 "drop 8 h"] by simp
    ultimately show ?thesis by (metis append_take_drop_id)
  qed
  finally have f: "filter (\<lambda>c. c \<noteq> CHR ''-'') (show_uuid i) = h" .
  have "h \<noteq> []" using len by auto
  then have "int_base16 h = Some (read_hex h)" using hex by (rule int_base16_hex)
  moreover have "read_hex h = i"
    unfolding h_def using read_hex_digits ds of_to_digits [of i 16 32] i by simp
  ultimately show ?thesis
    using i len by (simp add: parse_uuid_def r braces f)
qed

lemma parse_uuid_bounds: "parse_uuid s = Some i \<Longrightarrow> 0 \<le> i \<and> i < 2 ^ 128"
  by (auto simp: parse_uuid_def Let_def split: if_splits option.splits)

end
