(* ===== verification/TxnLog.thy ===== *)
theory TxnLog
  imports RouteLaws Uuid
begin

text \<open>
  The audit log of \<open>GatewayStore\<close>: validation and redaction of a transaction record
  (\<open>_validate_transaction\<close>), the append (\<open>append_transaction\<close>), the filtered and paged
  read (\<open>list_transactions\<close>), and the route operations that write their audit record in the same
  database transaction. UUID 3 of a call is the default correlation id, UUID 4 the record id.
\<close>

section \<open>Validation\<close>

definition validate_uuid :: "json \<Rightarrow> string \<Rightarrow> exn + string" where
  "validate_uuid v label = (case v of
      JStr s \<Rightarrow> (case parse_uuid s of
          None \<Rightarrow> Inl (StoreError (Field (InvalidUuid label)) 400)
        | Some i \<Rightarrow> Inr (show_uuid i))
    | _ \<Rightarrow> Inl (StoreError (Field (InvalidUuid label)) 400))"

definition optional :: "(json \<Rightarrow> exn + string) \<Rightarrow> json \<Rightarrow> exn + string option" where
  "optional f v = (if v = JNull then Inr None else bindE (f v) (\<lambda>s. Inr (Some s)))"

text \<open>Membership in a frozenset raises \<open>TypeError\<close> for an unhashable value.\<close>

definition member_of :: "json \<Rightarrow> string list \<Rightarrow> audit_reason \<Rightarrow> exn + string" where
  "member_of v names r = (case v of
      JList _ \<Rightarrow> Inl (PyError ''TypeError'')
    | JObj _ \<Rightarrow> Inl (PyError ''TypeError'')
    | JStr s \<Rightarrow> if s \<in> set names then Inr s else Inl (StoreError (Audit r) 400)
    | _ \<Rightarrow> Inl (StoreError (Audit r) 400))"

definition actor_role_names :: "json \<Rightarrow> exn + string list" where
  "actor_role_names v = (case v of
      JList xs \<Rightarrow> if \<not> list_all is_str xs then Inl (StoreError (Audit RolesNotList) 400)
        else if \<not> list_all (\<lambda>x. x \<in> JStr ` set [''Administrator'', ''Operator'', ''Viewer'']) xs
        then Inl (StoreError (Audit RolesUnknown) 400)
        else Inr (filter (\<lambda>r. JStr r \<in> set xs) [''Administrator'', ''Operator'', ''Viewer''])
    | _ \<Rightarrow> Inl (StoreError (Audit RolesNotList) 400))"

definition audit_state :: "json \<Rightarrow> string \<Rightarrow> exn + json" where
  "audit_state v label = (if v = JNull \<or> is_dict v \<or> is_list v then Inr v
     else Inl (StoreError (Audit (InvalidState label)) 400))"

definition validate_transaction :: "draws \<Rightarrow> json \<Rightarrow> exn + txn_row" where
  "validate_transaction dr p = (case p of JObj payload \<Rightarrow>
     bindE (if truthy (dget payload ''correlation_id'')
            then validate_uuid (dget payload ''correlation_id'') ''correlation_id''
            else Inr (uuid4 dr 3)) (\<lambda>correlation_id.
     bindE (text_field (dget payload ''actor_subject'') ''actor_subject'' True 255) (\<lambda>actor_subject.
     bindE (optional (\<lambda>v. validate_uuid v ''actor_tenant_id'') (dget payload ''actor_tenant_id'')) (\<lambda>actor_tenant_id.
     bindE (text_field (dget payload ''actor_name'') ''actor_name'' True 200) (\<lambda>actor_name.
     bindE (optional (\<lambda>v. text_field v ''actor_email'' False 320) (dget payload ''actor_email'')) (\<lambda>actor_email.
     bindE (actor_role_names (dget payload ''actor_roles'')) (\<lambda>normalized_roles.
     bindE (member_of (dget payload ''auth_mode'') [''entra'', ''demo''] InvalidAuthMode) (\<lambda>auth_mode.
     bindE (text_field (dget payload ''action'') ''action'' True 100) (\<lambda>action.
     bindE (text_field (dget payload ''resource_type'') ''resource_type'' True 64) (\<lambda>resource_type.
     bindE (optional (\<lambda>v. text_field v ''resource_id'' False 64) (dget payload ''resource_id'')) (\<lambda>resource_id.
     bindE (optional (\<lambda>v. validate_uuid v ''connection_id'') (dget payload ''connection_id'')) (\<lambda>connection_id.
     bindE (member_of (dget payload ''outcome'') [''succeeded'', ''failed''] InvalidOutcome) (\<lambda>outcome.
     bindE (audit_state (dget payload ''before_state'') ''before_state'') (\<lambda>before_state.
     bindE (audit_state (dget payload ''after_state'') ''after_state'') (\<lambda>after_state.
     bindE (optional (\<lambda>v. text_field v ''detail'' False 4000) (dget payload ''detail'')) (\<lambda>detail.
     bindE (optional (\<lambda>v. text_field v ''request_method'' False 10) (dget payload ''request_method'')) (\<lambda>request_method.
     bindE (optional (\<lambda>v. text_field v ''request_path'' False 2048) (dget payload ''request_path'')) (\<lambda>request_path.
     Inr \<lparr>tx_id = uuid4 dr 4, tx_timestamp_utc = utc_now dr, tx_correlation_id = correlation_id,
          tx_actor_subject = actor_subject, tx_actor_tenant_id = actor_tenant_id,
          tx_actor_name = actor_name, tx_actor_email = actor_email, tx_actor_roles = normalized_roles,
          tx_auth_mode = auth_mode, tx_action = action, tx_resource_type = resource_type,
          tx_resource_id = resource_id, tx_connection_id = connection_id, tx_outcome = outcome,
          tx_before_state = redact_recursive before_state, tx_after_state = redact_recursive after_state,
          tx_detail = map_option redact_text detail, tx_request_method = request_method,
          tx_request_path = request_path\<rparr>)))))))))))))))))
   | _ \<Rightarrow> Inl (StoreError (Audit TransactionNotObject) 400))"

section \<open>Append\<close>

definition insert_transaction :: "draws \<Rightarrow> json \<Rightarrow> db \<Rightarrow> exn + (txn_row \<times> db)" where
  "insert_transaction dr payload d =
     bindE (validate_transaction dr payload) (\<lambda>row.
     bindE (execute (d\<lparr>gateway_transactions := gateway_transactions d @ [row]\<rparr>)) (\<lambda>d.
     bindE (lookup_row tx_id (JStr (tx_id row)) (gateway_transactions d)) (\<lambda>row. Inr (row, d))))"

definition append_transaction :: "draws \<Rightarrow> json \<Rightarrow> store \<Rightarrow> exn + (txn_row \<times> store)" where
  "append_transaction dr payload st = transaction (insert_transaction dr payload) st"

section \<open>Reading\<close>

text \<open>\<open>filters.get(k)\<close> when it is not \<open>None\<close>, validated, gives one condition.\<close>

definition filter_value :: "dict \<Rightarrow> string \<Rightarrow> (json \<Rightarrow> exn + string) \<Rightarrow> (string \<Rightarrow> txn_row \<Rightarrow> bool)
    \<Rightarrow> exn + (txn_row \<Rightarrow> bool)" where
  "filter_value filters k validate condition =
     (if dget filters k = JNull then Inr (\<lambda>_. True)
      else bindE (validate (dget filters k)) (\<lambda>v. Inr (condition v)))"

text \<open>
  \<open>_parse_filter_timestamp\<close>: the text is stripped and a final \<open>Z\<close> is written as an offset;
  \<open>parse_instant\<close> is \<open>datetime.fromisoformat\<close> followed by the formatting in UTC.
\<close>

definition filter_timestamp :: "services \<Rightarrow> string \<Rightarrow> json \<Rightarrow> exn + string" where
  "filter_timestamp sv label v = (case v of
      JStr s \<Rightarrow>
        let t = strip s; t = (if endswith t ''Z'' then butlast t @ ''+00:00'' else t)
        in (case parse_instant sv t of
              None \<Rightarrow> Inl (StoreError (Field (InvalidFilterTime label)) 400) | Some u \<Rightarrow> Inr u)
    | _ \<Rightarrow> Inl (StoreError (Field (InvalidFilterTime label)) 400))"

definition filter_conditions :: "services \<Rightarrow> dict \<Rightarrow> exn + (txn_row \<Rightarrow> bool) list" where
  "filter_conditions sv filters =
     bindE (filter_value filters ''connection_id'' (\<lambda>v. validate_uuid v ''connection_id'')
       (\<lambda>v t. tx_connection_id t = Some v)) (\<lambda>c1.
     bindE (filter_value filters ''action'' (\<lambda>v. text_field v ''action filter'' False 100)
       (\<lambda>v t. tx_action t = v)) (\<lambda>c2.
     bindE (filter_value filters ''actor_subject'' (\<lambda>v. text_field v ''actor_subject filter'' False 255)
       (\<lambda>v t. tx_actor_subject t = v)) (\<lambda>c3.
     bindE (filter_value filters ''resource_type'' (\<lambda>v. text_field v ''resource_type filter'' False 64)
       (\<lambda>v t. tx_resource_type t = v)) (\<lambda>c4.
     bindE (filter_value filters ''outcome'' (\<lambda>v. member_of v [''succeeded'', ''failed''] InvalidOutcomeFilter)
       (\<lambda>v t. tx_outcome t = v)) (\<lambda>c5.
     bindE (filter_value filters ''since'' (filter_timestamp sv ''since'')
       (\<lambda>v t. v \<le> tx_timestamp_utc t)) (\<lambda>c6.
     bindE (filter_value filters ''until'' (filter_timestamp sv ''until'')
       (\<lambda>v t. tx_timestamp_utc t \<le> v)) (\<lambda>c7.
     Inr [c1, c2, c3, c4, c5, c6, c7])))))))"

record txn_page =
  pg_items :: "txn_row list"
  pg_total :: nat
  pg_limit :: int
  pg_offset :: int

definition newest_first :: "txn_row list \<Rightarrow> txn_row list" where
  "newest_first rows = rev (sort_key (\<lambda>t. (tx_timestamp_utc t, tx_id t)) rows)"

definition page_of :: "(txn_row \<Rightarrow> bool) list \<Rightarrow> int \<Rightarrow> int \<Rightarrow> db \<Rightarrow> txn_page" where
  "page_of conditions limit offset d =
     (let matching = filter (\<lambda>t. list_all (\<lambda>c. c t) conditions) (gateway_transactions d)
      in \<lparr>pg_items = take (nat limit) (drop (nat offset) (newest_first matching)),
          pg_total = length matching, pg_limit = limit, pg_offset = offset\<rparr>)"

definition int_within :: "json \<Rightarrow> int \<Rightarrow> int option \<Rightarrow> audit_reason \<Rightarrow> exn + int" where
  "int_within v lo hi r = (case v of
      JInt i \<Rightarrow> if lo \<le> i \<and> (case hi of None \<Rightarrow> True | Some h \<Rightarrow> i \<le> h) then Inr i
        else Inl (StoreError (Audit r) 400)
    | _ \<Rightarrow> Inl (StoreError (Audit r) 400))"

definition list_transactions ::
  "services \<Rightarrow> json \<Rightarrow> json \<Rightarrow> json \<Rightarrow> store \<Rightarrow> exn + (txn_page \<times> store)" where
  "list_transactions sv filters limit offset st =
     bindE (if \<not> truthy filters then Inr [] else (case filters of JObj d \<Rightarrow> Inr d
         | _ \<Rightarrow> Inl (StoreError (Audit InvalidFilters) 400))) (\<lambda>filters.
     bindE (int_within limit 1 (Some 500) InvalidLimit) (\<lambda>limit.
     bindE (int_within offset 0 None InvalidOffset) (\<lambda>offset.
     bindE (filter_conditions sv filters) (\<lambda>conditions.
     transaction (reading (\<lambda>d. Inr (page_of conditions limit offset d))) st))))"

section \<open>Audited route operations\<close>

definition audit_record ::
  "dict \<Rightarrow> string \<Rightarrow> string \<Rightarrow> json \<Rightarrow> json \<Rightarrow> json" where
  "audit_record audit resource_id connection_id before after =
     JObj (dmerge audit [(''resource_type'', JStr ''static_route''), (''resource_id'', JStr resource_id),
       (''connection_id'', JStr connection_id), (''outcome'', JStr ''succeeded''),
       (''before_state'', before), (''after_state'', after)])"

definition create_route_audited_body ::
  "services \<Rightarrow> draws \<Rightarrow> string \<Rightarrow> json \<Rightarrow> dict \<Rightarrow> db \<Rightarrow> exn + (route_row \<times> db)" where
  "create_route_audited_body sv dr connection_id payload audit d =
     bindE (create_static_route_row sv (uuid4 dr) connection_id payload d) (\<lambda>(route, d).
     bindE (insert_transaction dr (audit_record audit (rt_id route) connection_id JNull
         (JObj (route_dict route))) d) (\<lambda>(_, d).
     Inr (route, d)))"

definition update_route_audited_body ::
  "services \<Rightarrow> draws \<Rightarrow> string \<Rightarrow> string \<Rightarrow> json \<Rightarrow> dict \<Rightarrow> db \<Rightarrow> exn + (route_row \<times> db)" where
  "update_route_audited_body sv dr connection_id route_id payload audit d =
     bindE (update_static_route_row sv (uuid4 dr) connection_id route_id payload d) (\<lambda>((before, after), d).
     bindE (insert_transaction dr (audit_record audit route_id connection_id
         (JObj (route_dict before)) (JObj (route_dict after))) d) (\<lambda>(_, d).
     Inr (after, d)))"

definition delete_route_audited_body ::
  "services \<Rightarrow> draws \<Rightarrow> string \<Rightarrow> string \<Rightarrow> dict \<Rightarrow> db \<Rightarrow> exn + (unit \<times> db)" where
  "delete_route_audited_body sv dr connection_id route_id audit d =
     bindE (delete_static_route_row sv (uuid4 dr) connection_id route_id d) (\<lambda>(before, d).
     bindE (insert_transaction dr (audit_record audit route_id connection_id
         (JObj (route_dict before)) JNull) d) (\<lambda>(_, d).
     Inr ((), d)))"

definition create_static_route_audited ::
  "services \<Rightarrow> draws \<Rightarrow> string \<Rightarrow> json \<Rightarrow> dict \<Rightarrow> store \<Rightarrow> exn + (dict \<times> store)" where
  "create_static_route_audited sv dr connection_id payload audit st =
     bindE (transaction (create_route_audited_body sv dr connection_id payload audit) st)
       (\<lambda>(route, st). Inr (route_dict route, st))"

definition update_static_route_audited ::
  "services \<Rightarrow> draws \<Rightarrow> string \<Rightarrow> string \<Rightarrow> json \<Rightarrow> dict \<Rightarrow> store \<Rightarrow> exn + (dict \<times> store)" where
  "update_static_route_audited sv dr connection_id route_id payload audit st =
     bindE (transaction (update_route_audited_body sv dr connection_id route_id payload audit) st)
       (\<lambda>(route, st). Inr (route_dict route, st))"

definition delete_static_route_audited ::
  "services \<Rightarrow> draws \<Rightarrow> string \<Rightarrow> string \<Rightarrow> dict \<Rightarrow> store \<Rightarrow> exn + (unit \<times> store)" where
  "delete_static_route_audited sv dr connection_id route_id audit st =
     transaction (delete_route_audited_body sv dr connection_id route_id audit) st"

end
