(* ===== verification/TxnLogLaws.thy ===== *)
theory TxnLogLaws
  imports TxnLog
begin

text \<open>
  What the audit log guarantees: records are only ever appended, a record holds redacted states
  and canonical ids, an audited change and its record are committed together or not at all, and
  the pages of a query partition the matching records.
\<close>

section \<open>Records\<close>

definition record_clean :: "txn_row \<Rightarrow> bool" where
  "record_clean t \<longleftrightarrow> tx_auth_mode t \<in> {''entra'', ''demo''} \<and> tx_outcome t \<in> {''succeeded'', ''failed''}
     \<and> set (tx_actor_roles t) \<subseteq> {''Administrator'', ''Operator'', ''Viewer''} \<and> sorted (tx_actor_roles t)
     \<and> tx_action t \<noteq> [] \<and> tx_actor_subject t \<noteq> []
     \<and> (\<forall>s. tx_detail t = Some s \<longrightarrow> int (length s) \<le> 4000)"

definition states_redacted :: "txn_row \<Rightarrow> bool" where
  "states_redacted t \<longleftrightarrow> (\<forall>k. sensitive_key k \<longrightarrow>
     items_at k (tx_before_state t) \<subseteq> {JStr redacted} \<and> items_at k (tx_after_state t) \<subseteq> {JStr redacted})"

lemma member_of_Inr: "member_of v names r = Inr s \<longleftrightarrow> v = JStr s \<and> s \<in> set names"
  by (auto simp: member_of_def split: json.splits)

lemma optional_Inr: "optional f v = Inr x \<longleftrightarrow> (if v = JNull then x = None else \<exists>s. f v = Inr s \<and> x = Some s)"
  by (auto simp: optional_def result_simps)

lemma validate_uuid_Inr:
  "validate_uuid v label = Inr s \<longleftrightarrow> (\<exists>t i. v = JStr t \<and> parse_uuid t = Some i \<and> s = show_uuid i)"
  by (auto simp: validate_uuid_def split: json.splits option.splits)

lemma actor_role_names_Inr:
  assumes "actor_role_names v = Inr rs"
  shows "set rs \<subseteq> {''Administrator'', ''Operator'', ''Viewer''}" and "sorted rs"
proof -
  let ?all = "[''Administrator'', ''Operator'', ''Viewer'']"
  obtain P where rs: "rs = filter P ?all"
    using assms by (auto simp: actor_role_names_def simp del: filter.simps split: json.splits if_splits)
  have "sorted ?all" by code_simp
  then have "sorted (filter P ?all)" by (rule sorted_wrt_filter)
  then show "sorted rs" by (simp only: rs)
  have "set (filter P ?all) \<subseteq> set ?all" by (rule filter_is_subset)
  then show "set rs \<subseteq> {''Administrator'', ''Operator'', ''Viewer''}" by (simp only: rs list.set)
qed

lemma audit_state_Inr: "audit_state v label = Inr s \<Longrightarrow> s = v"
  by (auto simp: audit_state_def split: if_splits)

lemma validate_transaction_Inr:
  assumes "validate_transaction dr v = Inr row"
  obtains payload detail where "v = JObj payload"
    and "tx_id row = uuid4 dr 4" and "tx_timestamp_utc row = utc_now dr"
    and "dget payload ''outcome'' = JStr (tx_outcome row)" "tx_outcome row \<in> set [''succeeded'', ''failed'']"
    and "tx_auth_mode row \<in> set [''entra'', ''demo'']"
    and "set (tx_actor_roles row) \<subseteq> {''Administrator'', ''Operator'', ''Viewer''}" "sorted (tx_actor_roles row)"
    and "text_field (dget payload ''actor_subject'') ''actor_subject'' True 255 = Inr (tx_actor_subject row)"
    and "tx_before_state row = redact_recursive (dget payload ''before_state'')"
    and "tx_after_state row = redact_recursive (dget payload ''after_state'')"
    and "tx_detail row = map_option redact_text detail"
    and "optional (\<lambda>v. text_field v ''resource_id'' False 64) (dget payload ''resource_id'') = Inr (tx_resource_id row)"
    and "optional (\<lambda>v. validate_uuid v ''connection_id'') (dget payload ''connection_id'') = Inr (tx_connection_id row)"
    and "text_field (dget payload ''resource_type'') ''resource_type'' True 64 = Inr (tx_resource_type row)"
    and "text_field (dget payload ''action'') ''action'' True 100 = Inr (tx_action row)"
proof -
  from assms obtain payload where v: "v = JObj payload"
    by (auto simp: validate_transaction_def split: json.splits)
  show thesis
    using assms unfolding v validate_transaction_def json.case
    apply (elim bindE_InrE)
    apply (drule sym [of "Inr _"])
    apply (simp only: sum.inject)
    apply (drule audit_state_Inr)+
    apply hypsubst
    apply (rule that [OF v])
    apply (simp_all only: txn_row.select_convs member_of_Inr actor_role_names_Inr)
    done
qed

lemma validated_record_clean:
  assumes "validate_transaction dr v = Inr row"
  shows "record_clean row" and "states_redacted row"
proof -
  obtain payload detail where p:
    "tx_outcome row \<in> set [''succeeded'', ''failed'']" "tx_auth_mode row \<in> set [''entra'', ''demo'']"
    "set (tx_actor_roles row) \<subseteq> {''Administrator'', ''Operator'', ''Viewer''}" "sorted (tx_actor_roles row)"
    "text_field (dget payload ''actor_subject'') ''actor_subject'' True 255 = Inr (tx_actor_subject row)"
    "text_field (dget payload ''action'') ''action'' True 100 = Inr (tx_action row)"
    "tx_before_state row = redact_recursive (dget payload ''before_state'')"
    "tx_after_state row = redact_recursive (dget payload ''after_state'')"
    "tx_detail row = map_option redact_text detail"
    using assms by (rule validate_transaction_Inr)
  have "int (length s) \<le> 4000" if "tx_detail row = Some s" for s
    using that p(9) length_redact_text by auto
  then show "record_clean row"
    using p(1-4) text_field_required [OF p(5)] text_field_required [OF p(6)]
    by (simp add: record_clean_def)
  show "states_redacted row"
    using redact_recursive_sensitive by (auto simp: states_redacted_def p(7,8) dest!: subsetD)
qed

section \<open>Append\<close>

lemma schema_append:
  assumes "schema_ok d" and "record_clean row" and "tx_id row \<notin> set (map tx_id (gateway_transactions d))"
  shows "schema_ok (d\<lparr>gateway_transactions := gateway_transactions d @ [row]\<rparr>)"
  using assms unfolding schema_frame_transactions
  by (simp add: schema_ok_def transactions_ok_def record_clean_def)

lemma insert_transaction_Inr:
  assumes "insert_transaction dr v d = Inr (row, d')"
  shows "d' = d\<lparr>gateway_transactions := gateway_transactions d @ [row]\<rparr>" and "schema_ok d'"
    and "validate_transaction dr v = Inr row"
proof -
  from assms obtain r where v: "validate_transaction dr v = Inr r"
    and d': "d' = d\<lparr>gateway_transactions := gateway_transactions d @ [r]\<rparr>" "schema_ok d'"
    and l: "lookup_row tx_id (JStr (tx_id r)) (gateway_transactions d') = Inr row"
    by (auto simp: insert_transaction_def result_simps execute_eq_Inr)
  have "lookup_row tx_id (JStr (tx_id r)) (gateway_transactions d') = Inr r"
    using schema_okD(6) [OF d'(2)] by (intro lookup_row_self) (simp_all add: d'(1))
  with l have "row = r" by simp
  with v d' show "d' = d\<lparr>gateway_transactions := gateway_transactions d @ [row]\<rparr>"
    and "schema_ok d'" and "validate_transaction dr v = Inr row" by simp_all
qed

lemma insert_transaction_exact:
  assumes "schema_ok d" and "uuid4 dr 4 \<notin> set (map tx_id (gateway_transactions d))"
  shows "insert_transaction dr v d = bindE (validate_transaction dr v) (\<lambda>row.
     Inr (row, d\<lparr>gateway_transactions := gateway_transactions d @ [row]\<rparr>))"
proof (cases "validate_transaction dr v")
  case (Inl e)
  then show ?thesis by (simp add: insert_transaction_def)
next
  case (Inr row)
  have id: "tx_id row = uuid4 dr 4" using Inr by (rule validate_transaction_Inr)
  have ok: "schema_ok (d\<lparr>gateway_transactions := gateway_transactions d @ [row]\<rparr>)"
    using assms id by (intro schema_append validated_record_clean(1) [OF Inr]) simp_all
  have "lookup_row tx_id (JStr (tx_id row)) (gateway_transactions d @ [row]) = Inr row"
    using assms(2) id by (intro lookup_row_app_last) simp
  then show ?thesis using Inr ok by (simp add: insert_transaction_def)
qed

section \<open>Audited changes\<close>

text \<open>The record of a successful change to a route.\<close>

definition records_change :: "txn_row \<Rightarrow> string \<Rightarrow> string \<Rightarrow> json \<Rightarrow> json \<Rightarrow> bool" where
  "records_change row route_id connection_id before after \<longleftrightarrow>
     tx_outcome row = ''succeeded'' \<and> tx_resource_type row = ''static_route''
     \<and> tx_resource_id row = Some route_id
     \<and> tx_connection_id row = map_option show_uuid (parse_uuid connection_id) \<and> tx_connection_id row \<noteq> None
     \<and> tx_before_state row = redact_recursive before \<and> tx_after_state row = redact_recursive after"

lemma audit_record_recorded:
  assumes "validate_transaction dr (audit_record audit rid c before after) = Inr row"
  shows "records_change row rid c before after"
proof -
  let ?fields = "[(''resource_type'', JStr ''static_route''), (''resource_id'', JStr rid),
       (''connection_id'', JStr c), (''outcome'', JStr ''succeeded''),
       (''before_state'', before), (''after_state'', after)]"
  obtain payload where p: "JObj (dmerge audit ?fields) = JObj payload"
    "dget payload ''outcome'' = JStr (tx_outcome row)"
    "tx_before_state row = redact_recursive (dget payload ''before_state'')"
    "tx_after_state row = redact_recursive (dget payload ''after_state'')"
    "optional (\<lambda>v. text_field v ''resource_id'' False 64) (dget payload ''resource_id'') = Inr (tx_resource_id row)"
    "optional (\<lambda>v. validate_uuid v ''connection_id'') (dget payload ''connection_id'') = Inr (tx_connection_id row)"
    "text_field (dget payload ''resource_type'') ''resource_type'' True 64 = Inr (tx_resource_type row)"
    using assms unfolding audit_record_def by (rule validate_transaction_Inr)
  have wf: "wf_dict ?fields" by (simp add: wf_dict_def)
  have get: "dget payload ''outcome'' = JStr ''succeeded''" "dget payload ''before_state'' = before"
    "dget payload ''after_state'' = after" "dget payload ''resource_id'' = JStr rid"
    "dget payload ''connection_id'' = JStr c" "dget payload ''resource_type'' = JStr ''static_route''"
    using p(1) dget_dmerge [OF wf, of audit] by (auto simp: dget_Cons dhas_Cons)
  have "strip ''static_route'' = ''static_route''" by code_simp
  then show ?thesis
    using p(2-7) unfolding get records_change_def
    by (auto simp: optional_Inr validate_uuid_Inr text_field_Inr)
qed

lemma audited_Inr:
  assumes "insert_transaction dr (audit_record audit rid c before after) d1 = Inr (row, d')"
  shows "d' = d1\<lparr>gateway_transactions := gateway_transactions d1 @ [row]\<rparr>"
    and "records_change row rid c before after"
  using insert_transaction_Inr(1,3) [OF assms] audit_record_recorded by blast+

datatype audited_command =
    AppendRecord json
  | CreateAudited string json dict
  | UpdateAudited string string json dict
  | DeleteAudited string string dict

definition audited_step :: "services \<Rightarrow> audited_command \<times> draws \<Rightarrow> db \<Rightarrow> exn + (unit \<times> db)" where
  "audited_step sv c d = (case c of
      (AppendRecord p, dr) \<Rightarrow> bindE (insert_transaction dr p d) (\<lambda>(_, d'). Inr ((), d'))
    | (CreateAudited cid p a, dr) \<Rightarrow> bindE (create_route_audited_body sv dr cid p a d) (\<lambda>(_, d'). Inr ((), d'))
    | (UpdateAudited cid i p a, dr) \<Rightarrow> bindE (update_route_audited_body sv dr cid i p a d) (\<lambda>(_, d'). Inr ((), d'))
    | (DeleteAudited cid i a, dr) \<Rightarrow> delete_route_audited_body sv dr cid i a d)"

lemma create_audited_Inr:
  assumes "create_route_audited_body sv dr c p a d = Inr (route, d')"
  obtains d1 row where "create_static_route_row sv (uuid4 dr) c p d = Inr (route, d1)"
    and "insert_transaction dr (audit_record a (rt_id route) c JNull (JObj (route_dict route))) d1 = Inr (row, d')"
  using assms by (auto simp: create_route_audited_body_def result_simps)

lemma update_audited_Inr:
  assumes "update_route_audited_body sv dr c i p a d = Inr (after, d')"
  obtains d1 row before where "update_static_route_row sv (uuid4 dr) c i p d = Inr ((before, after), d1)"
    and "insert_transaction dr (audit_record a i c (JObj (route_dict before)) (JObj (route_dict after))) d1 = Inr (row, d')"
  using assms by (auto simp: update_route_audited_body_def result_simps)

lemma delete_audited_Inr:
  assumes "delete_route_audited_body sv dr c i a d = Inr (u, d')"
  obtains d1 row before where "delete_static_route_row sv (uuid4 dr) c i d = Inr (before, d1)"
    and "insert_transaction dr (audit_record a i c (JObj (route_dict before)) JNull) d1 = Inr (row, d')"
  using assms by (auto simp: delete_route_audited_body_def result_simps)

lemma route_ops_keep_log:
  assumes "routes_ok d"
  shows "create_static_route_row sv u c p d = Inr (r, d1) \<Longrightarrow> routes_ok d1 \<and> gateway_transactions d1 = gateway_transactions d"
    and "update_static_route_row sv u c i p d = Inr (ba, d1) \<Longrightarrow> routes_ok d1 \<and> gateway_transactions d1 = gateway_transactions d"
    and "delete_static_route_row sv u c i d = Inr (r, d1) \<Longrightarrow> routes_ok d1 \<and> gateway_transactions d1 = gateway_transactions d"
proof -
  have log: "routes_ok d1 \<and> gateway_transactions d1 = gateway_transactions d"
    if "route_step sv cmd d = Inr (x, d1)" for cmd x d1
    using route_step_keeps [OF assms that] by (simp add: touches_only_def)
  show "create_static_route_row sv u c p d = Inr (r, d1) \<Longrightarrow> routes_ok d1 \<and> gateway_transactions d1 = gateway_transactions d"
    by (rule log [of "CreateRoute c p u" "[r]"]) (simp add: route_step_def)
  show "update_static_route_row sv u c i p d = Inr (ba, d1) \<Longrightarrow> routes_ok d1 \<and> gateway_transactions d1 = gateway_transactions d"
    by (rule log [of "UpdateRoute c i p u" "[fst ba, snd ba]"]) (simp add: route_step_def split: prod.splits)
  show "delete_static_route_row sv u c i d = Inr (r, d1) \<Longrightarrow> routes_ok d1 \<and> gateway_transactions d1 = gateway_transactions d"
    by (rule log [of "DeleteRoute c i u" "[r]"]) (simp add: route_step_def)
qed

lemma audited_step_keeps:
  assumes "routes_ok d" and "audited_step sv c d = Inr (x, d')"
  shows "routes_ok d' \<and> (\<exists>row. gateway_transactions d' = gateway_transactions d @ [row]
     \<and> record_clean row \<and> states_redacted row)"
proof -
  have ins: "routes_ok d' \<and> (\<exists>row. gateway_transactions d' = gateway_transactions d @ [row]
      \<and> record_clean row \<and> states_redacted row)"
    if "insert_transaction dr v d1 = Inr (row, d')"
      and "routes_ok d1 \<and> gateway_transactions d1 = gateway_transactions d" for dr v d1 row
    using insert_transaction_Inr [OF that(1)] validated_record_clean that(2)
    by (auto simp: routes_ok_def)
  obtain cmd dr where c: "c = (cmd, dr)" by (cases c)
  show ?thesis
  proof (cases cmd)
    case (AppendRecord p)
    then show ?thesis using assms ins by (auto simp: audited_step_def c result_simps)
  next
    case (CreateAudited cid p a)
    then obtain route where "create_route_audited_body sv dr cid p a d = Inr (route, d')"
      using assms(2) by (auto simp: audited_step_def c result_simps)
    then show ?thesis
      by (rule create_audited_Inr) (use ins route_ops_keep_log(1) [OF assms(1)] in blast)
  next
    case (UpdateAudited cid i p a)
    then obtain after where "update_route_audited_body sv dr cid i p a d = Inr (after, d')"
      using assms(2) by (auto simp: audited_step_def c result_simps)
    then show ?thesis
      by (rule update_audited_Inr) (use ins route_ops_keep_log(2) [OF assms(1)] in blast)
  next
    case (DeleteAudited cid i a)
    then have "delete_route_audited_body sv dr cid i a d = Inr (x, d')"
      using assms(2) by (simp add: audited_step_def c)
    then show ?thesis
      by (rule delete_audited_Inr) (use ins route_ops_keep_log(3) [OF assms(1)] in blast)
  qed
qed

text \<open>
  The log only grows, whatever happened before: the invariant carries the records of an earlier
  database.
\<close>

interpretation audit_log: transactional_system "audited_step sv"
  "\<lambda>d. routes_ok d \<and> prefix earlier (gateway_transactions d)" for sv earlier
proof unfold_locales
  fix d c x d'
  assume inv: "routes_ok d \<and> prefix earlier (gateway_transactions d)"
    and s: "audited_step sv c d = Inr (x, d')"
  from audited_step_keeps [OF conjunct1 [OF inv] s]
  show "routes_ok d' \<and> prefix earlier (gateway_transactions d')"
    using inv by (auto intro: prefix_order.trans)
qed

section \<open>Pages\<close>

lemma concat_pages: "concat (map (\<lambda>k. take n (drop (n * k) xs)) [0..<m]) = take (n * m) xs"
proof (induction m)
  case (Suc m)
  have "take (n * m + n) xs = take (n * m) xs @ take n (drop (n * m) xs)" by (rule take_add)
  with Suc show ?case by (simp add: add.commute)
qed simp

lemma set_newest_first [simp]: "set (newest_first rows) = set rows"
  by (simp add: newest_first_def)

lemma length_newest_first [simp]: "length (newest_first rows) = length rows"
  by (simp add: newest_first_def)

lemma distinct_newest_first:
  "distinct (map tx_id rows) \<Longrightarrow> distinct (map tx_id (newest_first rows))"
  by (simp add: newest_first_def distinct_map)

lemma sorted_newest_first:
  "sorted_wrt (\<lambda>s t. (tx_timestamp_utc t, tx_id t) \<le> (tx_timestamp_utc s, tx_id s)) (newest_first rows)"
proof -
  have "sorted (map (\<lambda>t. (tx_timestamp_utc t, tx_id t)) (sort_key (\<lambda>t. (tx_timestamp_utc t, tx_id t)) rows))"
    by (rule sorted_sort_key)
  then show ?thesis by (simp add: newest_first_def sorted_wrt_rev sorted_wrt_map)
qed

section \<open>Properties\<close>

text \<open>
  Over any sequence of appends and audited route changes, failed ones
  included, the records there were stay as they are, at the front of the log and in order; no
  operation edits or removes one.
\<close>

theorem audit_log_is_append_only:
  assumes "routes_ok d"
  shows "prefix (gateway_transactions d)
     (gateway_transactions (foldl (\<lambda>d c. commit (audited_step sv c) d) d commands))"
  using audit_log.run_inv [of d "gateway_transactions d" sv commands] assms by simp

text \<open>
  An audited operation either changes nothing, or commits
  together with its change exactly one record, with clean fields and redacted states.
\<close>

theorem changes_and_records_commit_together:
  assumes "routes_ok d"
  shows "commit (audited_step sv c) d = d
     \<or> (\<exists>row. gateway_transactions (commit (audited_step sv c) d) = gateway_transactions d @ [row]
          \<and> record_clean row \<and> states_redacted row)"
proof (cases "audited_step sv c d")
  case (Inr r)
  then obtain x d' where "audited_step sv c d = Inr (x, d')" by (cases r) auto
  with audited_step_keeps [OF assms this] show ?thesis by simp
qed simp

text \<open>
  The record committed with a creation, an update or a deletion says
  that it succeeded, names the route and its connection, and holds the redacted state of the
  route before and after, as the same operation without audit would have left it.
\<close>

theorem records_describe_the_change:
  "(create_route_audited_body sv dr c p a d = Inr (route, d') \<longrightarrow>
     (\<exists>d1 row. create_static_route_row sv (uuid4 dr) c p d = Inr (route, d1)
        \<and> d' = d1\<lparr>gateway_transactions := gateway_transactions d1 @ [row]\<rparr>
        \<and> records_change row (rt_id route) c JNull (JObj (route_dict route))))
   \<and> (update_route_audited_body sv dr c i p a d = Inr (after, d') \<longrightarrow>
     (\<exists>d1 row before. update_static_route_row sv (uuid4 dr) c i p d = Inr ((before, after), d1)
        \<and> d' = d1\<lparr>gateway_transactions := gateway_transactions d1 @ [row]\<rparr>
        \<and> records_change row i c (JObj (route_dict before)) (JObj (route_dict after))))
   \<and> (delete_route_audited_body sv dr c i a d = Inr (u, d') \<longrightarrow>
     (\<exists>d1 row before. delete_static_route_row sv (uuid4 dr) c i d = Inr (before, d1)
        \<and> d' = d1\<lparr>gateway_transactions := gateway_transactions d1 @ [row]\<rparr>
        \<and> records_change row i c (JObj (route_dict before)) JNull))"
  by (intro conjI impI) (blast dest: audited_Inr elim: create_audited_Inr update_audited_Inr delete_audited_Inr)+

text \<open>
  C15. The consecutive pages of a query, put together, are the matching records
  newest first: no record is missing, none appears twice, and the total is their number.
\<close>

theorem pages_partition_the_log:
  assumes "schema_ok d" and "0 < n" and "pg_total (page_of conditions (int n) 0 d) \<le> n * m"
  shows "let items = concat (map (\<lambda>k. pg_items (page_of conditions (int n) (int (n * k)) d)) [0..<m])
     in set items = {t \<in> set (gateway_transactions d). list_all (\<lambda>c. c t) conditions}
       \<and> distinct (map tx_id items) \<and> length items = pg_total (page_of conditions (int n) 0 d)
       \<and> sorted_wrt (\<lambda>s t. (tx_timestamp_utc t, tx_id t) \<le> (tx_timestamp_utc s, tx_id s)) items"
proof -
  let ?match = "filter (\<lambda>t. list_all (\<lambda>c. c t) conditions) (gateway_transactions d)"
  have items: "concat (map (\<lambda>k. pg_items (page_of conditions (int n) (int (n * k)) d)) [0..<m]) = newest_first ?match"
    using assms(3) concat_pages [of n "newest_first ?match" m]
    by (simp add: page_of_def Let_def del: of_nat_mult)
  have "distinct (map tx_id ?match)"
    using schema_okD(6) [OF assms(1)] by (rule distinct_map_filter)
  then show ?thesis
    using distinct_newest_first sorted_newest_first unfolding items Let_def
    by (auto simp: page_of_def Let_def)
qed

definition sample_cid :: string where
  "sample_cid = ''00000000-0000-4000-8000-00000000000f''"

definition sample_audit_db :: db where
  "sample_audit_db = empty_db\<lparr>connections := [sample_fake_row\<lparr>cn_id := sample_cid\<rparr>]\<rparr>"

definition sample_actor :: dict where
  "sample_actor = [(''actor_subject'', JStr ''s-1''), (''actor_name'', JStr ''Ana''),
     (''actor_roles'', JList [JStr ''Administrator'']), (''auth_mode'', JStr ''entra''),
     (''action'', JStr ''static_route.create'')]"

definition sample_create :: "exn + (route_row \<times> db)" where
  "sample_create = create_route_audited_body sample_services sample_draws sample_cid sample_route
     sample_actor sample_audit_db"

lemma sample_create_ok:
  "case sample_create of Inl e \<Rightarrow> False | Inr (route, d') \<Rightarrow> length (gateway_transactions d') = 1 \<and> schema_ok d'"
  by code_simp

lemma sample_audit_db_ok: "routes_ok sample_audit_db"
  by code_simp

theorem audit_log_is_append_only_witness:
  "prefix (gateway_transactions sample_audit_db) (gateway_transactions
     (foldl (\<lambda>d c. commit (audited_step sample_services c) d) sample_audit_db
        [(CreateAudited sample_cid sample_route sample_actor, sample_draws)]))"
  by (rule audit_log_is_append_only [OF sample_audit_db_ok])

theorem changes_and_records_commit_together_witness:
  "commit (audited_step sample_services (AppendRecord JNull, sample_draws)) sample_audit_db = sample_audit_db
     \<or> (\<exists>row. gateway_transactions (commit (audited_step sample_services (AppendRecord JNull, sample_draws)) sample_audit_db)
            = gateway_transactions sample_audit_db @ [row] \<and> record_clean row \<and> states_redacted row)"
  by (rule changes_and_records_commit_together [OF sample_audit_db_ok])

theorem records_describe_the_change_witness:
  "\<exists>route d' row. sample_create = Inr (route, d')
     \<and> records_change row (rt_id route) sample_cid JNull (JObj (route_dict route))"
proof -
  obtain route d' where r: "sample_create = Inr (route, d')"
    using sample_create_ok by (auto split: sum.splits prod.splits)
  with records_describe_the_change show ?thesis
    unfolding sample_create_def by blast
qed

theorem pages_partition_the_log_witness:
  "\<exists>d. length (gateway_transactions d) = 1 \<and> distinct (map tx_id (concat (map (\<lambda>k.
     pg_items (page_of [] (int 2) (int (2 * k)) d)) [0..<3])))"
proof -
  obtain route d where d: "schema_ok d" "length (gateway_transactions d) = 1"
    using sample_create_ok by (auto split: sum.splits prod.splits)
  have "pg_total (page_of [] (int 2) 0 d) \<le> 2 * 3" using d(2) by (simp add: page_of_def Let_def)
  from pages_partition_the_log [OF d(1) _ this] d(2) show ?thesis by (auto simp: Let_def)
qed

end
