(* ===== verification/Management.thy ===== *)
theory Management
  imports JobLaws Configs TxnLogLaws
begin

text \<open>
  The service layer over the store: \<open>app/bl/services/management.py\<close> and
  \<open>app/bl/services/transactions.py\<close>. \<open>store_call\<close> replaces the text of every store exception
  by a fixed message for its status, and \<open>safe_test\<close> runs a connection test whose result, error
  or exception cannot carry a credential of the profile out.

  A service call is a function on the store that returns the new store also when it raises,
  because a call may do several transactions.
\<close>

section \<open>Calls with an error and a store\<close>

datatype service_error = ManagementError string nat | Raised exn

type_synonym 'a service = "store \<Rightarrow> (service_error + 'a) \<times> store"

definition returnS :: "'a \<Rightarrow> 'a service" where
  "returnS x st = (Inr x, st)"

definition raiseS :: "service_error \<Rightarrow> 'a service" where
  "raiseS e st = (Inl e, st)"

definition bindS :: "'a service \<Rightarrow> ('a \<Rightarrow> 'b service) \<Rightarrow> 'b service" where
  "bindS m f st = (case m st of (Inl e, st') \<Rightarrow> (Inl e, st') | (Inr x, st') \<Rightarrow> f x st')"

lemma service_simps [simp]:
  "returnS x st = (Inr x, st)" "raiseS e st = (Inl e, st)"
  "m st = (Inl e, st') \<Longrightarrow> bindS m f st = (Inl e, st')"
  "m st = (Inr x, st') \<Longrightarrow> bindS m f st = f x st'"
  by (simp_all add: returnS_def raiseS_def bindS_def)

definition liftS :: "service_error + 'a \<Rightarrow> 'a service" where
  "liftS r st = (r, st)"

lemma liftS_simps [simp]: "liftS r st = (r, st)"
  by (simp add: liftS_def)

section \<open>\<open>store_call\<close>\<close>

definition error_messages :: "(nat \<times> string) list" where
  "error_messages =
     [(400, ''Invalid management operation.''),
      (401, ''Device authentication failed.''),
      (403, ''Device access was rejected.''),
      (404, ''The requested resource was not found.''),
      (409, ''The resource is referenced or conflicts with the current operation.''),
      (422, ''Invalid resource configuration.''),
      (501, ''The requested device operation is unsupported.''),
      (503, ''Management storage is unavailable.'')]"

definition status_code :: "exn \<Rightarrow> nat" where
  "status_code e = (case e of StoreError r n \<Rightarrow> n | _ \<Rightarrow> 500)"

definition management_error :: "exn \<Rightarrow> service_error" where
  "management_error e = (case map_of error_messages (status_code e) of
      Some m \<Rightarrow> ManagementError m (status_code e)
    | None \<Rightarrow> ManagementError ''The management operation failed.'' 500)"

definition store_call :: "(store \<Rightarrow> exn + ('a \<times> store)) \<Rightarrow> 'a service" where
  "store_call op st = (case op st of
      Inl e \<Rightarrow> (Inl (management_error e), st)
    | Inr (x, st') \<Rightarrow> (Inr x, st'))"

section \<open>Connection tests\<close>

text \<open>
  \<open>_secrets\<close>: the nested non-empty strings under a credential key, in order and with repetitions.
\<close>

fun secrets_of :: "json \<Rightarrow> string list" where
  "secrets_of (JObj d) = concat (map (\<lambda>(key, item).
     (case item of
        JStr s \<Rightarrow> if key \<in> {''password'', ''private_key'', ''key_passphrase''} \<and> s \<noteq> [] then [s] else []
      | JObj _ \<Rightarrow> secrets_of item
      | JList _ \<Rightarrow> secrets_of item
      | _ \<Rightarrow> [])) d)"
| "secrets_of (JList xs) = concat (map secrets_of xs)"
| "secrets_of _ = []"

text \<open>
  What a test runs on: the tester with its demo flag (which may raise), the conversion \<open>float()\<close>
  of a reported duration that is not a float already, and the time that has passed.
\<close>

record test_env =
  tester :: "dict \<Rightarrow> bool \<Rightarrow> exn + dict"
  to_float :: "json \<Rightarrow> pyfloat option"
  elapsed_ms :: rat

definition float_of :: "test_env \<Rightarrow> json \<Rightarrow> exn + pyfloat" where
  "float_of te v = (case v of JFloat x \<Rightarrow> Inr x
     | _ \<Rightarrow> (case to_float te v of Some x \<Rightarrow> Inr x | None \<Rightarrow> Inl (PyError ''ValueError'')))"

definition replace_secrets :: "string list \<Rightarrow> string \<Rightarrow> string" where
  "replace_secrets secrets s = foldl (\<lambda>t secret. replace t secret redacted) s secrets"

definition test_report :: "bool \<Rightarrow> bool \<Rightarrow> string \<Rightarrow> string \<Rightarrow> pyfloat \<Rightarrow> dict" where
  "test_report success simulated stage detail duration =
     [(''success'', JBool success), (''simulated'', JBool simulated), (''stage'', JStr stage),
      (''detail'', JStr detail), (''duration_ms'', JFloat duration)]"

definition safe_test :: "services \<Rightarrow> test_env \<Rightarrow> dict \<Rightarrow> bool \<Rightarrow> bool \<Rightarrow> dict" where
  "safe_test sv te profile demo_mode simulated =
     (let secrets = sort_key (\<lambda>s. - int (length s)) (secrets_of (JObj profile)) in
      case bindE (tester te profile demo_mode) (\<lambda>result.
           bindE (float_of te (dget_or result ''duration_ms'' (JFloat (Finite (elapsed_ms te))))) (\<lambda>d.
           let duration = (case d of Finite r \<Rightarrow> if r < 0 then Finite (elapsed_ms te) else d
                 | _ \<Rightarrow> Finite (elapsed_ms te));
               detail = replace_secrets secrets (py_str sv (dget_or result ''detail'' (JStr [])));
               stage = replace_secrets secrets (py_str sv (dget_or result ''stage'' (JStr ''connection'')));
               detail = re_sub (pem_match stop_at_end) redacted detail
           in Inr (test_report (dget result ''success'' = JBool True) simulated
                (take 80 stage) (take 4096 detail) duration))) of
        Inr report \<Rightarrow> report
      | Inl _ \<Rightarrow> test_report False simulated ''internal'' ''Connection test failed.''
          (Finite (elapsed_ms te)))"

section \<open>\<open>ManagementService\<close>\<close>

record management =
  mg_demo_mode :: bool
  mg_provider :: string
  mg_network :: test_env
  mg_fake :: test_env

definition management_list :: "services \<Rightarrow> string \<Rightarrow> dict service" where
  "management_list sv resource = bindS (store_call (store_list sv resource))
     (\<lambda>items. returnS [(''items'', JList (map JObj items))])"

definition management_get :: "services \<Rightarrow> string \<Rightarrow> json \<Rightarrow> dict service" where
  "management_get sv resource item_id = store_call (store_get sv resource item_id)"

definition management_save ::
  "services \<Rightarrow> draws \<Rightarrow> string \<Rightarrow> json \<Rightarrow> string option \<Rightarrow> dict service" where
  "management_save sv dr resource payload item_id =
     store_call (store_save sv dr resource payload item_id)"

definition management_delete :: "string \<Rightarrow> string \<Rightarrow> unit service" where
  "management_delete resource item_id = store_call (store_delete resource item_id)"

definition check_test_provider :: "management \<Rightarrow> dict \<Rightarrow> service_error + unit" where
  "check_test_provider mg profile =
     (let client_type = dget_or profile ''client_type'' (JStr ''network'') in
      bindE (check (client_type \<in> {JStr ''network'', JStr ''fake''})
        (ManagementError ''Invalid device client type.'' 422)) (\<lambda>_.
      check (\<not> (client_type = JStr ''fake'' \<and> mg_provider mg \<noteq> ''fake''))
        (ManagementError ''Simulated device access is disabled.'' 503)))"

definition test_profile :: "services \<Rightarrow> management \<Rightarrow> dict \<Rightarrow> service_error + dict" where
  "test_profile sv mg profile = bindE (check_test_provider mg profile) (\<lambda>_.
     Inr (if dget_or profile ''client_type'' (JStr ''network'') = JStr ''fake''
          then safe_test sv (mg_fake mg) profile False True
          else safe_test sv (mg_network mg) profile (mg_demo_mode mg) False))"

definition management_test :: "services \<Rightarrow> management \<Rightarrow> json \<Rightarrow> dict service" where
  "management_test sv mg item_id = bindS (store_call (store_resolve_connection sv item_id))
     (\<lambda>profile. liftS (test_profile sv mg profile))"

definition management_get_config :: "string \<Rightarrow> dict service" where
  "management_get_config name = store_call (store_get_config name)"

definition management_save_config :: "string \<Rightarrow> json \<Rightarrow> dict service" where
  "management_save_config name payload = store_call (store_save_config name payload)"

section \<open>Correlation ids\<close>

text \<open>The caller's header when it is a UUID, in canonical form; else a fresh one.\<close>

definition resolve_correlation_id :: "string option \<Rightarrow> string \<Rightarrow> string" where
  "resolve_correlation_id header minted = (case header of
      None \<Rightarrow> minted
    | Some h \<Rightarrow> if h = [] then minted
        else (case parse_uuid h of Some i \<Rightarrow> show_uuid i | None \<Rightarrow> minted))"

section \<open>\<open>TransactionsService\<close>\<close>

definition query_filters :: "(string \<times> json) list \<Rightarrow> json" where
  "query_filters filters = JObj (filter (\<lambda>(k, v). v \<noteq> JNull) filters)"

definition transactions_list ::
  "services \<Rightarrow> json \<Rightarrow> json \<Rightarrow> json \<Rightarrow> json \<Rightarrow> json \<Rightarrow> json \<Rightarrow> json \<Rightarrow> json \<Rightarrow> txn_page service" where
  "transactions_list sv connection_id action actor_subject outcome from_time to_time limit offset =
     store_call (list_transactions sv (query_filters
       [(''connection_id'', connection_id), (''action'', action), (''actor_subject'', actor_subject),
        (''outcome'', outcome), (''since'', from_time), (''until'', to_time)]) limit offset)"

section \<open>Laws\<close>

text \<open>
  The store's notion of a credential also counts \<open>secret_key\<close>, which no profile field uses; on
  every other value the two collections agree.
\<close>

lemma secrets_of_eq: "''secret_key'' \<notin> all_keys v \<Longrightarrow> secrets_of v = credential_list v"
proof (induction v rule: json_induct)
  case (Obj d)
  have "(case item of JStr s \<Rightarrow> if key \<in> {''password'', ''private_key'', ''key_passphrase''} \<and> s \<noteq> [] then [s] else []
      | JObj _ \<Rightarrow> secrets_of item | JList _ \<Rightarrow> secrets_of item | _ \<Rightarrow> []) =
    (case item of JStr s \<Rightarrow> if key \<in> set secret_fields \<and> s \<noteq> [] then [s] else [] | _ \<Rightarrow> credential_list item)"
    if "(key, item) \<in> set d" for key item
  proof -
    have "key \<noteq> ''secret_key''" and "''secret_key'' \<notin> all_keys item"
      using that Obj.prems by (auto simp: image_iff)
    then show ?thesis using Obj.IH [OF that] by (cases item) (auto simp: secret_fields_def)
  qed
  then show ?case by (auto intro!: arg_cong [of _ _ concat] map_cong)
qed (auto intro!: arg_cong [of _ _ concat] map_cong)

lemma secrets_of_nonempty: "\<forall>s \<in> set (secrets_of v). s \<noteq> []"
proof (induction v rule: json_induct)
  case (Obj d)
  have "\<forall>s \<in> set (case item of JStr s \<Rightarrow> if key \<in> {''password'', ''private_key'', ''key_passphrase''} \<and> s \<noteq> [] then [s] else []
      | JObj _ \<Rightarrow> secrets_of item | JList _ \<Rightarrow> secrets_of item | _ \<Rightarrow> []). s \<noteq> []"
    if "(key, item) \<in> set d" for key item
    using Obj.IH [OF that] by (cases item) auto
  then show ?case by auto
qed auto

lemma replace_secrets_removes:
  assumes "w \<in> set secrets" and "clear_of w redacted" and "\<forall>s \<in> set secrets. s \<noteq> []"
  shows "\<not> contains w (replace_secrets secrets s)"
  using replace_chain_removes assms unfolding replace_secrets_def by blast

lemma store_call_refused: "op st = Inl e \<Longrightarrow> store_call op st = (Inl (management_error e), st)"
  by (simp add: store_call_def)

lemma store_call_done: "op st = Inr (x, st') \<Longrightarrow> store_call op st = (Inr x, st')"
  by (simp add: store_call_def)

end
