(* ===== verification/Batches.thy ===== *)
theory Batches
  imports Management
begin

text \<open>
  \<open>app/bl/services/batches.py\<close>: the connection-test batches. \<open>start\<close> checks the selection and
  creates the job; the single worker runs \<open>_run\<close>, which tests each connection of the job's
  snapshot and records the result; \<open>export\<close> writes a finished job as CSV or JSON. The stop event
  can be set while a run is under way: \<open>stop n\<close> is what the worker sees before its item \<open>n\<close>.
\<close>

section \<open>The worker\<close>

definition fail_job :: "services \<Rightarrow> json \<Rightarrow> string \<Rightarrow> store \<Rightarrow> store" where
  "fail_job sv job_id message st =
     (case set_job_status sv job_id (JStr ''failed'') (JStr message) st of
        Inl _ \<Rightarrow> st | Inr (_, st') \<Rightarrow> st')"

text \<open>\<open>(profile.get("connector") or {}).get("type", "direct")\<close> and the other columns of a result.\<close>

definition labelled_result :: "json \<Rightarrow> dict \<Rightarrow> dict \<Rightarrow> exn + dict" where
  "labelled_result connection_id profile result =
     bindE (dreq profile ''protocol'') (\<lambda>protocol.
     bindE (dreq profile ''host'') (\<lambda>host.
     bindE (dreq profile ''port'') (\<lambda>port.
     bindE (if truthy (dget profile ''connector'') then as_dict (dget profile ''connector'') else Inr []) (\<lambda>connector.
     Inr (dmerge result
       [(''connection_id'', connection_id), (''name'', dget_or profile ''name'' (JStr [])),
        (''protocol'', protocol), (''host'', host), (''port'', port),
        (''connector_type'', dget_or connector ''type'' (JStr ''direct''))])))))"

definition test_item :: "services \<Rightarrow> management \<Rightarrow> json \<Rightarrow> dict \<Rightarrow> service_error + dict" where
  "test_item sv mg connection_id profile = bindE (test_profile sv mg profile) (\<lambda>result.
     (case labelled_result connection_id profile result of Inl e \<Rightarrow> Inl (Raised e) | Inr r \<Rightarrow> Inr r))"

text \<open>The loop of \<open>_run\<close>: true when every item was tested, false when it was interrupted.\<close>

primrec run_items ::
  "services \<Rightarrow> management \<Rightarrow> (nat \<Rightarrow> bool) \<Rightarrow> json \<Rightarrow> nat \<Rightarrow> (json \<times> dict) list \<Rightarrow> bool service" where
  "run_items sv mg stop job_id n [] = returnS True"
| "run_items sv mg stop job_id n (item # items) =
     (if stop n then (\<lambda>st. (Inr False, fail_job sv job_id ''Batch interrupted by application shutdown.'' st))
      else bindS (liftS (test_item sv mg (fst item) (snd item))) (\<lambda>result.
           bindS (store_call (record_job_result sv job_id (JObj result))) (\<lambda>_.
           run_items sv mg stop job_id (Suc n) items)))"

definition batch_run ::
  "services \<Rightarrow> management \<Rightarrow> (nat \<Rightarrow> bool) \<Rightarrow> json \<Rightarrow> store \<Rightarrow> store" where
  "batch_run sv mg stop job_id st =
     (case bindS (store_call (set_job_status sv job_id (JStr ''running'') JNull)) (\<lambda>_.
           bindS (store_call (get_job_connections sv job_id)) (\<lambda>profiles.
           bindS (run_items sv mg stop job_id 0 profiles) (\<lambda>finished.
           if finished then store_call (set_job_status sv job_id (JStr ''completed'') JNull)
           else returnS ()))) st of
        (Inr _, st') \<Rightarrow> st'
      | (Inl _, st') \<Rightarrow> fail_job sv job_id ''Batch processing failed.'' st')"

section \<open>Starting a batch\<close>

record batch =
  bt_closed :: bool
  bt_busy :: bool
  bt_submitted :: "json list"

definition start_checks :: "services \<Rightarrow> management \<Rightarrow> string list \<Rightarrow> unit service" where
  "start_checks sv mg ids = foldr (\<lambda>i k. bindS (management_get sv ''connections'' (JStr i)) (\<lambda>profile.
     bindS (liftS (check_test_provider mg profile)) (\<lambda>_. k))) ids (returnS ())"

text \<open>
  \<open>scheduled\<close> is whether the executor accepted the job. The new state of the service goes with
  the job that is returned.
\<close>

definition batch_start ::
  "services \<Rightarrow> management \<Rightarrow> draws \<Rightarrow> bool \<Rightarrow> string list \<Rightarrow> batch \<Rightarrow> (dict \<times> batch) service" where
  "batch_start sv mg dr scheduled ids bt =
     (if ids = [] \<or> 1000 < int (length ids) \<or> \<not> distinct ids
      then raiseS (ManagementError ''Select unique device identifiers.'' 422)
      else if bt_closed bt then raiseS (ManagementError ''The batch worker is shutting down.'' 503)
      else if bt_busy bt then raiseS (ManagementError ''A batch is already active.'' 409)
      else bindS (start_checks sv mg ids) (\<lambda>_.
           bindS (store_call (create_job sv dr (JList (map JStr ids)))) (\<lambda>job.
           if scheduled
           then returnS (job, bt\<lparr>bt_busy := True, bt_submitted := bt_submitted bt @ [dget job ''id'']\<rparr>)
           else (\<lambda>st. (Inl (ManagementError ''The batch could not be scheduled.'' 503),
                  fail_job sv (dget job ''id'') ''The batch could not be scheduled.'' st)))))"

definition batch_get :: "json \<Rightarrow> dict service" where
  "batch_get job_id = store_call (get_job job_id)"

definition batch_shutdown :: "batch \<Rightarrow> batch" where
  "batch_shutdown bt = bt\<lparr>bt_closed := True\<rparr>"

section \<open>Export\<close>

definition export_fields :: "string list" where
  "export_fields = [''connection_id'', ''name'', ''protocol'', ''host'', ''port'', ''connector_type'',
     ''success'', ''simulated'', ''stage'', ''detail'', ''duration_ms'']"

text \<open>The first character of a text a spreadsheet would read as a formula.\<close>

definition formula_start :: "string \<Rightarrow> bool" where
  "formula_start s \<longleftrightarrow> s \<noteq> [] \<and> hd s \<in> set ''=+-@''"

definition control_start :: "string \<Rightarrow> bool" where
  "control_start s \<longleftrightarrow> s \<noteq> [] \<and> hd s \<in> {char_of (9::nat), char_of (13::nat), char_of (10::nat)}"

definition spreadsheet_cell :: "services \<Rightarrow> json \<Rightarrow> string" where
  "spreadsheet_cell sv value =
     (let t = (if value \<noteq> JNull then py_str sv value else [])
      in if formula_start (lstrip t) \<or> control_start t then CHR 0x27 # t else t)"

definition export_result :: "dict \<Rightarrow> exn + dict" where
  "export_result result = mapE (\<lambda>key.
     if key = ''simulated'' then Inr (key, dget_or result ''simulated'' (JBool False))
     else bindE (dreq result key) (\<lambda>v. Inr (key, v))) export_fields"

definition public_export :: "dict \<Rightarrow> exn + dict" where
  "public_export job =
     bindE (mapE (\<lambda>key. bindE (dreq job key) (\<lambda>v. Inr (key, v))) [''id'', ''status'', ''total'', ''completed'']) (\<lambda>head.
     bindE (dreq job ''results'') (\<lambda>rs. bindE (as_list rs) (\<lambda>rs.
     bindE (mapE (\<lambda>r. bindE (as_dict r) export_result) rs) (\<lambda>results.
     Inr (head @ [(''results'', JList (map JObj results))]
       @ (if truthy (dget job ''error'')
          then [(''error'', JStr ''Batch processing failed or was interrupted.'')] else []))))))"

definition safe_id :: "services \<Rightarrow> json \<Rightarrow> string" where
  "safe_id sv v = (let s = take 80 (map (\<lambda>c. if is_ascii_alnum c \<or> c \<in> set ''_-'' then c else CHR ''_'') (py_str sv v))
     in if s = [] then ''results'' else s)"

text \<open>
  \<open>csv.DictWriter\<close> with the dialect of the call: comma, double quotes doubled, minimal quoting,
  and CR LF at the end of a row.
\<close>

definition csv_special :: "char list" where
  "csv_special = [CHR '','', CHR 0x22, char_of (13::nat), char_of (10::nat)]"

definition crlf :: string where
  "crlf = [char_of (13::nat), char_of (10::nat)]"

definition csv_field :: "string \<Rightarrow> string" where
  "csv_field f = (if list_ex (\<lambda>c. c \<in> set csv_special) f
     then CHR 0x22 # concat (map (\<lambda>c. if c = CHR 0x22 then [c, c] else [c]) f) @ [CHR 0x22] else f)"

definition csv_row :: "string list \<Rightarrow> string" where
  "csv_row fs = join '','' (map csv_field fs) @ crlf"

definition csv_cells :: "services \<Rightarrow> dict \<Rightarrow> string list" where
  "csv_cells sv result = map (\<lambda>field. spreadsheet_cell sv (dget result field)) export_fields"

definition results_of :: "dict \<Rightarrow> dict list" where
  "results_of public = (case dget public ''results'' of
      JList rs \<Rightarrow> map (\<lambda>r. case r of JObj d \<Rightarrow> d | _ \<Rightarrow> []) rs | _ \<Rightarrow> [])"

definition csv_export :: "services \<Rightarrow> dict \<Rightarrow> string" where
  "csv_export sv public = csv_row export_fields
     @ concat (map (\<lambda>r. csv_row (csv_cells sv r)) (results_of public))"

text \<open>\<open>dumps\<close> is the JSON writer. The three parts of the result: body, media type, file name.\<close>

definition batch_export ::
  "services \<Rightarrow> (json \<Rightarrow> string) \<Rightarrow> json \<Rightarrow> string \<Rightarrow> (string \<times> string \<times> string) service" where
  "batch_export sv dumps job_id format =
     (if format \<notin> {''csv'', ''json''} then raiseS (ManagementError ''Choose CSV or JSON export.'' 422)
      else bindS (batch_get job_id) (\<lambda>job.
        if dget job ''status'' \<notin> {JStr ''completed'', JStr ''failed''}
        then raiseS (ManagementError ''The batch has not finished.'' 409)
        else (case public_export job of
            Inl e \<Rightarrow> raiseS (Raised e)
          | Inr public \<Rightarrow>
              let filename = ''connection-tests-'' @ safe_id sv (dget public ''id'') @ ''.'' @ format
              in returnS (if format = ''json'' then (dumps (JObj public), ''application/json'', filename)
                   else (csv_export sv public, ''text/csv'', filename)))))"

end
