(* ===== verification/BatchLaws.thy ===== *)
theory BatchLaws
  imports Batches
begin

text \<open>
  The laws of the services over the store: test reports carry no credential, a batch run always
  ends its job, and an exported table reads back as the cells that were written, none of which a
  spreadsheet takes for a formula.
\<close>

section \<open>Runs of store operations\<close>

text \<open>
  \<open>job_progress st st'\<close>: the store stays open and consistent and its jobs only progress. Every
  operation on jobs gives such a step, and steps compose.
\<close>

definition job_progress :: "services \<Rightarrow> store \<Rightarrow> store \<Rightarrow> bool" where
  "job_progress sv st st' \<longleftrightarrow> \<not> st_closed st' \<and> jobs_consistent sv (st_db st') \<and> history (st_db st) (st_db st')"

lemma job_progress_refl: "\<not> st_closed st \<Longrightarrow> jobs_consistent sv (st_db st) \<Longrightarrow> job_progress sv st st"
  by (simp add: job_progress_def history_app [of _ _ "[]"])

lemma job_progress_trans: "job_progress sv a b \<Longrightarrow> job_progress sv b c \<Longrightarrow> job_progress sv a c"
  unfolding job_progress_def by (blast intro: history_trans)

lemma job_progress_transaction:
  assumes "\<not> st_closed st" and "jobs_consistent sv (st_db st)" and "transaction body st = Inr (x, st')"
    and "\<And>u d'. body (st_db st) = Inr (u, d') \<Longrightarrow> jobs_consistent sv d' \<and> history (st_db st) d'"
  shows "job_progress sv st st'"
  using assms by (auto simp: transaction_def job_progress_def split: sum.splits)

lemma set_status_progress:
  assumes "\<not> st_closed st" and "jobs_consistent sv (st_db st)" and "set_job_status sv i s e st = Inr (x, st')"
  shows "job_progress sv st st'"
proof -
  from assms(3) obtain s' where t: "transaction (set_status_body sv i s' e) st = Inr (x, st')"
    by (auto simp: set_job_status_def result_simps)
  have "schema_ok (st_db st)" using assms(2) by (simp add: jobs_consistent_def)
  then have "jobs_consistent sv d' \<and> history (st_db st) d'" if "set_status_body sv i s' e (st_db st) = Inr (u, d')" for u d'
    using that set_status_consistent [OF assms(2) that] job_step_history [of "st_db st" sv "SetStatus i s' e" u d']
    by (simp add: job_step_def)
  with assms(1,2) t show ?thesis by (rule job_progress_transaction)
qed

lemma record_progress:
  assumes "\<not> st_closed st" and "jobs_consistent sv (st_db st)" and "record_job_result sv i r st = Inr (x, st')"
  shows "job_progress sv st st'"
proof -
  from assms(3) obtain r' where t: "transaction (record_result_body sv i r') st = Inr (x, st')"
    by (auto simp: record_job_result_def split: json.splits)
  have "schema_ok (st_db st)" using assms(2) by (simp add: jobs_consistent_def)
  then have "jobs_consistent sv d' \<and> history (st_db st) d'" if "record_result_body sv i r' (st_db st) = Inr (u, d')" for u d'
    using that record_result_consistent [OF assms(2) that] job_step_history [of "st_db st" sv "RecordResult i r'" u d']
    by (simp add: job_step_def)
  with assms(1,2) t show ?thesis by (rule job_progress_transaction)
qed

lemma fail_progress:
  "\<not> st_closed st \<Longrightarrow> jobs_consistent sv (st_db st) \<Longrightarrow> job_progress sv st (fail_job sv i m st)"
  by (auto simp: fail_job_def split: sum.splits intro: set_status_progress job_progress_refl)

lemma get_connections_same: "get_job_connections sv i st = Inr (x, st') \<Longrightarrow> st' = st"
  by (auto simp: get_job_connections_def transaction_def reading_def result_simps split: if_splits sum.splits)

lemma run_items_progress:
  "\<not> st_closed st \<Longrightarrow> jobs_consistent sv (st_db st) \<Longrightarrow>
     run_items sv mg stop i n items st = (r, st') \<Longrightarrow> job_progress sv st st'"
proof (induction items arbitrary: n st)
  case Nil
  then show ?case by (auto intro: job_progress_refl)
next
  case (Cons item items)
  show ?case
  proof (cases "stop n")
    case True
    with Cons.prems show ?thesis by (auto intro: fail_progress)
  next
    case False
    show ?thesis
    proof (cases "test_item sv mg (fst item) (snd item)")
      case (Inl e)
      with Cons.prems False show ?thesis by (auto simp: bindS_def intro: job_progress_refl)
    next
      case (Inr result)
      show ?thesis
      proof (cases "record_job_result sv i (JObj result) st")
        case (Inl e)
        with Inr Cons.prems False show ?thesis
          by (auto simp: bindS_def store_call_def intro: job_progress_refl)
      next
        case (Inr p)
        then obtain st1 where r1: "record_job_result sv i (JObj result) st = Inr ((), st1)" by (cases p) auto
        with \<open>test_item _ _ _ _ = Inr result\<close> Cons.prems(3) False
        have "run_items sv mg stop i (Suc n) items st1 = (r, st')"
          by (simp add: bindS_def store_call_def)
        with Cons.IH [of st1 "Suc n"] record_progress [OF Cons.prems(1,2) r1] show ?thesis
          by (auto simp: job_progress_def intro: history_trans)
      qed
    qed
  qed
qed

text \<open>After \<open>fail_job\<close> the job is in a terminal state, whatever its state was.\<close>

lemma find_job:
  "schema_ok d \<Longrightarrow> j \<in> set (jobs d) \<Longrightarrow> find (\<lambda>k. jb_id k = jb_id j) (jobs d) = Some j"
  using find_key_Some [of jb_id "jobs d" "jb_id j" j] schema_okD(5) [of d] by simp

definition terminal :: "string \<Rightarrow> db \<Rightarrow> bool" where
  "terminal i d \<longleftrightarrow> (\<exists>j \<in> set (jobs d). jb_id j = i \<and> jb_status j \<in> {Completed, Failed})"

lemma status_terminal:
  assumes "set_status_body sv (JStr i) s e d = Inr (u, d')" and "s \<in> {Completed, Failed}"
  shows "terminal i d'"
  using assms(1)
proof (rule set_status_body_Inr)
  fix row snapshot
  let ?f = "\<lambda>j. j\<lparr>jb_status := s, jb_active_slot := (if s \<in> {Queued, Running} then Some 1 else None),
     jb_error := (if truthy e then Some (redact (py_str sv e) (credential_values snapshot)) else None)\<rparr>"
  assume r: "row \<in> set (jobs d)" "JStr i = JStr (jb_id row)" and d': "d' = update_job (jb_id row) ?f d"
  then have "?f row \<in> set (jobs d')" by (simp only: set_update_job) (auto intro!: image_eqI [of _ _ row])
  then show ?thesis unfolding terminal_def by (rule rev_bexI) (use r assms(2) in simp)
qed

lemma set_status_terminal:
  assumes "set_job_status sv (JStr i) (JStr n) e st = Inr (x, st')" and "n \<in> {''completed'', ''failed''}"
  shows "terminal i (st_db st')"
proof -
  obtain s d' where "set_status_body sv (JStr i) s e (st_db st) = Inr (x, d')"
    and "s \<in> {Completed, Failed}" and "st_db st' = d'"
    using assms by (auto simp: set_job_status_def status_of_def transaction_def result_simps
        split: if_splits sum.splits)
  then show ?thesis using status_terminal by blast
qed

lemma fail_job_terminal:
  assumes "\<not> st_closed st" and "jobs_consistent sv (st_db st)" and "i \<in> jb_id ` set (jobs (st_db st))"
  shows "terminal i (st_db (fail_job sv (JStr i) m st))"
proof (cases "set_job_status sv (JStr i) (JStr ''failed'') (JStr m) st")
  case (Inr p)
  then obtain st' where "set_job_status sv (JStr i) (JStr ''failed'') (JStr m) st = Inr ((), st')" by (cases p) auto
  then show ?thesis using set_status_terminal [of sv i "''failed''"] by (simp add: fail_job_def)
next
  case (Inl e)
  obtain j where j: "j \<in> set (jobs (st_db st))" "jb_id j = i" using assms(3) by auto
  then have f: "find (\<lambda>k. jb_id k = i) (jobs (st_db st)) = Some j"
    using find_job [of "st_db st" j] assms(2) by (simp add: jobs_consistent_def)
  have "\<not> job_moves (jb_status j) Failed"
    using Inl f assms(1) status_change_exact [OF assms(2), of i Failed "JStr m"]
    by (auto simp: set_job_status_def status_of_def transaction_def)
  then have "jb_status j = Completed" by (cases "jb_status j") (auto intro: job_moves.intros)
  then show ?thesis using Inl j by (auto simp: fail_job_def terminal_def)
qed

lemma history_ids:
  assumes "history d d'" and "i \<in> jb_id ` set (jobs d)"
  shows "i \<in> jb_id ` set (jobs d')"
proof -
  obtain k where k: "k < length (jobs d)" "i = jb_id (jobs d ! k)" using assms(2) by (auto simp: in_set_conv_nth)
  then have "k < length (jobs d')" and "jb_id (jobs d' ! k) = i"
    using assms(1) by (auto simp: history_def list_all2_conv_all_nth progresses_def)
  then show ?thesis by (metis image_eqI nth_mem)
qed

lemma interrupted_terminal:
  "run_items sv mg stop (JStr i) n items st = (Inr False, st') \<Longrightarrow> \<not> st_closed st \<Longrightarrow>
     jobs_consistent sv (st_db st) \<Longrightarrow> i \<in> jb_id ` set (jobs (st_db st)) \<Longrightarrow> terminal i (st_db st')"
proof (induction items arbitrary: n st)
  case (Cons item items)
  show ?case
  proof (cases "stop n")
    case True
    with Cons.prems fail_job_terminal [of st sv i] show ?thesis by (simp only: run_items.simps if_True prod.inject) auto
  next
    case False
    with Cons.prems(1) obtain result st1 where t: "test_item sv mg (fst item) (snd item) = Inr result"
      and r: "record_job_result sv (JStr i) (JObj result) st = Inr ((), st1)"
      and rest: "run_items sv mg stop (JStr i) (Suc n) items st1 = (Inr False, st')"
      by (auto simp: bindS_def store_call_def split: sum.splits)
    from record_progress [OF Cons.prems(2,3) r] have p: "job_progress sv st st1" .
    then have "i \<in> jb_id ` set (jobs (st_db st1))"
      using history_ids [OF _ Cons.prems(4)] by (auto simp: job_progress_def)
    with Cons.IH [OF rest] p show ?thesis by (simp add: job_progress_def)
  qed
qed simp

text \<open>
  How the last part of \<open>_run\<close> ends: a loop that was interrupted has failed its job already, any
  exception fails it, and else the job is marked completed.
\<close>

definition batch_finish :: "services \<Rightarrow> json \<Rightarrow> (service_error + bool) \<Rightarrow> store \<Rightarrow> store" where
  "batch_finish sv job_id r st = (case r of
      Inl _ \<Rightarrow> fail_job sv job_id ''Batch processing failed.'' st
    | Inr finished \<Rightarrow> if finished then (case set_job_status sv job_id (JStr ''completed'') JNull st of
          Inl _ \<Rightarrow> fail_job sv job_id ''Batch processing failed.'' st | Inr (_, st') \<Rightarrow> st')
        else st)"

lemma batch_run_unfold:
  "batch_run sv mg stop i st =
     (case set_job_status sv i (JStr ''running'') JNull st of
        Inl _ \<Rightarrow> fail_job sv i ''Batch processing failed.'' st
      | Inr (_, st1) \<Rightarrow> (case get_job_connections sv i st1 of
            Inl _ \<Rightarrow> fail_job sv i ''Batch processing failed.'' st1
          | Inr (profiles, _) \<Rightarrow> case_prod (batch_finish sv i) (run_items sv mg stop i 0 profiles st1)))"
proof (cases "set_job_status sv i (JStr ''running'') JNull st")
  case (Inl e)
  then show ?thesis by (simp add: batch_run_def store_call_def)
next
  case (Inr q)
  then obtain st1 where s1: "set_job_status sv i (JStr ''running'') JNull st = Inr ((), st1)" by (cases q) auto
  show ?thesis
  proof (cases "get_job_connections sv i st1")
    case (Inl e)
    with s1 show ?thesis by (simp add: batch_run_def store_call_def)
  next
    case (Inr q)
    then obtain profiles where g: "get_job_connections sv i st1 = Inr (profiles, st1)"
      using get_connections_same by (cases q) fastforce
    obtain r st2 where run: "run_items sv mg stop i 0 profiles st1 = (r, st2)"
      by (cases "run_items sv mg stop i 0 profiles st1")
    show ?thesis
      using s1 g run by (cases r) (auto simp: batch_run_def batch_finish_def store_call_def split: sum.splits)
  qed
qed

definition job_ended :: "services \<Rightarrow> string \<Rightarrow> store \<Rightarrow> store \<Rightarrow> bool" where
  "job_ended sv i st st' \<longleftrightarrow> job_progress sv st st' \<and> terminal i (st_db st')"

lemma job_ended_trans: "job_progress sv a b \<Longrightarrow> job_ended sv i b c \<Longrightarrow> job_ended sv i a c"
  unfolding job_ended_def by (blast intro: job_progress_trans)

lemma fail_job_ended:
  "\<not> st_closed st \<Longrightarrow> jobs_consistent sv (st_db st) \<Longrightarrow> i \<in> jb_id ` set (jobs (st_db st)) \<Longrightarrow>
     job_ended sv i st (fail_job sv (JStr i) m st)"
  by (simp add: job_ended_def fail_progress fail_job_terminal)

lemma run_items_ended:
  assumes "\<not> st_closed st" and "jobs_consistent sv (st_db st)" and "i \<in> jb_id ` set (jobs (st_db st))"
    and "run_items sv mg stop (JStr i) n items st = (r, st')"
  shows "job_ended sv i st (batch_finish sv (JStr i) r st')"
proof -
  have p: "job_progress sv st st'" using run_items_progress assms by blast
  then have st': "\<not> st_closed st'" "jobs_consistent sv (st_db st')" "i \<in> jb_id ` set (jobs (st_db st'))"
    using history_ids [OF _ assms(3)] by (auto simp: job_progress_def)
  note failed = job_ended_trans [OF p fail_job_ended [OF st']]
  consider (err) e where "r = Inl e" | (stopped) "r = Inr False" | (complete) "r = Inr True"
    by (cases r) auto
  then show ?thesis
  proof cases
    case stopped
    then show ?thesis
      using p interrupted_terminal [of sv mg stop i n items st st'] assms by (simp add: batch_finish_def job_ended_def)
  next
    case complete
    then show ?thesis
      using failed set_status_terminal [of sv i "''completed''" JNull st'] job_progress_trans [OF p]
        set_status_progress [OF st'(1,2), of "JStr i" "JStr ''completed''" JNull]
      by (auto simp: batch_finish_def job_ended_def split: sum.splits)
  qed (use failed in \<open>simp add: batch_finish_def\<close>)
qed

lemma batch_run_ended:
  assumes "\<not> st_closed st" and "jobs_consistent sv (st_db st)" and "i \<in> jb_id ` set (jobs (st_db st))"
  shows "job_ended sv i st (batch_run sv mg stop (JStr i) st)"
proof (cases "set_job_status sv (JStr i) (JStr ''running'') JNull st")
  case (Inl e)
  then show ?thesis using fail_job_ended [OF assms] by (simp add: batch_run_unfold)
next
  case (Inr q)
  then obtain st1 where s1: "set_job_status sv (JStr i) (JStr ''running'') JNull st = Inr ((), st1)" by (cases q) auto
  then have p: "job_progress sv st st1" using set_status_progress assms by blast
  then have st1: "\<not> st_closed st1" "jobs_consistent sv (st_db st1)" "i \<in> jb_id ` set (jobs (st_db st1))"
    using history_ids [OF _ assms(3)] by (auto simp: job_progress_def)
  show ?thesis
    using s1 job_ended_trans [OF p] fail_job_ended [OF st1] run_items_ended [OF st1]
    by (auto simp: batch_run_unfold split: sum.splits prod.splits)
qed

section \<open>Properties\<close>

text \<open>
  C9. Whatever the tester returns or raises, whenever the stop event is set
  and whichever store call is refused, the worker leaves its job completed or failed, never queued
  or running, and the store consistent; only then can the next batch start.
\<close>

theorem batch_run_ends_its_job:
  assumes "\<not> st_closed st" and "jobs_consistent sv (st_db st)" and "i \<in> jb_id ` set (jobs (st_db st))"
  shows "let st' = batch_run sv mg stop (JStr i) st in
     jobs_consistent sv (st_db st') \<and> history (st_db st) (st_db st')
     \<and> (\<exists>j \<in> set (jobs (st_db st')). jb_id j = i \<and> jb_status j \<in> {Completed, Failed})"
  using batch_run_ended [OF assms, of mg stop] by (simp add: job_ended_def job_progress_def terminal_def Let_def)

text \<open>
  Whatever a tester returns or raises, the report of a test has
  bounded text without any password, key or passphrase of the profile (other than one that can
  overlap the replacement, or is itself a piece of the two fixed texts), says
  it is simulated exactly when the service says so, and reports success only for a result that
  says exactly true.
\<close>

theorem test_reports_hide_credentials:
  assumes "0 \<le> elapsed_ms te" and "w \<in> set (secrets_of (JObj profile))"
    and "clear_of w redacted"
    and "\<not> contains w ''internal''" and "\<not> contains w ''Connection test failed.''"
  shows "\<exists>success stage detail d. safe_test sv te profile demo sim =
       test_report success sim stage detail (Finite d)
     \<and> \<not> contains w stage \<and> \<not> contains w detail \<and> length stage \<le> 80 \<and> length detail \<le> 4096 \<and> 0 \<le> d
     \<and> (success \<longrightarrow> (\<exists>result. tester te profile demo = Inr result \<and> dget result ''success'' = JBool True))"
proof -
  let ?ss = "sort_key (\<lambda>s. - int (length s)) (secrets_of (JObj profile))"
  have rem: "\<not> contains w (replace_secrets ?ss t)" for t
    by (rule replace_secrets_removes) (use assms(2,3) secrets_of_nonempty in \<open>simp_all only: set_sort\<close>)
  then have cut: "\<not> contains w (take n (replace_secrets ?ss t))"
    "\<not> contains w (take n (re_sub m redacted (replace_secrets ?ss t)))" for n m t
    using contains_take redact_contains_chain [OF assms(3)] by blast+
  show ?thesis
  proof (cases "bindE (tester te profile demo) (\<lambda>r. bindE (float_of te
      (dget_or r ''duration_ms'' (JFloat (Finite (elapsed_ms te))))) (\<lambda>d. Inr (r, d)))")
    case (Inl e)
    then have "safe_test sv te profile demo sim =
      test_report False sim ''internal'' ''Connection test failed.'' (Finite (elapsed_ms te))"
      by (auto simp: safe_test_def Let_def bindE_def split: sum.splits)
    with assms(1,4,5) show ?thesis by (intro exI conjI) (rule refl | simp)+
  next
    case (Inr p)
    then obtain r d where "tester te profile demo = Inr r"
      and "float_of te (dget_or r ''duration_ms'' (JFloat (Finite (elapsed_ms te)))) = Inr d"
      by (auto simp: result_simps)
    with cut assms(1) show ?thesis
      by (cases d) (auto simp: safe_test_def Let_def intro!: exI)
  qed
qed

section \<open>CSV\<close>

lemma special_chars [simp]:
  "char_of (13::nat) = CHR 0x0D" "char_of (10::nat) = CHR 0x0A" "char_of (9::nat) = CHR 0x09"
  by code_simp+

text \<open>A cell never starts, after white space, with a character that opens a formula.\<close>

lemma spreadsheet_cell_safe:
  "\<not> formula_start (lstrip (spreadsheet_cell sv v)) \<and> \<not> control_start (spreadsheet_cell sv v)"
proof -
  have "lstrip (CHR 0x27 # t) = CHR 0x27 # t" for t by (simp add: lstrip_def is_space_def ord_of_def)
  then show ?thesis
    by (auto simp: spreadsheet_cell_def Let_def formula_start_def control_start_def)
qed

text \<open>A reader of the format, as spreadsheets and \<open>csv.reader\<close> parse it.\<close>

datatype csv_mode = FieldStart | Plain | Quoted | QuoteSeen

fun read_csv :: "csv_mode \<Rightarrow> string \<Rightarrow> string list \<Rightarrow> string \<Rightarrow> string list list" where
  "read_csv m f row [] = (if m = FieldStart \<and> row = [] then [] else [row @ [f]])"
| "read_csv m f row (c # cs) =
     (if m = Quoted then (if c = CHR 0x22 then read_csv QuoteSeen f row cs else read_csv Quoted (f @ [c]) row cs)
      else if m = QuoteSeen \<and> c = CHR 0x22 then read_csv Quoted (f @ [c]) row cs
      else if m = FieldStart \<and> c = CHR 0x22 then read_csv Quoted f row cs
      else if c = CHR '','' then read_csv FieldStart [] (row @ [f]) cs
      else if c = char_of (13::nat) \<and> take 1 cs = [char_of (10::nat)] then (row @ [f]) # read_csv FieldStart [] [] (drop 1 cs)
      else read_csv Plain (f @ [c]) row cs)"

lemma read_plain:
  "list_all (\<lambda>c. c \<notin> set csv_special) t \<Longrightarrow> m \<in> {FieldStart, Plain} \<Longrightarrow> t \<noteq> [] \<Longrightarrow>
     read_csv m f row (t @ r) = read_csv Plain (f @ t) row r"
proof (induction t arbitrary: m f)
  case (Cons c t)
  then have "read_csv m f row ((c # t) @ r) = read_csv Plain (f @ [c]) row (t @ r)"
    by (auto simp: csv_special_def)
  with Cons show ?case by (cases "t = []") auto
qed simp

lemma read_quoted:
  "read_csv Quoted f row (concat (map (\<lambda>c. if c = CHR 0x22 then [c, c] else [c]) t) @ CHR 0x22 # r)
     = read_csv QuoteSeen (f @ t) row r"
  by (induction t arbitrary: f) auto

text \<open>After a field the reader is in one of three modes, which agree on what follows a field.\<close>

lemma read_field:
  assumes "r = CHR '','' # r' \<or> r = crlf @ r'"
  shows "read_csv FieldStart [] row (csv_field t @ r) = read_csv Plain t row r"
proof -
  have seen: "read_csv QuoteSeen t row r = read_csv Plain t row r"
    and start: "read_csv FieldStart [] row r = read_csv Plain [] row r"
    using assms by (auto simp: crlf_def)
  show ?thesis
  proof (cases "list_ex (\<lambda>c. c \<in> set csv_special) t")
    case True
    then show ?thesis using read_quoted [of "[]" row t r] seen by (simp add: csv_field_def)
  next
    case False
    then have "list_all (\<lambda>c. c \<notin> set csv_special) t" by (simp add: list_ex_iff list_all_iff)
    then show ?thesis
      using False read_plain [of t FieldStart "[]" row r] start by (cases "t = []") (simp_all add: csv_field_def)
  qed
qed

lemma read_row:
  "fs \<noteq> [] \<Longrightarrow> read_csv FieldStart [] row (csv_row fs @ r) = (row @ fs) # read_csv FieldStart [] [] r"
proof (induction fs arbitrary: row)
  case (Cons f fs)
  show ?case
  proof (cases fs)
    case Nil
    have "read_csv FieldStart [] row (csv_field f @ crlf @ r) = read_csv Plain f row (crlf @ r)"
      using read_field by blast
    with Nil show ?thesis by (simp add: csv_row_def crlf_def)
  next
    case (Cons g gs)
    have "csv_row (f # fs) @ r = csv_field f @ CHR '','' # (csv_row fs @ r)"
      using Cons by (simp add: csv_row_def)
    moreover have "read_csv FieldStart [] row (csv_field f @ CHR '','' # (csv_row fs @ r))
        = read_csv Plain f row (CHR '','' # (csv_row fs @ r))"
      using read_field by blast
    ultimately show ?thesis using Cons.IH [of "row @ [f]"] Cons by simp
  qed
qed simp

text \<open>
  C19. The CSV export reads back, by any reader of the format, as the header
  and one row of cells per result in order, whatever commas, quotes or line breaks the cells
  contain; and no cell is text that a spreadsheet evaluates.
\<close>

theorem csv_export_reads_back:
  "read_csv FieldStart [] [] (csv_export sv public) = export_fields # map (csv_cells sv) (results_of public)
   \<and> (\<forall>row \<in> set (map (csv_cells sv) (results_of public)). \<forall>cell \<in> set row.
        \<not> formula_start (lstrip cell) \<and> \<not> control_start cell)"
proof -
  have "read_csv FieldStart [] [] (concat (map (\<lambda>r. csv_row (csv_cells sv r)) rs)) = map (csv_cells sv) rs" for rs
  proof (induction rs)
    case (Cons r rs)
    then show ?case using read_row [of "csv_cells sv r" "[]"] by (simp add: csv_cells_def export_fields_def)
  qed simp
  moreover have "export_fields \<noteq> []" by (simp add: export_fields_def)
  ultimately have "read_csv FieldStart [] [] (csv_export sv public) = export_fields # map (csv_cells sv) (results_of public)"
    unfolding csv_export_def by (simp add: read_row)
  then show ?thesis using spreadsheet_cell_safe by (auto simp: csv_cells_def)
qed

definition sample_export :: dict where
  "sample_export = [(''results'', JList [JObj [(''name'', JStr ''=1+1, x''), (''detail'', JStr [CHR 0x22, CHR '','', CHR 0x22])]])]"

theorem csv_export_reads_back_witness:
  "read_csv FieldStart [] [] (csv_export run_services sample_export)
     = [export_fields, csv_cells run_services (hd (results_of sample_export))]
   \<and> csv_cells run_services (hd (results_of sample_export)) ! 1 = CHR 0x27 # ''=1+1, x''"
proof -
  have r: "results_of sample_export = [hd (results_of sample_export)]" by code_simp
  have "csv_cells run_services (hd (results_of sample_export)) ! 1 = CHR 0x27 # ''=1+1, x''" by code_simp
  then show ?thesis using csv_export_reads_back [of run_services sample_export] r
    by (metis list.set_intros(1) list.simps(8,9))
qed

section \<open>Samples\<close>

definition sample_tester :: test_env where
  "sample_tester = \<lparr>tester = (\<lambda>profile demo. Inr [(''success'', JBool True), (''detail'', JStr ''password s3-KX refused'')]),
     to_float = (\<lambda>v. None), elapsed_ms = 5\<rparr>"

definition sample_management :: management where
  "sample_management = \<lparr>mg_demo_mode = False, mg_provider = ''fake'', mg_network = sample_tester, mg_fake = sample_tester\<rparr>"

lemma sample_job_zero: "case jobs (sample_job_run 1) of [j] \<Rightarrow> jb_id j = ''0'' \<and> jb_status j = Queued | _ \<Rightarrow> False"
  by code_simp

theorem batch_run_ends_its_job_witness:
  "let st' = batch_run run_services sample_management (\<lambda>n. False) (JStr ''0'')
       \<lparr>st_db = sample_job_run 1, st_closed = False\<rparr> in
     \<exists>j \<in> set (jobs (st_db st')). jb_id j = ''0'' \<and> jb_status j \<in> {Completed, Failed}"
proof -
  have "\<not> st_closed \<lparr>st_db = sample_job_run 1, st_closed = False\<rparr>" by simp
  moreover have "jobs_consistent run_services (st_db \<lparr>st_db = sample_job_run 1, st_closed = False\<rparr>)"
    using sample_run_consistent by simp
  moreover have "''0'' \<in> jb_id ` set (jobs (st_db \<lparr>st_db = sample_job_run 1, st_closed = False\<rparr>))"
    using sample_job_zero by (auto split: list.splits)
  ultimately show ?thesis
    using batch_run_ends_its_job [of "\<lparr>st_db = sample_job_run 1, st_closed = False\<rparr>" run_services "''0''"
        sample_management "\<lambda>n. False"] by (simp only: Let_def) blast
qed

theorem test_reports_hide_credentials_witness:
  "\<exists>success stage detail d. safe_test sample_services sample_tester [(''password'', JStr ''s3-KX'')] False False
       = test_report success False stage detail (Finite d) \<and> \<not> contains ''s3-KX'' detail"
proof -
  have "''s3-KX'' \<in> set (secrets_of (JObj [(''password'', JStr ''s3-KX'')]))"
    and "clear_of ''s3-KX'' redacted" and "0 \<le> elapsed_ms sample_tester"
    and "\<not> contains ''s3-KX'' ''internal''" and "\<not> contains ''s3-KX'' ''Connection test failed.''"
    by code_simp+
  from test_reports_hide_credentials [OF this(3,1,2,4,5), of sample_services False False]
  show ?thesis by blast
qed

end
