(* ===== verification/FakeDevice.thy ===== *)
theory FakeDevice
  imports TxnLogLaws
begin

text \<open>
  The fictional device of \<open>app/dal/device/fake_client.py\<close>: access is granted only through a saved
  connection whose role account, proxy and proxy role are exactly the published fake ones, checked
  on the resolved profile before every operation.
\<close>

section \<open>The access path\<close>

definition fake_device_username :: string where "fake_device_username = ''fake-device-user''"
definition fake_device_password :: string where "fake_device_password = ''fake-device-password''"
definition fake_device_host :: string where "fake_device_host = ''fake-device.invalid''"
definition fake_device_port :: int where "fake_device_port = 22"
definition fake_device_protocol :: string where "fake_device_protocol = ''ssh''"
definition fake_proxy_username :: string where "fake_proxy_username = ''fake-proxy-user''"
definition fake_proxy_password :: string where "fake_proxy_password = ''fake-proxy-password''"
definition fake_proxy_host :: string where "fake_proxy_host = ''fake-bastion.invalid''"
definition fake_proxy_port :: int where "fake_proxy_port = 22"
definition fake_proxy_type :: string where "fake_proxy_type = ''ssh_tunnel''"

definition fake_login :: "dict \<Rightarrow> string \<Rightarrow> int \<Rightarrow> string \<Rightarrow> string \<Rightarrow> bool" where
  "fake_login p host port username password \<longleftrightarrow> truthy (dget p ''role_account_id'')
     \<and> dget p ''host'' = JStr host \<and> dget p ''port'' = JInt port
     \<and> dget p ''authentication_type'' = JStr ''password''
     \<and> dget p ''username'' = JStr username \<and> dget p ''password'' = JStr password"

definition validate_fake_path :: "dict \<Rightarrow> exn + unit" where
  "validate_fake_path profile =
     (if dget_or profile ''client_type'' (JStr ''network'') \<noteq> JStr ''fake''
      then Inl (StoreError (Route FakePathUnsupported) 501)
      else (case dget profile ''connector'' of
          JObj connector \<Rightarrow>
            if \<not> (truthy (dget profile ''id'') \<and> dget profile ''protocol'' = JStr fake_device_protocol
                \<and> fake_login profile fake_device_host fake_device_port fake_device_username fake_device_password)
            then Inl (StoreError (Route FakeDeviceRejected) 403)
            else if \<not> (truthy (dget profile ''proxy_id'') \<and> dget connector ''id'' = dget profile ''proxy_id''
                \<and> dget connector ''type'' = JStr fake_proxy_type
                \<and> fake_login connector fake_proxy_host fake_proxy_port fake_proxy_username fake_proxy_password)
            then Inl (StoreError (Route FakeProxyRejected) 403)
            else Inr ()
        | _ \<Rightarrow> Inl (StoreError (Route FakeProxyRejected) 403)))"

definition fake_path_message :: "exn \<Rightarrow> string" where
  "fake_path_message e = (case e of
      StoreError (Route FakePathUnsupported) n \<Rightarrow> ''Device-data simulation requires a fake connection.''
    | StoreError (Route FakeDeviceRejected) n \<Rightarrow> ''Simulated device access validation failed.''
    | _ \<Rightarrow> ''Simulated proxy access validation failed.'')"

definition test_fake_connection :: "dict \<Rightarrow> dict" where
  "test_fake_connection resolved_profile = (case validate_fake_path resolved_profile of
      Inl e \<Rightarrow> [(''success'', JBool False), (''stage'', JStr ''simulation''),
        (''detail'', JStr (fake_path_message e)), (''duration_ms'', JFloat (Finite 0)), (''simulated'', JBool True)]
    | Inr _ \<Rightarrow> [(''success'', JBool True), (''stage'', JStr ''simulation''),
        (''detail'', JStr ''Simulated device and proxy authentication passed; no network connection was made.''),
        (''duration_ms'', JFloat (Finite 0)), (''simulated'', JBool True)])"

section \<open>Inventory\<close>

definition fake_interface ::
  "string \<Rightarrow> string \<Rightarrow> int \<Rightarrow> string \<Rightarrow> string \<Rightarrow> int \<Rightarrow> int \<Rightarrow> json" where
  "fake_interface name description mtu mac address rx tx = JObj
     [(''name'', JStr name), (''description'', JStr description), (''admin_status'', JStr ''up''),
      (''oper_status'', JStr ''up''), (''mtu'', JInt mtu), (''mac_address'', JStr mac),
      (''addresses'', JList [JStr address]), (''rx_bytes'', JInt rx), (''tx_bytes'', JInt tx)]"

definition fake_inventory :: dict where
  "fake_inventory =
    [(''system'', JObj
       [(''hostname'', JStr ''fictional-transport-device''), (''model'', JStr ''Fictional Gateway Simulator''),
        (''software_version'', JStr ''SIMULATED-1.0''), (''serial_number'', JStr ''FICTIONAL-0001''),
        (''uptime_seconds'', JInt 86400)]),
     (''interfaces'', JList
       [fake_interface ''eth0'' ''Simulated IPv4 uplink'' 1500 ''02:00:00:00:00:01'' ''192.0.2.2/24'' 120000 80000,
        fake_interface ''eth1'' ''Simulated IPv6 uplink'' 1500 ''02:00:00:00:00:02'' ''2001:db8:1::2/64'' 90000 60000,
        fake_interface ''lo'' ''Simulated loopback'' 65536 ''00:00:00:00:00:00'' ''203.0.113.10/32'' 1000 1000]),
     (''bgp'', JObj
       [(''local_asn'', JInt 64512), (''router_id'', JStr ''203.0.113.10''),
        (''neighbors'', JList [JObj
          [(''address'', JStr ''192.0.2.1''), (''remote_asn'', JInt 64513), (''state'', JStr ''Established''),
           (''uptime_seconds'', JInt 3600), (''prefixes_received'', JInt 2), (''prefixes_sent'', JInt 1)]])]),
     (''mpls'', JObj
       [(''interfaces'', JList
          [JObj [(''name'', JStr ''eth0''), (''enabled'', JBool True)],
           JObj [(''name'', JStr ''eth1''), (''enabled'', JBool False)]]),
        (''ldp_neighbors'', JList [JObj
          [(''router_id'', JStr ''203.0.113.1''), (''address'', JStr ''192.0.2.1''), (''state'', JStr ''Operational''),
           (''uptime_seconds'', JInt 3600)]]),
        (''lsps'', JList [JObj
          [(''name'', JStr ''simulated-lsp''), (''source'', JStr ''203.0.113.10''),
           (''destination'', JStr ''203.0.113.1''), (''state'', JStr ''up''), (''label'', JInt 16001)]])])]"

section \<open>\<open>FakeDeviceClient\<close>\<close>

definition fake_profile :: "services \<Rightarrow> string \<Rightarrow> store \<Rightarrow> exn + (dict \<times> store)" where
  "fake_profile sv connection_id st =
     bindE (store_resolve_connection sv (JStr connection_id) st) (\<lambda>(profile, st).
     bindE (validate_fake_path profile) (\<lambda>_. Inr (profile, st)))"

definition fake_device_inventory :: "services \<Rightarrow> string \<Rightarrow> store \<Rightarrow> exn + (dict \<times> store)" where
  "fake_device_inventory sv connection_id st =
     bindE (fake_profile sv connection_id st) (\<lambda>(profile, st).
     bindE (mapE (\<lambda>k. bindE (dreq profile k) (\<lambda>v. Inr (k, v))) [''id'', ''name'', ''protocol'', ''host'', ''port'']) (\<lambda>device.
     bindE (dreq profile ''connector'') (\<lambda>c. bindE (as_dict c) (\<lambda>connector.
     bindE (dreq profile ''role_account_id'') (\<lambda>role. bindE (dreq profile ''proxy_id'') (\<lambda>proxy.
     bindE (dreq connector ''role_account_id'') (\<lambda>proxy_role. bindE (dreq connector ''type'') (\<lambda>kind.
     Inr (dmerge [(''provider'', JStr ''fake''), (''simulated'', JBool True), (''device'', JObj device),
          (''access'', JObj [(''role_account_id'', role), (''proxy_id'', proxy),
             (''proxy_role_account_id'', proxy_role), (''connector_type'', kind)])] fake_inventory, st)))))))))"

definition fake_list_routes ::
  "services \<Rightarrow> draws \<Rightarrow> string \<Rightarrow> store \<Rightarrow> exn + (dict list \<times> store)" where
  "fake_list_routes sv dr connection_id st = bindE (fake_profile sv connection_id st) (\<lambda>(_, st).
     store_list_routes sv dr connection_id st)"

definition fake_create_route ::
  "services \<Rightarrow> draws \<Rightarrow> string \<Rightarrow> json \<Rightarrow> dict option \<Rightarrow> store \<Rightarrow> exn + (dict \<times> store)" where
  "fake_create_route sv dr connection_id payload audit st =
     bindE (fake_profile sv connection_id st) (\<lambda>(_, st).
     case audit of
       Some a \<Rightarrow> create_static_route_audited sv dr connection_id payload a st
     | None \<Rightarrow> store_create_route sv dr connection_id payload st)"

definition fake_update_route ::
  "services \<Rightarrow> draws \<Rightarrow> string \<Rightarrow> string \<Rightarrow> json \<Rightarrow> dict option \<Rightarrow> store \<Rightarrow> exn + (dict \<times> store)" where
  "fake_update_route sv dr connection_id route_id payload audit st =
     bindE (fake_profile sv connection_id st) (\<lambda>(_, st).
     case audit of
       Some a \<Rightarrow> update_static_route_audited sv dr connection_id route_id payload a st
     | None \<Rightarrow> store_update_route sv dr connection_id route_id payload st)"

definition fake_delete_route ::
  "services \<Rightarrow> draws \<Rightarrow> string \<Rightarrow> string \<Rightarrow> dict option \<Rightarrow> store \<Rightarrow> exn + (unit \<times> store)" where
  "fake_delete_route sv dr connection_id route_id audit st =
     bindE (fake_profile sv connection_id st) (\<lambda>(_, st).
     case audit of
       Some a \<Rightarrow> delete_static_route_audited sv dr connection_id route_id a st
     | None \<Rightarrow> store_delete_route sv dr connection_id route_id st)"

section \<open>Laws\<close>

text \<open>Only a fake profile with both published logins passes.\<close>

lemma validate_fake_path_Inr:
  "validate_fake_path p = Inr u \<Longrightarrow> dget p ''client_type'' = JStr ''fake''
     \<and> fake_login p fake_device_host fake_device_port fake_device_username fake_device_password
     \<and> (\<exists>c. dget p ''connector'' = JObj c \<and> dget c ''id'' = dget p ''proxy_id''
          \<and> fake_login c fake_proxy_host fake_proxy_port fake_proxy_username fake_proxy_password)"
  by (auto simp: validate_fake_path_def dget_or_def2 split: if_splits json.splits)

lemma fake_profile_Inr: "fake_profile sv cid st = Inr (p, st') \<Longrightarrow>
   st' = st \<and> \<not> st_closed st \<and> resolve_connection_in sv (st_db st) (JStr cid) = Inr p \<and> validate_fake_path p = Inr ()"
  by (auto simp: fake_profile_def store_resolve_connection_def transaction_def reading_def result_simps
      split: if_splits sum.splits)

end
