(* ===== verification/DeviceData.thy ===== *)
theory DeviceData
  imports FakeDevice Management Identity
begin

text \<open>
  \<open>app/bl/services/device_data.py\<close>: the device-data service over the fake client. A change of a
  static route is attempted with the actor's audit context; the store writes the record of a
  success with the change itself, and a failed attempt is recorded by a second, separate append.
  \<open>dr\<close> are the draws of the attempt and \<open>dr'\<close> those of the record of a failure.
\<close>

section \<open>Audit context\<close>

definition audit_context ::
  "authenticated_user \<Rightarrow> string \<Rightarrow> string \<Rightarrow> string \<Rightarrow> string \<Rightarrow> dict" where
  "audit_context actor correlation_id action request_method request_path =
     [(''correlation_id'', JStr correlation_id),
      (''actor_subject'', JStr (subject actor)),
      (''actor_tenant_id'', opt_str (tenant_id actor)),
      (''actor_name'', JStr (user_name actor)),
      (''actor_email'', opt_str (email actor)),
      (''actor_roles'', JList (map JStr (sorted_role_names (roles actor)))),
      (''auth_mode'', JStr (mode_name (auth_mode actor))),
      (''action'', JStr action),
      (''request_method'', JStr request_method),
      (''request_path'', JStr request_path)]"

definition with_detail :: "dict \<Rightarrow> string \<Rightarrow> dict" where
  "with_detail audit detail = dmerge audit [(''detail'', JStr detail)]"

definition failure_record :: "dict \<Rightarrow> json \<Rightarrow> string \<Rightarrow> string \<Rightarrow> json" where
  "failure_record audit resource_id connection_id detail =
     JObj (dmerge audit [(''resource_type'', JStr ''static_route''), (''resource_id'', resource_id),
       (''connection_id'', JStr connection_id), (''outcome'', JStr ''failed''), (''detail'', JStr detail),
       (''before_state'', JNull), (''after_state'', JNull)])"

text \<open>\<open>_record_failure\<close> swallows the refusal of the record itself.\<close>

definition record_failure :: "draws \<Rightarrow> dict \<Rightarrow> json \<Rightarrow> string \<Rightarrow> string \<Rightarrow> store \<Rightarrow> store" where
  "record_failure dr' audit resource_id connection_id detail st =
     snd (store_call (append_transaction dr' (failure_record audit resource_id connection_id detail)) st)"

section \<open>Operations\<close>

text \<open>\<open>_client\<close>: the provider must be the fake one and the saved connection a fake connection.\<close>

definition fake_client :: "services \<Rightarrow> string \<Rightarrow> string \<Rightarrow> unit service" where
  "fake_client sv provider connection_id =
     (if provider \<noteq> ''fake'' then raiseS (ManagementError ''Simulated device access is disabled.'' 503)
      else bindS (store_call (store_get sv ''connections'' (JStr connection_id))) (\<lambda>profile.
        if dget_or profile ''client_type'' (JStr ''network'') \<noteq> JStr ''fake''
        then raiseS (ManagementError ''Device data is unsupported for network profiles.'' 501)
        else returnS ()))"

definition device_inventory :: "services \<Rightarrow> string \<Rightarrow> string \<Rightarrow> dict service" where
  "device_inventory sv provider connection_id = bindS (fake_client sv provider connection_id)
     (\<lambda>_. store_call (fake_device_inventory sv connection_id))"

definition device_list_routes :: "services \<Rightarrow> draws \<Rightarrow> string \<Rightarrow> string \<Rightarrow> dict service" where
  "device_list_routes sv dr provider connection_id = bindS (fake_client sv provider connection_id)
     (\<lambda>_. bindS (store_call (fake_list_routes sv dr connection_id)) (\<lambda>items.
      returnS [(''provider'', JStr ''fake''), (''simulated'', JBool True), (''items'', JList (map JObj items))]))"

text \<open>\<open>try: ... except ManagementError as exc: self._record_failure(...); raise\<close>.\<close>

definition attempted :: "draws \<Rightarrow> dict \<Rightarrow> json \<Rightarrow> string \<Rightarrow> 'a service \<Rightarrow> 'a service" where
  "attempted dr' audit resource_id connection_id m st = (case m st of
      (Inl (ManagementError detail n), st') \<Rightarrow>
        (Inl (ManagementError detail n), record_failure dr' audit resource_id connection_id detail st')
    | other \<Rightarrow> other)"

definition wrapped_item :: "dict \<Rightarrow> dict" where
  "wrapped_item item = [(''provider'', JStr ''fake''), (''simulated'', JBool True), (''item'', JObj item)]"

definition device_create_route ::
  "services \<Rightarrow> draws \<Rightarrow> draws \<Rightarrow> string \<Rightarrow> string \<Rightarrow> json \<Rightarrow> authenticated_user \<Rightarrow> string \<Rightarrow> string \<Rightarrow> string \<Rightarrow> dict service" where
  "device_create_route sv dr dr' provider connection_id payload actor correlation_id request_method request_path =
     (let audit = audit_context actor correlation_id ''static_route.create'' request_method request_path in
      bindS (attempted dr' audit JNull connection_id (bindS (fake_client sv provider connection_id) (\<lambda>_.
          store_call (fake_create_route sv dr connection_id payload (Some (with_detail audit ''Static route created.''))))))
        (\<lambda>item. returnS (wrapped_item item)))"

definition device_update_route ::
  "services \<Rightarrow> draws \<Rightarrow> draws \<Rightarrow> string \<Rightarrow> string \<Rightarrow> string \<Rightarrow> json \<Rightarrow> authenticated_user \<Rightarrow> string \<Rightarrow> string \<Rightarrow> string \<Rightarrow> dict service" where
  "device_update_route sv dr dr' provider connection_id route_id payload actor correlation_id request_method request_path =
     (let audit = audit_context actor correlation_id ''static_route.update'' request_method request_path in
      bindS (attempted dr' audit (JStr route_id) connection_id (bindS (fake_client sv provider connection_id) (\<lambda>_.
          store_call (fake_update_route sv dr connection_id route_id payload (Some (with_detail audit ''Static route updated.''))))))
        (\<lambda>item. returnS (wrapped_item item)))"

definition device_delete_route ::
  "services \<Rightarrow> draws \<Rightarrow> draws \<Rightarrow> string \<Rightarrow> string \<Rightarrow> string \<Rightarrow> authenticated_user \<Rightarrow> string \<Rightarrow> string \<Rightarrow> string \<Rightarrow> unit service" where
  "device_delete_route sv dr dr' provider connection_id route_id actor correlation_id request_method request_path =
     (let audit = audit_context actor correlation_id ''static_route.delete'' request_method request_path in
      attempted dr' audit (JStr route_id) connection_id (bindS (fake_client sv provider connection_id) (\<lambda>_.
          store_call (fake_delete_route sv dr connection_id route_id (Some (with_detail audit ''Static route deleted.''))))))"

section \<open>Records of actors\<close>

text \<open>What the authentication service guarantees of a user, and the request of itself.\<close>

definition recordable :: "authenticated_user \<Rightarrow> string \<Rightarrow> string \<Rightarrow> string \<Rightarrow> bool" where
  "recordable actor correlation_id request_method request_path \<longleftrightarrow>
     strip (subject actor) \<noteq> [] \<and> length (subject actor) \<le> 255 \<and> char_of (0::nat) \<notin> set (subject actor)
     \<and> (\<forall>t. tenant_id actor = Some t \<longrightarrow> parse_uuid t \<noteq> None)
     \<and> strip (user_name actor) \<noteq> [] \<and> length (user_name actor) \<le> 200 \<and> char_of (0::nat) \<notin> set (user_name actor)
     \<and> (\<forall>e. email actor = Some e \<longrightarrow> length e \<le> 320 \<and> char_of (0::nat) \<notin> set e)
     \<and> correlation_id \<noteq> [] \<and> parse_uuid correlation_id \<noteq> None
     \<and> length request_method \<le> 10 \<and> char_of (0::nat) \<notin> set request_method
     \<and> length request_path \<le> 2048 \<and> char_of (0::nat) \<notin> set request_path"

definition recordable_target :: "json \<Rightarrow> string \<Rightarrow> bool" where
  "recordable_target resource_id connection_id \<longleftrightarrow> parse_uuid connection_id \<noteq> None
     \<and> (case resource_id of JNull \<Rightarrow> True | JStr i \<Rightarrow> length i \<le> 64 \<and> char_of (0::nat) \<notin> set i | _ \<Rightarrow> False)"

lemma actor_role_names_sorted:
  "actor_role_names (JList (map JStr (sorted_role_names R))) = Inr (sorted_role_names R)"
  by (cases "Administrator \<in> R"; cases "Operator \<in> R"; cases "Viewer \<in> R")
    (simp_all add: actor_role_names_def sorted_role_names_def role_name_def)

text \<open>The record of an attempt by a recordable actor is never refused.\<close>

lemma failure_record_valid:
  assumes "recordable actor cid method path" and "recordable_target rid conn"
    and "strip action \<noteq> []" "length action \<le> 100" "char_of (0::nat) \<notin> set action"
    and "length detail \<le> 4000" "char_of (0::nat) \<notin> set detail"
  shows "\<exists>row. validate_transaction dr (failure_record (audit_context actor cid action method path) rid conn detail) = Inr row
     \<and> tx_outcome row = ''failed'' \<and> tx_actor_subject row = strip (subject actor) \<and> tx_action row = strip action
     \<and> tx_detail row = Some (redact_text detail)"
proof -
  let ?a = "audit_context actor cid action method path"
  let ?p = "dmerge ?a [(''resource_type'', JStr ''static_route''), (''resource_id'', rid),
       (''connection_id'', JStr conn), (''outcome'', JStr ''failed''), (''detail'', JStr detail),
       (''before_state'', JNull), (''after_state'', JNull)]"
  have get: "dget ?p ''correlation_id'' = JStr cid" "dget ?p ''actor_subject'' = JStr (subject actor)"
    "dget ?p ''actor_tenant_id'' = opt_str (tenant_id actor)" "dget ?p ''actor_name'' = JStr (user_name actor)"
    "dget ?p ''actor_email'' = opt_str (email actor)"
    "dget ?p ''actor_roles'' = JList (map JStr (sorted_role_names (roles actor)))"
    "dget ?p ''auth_mode'' = JStr (mode_name (auth_mode actor))" "dget ?p ''action'' = JStr action"
    "dget ?p ''request_method'' = JStr method" "dget ?p ''request_path'' = JStr path"
    "dget ?p ''resource_type'' = JStr ''static_route''" "dget ?p ''resource_id'' = rid"
    "dget ?p ''connection_id'' = JStr conn" "dget ?p ''outcome'' = JStr ''failed''" "dget ?p ''detail'' = JStr detail"
    "dget ?p ''before_state'' = JNull" "dget ?p ''after_state'' = JNull"
    by (simp_all add: audit_context_def dget_dmerge wf_dict_def dget_Cons dhas_Cons)
  note r = actor_role_names_sorted [of "roles actor"]
  obtain m where m: "member_of (JStr (mode_name (auth_mode actor))) [''entra'', ''demo''] InvalidAuthMode = Inr m"
    by (cases "auth_mode actor") (simp_all add: member_of_def mode_name_def)
  note rec = assms(1) [unfolded recordable_def] and tgt = assms(2) [unfolded recordable_target_def]
  obtain c where c: "truthy (JStr cid)" "validate_uuid (JStr cid) ''correlation_id'' = Inr c"
    using rec by (auto simp: validate_uuid_def)
  obtain t where t: "optional (\<lambda>v. validate_uuid v ''actor_tenant_id'') (opt_str (tenant_id actor)) = Inr t"
    using rec by (cases "tenant_id actor") (auto simp: optional_def validate_uuid_def)
  obtain e where e: "optional (\<lambda>v. text_field v ''actor_email'' False 320) (opt_str (email actor)) = Inr e"
    using rec by (cases "email actor") (auto simp: optional_def text_field_def)
  obtain i where i: "optional (\<lambda>v. text_field v ''resource_id'' False 64) rid = Inr i"
    using tgt by (cases rid) (auto simp: optional_def text_field_def)
  obtain k where k: "optional (\<lambda>v. validate_uuid v ''connection_id'') (JStr conn) = Inr k"
    using tgt by (auto simp: optional_def validate_uuid_def)
  have kind: "text_field (JStr ''static_route'') ''resource_type'' True 64 = Inr ''static_route''" by code_simp
  have s: "text_field (JStr (subject actor)) ''actor_subject'' True 255 = Inr (strip (subject actor))"
    "text_field (JStr (user_name actor)) ''actor_name'' True 200 = Inr (strip (user_name actor))"
    "text_field (JStr action) ''action'' True 100 = Inr (strip action)"
    using rec assms(3-5) by (simp_all add: text_field_def)
  have o: "optional (\<lambda>v. text_field v ''detail'' False 4000) (JStr detail) = Inr (Some detail)"
    "optional (\<lambda>v. text_field v ''request_method'' False 10) (JStr method) = Inr (Some method)"
    "optional (\<lambda>v. text_field v ''request_path'' False 2048) (JStr path) = Inr (Some path)"
    "member_of (JStr ''failed'') [''succeeded'', ''failed''] InvalidOutcome = Inr ''failed''"
    "audit_state JNull l = Inr JNull" for l
    using rec assms(6,7) by (simp_all add: optional_def text_field_def member_of_def audit_state_def)
  show ?thesis
    unfolding failure_record_def validate_transaction_def json.case get
    by (simp only: r m c t e i k s o kind if_True bindE_Inr sum.inject ex_simps txn_row.simps option.map simp_thms)
qed

end
