(* ===== verification/DeviceDataLaws.thy ===== *)
theory DeviceDataLaws
  imports DeviceData
begin

text \<open>
  What an attempt to change a route of the fictional device leaves in the audit log: a success exactly
  one record, a failure its own record or, when that is not valid, nothing. What an audited operation
  promises its caller is a locale, the service's handling of failures is proved inside it, and the
  three operations of the fake client interpret it.
\<close>

definition txn_log :: "store \<Rightarrow> txn_row list" where
  "txn_log st = gateway_transactions (st_db st)"

text \<open>The record of one attempt: by whom, what, and whether it succeeded.\<close>

definition attempt_record :: "authenticated_user \<Rightarrow> string \<Rightarrow> bool \<Rightarrow> txn_row \<Rightarrow> bool" where
  "attempt_record actor action ok row \<longleftrightarrow> tx_actor_subject row = strip (subject actor)
     \<and> tx_action row = action \<and> tx_outcome row = (if ok then ''succeeded'' else ''failed'')"

text \<open>A failed attempt that left nothing but its record.\<close>

definition failure_logged :: "authenticated_user \<Rightarrow> string \<Rightarrow> store \<Rightarrow> store \<Rightarrow> bool" where
  "failure_logged actor action st st' \<longleftrightarrow> (\<exists>row. attempt_record actor action False row
     \<and> st' = st\<lparr>st_db := (st_db st)\<lparr>gateway_transactions := txn_log st @ [row]\<rparr>\<rparr>)"

lemma failure_logged_row:
  "failure_logged actor action st st' \<Longrightarrow> \<exists>row. txn_log st' = txn_log st @ [row] \<and> tx_action row = action"
  by (auto simp: failure_logged_def attempt_record_def txn_log_def)

section \<open>Audited operations\<close>

locale audited_operation =
  fixes operation :: "store \<Rightarrow> exn + ('a \<times> store)"
    and ready :: "store \<Rightarrow> bool" and actor :: authenticated_user and action :: string
  assumes logs_one: "ready st \<Longrightarrow> operation st = Inr (x, st') \<Longrightarrow>
      \<exists>row. txn_log st' = txn_log st @ [row] \<and> attempt_record actor action True row"
begin

text \<open>
  Under a guard that only reads, an attempt that succeeds adds the record of its success, and one
  that fails does what the recording of the failure does, and nothing else.
\<close>

lemma attempt_logs_one:
  assumes "ready st" and guard: "snd (guard st) = st"
    and "\<forall>e. fst (guard st) = Inl e \<longrightarrow> (\<exists>m n. e = ManagementError m n \<and> P m)"
    and "\<forall>e. P (case management_error e of ManagementError m n \<Rightarrow> m | Raised _ \<Rightarrow> [])"
    and rec: "\<forall>m. P m \<longrightarrow> F (record_failure dr' audit rid conn m st)"
    and run: "attempted dr' audit rid conn (bindS guard (\<lambda>_. store_call operation)) st = (r, st')"
  shows "case r of Inr x \<Rightarrow> \<exists>row. txn_log st' = txn_log st @ [row] \<and> attempt_record actor action True row
          | Inl e \<Rightarrow> F st'"
proof (cases "guard st")
  case (Pair g st1)
  then have st1: "st1 = st" using guard by simp
  have failed: ?thesis
    if "bindS guard (\<lambda>_. store_call operation) st = (Inl (ManagementError m n), st)" "P m" for m n
    using that rec [rule_format, OF that(2)] run by (auto simp: attempted_def)
  show ?thesis
  proof (cases g)
    case (Inl e)
    with Pair st1 assms(3) [rule_format, of e] obtain m n where "e = ManagementError m n" "P m" by auto
    with Inl Pair st1 failed show ?thesis by simp
  next
    case (Inr u)
    show ?thesis
    proof (cases "operation st")
      case (Inl e)
      obtain m n where m: "management_error e = ManagementError m n"
        by (cases "map_of error_messages (status_code e)") (auto simp: management_error_def)
      then have "P m" using assms(4) [rule_format, of e] by simp
      moreover have "bindS guard (\<lambda>_. store_call operation) st = (Inl (ManagementError m n), st)"
        using Inl Inr Pair st1 m by (simp add: store_call_def)
      ultimately show ?thesis using failed by blast
    next
      case (Inr p)
      then obtain x st2 where op: "operation st = Inr (x, st2)" by (cases p) auto
      then have "attempted dr' audit rid conn (bindS guard (\<lambda>_. store_call operation)) st = (Inr x, st2)"
        using \<open>g = Inr u\<close> Pair st1 by (simp add: attempted_def store_call_def)
      with run logs_one [OF assms(1) op] show ?thesis by auto
    qed
  qed
qed

end

section \<open>The fake client's operations\<close>

lemma validated_actor:
  assumes "validate_transaction dr (audit_record (with_detail (audit_context actor cid action method path) det) rid c b a) = Inr row"
  shows "tx_actor_subject row = strip (subject actor)" and "tx_action row = strip action"
proof -
  let ?fields = "[(''resource_type'', JStr ''static_route''), (''resource_id'', JStr rid),
       (''connection_id'', JStr c), (''outcome'', JStr ''succeeded''), (''before_state'', b), (''after_state'', a)]"
  let ?audit = "with_detail (audit_context actor cid action method path) det"
  obtain payload where p: "JObj (dmerge ?audit ?fields) = JObj payload"
    "text_field (dget payload ''actor_subject'') ''actor_subject'' True 255 = Inr (tx_actor_subject row)"
    "text_field (dget payload ''action'') ''action'' True 100 = Inr (tx_action row)"
    using assms unfolding audit_record_def by (rule validate_transaction_Inr)
  have payload: "payload = dmerge ?audit ?fields" using p(1) by simp
  have get: "dget payload ''actor_subject'' = JStr (subject actor)" "dget payload ''action'' = JStr action"
    unfolding payload
    by (simp_all add: with_detail_def audit_context_def dget_dmerge wf_dict_def dget_Cons dhas_Cons)
  show "tx_actor_subject row = strip (subject actor)" and "tx_action row = strip action"
    using p(2,3) unfolding get by (simp_all add: text_field_Inr)
qed

text \<open>The three bodies end with the same insertion, over a database whose log the change kept.\<close>

lemma insertion_logs_one:
  assumes "insert_transaction dr (audit_record (with_detail (audit_context actor cid action method path) det) rid c b a) d1 = Inr (row, d')"
    and "gateway_transactions d1 = gateway_transactions d" and "strip action = action"
  shows "\<exists>row. gateway_transactions d' = gateway_transactions d @ [row] \<and> attempt_record actor action True row"
proof -
  note v = insert_transaction_Inr [OF assms(1)]
  have "records_change row rid c b a" using audited_Inr(2) [OF assms(1)] .
  then have "tx_outcome row = ''succeeded''" by (simp add: records_change_def)
  then show ?thesis
    using v(1) validated_actor [OF v(3)] assms(2,3) by (auto simp: attempt_record_def)
qed

definition ready :: "store \<Rightarrow> bool" where
  "ready st \<longleftrightarrow> routes_ok (st_db st)"

abbreviation (input) "context_of actor cid action method path det \<equiv>
  Some (with_detail (audit_context actor cid action method path) det)"

lemma action_texts:
  "strip ''static_route.create'' = ''static_route.create''" "strip ''static_route.update'' = ''static_route.update''"
  "strip ''static_route.delete'' = ''static_route.delete''"
  by code_simp+

interpretation create_op: audited_operation
  "fake_create_route sv dr conn payload (context_of actor cid ''static_route.create'' req_method req_path det)"
  ready actor "''static_route.create''" for sv dr conn payload actor cid req_method req_path det
proof
  fix st x st'
  assume r: "ready st" and op: "fake_create_route sv dr conn payload
      (context_of actor cid ''static_route.create'' req_method req_path det) st = Inr (x, st')"
  then obtain route where b: "create_route_audited_body sv dr conn payload
      (with_detail (audit_context actor cid ''static_route.create'' req_method req_path) det) (st_db st) = Inr (route, st_db st')"
    by (auto simp: fake_create_route_def create_static_route_audited_def transaction_def result_simps
        split: if_splits sum.splits dest!: fake_profile_Inr)
  obtain d1 row where c: "create_static_route_row sv (uuid4 dr) conn payload (st_db st) = Inr (route, d1)"
    and i: "insert_transaction dr (audit_record (with_detail (audit_context actor cid ''static_route.create'' req_method req_path) det)
      (rt_id route) conn JNull (JObj (route_dict route))) d1 = Inr (row, st_db st')"
    using b by (rule create_audited_Inr)
  have "gateway_transactions d1 = gateway_transactions (st_db st)"
    using route_ops_keep_log(1) [OF r [unfolded ready_def] c] by simp
  then show "\<exists>row. txn_log st' = txn_log st @ [row] \<and> attempt_record actor ''static_route.create'' True row"
    unfolding txn_log_def by (rule insertion_logs_one [OF i _ action_texts(1)])
qed

interpretation update_op: audited_operation
  "fake_update_route sv dr conn route_id payload (context_of actor cid ''static_route.update'' req_method req_path det)"
  ready actor "''static_route.update''" for sv dr conn route_id payload actor cid req_method req_path det
proof
  fix st x st'
  assume r: "ready st" and op: "fake_update_route sv dr conn route_id payload
      (context_of actor cid ''static_route.update'' req_method req_path det) st = Inr (x, st')"
  then obtain route where b: "update_route_audited_body sv dr conn route_id payload
      (with_detail (audit_context actor cid ''static_route.update'' req_method req_path) det) (st_db st) = Inr (route, st_db st')"
    by (auto simp: fake_update_route_def update_static_route_audited_def transaction_def result_simps
        split: if_splits sum.splits dest!: fake_profile_Inr)
  obtain d1 row before where c: "update_static_route_row sv (uuid4 dr) conn route_id payload (st_db st) = Inr ((before, route), d1)"
    and i: "insert_transaction dr (audit_record (with_detail (audit_context actor cid ''static_route.update'' req_method req_path) det)
      route_id conn (JObj (route_dict before)) (JObj (route_dict route))) d1 = Inr (row, st_db st')"
    using b by (rule update_audited_Inr)
  have "gateway_transactions d1 = gateway_transactions (st_db st)"
    using route_ops_keep_log(2) [OF r [unfolded ready_def] c] by simp
  then show "\<exists>row. txn_log st' = txn_log st @ [row] \<and> attempt_record actor ''static_route.update'' True row"
    unfolding txn_log_def by (rule insertion_logs_one [OF i _ action_texts(2)])
qed

interpretation delete_op: audited_operation
  "fake_delete_route sv dr conn route_id (context_of actor cid ''static_route.delete'' req_method req_path det)"
  ready actor "''static_route.delete''" for sv dr conn route_id actor cid req_method req_path det
proof
  fix st x st'
  assume r: "ready st" and op: "fake_delete_route sv dr conn route_id
      (context_of actor cid ''static_route.delete'' req_method req_path det) st = Inr (x, st')"
  then have b: "delete_route_audited_body sv dr conn route_id
      (with_detail (audit_context actor cid ''static_route.delete'' req_method req_path) det) (st_db st) = Inr (x, st_db st')"
    by (auto simp: fake_delete_route_def delete_static_route_audited_def transaction_def result_simps
        split: if_splits sum.splits dest!: fake_profile_Inr)
  obtain d1 row before where c: "delete_static_route_row sv (uuid4 dr) conn route_id (st_db st) = Inr (before, d1)"
    and i: "insert_transaction dr (audit_record (with_detail (audit_context actor cid ''static_route.delete'' req_method req_path) det)
      route_id conn (JObj (route_dict before)) JNull) d1 = Inr (row, st_db st')"
    using b by (rule delete_audited_Inr)
  have "gateway_transactions d1 = gateway_transactions (st_db st)"
    using route_ops_keep_log(3) [OF r [unfolded ready_def] c] by simp
  then show "\<exists>row. txn_log st' = txn_log st @ [row] \<and> attempt_record actor ''static_route.delete'' True row"
    unfolding txn_log_def by (rule insertion_logs_one [OF i _ action_texts(3)])
qed

section \<open>The service\<close>

definition short_text :: "string \<Rightarrow> bool" where
  "short_text m \<longleftrightarrow> length m \<le> 4000 \<and> char_of (0::nat) \<notin> set m"

lemma fixed_messages: "short_text (case management_error e of ManagementError m n \<Rightarrow> m | Raised _ \<Rightarrow> [])"
proof -
  have all: "list_all (\<lambda>(n, m). short_text m) error_messages"
    and general: "short_text ''The management operation failed.''" by code_simp+
  show ?thesis
  proof (cases "map_of error_messages (status_code e)")
    case (Some m)
    then have "(status_code e, m) \<in> set error_messages" by (rule map_of_SomeD)
    with all Some show ?thesis by (auto simp: management_error_def list_all_iff)
  qed (simp add: management_error_def general)
qed

lemma fake_client_guard:
  "snd (fake_client sv provider conn st) = st"
  "fst (fake_client sv provider conn st) = Inl e \<Longrightarrow> \<exists>m n. e = ManagementError m n \<and> short_text m"
proof -
  have same: "st' = st" if "store_get sv r i st = Inr (x, st')" for r i x st'
    using that by (auto simp: store_get_def transaction_def reading_def result_simps split: if_splits sum.splits)
  show "snd (fake_client sv provider conn st) = st"
    by (auto simp: fake_client_def bindS_def store_call_def dest: same split: sum.splits)
  have texts: "short_text ''Simulated device access is disabled.''"
    "short_text ''Device data is unsupported for network profiles.''" by code_simp+
  have me: "\<exists>m n. management_error e = ManagementError m n \<and> short_text m" for e
    using fixed_messages [of e] by (cases "map_of error_messages (status_code e)") (auto simp: management_error_def)
  show "fst (fake_client sv provider conn st) = Inl e \<Longrightarrow> \<exists>m n. e = ManagementError m n \<and> short_text m"
    using me texts by (auto simp: fake_client_def bindS_def store_call_def split: sum.splits if_splits)
qed

lemma failure_recorded:
  assumes "recordable actor cid method path" and "recordable_target rid conn"
    and "strip action = action" "action \<noteq> []" "short_text action" "length action \<le> 100" and "short_text m"
    and "schema_ok (st_db st)" and "\<not> st_closed st"
    and "uuid4 dr' 4 \<notin> set (map tx_id (gateway_transactions (st_db st)))"
  shows "failure_logged actor action st (record_failure dr' (audit_context actor cid action method path) rid conn m st)"
proof -
  obtain row where row: "validate_transaction dr' (failure_record (audit_context actor cid action method path) rid conn m) = Inr row"
    "tx_outcome row = ''failed''" "tx_actor_subject row = strip (subject actor)" "tx_action row = strip action"
    using failure_record_valid [OF assms(1,2), of action m dr'] assms(3-7) by (auto simp: short_text_def)
  then show ?thesis
    using assms(3,9) insert_transaction_exact [OF assms(8,10)]
    by (auto simp: record_failure_def store_call_def append_transaction_def transaction_def txn_log_def attempt_record_def
        failure_logged_def)
qed

lemma validated_failure:
  assumes "validate_transaction dr (failure_record (audit_context actor cid action method path) rid conn m) = Inr row"
  shows "tx_actor_subject row = strip (subject actor)" and "tx_action row = strip action"
    and "tx_outcome row = ''failed''"
proof -
  let ?fields = "[(''resource_type'', JStr ''static_route''), (''resource_id'', rid),
       (''connection_id'', JStr conn), (''outcome'', JStr ''failed''), (''detail'', JStr m),
       (''before_state'', JNull), (''after_state'', JNull)]"
  let ?audit = "audit_context actor cid action method path"
  obtain payload where p: "JObj (dmerge ?audit ?fields) = JObj payload"
    "text_field (dget payload ''actor_subject'') ''actor_subject'' True 255 = Inr (tx_actor_subject row)"
    "text_field (dget payload ''action'') ''action'' True 100 = Inr (tx_action row)"
    "dget payload ''outcome'' = JStr (tx_outcome row)"
    using assms unfolding failure_record_def by (rule validate_transaction_Inr)
  have payload: "payload = dmerge ?audit ?fields" using p(1) by simp
  have get: "dget payload ''actor_subject'' = JStr (subject actor)" "dget payload ''action'' = JStr action"
    "dget payload ''outcome'' = JStr ''failed''"
    unfolding payload by (simp_all add: audit_context_def dget_dmerge wf_dict_def dget_Cons dhas_Cons)
  show "tx_actor_subject row = strip (subject actor)" and "tx_action row = strip action"
    and "tx_outcome row = ''failed''"
    using p(2-4) unfolding get by (simp_all add: text_field_Inr)
qed

text \<open>Whatever the record of a failure holds, it is appended as it should be or not at all.\<close>

lemma failure_logged_or_dropped:
  assumes "strip action = action"
    and "st' = record_failure dr' (audit_context actor cid action method path) rid conn m st"
  shows "st' = st \<or> failure_logged actor action st st'"
proof (cases "append_transaction dr' (failure_record (audit_context actor cid action method path) rid conn m) st")
  case (Inl e)
  then show ?thesis using assms(2) by (simp add: record_failure_def store_call_refused)
next
  case (Inr x)
  then obtain row st1 where a: "append_transaction dr' (failure_record (audit_context actor cid action method path) rid conn m) st
      = Inr (row, st1)" by (cases x) auto
  then obtain d' where i: "insert_transaction dr' (failure_record (audit_context actor cid action method path) rid conn m)
      (st_db st) = Inr (row, d')" and st1: "st1 = st\<lparr>st_db := d'\<rparr>"
    by (auto simp: append_transaction_def transaction_def result_simps split: if_splits sum.splits)
  have "st' = st1" using a assms(2) by (simp add: record_failure_def store_call_done)
  then show ?thesis
    using st1 insert_transaction_Inr(1) [OF i] validated_failure [OF insert_transaction_Inr(3) [OF i]] assms(1)
    by (auto simp: failure_logged_def attempt_record_def txn_log_def)
qed

datatype route_attempt = TryCreate json | TryUpdate string json | TryDelete string

definition attempt_action :: "route_attempt \<Rightarrow> string" where
  "attempt_action a = (case a of TryCreate _ \<Rightarrow> ''static_route.create'' | TryUpdate _ _ \<Rightarrow> ''static_route.update''
     | TryDelete _ \<Rightarrow> ''static_route.delete'')"

definition attempt_target :: "route_attempt \<Rightarrow> json" where
  "attempt_target a = (case a of TryCreate _ \<Rightarrow> JNull | TryUpdate i _ \<Rightarrow> JStr i | TryDelete i \<Rightarrow> JStr i)"

definition run_attempt :: "services \<Rightarrow> draws \<Rightarrow> draws \<Rightarrow> string \<Rightarrow> string \<Rightarrow> authenticated_user \<Rightarrow> string \<Rightarrow> string \<Rightarrow> string
    \<Rightarrow> route_attempt \<Rightarrow> unit service" where
  "run_attempt sv dr dr' provider conn actor cid method path a = (case a of
      TryCreate p \<Rightarrow> bindS (device_create_route sv dr dr' provider conn p actor cid method path) (\<lambda>_. returnS ())
    | TryUpdate i p \<Rightarrow> bindS (device_update_route sv dr dr' provider conn i p actor cid method path) (\<lambda>_. returnS ())
    | TryDelete i \<Rightarrow> device_delete_route sv dr dr' provider conn i actor cid method path)"

text \<open>
  C11. An attempt to create, update or delete a route that returns adds exactly one record to the log,
  with its actor, its action and the outcome succeeded. One that raises changes nothing or adds
  exactly the record of its failure, and it adds that record if the store is open, the record's fresh id
  is not taken and the record is valid, which is \<open>recordable\<close> for the actor and the request (texts
  within their bounds) and \<open>recordable_target\<close> for the rest: the connection id is a UUID and the
  route id has at most 64 characters. The record of a failure is best effort in the code: an attempt
  on a connection id that is no UUID is refused and leaves no record.
\<close>

theorem every_attempt_is_recorded:
  assumes "routes_ok (st_db st)"
    and "run_attempt sv dr dr' provider conn actor cid method path a st = (r, st')"
  shows "(case r of
        Inr x \<Rightarrow> \<exists>row. txn_log st' = txn_log st @ [row] \<and> attempt_record actor (attempt_action a) True row
      | Inl e \<Rightarrow> st' = st \<or> failure_logged actor (attempt_action a) st st')
    \<and> (recordable actor cid method path \<and> recordable_target (attempt_target a) conn \<and> \<not> st_closed st
        \<and> uuid4 dr' 4 \<notin> set (map tx_id (gateway_transactions (st_db st))) \<longrightarrow>
        (case r of Inr x \<Rightarrow> True | Inl e \<Rightarrow> failure_logged actor (attempt_action a) st st'))"
proof -
  have ready: "ready st" and schema: "schema_ok (st_db st)" using assms(1) by (simp_all add: ready_def routes_ok_def)
  have texts: "strip (attempt_action a) = attempt_action a" "attempt_action a \<noteq> []" "short_text (attempt_action a)"
    "length (attempt_action a) \<le> 100"
    using action_texts by (cases a; simp add: attempt_action_def short_text_def; code_simp)+
  let ?can = "recordable actor cid method path \<and> recordable_target (attempt_target a) conn \<and> \<not> st_closed st
        \<and> uuid4 dr' 4 \<notin> set (map tx_id (gateway_transactions (st_db st)))"
  let ?F = "\<lambda>st'. (st' = st \<or> failure_logged actor (attempt_action a) st st')
      \<and> (?can \<longrightarrow> failure_logged actor (attempt_action a) st st')"
  have rec: "\<forall>m. short_text m \<longrightarrow> ?F (record_failure dr' (audit_context actor cid (attempt_action a) method path)
      (attempt_target a) conn m st)"
    using failure_recorded [OF _ _ texts _ schema] failure_logged_or_dropped [OF texts(1) refl] by blast
  have guard: "\<forall>e. fst (fake_client sv provider conn st) = Inl e \<longrightarrow> (\<exists>m n. e = ManagementError m n \<and> short_text m)"
    using fake_client_guard(2) by blast
  have fixed: "\<forall>e. short_text (case management_error e of ManagementError m n \<Rightarrow> m | Raised _ \<Rightarrow> [])"
    using fixed_messages by blast
  show ?thesis
  proof (cases a)
    case (TryCreate p)
    have act: "attempt_action a = ''static_route.create''" "attempt_target a = JNull"
      unfolding TryCreate by (simp_all add: attempt_action_def attempt_target_def)
    obtain r0 where r0: "attempted dr' (audit_context actor cid ''static_route.create'' method path) (JNull) conn
        (bindS (fake_client sv provider conn) (\<lambda>_. store_call (fake_create_route sv dr conn p
          (context_of actor cid ''static_route.create'' method path ''Static route created.'')))) st = (r0, st')"
      and r: "r = map_sum id (\<lambda>_. ()) r0"
      using assms(2) unfolding TryCreate
      by (auto simp: run_attempt_def device_create_route_def Let_def bindS_def returnS_def
          split: prod.splits sum.splits)
    from create_op.attempt_logs_one [OF ready fake_client_guard(1) guard fixed rec [unfolded act] r0]
    show ?thesis by (cases r0) (auto simp: act r)
  next
    case (TryUpdate i p)
    have act: "attempt_action a = ''static_route.update''" "attempt_target a = JStr i"
      unfolding TryUpdate by (simp_all add: attempt_action_def attempt_target_def)
    obtain r0 where r0: "attempted dr' (audit_context actor cid ''static_route.update'' method path) (JStr i) conn
        (bindS (fake_client sv provider conn) (\<lambda>_. store_call (fake_update_route sv dr conn i p
          (context_of actor cid ''static_route.update'' method path ''Static route updated.'')))) st = (r0, st')"
      and r: "r = map_sum id (\<lambda>_. ()) r0"
      using assms(2) unfolding TryUpdate
      by (auto simp: run_attempt_def device_update_route_def Let_def bindS_def returnS_def
          split: prod.splits sum.splits)
    from update_op.attempt_logs_one [OF ready fake_client_guard(1) guard fixed rec [unfolded act] r0]
    show ?thesis by (cases r0) (auto simp: act r)
  next
    case (TryDelete i)
    have act: "attempt_action a = ''static_route.delete''" "attempt_target a = JStr i"
      unfolding TryDelete by (simp_all add: attempt_action_def attempt_target_def)
    obtain r0 where r0: "attempted dr' (audit_context actor cid ''static_route.delete'' method path) (JStr i) conn
        (bindS (fake_client sv provider conn) (\<lambda>_. store_call (fake_delete_route sv dr conn i
          (context_of actor cid ''static_route.delete'' method path ''Static route deleted.'')))) st = (r0, st')"
      and r: "r = r0"
      using assms(2) unfolding TryDelete
      by (auto simp: run_attempt_def device_delete_route_def Let_def bindS_def returnS_def
          split: prod.splits sum.splits)
    from delete_op.attempt_logs_one [OF ready fake_client_guard(1) guard fixed rec [unfolded act] r0]
    show ?thesis by (cases r0) (auto simp: act r)
  qed
qed

definition sample_operator :: authenticated_user where
  "sample_operator = \<lparr>subject = ''s-1'', tenant_id = None, user_name = ''Ana'', email = None,
     roles = {Operator}, auth_mode = Entra\<rparr>"

lemma sample_operator_recordable: "recordable sample_operator sample_cid ''POST'' ''/api/v1''"
proof -
  have "strip ''s-1'' \<noteq> []" "char_of (0::nat) \<notin> set ''s-1''" "strip ''Ana'' \<noteq> []" "char_of (0::nat) \<notin> set ''Ana''"
    "parse_uuid sample_cid \<noteq> None" "sample_cid \<noteq> []" "char_of (0::nat) \<notin> set ''POST''" "char_of (0::nat) \<notin> set ''/api/v1''"
    by code_simp+
  then show ?thesis unfolding recordable_def sample_operator_def authenticated_user.select_convs
    by (simp only: list.size option.distinct simp_thms) simp
qed

theorem every_attempt_is_recorded_witness:
  "\<exists>r st' row. run_attempt sample_services sample_draws sample_draws ''fake'' sample_cid sample_operator sample_cid
       ''POST'' ''/api/v1'' (TryCreate sample_route) \<lparr>st_db = sample_audit_db, st_closed = False\<rparr> = (r, st')
     \<and> txn_log st' = txn_log \<lparr>st_db = sample_audit_db, st_closed = False\<rparr> @ [row]
     \<and> tx_action row = ''static_route.create''"
proof -
  let ?st = "\<lparr>st_db = sample_audit_db, st_closed = False\<rparr>"
  obtain r st' where run: "run_attempt sample_services sample_draws sample_draws ''fake'' sample_cid sample_operator
      sample_cid ''POST'' ''/api/v1'' (TryCreate sample_route) ?st = (r, st')" by fastforce
  have target: "recordable_target (attempt_target (TryCreate sample_route)) sample_cid" by code_simp
  have "routes_ok (st_db ?st)" using sample_audit_db_ok by simp
  note recorded = every_attempt_is_recorded [OF this run]
  have "gateway_transactions sample_audit_db = []" by (simp add: sample_audit_db_def empty_db_def)
  then have "case r of Inr x \<Rightarrow> True
      | Inl e \<Rightarrow> failure_logged sample_operator (attempt_action (TryCreate sample_route)) ?st st'"
    using conjunct2 [OF recorded] sample_operator_recordable target by simp
  with conjunct1 [OF recorded]
  have "\<exists>row. txn_log st' = txn_log ?st @ [row] \<and> tx_action row = attempt_action (TryCreate sample_route)"
    by (cases r) (auto simp only: sum.case attempt_record_def dest: failure_logged_row)
  with run show ?thesis unfolding attempt_action_def route_attempt.case by blast
qed

end
