(* ===== verification/Wire.thy ===== *)
theory Wire
  imports PyValue "HOL-Library.Word"
begin

text \<open>
  Bytes, and the two ends the network code talks to: the clock and a byte stream. A stream is
  described by what it will answer: the values the clock gives when it is read, what the calls of
  \<open>recv\<close> find, and whether the calls of \<open>sendall\<close> succeed. Every theorem quantifies over
  these answers, so it speaks of every peer and every timing. A peer that has nothing more to say
  is silent, and a read with a time limit then times out: that is the end of the answers.
\<close>

section \<open>Bytes\<close>

type_synonym byte = "8 word"
type_synonym bytes = "byte list"

text \<open>A literal \<open>b"..."\<close>, and \<open>str.encode("ascii")\<close> of ASCII text.\<close>

definition ascii :: "string \<Rightarrow> bytes" where
  "ascii = map (\<lambda>c. word_of_nat (ord_of c))"

text \<open>\<open>str.encode("utf-8")\<close>: a character above 127 takes two bytes.\<close>

definition utf8_char :: "char \<Rightarrow> bytes" where
  "utf8_char c = (if ord_of c < 128 then [word_of_nat (ord_of c)]
     else [word_of_nat (192 + ord_of c div 64), word_of_nat (128 + ord_of c mod 64)])"

definition utf8 :: "string \<Rightarrow> bytes" where
  "utf8 s = concat (map utf8_char s)"

definition lower_byte :: "byte \<Rightarrow> byte" where
  "lower_byte b = (if 65 \<le> b \<and> b \<le> 90 then b + 32 else b)"

text \<open>\<open>bytes.lower\<close> maps the ASCII capitals only.\<close>

definition lower_bytes :: "bytes \<Rightarrow> bytes" where
  "lower_bytes = map lower_byte"

lemma ascii_Nil [simp]: "ascii [] = []"
  by (simp add: ascii_def)

lemma ascii_append [simp]: "ascii (s @ t) = ascii s @ ascii t"
  by (simp add: ascii_def)

lemma length_ascii [simp]: "length (ascii s) = length s"
  by (simp add: ascii_def)

lemma utf8_append [simp]: "utf8 (s @ t) = utf8 s @ utf8 t"
  by (simp add: utf8_def)

lemma utf8_ascii: "\<forall>c \<in> set s. ord_of c < 128 \<Longrightarrow> utf8 s = ascii s"
  by (induction s) (auto simp: utf8_def ascii_def utf8_char_def)

section \<open>Calls on the outside\<close>

text \<open>
  A call on the outside world \<open>'w\<close> returns or raises, and leaves a new world either way.
\<close>

type_synonym ('w, 'e, 'a) io = "'w \<Rightarrow> ('e + 'a) \<times> 'w"

definition returnW :: "'a \<Rightarrow> ('w, 'e, 'a) io" where
  "returnW x w = (Inr x, w)"

definition raiseW :: "'e \<Rightarrow> ('w, 'e, 'a) io" where
  "raiseW e w = (Inl e, w)"

definition bindW :: "('w, 'e, 'a) io \<Rightarrow> ('a \<Rightarrow> ('w, 'e, 'b) io) \<Rightarrow> ('w, 'e, 'b) io" where
  "bindW m f w = (case m w of (Inl e, w') \<Rightarrow> (Inl e, w') | (Inr x, w') \<Rightarrow> f x w')"

definition liftW :: "'e + 'a \<Rightarrow> ('w, 'e, 'a) io" where
  "liftW r w = (r, w)"

text \<open>\<open>try: m except e: h e\<close>; the handler runs in the world \<open>m\<close> left.\<close>

definition catchW :: "('w, 'e, 'a) io \<Rightarrow> ('e \<Rightarrow> ('w, 'f, 'a) io) \<Rightarrow> ('w, 'f, 'a) io" where
  "catchW m h w = (case m w of (Inl e, w') \<Rightarrow> h e w' | (Inr x, w') \<Rightarrow> (Inr x, w'))"

definition whenW :: "bool \<Rightarrow> 'e \<Rightarrow> ('w, 'e, unit) io" where
  "whenW c e w = (if c then Inl e else Inr (), w)"

definition thenW :: "('w, 'e, unit) io \<Rightarrow> ('w, 'e, 'b) io \<Rightarrow> ('w, 'e, 'b) io" where
  "thenW m k = bindW m (\<lambda>_. k)"

lemma io_simps [simp]:
  "returnW x w = (Inr x, w)" "raiseW e w = (Inl e, w)" "liftW r w = (r, w)"
  "whenW True e w = (Inl e, w)" "whenW False e w = (Inr (), w)"
  by (simp_all add: returnW_def raiseW_def liftW_def whenW_def)

lemma bindW_eq:
  "m w = (Inl e, w') \<Longrightarrow> bindW m f w = (Inl e, w')"
  "m w = (Inr x, w') \<Longrightarrow> bindW m f w = f x w'"
  by (simp_all add: bindW_def)

lemma bindW_cases [consumes 1, case_names raised returned]:
  assumes "bindW m f w = (r, w'')"
  obtains e where "m w = (Inl e, w'')" and "r = Inl e"
  | x w' where "m w = (Inr x, w')" and "f x w' = (r, w'')"
  using assms by (cases "m w"; cases "fst (m w)") (auto simp: bindW_def)

lemma catchW_cases [consumes 1, case_names returned handled]:
  assumes "catchW m h w = (r, w'')"
  obtains x where "m w = (Inr x, w'')" and "r = Inr x"
  | e w' where "m w = (Inl e, w')" and "h e w' = (r, w'')"
  using assms by (cases "m w"; cases "fst (m w)") (auto simp: catchW_def)

lemma bindW_InrE:
  assumes "bindW m f w = (Inr y, w'')"
  obtains x w' where "m w = (Inr x, w')" and "f x w' = (Inr y, w'')"
  using assms by (auto simp: bindW_def split: prod.splits sum.splits)

lemma thenW_InrE:
  assumes "thenW m k w = (Inr y, w'')"
  obtains w' where "m w = (Inr (), w')" and "k w' = (Inr y, w'')"
  using assms unfolding thenW_def by (auto elim: bindW_InrE)

lemma whenW_Inr: "whenW c e w = (Inr u, w') \<longleftrightarrow> \<not> c \<and> w' = w"
  by (auto simp: whenW_def)

text \<open>
  A property of worlds every call of a program keeps, whatever it returns. The rules follow the
  way the program is put together.
\<close>

definition keeps :: "('w \<Rightarrow> bool) \<Rightarrow> ('w, 'e, 'a) io \<Rightarrow> bool" where
  "keeps P m \<longleftrightarrow> (\<forall>w r w'. P w \<longrightarrow> m w = (r, w') \<longrightarrow> P w')"

named_theorems keeps_rules \<open>introduction rules for preserved properties of the world\<close>

lemma keepsI: "(\<And>w r w'. P w \<Longrightarrow> m w = (r, w') \<Longrightarrow> P w') \<Longrightarrow> keeps P m"
  by (auto simp: keeps_def)

lemma keepsD: "keeps P m \<Longrightarrow> P w \<Longrightarrow> m w = (r, w') \<Longrightarrow> P w'"
  by (auto simp: keeps_def)

lemma keeps_pure [keeps_rules]:
  "keeps P (returnW x)" "keeps P (raiseW e)" "keeps P (liftW r)" "keeps P (whenW c e)"
  by (auto simp: keeps_def whenW_def)

lemma keeps_bindW [keeps_rules]:
  assumes "keeps P m" and "\<And>x. keeps P (f x)"
  shows "keeps P (bindW m f)"
proof (rule keepsI)
  fix w r w' assume p: "P w" and b: "bindW m f w = (r, w')"
  obtain r1 w1 where m: "m w = (r1, w1)" by (cases "m w")
  then have p1: "P w1" using assms(1) p by (rule keepsD [rotated 2])
  show "P w'"
  proof (cases r1)
    case (Inl e)
    then show ?thesis using b m p1 by (simp add: bindW_def)
  next
    case (Inr x)
    then have "f x w1 = (r, w')" using b m by (simp add: bindW_def)
    then show ?thesis by (rule keepsD [OF assms(2) p1])
  qed
qed

lemma keeps_thenW [keeps_rules]: "keeps P m \<Longrightarrow> keeps P k \<Longrightarrow> keeps P (thenW m k)"
  unfolding thenW_def by (rule keeps_bindW)

lemma keeps_catchW [keeps_rules]:
  assumes "keeps P m" and "\<And>e. keeps P (h e)"
  shows "keeps P (catchW m h)"
proof (rule keepsI)
  fix w r w' assume p: "P w" and b: "catchW m h w = (r, w')"
  obtain r1 w1 where m: "m w = (r1, w1)" by (cases "m w")
  then have p1: "P w1" using assms(1) p by (rule keepsD [rotated 2])
  show "P w'"
  proof (cases r1)
    case (Inl e)
    then have "h e w1 = (r, w')" using b m by (simp add: catchW_def)
    then show ?thesis by (rule keepsD [OF assms(2) p1])
  next
    case (Inr x)
    then show ?thesis using b m p1 by (simp add: catchW_def)
  qed
qed

lemma keeps_if [keeps_rules]: "keeps P m \<Longrightarrow> keeps P k \<Longrightarrow> keeps P (if c then m else k)"
  by simp

text \<open>The exceptions a program can raise, by the same rules.\<close>

definition raises_only :: "('e \<Rightarrow> bool) \<Rightarrow> ('w, 'e, 'a) io \<Rightarrow> bool" where
  "raises_only E m \<longleftrightarrow> (\<forall>w e w'. m w = (Inl e, w') \<longrightarrow> E e)"

named_theorems raises_rules \<open>introduction rules for the exceptions of a program\<close>

lemma raises_onlyI: "(\<And>w e w'. m w = (Inl e, w') \<Longrightarrow> E e) \<Longrightarrow> raises_only E m"
  by (auto simp: raises_only_def)

lemma raises_onlyD: "raises_only E m \<Longrightarrow> m w = (Inl e, w') \<Longrightarrow> E e"
  by (auto simp: raises_only_def)

lemma raises_pure [raises_rules]:
  "raises_only E (returnW x)" "E e \<Longrightarrow> raises_only E (raiseW e)" "E e \<Longrightarrow> raises_only E (whenW c e)"
  "(\<And>e. r = Inl e \<Longrightarrow> E e) \<Longrightarrow> raises_only E (liftW r)"
  by (auto simp: raises_only_def whenW_def split: if_splits)

lemma raises_bindW [raises_rules]:
  "raises_only E m \<Longrightarrow> (\<And>x. raises_only E (f x)) \<Longrightarrow> raises_only E (bindW m f)"
  unfolding raises_only_def by (blast elim!: bindW_cases)

lemma raises_catchW:
  "raises_only F m \<Longrightarrow> (\<And>e. F e \<Longrightarrow> raises_only E (h e)) \<Longrightarrow> raises_only E (catchW m h)"
  unfolding raises_only_def by (blast elim!: catchW_cases)

lemma raises_thenW [raises_rules]: "raises_only E m \<Longrightarrow> raises_only E k \<Longrightarrow> raises_only E (thenW m k)"
  unfolding thenW_def by (rule raises_bindW)

lemma raises_if [raises_rules]: "raises_only E m \<Longrightarrow> raises_only E k \<Longrightarrow> raises_only E (if c then m else k)"
  by simp

section \<open>The clock and the stream\<close>

text \<open>What one arrival is: bytes (none at all when the peer has closed), or a failure.\<close>

datatype arrival = Data bytes | Fails

record wire =
  readings :: "rat list"
  now :: rat
  arrivals :: "arrival list"
  sends :: "bool list"
  sent :: "bytes list"

text \<open>\<open>time.monotonic()\<close>: never goes back, and stands still when no reading is left.\<close>

definition monotonic :: "'z wire_scheme \<Rightarrow> rat \<times> 'z wire_scheme" where
  "monotonic w = (case readings w of
      [] \<Rightarrow> (now w, w)
    | t # ts \<Rightarrow> (max (now w) t, w\<lparr>readings := ts, now := max (now w) t\<rparr>))"

text \<open>
  \<open>recv(n)\<close>: at most \<open>n\<close> bytes of the next arrival, the rest stays for the next call;
  \<open>None\<close> is an \<open>OSError\<close>, which the expiry of the socket's time limit is too.
\<close>

definition recv :: "nat \<Rightarrow> 'z wire_scheme \<Rightarrow> bytes option \<times> 'z wire_scheme" where
  "recv n w = (case arrivals w of
      [] \<Rightarrow> (None, w)
    | Fails # as \<Rightarrow> (None, w\<lparr>arrivals := as\<rparr>)
    | Data bs # as \<Rightarrow> (Some (take n bs),
        w\<lparr>arrivals := (if length bs \<le> n then as else Data (drop n bs) # as)\<rparr>))"

text \<open>\<open>sendall(bs)\<close>, true when it succeeds.\<close>

definition sendall :: "bytes \<Rightarrow> 'z wire_scheme \<Rightarrow> bool \<times> 'z wire_scheme" where
  "sendall bs w = (case sends w of
      False # ss \<Rightarrow> (False, w\<lparr>sends := ss\<rparr>)
    | True # ss \<Rightarrow> (True, w\<lparr>sends := ss, sent := sent w @ [bs]\<rparr>)
    | [] \<Rightarrow> (True, w\<lparr>sent := sent w @ [bs]\<rparr>))"

text \<open>What is still to arrive; every read of a non-empty chunk makes it smaller.\<close>

primrec arrival_size :: "arrival \<Rightarrow> nat" where
  "arrival_size (Data bs) = Suc (length bs)"
| "arrival_size Fails = 1"

definition to_come :: "'z wire_scheme \<Rightarrow> nat" where
  "to_come w = sum_list (map arrival_size (arrivals w))"

primrec arrival_bytes :: "arrival \<Rightarrow> bytes" where
  "arrival_bytes (Data bs) = bs"
| "arrival_bytes Fails = []"

definition incoming :: "'z wire_scheme \<Rightarrow> bytes" where
  "incoming w = concat (map arrival_bytes (arrivals w))"

lemma monotonic_snd [simp]:
  "arrivals (snd (monotonic w)) = arrivals w" "sent (snd (monotonic w)) = sent w"
  "sends (snd (monotonic w)) = sends w" "wire.more (snd (monotonic w)) = wire.more w"
  "now (snd (monotonic w)) = fst (monotonic w)"
  by (cases "readings w"; simp add: monotonic_def)+

lemma sendall_snd [simp]:
  "arrivals (snd (sendall bs w)) = arrivals w" "readings (snd (sendall bs w)) = readings w"
  "now (snd (sendall bs w)) = now w" "wire.more (snd (sendall bs w)) = wire.more w"
  "sent (snd (sendall bs w)) = sent w @ (if fst (sendall bs w) then [bs] else [])"
  by (cases "sends w"; (cases "hd (sends w)")?; simp add: sendall_def)+

lemma recv_snd [simp]:
  "sent (snd (recv n w)) = sent w" "now (snd (recv n w)) = now w"
  "readings (snd (recv n w)) = readings w" "sends (snd (recv n w)) = sends w"
  "wire.more (snd (recv n w)) = wire.more w"
  by (cases "arrivals w"; (cases "hd (arrivals w)")?; simp add: recv_def)+

text \<open>The same facts of a call whose result is named.\<close>

lemma monotonic_frame:
  assumes "monotonic w = (t, w')"
  shows "arrivals w' = arrivals w" and "sent w' = sent w" and "sends w' = sends w"
    and "wire.more w' = wire.more w" and "now w' = t" and "now w \<le> t"
proof -
  from assms have "w' = snd (monotonic w)" and "t = fst (monotonic w)" by simp_all
  then show "arrivals w' = arrivals w" and "sent w' = sent w" and "sends w' = sends w"
    and "wire.more w' = wire.more w" and "now w' = t" by simp_all
  show "now w \<le> t" using assms by (cases "readings w") (auto simp: monotonic_def)
qed

lemma sendall_frame:
  assumes "sendall bs w = (ok, w')"
  shows "arrivals w' = arrivals w" and "readings w' = readings w" and "now w' = now w"
    and "wire.more w' = wire.more w" and "sent w' = sent w @ (if ok then [bs] else [])"
proof -
  from assms have "w' = snd (sendall bs w)" and "ok = fst (sendall bs w)" by simp_all
  then show "arrivals w' = arrivals w" and "readings w' = readings w" and "now w' = now w"
    and "wire.more w' = wire.more w" and "sent w' = sent w @ (if ok then [bs] else [])" by simp_all
qed

lemma recv_frame:
  assumes "recv n w = (r, w')"
  shows "sent w' = sent w" and "now w' = now w" and "readings w' = readings w"
    and "sends w' = sends w" and "wire.more w' = wire.more w"
proof -
  from assms have "w' = snd (recv n w)" by simp
  then show "sent w' = sent w" and "now w' = now w" and "readings w' = readings w"
    and "sends w' = sends w" and "wire.more w' = wire.more w" by simp_all
qed

lemma recv_Some:
  assumes "recv n w = (Some bs, w')"
  shows "length bs \<le> n" and "incoming w = bs @ incoming w'" and "bs \<noteq> [] \<Longrightarrow> to_come w' < to_come w"
proof -
  from assms obtain ds as where a: "arrivals w = Data ds # as"
    by (auto simp: recv_def split: list.splits arrival.splits)
  show "length bs \<le> n" and "incoming w = bs @ incoming w'" and "bs \<noteq> [] \<Longrightarrow> to_come w' < to_come w"
    using assms a by (auto simp: recv_def incoming_def to_come_def split: if_splits)
qed

lemma recv_to_come: "recv n w = (r, w') \<Longrightarrow> to_come w' \<le> to_come w"
  by (cases "arrivals w"; (cases "hd (arrivals w)")?) (auto simp: recv_def to_come_def)

lemma frame_to_come:
  "monotonic w = (t, w') \<Longrightarrow> to_come w' = to_come w"
  "sendall bs w = (ok, w') \<Longrightarrow> to_come w' = to_come w"
  "monotonic w = (t, w') \<Longrightarrow> incoming w' = incoming w"
  "sendall bs w = (ok, w') \<Longrightarrow> incoming w' = incoming w"
  by (simp_all only: to_come_def incoming_def monotonic_frame sendall_frame)

end
