(* ===== verification/PyNumber.thy ===== *)
theory PyNumber
  imports PyValue
begin

text \<open>
  \<open>int()\<close> and \<open>float()\<close> on the values that reach them. The conversion of a decimal text to the
  nearest float is an argument \<open>tf\<close>: only comparisons of its result with bounds matter.
\<close>

datatype number_error = NotANumber | WrongType | TooLarge

text \<open>
  The digits of an integer literal: groups of decimal digits separated by single underscores, at
  most 4300 of them.
\<close>

definition digit_groups :: "string \<Rightarrow> string option" where
  "digit_groups s = (let groups = split_on (CHR ''_'') s in
     if list_all (\<lambda>g. g \<noteq> [] \<and> list_all is_ascii_digit g) groups \<and> length (concat groups) \<le> 4300
     then Some (concat groups) else None)"

definition parse_int :: "string \<Rightarrow> int option" where
  "parse_int s = (let t = strip s in
     if startswith t ''-'' then map_option (\<lambda>g. - int (read_nat g)) (digit_groups (tl t))
     else if startswith t ''+'' then map_option (\<lambda>g. int (read_nat g)) (digit_groups (tl t))
     else map_option (\<lambda>g. int (read_nat g)) (digit_groups t))"

definition truncate_rat :: "rat \<Rightarrow> int" where
  "truncate_rat r = (if 0 \<le> r then \<lfloor>r\<rfloor> else \<lceil>r\<rceil>)"

definition py_int :: "json \<Rightarrow> number_error + int" where
  "py_int v = (case v of
      JInt i \<Rightarrow> Inr i
    | JBool b \<Rightarrow> Inr (of_bool b)
    | JFloat (Finite r) \<Rightarrow> Inr (truncate_rat r)
    | JFloat NaN \<Rightarrow> Inl NotANumber
    | JFloat _ \<Rightarrow> Inl TooLarge
    | JStr s \<Rightarrow> (case parse_int s of Some i \<Rightarrow> Inr i | None \<Rightarrow> Inl NotANumber)
    | _ \<Rightarrow> Inl WrongType)"

text \<open>An integer that rounds to \<open>2 ^ 1024\<close> or more has no float.\<close>

definition py_float :: "(string \<Rightarrow> pyfloat option) \<Rightarrow> json \<Rightarrow> number_error + pyfloat" where
  "py_float tf v = (case v of
      JFloat x \<Rightarrow> Inr x
    | JInt i \<Rightarrow> if 2 ^ 1024 - 2 ^ 970 \<le> \<bar>i\<bar> then Inl TooLarge else Inr (Finite (of_int i))
    | JBool b \<Rightarrow> Inr (Finite (of_bool b))
    | JStr s \<Rightarrow> (case tf s of Some x \<Rightarrow> Inr x | None \<Rightarrow> Inl NotANumber)
    | _ \<Rightarrow> Inl WrongType)"

lemma digit_groups_show: "n < 10 ^ 4300 \<Longrightarrow> digit_groups (show_nat n) = Some (show_nat n)"
proof -
  assume n: "n < 10 ^ 4300"
  have d: "list_all is_ascii_digit (show_nat n)"
    using show_nat_digits by (simp add: list_all_iff)
  have "CHR ''_'' \<notin> set (show_nat n)"
    using d by (auto simp: list_all_iff is_ascii_digit_def ord_of_def)
  then show ?thesis
    using d length_show_nat_le [OF _ n] by (simp add: digit_groups_def split_on_clean)
qed

text \<open>The number \<open>int()\<close> reads from a plain decimal text.\<close>

lemma strip_digits:
  assumes "\<forall>c \<in> set s. \<not> is_space c"
  shows "strip s = s"
proof -
  have "dropWhile is_space t = t" if "\<forall>c \<in> set t. \<not> is_space c" for t
    using that by (cases t) auto
  from this [of s] this [of "rev s"] assms show ?thesis by (simp add: strip_def)
qed

lemma digit_not_space: "is_ascii_digit c \<Longrightarrow> \<not> is_space c"
  by (auto simp: is_ascii_digit_def is_space_def)

lemma parse_int_show:
  assumes "n < 10 ^ 4300"
  shows "parse_int (show_nat n) = Some (int n)"
proof -
  have s: "strip (show_nat n) = show_nat n"
    using show_nat_digits digit_not_space by (intro strip_digits) blast
  obtain c cs where n: "show_nat n = c # cs" by (cases "show_nat n") auto
  then have "is_ascii_digit c" using show_nat_digits [of n] by simp
  then have "c \<noteq> CHR ''-''" and "c \<noteq> CHR ''+''" by (auto simp: is_ascii_digit_def ord_of_def)
  then have "parse_int (c # cs) = map_option (\<lambda>g. int (read_nat g)) (digit_groups (c # cs))"
    using s [unfolded n] by (simp add: parse_int_def)
  then show ?thesis using digit_groups_show [OF assms] by (simp add: n [symmetric] read_nat_show)
qed

end
