(* ===== verification/Telnet.thy ===== *)
theory Telnet
  imports Wire PyNumber StoreCore
begin

text \<open>
  The generic Telnet adapter, \<open>app/dal/device/telnet_client.py\<close>, with the credential lookup of
  \<open>app/dal/device/credentials.py\<close>: the negotiator that takes option requests out of the byte
  stream and refuses them, reads up to a mark, the login, and the commands.
\<close>

section \<open>The negotiator\<close>

definition IAC :: byte where "IAC = 0xFF"
definition DONT :: byte where "DONT = 0xFE"
definition DO :: byte where "DO = 0xFD"
definition WONT :: byte where "WONT = 0xFC"
definition WILL :: byte where "WILL = 0xFB"
definition SB :: byte where "SB = 0xFA"
definition SE :: byte where "SE = 0xF0"

lemmas telnet_bytes = IAC_def DONT_def DO_def WONT_def WILL_def SB_def SE_def

datatype negotiator_state = Normal | GotIac | GotVerb | GotSb | GotSbIac

record negotiator =
  ng_state :: negotiator_state
  pending_verb :: byte

definition fresh_negotiator :: negotiator where
  "fresh_negotiator = \<lparr>ng_state = Normal, pending_verb = 0\<rparr>"

text \<open>What \<open>_reply\<close> sends: the refusal of a request, nothing to a refusal.\<close>

definition refusal :: "byte \<Rightarrow> byte \<Rightarrow> bytes option" where
  "refusal verb option =
     (if verb = DO then Some [IAC, WONT, option]
      else if verb = WILL then Some [IAC, DONT, option]
      else None)"

definition reply :: "byte \<Rightarrow> byte \<Rightarrow> 'z wire_scheme \<Rightarrow> 'z wire_scheme" where
  "reply verb option w = (case refusal verb option of
      None \<Rightarrow> w
    | Some bs \<Rightarrow> snd (sendall bs w))"

text \<open>One turn of the loop of \<open>feed\<close>: the bytes it lets through, and the next state.\<close>

definition feed_byte ::
    "byte \<Rightarrow> negotiator \<Rightarrow> 'z wire_scheme \<Rightarrow> bytes \<times> negotiator \<times> 'z wire_scheme" where
  "feed_byte b ng w = (case ng_state ng of
      Normal \<Rightarrow> if b = IAC then ([], ng\<lparr>ng_state := GotIac\<rparr>, w) else ([b], ng, w)
    | GotIac \<Rightarrow>
        if b = IAC then ([IAC], ng\<lparr>ng_state := Normal\<rparr>, w)
        else if b \<in> {DO, DONT, WILL, WONT} then ([], ng\<lparr>ng_state := GotVerb, pending_verb := b\<rparr>, w)
        else if b = SB then ([], ng\<lparr>ng_state := GotSb\<rparr>, w)
        else ([], ng\<lparr>ng_state := Normal\<rparr>, w)
    | GotVerb \<Rightarrow> ([], ng\<lparr>ng_state := Normal\<rparr>, reply (pending_verb ng) b w)
    | GotSb \<Rightarrow> if b = IAC then ([], ng\<lparr>ng_state := GotSbIac\<rparr>, w) else ([], ng, w)
    | GotSbIac \<Rightarrow> if b = SE then ([], ng\<lparr>ng_state := Normal\<rparr>, w)
        else ([], ng\<lparr>ng_state := GotSb\<rparr>, w))"

primrec feed :: "bytes \<Rightarrow> negotiator \<Rightarrow> 'z wire_scheme \<Rightarrow> bytes \<times> negotiator \<times> 'z wire_scheme" where
  "feed [] ng w = ([], ng, w)"
| "feed (b # bs) ng w =
     (let (out, ng', w') = feed_byte b ng w; (rest, ng'', w'') = feed bs ng' w'
      in (out @ rest, ng'', w''))"

section \<open>The client\<close>

datatype read_stop = ReadTimeout | ReadFailed | ReadClosed | ReadOverflow

datatype telnet_reason =
    InvalidTelnetPort | InvalidTelnetTimeout | TelnetConnectFailed | TelnetAuthFailed
  | TelnetLoginFailed | NotAuthenticated | TelnetCommandFailed | NotSupported string

text \<open>
  \<open>TelnetReadError\<close> carries the bytes read so far; \<open>OSError\<close> is a failed send;
  \<open>UndefinedValue\<close> is what \<open>decouple\<close> raises for a missing setting, and \<open>PyRaised\<close> any other
  exception, by its class.
\<close>

datatype telnet_error =
    TelnetReadError read_stop bytes | OSError | TelnetGatewayError telnet_reason
  | UndefinedValue | PyRaised string

text \<open>
  What does not change during a session: the metadata of the device and the settings of the
  environment, with the conversions the client uses on them.
\<close>

record telnet_client =
  router_info :: dict
  setting :: "string \<Rightarrow> string option"
  text_float :: "string \<Rightarrow> pyfloat option"
  to_text :: services
  utf8_ignore :: "bytes \<Rightarrow> string"

text \<open>
  A session: the stream of the socket, whether there is one, its negotiator, whether the login
  succeeded, and how the coming connection attempts end: refused, or with a new stream.
\<close>

record telnet = wire +
  socket_open :: bool
  session_negotiator :: "negotiator option"
  authenticated :: bool
  dials :: "arrival list option list"

type_synonym 'a telnet_call = "(telnet, telnet_error, 'a) io"

definition safe_port :: "json \<Rightarrow> int \<Rightarrow> telnet_error + int" where
  "safe_port v fallback = (if v = JNull then Inr fallback
     else case py_int v of
       Inl TooLarge \<Rightarrow> Inl (PyRaised ''OverflowError'')
     | Inl _ \<Rightarrow> Inl (TelnetGatewayError InvalidTelnetPort)
     | Inr port \<Rightarrow> if 1 \<le> port \<and> port \<le> 65535 then Inr port
         else Inl (TelnetGatewayError InvalidTelnetPort))"

definition telnet_port :: "telnet_client \<Rightarrow> telnet_error + int" where
  "telnet_port c = safe_port (dget (router_info c) ''telnet_port'') 23"

definition timeout_of :: "telnet_client \<Rightarrow> telnet_error + rat" where
  "timeout_of c =
     (let raw = (case setting c ''ROUTER_TELNET_TIMEOUT'' of Some s \<Rightarrow> s | None \<Rightarrow> ''5'') in
      case text_float c raw of
        Some (Finite r) \<Rightarrow> if r \<le> 0 then Inl (TelnetGatewayError InvalidTelnetTimeout) else Inr r
      | _ \<Rightarrow> Inl (TelnetGatewayError InvalidTelnetTimeout))"

definition credential :: "telnet_client \<Rightarrow> string \<Rightarrow> string \<Rightarrow> telnet_error + string" where
  "credential c field name =
     (let own = dget (router_info c) field in
      if truthy own then Inr (py_str (to_text c) own)
      else case setting c name of Some s \<Rightarrow> Inr s | None \<Rightarrow> Inl UndefinedValue)"

definition resolve_credentials :: "telnet_client \<Rightarrow> telnet_error + (string \<times> string)" where
  "resolve_credentials c =
     bindE (credential c ''username'' ''ROUTER_USERNAME'') (\<lambda>username.
     bindE (credential c ''password'' ''ROUTER_PASSWORD'') (\<lambda>password.
     Inr (username, password)))"

section \<open>Reads\<close>

definition max_response_bytes :: nat where
  "max_response_bytes = 8192"

definition read_clock :: "rat telnet_call" where
  "read_clock s = (let (t, s') = monotonic s in (Inr t, s'))"

text \<open>
  \<open>_recv_until\<close>. The loop ends because a chunk that arrives is not empty and the stream answers
  finitely often; a silent peer is a read that fails when its time is over.
\<close>

function recv_loop :: "bytes \<Rightarrow> rat \<Rightarrow> nat \<Rightarrow> bytes \<Rightarrow> negotiator \<Rightarrow> bytes telnet_call" where
  "recv_loop mark deadline limit buf ng s =
     (if sublist mark buf then (Inr buf, s\<lparr>session_negotiator := Some ng\<rparr>)
      else let (t, s1) = monotonic s in
      if deadline - t \<le> 0 then
        (Inl (TelnetReadError ReadTimeout buf), s1\<lparr>session_negotiator := Some ng\<rparr>)
      else case recv 1024 s1 of
        (None, s2) \<Rightarrow> (Inl (TelnetReadError ReadFailed buf), s2\<lparr>session_negotiator := Some ng\<rparr>)
      | (Some chunk, s2) \<Rightarrow>
          if chunk = [] then
            (Inl (TelnetReadError ReadClosed buf), s2\<lparr>session_negotiator := Some ng\<rparr>)
          else let (out, ng', s3) = feed chunk ng s2 in
          if limit < length (buf @ out) then
            (Inl (TelnetReadError ReadOverflow (buf @ out)), s3\<lparr>session_negotiator := Some ng'\<rparr>)
          else recv_loop mark deadline limit (buf @ out) ng' s3)"
  by pat_completeness auto

lemma reply_frame:
  "arrivals (reply verb option w) = arrivals w" "now (reply verb option w) = now w"
  "readings (reply verb option w) = readings w" "wire.more (reply verb option w) = wire.more w"
  by (simp_all add: reply_def split: option.splits)

lemma feed_byte_frame:
  assumes "feed_byte b ng w = (out, ng', w')"
  shows "arrivals w' = arrivals w" and "now w' = now w" and "readings w' = readings w"
    and "wire.more w' = wire.more w"
  using assms
  by (cases "ng_state ng"; auto simp: feed_byte_def reply_frame split: if_splits)+

lemma feed_frame:
  assumes "feed bs ng w = (out, ng', w')"
  shows "arrivals w' = arrivals w \<and> now w' = now w \<and> readings w' = readings w \<and> wire.more w' = wire.more w"
  using assms
proof (induction bs arbitrary: ng w out ng' w')
  case Nil
  then show ?case by simp
next
  case (Cons b bs)
  obtain o1 n1 w1 where b: "feed_byte b ng w = (o1, n1, w1)" by (cases "feed_byte b ng w")
  obtain o2 n2 w2 where r: "feed bs n1 w1 = (o2, n2, w2)" by (cases "feed bs n1 w1")
  have "w' = w2" using Cons.prems b r by simp
  then show ?case using Cons.IH [OF r] feed_byte_frame [OF b] by simp
qed

lemma recv_turn_decreases:
  assumes m: "(t, s1) = monotonic s" and r: "(Some chunk, s2) = recv n s1" and ne: "chunk \<noteq> []"
    and f: "(out, ng', s3) = feed chunk ng s2"
  shows "to_come s3 < to_come s"
proof -
  have "to_come s1 = to_come s" by (rule frame_to_come(1) [OF m [symmetric]])
  moreover have "to_come s2 < to_come s1" by (rule recv_Some(3) [OF r [symmetric] ne])
  moreover have "to_come s3 = to_come s2"
    using feed_frame [OF f [symmetric]] by (simp add: to_come_def)
  ultimately show ?thesis by simp
qed

termination recv_loop
  by (relation "measure (\<lambda>(_, _, _, _, _, s). to_come s)")
    (simp, clarsimp, erule (3) recv_turn_decreases)

declare recv_loop.simps [simp del]

definition recv_until :: "bytes \<Rightarrow> rat \<Rightarrow> bytes telnet_call" where
  "recv_until mark deadline s = (case session_negotiator s of
      None \<Rightarrow> (Inl (PyRaised ''AssertionError''), s)
    | Some ng \<Rightarrow> recv_loop mark deadline max_response_bytes [] ng s)"

section \<open>Login and commands\<close>

definition tn_send :: "bytes \<Rightarrow> unit telnet_call" where
  "tn_send bs s = (case sendall bs s of (True, s') \<Rightarrow> (Inr (), s') | (False, s') \<Rightarrow> (Inl OSError, s'))"

definition tn_close :: "unit telnet_call" where
  "tn_close s = (Inr (), if socket_open s
     then s\<lparr>socket_open := False, session_negotiator := None, authenticated := False\<rparr> else s)"

text \<open>\<open>self._recv_until(mark, time.monotonic() + self._timeout())\<close>.\<close>

definition await :: "telnet_client \<Rightarrow> string \<Rightarrow> bytes telnet_call" where
  "await c mark = bindW read_clock (\<lambda>t. bindW (liftW (timeout_of c)) (\<lambda>d.
     recv_until (ascii mark) (t + d)))"

definition crlf_bytes :: bytes where
  "crlf_bytes = [13, 10]"

text \<open>One turn of the login: wait for the prompt, send the line.\<close>

definition answer :: "telnet_client \<Rightarrow> string \<Rightarrow> string \<Rightarrow> unit telnet_call" where
  "answer c prompt line = bindW (await c prompt) (\<lambda>_. tn_send (utf8 line @ crlf_bytes))"

definition login_dialogue :: "telnet_client \<Rightarrow> string \<Rightarrow> string \<Rightarrow> unit telnet_call" where
  "login_dialogue c username password =
     bindW (answer c ''Username:'' username) (\<lambda>_.
     bindW (answer c ''Password:'' password) (\<lambda>_.
     bindW (await c ''> '') (\<lambda>_. returnW ())))"

definition login_failed :: "telnet_error \<Rightarrow> unit telnet_call" where
  "login_failed e = (case e of
      TelnetReadError stop partial \<Rightarrow> bindW tn_close (\<lambda>_.
        raiseW (TelnetGatewayError (if sublist (ascii ''incorrect'') (lower_bytes partial)
          then TelnetAuthFailed else TelnetLoginFailed)))
    | OSError \<Rightarrow> bindW tn_close (\<lambda>_. raiseW (TelnetGatewayError TelnetLoginFailed))
    | _ \<Rightarrow> raiseW e)"

definition tn_login :: "telnet_client \<Rightarrow> unit telnet_call" where
  "tn_login c = bindW (liftW (resolve_credentials c)) (\<lambda>(username, password).
     bindW (catchW (login_dialogue c username password) login_failed) (\<lambda>_.
     (\<lambda>s. (Inr (), s\<lparr>authenticated := True\<rparr>))))"

definition open_socket :: "unit telnet_call" where
  "open_socket s = (case dials s of
      Some as # ds \<Rightarrow> (Inr (), s\<lparr>arrivals := as, dials := ds, socket_open := True,
        session_negotiator := Some fresh_negotiator\<rparr>)
    | None # ds \<Rightarrow> (Inl (TelnetGatewayError TelnetConnectFailed), s\<lparr>dials := ds\<rparr>)
    | [] \<Rightarrow> (Inl (TelnetGatewayError TelnetConnectFailed), s))"

definition tn_connect :: "telnet_client \<Rightarrow> unit telnet_call" where
  "tn_connect c s = (if socket_open s then (Inr (), s)
     else bindW (liftW (timeout_of c)) (\<lambda>_. bindW open_socket (\<lambda>_. tn_login c)) s)"

definition command_failed :: "telnet_error \<Rightarrow> 'a telnet_call" where
  "command_failed e = (case e of
      TelnetReadError _ _ \<Rightarrow> bindW tn_close (\<lambda>_. raiseW (TelnetGatewayError TelnetCommandFailed))
    | OSError \<Rightarrow> bindW tn_close (\<lambda>_. raiseW (TelnetGatewayError TelnetCommandFailed))
    | _ \<Rightarrow> raiseW e)"

definition run_command :: "telnet_client \<Rightarrow> string \<Rightarrow> string telnet_call" where
  "run_command c command = bindW (tn_connect c) (\<lambda>_.
     bindW (\<lambda>s. whenW (\<not> authenticated s \<or> \<not> socket_open s) (TelnetGatewayError NotAuthenticated) s) (\<lambda>_.
     bindW (catchW (bindW (tn_send (utf8 command @ crlf_bytes)) (\<lambda>_. await c ''> '')) command_failed) (\<lambda>raw.
     returnW (utf8_ignore c raw))))"

definition show_interface_command :: "string \<Rightarrow> string" where
  "show_interface_command name = (if name \<noteq> [] then ''show interface '' @ name else ''show interface'')"

definition show_interface :: "telnet_client \<Rightarrow> string \<Rightarrow> dict telnet_call" where
  "show_interface c name = (let command = show_interface_command name in
     bindW (run_command c command) (\<lambda>output.
     returnW [(''command'', JStr command), (''output'', JStr output)]))"

definition unsupported :: "string \<Rightarrow> 'a telnet_call" where
  "unsupported operation = raiseW (TelnetGatewayError (NotSupported operation))"

text \<open>The structured operations all end in \<open>_unsupported\<close>.\<close>

definition unsupported_operations :: "string list" where
  "unsupported_operations = [''get_config'', ''set_config'', ''get_operational_state'',
     ''configure_interface'', ''get_bgp'', ''set_bgp'', ''configure_firewall'']"

definition structured_operation :: "string \<Rightarrow> string telnet_call option" where
  "structured_operation name =
     (if name \<in> set unsupported_operations then Some (unsupported name) else None)"

end
