(* ===== verification/TelnetLaws.thy ===== *)
theory TelnetLaws
  imports Telnet
begin

text \<open>
  The negotiator agrees with a reader of the whole stream however the stream is cut into chunks; a
  read returns only what has its mark and stays within its bounds; the login sends each credential
  only in its turn, and a session is never left half open by a read that fails.
\<close>

section \<open>The negotiator and a reader of whole streams\<close>

text \<open>
  RFC 854 read off a whole stream: text, doubled \<open>IAC\<close>, requests with their option, and
  subnegotiations up to \<open>IAC SE\<close>. An unfinished item at the end is not an item yet.
\<close>

datatype telnet_item = Text byte | Request byte byte

fun after_sub :: "bytes \<Rightarrow> bytes option" where
  "after_sub (b # c # r) =
     (if b = IAC then if c = SE then Some r else after_sub r else after_sub (c # r))"
| "after_sub _ = None"

lemma after_sub_shorter: "after_sub bs = Some r \<Longrightarrow> length r < length bs"
  by (induction bs rule: after_sub.induct) (auto split: if_splits)

function telnet_items :: "bytes \<Rightarrow> telnet_item list" where
  "telnet_items [] = []"
| "telnet_items [b] = (if b = IAC then [] else [Text b])"
| "telnet_items (b # c # r) =
     (if b \<noteq> IAC then Text b # telnet_items (c # r)
      else if c = IAC then Text IAC # telnet_items r
      else if c \<in> {DO, DONT, WILL, WONT}
        then (case r of [] \<Rightarrow> [] | option # rest \<Rightarrow> Request c option # telnet_items rest)
      else if c = SB then (case after_sub r of None \<Rightarrow> [] | Some rest \<Rightarrow> telnet_items rest)
      else telnet_items r)"
  by pat_completeness auto

termination
  by (relation "measure length") (auto dest: after_sub_shorter)

primrec item_text :: "telnet_item \<Rightarrow> bytes" where
  "item_text (Text b) = [b]"
| "item_text (Request _ _) = []"

primrec item_reply :: "telnet_item \<Rightarrow> bytes list" where
  "item_reply (Text b) = []"
| "item_reply (Request verb option) = (case refusal verb option of None \<Rightarrow> [] | Some bs \<Rightarrow> [bs])"

definition clean_text :: "bytes \<Rightarrow> bytes" where
  "clean_text bs = concat (map item_text (telnet_items bs))"

definition refusals :: "bytes \<Rightarrow> bytes list" where
  "refusals bs = concat (map item_reply (telnet_items bs))"

text \<open>Attempts to send one message after the other, whether they succeed or not.\<close>

primrec send_each :: "bytes list \<Rightarrow> 'z wire_scheme \<Rightarrow> 'z wire_scheme" where
  "send_each [] w = w"
| "send_each (bs # bss) w = send_each bss (snd (sendall bs w))"

lemma reply_send_each: "reply verb option w = send_each (item_reply (Request verb option)) w"
  by (simp add: reply_def split: option.splits)

lemma send_each_append [simp]: "send_each (xs @ ys) w = send_each ys (send_each xs w)"
  by (induction xs arbitrary: w) auto

lemma sendall_succeeds: "False \<notin> set (sends w) \<Longrightarrow> fst (sendall bs w)"
  by (auto simp: sendall_def split: list.splits bool.splits)

lemma sendall_sends: "set (sends (snd (sendall bs w))) \<subseteq> set (sends w)"
  by (auto simp: sendall_def split: list.splits bool.splits)

lemma send_each_sent: "False \<notin> set (sends w) \<Longrightarrow> sent (send_each bss w) = sent w @ bss"
proof (induction bss arbitrary: w)
  case Nil
  then show ?case by simp
next
  case (Cons bs bss)
  have "False \<notin> set (sends (snd (sendall bs w)))" using Cons.prems sendall_sends [of bs w] by blast
  then show ?case using Cons.IH [of "snd (sendall bs w)"] sendall_succeeds [OF Cons.prems] by simp
qed

definition fed :: "bytes \<Rightarrow> negotiator \<Rightarrow> 'z wire_scheme \<Rightarrow> bytes \<times> 'z wire_scheme" where
  "fed bs ng w = (fst (feed bs ng w), snd (snd (feed bs ng w)))"

lemma fed_Nil [simp]: "fed [] ng w = ([], w)"
  by (simp add: fed_def)

lemma fed_step:
  "feed_byte b ng w = (out, ng', w') \<Longrightarrow> fed (b # bs) ng w = (out @ fst (fed bs ng' w'), snd (fed bs ng' w'))"
  by (simp add: fed_def Let_def split: prod.splits)

text \<open>What the first two bytes of an item do.\<close>

lemma fed_text: "ng_state ng = Normal \<Longrightarrow> b \<noteq> IAC \<Longrightarrow>
    fed (b # bs) ng w = (b # fst (fed bs ng w), snd (fed bs ng w))"
  using fed_step [of b ng w "[b]" ng w bs] by (simp add: feed_byte_def)

lemma fed_iac: "ng_state ng = Normal \<Longrightarrow> fed (IAC # bs) ng w = fed bs (ng\<lparr>ng_state := GotIac\<rparr>) w"
  using fed_step [of IAC ng w "[]" "ng\<lparr>ng_state := GotIac\<rparr>" w bs] by (simp add: feed_byte_def)

lemma fed_command:
  assumes "ng_state ng = GotIac"
  shows "fed (IAC # bs) ng w = (IAC # fst (fed bs (ng\<lparr>ng_state := Normal\<rparr>) w), snd (fed bs (ng\<lparr>ng_state := Normal\<rparr>) w))"
    and "verb \<in> {DO, DONT, WILL, WONT} \<Longrightarrow>
      fed (verb # bs) ng w = fed bs (ng\<lparr>ng_state := GotVerb, pending_verb := verb\<rparr>) w"
    and "fed (SB # bs) ng w = fed bs (ng\<lparr>ng_state := GotSb\<rparr>) w"
    and "c \<notin> {IAC, DO, DONT, WILL, WONT, SB} \<Longrightarrow> fed (c # bs) ng w = fed bs (ng\<lparr>ng_state := Normal\<rparr>) w"
proof -
  show "fed (IAC # bs) ng w = (IAC # fst (fed bs (ng\<lparr>ng_state := Normal\<rparr>) w), snd (fed bs (ng\<lparr>ng_state := Normal\<rparr>) w))"
    using fed_step [of IAC ng w "[IAC]" "ng\<lparr>ng_state := Normal\<rparr>" w bs] assms by (simp add: feed_byte_def)
  show "fed (SB # bs) ng w = fed bs (ng\<lparr>ng_state := GotSb\<rparr>) w"
    using fed_step [of SB ng w "[]" "ng\<lparr>ng_state := GotSb\<rparr>" w bs] assms
    by (simp add: feed_byte_def telnet_bytes)
  show "fed (verb # bs) ng w = fed bs (ng\<lparr>ng_state := GotVerb, pending_verb := verb\<rparr>) w"
    if "verb \<in> {DO, DONT, WILL, WONT}"
    using fed_step [of verb ng w "[]" "ng\<lparr>ng_state := GotVerb, pending_verb := verb\<rparr>" w bs] assms that
    by (auto simp: feed_byte_def telnet_bytes)
  show "fed (c # bs) ng w = fed bs (ng\<lparr>ng_state := Normal\<rparr>) w"
    if "c \<notin> {IAC, DO, DONT, WILL, WONT, SB}"
    using fed_step [of c ng w "[]" "ng\<lparr>ng_state := Normal\<rparr>" w bs] assms that
    by (simp add: feed_byte_def)
qed

lemma fed_option: "ng_state ng = GotVerb \<Longrightarrow> fed (option # bs) ng w =
    fed bs (ng\<lparr>ng_state := Normal\<rparr>) (send_each (item_reply (Request (pending_verb ng) option)) w)"
  using fed_step [of option ng w "[]" "ng\<lparr>ng_state := Normal\<rparr>" "reply (pending_verb ng) option w" bs]
  by (simp add: feed_byte_def reply_send_each del: item_reply.simps)

lemma fed_sub:
  assumes "ng_state ng = GotSb"
  shows "\<exists>ng'. ng_state ng' = Normal \<and>
    fed bs ng w = (case after_sub bs of None \<Rightarrow> ([], w) | Some r \<Rightarrow> fed r ng' w)"
  using assms
proof (induction bs arbitrary: ng rule: after_sub.induct [case_names pair nothing single])
  case (pair b c r)
  show ?case
  proof (cases "b = IAC")
    case False
    then have "fed (b # c # r) ng w = fed (c # r) ng w"
      using fed_step [of b ng w "[]" ng w] pair(3) by (simp add: feed_byte_def)
    then show ?thesis using pair(2) [OF False pair(3)] False by simp
  next
    case True
    let ?ng = "ng\<lparr>ng_state := GotSbIac\<rparr>"
    have a: "fed (b # c # r) ng w = fed (c # r) ?ng w"
      using fed_step [of b ng w "[]" ?ng w] pair(3) True by (simp add: feed_byte_def)
    show ?thesis
    proof (cases "c = SE")
      case True
      have "fed (c # r) ?ng w = fed r (?ng\<lparr>ng_state := Normal\<rparr>) w"
        using fed_step [of c ?ng w "[]" "?ng\<lparr>ng_state := Normal\<rparr>" w] True by (simp add: feed_byte_def)
      then show ?thesis using a True \<open>b = IAC\<close> by (intro exI [of _ "?ng\<lparr>ng_state := Normal\<rparr>"]) simp
    next
      case False
      have "fed (c # r) ?ng w = fed r (?ng\<lparr>ng_state := GotSb\<rparr>) w"
        using fed_step [of c ?ng w "[]" "?ng\<lparr>ng_state := GotSb\<rparr>" w] False by (simp add: feed_byte_def)
      then show ?thesis using a pair(1) [OF \<open>b = IAC\<close> False, of "?ng\<lparr>ng_state := GotSb\<rparr>"] \<open>b = IAC\<close> False
        by simp
    qed
  qed
next
  case nothing
  then show ?case by (auto intro: exI [of _ fresh_negotiator] simp: fresh_negotiator_def)
next
  case (single b)
  then have "fed [b] ng w = ([], w)"
    using fed_step [of b ng w "[]" _ w "[]"] by (cases "b = IAC") (auto simp: feed_byte_def)
  then show ?case by (auto intro: exI [of _ fresh_negotiator] simp: fresh_negotiator_def)
qed

lemma clean_text_simps:
  "clean_text [] = []" "refusals [] = []"
  "b \<noteq> IAC \<Longrightarrow> clean_text (b # bs) = b # clean_text bs" "b \<noteq> IAC \<Longrightarrow> refusals (b # bs) = refusals bs"
  by (cases bs; simp add: clean_text_def refusals_def)+

text \<open>Whatever is pending from earlier items, a stream read from the normal state is read off whole.\<close>

lemma fed_normal:
  "ng_state ng = Normal \<Longrightarrow> fed bs ng w = (clean_text bs, send_each (refusals bs) w)"
proof (induction bs arbitrary: ng w rule: telnet_items.induct)
  case 1
  then show ?case by (simp add: clean_text_simps)
next
  case (2 b)
  then show ?case
    by (cases "b = IAC") (simp_all add: fed_iac fed_text clean_text_def refusals_def)
next
  case (3 b c r)
  consider (plain) "b \<noteq> IAC" | (iac) "b = IAC" "c = IAC"
    | (verb) "b = IAC" "c \<noteq> IAC" "c \<in> {DO, DONT, WILL, WONT}"
    | (sub) "b = IAC" "c \<noteq> IAC" "c \<notin> {DO, DONT, WILL, WONT}" "c = SB"
    | (other) "b = IAC" "c \<notin> {IAC, DO, DONT, WILL, WONT, SB}" by blast
  then show ?case
  proof cases
    case plain
    then show ?thesis using "3.IH"(1) [OF plain "3.prems"] "3.prems" by (simp add: fed_text clean_text_simps)
  next
    case iac
    then show ?thesis using "3.IH"(2) [of "ng\<lparr>ng_state := Normal\<rparr>"] "3.prems"
      by (simp add: fed_iac fed_command clean_text_def refusals_def)
  next
    case verb
    then have v: "fed (b # c # r) ng w = fed r (ng\<lparr>ng_state := GotVerb, pending_verb := c\<rparr>) w"
      using "3.prems" by (simp add: fed_iac fed_command)
    show ?thesis
    proof (cases r)
      case Nil
      then show ?thesis using verb v by (auto simp: clean_text_def refusals_def)
    next
      case (Cons option rest)
      then show ?thesis using verb v "3.IH"(3) [of option rest "ng\<lparr>pending_verb := c, ng_state := Normal\<rparr>"]
        by (auto simp: fed_option clean_text_def refusals_def simp del: item_reply.simps)
    qed
  next
    case sub
    let ?ng = "ng\<lparr>ng_state := GotSb\<rparr>"
    have "fed (b # c # r) ng w = fed r ?ng w" using sub "3.prems" by (simp add: fed_iac fed_command)
    moreover obtain ng' where "ng_state ng' = Normal"
      and "fed r ?ng w = (case after_sub r of None \<Rightarrow> ([], w) | Some r \<Rightarrow> fed r ng' w)"
      using fed_sub [of ?ng] by auto
    ultimately show ?thesis using sub "3.IH"(4) [of _ ng']
      by (auto simp: clean_text_def refusals_def split: option.splits)
  next
    case other
    then show ?thesis using "3.IH"(5) [of "ng\<lparr>ng_state := Normal\<rparr>"] "3.prems"
      by (simp add: fed_iac fed_command clean_text_def refusals_def)
  qed
qed

lemma feed_append:
  "feed (xs @ ys) ng w = (let (a, ng1, w1) = feed xs ng w; (b, ng2, w2) = feed ys ng1 w1 in (a @ b, ng2, w2))"
  by (induction xs arbitrary: ng w) (auto split: prod.splits)

text \<open>The stream as the client reads it, chunk by chunk.\<close>

primrec feed_chunks :: "bytes list \<Rightarrow> negotiator \<Rightarrow> 'z wire_scheme \<Rightarrow> bytes \<times> negotiator \<times> 'z wire_scheme" where
  "feed_chunks [] ng w = ([], ng, w)"
| "feed_chunks (c # cs) ng w =
     (let (a, ng1, w1) = feed c ng w; (b, ng2, w2) = feed_chunks cs ng1 w1 in (a @ b, ng2, w2))"

lemma feed_chunks_concat: "feed_chunks cs ng w = feed (concat cs) ng w"
  by (induction cs arbitrary: ng w) (auto simp: feed_append split: prod.splits)

lemma refusals_refuse: "bs \<in> set (refusals stream) \<Longrightarrow>
    \<exists>option. bs = [IAC, WONT, option] \<or> bs = [IAC, DONT, option]"
proof -
  assume "bs \<in> set (refusals stream)"
  then obtain i where "bs \<in> set (item_reply i)" by (auto simp: refusals_def)
  then show ?thesis by (cases i) (auto simp: refusal_def split: if_splits)
qed

text \<open>
  C4. However the peer's stream is cut into chunks, the negotiator
  passes on exactly the text that a reader of the whole stream finds in it, sends exactly one
  refusal for each \<open>DO\<close> and \<open>WILL\<close> in the order of the requests, and sends nothing else: it never
  agrees to an option.
\<close>

theorem negotiation_matches_reference:
  assumes "feed_chunks chunks fresh_negotiator w = (out, ng, w')" and "False \<notin> set (sends w)"
  shows "out = clean_text (concat chunks) \<and> sent w' = sent w @ refusals (concat chunks)
    \<and> (\<forall>bs \<in> set (refusals (concat chunks)).
         \<exists>option. bs = [IAC, WONT, option] \<or> bs = [IAC, DONT, option])"
proof -
  have "fed (concat chunks) fresh_negotiator w = (out, w')"
    using assms(1) by (simp add: feed_chunks_concat fed_def)
  then have "out = clean_text (concat chunks)" and "w' = send_each (refusals (concat chunks)) w"
    by (simp_all add: fed_normal fresh_negotiator_def)
  then show ?thesis using send_each_sent [OF assms(2)] refusals_refuse by blast
qed

definition quiet_wire :: wire where
  "quiet_wire = \<lparr>readings = [], now = 0, arrivals = [], sends = [], sent = []\<rparr>"

theorem negotiation_matches_reference_witness:
  "feed_chunks [[72, 0xFF], [0xFD, 1, 105]] fresh_negotiator quiet_wire =
     ([72, 105], \<lparr>ng_state = Normal, pending_verb = 0xFD\<rparr>, quiet_wire\<lparr>sent := [[0xFF, 0xFC, 1]]\<rparr>)
   \<and> clean_text [72, 0xFF, 0xFD, 1, 105] = [72, 105]"
proof -
  have f: "feed_chunks [[72, 0xFF], [0xFD, 1, 105]] fresh_negotiator quiet_wire =
     ([72, 105], \<lparr>ng_state = Normal, pending_verb = 0xFD\<rparr>, quiet_wire\<lparr>sent := [[0xFF, 0xFC, 1]]\<rparr>)"
    by code_simp
  have "False \<notin> set (sends quiet_wire)" by code_simp
  from negotiation_matches_reference [OF f this] f show ?thesis by simp
qed

section \<open>What a read returns\<close>

text \<open>What the negotiator makes of a piece of the stream: the text and its next state.\<close>

definition reads_as :: "bytes \<Rightarrow> negotiator \<Rightarrow> bytes \<times> negotiator" where
  "reads_as raw ng = (fst (feed raw ng quiet_wire), fst (snd (feed raw ng quiet_wire)))"

lemma feed_byte_pure:
  "fst (feed_byte b ng v) = fst (feed_byte b ng w) \<and> fst (snd (feed_byte b ng v)) = fst (snd (feed_byte b ng w))"
  by (cases "ng_state ng") (auto simp: feed_byte_def)

lemma feed_pure:
  "fst (feed bs ng v) = fst (feed bs ng w) \<and> fst (snd (feed bs ng v)) = fst (snd (feed bs ng w))"
proof (induction bs arbitrary: ng v w)
  case Nil
  then show ?case by simp
next
  case (Cons b bs)
  obtain o1 n1 v1 where v: "feed_byte b ng v = (o1, n1, v1)" by (cases "feed_byte b ng v")
  then obtain w1 where w: "feed_byte b ng w = (o1, n1, w1)"
    using feed_byte_pure [of b ng v w] by (cases "feed_byte b ng w") auto
  show ?case using Cons.IH [of n1 v1 w1] v w by (simp add: Let_def case_prod_beta)
qed

lemma feed_reads_as: "feed raw ng w = (out, ng', w') \<Longrightarrow> reads_as raw ng = (out, ng')"
  using feed_pure [of raw ng w quiet_wire] by (simp add: reads_as_def)

lemma reads_as_Nil [simp]: "reads_as [] ng = ([], ng)"
  by (simp add: reads_as_def)

lemma reads_as_append:
  "reads_as xs ng = (a, ng1) \<Longrightarrow> reads_as ys ng1 = (b, ng2) \<Longrightarrow> reads_as (xs @ ys) ng = (a @ b, ng2)"
proof -
  assume x: "reads_as xs ng = (a, ng1)" and y: "reads_as ys ng1 = (b, ng2)"
  obtain w1 where fx: "feed xs ng quiet_wire = (a, ng1, w1)"
    using x by (cases "feed xs ng quiet_wire") (simp add: reads_as_def)
  obtain w2 where fy: "feed ys ng1 w1 = (b, ng2, w2)"
    using y feed_pure [of ys ng1 w1 quiet_wire] by (cases "feed ys ng1 w1") (simp add: reads_as_def)
  show ?thesis using feed_append [of xs ys ng quiet_wire] fx fy by (simp add: reads_as_def)
qed

lemma reads_as_normal: "ng_state ng = Normal \<Longrightarrow> fst (reads_as raw ng) = clean_text raw"
  using fed_normal [of ng raw quiet_wire] by (simp add: reads_as_def fed_def)

text \<open>Refusals are all the negotiator sends.\<close>

definition is_refusal :: "bytes \<Rightarrow> bool" where
  "is_refusal bs \<longleftrightarrow> (case bs of [a, b, _] \<Rightarrow> a = IAC \<and> b \<in> {WONT, DONT} | _ \<Rightarrow> False)"

definition only_refused :: "bytes list \<Rightarrow> bytes list \<Rightarrow> bool" where
  "only_refused old new \<longleftrightarrow> (\<exists>rs. new = old @ rs \<and> list_all is_refusal rs)"

lemma only_refused_refl [simp]: "only_refused xs xs"
  by (simp add: only_refused_def)

lemma only_refused_trans: "only_refused xs ys \<Longrightarrow> only_refused ys zs \<Longrightarrow> only_refused xs zs"
  by (auto simp: only_refused_def)

lemma reply_sent: "only_refused (sent w) (sent (reply verb option w))"
  by (auto simp: reply_def refusal_def only_refused_def is_refusal_def)

lemma feed_byte_sent: "feed_byte b ng w = (out, ng', w') \<Longrightarrow> only_refused (sent w) (sent w')"
  using reply_sent [of w "pending_verb ng" b]
  by (cases "ng_state ng") (auto simp: feed_byte_def split: if_splits)

lemma feed_sent: "feed bs ng w = (out, ng', w') \<Longrightarrow> only_refused (sent w) (sent w')"
proof (induction bs arbitrary: ng w out ng' w')
  case Nil
  then show ?case by simp
next
  case (Cons b bs)
  obtain o1 n1 w1 where b: "feed_byte b ng w = (o1, n1, w1)" by (cases "feed_byte b ng w")
  obtain o2 n2 w2 where r: "feed bs n1 w1 = (o2, n2, w2)" by (cases "feed bs n1 w1")
  have "w' = w2" using Cons.prems b r by simp
  then show ?case using Cons.IH [OF r] feed_byte_sent [OF b] by (blast intro: only_refused_trans)
qed

text \<open>The part of a session that no read touches.\<close>

definition same_link :: "telnet \<Rightarrow> telnet \<Rightarrow> bool" where
  "same_link s s' \<longleftrightarrow> socket_open s' = socket_open s \<and> authenticated s' = authenticated s
     \<and> dials s' = dials s \<and> only_refused (sent s) (sent s')"

lemma same_link_trans: "same_link s s' \<Longrightarrow> same_link s' s'' \<Longrightarrow> same_link s s''"
  by (auto simp: same_link_def intro: only_refused_trans)

lemma same_link_more:
  fixes s :: telnet
  shows "wire.more s' = wire.more s \<Longrightarrow> only_refused (sent s) (sent s') \<Longrightarrow> same_link s s'"
  by (cases s; cases s') (simp add: same_link_def)

text \<open>
  What a read leaves: it consumed some piece of the stream, the text it hands out is what the
  negotiator makes of that piece, and the negotiator stands behind it.
\<close>

definition read_of :: "bytes \<Rightarrow> negotiator \<Rightarrow> telnet \<Rightarrow> telnet \<Rightarrow> bytes \<Rightarrow> bool" where
  "read_of buf ng s s' text \<longleftrightarrow> (\<exists>raw out ng'. incoming s = raw @ incoming s'
     \<and> reads_as raw ng = (out, ng') \<and> text = buf @ out \<and> session_negotiator s' = Some ng') \<and> same_link s s'"

definition read_result :: "bytes \<Rightarrow> nat \<Rightarrow> bytes \<Rightarrow> negotiator \<Rightarrow> telnet \<Rightarrow> telnet_error + bytes \<Rightarrow> telnet \<Rightarrow> bool" where
  "read_result mark limit buf ng s r s' \<longleftrightarrow> (case r of
      Inr text \<Rightarrow> read_of buf ng s s' text \<and> sublist mark text \<and> length text \<le> limit
    | Inl (TelnetReadError stop text) \<Rightarrow> read_of buf ng s s' text
        \<and> (if stop = ReadOverflow then limit < length text \<and> length text \<le> limit + 1024
           else \<not> sublist mark text \<and> length text \<le> limit)
    | _ \<Rightarrow> False)"

lemma read_of_refl: "session_negotiator s' = Some ng \<Longrightarrow> incoming s' = incoming s \<Longrightarrow>
    same_link s s' \<Longrightarrow> read_of buf ng s s' buf"
  unfolding read_of_def by (auto intro!: exI [of _ "[]"])

lemma recv_None_incoming: "recv n w = (None, w') \<Longrightarrow> incoming w' = incoming w"
  by (auto simp: recv_def incoming_def split: list.splits arrival.splits)

lemma session_frame [simp]:
  "incoming (s\<lparr>session_negotiator := x\<rparr>) = incoming s"
  "same_link v (s\<lparr>session_negotiator := x\<rparr>) = same_link v s"
  by (simp_all add: incoming_def same_link_def)

lemma read_failed:
  assumes "\<not> sublist mark buf" and "length buf \<le> limit" and "stop \<noteq> ReadOverflow"
    and "incoming v = incoming s" and "same_link s v"
  shows "read_result mark limit buf ng s (Inl (TelnetReadError stop buf)) (v\<lparr>session_negotiator := Some ng\<rparr>)"
  using assms by (auto simp: read_result_def intro!: read_of_refl)

lemma read_of_trans:
  assumes "read_of buf ng s (v\<lparr>session_negotiator := Some ng'\<rparr>) (buf @ out)"
    and "read_of (buf @ out) ng' v s' tx"
  shows "read_of buf ng s s' tx"
proof -
  from assms(1) obtain raw where r: "incoming s = raw @ incoming v" "reads_as raw ng = (out, ng')"
    and l: "same_link s v" by (auto simp: read_of_def)
  from assms(2) obtain raw' out' n where r': "incoming v = raw' @ incoming s'" "reads_as raw' ng' = (out', n)"
    "tx = (buf @ out) @ out'" "session_negotiator s' = Some n" and l': "same_link v s'"
    by (auto simp: read_of_def)
  have "reads_as (raw @ raw') ng = (out @ out', n)" by (rule reads_as_append [OF r(2) r'(2)])
  then show ?thesis using r(1) r' same_link_trans [OF l l']
    unfolding read_of_def by (auto intro!: exI [of _ "raw @ raw'"])
qed

lemma read_result_trans:
  assumes "read_of buf ng s (v\<lparr>session_negotiator := Some ng'\<rparr>) (buf @ out)"
    and "read_result mark limit (buf @ out) ng' v r s'"
  shows "read_result mark limit buf ng s r s'"
  using assms(2) read_of_trans [OF assms(1)]
  by (auto simp: read_result_def split: sum.splits telnet_error.splits if_splits)

lemma feed_byte_length: "length (fst (feed_byte b ng w)) \<le> 1"
  by (cases "ng_state ng") (auto simp: feed_byte_def)

lemma feed_length: "length (fst (feed bs ng w)) \<le> length bs"
proof (induction bs arbitrary: ng w)
  case Nil
  then show ?case by simp
next
  case (Cons b bs)
  obtain o1 n1 w1 where b: "feed_byte b ng w = (o1, n1, w1)" by (cases "feed_byte b ng w")
  then show ?case using feed_byte_length [of b ng w] Cons.IH [of n1 w1]
    by (simp add: Let_def case_prod_beta)
qed

text \<open>One chunk of the stream.\<close>

lemma chunk_read:
  assumes l: "same_link s v" and i: "incoming s = chunk @ incoming v"
    and f: "feed chunk ng v = (out, ng', v')"
  shows "read_of buf ng s (v'\<lparr>session_negotiator := Some ng'\<rparr>) (buf @ out)"
proof -
  have "same_link s v'" and "incoming v' = incoming v"
    using same_link_trans [OF l] same_link_more [of v' v] feed_frame [OF f] feed_sent [OF f]
    by (simp_all add: incoming_def)
  then show ?thesis using i feed_reads_as [OF f] by (auto simp: read_of_def intro!: exI [of _ chunk])
qed

lemma recv_loop_result:
  "recv_loop mark deadline limit buf ng s = (r, s') \<Longrightarrow> length buf \<le> limit \<Longrightarrow>
     read_result mark limit buf ng s r s'"
proof (induction mark deadline limit buf ng s arbitrary: r s' rule: recv_loop.induct)
  case (1 mark deadline limit buf ng s)
  note small = "1.prems"(2)
  obtain t s1 where m: "monotonic s = (t, s1)" by (cases "monotonic s")
  have i1: "incoming s1 = incoming s" and l1: "same_link s s1"
    using frame_to_come(3) [OF m] monotonic_frame [OF m] same_link_more by simp_all
  obtain c s2 where c: "recv 1024 s1 = (c, s2)" by (cases "recv 1024 s1")
  have l2: "same_link s s2"
    using same_link_trans [OF l1] same_link_more [of s2 s1] recv_frame [OF c] by simp
  note run = "1.prems"(1) [unfolded recv_loop.simps [of mark deadline limit buf ng s] m Let_def prod.case c]
  consider (found) "sublist mark buf" | (late) "\<not> sublist mark buf" "deadline - t \<le> 0"
    | (failed) "\<not> sublist mark buf" "\<not> deadline - t \<le> 0" "c = None"
    | (closed) "\<not> sublist mark buf" "\<not> deadline - t \<le> 0" "c = Some []"
    | (chunk) ch where "\<not> sublist mark buf" "\<not> deadline - t \<le> 0" "c = Some ch" "ch \<noteq> []"
    by (cases c) auto
  then show ?case
  proof cases
    case found
    have "read_of buf ng s (s\<lparr>session_negotiator := Some ng\<rparr>) buf"
      by (rule read_of_refl) (simp_all add: same_link_def)
    then show ?thesis using run found small by (auto simp: read_result_def)
  next
    case late
    then show ?thesis using run read_failed [OF late(1) small _ i1 l1] by auto
  next
    case failed
    have "incoming s2 = incoming s" using recv_None_incoming [OF c [unfolded failed]] i1 by simp
    then show ?thesis using run failed read_failed [OF failed(1) small _ _ l2] by auto
  next
    case closed
    have "incoming s2 = incoming s" using recv_Some(2) [OF c [unfolded closed]] i1 by simp
    then show ?thesis using run closed read_failed [OF closed(1) small _ _ l2] by auto
  next
    case chunk
    obtain out ng' s3 where f: "feed ch ng s2 = (out, ng', s3)" by (cases "feed ch ng s2")
    note got = recv_Some [OF c [unfolded chunk]]
    have step: "read_of buf ng s (s3\<lparr>session_negotiator := Some ng'\<rparr>) (buf @ out)"
      by (rule chunk_read [OF l2 _ f]) (use got(2) i1 in simp)
    show ?thesis
    proof (cases "limit < length (buf @ out)")
      case True
      have "length out \<le> 1024" using feed_length [of ch ng s2] f got(1) by simp
      then show ?thesis using True step run chunk f small by (auto simp: read_result_def)
    next
      case False
      then have "recv_loop mark deadline limit (buf @ out) ng' s3 = (r, s')"
        using run chunk f by simp
      then show ?thesis
        using "1.IH" [OF chunk(1) m [symmetric] refl chunk(2) c [symmetric] chunk(3,4) f [symmetric] refl refl False] False
          read_result_trans [OF step] by simp
    qed
  qed
qed

text \<open>
  The clock of a read: a read that ends before its first look at the clock receives nothing, one that
  times out has seen the deadline pass, and any other has seen no time at or after it.
\<close>

lemma recv_loop_in_time:
  "recv_loop mark deadline limit buf ng s = (r, s') \<Longrightarrow>
     (deadline \<le> fst (monotonic s) \<longrightarrow> incoming s' = incoming s)
     \<and> (case r of Inr _ \<Rightarrow> now s' < deadline \<or> incoming s' = incoming s \<and> now s' = now s
        | Inl (TelnetReadError stop _) \<Rightarrow> stop = ReadTimeout \<longleftrightarrow> deadline \<le> now s'
        | Inl _ \<Rightarrow> False)"
proof (induction mark deadline limit buf ng s arbitrary: r s' rule: recv_loop.induct)
  case (1 mark deadline limit buf ng s)
  obtain t s1 where m: "monotonic s = (t, s1)" by (cases "monotonic s")
  have s1: "now s1 = t" "incoming s1 = incoming s"
    using monotonic_frame [OF m] frame_to_come(3) [OF m] by simp_all
  obtain c s2 where c: "recv 1024 s1 = (c, s2)" by (cases "recv 1024 s1")
  have s2: "now s2 = t" using recv_frame [OF c] s1 by simp
  note run = "1.prems" [unfolded recv_loop.simps [of mark deadline limit buf ng s] m Let_def prod.case c]
  consider (found) "sublist mark buf" | (late) "\<not> sublist mark buf" "deadline - t \<le> 0"
    | (stopped) "\<not> sublist mark buf" "\<not> deadline - t \<le> 0" "c = None \<or> c = Some []"
    | (chunk) ch where "\<not> sublist mark buf" "\<not> deadline - t \<le> 0" "c = Some ch" "ch \<noteq> []"
    by (cases c) auto
  then show ?case
  proof cases
    case found
    then show ?thesis using run by (auto simp: incoming_def)
  next
    case late
    then show ?thesis using run s1 by (auto simp: incoming_def)
  next
    case stopped
    then show ?thesis using run s2 m by auto
  next
    case chunk
    obtain out ng' s3 where f: "feed ch ng s2 = (out, ng', s3)" by (cases "feed ch ng s2")
    have s3: "now s3 = t" using feed_frame [OF f] s2 by simp
    show ?thesis
    proof (cases "limit < length (buf @ out)")
      case True
      then show ?thesis using run chunk f m s3 by auto
    next
      case False
      then have "recv_loop mark deadline limit (buf @ out) ng' s3 = (r, s')" using run chunk f by simp
      note later = "1.IH" [OF chunk(1) m [symmetric] refl chunk(2) c [symmetric] chunk(3,4) f [symmetric] refl refl False this]
      then show ?thesis using chunk(2) m s3 by (auto split: sum.splits telnet_error.splits)
    qed
  qed
qed

text \<open>
  C20. A read between two items of the stream ends. When it returns, the text is exactly what
  the negotiator makes of the piece of the stream it consumed, holds the mark and has at most 8192
  bytes; when it raises, the error carries exactly that text, which is never more than one chunk
  over the limit and, short of an overflow, does not hold the mark. Time: if the first look at the clock
  finds the deadline reached nothing is received; a read that received something and returns has last
  seen the clock before the deadline; and a read raises its time-out exactly when the clock has
  reached the deadline.
\<close>

theorem reads_are_whole_and_bounded:
  assumes "session_negotiator s = Some ng" and "ng_state ng = Normal"
    and "recv_until mark deadline s = (r, s')"
  shows "\<exists>raw. incoming s = raw @ incoming s' \<and> (raw \<noteq> [] \<longrightarrow> fst (monotonic s) < deadline) \<and> (case r of
      Inr tx \<Rightarrow> tx = clean_text raw \<and> sublist mark tx \<and> length tx \<le> 8192 \<and> (raw \<noteq> [] \<longrightarrow> now s' < deadline)
    | Inl (TelnetReadError stop tx) \<Rightarrow> tx = clean_text raw \<and> length tx \<le> 8192 + 1024
        \<and> (stop \<noteq> ReadOverflow \<longrightarrow> \<not> sublist mark tx \<and> length tx \<le> 8192)
        \<and> (stop = ReadTimeout \<longleftrightarrow> deadline \<le> now s')
    | Inl _ \<Rightarrow> False)"
proof -
  have l: "recv_loop mark deadline 8192 [] ng s = (r, s')"
    using assms(1,3) by (simp add: recv_until_def max_response_bytes_def)
  then have "read_result mark 8192 [] ng s r s'" by (rule recv_loop_result) simp
  moreover have "clean_text raw = out" if "reads_as raw ng = (out, n)" for raw out n
    using reads_as_normal [OF assms(2), of raw] that by simp
  ultimately obtain raw where raw: "incoming s = raw @ incoming s'" and res: "case r of
      Inr tx \<Rightarrow> tx = clean_text raw \<and> sublist mark tx \<and> length tx \<le> 8192
    | Inl (TelnetReadError stop tx) \<Rightarrow> tx = clean_text raw \<and> length tx \<le> 8192 + 1024
        \<and> (stop \<noteq> ReadOverflow \<longrightarrow> \<not> sublist mark tx \<and> length tx \<le> 8192)
    | Inl _ \<Rightarrow> False"
    by (fastforce simp: read_result_def read_of_def split: sum.splits telnet_error.splits if_splits)
  have "incoming s' = incoming s \<Longrightarrow> raw = []" using raw by simp
  then have "raw \<noteq> [] \<longrightarrow> fst (monotonic s) < deadline" and
    "case r of Inr _ \<Rightarrow> raw \<noteq> [] \<longrightarrow> now s' < deadline
      | Inl (TelnetReadError stop _) \<Rightarrow> stop = ReadTimeout \<longleftrightarrow> deadline \<le> now s' | Inl _ \<Rightarrow> False"
    using recv_loop_in_time [OF l] by (auto simp: not_le split: sum.splits telnet_error.splits)
  then show ?thesis
    using raw res by (intro exI [of _ raw] conjI) (auto split: sum.splits telnet_error.splits)
qed

definition sample_session :: telnet where
  "sample_session = \<lparr>readings = [0, 1, 2, 3, 4, 5, 6], now = 0, arrivals = [Data [72, 105, 0xFF, 0xFB], Data [3, 62, 32]],
     sends = [], sent = [], socket_open = True, session_negotiator = Some fresh_negotiator,
     authenticated = True, dials = []\<rparr>"

theorem reads_are_whole_and_bounded_witness:
  "\<exists>s'. recv_until (ascii ''> '') 10 sample_session = (Inr [72, 105, 62, 32], s') \<and> sent s' = [[0xFF, 0xFE, 3]]
     \<and> (\<exists>raw. incoming sample_session = raw @ incoming s' \<and> clean_text raw = [72, 105, 62, 32]) \<and> now s' < 10"
proof -
  have "case recv_until (ascii ''> '') 10 sample_session of
      (Inr tx, s') \<Rightarrow> tx = [72, 105, 62, 32] \<and> sent s' = [[0xFF, 0xFE, 3]] | _ \<Rightarrow> False"
    by code_simp
  then obtain s' where r: "recv_until (ascii ''> '') 10 sample_session = (Inr [72, 105, 62, 32], s')"
    and "sent s' = [[0xFF, 0xFE, 3]]" by (auto split: prod.splits sum.splits)
  moreover have "session_negotiator sample_session = Some fresh_negotiator" and "ng_state fresh_negotiator = Normal"
    by (simp_all add: sample_session_def fresh_negotiator_def)
  from reads_are_whole_and_bounded [OF this r] obtain raw where raw: "incoming sample_session = raw @ incoming s'"
    "clean_text raw = [72, 105, 62, 32]" "raw \<noteq> [] \<longrightarrow> now s' < 10" by auto
  moreover from raw(2) have "raw \<noteq> []" by (cases raw) (simp_all add: clean_text_simps(1))
  ultimately show ?thesis by blast
qed

section \<open>The login\<close>

text \<open>What the client sends apart from refusals, and what a stream has shown it at some time.\<close>

definition spoken :: "telnet \<Rightarrow> bytes list" where
  "spoken s = filter (\<lambda>bs. \<not> is_refusal bs) (sent s)"

definition heard :: "bytes \<Rightarrow> string \<Rightarrow> bool" where
  "heard stream mark \<longleftrightarrow> (\<exists>raw. prefix raw stream \<and> sublist (ascii mark) (clean_text raw))"

definition line_of :: "string \<Rightarrow> bytes" where
  "line_of x = utf8 x @ crlf_bytes"

lemma line_not_refusal: "\<not> is_refusal (line_of x)"
  by (auto simp: is_refusal_def line_of_def crlf_bytes_def telnet_bytes split: list.splits)

lemma spoken_same: "same_link s s' \<Longrightarrow> spoken s' = spoken s"
  by (auto simp: same_link_def only_refused_def spoken_def list_all_iff)

text \<open>A read during the login, with what was consumed of the stream before it.\<close>

definition progress :: "telnet \<Rightarrow> bytes \<Rightarrow> telnet \<Rightarrow> bool" where
  "progress s0 raw s \<longleftrightarrow> incoming s0 = raw @ incoming s
     \<and> (\<exists>ng. reads_as raw fresh_negotiator = (clean_text raw, ng) \<and> session_negotiator s = Some ng)
     \<and> socket_open s = socket_open s0 \<and> authenticated s = authenticated s0 \<and> dials s = dials s0"

lemma await_progress:
  assumes p: "progress s0 raw s" and d: "timeout_of c = Inr d" and a: "await c mark s = (r, s')"
  shows "spoken s' = spoken s \<and> (\<exists>raw'. progress s0 raw' s' \<and> (case r of
      Inr _ \<Rightarrow> sublist (ascii mark) (clean_text raw')
    | Inl e \<Rightarrow> \<exists>stop tx. e = TelnetReadError stop tx))"
proof -
  obtain ng where ng: "reads_as raw fresh_negotiator = (clean_text raw, ng)" "session_negotiator s = Some ng"
    using p by (auto simp: progress_def)
  obtain t v where m: "monotonic s = (t, v)" by (cases "monotonic s")
  note frame = monotonic_frame [OF m]
  have n: "session_negotiator v = Some ng" and same: "socket_open v = socket_open s"
    "authenticated v = authenticated s" "dials v = dials s" "incoming v = incoming s"
    using ng(2) frame(4) frame_to_come(3) [OF m] by (cases s; cases v; simp)+
  have "recv_loop (ascii mark) (t + d) 8192 [] ng v = (r, s')"
    using a m n by (simp add: await_def bindW_def read_clock_def d recv_until_def max_response_bytes_def)
  then have res: "read_result (ascii mark) 8192 [] ng v r s'" by (rule recv_loop_result) simp
  then obtain tx where got: "read_of [] ng v s' tx"
    and okay: "case r of Inr _ \<Rightarrow> sublist (ascii mark) tx | Inl e \<Rightarrow> \<exists>stop tx. e = TelnetReadError stop tx"
    by (auto simp: read_result_def split: sum.splits telnet_error.splits)
  from got obtain raw2 ng' where r2: "incoming v = raw2 @ incoming s'" "reads_as raw2 ng = (tx, ng')"
    "session_negotiator s' = Some ng'" and l: "same_link v s'" by (auto simp: read_of_def)
  have whole: "reads_as (raw @ raw2) fresh_negotiator = (clean_text raw @ tx, ng')"
    by (rule reads_as_append [OF ng(1) r2(2)])
  then have cleaned: "clean_text (raw @ raw2) = clean_text raw @ tx"
    using reads_as_normal [of fresh_negotiator "raw @ raw2"] by (simp add: fresh_negotiator_def)
  have "progress s0 (raw @ raw2) s'"
    using p r2 whole cleaned l same by (simp add: progress_def same_link_def)
  moreover have "spoken s' = spoken s"
    using spoken_same [OF l] frame(2) by (simp add: spoken_def)
  moreover have "case r of Inr _ \<Rightarrow> sublist (ascii mark) (clean_text (raw @ raw2))
      | Inl e \<Rightarrow> \<exists>stop tx. e = TelnetReadError stop tx"
    using okay cleaned by (auto split: sum.splits intro: sublist_order.order_trans)
  ultimately show ?thesis by blast
qed

lemma send_progress:
  assumes p: "progress s0 raw s" and a: "tn_send (line_of x) s = (r, s')"
  shows "progress s0 raw s' \<and> (r = Inr () \<and> spoken s' = spoken s @ [line_of x]
    \<or> r = Inl OSError \<and> spoken s' = spoken s)"
proof -
  obtain ok v where m: "sendall (line_of x) s = (ok, v)" by (cases "sendall (line_of x) s")
  note frame = sendall_frame [OF m]
  have v: "s' = v" "r = (if ok then Inr () else Inl OSError)"
    using a m by (auto simp: tn_send_def split: bool.splits)
  have "session_negotiator v = session_negotiator s" "socket_open v = socket_open s"
    "authenticated v = authenticated s" "dials v = dials s" "incoming v = incoming s"
    using frame(4) frame_to_come(4) [OF m] by (cases s; cases v; simp)+
  then show ?thesis using p v frame(5) line_not_refusal by (auto simp: progress_def spoken_def)
qed

lemma progress_heard: "progress s0 raw s \<Longrightarrow> sublist (ascii mark) (clean_text raw) \<Longrightarrow> heard (incoming s0) mark"
  unfolding progress_def heard_def by (blast intro: prefixI)

definition link_error :: "telnet_error \<Rightarrow> bool" where
  "link_error e \<longleftrightarrow> e = OSError \<or> (\<exists>stop tx. e = TelnetReadError stop tx)"

lemma answer_progress:
  assumes p: "progress s0 raw s" and d: "timeout_of c = Inr d" and a: "answer c prompt x s = (r, s')"
  shows "(\<exists>raw'. progress s0 raw' s') \<and> (r = Inr () \<and> spoken s' = spoken s @ [line_of x] \<and> heard (incoming s0) prompt
    \<or> (\<exists>e. r = Inl e \<and> link_error e \<and> spoken s' = spoken s))"
  using a [unfolded answer_def line_of_def [symmetric]]
proof (cases rule: bindW_cases)
  case (raised e)
  then show ?thesis using await_progress [OF p d raised(1)] by (auto simp: link_error_def)
next
  case (returned tx v)
  from await_progress [OF p d this(1)] obtain r1 where p1: "progress s0 r1 v" and q: "spoken v = spoken s"
    and "sublist (ascii prompt) (clean_text r1)" by auto
  then have "heard (incoming s0) prompt" by (blast intro: progress_heard)
  then show ?thesis using send_progress [OF p1 returned(2)] q by (auto simp: link_error_def)
qed

definition in_turn :: "bytes \<Rightarrow> string \<Rightarrow> string \<Rightarrow> bytes list \<Rightarrow> bool" where
  "in_turn stream username password said \<longleftrightarrow> prefix said [line_of username, line_of password]
     \<and> (said \<noteq> [] \<longrightarrow> heard stream ''Username:'') \<and> (length said = 2 \<longrightarrow> heard stream ''Password:'')"

lemma dialogue_in_turn:
  assumes p: "progress s0 raw s" and d: "timeout_of c = Inr d"
    and l: "login_dialogue c username password s = (r, s')"
  shows "(\<exists>raw'. progress s0 raw' s') \<and> (\<exists>said. spoken s' = spoken s @ said \<and> in_turn (incoming s0) username password said
    \<and> (case r of Inr _ \<Rightarrow> length said = 2 \<and> heard (incoming s0) ''> '' | Inl e \<Rightarrow> link_error e))"
  using l [unfolded login_dialogue_def]
proof (cases rule: bindW_cases)
  case raised
  then show ?thesis using answer_progress [OF p d raised(1)] by (auto simp: in_turn_def)
next
  case (returned x s1)
  from answer_progress [OF p d this(1)] obtain r1 where p1: "progress s0 r1 s1"
    and q1: "spoken s1 = spoken s @ [line_of username]" and h1: "heard (incoming s0) ''Username:''" by auto
  from returned(2) show ?thesis
  proof (cases rule: bindW_cases)
    case raised
    then show ?thesis using answer_progress [OF p1 d raised(1)] q1 h1
      by (auto simp: in_turn_def intro!: exI [of _ "[line_of username]"])
  next
    case (returned x s2)
    from answer_progress [OF p1 d this(1)] q1 obtain r2 where p2: "progress s0 r2 s2"
      and q2: "spoken s2 = spoken s @ [line_of username, line_of password]"
      and h2: "heard (incoming s0) ''Password:''" by auto
    from returned(2) obtain rr where a: "await c ''> '' s2 = (rr, s')" and r: "r = (case rr of Inl e \<Rightarrow> Inl e | Inr _ \<Rightarrow> Inr ())"
      by (cases rule: bindW_cases) auto
    show ?thesis using await_progress [OF p2 d a] q2 h1 h2 r
      by (auto simp: in_turn_def link_error_def split: sum.splits dest: progress_heard
          intro!: exI [of _ "[line_of username, line_of password]"])
  qed
qed

text \<open>
  A new connection to a device with credentials and a valid
  timeout says nothing but refusals, the user name and the password, in this order: the user name
  only after the stream has shown \<open>Username:\<close>, the password only after \<open>Password:\<close>. It returns
  exactly when the session is authenticated, which also needs the \<open>> \<close> prompt, and when it raises
  nothing of the session is left open.
\<close>

theorem login_sends_credentials_in_turn:
  assumes "\<not> socket_open s" and "\<not> authenticated s" and "dials s = Some as # ds"
    and "resolve_credentials c = Inr (username, password)" and "timeout_of c = Inr d"
    and "tn_connect c s = (r, s')"
  shows "\<exists>said. spoken s' = spoken s @ said
    \<and> in_turn (concat (map arrival_bytes as)) username password said
    \<and> authenticated s' = (r = Inr ()) \<and> socket_open s' = (r = Inr ())
    \<and> (session_negotiator s' \<noteq> None) = (r = Inr ())
    \<and> (r = Inr () \<longrightarrow> length said = 2 \<and> heard (concat (map arrival_bytes as)) ''> '')"
proof -
  let ?s = "s\<lparr>arrivals := as, dials := ds, socket_open := True, session_negotiator := Some fresh_negotiator\<rparr>"
  let ?stream = "concat (map arrival_bytes as)"
  have i: "incoming ?s = ?stream" by (simp add: incoming_def)
  have start: "progress ?s [] ?s" by (simp add: progress_def clean_text_simps)
  have "tn_login c ?s = (r, s')"
    using assms(1,3,5,6) by (simp add: tn_connect_def bindW_def open_socket_def)
  then have run: "bindW (catchW (login_dialogue c username password) login_failed)
      (\<lambda>_ s. (Inr (), s\<lparr>authenticated := True\<rparr>)) ?s = (r, s')"
    by (simp add: tn_login_def assms(4) bindW_def [of "liftW _"])
  obtain q v where dia: "login_dialogue c username password ?s = (q, v)"
    by (cases "login_dialogue c username password ?s")
  have same: "spoken ?s = spoken s" by (simp add: spoken_def)
  from dialogue_in_turn [OF start assms(5) dia, unfolded i same] obtain raw' said where v: "progress ?s raw' v"
    and sp: "spoken v = spoken s @ said" and turn: "in_turn ?stream username password said"
    and out: "case q of Inr _ \<Rightarrow> length said = 2 \<and> heard ?stream ''> '' | Inl e \<Rightarrow> link_error e"
    by blast
  show ?thesis
  proof (cases q)
    case (Inr x)
    then have "r = Inr ()" and "s' = v\<lparr>authenticated := True\<rparr>"
      using run dia by (simp_all add: bindW_def catchW_def)
    then show ?thesis using v sp turn out Inr by (auto simp: progress_def spoken_def)
  next
    case (Inl e)
    then have "link_error e" using out by simp
    moreover have "catchW (login_dialogue c username password) login_failed ?s = login_failed e v"
      using dia Inl by (simp add: catchW_def)
    moreover have "socket_open v" using v by (simp add: progress_def)
    ultimately have "\<exists>e'. r = Inl e'" and "s' = v\<lparr>socket_open := False, session_negotiator := None, authenticated := False\<rparr>"
      using run by (auto simp: bindW_def login_failed_def link_error_def tn_close_def)
    then show ?thesis using sp turn by (auto simp: spoken_def)
  qed
qed

definition sample_client :: telnet_client where
  "sample_client = \<lparr>router_info = [(''username'', JStr ''ana''), (''password'', JStr ''s3'')],
     setting = (\<lambda>_. None), text_float = (\<lambda>_. Some (Finite 5)), to_text = \<lparr>seal = (\<lambda>_. []), unseal = (\<lambda>_. None), key_accepted = (\<lambda>_ _. False),
       parse_instant = Some, py_repr = (\<lambda>_. [])\<rparr>,
     utf8_ignore = map (\<lambda>b. char_of (unat b))\<rparr>"

definition sample_closed :: telnet where
  "sample_closed = \<lparr>readings = [], now = 0, arrivals = [], sends = [], sent = [], socket_open = False,
     session_negotiator = None, authenticated = False,
     dials = [Some [Data (ascii ''Username:''), Data (ascii ''Password:''), Data (ascii ''hi> '')]]\<rparr>"

theorem login_sends_credentials_in_turn_witness:
  "\<exists>s'. tn_connect sample_client sample_closed = (Inr (), s') \<and> authenticated s'
     \<and> spoken s' = [line_of ''ana'', line_of ''s3'']
     \<and> heard (concat (map arrival_bytes [Data (ascii ''Username:''), Data (ascii ''Password:''), Data (ascii ''hi> '')])) ''> ''"
proof -
  have "case tn_connect sample_client sample_closed of
      (Inr _, s') \<Rightarrow> spoken s' = [line_of ''ana'', line_of ''s3''] | _ \<Rightarrow> False" by code_simp
  then obtain s' where r: "tn_connect sample_client sample_closed = (Inr (), s')"
    and sp: "spoken s' = [line_of ''ana'', line_of ''s3'']" by (auto split: prod.splits sum.splits)
  have "resolve_credentials sample_client = Inr (''ana'', ''s3'')" and "timeout_of sample_client = Inr 5"
    by code_simp+
  from login_sends_credentials_in_turn [OF _ _ _ this r] show ?thesis
    using r sp by (force simp: sample_closed_def)
qed

section \<open>Sessions\<close>

text \<open>A session has a negotiator exactly while its socket is open, and is authenticated only then.\<close>

definition session_ok :: "telnet \<Rightarrow> bool" where
  "session_ok s \<longleftrightarrow> (session_negotiator s \<noteq> None) = socket_open s \<and> (authenticated s \<longrightarrow> socket_open s)"

text \<open>The same, of a session that also stays open or authenticated when the flags say so.\<close>

definition kept :: "bool \<Rightarrow> bool \<Rightarrow> telnet \<Rightarrow> bool" where
  "kept live auth s \<longleftrightarrow> session_ok s \<and> (live \<longrightarrow> socket_open s) \<and> (auth \<longrightarrow> authenticated s)"

lemma recv_until_keeps [keeps_rules]: "keeps (kept live auth) (recv_until mark deadline)"
proof (rule keepsI)
  fix s r s' assume ok: "kept live auth s" and u: "recv_until mark deadline s = (r, s')"
  show "kept live auth s'"
  proof (cases "session_negotiator s")
    case None
    then show ?thesis using ok u by (simp add: recv_until_def)
  next
    case (Some ng)
    then have "read_result mark 8192 [] ng s r s'"
      using u recv_loop_result [of mark deadline 8192 "[]" ng s r s']
      by (simp add: recv_until_def max_response_bytes_def)
    then have "session_negotiator s' \<noteq> None" and "same_link s s'"
      by (auto simp: read_result_def read_of_def split: sum.splits telnet_error.splits)
    then show ?thesis using ok Some by (simp add: kept_def session_ok_def same_link_def)
  qed
qed

lemma session_ok_more:
  fixes s :: telnet
  shows "wire.more s' = wire.more s \<Longrightarrow> kept live auth s' = kept live auth s"
  by (cases s; cases s') (simp add: kept_def session_ok_def)

lemma clock_keeps [keeps_rules]: "keeps (kept live auth) read_clock"
proof (rule keepsI)
  fix s r s' assume "kept live auth s" and "read_clock s = (r, s')"
  then show "kept live auth s'" using session_ok_more [of s' s]
    by (auto simp: read_clock_def split: prod.splits dest: monotonic_frame(4))
qed

lemma tn_send_keeps [keeps_rules]: "keeps (kept live auth) (tn_send bs)"
proof (rule keepsI)
  fix s r s' assume "kept live auth s" and "tn_send bs s = (r, s')"
  then show "kept live auth s'" using session_ok_more [of s' s]
    by (auto simp: tn_send_def split: prod.splits bool.splits dest: sendall_frame(4))
qed

lemma tn_close_keeps [keeps_rules]: "keeps session_ok tn_close"
  by (rule keepsI) (auto simp: tn_close_def session_ok_def split: if_splits)

lemma kept_False: "kept False False = session_ok"
  by (rule ext) (simp add: kept_def)

lemma await_keeps [keeps_rules]: "keeps (kept live auth) (await c mark)"
  unfolding await_def by (intro keeps_rules)

lemma dialogue_keeps [keeps_rules]: "keeps (kept live auth) (login_dialogue c username password)"
  unfolding login_dialogue_def answer_def by (intro keeps_rules)

lemma login_failed_keeps: "keeps session_ok (login_failed e)"
  by (cases e) (simp_all add: login_failed_def keeps_rules)

lemma command_failed_keeps: "keeps session_ok (command_failed e)"
  by (cases e) (simp_all add: command_failed_def keeps_rules)

lemma login_failed_raises: "login_failed e s = (r, s') \<Longrightarrow> \<exists>e'. r = Inl e'"
  by (cases e) (auto simp: login_failed_def tn_close_def bindW_def)

lemma tn_login_ok:
  assumes "kept True False s" and "tn_login c s = (r, s')"
  shows "session_ok s' \<and> (r = Inr () \<longrightarrow> authenticated s' \<and> socket_open s')"
proof (cases "resolve_credentials c")
  case (Inl e)
  then show ?thesis using assms by (auto simp: tn_login_def bindW_def kept_def)
next
  case (Inr up)
  obtain q v where d: "login_dialogue c (fst up) (snd up) s = (q, v)" by (cases "login_dialogue c (fst up) (snd up) s")
  have v: "kept True False v" by (rule keepsD [OF dialogue_keeps assms(1) d])
  have run: "bindW (catchW (login_dialogue c (fst up) (snd up)) login_failed)
      (\<lambda>_ s. (Inr (), s\<lparr>authenticated := True\<rparr>)) s = (r, s')"
    using assms(2) Inr by (simp add: tn_login_def bindW_def [of "liftW _"] case_prod_beta)
  show ?thesis
  proof (cases q)
    case (Inr x)
    then have "r = Inr ()" and "s' = v\<lparr>authenticated := True\<rparr>"
      using run d by (simp_all add: bindW_def catchW_def)
    then show ?thesis using v by (simp add: kept_def session_ok_def)
  next
    case (Inl e)
    obtain e' where f: "login_failed e v = (Inl e', s')" and "r = Inl e'"
      using run d Inl login_failed_raises [of e v] by (cases "login_failed e v") (fastforce simp: bindW_def catchW_def)
    then show ?thesis using keepsD [OF login_failed_keeps _ f] v by (simp add: kept_def)
  qed
qed

lemma open_socket_kept: "session_ok s \<Longrightarrow> open_socket s = (Inr u, s') \<Longrightarrow> kept True False s'"
  by (auto simp: open_socket_def kept_def session_ok_def split: list.splits option.splits)

lemma open_socket_failed: "session_ok s \<Longrightarrow> open_socket s = (Inl e, s') \<Longrightarrow> session_ok s'"
  by (auto simp: open_socket_def session_ok_def split: list.splits option.splits)

lemma tn_connect_keeps: "keeps session_ok (tn_connect c)"
proof (rule keepsI)
  fix s r s' assume ok: "session_ok s" and run: "tn_connect c s = (r, s')"
  show "session_ok s'"
  proof (cases "socket_open s \<or> (\<exists>e. timeout_of c = Inl e)")
    case True
    then show ?thesis using ok run by (auto simp: tn_connect_def bindW_def split: if_splits)
  next
    case False
    then obtain d where "timeout_of c = Inr d" by (cases "timeout_of c") auto
    then have "bindW open_socket (\<lambda>_. tn_login c) s = (r, s')"
      using False run by (simp add: tn_connect_def bindW_def)
    then show ?thesis
      by (cases rule: bindW_cases) (auto dest: open_socket_failed [OF ok] tn_login_ok open_socket_kept [OF ok])
  qed
qed

text \<open>Only a command raises its own error.\<close>

definition not_command :: "telnet_error \<Rightarrow> bool" where
  "not_command e \<longleftrightarrow> e \<noteq> TelnetGatewayError TelnetCommandFailed"

lemma recv_until_raises: "raises_only not_command (recv_until mark deadline)"
proof (rule raises_onlyI)
  fix s e s' assume "recv_until mark deadline s = (Inl e, s')"
  then show "not_command e"
    using recv_loop_result [of mark deadline max_response_bytes "[]" _ s "Inl e" s']
    by (auto simp: recv_until_def not_command_def read_result_def split: option.splits)
qed

lemma settings_raise:
  "timeout_of c = Inl e \<Longrightarrow> not_command e" "resolve_credentials c = Inl e \<Longrightarrow> not_command e"
  by (auto simp: timeout_of_def resolve_credentials_def credential_def Let_def not_command_def bindE_eq_Inl
      split: option.splits pyfloat.splits if_splits)

lemma await_raises [raises_rules]: "raises_only not_command (await c mark)"
  unfolding await_def
  by (intro raises_rules recv_until_raises settings_raise)
    (simp_all add: raises_only_def read_clock_def split: prod.splits)

lemma connect_raises [raises_rules]: "raises_only not_command (tn_connect c)"
proof -
  have s: "raises_only not_command (tn_send bs)" for bs
    by (auto simp: raises_only_def tn_send_def not_command_def split: prod.splits bool.splits)
  have "raises_only not_command (login_dialogue c username password)" for username password
    unfolding login_dialogue_def answer_def by (intro raises_rules s)
  moreover have "raises_only not_command (login_failed e)" if "not_command e" for e
    using that by (cases e) (auto simp: login_failed_def not_command_def tn_close_def raises_only_def bindW_def)
  ultimately have l: "raises_only not_command (catchW (login_dialogue c username password) login_failed)"
    for username password by (rule raises_catchW)
  have "raises_only not_command (tn_login c)"
    unfolding tn_login_def case_prod_beta
    by (intro raises_rules l) (auto simp: raises_only_def dest: settings_raise)
  moreover have "raises_only not_command open_socket"
    by (auto simp: raises_only_def open_socket_def not_command_def split: list.splits option.splits)
  ultimately have k: "raises_only not_command (bindW (liftW (timeout_of c)) (\<lambda>_. bindW open_socket (\<lambda>_. tn_login c)))"
    by (intro raises_rules settings_raise)
  show ?thesis
    by (rule raises_onlyI) (auto simp: tn_connect_def split: if_splits intro: raises_onlyD [OF k])
qed

lemma exchange_ok:
  assumes ok: "session_ok s" "authenticated s"
    and run: "catchW (bindW (tn_send (utf8 command @ crlf_bytes)) (\<lambda>_. await c ''> '')) command_failed s = (r, s')"
  shows "session_ok s' \<and> (case r of Inr raw \<Rightarrow> authenticated s'
    | Inl e \<Rightarrow> e = TelnetGatewayError TelnetCommandFailed \<longrightarrow> \<not> socket_open s')"
  using run
proof (cases rule: catchW_cases)
  case (returned raw)
  have k: "keeps (kept False True) (bindW (tn_send (utf8 command @ crlf_bytes)) (\<lambda>_. await c ''> ''))"
    by (intro keeps_rules)
  show ?thesis using keepsD [OF k _ returned(1)] ok returned(2) by (simp add: kept_def)
next
  case (handled e v)
  have k: "keeps (kept False True) (bindW (tn_send (utf8 command @ crlf_bytes)) (\<lambda>_. await c ''> ''))"
    by (intro keeps_rules)
  have v: "session_ok v" using keepsD [OF k _ handled(1)] ok by (simp add: kept_def)
  have "raises_only not_command (bindW (tn_send (utf8 command @ crlf_bytes)) (\<lambda>_. await c ''> ''))"
    by (intro raises_rules) (auto simp: raises_only_def tn_send_def not_command_def split: prod.splits bool.splits)
  from raises_onlyD [OF this handled(1)] have "not_command e" .
  then show ?thesis using keepsD [OF command_failed_keeps v handled(2)] handled(2)
    by (cases e) (auto simp: command_failed_def bindW_def tn_close_def not_command_def split: if_splits)
qed

text \<open>
  Whatever the device does, a command leaves a well-formed session: a
  negotiator exactly while the socket is open, and authenticated only then. A command that returns
  ran on an authenticated session, and one that fails on the wire closes it, so the next command
  logs in again.
\<close>

theorem commands_need_a_login:
  assumes "session_ok s" and "run_command c command s = (r, s')"
  shows "session_ok s' \<and> (case r of Inr _ \<Rightarrow> authenticated s'
    | Inl e \<Rightarrow> e = TelnetGatewayError TelnetCommandFailed \<longrightarrow> \<not> socket_open s')"
  using assms(2) [unfolded run_command_def]
proof (cases rule: bindW_cases)
  case (raised e)
  have "session_ok s'" by (rule keepsD [OF tn_connect_keeps assms(1) raised(1)])
  then show ?thesis using raised(2) raises_onlyD [OF connect_raises raised(1)] by (simp add: not_command_def)
next
  case (returned u v)
  have v: "session_ok v" by (rule keepsD [OF tn_connect_keeps assms(1) returned(1)])
  from returned(2) show ?thesis
  proof (cases rule: bindW_cases)
    case raised
    then show ?thesis using v by (auto simp: whenW_def split: if_splits)
  next
    case (returned u v')
    then have a: "authenticated v" and [simp]: "v' = v" by (auto simp: whenW_Inr)
    from returned(2) show ?thesis
      by (cases rule: bindW_cases) (use exchange_ok [OF v a] in \<open>fastforce split: sum.splits\<close>)+
  qed
qed

theorem commands_need_a_login_witness:
  "\<exists>s'. run_command sample_client ''show'' sample_session = (Inr ''Hi> '', s') \<and> session_ok s' \<and> authenticated s'"
proof -
  have "case run_command sample_client ''show'' sample_session of (Inr tx, s') \<Rightarrow> tx = ''Hi> '' | _ \<Rightarrow> False"
    by code_simp
  then obtain s' where r: "run_command sample_client ''show'' sample_session = (Inr ''Hi> '', s')"
    by (auto split: prod.splits sum.splits)
  have "session_ok sample_session" by (simp add: session_ok_def sample_session_def)
  from commands_need_a_login [OF this r] r show ?thesis by auto
qed

end
