(* ===== verification/Connectors.thy ===== *)
theory Connectors
  imports PyNumber IpAddress
begin

text \<open>
  The checks of a connection profile before anything is dialled: \<open>validate_profile\<close> of
  \<open>app/dal/proxy/connectors.py\<close> with its hosts, ports, logins and demo policy.
\<close>

section \<open>Errors\<close>

text \<open>
  What a connection test can meet: its own error with the stage it happened in, the exceptions of
  sockets and SSH that the top level tells apart, and any other Python exception by its class.
\<close>

datatype conn_exn =
    ConnectorError string string
  | SocketTimeout
  | OsFailure
  | SshFailure
  | EofFailure
  | OtherFailure string

definition connector_kinds :: "string list" where
  "connector_kinds = [''direct'', ''ssh_tunnel'', ''ssh_shell'', ''socks5'', ''http_connect'']"

definition protocol_ports :: "(string \<times> int) list" where
  "protocol_ports = [(''ssh'', 22), (''netconf'', 830), (''telnet'', 23)]"

text \<open>\<open>value in {...}\<close> first hashes the value; lists and dictionaries have no hash.\<close>

definition hashable :: "json \<Rightarrow> conn_exn + unit" where
  "hashable v = (case v of JList _ \<Rightarrow> Inl (OtherFailure ''TypeError'') | JObj _ \<Rightarrow> Inl (OtherFailure ''TypeError'')
     | _ \<Rightarrow> Inr ())"

definition one_of :: "string list \<Rightarrow> json \<Rightarrow> conn_exn \<Rightarrow> conn_exn + string" where
  "one_of names v e = bindE (hashable v) (\<lambda>_. case v of
      JStr s \<Rightarrow> if s \<in> set names then Inr s else Inl e
    | _ \<Rightarrow> Inl e)"

section \<open>Hosts and ports\<close>

definition bad_port :: conn_exn where
  "bad_port = ConnectorError ''validation'' ''A TCP port must be an integer from 1 to 65535.''"

definition bad_host :: conn_exn where
  "bad_host = ConnectorError ''validation'' ''A host must be an IP address or plain DNS hostname.''"

definition check_port :: "json \<Rightarrow> conn_exn + int" where
  "check_port v = (case v of
      JInt _ \<Rightarrow> (case py_int v of Inr p \<Rightarrow> if 1 \<le> p \<and> p \<le> 65535 then Inr p else Inl bad_port | Inl _ \<Rightarrow> Inl bad_port)
    | JStr _ \<Rightarrow> (case py_int v of Inr p \<Rightarrow> if 1 \<le> p \<and> p \<le> 65535 then Inr p else Inl bad_port | Inl _ \<Rightarrow> Inl bad_port)
    | _ \<Rightarrow> Inl bad_port)"

text \<open>The regular expression of a host name, which no line break matches.\<close>

definition hostname_char :: "char \<Rightarrow> bool" where
  "hostname_char c \<longleftrightarrow> is_ascii_alnum c \<or> c = CHR ''.'' \<or> c = CHR ''-''"

definition is_hostname :: "string \<Rightarrow> bool" where
  "is_hostname s \<longleftrightarrow> s \<noteq> [] \<and> length s \<le> 253 \<and> list_all hostname_char s
     \<and> is_ascii_alnum (hd s) \<and> is_ascii_alnum (last s)"

definition check_host :: "json \<Rightarrow> conn_exn + string" where
  "check_host v = (case v of
      JStr s \<Rightarrow> if s = [] \<or> s \<noteq> strip s \<or> CHR ''%'' \<in> set s then Inl bad_host
        else (case parse_address s of
            Some _ \<Rightarrow> Inr s
          | None \<Rightarrow> if \<not> is_hostname s \<or> contains ''..'' s then Inl bad_host else Inr s)
    | _ \<Rightarrow> Inl bad_host)"

definition not_loopback :: conn_exn where
  "not_loopback = ConnectorError ''demo_policy''
     ''Demo connections require literal loopback addresses or localhost.''"

definition loopback_host :: "string \<Rightarrow> conn_exn + string" where
  "loopback_host host = (if lower host = ''localhost'' then Inr ''127.0.0.1''
     else case parse_address host of
       None \<Rightarrow> Inl not_loopback
     | Some address \<Rightarrow> if is_loopback address then Inr (show_address address) else Inl not_loopback)"

section \<open>Trust files of the demo\<close>

text \<open>
  The file system, as the policy asks it: absolute and resolved paths as lists of components
  (resolving may fail), and the two directories of the project with the configured one.
\<close>

type_synonym path = "string list"

record files =
  abspath :: "json \<Rightarrow> path option"
  resolved :: "path \<Rightarrow> path option"
  project_root :: path
  storage_dir :: "string option"
  is_absolute :: "string \<Rightarrow> bool"
  path_of :: "string \<Rightarrow> path"

definition relative_to :: "path \<Rightarrow> path \<Rightarrow> bool" where
  "relative_to p dir = prefix dir p"

definition bad_trust_file :: conn_exn where
  "bad_trust_file = ConnectorError ''demo_policy''
     ''Demo trust files must be inside configured local demo storage or test/fixtures.''"

definition allowed_roots :: "files \<Rightarrow> path list option" where
  "allowed_roots fs =
     (let own = [project_root fs @ [''demo'', ''data''], project_root fs @ [''test'', ''fixtures'']] in
      case storage_dir fs of
        None \<Rightarrow> Some own
      | Some dir \<Rightarrow> if dir = [] then Some own
          else if \<not> is_absolute fs dir \<or> startswith dir [CHR 0x5C, CHR 0x5C] \<or> startswith dir ''//'' then None
          else Some (own @ [path_of fs dir]))"

text \<open>Some root, once resolved, is above the path; resolving a root may fail first.\<close>

fun under_resolved :: "files \<Rightarrow> path \<Rightarrow> path list \<Rightarrow> bool option" where
  "under_resolved fs p [] = Some False"
| "under_resolved fs p (dir # dirs) = (case resolved fs dir of
      None \<Rightarrow> None
    | Some r \<Rightarrow> if relative_to p r then Some True else under_resolved fs p dirs)"

definition trust_file_allowed :: "files \<Rightarrow> json \<Rightarrow> bool" where
  "trust_file_allowed fs v = (case (abspath fs v, allowed_roots fs) of
      (Some p, Some roots) \<Rightarrow> list_ex (relative_to p) roots
        \<and> (case resolved fs p of None \<Rightarrow> False | Some p' \<Rightarrow> under_resolved fs p' roots = Some True)
    | _ \<Rightarrow> False)"

definition demo_file_policy :: "files \<Rightarrow> dict \<Rightarrow> conn_exn + unit" where
  "demo_file_policy fs auth =
     bindE (check (\<not> truthy (dget auth ''private_key_path''))
       (ConnectorError ''demo_policy'' ''Demo mode accepts pasted SSH keys, not private-key file paths.'')) (\<lambda>_.
     check (truthy (dget auth ''known_hosts_path'') \<longrightarrow> trust_file_allowed fs (dget auth ''known_hosts_path''))
       bad_trust_file)"

section \<open>Logins\<close>

definition validation :: "string \<Rightarrow> conn_exn" where
  "validation detail = ConnectorError ''validation'' detail"

definition bounded_field :: "json \<Rightarrow> bool" where
  "bounded_field v = (case v of
      JNull \<Rightarrow> True
    | JStr s \<Rightarrow> length s \<le> 4096 \<and> list_all (\<lambda>c. 32 \<le> ord_of c \<and> ord_of c \<noteq> 127) s
    | _ \<Rightarrow> False)"

definition has_key :: "dict \<Rightarrow> bool" where
  "has_key auth \<longleftrightarrow> truthy (dget auth ''private_key'') \<or> truthy (dget auth ''private_key_path'')"

definition auth_fields :: "dict \<Rightarrow> bool \<Rightarrow> bool \<Rightarrow> conn_exn + unit" where
  "auth_fields auth required ssh =
     (let username = dget auth ''username''; password = dget auth ''password'' in
      bindE (check (\<not> (required \<and> (\<not> is_str username \<or> username = JStr [])))
        (validation ''A username is required for this login.'')) (\<lambda>_.
      bindE (check (list_all (\<lambda>f. bounded_field (dget auth f)) [''username'', ''password'', ''key_passphrase''])
        (validation ''Login fields must be bounded text without control characters.'')) (\<lambda>_.
      bindE (one_of [''password'', ''ssh_key'']
          (dget_or auth ''authentication_type'' (JStr (if has_key auth then ''ssh_key'' else ''password'')))
          (ConnectorError ''unsupported'' ''The selected authentication method is unsupported.'')) (\<lambda>selected.
      if selected = ''ssh_key'' \<or> has_key auth then
        bindE (check ssh (ConnectorError ''unsupported''
          ''This login supports passwords only; SSH keys are not applicable.'')) (\<lambda>_.
        bindE (check (has_key auth \<and> selected = ''ssh_key'' \<and> \<not> truthy password)
          (validation ''Select exactly one password or SSH-key credential.'')) (\<lambda>_.
        check (\<not> (truthy (dget auth ''private_key'') \<and> truthy (dget auth ''private_key_path'')))
          (validation ''Select pasted key material or a key file, not both.'')))
      else if required then check (truthy password) (validation ''A password is required for this login.'')
      else check (truthy username = truthy password)
          (validation ''Proxy username and password must be supplied together.'')))))"

section \<open>The profile\<close>

definition bad_timeout :: conn_exn where
  "bad_timeout = validation ''The overall timeout must be between 1 and 30 seconds.''"

definition check_timeout :: "(string \<Rightarrow> pyfloat option) \<Rightarrow> dict \<Rightarrow> conn_exn + rat" where
  "check_timeout tf device =
     bindE (check (\<not> is_bool (dget device ''timeout_seconds'')) bad_timeout) (\<lambda>_.
     case py_float tf (dget_or device ''timeout_seconds'' (JInt 5)) of
       Inl TooLarge \<Rightarrow> Inl (OtherFailure ''OverflowError'')
     | Inl _ \<Rightarrow> Inl bad_timeout
     | Inr (Finite seconds) \<Rightarrow> if 1 \<le> seconds \<and> seconds \<le> 30 then Inr seconds else Inl bad_timeout
     | Inr _ \<Rightarrow> Inl bad_timeout)"

text \<open>The selected connector: its dictionary and its type, before its endpoint is checked.\<close>

definition selected_connector :: "dict \<Rightarrow> string \<Rightarrow> conn_exn + (dict \<times> string)" where
  "selected_connector device protocol =
     bindE (check (\<not> (truthy (dget device ''proxy_id'') \<and> \<not> dhas device ''connector''))
       (validation ''The saved proxy reference must be resolved before testing.'')) (\<lambda>_.
     case dget_or device ''connector'' (JObj [(''type'', JStr ''direct'')]) of
       JObj connector \<Rightarrow>
         bindE (one_of connector_kinds (dget connector ''type'')
           (ConnectorError ''unsupported'' ''The selected connector is unsupported.'')) (\<lambda>kind.
         bindE (check (\<not> (truthy (dget device ''proxy_id'') \<and> kind = ''direct''))
           (validation ''A saved proxy reference cannot be tested as a direct connection.'')) (\<lambda>_.
         bindE (check (\<not> (kind = ''ssh_shell'' \<and> protocol \<noteq> ''telnet''))
           (ConnectorError ''unsupported'' ''Interactive SSH shell supports generic Telnet only, not SSH or NETCONF.'')) (\<lambda>_.
         Inr (connector, kind))))
     | _ \<Rightarrow> Inl (validation ''A resolved connector object is required.''))"

text \<open>A dictionary with its host and port checked and put back.\<close>

definition with_endpoint :: "dict \<Rightarrow> json \<Rightarrow> conn_exn + dict" where
  "with_endpoint d port = bindE (check_host (dget d ''host'')) (\<lambda>host.
     let d' = dset ''host'' (JStr host) d in
     bindE (check_port port) (\<lambda>p. Inr (dset ''port'' (JInt p) d')))"

text \<open>The address that will be dialled: in the demo a loopback address, else the host as given.\<close>

definition with_network_host :: "bool \<Rightarrow> dict \<Rightarrow> conn_exn + dict" where
  "with_network_host demo_mode d =
     (if demo_mode then (case dget d ''host'' of
          JStr host \<Rightarrow> bindE (loopback_host host) (\<lambda>h. Inr (dset ''network_host'' (JStr h) d))
        | _ \<Rightarrow> Inl (OtherFailure ''AttributeError''))
      else Inr (dset ''network_host'' (dget d ''host'') d))"

definition demo_checks :: "files \<Rightarrow> bool \<Rightarrow> string \<Rightarrow> dict \<Rightarrow> dict \<Rightarrow> conn_exn + (dict \<times> dict)" where
  "demo_checks fs demo_mode kind device connector =
     bindE (with_network_host demo_mode device) (\<lambda>device.
     bindE (if demo_mode \<and> kind = ''direct'' then Inr connector
       else with_network_host demo_mode connector) (\<lambda>connector.
     bindE (if demo_mode then demo_file_policy fs device else Inr ()) (\<lambda>_.
     bindE (if demo_mode \<and> kind \<noteq> ''direct'' then demo_file_policy fs connector else Inr ()) (\<lambda>_.
     Inr (device, connector)))))"

definition colon_in :: "json \<Rightarrow> bool" where
  "colon_in v = (case v of JStr s \<Rightarrow> CHR '':'' \<in> set s | _ \<Rightarrow> False)"

definition login_checks :: "string \<Rightarrow> string \<Rightarrow> dict \<Rightarrow> dict \<Rightarrow> conn_exn + unit" where
  "login_checks protocol kind device connector =
     bindE (auth_fields device True (protocol \<noteq> ''telnet'')) (\<lambda>_.
     bindE (if kind \<noteq> ''direct'' then auth_fields connector (startswith kind ''ssh_'') (startswith kind ''ssh_'')
       else Inr ()) (\<lambda>_.
     check (\<not> (kind = ''http_connect'' \<and> colon_in (dget connector ''username'')))
       (validation ''HTTP Basic proxy usernames cannot contain a colon.'')))"

definition validate_profile ::
    "(string \<Rightarrow> pyfloat option) \<Rightarrow> files \<Rightarrow> json \<Rightarrow> bool \<Rightarrow> conn_exn + (dict \<times> dict \<times> rat)" where
  "validate_profile tf fs profile demo_mode = (case profile of
      JObj device \<Rightarrow>
        bindE (one_of (map fst protocol_ports) (dget device ''protocol'')
          (ConnectorError ''unsupported'' ''The selected device protocol is unsupported.'')) (\<lambda>protocol.
        bindE (selected_connector device protocol) (\<lambda>(connector, kind).
        bindE (with_endpoint device (dget_or device ''port'' (JInt (the (map_of protocol_ports protocol))))) (\<lambda>device.
        let connector = dset ''type'' (JStr kind) connector in
        bindE (if kind \<noteq> ''direct'' then with_endpoint connector (dget connector ''port'') else Inr connector) (\<lambda>connector.
        bindE (check_timeout tf device) (\<lambda>seconds.
        bindE (demo_checks fs demo_mode kind device connector) (\<lambda>(device, connector).
        bindE (login_checks protocol kind device connector) (\<lambda>_.
        Inr (device, connector, seconds))))))))
    | _ \<Rightarrow> Inl (validation ''A resolved connection profile is required.''))"

end
