(* ===== verification/Base64.thy ===== *)
theory Base64
  imports Wire
begin

text \<open>
  Base64 of the Python standard library, as the code uses it: the padded alphabet of HTTP Basic
  credentials, and the unpadded URL alphabet of signed values and tokens with its decoder.
\<close>

section \<open>Alphabets\<close>

definition sextet_char :: "bool \<Rightarrow> nat \<Rightarrow> char" where
  "sextet_char url n = char_of
     (if n < 26 then 65 + n else if n < 52 then 97 + (n - 26) else if n < 62 then 48 + (n - 52)
      else if n = 62 then (if url then 45 else 43) else (if url then 95 else 47 :: nat))"

text \<open>The value of a character of the URL alphabet.\<close>

definition sextet_val :: "char \<Rightarrow> nat option" where
  "sextet_val c = (if is_ascii_upper c then Some (ord_of c - 65)
     else if is_ascii_lower c then Some (ord_of c - 97 + 26)
     else if is_ascii_digit c then Some (ord_of c - 48 + 52)
     else if c = CHR ''-'' then Some 62 else if c = CHR ''_'' then Some 63 else None)"

lemma sextet_val_ord:
  "sextet_val c = (let n = ord_of c in
     if 65 \<le> n \<and> n \<le> 90 then Some (n - 65) else if 97 \<le> n \<and> n \<le> 122 then Some (n - 97 + 26)
     else if 48 \<le> n \<and> n \<le> 57 then Some (n - 48 + 52)
     else if n = 45 then Some 62 else if n = 95 then Some 63 else None)"
proof -
  have "c = CHR ''-'' \<longleftrightarrow> ord_of c = 45" and "c = CHR ''_'' \<longleftrightarrow> ord_of c = 95"
    using ord_of_inject [of c "CHR ''-''"] ord_of_inject [of c "CHR ''_''"] by (simp_all add: ord_of_def)
  then show ?thesis
    by (simp add: sextet_val_def is_ascii_upper_def is_ascii_lower_def is_ascii_digit_def Let_def)
qed

lemma sextet_val_char: "n < 64 \<Longrightarrow> sextet_val (sextet_char True n) = Some n"
proof -
  assume n: "n < 64"
  then have "ord_of (sextet_char True n) = (if n < 26 then 65 + n else if n < 52 then 97 + (n - 26)
      else if n < 62 then 48 + (n - 52) else if n = 62 then 45 else 95)"
    by (simp add: sextet_char_def)
  then show ?thesis using n by (auto simp: sextet_val_ord Let_def)
qed

section \<open>Groups of three bytes\<close>

fun sextets :: "bytes \<Rightarrow> nat list" where
  "sextets (a # b # c # r) =
     [unat a div 4, unat a mod 4 * 16 + unat b div 16, unat b mod 16 * 4 + unat c div 64, unat c mod 64]
     @ sextets r"
| "sextets [a, b] = [unat a div 4, unat a mod 4 * 16 + unat b div 16, unat b mod 16 * 4]"
| "sextets [a] = [unat a div 4, unat a mod 4 * 16]"
| "sextets [] = []"

fun unsextets :: "nat list \<Rightarrow> bytes option" where
  "unsextets (a # b # c # d # r) = map_option (\<lambda>bs.
     word_of_nat (a * 4 + b div 16) # word_of_nat (b mod 16 * 16 + c div 4) # word_of_nat (c mod 4 * 64 + d) # bs)
     (unsextets r)"
| "unsextets [a, b, c] = Some [word_of_nat (a * 4 + b div 16), word_of_nat (b mod 16 * 16 + c div 4)]"
| "unsextets [a, b] = Some [word_of_nat (a * 4 + b div 16)]"
| "unsextets [a] = None"
| "unsextets [] = Some []"

lemma byte_bound: "unat (b :: byte) < 256"
  using unsigned_less [of b] by simp

lemma sextets_bound: "\<forall>n \<in> set (sextets bs). n < 64"
proof (induction bs rule: sextets.induct)
  case (1 a b c r)
  then show ?case using byte_bound [of a] byte_bound [of b] byte_bound [of c] by auto
next
  case (2 a b)
  then show ?case using byte_bound [of a] byte_bound [of b] by auto
next
  case (3 a)
  then show ?case using byte_bound [of a] by auto
qed simp

lemma join_bits:
  fixes a b :: nat
  shows "b < 256 \<Longrightarrow> a div 4 * 4 + (a mod 4 * 16 + b div 16) div 16 = a"
    and "c < 256 \<Longrightarrow> (x * 16 + b div 16) mod 16 * 16 + (b mod 16 * 4 + c div 64) div 4 = b div 16 mod 16 * 16 + b mod 16"
    and "(b mod 16 * 4 + c div 64) mod 4 * 64 + c mod 64 = c div 64 mod 4 * 64 + c mod 64"
proof -
  show "a div 4 * 4 + (a mod 4 * 16 + b div 16) div 16 = a" if "b < 256"
  proof -
    have "(a mod 4 * 16 + b div 16) div 16 = a mod 4" using that by simp
    then show ?thesis by simp
  qed
  show "(x * 16 + b div 16) mod 16 * 16 + (b mod 16 * 4 + c div 64) div 4 = b div 16 mod 16 * 16 + b mod 16"
    if "c < 256"
  proof -
    have "(b mod 16 * 4 + c div 64) div 4 = b mod 16" using that by simp
    then show ?thesis by simp
  qed
  show "(b mod 16 * 4 + c div 64) mod 4 * 64 + c mod 64 = c div 64 mod 4 * 64 + c mod 64" by simp
qed

lemma low_bits: "b < 256 \<Longrightarrow> b div 16 mod 16 * 16 + b mod 16 = b" "c < 256 \<Longrightarrow> c div 64 mod 4 * 64 + c mod 64 = c"
  for b c :: nat
  by simp_all

lemma unsextets_sextets: "unsextets (sextets bs) = Some bs"
proof (induction bs rule: sextets.induct)
  case (1 a b c r)
  then show ?case
    using join_bits(1) [OF byte_bound [of b], of "unat a"]
      join_bits(2) [OF byte_bound [of c], of "unat a mod 4" "unat b"]
      join_bits(3) [of "unat b" "unat c"] low_bits(1) [OF byte_bound [of b]] low_bits(2) [OF byte_bound [of c]]
    by simp
next
  case (2 a b)
  have "(unat a mod 4 * 16 + unat b div 16) mod 16 * 16 + (unat b mod 16 * 4) div 4 = unat b"
    using low_bits(1) [OF byte_bound [of b]] by simp
  then show ?case using join_bits(1) [OF byte_bound [of b], of "unat a"] by simp
next
  case (3 a)
  then show ?case by simp
qed simp

section \<open>Texts\<close>

definition b64encode :: "bytes \<Rightarrow> string" where
  "b64encode bs = (let s = map (sextet_char False) (sextets bs) in
     s @ replicate ((4 - length s mod 4) mod 4) (CHR ''=''))"

text \<open>\<open>urlsafe_b64encode(data).rstrip(b"=").decode("ascii")\<close>.\<close>

definition b64url :: "bytes \<Rightarrow> string" where
  "b64url bs = map (sextet_char True) (sextets bs)"

text \<open>
  The checked decoder: no empty text and no character outside the alphabet; a single character
  left over is not decodable, and unused low bits are dropped as \<open>binascii\<close> drops them.
\<close>

definition decode_b64url :: "string \<Rightarrow> bytes option" where
  "decode_b64url s = (if s = [] then None
     else case those (map sextet_val s) of None \<Rightarrow> None | Some ns \<Rightarrow> unsextets ns)"

lemma those_map: "(\<And>x. x \<in> set xs \<Longrightarrow> f (g x) = Some x) \<Longrightarrow> those (map f (map g xs)) = Some xs"
  by (induction xs) auto

theorem decode_b64url_encode: "bs \<noteq> [] \<Longrightarrow> decode_b64url (b64url bs) = Some bs"
proof -
  assume "bs \<noteq> []"
  then have "b64url bs \<noteq> []" by (cases bs rule: sextets.cases) (auto simp: b64url_def)
  moreover have "those (map sextet_val (b64url bs)) = Some (sextets bs)"
    unfolding b64url_def using sextets_bound sextet_val_char by (intro those_map) blast
  ultimately show ?thesis by (simp add: decode_b64url_def unsextets_sextets)
qed

lemma b64url_chars: "c \<in> set (b64url bs) \<Longrightarrow> \<exists>n < 64. c = sextet_char True n"
  using sextets_bound by (auto simp: b64url_def)

lemma b64url_no_dot: "CHR ''.'' \<notin> set (b64url bs)"
proof
  assume "CHR ''.'' \<in> set (b64url bs)"
  then obtain n where "n < 64" and "CHR ''.'' = sextet_char True n" using b64url_chars by blast
  then have "sextet_val (CHR ''.'') = Some n" using sextet_val_char by simp
  then show False by (simp add: sextet_val_def is_ascii_upper_def is_ascii_lower_def is_ascii_digit_def ord_of_def)
qed

end
