(* ===== verification/Handshakes.thy ===== *)
theory Handshakes
  imports Connectors Telnet Base64
begin

text \<open>
  The dialling part of \<open>app/dal/proxy/connectors.py\<close>: one deadline that owns every resource, TCP
  connections, SSH logins with strict host keys, the SOCKS5 and HTTP CONNECT handshakes, prompts,
  and the strategies of \<open>open_stream\<close>. DNS, TCP and SSH themselves are answers of the network.
\<close>

section \<open>The network\<close>

datatype dns_answer = NoSlot | NoAnswer | NotResolved | Resolved "(string \<times> int) list"

datatype ssh_answer =
    LoggedIn | HostKeyUnknown | HostKeyMismatch | LoginRejected | LoginOsError | LoginSshError

datatype auth_method = PublicKey | Password

datatype channel_request = DirectTcpip string int | ShellSession | NetconfSubsystem

text \<open>
  What the network and the SSH library answer: name lookups, TCP connections with the bytes that
  will arrive on them, whether trust and key files load and keys parse, logins, and channels (with
  the bytes that will arrive, or the exception).
\<close>

record network =
  lookup :: "string \<Rightarrow> int \<Rightarrow> dns_answer"
  reaches :: "string \<times> int \<Rightarrow> arrival list option"
  known_hosts_load :: "string \<Rightarrow> conn_exn + unit"
  key_file :: "string \<Rightarrow> string option"
  key_parses :: "string \<Rightarrow> string \<Rightarrow> bool"
  ssh_login :: "string \<Rightarrow> int \<Rightarrow> string \<Rightarrow> auth_method \<Rightarrow> ssh_answer"
  channel :: "channel_request \<Rightarrow> conn_exn + arrival list"

datatype link_resource = TcpSocket "string \<times> int" | SshTransport string | SshChannel channel_request

text \<open>
  A test under way: the stream it reads, the end of its time, whether its timer has fired when it
  is looked at, what it opened, what the deadline owns, what is closed, and what was dialled.
\<close>

record link = wire +
  dl_end :: rat
  alarms :: "bool list"
  expired :: bool
  opened :: "link_resource list"
  owned :: "link_resource list"
  closed :: "link_resource list"
  dialled :: "(string \<times> int) list"

type_synonym 'a link_call = "(link, conn_exn, 'a) io"

section \<open>The deadline\<close>

definition deadline_expired :: conn_exn where
  "deadline_expired = ConnectorError ''timeout'' ''The overall connection-test deadline expired.''"

text \<open>\<open>close\<close>: everything owned is closed, and nothing is owned any more.\<close>

definition close_owned :: "link \<Rightarrow> link" where
  "close_owned w = w\<lparr>owned := [], closed := closed w @ owned w\<rparr>"

text \<open>The timer thread may fire before any look at the deadline.\<close>

definition alarm_tick :: "link \<Rightarrow> link" where
  "alarm_tick w = (case alarms w of
      [] \<Rightarrow> w
    | a # as \<Rightarrow> if a \<and> \<not> expired w then close_owned (w\<lparr>alarms := as, expired := True\<rparr>)
        else w\<lparr>alarms := as\<rparr>)"

definition remaining :: "rat link_call" where
  "remaining w = (let (t, w1) = monotonic (alarm_tick w) in
     if dl_end w1 - t \<le> 0 \<or> expired w1 then (Inl deadline_expired, w1) else (Inr (dl_end w1 - t), w1))"

text \<open>\<open>own\<close>, of a resource that has just been opened.\<close>

definition own :: "link_resource \<Rightarrow> unit link_call" where
  "own r w = (let w1 = alarm_tick w in
     if expired w1 then (Inl deadline_expired, w1\<lparr>opened := opened w1 @ [r], closed := closed w1 @ [r]\<rparr>)
     else (Inr (), w1\<lparr>opened := opened w1 @ [r], owned := owned w1 @ [r]\<rparr>))"

definition set_arrivals :: "arrival list \<Rightarrow> unit link_call" where
  "set_arrivals as w = (Inr (), w\<lparr>arrivals := as\<rparr>)"

section \<open>TCP\<close>

definition resolve :: "network \<Rightarrow> string \<Rightarrow> int \<Rightarrow> (string \<times> int) list link_call" where
  "resolve net host port = (if parse_address host \<noteq> None then returnW [(host, port)]
     else bindW remaining (\<lambda>_. case lookup net host port of
         NoSlot \<Rightarrow> raiseW deadline_expired
       | found \<Rightarrow> bindW remaining (\<lambda>_. case found of
           Resolved as \<Rightarrow> if as = [] then raiseW (ConnectorError ''connect'' ''The endpoint hostname could not be resolved.'')
             else returnW as
         | NotResolved \<Rightarrow> raiseW (ConnectorError ''connect'' ''The endpoint hostname could not be resolved.'')
         | _ \<Rightarrow> raiseW deadline_expired)))"

definition dial :: "string \<times> int \<Rightarrow> unit link_call" where
  "dial address w = (Inr (), w\<lparr>dialled := dialled w @ [address]\<rparr>)"

definition close_resource :: "link_resource \<Rightarrow> unit link_call" where
  "close_resource r w = (Inr (), w\<lparr>closed := closed w @ [r]\<rparr>)"

primrec connect_each :: "network \<Rightarrow> string \<Rightarrow> (string \<times> int) list \<Rightarrow> unit link_call" where
  "connect_each net stage [] =
     raiseW (ConnectorError stage ''The TCP endpoint refused or could not establish a connection.'')"
| "connect_each net stage (address # rest) =
     bindW (own (TcpSocket address)) (\<lambda>_.
     bindW remaining (\<lambda>_.
     bindW (dial address) (\<lambda>_.
     case reaches net address of
       Some as \<Rightarrow> set_arrivals as
     | None \<Rightarrow> bindW (close_resource (TcpSocket address)) (\<lambda>_.
         bindW remaining (\<lambda>_. connect_each net stage rest)))))"

definition connect_tcp :: "network \<Rightarrow> string \<Rightarrow> int \<Rightarrow> string \<Rightarrow> unit link_call" where
  "connect_tcp net host port stage = bindW (resolve net host port) (connect_each net stage)"

section \<open>Bytes on the stream\<close>

definition send :: "bytes \<Rightarrow> unit link_call" where
  "send payload = bindW remaining (\<lambda>_ w. case sendall payload w of
      (True, w') \<Rightarrow> (Inr (), w') | (False, w') \<Rightarrow> (Inl OsFailure, w'))"

text \<open>One \<open>recv\<close> within the time left.\<close>

definition receive :: "nat \<Rightarrow> bytes link_call" where
  "receive n = bindW remaining (\<lambda>_ w. case recv n w of
      (Some bs, w') \<Rightarrow> (Inr bs, w')
    | (None, w') \<Rightarrow> (Inl (if arrivals w = [] then SocketTimeout else OsFailure), w'))"

definition peer_closed :: conn_exn where
  "peer_closed = ConnectorError ''protocol'' ''The peer closed before completing the protocol handshake.''"

function receive_exact :: "nat \<Rightarrow> bytes link_call" where
  "receive_exact n w = (if n = 0 then (Inr [], w)
     else case receive n w of
       (Inl e, w') \<Rightarrow> (Inl e, w')
     | (Inr chunk, w') \<Rightarrow> if chunk = [] then (Inl peer_closed, w')
         else case receive_exact (n - length chunk) w' of
           (Inl e, w'') \<Rightarrow> (Inl e, w'')
         | (Inr rest, w'') \<Rightarrow> (Inr (chunk @ rest), w''))"
  by pat_completeness auto

termination
  by (relation "measure fst") (auto simp: length_greater_0_conv diff_less)

declare receive_exact.simps [simp del]

lemma receive_cases:
  assumes "receive n w = (Inr bs, w')"
  obtains t v where "remaining w = (Inr t, v)" and "recv n v = (Some bs, w')"
  using assms unfolding receive_def
proof (rule bindW_InrE)
  fix t v assume r: "remaining w = (Inr t, v)"
    and c: "(case recv n v of (Some bs, w') \<Rightarrow> (Inr bs, w')
      | (None, w') \<Rightarrow> (Inl (if arrivals v = [] then SocketTimeout else OsFailure), w')) = (Inr bs, w')"
  from c have "recv n v = (Some bs, w')" by (cases "recv n v"; cases "fst (recv n v)") simp_all
  with r show thesis by (rule that)
qed

lemma receive_Inr:
  assumes "receive n w = (Inr bs, w')"
  shows "length bs \<le> n"
proof -
  obtain t v where "recv n v = (Some bs, w')" using assms by (rule receive_cases)
  then show ?thesis by (rule recv_Some(1))
qed

lemma receive_exact_length: "receive_exact n w = (Inr bs, w') \<Longrightarrow> length bs = n"
proof (induction n w arbitrary: bs w' rule: receive_exact.induct)
  case (1 n w)
  show ?case
  proof (cases "n = 0")
    case True
    then show ?thesis using "1.prems" by (simp add: receive_exact.simps)
  next
    case False
    with "1.prems" obtain chunk v rest where c: "receive n w = (Inr chunk, v)" "chunk \<noteq> []"
      and r: "receive_exact (n - length chunk) v = (Inr rest, w')" and b: "bs = chunk @ rest"
      by (auto simp: receive_exact.simps [of n w] split: prod.splits sum.splits if_splits)
    then show ?thesis using "1.IH" [OF False c(1) [symmetric] refl c(2) r] receive_Inr [OF c(1)] by simp
  qed
qed

definition too_long :: conn_exn where
  "too_long = ConnectorError ''protocol'' ''The protocol handshake exceeded the allowed response size.''"

function receive_until :: "bytes \<Rightarrow> nat \<Rightarrow> bytes \<Rightarrow> bytes link_call" where
  "receive_until mark limit data w =
     (if suffix mark data then (Inr data, w)
      else if limit \<le> length data then (Inl too_long, w)
      else case receive_exact 1 w of
        (Inl e, w') \<Rightarrow> (Inl e, w')
      | (Inr bs, w') \<Rightarrow> receive_until mark limit (data @ bs) w')"
  by pat_completeness auto

termination
  by (relation "measure (\<lambda>(_, limit, data, _). limit - length data)")
    (simp, clarsimp, drule sym, drule receive_exact_length, simp)

declare receive_until.simps [simp del]

section \<open>SSH\<close>

definition text_of :: "dict \<Rightarrow> string \<Rightarrow> string" where
  "text_of d k = (case dget d k of JStr s \<Rightarrow> s | _ \<Rightarrow> [])"

definition number_of :: "dict \<Rightarrow> string \<Rightarrow> int" where
  "number_of d k = (case dget d k of JInt i \<Rightarrow> i | _ \<Rightarrow> 0)"

definition truthy_text :: "dict \<Rightarrow> string \<Rightarrow> string" where
  "truthy_text d k = (if truthy (dget d k) then text_of d k else [])"

text \<open>\<open>_private_key\<close>: pasted material, or the first characters of the key file.\<close>

definition private_key :: "network \<Rightarrow> dict \<Rightarrow> conn_exn + unit" where
  "private_key net auth =
     bindE (if dget auth ''private_key'' = JNull \<and> truthy (dget auth ''private_key_path'')
         then (case key_file net (text_of auth ''private_key_path'') of
             None \<Rightarrow> Inl (validation ''The configured SSH key file could not be read.'')
           | Some s \<Rightarrow> Inr (JStr (take 65537 s)))
         else Inr (dget auth ''private_key'')) (\<lambda>v. case v of
       JStr s \<Rightarrow> if 65536 < length s then Inl (validation ''The SSH private key is missing or too large.'')
         else if key_parses net s (truthy_text auth ''key_passphrase'') then Inr ()
         else Inl (validation ''The SSH private key or key passphrase is invalid or unsupported.'')
     | _ \<Rightarrow> Inl (validation ''The SSH private key is missing or too large.''))"

text \<open>\<open>_SingleAuth\<close>: the one method a login will try.\<close>

definition single_auth :: "network \<Rightarrow> dict \<Rightarrow> conn_exn + auth_method" where
  "single_auth net auth = (if has_key auth then bindE (private_key net auth) (\<lambda>_. Inr PublicKey)
     else Inr Password)"

definition load_trust :: "network \<Rightarrow> dict \<Rightarrow> bool \<Rightarrow> string \<Rightarrow> conn_exn + unit" where
  "load_trust net auth demo_mode role = (if truthy (dget auth ''known_hosts_path'')
     then known_hosts_load net (text_of auth ''known_hosts_path'')
     else check (\<not> demo_mode) (ConnectorError (role @ ''_host_key'')
       ''Demo SSH logins require an explicit trusted known_hosts file.''))"

definition login_outcome :: "string \<Rightarrow> ssh_answer \<Rightarrow> unit link_call" where
  "login_outcome role a = (case a of
      LoggedIn \<Rightarrow> bindW remaining (\<lambda>_. returnW ())
    | HostKeyUnknown \<Rightarrow> raiseW (ConnectorError (role @ ''_host_key'')
        ''The SSH host key is not present in the selected trust store.'')
    | HostKeyMismatch \<Rightarrow> raiseW (ConnectorError (role @ ''_host_key'')
        ''The SSH host key does not match the selected trust store.'')
    | LoginRejected \<Rightarrow> raiseW (ConnectorError (role @ ''_auth'') ''SSH authentication was rejected.'')
    | LoginOsError \<Rightarrow> bindW remaining (\<lambda>_. raiseW (ConnectorError (role @ ''_connect'')
        ''The SSH connection or selected trust file could not be opened.''))
    | LoginSshError \<Rightarrow> bindW remaining (\<lambda>_. raiseW (ConnectorError (role @ ''_connect'')
        ''The SSH handshake could not be completed.'')))"

text \<open>The handlers of exceptions before the login itself.\<close>

definition ssh_failed :: "string \<Rightarrow> conn_exn \<Rightarrow> 'a link_call" where
  "ssh_failed role e = (case e of
      ConnectorError stage detail \<Rightarrow> raiseW e
    | OtherFailure c \<Rightarrow> raiseW e
    | SshFailure \<Rightarrow> bindW remaining (\<lambda>_. raiseW (ConnectorError (role @ ''_connect'')
        ''The SSH handshake could not be completed.''))
    | EofFailure \<Rightarrow> bindW remaining (\<lambda>_. raiseW (ConnectorError (role @ ''_connect'')
        ''The SSH handshake could not be completed.''))
    | _ \<Rightarrow> bindW remaining (\<lambda>_. raiseW (ConnectorError (role @ ''_connect'')
        ''The SSH connection or selected trust file could not be opened.'')))"

definition connect_ssh :: "network \<Rightarrow> dict \<Rightarrow> bool \<Rightarrow> string \<Rightarrow> unit link_call" where
  "connect_ssh net auth demo_mode role = bindW (own (SshTransport role)) (\<lambda>_.
     bindW (catchW (bindW (liftW (load_trust net auth demo_mode role)) (\<lambda>_.
       bindW (liftW (single_auth net auth)) (\<lambda>used.
       bindW remaining (\<lambda>_. returnW used)))) (ssh_failed role)) (\<lambda>used.
     login_outcome role (ssh_login net (text_of auth ''host'') (number_of auth ''port'')
       (text_of auth ''username'') used)))"

section \<open>SOCKS5\<close>

definition packed :: "ip_address \<Rightarrow> bytes" where
  "packed a = (case a of V4 w \<Rightarrow> map word_of_int (to_digits 256 4 (uint w))
     | V6 w \<Rightarrow> map word_of_int (to_digits 256 16 (uint w)))"

definition socks_address :: "string \<Rightarrow> bytes" where
  "socks_address host = (case parse_address host of
      Some a \<Rightarrow> (if version a = 4 then 1 else 4) # packed a
    | None \<Rightarrow> 3 # word_of_nat (length host) # ascii host)"

definition port_bytes :: "int \<Rightarrow> bytes" where
  "port_bytes p = [word_of_int (p div 256), word_of_int (p mod 256)]"

definition socks_login :: "string \<Rightarrow> string \<Rightarrow> unit link_call" where
  "socks_login username password = (let user = utf8 username; pass = utf8 password in
     bindW (whenW (255 < length user \<or> 255 < length pass)
       (validation ''SOCKS5 credentials cannot exceed 255 encoded bytes.'')) (\<lambda>_.
     bindW (send ([1, word_of_nat (length user)] @ user @ [word_of_nat (length pass)] @ pass)) (\<lambda>_.
     bindW (receive_exact 2) (\<lambda>rep.
     whenW (rep \<noteq> [1, 0]) (ConnectorError ''proxy_auth'' ''SOCKS5 proxy authentication was rejected.'')))))"

definition socks_reply :: "bytes \<Rightarrow> unit link_call" where
  "socks_reply rep =
     bindW (whenW (rep ! 0 \<noteq> 5 \<or> rep ! 2 \<noteq> 0 \<or> rep ! 3 \<notin> {1, 3, 4})
       (ConnectorError ''protocol'' ''The SOCKS5 proxy returned an invalid response.'')) (\<lambda>_.
     bindW (whenW (rep ! 1 \<noteq> 0)
       (ConnectorError ''proxy_connect'' ''The SOCKS5 proxy denied or could not reach the destination.'')) (\<lambda>_.
     bindW (if rep ! 3 = 1 then returnW 4 else if rep ! 3 = 4 then returnW 16
       else bindW (receive_exact 1) (\<lambda>bs. let n = unat (hd bs) in
         bindW (whenW (n = 0) (ConnectorError ''protocol'' ''The SOCKS5 proxy returned an invalid bound address.''))
           (\<lambda>_. returnW n))) (\<lambda>n.
     bindW (receive_exact (n + 2)) (\<lambda>_. returnW ()))))"

definition socks5 :: "dict \<Rightarrow> dict \<Rightarrow> unit link_call" where
  "socks5 connector device =
     (let username = truthy_text connector ''username'';
          selected = (if username \<noteq> [] then 2 else 0) in
      bindW (send [5, 1, selected]) (\<lambda>_.
      bindW (receive_exact 2) (\<lambda>greeting.
      bindW (whenW (greeting \<noteq> [5, selected])
        (ConnectorError ''proxy_auth'' ''The SOCKS5 proxy rejected the selected authentication method.'')) (\<lambda>_.
      bindW (if username \<noteq> [] then socks_login username (text_of connector ''password'') else returnW ()) (\<lambda>_.
      bindW (send ([5, 1, 0] @ socks_address (text_of device ''network_host'')
        @ port_bytes (number_of device ''port''))) (\<lambda>_.
      bindW (receive_exact 4) socks_reply))))))"

section \<open>HTTP CONNECT\<close>

definition authority :: "string \<Rightarrow> int \<Rightarrow> string" where
  "authority host port = (if CHR '':'' \<in> set host then ''['' @ host @ '']:'' @ show_int port
     else host @ '':'' @ show_int port)"

definition crlf_text :: string where
  "crlf_text = [char_of (13 :: nat), char_of (10 :: nat)]"

definition connect_request :: "dict \<Rightarrow> dict \<Rightarrow> string" where
  "connect_request connector device =
     (let a = authority (text_of device ''network_host'') (number_of device ''port'');
          username = truthy_text connector ''username'' in
      ''CONNECT '' @ a @ '' HTTP/1.1'' @ crlf_text @ ''Host: '' @ a @ crlf_text
      @ (if username \<noteq> [] then ''Proxy-Authorization: Basic ''
           @ b64encode (utf8 (username @ '':'' @ text_of connector ''password'')) @ crlf_text else [])
      @ crlf_text)"

text \<open>\<open>split(b"\r\n")\<close>.\<close>

fun split_lines :: "bytes \<Rightarrow> bytes list" where
  "split_lines [] = [[]]"
| "split_lines [b] = [[b]]"
| "split_lines (b # c # r) = (if b = 13 \<and> c = 10 then [] # split_lines r
     else (case split_lines (c # r) of [] \<Rightarrow> [[b]] | l # ls \<Rightarrow> (b # l) # ls))"

definition printable :: "byte \<Rightarrow> bool" where
  "printable b \<longleftrightarrow> 0x20 \<le> b \<and> b \<le> 0x7E"

definition digit_byte :: "byte \<Rightarrow> bool" where
  "digit_byte b \<longleftrightarrow> 48 \<le> b \<and> b \<le> 57"

text \<open>The status line: \<open>HTTP/1.0\<close> or \<open>1.1\<close>, three digits, and a reason of printable characters.\<close>

definition status_code_of :: "bytes \<Rightarrow> nat option" where
  "status_code_of line =
     (if (prefix (ascii ''HTTP/1.0 '') line \<or> prefix (ascii ''HTTP/1.1 '') line)
        \<and> 12 \<le> length line \<and> list_all digit_byte (take 3 (drop 9 line))
        \<and> (drop 12 line = [] \<or> hd (drop 12 line) = 32 \<and> list_all printable (drop 12 line))
      then Some (unat (line ! 9 - 48) * 100 + unat (line ! 10 - 48) * 10 + unat (line ! 11 - 48)) else None)"

definition token_byte :: "byte \<Rightarrow> bool" where
  "token_byte b \<longleftrightarrow> b \<in> set (ascii ''!#$%&*+.^_`|~-'') \<or> b = 39 \<or> digit_byte b \<or> 65 \<le> b \<and> b \<le> 90 \<or> 97 \<le> b \<and> b \<le> 122"

definition header_line :: "bytes \<Rightarrow> bool" where
  "header_line line \<longleftrightarrow> (let name = takeWhile (\<lambda>b. b \<noteq> 58) line; rest = dropWhile (\<lambda>b. b \<noteq> 58) line in
     name \<noteq> [] \<and> list_all token_byte name \<and> rest \<noteq> [] \<and> list_all (\<lambda>b. printable b \<or> b = 9) (tl rest))"

definition connect_response :: "bytes \<Rightarrow> conn_exn + unit" where
  "connect_response response = (let ls = split_lines (take (length response - 4) response) in
     case status_code_of (hd ls) of
       None \<Rightarrow> Inl (ConnectorError ''protocol'' ''The HTTP proxy returned an invalid CONNECT response.'')
     | Some code \<Rightarrow>
         bindE (check (list_all header_line (tl ls))
           (ConnectorError ''protocol'' ''The HTTP proxy returned an invalid CONNECT response.'')) (\<lambda>_.
         bindE (check (code \<noteq> 407) (ConnectorError ''proxy_auth'' ''HTTP CONNECT proxy authentication was rejected.'')) (\<lambda>_.
         check (200 \<le> code \<and> code < 300)
           (ConnectorError ''proxy_connect'' ''The HTTP CONNECT proxy denied or could not reach the destination.''))))"

definition http_connect :: "dict \<Rightarrow> dict \<Rightarrow> unit link_call" where
  "http_connect connector device =
     bindW (send (ascii (connect_request connector device))) (\<lambda>_.
     bindW (receive_until [13, 10, 13, 10] 8192 []) (\<lambda>response.
     liftW (connect_response response)))"

section \<open>Prompts\<close>

text \<open>\<open>$\<close> of a bytes pattern: the end, or a last line feed before it.\<close>

definition before_end :: "bytes \<Rightarrow> bytes" where
  "before_end data = (if data \<noteq> [] \<and> last data = 10 then butlast data else data)"

definition line_break :: "byte \<Rightarrow> bool" where
  "line_break b \<longleftrightarrow> b = 13 \<or> b = 10"

definition at_line_start :: "bytes \<Rightarrow> bool" where
  "at_line_start reversed \<longleftrightarrow> reversed = [] \<or> line_break (hd reversed)"

text \<open>One of the words, a colon and blanks, on a line of their own at the end.\<close>

definition word_prompt :: "string list \<Rightarrow> bytes \<Rightarrow> bool" where
  "word_prompt words data = (let r = dropWhile (\<lambda>b. b = 32 \<or> b = 9) (rev (before_end data)) in
     list_ex (\<lambda>w. prefix (rev (ascii (w @ '':''))) r \<and> at_line_start (drop (Suc (length w)) r)) words)"

definition shell_byte :: "byte \<Rightarrow> bool" where
  "shell_byte b \<longleftrightarrow> b \<in> set (ascii ''_@().:/~ -'') \<or> digit_byte b \<or> 65 \<le> b \<and> b \<le> 90 \<or> 97 \<le> b \<and> b \<le> 122"

definition shell_prompt :: "bytes \<Rightarrow> bool" where
  "shell_prompt data = (let r = rev (before_end data);
       r = (if r \<noteq> [] \<and> hd r = 32 then tl r else r) in
     r \<noteq> [] \<and> hd r \<in> set (ascii ''#$>'')
     \<and> length (takeWhile shell_byte (tl r)) \<le> 160 \<and> at_line_start (dropWhile shell_byte (tl r)))"

definition refused_text :: "bytes \<Rightarrow> bool" where
  "refused_text data = list_ex (\<lambda>w. sublist (ascii w) (lower_bytes data))
     [''login incorrect'', ''authentication failed'', ''access denied'', ''connection refused'', ''connection closed'']"

definition prompt_closed :: conn_exn where
  "prompt_closed = ConnectorError ''protocol'' ''The peer closed before the expected login prompt.''"

definition prompt_overflow :: conn_exn where
  "prompt_overflow = ConnectorError ''protocol'' ''The login prompt exceeded the allowed response size.''"

definition prompt_refused :: conn_exn where
  "prompt_refused = ConnectorError ''device_auth'' ''The remote login was rejected or the remote connection closed.''"

definition filter_chunk :: "bytes \<Rightarrow> negotiator option \<Rightarrow> link \<Rightarrow> bytes \<times> negotiator option \<times> link" where
  "filter_chunk chunk ng w = (case ng of None \<Rightarrow> (chunk, None, w)
     | Some n \<Rightarrow> (let (out, n', w') = feed chunk n w in (out, Some n', w')))"

text \<open>\<open>read_prompt\<close>; the negotiator, if any, is returned for the next prompt.\<close>

function read_prompt ::
    "(bytes \<Rightarrow> bool) \<Rightarrow> bytes \<Rightarrow> nat \<Rightarrow> negotiator option \<Rightarrow> (bytes \<times> negotiator option) link_call" where
  "read_prompt pattern data wire_size ng w = (case receive 1024 w of
      (Inl e, w1) \<Rightarrow> (Inl e, w1)
    | (Inr chunk, w1) \<Rightarrow>
        if chunk = [] then (Inl prompt_closed, w1)
        else if 16384 < wire_size + length chunk then (Inl prompt_overflow, w1)
        else let (out, ng', w2) = filter_chunk chunk ng w1 in
        if refused_text (data @ out) then (Inl prompt_refused, w2)
        else if pattern (data @ out) then (Inr (data @ out, ng'), w2)
        else read_prompt pattern (data @ out) (wire_size + length chunk) ng' w2)"
  by pat_completeness auto

termination
  by (relation "measure (\<lambda>(_, _, wire_size, _, _). 16385 - wire_size)")
    (auto simp: length_greater_0_conv diff_less_mono2)

declare read_prompt.simps [simp del]

section \<open>Strategies\<close>

definition shell_safe :: "char \<Rightarrow> bool" where
  "shell_safe c \<longleftrightarrow> is_ascii_alnum c \<or> c \<in> set ''_@%+=:,./-''"

definition shlex_quote :: "string \<Rightarrow> string" where
  "shlex_quote s = (if s = [] then [char_of (39 :: nat), char_of (39 :: nat)]
     else if list_all shell_safe s then s
     else char_of (39 :: nat) # replace s [char_of (39 :: nat)]
         [char_of (39 :: nat), CHR 0x22, char_of (39 :: nat), CHR 0x22, char_of (39 :: nat)]
       @ [char_of (39 :: nat)])"

definition telnet_command :: "dict \<Rightarrow> string" where
  "telnet_command device = ''telnet '' @ shlex_quote (text_of device ''network_host'') @ '' ''
     @ show_int (number_of device ''port'') @ [char_of (10 :: nat)]"

definition open_channel :: "network \<Rightarrow> channel_request \<Rightarrow> unit link_call" where
  "open_channel net request = bindW remaining (\<lambda>_. case channel net request of
      Inl e \<Rightarrow> raiseW e
    | Inr as \<Rightarrow> bindW (own (SshChannel request)) (\<lambda>_. set_arrivals as))"

definition bastion_channel :: "network \<Rightarrow> string \<Rightarrow> dict \<Rightarrow> unit link_call" where
  "bastion_channel net kind device =
     (if kind = ''ssh_tunnel'' then
        open_channel net (DirectTcpip (text_of device ''network_host'') (number_of device ''port''))
      else bindW (open_channel net ShellSession) (\<lambda>_.
        bindW remaining (\<lambda>_.
        bindW (read_prompt shell_prompt [] 0 None) (\<lambda>_.
        send (ascii (telnet_command device))))))"

definition bastion_failed :: "conn_exn \<Rightarrow> unit link_call" where
  "bastion_failed e = (case e of
      ConnectorError stage detail \<Rightarrow> raiseW e
    | OtherFailure c \<Rightarrow> raiseW e
    | _ \<Rightarrow> bindW remaining (\<lambda>_. raiseW (ConnectorError ''proxy_connect''
        ''The bastion denied or could not establish the requested channel.'')))"

definition open_stream :: "network \<Rightarrow> dict \<Rightarrow> dict \<Rightarrow> bool \<Rightarrow> unit link_call" where
  "open_stream net device connector demo_mode =
     (let kind = text_of connector ''type'' in
      if kind = ''direct'' then
        connect_tcp net (text_of device ''network_host'') (number_of device ''port'') ''device_connect''
      else
        bindW (connect_tcp net (text_of connector ''network_host'') (number_of connector ''port'') ''proxy_connect'') (\<lambda>_.
        bindW (if kind = ''socks5'' then socks5 connector device
          else if kind = ''http_connect'' then http_connect connector device
          else bindW (connect_ssh net connector demo_mode ''proxy'') (\<lambda>_.
            catchW (bastion_channel net kind device) bastion_failed)) (\<lambda>_.
        bindW remaining (\<lambda>_. returnW ()))))"

end
