(* ===== verification/ConnectionTests.thy ===== *)
theory ConnectionTests
  imports Handshakes
begin

text \<open>
  The read-only connection tests, \<open>app/bl/services/connection_tests.py\<close>: the Telnet login, the
  NETCONF hello, and \<open>run_connection_test\<close>, which turns every exception into a report with the
  stage it happened in.
\<close>

section \<open>Capabilities\<close>

definition capability :: "string \<Rightarrow> string \<Rightarrow> string list \<Rightarrow> string \<Rightarrow> json" where
  "capability kind label supported description =
     JObj [(''type'', JStr kind), (''label'', JStr label), (''protocols'', JList (map JStr supported)),
       (''description'', JStr description)]"

definition capabilities :: dict where
  "capabilities = [(''protocols'', JList (map JStr [''ssh'', ''netconf'', ''telnet''])),
     (''connectors'', JList
       [capability ''direct'' ''Direct TCP'' [''ssh'', ''netconf'', ''telnet'']
          ''Direct read-only authentication check; strict SSH host-key verification.'',
        capability ''ssh_tunnel'' ''SSH TCP forwarding'' [''ssh'', ''netconf'', ''telnet'']
          ''SSH direct-tcpip forwarding with separate bastion and device credentials and trust.'',
        capability ''ssh_shell'' ''Interactive SSH shell (generic Telnet)'' [''telnet'']
          ''POSIX-like bastion shell running telnet; generic prompts only, not DDM2200-certified.'',
        capability ''socks5'' ''SOCKS5'' [''ssh'', ''netconf'', ''telnet'']
          ''SOCKS5 CONNECT with explicit no-auth or username/password authentication.'',
        capability ''http_connect'' ''HTTP CONNECT'' [''ssh'', ''netconf'', ''telnet'']
          ''HTTP/1.x CONNECT with optional Basic proxy authentication; no TLS-to-proxy.''])]"

section \<open>Telnet\<close>

definition username_prompt :: "bytes \<Rightarrow> bool" where
  "username_prompt = word_prompt [''Username'', ''username'', ''Login'', ''login'']"

definition password_prompt :: "bytes \<Rightarrow> bool" where
  "password_prompt = word_prompt [''Password'', ''password'']"

definition telnet_login :: "dict \<Rightarrow> unit link_call" where
  "telnet_login device =
     bindW (read_prompt username_prompt [] 0 (Some fresh_negotiator)) (\<lambda>(_, ng).
     bindW (send (utf8 (text_of device ''username'') @ crlf_bytes)) (\<lambda>_.
     bindW (read_prompt password_prompt [] 0 ng) (\<lambda>(_, ng).
     bindW (send (utf8 (text_of device ''password'') @ crlf_bytes)) (\<lambda>_.
     bindW (read_prompt shell_prompt [] 0 ng) (\<lambda>_. returnW ())))))"

section \<open>NETCONF\<close>

definition netconf_namespace :: string where
  "netconf_namespace = ''urn:ietf:params:xml:ns:netconf:base:1.0''"

definition netconf_base :: string where
  "netconf_base = ''urn:ietf:params:netconf:base:1.0''"

definition end_of_message :: bytes where
  "end_of_message = ascii '']]>]]>''"

definition quote :: string where
  "quote = [CHR 0x22]"

definition client_hello :: bytes where
  "client_hello = ascii (''<hello xmlns='' @ quote @ netconf_namespace @ quote @ ''><capabilities>''
     @ ''<capability>'' @ netconf_base @ ''</capability></capabilities></hello>'') @ end_of_message"

text \<open>An element of a parsed document: its tag with the namespace, its text and its children.\<close>

datatype xml = Element (tag: string) (content: "string option") (children: "xml list")

text \<open>The UTF-8 check and the XML parser of the Python library.\<close>

record parsers =
  valid_utf8 :: "bytes \<Rightarrow> bool"
  parse_xml :: "bytes \<Rightarrow> xml option"

definition upper_bytes :: "bytes \<Rightarrow> bytes" where
  "upper_bytes = map (\<lambda>b. if 97 \<le> b \<and> b \<le> 122 then b - 32 else b)"

definition bad_hello :: conn_exn where
  "bad_hello = ConnectorError ''protocol'' ''The server did not provide a valid compatible NETCONF hello.''"

definition hello_tag :: "string \<Rightarrow> string" where
  "hello_tag name = ''{'' @ netconf_namespace @ ''}'' @ name"

definition child :: "string \<Rightarrow> xml \<Rightarrow> xml option" where
  "child name x = find (\<lambda>c. tag c = hello_tag name) (children x)"

definition session_number_ok :: "xml \<Rightarrow> bool" where
  "session_number_ok s \<longleftrightarrow> (case content s of
      None \<Rightarrow> False
    | Some t \<Rightarrow> t \<noteq> [] \<and> list_all is_ascii_digit t \<and> length t \<le> 4300
        \<and> 1 \<le> read_nat t \<and> read_nat t \<le> 4294967295) \<and> children s = []"

definition hello_valid :: "xml \<Rightarrow> bool" where
  "hello_valid doc \<longleftrightarrow> (tag doc = hello_tag ''hello'' \<and> length (children doc) = 2
     \<and> (case (child ''capabilities'' doc, child ''session-id'' doc) of
         (Some caps, Some session) \<Rightarrow>
           list_all (\<lambda>n. tag n = hello_tag ''capability'' \<and> children n = []) (children caps)
           \<and> session_number_ok session
           \<and> Some netconf_base \<in> content ` set (filter (\<lambda>n. tag n = hello_tag ''capability'') (children caps))
       | _ \<Rightarrow> False))"

text \<open>
  The encoding an XML declaration at the start names. White space is that of ASCII: with any other
  the parser rejects the declaration, which ends in the same error.
\<close>

definition space_byte :: "byte \<Rightarrow> bool" where
  "space_byte b \<longleftrightarrow> 9 \<le> b \<and> b \<le> 13 \<or> 28 \<le> b \<and> b \<le> 32"

definition encoding_value :: "bytes \<Rightarrow> bytes option" where
  "encoding_value after = (case after of
      q # r \<Rightarrow> if q \<in> {0x22, 0x27} then
          (let v = takeWhile (\<lambda>b. b \<notin> {0x22, 0x27}) r in
           if v \<noteq> [] \<and> length v < length r then Some v else None)
        else None
    | [] \<Rightarrow> None)"

text \<open>The last place in the run without question marks where a value follows, as the greedy pattern finds it.\<close>

fun last_encoding :: "bytes \<Rightarrow> bytes option" where
  "last_encoding [] = None"
| "last_encoding (b # r) = (if b = 0x3F then None
     else (case last_encoding r of
         Some v \<Rightarrow> Some v
       | None \<Rightarrow> if prefix (ascii ''encoding='') (b # r) then encoding_value (drop 9 (b # r)) else None))"

definition declared_encoding :: "bytes \<Rightarrow> bytes option" where
  "declared_encoding raw =
     (let r = (if prefix [0xEF, 0xBB, 0xBF] raw then drop 3 raw else raw) in
      if prefix (ascii ''<?xml'') r \<and> 5 < length r \<and> space_byte (r ! 5) then last_encoding (drop 6 r) else None)"

definition check_hello :: "parsers \<Rightarrow> bytes \<Rightarrow> conn_exn + unit" where
  "check_hello ps raw =
     bindE (check (0 \<notin> set raw \<and> \<not> sublist (ascii ''<!DOCTYPE'') (upper_bytes raw)
         \<and> \<not> sublist (ascii ''<!ENTITY'') (upper_bytes raw))
       (ConnectorError ''protocol'' ''NETCONF hello must not contain a DTD or entity declaration.'')) (\<lambda>_.
     bindE (check (valid_utf8 ps raw) bad_hello) (\<lambda>_.
     bindE (check (case declared_encoding raw of None \<Rightarrow> True
         | Some e \<Rightarrow> lower_bytes e \<in> {ascii ''utf-8'', ascii ''utf8''}) bad_hello) (\<lambda>_.
     case parse_xml ps raw of
       None \<Rightarrow> Inl bad_hello
     | Some doc \<Rightarrow> check (hello_valid doc) bad_hello)))"

definition netconf_hello :: "network \<Rightarrow> parsers \<Rightarrow> unit link_call" where
  "netconf_hello net ps =
     bindW (open_channel net NetconfSubsystem) (\<lambda>_.
     bindW remaining (\<lambda>_.
     bindW (send client_hello) (\<lambda>_.
     bindW (receive_until end_of_message 65536 []) (\<lambda>raw.
     liftW (check_hello ps (take (length raw - length end_of_message) raw))))))"

section \<open>The test\<close>

definition test_detail :: "string \<Rightarrow> string" where
  "test_detail protocol =
     (if protocol = ''telnet'' then ''Generic Telnet login and prompt verified; no device commands were executed.''
      else if protocol = ''netconf'' then ''SSH authentication and NETCONF hello verified; no RPCs were sent.''
      else ''SSH authentication verified; no device commands were executed.'')"

definition test_steps :: "network \<Rightarrow> parsers \<Rightarrow> dict \<Rightarrow> dict \<Rightarrow> bool \<Rightarrow> string link_call" where
  "test_steps net ps device connector demo_mode =
     (let protocol = text_of device ''protocol'' in
      bindW (open_stream net device connector demo_mode) (\<lambda>_.
      bindW (if protocol = ''telnet'' then telnet_login device
        else bindW (connect_ssh net device demo_mode ''device'') (\<lambda>_.
          if protocol = ''netconf'' then netconf_hello net ps else returnW ())) (\<lambda>_.
      bindW remaining (\<lambda>_. returnW (test_detail protocol)))))"

text \<open>The report of an exception; a deadline that has passed by then is what is reported.\<close>

definition failure_of :: "bool \<Rightarrow> conn_exn \<Rightarrow> string \<times> string" where
  "failure_of late e = (if late then (''timeout'', ''The overall connection-test deadline expired.'')
     else case e of
       ConnectorError stage detail \<Rightarrow> (stage, detail)
     | SocketTimeout \<Rightarrow> (''timeout'', ''The overall connection-test deadline expired.'')
     | OtherFailure c \<Rightarrow> (''internal'', ''The connection test could not be completed.'')
     | _ \<Rightarrow> (''protocol'', ''The connection closed or failed during protocol negotiation.''))"

definition connection_report :: "bool \<Rightarrow> string \<Rightarrow> string \<Rightarrow> rat \<Rightarrow> dict" where
  "connection_report success stage detail duration =
     [(''success'', JBool success), (''stage'', JStr stage), (''detail'', JStr detail),
      (''duration_ms'', JFloat (Finite duration))]"

text \<open>\<open>round(x * 1000, 2)\<close> up to the rounding of binary floats.\<close>

definition milliseconds :: "rat \<Rightarrow> rat" where
  "milliseconds seconds = of_int (round (seconds * 1000 * 100)) / 100"

text \<open>The body of the \<open>with Deadline(seconds)\<close> block with the handlers of its exceptions.\<close>

definition timed_test ::
    "network \<Rightarrow> parsers \<Rightarrow> dict \<Rightarrow> dict \<Rightarrow> rat \<Rightarrow> bool \<Rightarrow> link \<Rightarrow> (bool \<times> string \<times> string) \<times> link" where
  "timed_test net ps device connector seconds demo_mode w =
     (let (begun, w1) = monotonic w;
          (r, w2) = test_steps net ps device connector demo_mode (w1\<lparr>dl_end := begun + seconds\<rparr>);
          w3 = close_owned w2
      in case r of
        Inr detail \<Rightarrow> ((True, ''complete'', detail), w3)
      | Inl e \<Rightarrow> let (t, w4) = monotonic w3
          in ((False, failure_of (expired w4 \<or> dl_end w4 \<le> t) e), w4))"

definition run_connection_test ::
    "(string \<Rightarrow> pyfloat option) \<Rightarrow> files \<Rightarrow> network \<Rightarrow> parsers \<Rightarrow> json \<Rightarrow> bool \<Rightarrow> link \<Rightarrow> dict \<times> link" where
  "run_connection_test tf fs net ps profile demo_mode w =
     (let (started, w1) = monotonic w;
          ((success, stage, detail), w2) =
            (case validate_profile tf fs profile demo_mode of
               Inl e \<Rightarrow> ((False, failure_of False e), w1)
             | Inr (device, connector, seconds) \<Rightarrow> timed_test net ps device connector seconds demo_mode w1);
          (finished, w3) = monotonic w2
      in (connection_report success stage detail (milliseconds (finished - started)), w3))"

end
