(* ===== verification/ConnectorLaws.thy ===== *)
theory ConnectorLaws
  imports Connectors
begin

text \<open>
  What a profile that passes \<open>validate_profile\<close> is known to be: bounded numbers, hosts made of host
  characters only, one credential per login, no direct test of a proxied device, and in the demo
  only loopback addresses.
\<close>

section \<open>The characters of hosts\<close>

definition plain_host_char :: "char \<Rightarrow> bool" where
  "plain_host_char c \<longleftrightarrow> is_ascii_alnum c \<or> c = CHR ''.'' \<or> c = CHR ''-'' \<or> c = CHR '':''"

lemma digit_host_char: "is_ascii_digit c \<Longrightarrow> plain_host_char c"
  by (simp add: plain_host_char_def is_ascii_alnum_def)

lemma hex_host_char: "is_hex c \<Longrightarrow> plain_host_char c"
  by (auto simp: plain_host_char_def is_ascii_alnum_def is_ascii_alpha_def is_ascii_upper_def is_ascii_lower_def is_hex_def)

lemma set_split_on: "set s \<subseteq> insert c (\<Union>p \<in> set (split_on c s). set p)"
  using set_join [of "[c]" "split_on c s"] by (simp add: join_split_on)

lemma parse_all_Some: "parse_all f xs = Some ys \<Longrightarrow> x \<in> set xs \<Longrightarrow> f x \<noteq> None"
  by (auto simp: parse_all_def list_all_iff split: if_splits)

lemma parse_ipv4_chars:
  assumes "parse_ipv4 s = Some w" and "c \<in> set s"
  shows "is_ascii_digit c \<or> c = CHR ''.''"
proof -
  from assms(1) obtain ds where "parse_all parse_octet (split_on CHR ''.'' s) = Some ds"
    by (auto simp: parse_ipv4_def Let_def split: if_splits)
  then have "list_all is_ascii_digit p" if "p \<in> set (split_on CHR ''.'' s)" for p
    using parse_all_Some [OF _ that] by (fastforce simp: parse_octet_def split: if_splits)
  then show ?thesis using set_split_on [of s "CHR ''.''"] assms(2) by (fastforce simp: list_all_iff)
qed

lemma hextet_hex: "parse_hextet p \<noteq> None \<Longrightarrow> list_all is_hex p"
  by (auto simp: parse_hextet_def split: if_splits)

text \<open>The parts around a double colon are the interior empty part and its empty neighbours.\<close>

lemma parts_around_skip:
  assumes i: "i < length parts" and skip: "skip \<in> {1..<length parts - 1}" "parts ! skip = []"
    and hi: "hi = (if hd parts = [] then skip - 1 else skip)"
    and lo: "lo = (if last parts = [] then length parts - skip - 2 else length parts - skip - 1)"
    and ok: "hd parts = [] \<longrightarrow> hi = 0" "last parts = [] \<longrightarrow> lo = 0"
  shows "i < hi \<or> length parts - lo \<le> i \<or> parts ! i = []"
proof -
  have ne: "parts \<noteq> []" using i by auto
  have h: "hd parts = parts ! 0" and l: "last parts = parts ! (length parts - 1)"
    using ne by (simp_all add: hd_conv_nth last_conv_nth)
  consider "i < skip" | "i = skip" | "skip < i" by linarith
  then show ?thesis
  proof cases
    case 1
    show ?thesis
    proof (cases "hd parts = []")
      case True
      then have "i = 0" using hi ok(1) skip(1) 1 by auto
      then show ?thesis using True h by simp
    next
      case False
      then show ?thesis using hi 1 by simp
    qed
  next
    case 2
    then show ?thesis using skip by simp
  next
    case 3
    show ?thesis
    proof (cases "last parts = []")
      case True
      then have "i = length parts - 1" using lo ok(2) 3 i by auto
      then show ?thesis using True l by simp
    next
      case False
      then show ?thesis using lo 3 by auto
    qed
  qed
qed

lemma parse_parts_hex:
  assumes "parse_parts parts = Some ds" and "p \<in> set parts"
  shows "list_all is_hex p"
proof -
  obtain i where i: "i < length parts" "p = parts ! i" using assms(2) by (auto simp: in_set_conv_nth)
  let ?skips = "filter (\<lambda>i. parts ! i = []) [1..<length parts - 1]"
  consider (all) "parse_all parse_hextet parts = Some ds"
    | (gap) skip hi lo a b where "?skips = [skip]" "hi = (if hd parts = [] then skip - 1 else skip)"
      "lo = (if last parts = [] then length parts - skip - 2 else length parts - skip - 1)"
      "hd parts = [] \<longrightarrow> hi = 0" "last parts = [] \<longrightarrow> lo = 0"
      "parse_all parse_hextet (take hi parts) = Some a" "parse_all parse_hextet (drop (length parts - lo) parts) = Some b"
    using assms(1)
    by (simp add: parse_parts_def Let_def split: if_split_asm list.splits option.splits)
  then show ?thesis
  proof cases
    case all
    then show ?thesis using hextet_hex parse_all_Some [OF all assms(2)] by simp
  next
    case gap
    have s: "skip \<in> {1..<length parts - 1}" "parts ! skip = []"
      using arg_cong [OF gap(1), of set] by auto
    have front: "p \<in> set (take hi parts)" if "i < hi"
      using that i nth_mem [of i "take hi parts"] by simp
    have rear: "p \<in> set (drop n parts)" if "n \<le> i" for n
      using that i nth_mem [of "i - n" "drop n parts"] by simp
    have "p \<in> set (take hi parts) \<or> p \<in> set (drop (length parts - lo) parts) \<or> p = []"
      using parts_around_skip [OF i(1) s gap(2-5)] front rear i(2) by blast
    then show ?thesis
      using parse_all_Some [OF gap(6)] parse_all_Some [OF gap(7)] hextet_hex by (elim disjE) auto
  qed
qed

lemma parse_ipv6_chars:
  assumes "parse_ipv6 s = Some w" and "c \<in> set s"
  shows "plain_host_char c"
proof -
  let ?parts = "split_on CHR '':'' s"
  from assms(1) obtain parts ds where e: "expand_suffix ?parts = Some parts" and p: "parse_parts parts = Some ds"
    by (auto simp: parse_ipv6_def Let_def split: if_splits option.splits)
  have "\<forall>c \<in> set q. plain_host_char c" if q: "q \<in> set ?parts" for q
  proof (cases "CHR ''.'' \<in> set (last ?parts)")
    case False
    then have "list_all is_hex q" using e parse_parts_hex [OF p] q by (simp add: expand_suffix_def)
    then show ?thesis using hex_host_char by (auto simp: list_all_iff)
  next
    case True
    then obtain v where v: "parse_ipv4 (last ?parts) = Some v"
      and ps: "parts = butlast ?parts @ [show_hex (uint v div 65536), show_hex (uint v mod 65536)]"
      using e by (auto simp: expand_suffix_def split: option.splits)
    have "q \<in> set (butlast ?parts) \<or> q = last ?parts"
      using q append_butlast_last_id [OF split_on_neq_Nil, of "CHR '':''" s]
      by (metis Un_iff empty_iff insert_iff list.set(1,2) set_append)
    then show ?thesis
    proof
      assume "q \<in> set (butlast ?parts)"
      then have "list_all is_hex q" using parse_parts_hex [OF p] ps by simp
      then show ?thesis using hex_host_char by (auto simp: list_all_iff)
    next
      assume "q = last ?parts"
      then show ?thesis using parse_ipv4_chars [OF v] digit_host_char by (auto simp: plain_host_char_def)
    qed
  qed
  then show ?thesis using set_split_on [of s "CHR '':''"] assms(2) by (auto simp: plain_host_char_def)
qed

lemma parse_address_chars: "parse_address s = Some a \<Longrightarrow> c \<in> set s \<Longrightarrow> plain_host_char c"
  using parse_ipv4_chars parse_ipv6_chars digit_host_char
  by (fastforce simp: parse_address_def plain_host_char_def split: option.splits)

text \<open>A host that passes its check is not empty and made of host characters.\<close>

definition safe_host :: "json \<Rightarrow> bool" where
  "safe_host v \<longleftrightarrow> (case v of JStr s \<Rightarrow> s \<noteq> [] \<and> list_all plain_host_char s | _ \<Rightarrow> False)"

lemma check_host_safe: "check_host v = Inr s \<Longrightarrow> v = JStr s \<and> safe_host (JStr s)"
  using parse_address_chars
  by (fastforce simp: check_host_def safe_host_def is_hostname_def hostname_char_def plain_host_char_def list_all_iff
      split: json.splits if_splits option.splits)

section \<open>Loopback\<close>

definition loopback_text :: "json \<Rightarrow> bool" where
  "loopback_text v \<longleftrightarrow> (case v of JStr s \<Rightarrow> (case parse_address s of Some a \<Rightarrow> is_loopback a | None \<Rightarrow> False) | _ \<Rightarrow> False)"

lemma loopback_literal: "loopback_text (JStr ''127.0.0.1'')"
  by code_simp

lemma loopback_host_text: "loopback_host host = Inr s \<Longrightarrow> loopback_text (JStr s)"
  using loopback_literal
  by (auto simp: loopback_host_def loopback_text_def parse_show_address split: if_splits option.splits)

lemma loopback_safe: "loopback_text v \<Longrightarrow> safe_host v"
proof -
  assume l: "loopback_text v"
  then obtain s a where v: "v = JStr s" "parse_address s = Some a"
    by (auto simp: loopback_text_def split: json.splits option.splits)
  have "parse_address [] = None" by code_simp
  then show "safe_host v" using v parse_address_chars [OF v(2)] by (auto simp: safe_host_def list_all_iff)
qed

section \<open>Accepted profiles\<close>

definition endpoint :: "bool \<Rightarrow> dict \<Rightarrow> bool" where
  "endpoint demo_mode d \<longleftrightarrow> safe_host (dget d ''host'') \<and> safe_host (dget d ''network_host'')
     \<and> (\<exists>p. dget d ''port'' = JInt p \<and> 1 \<le> p \<and> p \<le> 65535)
     \<and> (if demo_mode then loopback_text (dget d ''network_host'') \<and> \<not> truthy (dget d ''private_key_path'')
        else dget d ''network_host'' = dget d ''host'')"

text \<open>A login with a user and exactly one of a key and a password; a key only over SSH.\<close>

definition one_login :: "bool \<Rightarrow> dict \<Rightarrow> bool" where
  "one_login ssh d \<longleftrightarrow> is_str (dget d ''username'') \<and> dget d ''username'' \<noteq> JStr []
     \<and> has_key d \<noteq> truthy (dget d ''password'') \<and> (has_key d \<longrightarrow> ssh)"

definition connector_login :: "string \<Rightarrow> dict \<Rightarrow> bool" where
  "connector_login kind d \<longleftrightarrow> (if startswith kind ''ssh_'' then one_login True d
     else \<not> has_key d \<and> truthy (dget d ''username'') = truthy (dget d ''password''))"

definition accepted :: "bool \<Rightarrow> dict \<Rightarrow> dict \<Rightarrow> rat \<Rightarrow> bool" where
  "accepted demo_mode device connector seconds \<longleftrightarrow>
     1 \<le> seconds \<and> seconds \<le> 30
     \<and> (\<exists>protocol \<in> set (map fst protocol_ports). dget device ''protocol'' = JStr protocol
         \<and> one_login (protocol \<noteq> ''telnet'') device
         \<and> (\<exists>kind \<in> set connector_kinds. dget connector ''type'' = JStr kind
             \<and> (kind = ''ssh_shell'' \<longrightarrow> protocol = ''telnet'')
             \<and> (kind = ''direct'' \<longrightarrow> \<not> truthy (dget device ''proxy_id''))
             \<and> (kind \<noteq> ''direct'' \<longrightarrow> endpoint demo_mode connector \<and> connector_login kind connector)))
     \<and> endpoint demo_mode device"

lemma check_port_Inr: "check_port v = Inr p \<Longrightarrow> 1 \<le> p \<and> p \<le> 65535"
  by (auto simp: check_port_def split: json.splits sum.splits if_splits)

lemma one_of_Inr: "one_of names v e = Inr s \<longleftrightarrow> v = JStr s \<and> s \<in> set names"
  by (auto simp: one_of_def hashable_def split: json.splits)

lemma with_endpoint_Inr:
  assumes "with_endpoint d port = Inr d'"
  shows "safe_host (dget d' ''host'') \<and> (\<exists>p. dget d' ''port'' = JInt p \<and> 1 \<le> p \<and> p \<le> 65535)
    \<and> (\<forall>k. k \<notin> {''host'', ''port''} \<longrightarrow> dget d' k = dget d k)"
  using assms
  by (auto simp: with_endpoint_def bindE_eq_Inr Let_def dest: check_port_Inr dest!: check_host_safe)

lemma with_network_host_Inr:
  assumes "with_network_host demo_mode d = Inr d'" and "safe_host (dget d ''host'')"
  shows "safe_host (dget d' ''network_host'') \<and> (\<forall>k. k \<noteq> ''network_host'' \<longrightarrow> dget d' k = dget d k)
    \<and> (if demo_mode then loopback_text (dget d' ''network_host'') else dget d' ''network_host'' = dget d ''host'')"
  using assms loopback_host_text loopback_safe
  by (auto simp: with_network_host_def bindE_eq_Inr split: if_splits json.splits)

lemma demo_file_policy_Inr: "demo_file_policy fs d = Inr u \<Longrightarrow> \<not> truthy (dget d ''private_key_path'')"
  by (auto simp: demo_file_policy_def bindE_eq_Inr check_eq_Inr)

lemma selected_connector_Inr:
  assumes "selected_connector device protocol = Inr (connector, kind)"
  shows "kind \<in> set connector_kinds \<and> (kind = ''ssh_shell'' \<longrightarrow> protocol = ''telnet'')
    \<and> (kind = ''direct'' \<longrightarrow> \<not> truthy (dget device ''proxy_id''))"
  using assms by (auto simp: selected_connector_def bindE_eq_Inr check_eq_Inr one_of_Inr split: json.splits)

lemma auth_fields_required:
  assumes "auth_fields d True ssh = Inr u"
  shows "one_login ssh d"
  using assms
  by (auto simp: auth_fields_def one_login_def Let_def bindE_eq_Inr check_eq_Inr one_of_Inr split: if_splits)

lemma auth_fields_optional:
  assumes "auth_fields d False False = Inr u"
  shows "\<not> has_key d \<and> truthy (dget d ''username'') = truthy (dget d ''password'')"
  using assms
  by (auto simp: auth_fields_def Let_def bindE_eq_Inr check_eq_Inr one_of_Inr split: if_splits)

text \<open>A login only reads fields that the endpoint does not touch.\<close>

lemma endpointI:
  assumes e: "with_endpoint d port = Inr d1" and n: "with_network_host demo_mode d1 = Inr d2"
    and f: "demo_mode \<longrightarrow> demo_file_policy fs d2 = Inr ()"
  shows "endpoint demo_mode d2"
  using with_endpoint_Inr [OF e] with_network_host_Inr [OF n] demo_file_policy_Inr [of fs d2] f
  by (auto simp: endpoint_def)

lemma demo_checks_Inr:
  assumes "demo_checks fs demo_mode kind d c = Inr (d', c')"
  shows "with_network_host demo_mode d = Inr d'"
    and "if demo_mode \<and> kind = ''direct'' then c' = c else with_network_host demo_mode c = Inr c'"
    and "demo_mode \<longrightarrow> demo_file_policy fs d' = Inr ()"
    and "demo_mode \<and> kind \<noteq> ''direct'' \<longrightarrow> demo_file_policy fs c' = Inr ()"
  using assms by (auto simp: demo_checks_def bindE_eq_Inr split: if_splits)

lemma check_timeout_Inr: "check_timeout tf d = Inr s \<Longrightarrow> 1 \<le> s \<and> s \<le> 30"
  by (auto simp: check_timeout_def bindE_eq_Inr split: sum.splits number_error.splits pyfloat.splits if_splits)

lemma login_checks_Inr:
  assumes "login_checks protocol kind device connector = Inr u"
  shows "one_login (protocol \<noteq> ''telnet'') device \<and> (kind \<noteq> ''direct'' \<longrightarrow> connector_login kind connector)"
  using assms auth_fields_required auth_fields_optional
  by (auto simp: login_checks_def connector_login_def bindE_eq_Inr split: if_splits)

lemma validate_profile_steps:
  assumes "validate_profile tf fs profile demo_mode = Inr (device, connector, seconds)"
  obtains d0 protocol c0 kind d1 c1 where
    "dget d0 ''protocol'' = JStr protocol" "protocol \<in> set (map fst protocol_ports)"
    "selected_connector d0 protocol = Inr (c0, kind)"
    "with_endpoint d0 (dget_or d0 ''port'' (JInt (the (map_of protocol_ports protocol)))) = Inr d1"
    "(if kind \<noteq> ''direct'' then with_endpoint (dset ''type'' (JStr kind) c0) (dget (dset ''type'' (JStr kind) c0) ''port'')
      else Inr (dset ''type'' (JStr kind) c0)) = Inr c1"
    "check_timeout tf d1 = Inr seconds"
    "demo_checks fs demo_mode kind d1 c1 = Inr (device, connector)"
    "login_checks protocol kind device connector = Inr ()"
proof (cases profile)
  case (JObj d0)
  note all = assms [unfolded validate_profile_def JObj json.case Let_def]
  obtain protocol where p: "one_of (map fst protocol_ports) (dget d0 ''protocol'')
      (ConnectorError ''unsupported'' ''The selected device protocol is unsupported.'') = Inr protocol"
    and b1: "bindE (selected_connector d0 protocol) (\<lambda>(c0, kind). bindE (with_endpoint d0
        (dget_or d0 ''port'' (JInt (the (map_of protocol_ports protocol))))) (\<lambda>d1.
      bindE (if kind \<noteq> ''direct'' then with_endpoint (dset ''type'' (JStr kind) c0) (dget (dset ''type'' (JStr kind) c0) ''port'')
        else Inr (dset ''type'' (JStr kind) c0)) (\<lambda>c1. bindE (check_timeout tf d1) (\<lambda>t.
      bindE (demo_checks fs demo_mode kind d1 c1) (\<lambda>(d, c). bindE (login_checks protocol kind d c) (\<lambda>_.
      Inr (d, c, t))))))) = Inr (device, connector, seconds)"
    by (rule bindE_InrE [OF all])
  obtain c0 kind where sel: "selected_connector d0 protocol = Inr (c0, kind)"
    and b2: "bindE (with_endpoint d0 (dget_or d0 ''port'' (JInt (the (map_of protocol_ports protocol))))) (\<lambda>d1.
      bindE (if kind \<noteq> ''direct'' then with_endpoint (dset ''type'' (JStr kind) c0) (dget (dset ''type'' (JStr kind) c0) ''port'')
        else Inr (dset ''type'' (JStr kind) c0)) (\<lambda>c1. bindE (check_timeout tf d1) (\<lambda>t.
      bindE (demo_checks fs demo_mode kind d1 c1) (\<lambda>(d, c). bindE (login_checks protocol kind d c) (\<lambda>_.
      Inr (d, c, t)))))) = Inr (device, connector, seconds)"
    by (rule bindE_InrE [OF b1]) (auto split: prod.splits)
  obtain d1 c1 where d1: "with_endpoint d0 (dget_or d0 ''port'' (JInt (the (map_of protocol_ports protocol)))) = Inr d1"
    and c1: "(if kind \<noteq> ''direct'' then with_endpoint (dset ''type'' (JStr kind) c0) (dget (dset ''type'' (JStr kind) c0) ''port'')
        else Inr (dset ''type'' (JStr kind) c0)) = Inr c1"
    and b3: "bindE (check_timeout tf d1) (\<lambda>t.
      bindE (demo_checks fs demo_mode kind d1 c1) (\<lambda>(d, c). bindE (login_checks protocol kind d c) (\<lambda>_.
      Inr (d, c, t)))) = Inr (device, connector, seconds)"
    by (rule bindE_InrE [OF b2], erule bindE_InrE)
  then have "check_timeout tf d1 = Inr seconds" "demo_checks fs demo_mode kind d1 c1 = Inr (device, connector)"
    "login_checks protocol kind device connector = Inr ()"
    by (auto simp: bindE_eq_Inr)
  then show thesis using p sel d1 c1 one_of_Inr by (intro that [of d0 protocol c0 kind d1 c1]) auto
qed (use assms in \<open>simp_all add: validate_profile_def\<close>)

lemma validated_accepted:
  assumes "validate_profile tf fs profile demo_mode = Inr (device, connector, seconds)"
  shows "accepted demo_mode device connector seconds"
proof -
  from validate_profile_steps [OF assms] obtain d0 protocol c0 kind d1 c1 where
    p: "dget d0 ''protocol'' = JStr protocol" "protocol \<in> set (map fst protocol_ports)"
    and sel: "selected_connector d0 protocol = Inr (c0, kind)"
    and d1: "with_endpoint d0 (dget_or d0 ''port'' (JInt (the (map_of protocol_ports protocol)))) = Inr d1"
    and c1: "(if kind \<noteq> ''direct'' then with_endpoint (dset ''type'' (JStr kind) c0) (dget (dset ''type'' (JStr kind) c0) ''port'')
      else Inr (dset ''type'' (JStr kind) c0)) = Inr c1"
    and t: "check_timeout tf d1 = Inr seconds"
    and demo: "demo_checks fs demo_mode kind d1 c1 = Inr (device, connector)"
    and login: "login_checks protocol kind device connector = Inr ()" .
  note s = selected_connector_Inr [OF sel] and n = demo_checks_Inr [OF demo]
  have dev: "endpoint demo_mode device" by (rule endpointI [OF d1 n(1,3)])
  have con: "endpoint demo_mode connector" if "kind \<noteq> ''direct''"
    using that c1 n(2,4) endpointI [of _ _ c1 demo_mode connector fs] by auto
  have frame: "dget device k = dget d0 k" if "k \<notin> {''host'', ''port'', ''network_host''}" for k
    using that with_endpoint_Inr [OF d1] with_network_host_Inr [OF n(1)] by auto
  have "dget c1 ''type'' = JStr kind"
    using c1 with_endpoint_Inr [of "dset ''type'' (JStr kind) c0" _ c1] by (auto split: if_splits)
  then have kind: "dget connector ''type'' = JStr kind"
    using n(2) c1 with_endpoint_Inr [of "dset ''type'' (JStr kind) c0" _ c1] with_network_host_Inr [of demo_mode c1 connector]
    by (auto simp: with_network_host_def split: if_splits)
  have "\<exists>kind' \<in> set connector_kinds. dget connector ''type'' = JStr kind'
      \<and> (kind' = ''ssh_shell'' \<longrightarrow> protocol = ''telnet'') \<and> (kind' = ''direct'' \<longrightarrow> \<not> truthy (dget device ''proxy_id''))
      \<and> (kind' \<noteq> ''direct'' \<longrightarrow> endpoint demo_mode connector \<and> connector_login kind' connector)"
    using s kind con login_checks_Inr [OF login] frame [of "''proxy_id''"] by (intro bexI [of _ kind]) auto
  moreover have "dget device ''protocol'' = JStr protocol" using p(1) frame by simp
  ultimately show ?thesis
    using p(2) dev check_timeout_Inr [OF t] login_checks_Inr [OF login] unfolding accepted_def by blast
qed

text \<open>
  A profile that passes its validation has a supported protocol and connector,
  a time limit of 1 to 30 seconds, ports from 1 to 65535, and hosts, also those that will be dialled,
  made of letters, digits, dots, dashes and colons only; the device login and an SSH proxy login
  have a user and exactly one of a key and a password (no key for Telnet), other proxies a user
  and a password or neither; a saved proxy is never bypassed; and in the demo every address dialled
  is a loopback literal and no key file is read.
\<close>

theorem accepted_profiles_are_safe:
  assumes "validate_profile tf fs profile demo_mode = Inr (device, connector, seconds)"
  shows "accepted demo_mode device connector seconds"
using assms by (rule validated_accepted)

definition sample_files :: files where
  "sample_files = \<lparr>abspath = (\<lambda>_. Some [''srv'', ''demo'', ''data'', ''known_hosts'']), resolved = Some,
     project_root = [''srv''], storage_dir = None, is_absolute = (\<lambda>_. True), path_of = (\<lambda>s. [s])\<rparr>"

definition sample_profile :: dict where
  "sample_profile = [(''protocol'', JStr ''telnet''), (''host'', JStr ''127.0.0.1''), (''port'', JInt 2323),
     (''username'', JStr ''ana''), (''password'', JStr ''s3''),
     (''connector'', JObj [(''type'', JStr ''socks5''), (''host'', JStr ''localhost''), (''port'', JInt 1080)])]"

theorem accepted_profiles_are_safe_witness:
  "\<exists>device connector. validate_profile (\<lambda>_. None) sample_files (JObj sample_profile) True = Inr (device, connector, 5)
     \<and> dget connector ''network_host'' = JStr ''127.0.0.1'' \<and> accepted True device connector 5"
proof -
  have "case validate_profile (\<lambda>_. None) sample_files (JObj sample_profile) True of
      Inr (device, connector, seconds) \<Rightarrow> seconds = 5 \<and> dget connector ''network_host'' = JStr ''127.0.0.1''
    | Inl _ \<Rightarrow> False" by code_simp
  then obtain device connector where
    v: "validate_profile (\<lambda>_. None) sample_files (JObj sample_profile) True = Inr (device, connector, 5)"
    and "dget connector ''network_host'' = JStr ''127.0.0.1''" by (auto split: sum.splits prod.splits)
  with accepted_profiles_are_safe [OF v] show ?thesis by blast
qed

end
