(* ===== verification/ConnectionTestLaws.thy ===== *)
theory ConnectionTestLaws
  imports ConnectionTests ConnectorLaws TelnetLaws
begin

text \<open>
  What a connection test can do to the outside: it dials nothing but its first hop, closes all it
  opened, and reports only texts of a fixed vocabulary.
\<close>

section \<open>Programs that leave the books alone\<close>

text \<open>
  The books of a test: what was opened and is owned or closed, and what was dialled. A property of
  worlds that a call of the stream or the clock cannot change is kept by all of them; \<open>books\<close> is
  the interface such a property offers to the programs.
\<close>

locale books =
  fixes P :: "link \<Rightarrow> bool"
  assumes stream: "P w \<Longrightarrow> P (w\<lparr>readings := a, now := b, arrivals := c, sends := d, sent := e\<rparr>)"
    and alarm: "P w \<Longrightarrow> P (w\<lparr>alarms := as, expired := x\<rparr>)"
    and closing: "P w \<Longrightarrow> P (close_owned w)"
    and taking: "P w \<Longrightarrow> P (w\<lparr>opened := opened w @ [r], owned := owned w @ [r]\<rparr>)"
    and dropping: "P w \<Longrightarrow> P (w\<lparr>opened := opened w @ [r], closed := closed w @ [r]\<rparr>)"
    and shutting: "P w \<Longrightarrow> P (w\<lparr>closed := closed w @ [r]\<rparr>)"
begin

lemma stream_same:
  assumes "P w" and "wire.more w' = wire.more w"
  shows "P w'"
proof -
  have "w' = w\<lparr>readings := readings w', now := now w', arrivals := arrivals w', sends := sends w', sent := sent w'\<rparr>"
    using assms(2) by (cases w; cases w') simp
  then show ?thesis using stream [OF assms(1)] by metis
qed

lemma alarm_tick_P: "P w \<Longrightarrow> P (alarm_tick w)"
proof -
  assume p: "P w"
  have e: "P (w\<lparr>alarms := as\<rparr>)" for as using alarm [OF p, where as = as and x = "expired w"] by simp
  show ?thesis using p e closing alarm [OF p] by (auto simp: alarm_tick_def split: list.splits)
qed

lemma remaining_P: "keeps P remaining"
proof (rule keepsI)
  fix w r w' assume p: "P w" and "remaining w = (r, w')"
  then have "w' = snd (monotonic (alarm_tick w))"
    by (simp add: remaining_def Let_def case_prod_beta split: if_splits)
  then show "P w'" using stream_same [OF alarm_tick_P [OF p]] by simp
qed

lemma own_P: "keeps P (own r)"
proof (rule keepsI)
  fix w s w' assume "P w" and "own r w = (s, w')"
  then show "P w'" using taking [OF alarm_tick_P [of w]] dropping [OF alarm_tick_P [of w]]
    by (auto simp: own_def Let_def split: if_splits)
qed

lemma close_resource_P: "keeps P (close_resource r)"
  by (auto simp: keeps_def close_resource_def shutting)

lemma set_arrivals_P: "keeps P (set_arrivals as)"
  by (auto simp: keeps_def set_arrivals_def intro: stream_same)

lemma feed_P: "P w \<Longrightarrow> feed bs ng w = (out, ng', w') \<Longrightarrow> P w'"
  using stream_same [of w w'] feed_frame [of bs ng w out ng' w'] by simp

lemma send_P: "keeps P (send bs)"
proof -
  have "keeps P (\<lambda>w. case sendall bs w of (True, w') \<Rightarrow> (Inr (), w') | (False, w') \<Rightarrow> (Inl OsFailure, w'))"
    using stream_same by (auto simp: keeps_def split: prod.splits bool.splits dest: sendall_frame(4))
  then show ?thesis unfolding send_def by (intro keeps_bindW remaining_P)
qed

lemma receive_P: "keeps P (receive n)"
proof -
  have "keeps P (\<lambda>w. case recv n w of (Some bs, w') \<Rightarrow> (Inr bs, w')
      | (None, w') \<Rightarrow> (Inl (if arrivals w = [] then SocketTimeout else OsFailure), w'))"
    using stream_same by (auto simp: keeps_def split: prod.splits option.splits dest: recv_frame(5))
  then show ?thesis unfolding receive_def by (intro keeps_bindW remaining_P)
qed

lemma receive_exact_P: "keeps P (receive_exact n)"
proof (rule keepsI)
  fix w r w' show "P w \<Longrightarrow> receive_exact n w = (r, w') \<Longrightarrow> P w'"
  proof (induction n w arbitrary: r w' rule: receive_exact.induct)
    case (1 n w)
    obtain q v where q: "receive n w = (q, v)" by (cases "receive n w")
    then have v: "P v" using keepsD [OF receive_P "1.prems"(1)] by blast
    show ?case
    proof (cases "n = 0 \<or> q = Inr [] \<or> (\<exists>e. q = Inl e)")
      case True
      then show ?thesis using "1.prems" v q by (auto simp: receive_exact.simps [of n w] split: if_splits)
    next
      case False
      then obtain chunk where c: "q = Inr chunk" "chunk \<noteq> []" by (cases q) auto
      obtain s u where s: "receive_exact (n - length chunk) v = (s, u)" by (cases "receive_exact (n - length chunk) v")
      have "P u" using "1.IH" [OF _ q [symmetric] c v s] False by simp
      then show ?thesis using "1.prems"(2) False q c s by (auto simp: receive_exact.simps [of n w] split: sum.splits)
    qed
  qed
qed

lemma receive_until_P: "keeps P (receive_until mark limit data)"
proof (rule keepsI)
  fix w r w' show "P w \<Longrightarrow> receive_until mark limit data w = (r, w') \<Longrightarrow> P w'"
  proof (induction mark limit data w arbitrary: r w' rule: receive_until.induct)
    case (1 mark limit data w)
    obtain q v where q: "receive_exact 1 w = (q, v)" by (cases "receive_exact 1 w")
    then have v: "P v" using keepsD [OF receive_exact_P "1.prems"(1)] by blast
    show ?case
    proof (cases "suffix mark data \<or> limit \<le> length data \<or> (\<exists>e. q = Inl e)")
      case True
      then show ?thesis using "1.prems" v q by (auto simp: receive_until.simps [of mark limit data] split: if_splits)
    next
      case False
      then obtain bs where c: "q = Inr bs" by (cases q) auto
      then have "receive_until mark limit (data @ bs) v = (r, w')"
        using "1.prems"(2) False q by (simp add: receive_until.simps [of mark limit data])
      then show ?thesis using "1.IH" [OF _ _ q [symmetric] c v] False by simp
    qed
  qed
qed

lemma read_prompt_P: "keeps P (read_prompt pattern data n ng)"
proof (rule keepsI)
  fix w r w' show "P w \<Longrightarrow> read_prompt pattern data n ng w = (r, w') \<Longrightarrow> P w'"
  proof (induction pattern data n ng w arbitrary: r w' rule: read_prompt.induct)
    case (1 pattern data n ng w)
    obtain q v where q: "receive 1024 w = (q, v)" by (cases "receive 1024 w")
    then have v: "P v" using keepsD [OF receive_P "1.prems"(1)] by blast
    show ?case
    proof (cases q)
      case (Inl e)
      then show ?thesis using "1.prems"(2) q v by (simp add: read_prompt.simps [of pattern data])
    next
      case (Inr chunk)
      obtain out ng' u where f: "filter_chunk chunk ng v = (out, ng', u)" by (cases "filter_chunk chunk ng v")
      have u: "P u" using f v feed_P by (auto simp: filter_chunk_def split: option.splits prod.splits)
      show ?thesis
        using "1.prems"(2) q Inr f u v "1.IH" [OF q [symmetric] Inr _ _ f [symmetric] refl refl _ _ u]
        by (auto simp: read_prompt.simps [of pattern data] split: if_splits)
    qed
  qed
qed

lemmas stream_P = remaining_P own_P close_resource_P set_arrivals_P send_P receive_P receive_exact_P
  receive_until_P read_prompt_P keeps_bindW keeps_catchW keeps_pure keeps_if

lemma login_outcome_P: "keeps P (login_outcome role a)"
  unfolding login_outcome_def by (cases a; simp only: ssh_answer.case; intro stream_P)

lemma ssh_failed_P: "keeps P (ssh_failed role e)"
  unfolding ssh_failed_def by (cases e; simp only: conn_exn.case; intro stream_P)

lemma bastion_failed_P: "keeps P (bastion_failed e)"
  unfolding bastion_failed_def by (cases e; simp only: conn_exn.case; intro stream_P)

lemma connect_ssh_P: "keeps P (connect_ssh net auth demo_mode role)"
  unfolding connect_ssh_def by (intro stream_P login_outcome_P ssh_failed_P)

lemma open_channel_P: "keeps P (open_channel net request)"
proof -
  have "keeps P (case channel net request of Inl e \<Rightarrow> raiseW e
      | Inr as \<Rightarrow> bindW (own (SshChannel request)) (\<lambda>_. set_arrivals as))"
    by (cases "channel net request"; simp only: sum.case; intro stream_P)
  then show ?thesis unfolding open_channel_def by (intro stream_P)
qed

lemma socks5_P: "keeps P (socks5 connector device)"
  unfolding socks5_def socks_login_def socks_reply_def Let_def by (intro stream_P)

lemma http_connect_P: "keeps P (http_connect connector device)"
  unfolding http_connect_def by (intro stream_P)

lemma bastion_channel_P: "keeps P (bastion_channel net kind device)"
  unfolding bastion_channel_def by (intro stream_P open_channel_P)

lemma telnet_login_P: "keeps P (telnet_login device)"
  unfolding telnet_login_def case_prod_beta by (intro stream_P)

lemma netconf_hello_P: "keeps P (netconf_hello net ps)"
  unfolding netconf_hello_def by (intro stream_P open_channel_P)

lemma open_stream_P:
  assumes "text_of connector ''type'' = ''direct'' \<Longrightarrow>
      keeps P (connect_tcp net (text_of device ''network_host'') (number_of device ''port'') ''device_connect'')"
    and "text_of connector ''type'' \<noteq> ''direct'' \<Longrightarrow>
      keeps P (connect_tcp net (text_of connector ''network_host'') (number_of connector ''port'') ''proxy_connect'')"
  shows "keeps P (open_stream net device connector demo_mode)"
proof (cases "text_of connector ''type'' = ''direct''")
  case True
  then show ?thesis using assms(1) by (simp add: open_stream_def)
next
  case False
  show ?thesis unfolding open_stream_def Let_def
    by (simp only: False if_False, intro stream_P assms(2) [OF False] socks5_P http_connect_P connect_ssh_P bastion_channel_P bastion_failed_P)
qed

lemma test_steps_P:
  "keeps P (open_stream net device connector demo_mode) \<Longrightarrow> keeps P (test_steps net ps device connector demo_mode)"
  unfolding test_steps_def Let_def by (intro stream_P telnet_login_P connect_ssh_P netconf_hello_P)

lemma resolve_P: "keeps P (resolve net host port)"
proof -
  have "keeps P (case found of Resolved as \<Rightarrow> if as = [] then raiseW e else returnW as
      | NotResolved \<Rightarrow> raiseW e | _ \<Rightarrow> raiseW deadline_expired)" for found e
    by (cases found; simp only: dns_answer.case; intro stream_P)
  then have "keeps P (case lookup net host port of NoSlot \<Rightarrow> raiseW deadline_expired
      | found \<Rightarrow> bindW remaining (\<lambda>_. case found of Resolved as \<Rightarrow> if as = [] then raiseW e else returnW as
          | NotResolved \<Rightarrow> raiseW e | _ \<Rightarrow> raiseW deadline_expired))" for e
    by (cases "lookup net host port"; simp only: dns_answer.case; intro stream_P)
  then show ?thesis unfolding resolve_def by (intro stream_P)
qed

lemma connect_each_P:
  assumes "\<And>a. a \<in> set as \<Longrightarrow> keeps P (dial a)"
  shows "keeps P (connect_each net stage as)"
  using assms
proof (induction as)
  case Nil
  show ?case by (simp only: connect_each.simps keeps_pure)
next
  case (Cons a as)
  have "keeps P (connect_each net stage as)" using Cons by simp
  then have "keeps P (case reaches net a of Some as \<Rightarrow> set_arrivals as
      | None \<Rightarrow> bindW (close_resource (TcpSocket a)) (\<lambda>_. bindW remaining (\<lambda>_. connect_each net stage as)))"
    by (cases "reaches net a"; simp only: option.case; intro stream_P)
  moreover have "keeps P (dial a)" using Cons.prems by simp
  ultimately show ?case by (simp only: connect_each.simps, intro stream_P)
qed

end

text \<open>What a name can lead to, and that a connection dials nothing else.\<close>

definition targets :: "network \<Rightarrow> string \<Rightarrow> int \<Rightarrow> (string \<times> int) set" where
  "targets net host port = (if parse_address host \<noteq> None then {(host, port)}
     else case lookup net host port of Resolved as \<Rightarrow> set as | _ \<Rightarrow> {})"

lemma resolve_targets:
  assumes "resolve net host port w = (Inr as, w')"
  shows "set as \<subseteq> targets net host port"
proof (cases "parse_address host")
  case (Some a)
  then show ?thesis using assms by (auto simp: resolve_def targets_def)
next
  case None
  then have b: "bindW remaining (\<lambda>_. case lookup net host port of
         NoSlot \<Rightarrow> raiseW deadline_expired
       | found \<Rightarrow> bindW remaining (\<lambda>_. case found of
           Resolved as \<Rightarrow> if as = [] then raiseW (ConnectorError ''connect'' ''The endpoint hostname could not be resolved.'')
             else returnW as
         | NotResolved \<Rightarrow> raiseW (ConnectorError ''connect'' ''The endpoint hostname could not be resolved.'')
         | _ \<Rightarrow> raiseW deadline_expired)) w = (Inr as, w')"
    using assms by (simp only: resolve_def simp_thms if_False)
  then show ?thesis
  proof (rule bindW_InrE)
    fix x v assume "(case lookup net host port of
         NoSlot \<Rightarrow> raiseW deadline_expired
       | found \<Rightarrow> bindW remaining (\<lambda>_. case found of
           Resolved as \<Rightarrow> if as = [] then raiseW (ConnectorError ''connect'' ''The endpoint hostname could not be resolved.'')
             else returnW as
         | NotResolved \<Rightarrow> raiseW (ConnectorError ''connect'' ''The endpoint hostname could not be resolved.'')
         | _ \<Rightarrow> raiseW deadline_expired)) v = (Inr as, w')"
    then show ?thesis using None
      by (cases "lookup net host port") (auto simp: targets_def elim!: bindW_InrE split: if_splits)
  qed
qed

section \<open>Nothing stays open\<close>

definition accounted :: "link \<Rightarrow> bool" where
  "accounted w \<longleftrightarrow> set (opened w) \<subseteq> set (owned w) \<union> set (closed w)"

interpretation resources: books accounted
  by unfold_locales (auto simp: accounted_def close_owned_def)

lemma dial_accounted: "keeps accounted (dial a)"
  by (auto simp: keeps_def dial_def accounted_def)

lemma connect_accounted: "keeps accounted (connect_tcp net host port stage)"
  unfolding connect_tcp_def
  by (intro keeps_bindW resources.resolve_P resources.connect_each_P dial_accounted)

lemma steps_accounted: "keeps accounted (test_steps net ps device connector demo_mode)"
  by (intro resources.test_steps_P resources.open_stream_P connect_accounted)

section \<open>Only the first hop is dialled\<close>

definition dialled_only :: "(string \<times> int) set \<Rightarrow> link \<Rightarrow> bool" where
  "dialled_only A w \<longleftrightarrow> set (dialled w) \<subseteq> A"

interpretation dialling: books "dialled_only A" for A
  by unfold_locales (auto simp: dialled_only_def close_owned_def)

lemma dial_only: "a \<in> A \<Longrightarrow> keeps (dialled_only A) (dial a)"
  by (auto simp: keeps_def dial_def dialled_only_def)

lemma connect_only: "targets net host port \<subseteq> A \<Longrightarrow> keeps (dialled_only A) (connect_tcp net host port stage)"
proof (rule keepsI)
  fix w r w' assume t: "targets net host port \<subseteq> A" and w: "dialled_only A w"
    and c: "connect_tcp net host port stage w = (r, w')"
  from c [unfolded connect_tcp_def] show "dialled_only A w'"
  proof (cases rule: bindW_cases)
    case (raised e)
    show ?thesis by (rule keepsD [OF dialling.resolve_P w raised(1)])
  next
    case (returned as v)
    then have "set as \<subseteq> A" using resolve_targets t by blast
    then have "keeps (dialled_only A) (connect_each net stage as)"
      by (intro dialling.connect_each_P dial_only) auto
    then show ?thesis using keepsD [OF dialling.resolve_P w returned(1)] returned(2) by (rule keepsD)
  qed
qed

definition first_hop :: "dict \<Rightarrow> dict \<Rightarrow> dict" where
  "first_hop device connector = (if text_of connector ''type'' = ''direct'' then device else connector)"

definition hop_targets :: "network \<Rightarrow> dict \<Rightarrow> (string \<times> int) set" where
  "hop_targets net d = targets net (text_of d ''network_host'') (number_of d ''port'')"

lemma steps_only:
  "keeps (dialled_only (hop_targets net (first_hop device connector))) (test_steps net ps device connector demo_mode)"
  by (intro dialling.test_steps_P dialling.open_stream_P connect_only)
    (simp_all add: hop_targets_def first_hop_def)

text \<open>The outcome of a test, and that a clock reading changes no book.\<close>

lemma run_connection_test_cases:
  assumes "run_connection_test tf fs net ps profile demo_mode w = (report, w')"
  obtains success stage detail duration v u where "report = connection_report success stage detail duration"
    and "wire.more v = wire.more w" and "wire.more w' = wire.more u"
    and "case validate_profile tf fs profile demo_mode of
        Inl e \<Rightarrow> (success, stage, detail) = (False, failure_of False e) \<and> u = v
      | Inr (device, connector, seconds) \<Rightarrow>
          timed_test net ps device connector seconds demo_mode v = ((success, stage, detail), u)"
proof -
  obtain started v where v: "monotonic w = (started, v)" by (cases "monotonic w")
  define o2 where "o2 = (case validate_profile tf fs profile demo_mode of
      Inl e \<Rightarrow> ((False, failure_of False e), v)
    | Inr (device, connector, seconds) \<Rightarrow> timed_test net ps device connector seconds demo_mode v)"
  obtain success stage detail u where o: "o2 = ((success, stage, detail), u)" by (cases o2) auto
  obtain finished u' where u: "monotonic u = (finished, u')" by (cases "monotonic u")
  have "report = connection_report success stage detail (milliseconds (finished - started)) \<and> w' = u'"
    using assms unfolding run_connection_test_def v Let_def prod.case o2_def [symmetric] o u by simp
  then show thesis
    using o monotonic_frame(4) [OF v] monotonic_frame(4) [OF u]
    by (intro that [of success stage detail "milliseconds (finished - started)" v u])
      (auto simp: o2_def split: sum.splits prod.splits)
qed

lemma timed_test_steps:
  assumes "timed_test net ps device connector seconds demo_mode w = (outcome, u)"
  obtains v r w2 where "test_steps net ps device connector demo_mode v = (r, w2)"
    and "opened v = opened w" "owned v = owned w" "closed v = closed w" "dialled v = dialled w" "expired v = expired w"
    and "wire.more u = wire.more (close_owned w2)"
    and "case r of Inr detail \<Rightarrow> outcome = (True, ''complete'', detail)
      | Inl e \<Rightarrow> \<exists>late. outcome = (False, failure_of late e)"
proof -
  obtain begun w1 where m: "monotonic w = (begun, w1)" by (cases "monotonic w")
  let ?v = "w1\<lparr>dl_end := begun + seconds\<rparr>"
  have books: "opened ?v = opened w" "owned ?v = owned w" "closed ?v = closed w" "dialled ?v = dialled w" "expired ?v = expired w"
    using monotonic_frame(4) [OF m] by (cases w; cases w1; simp)+
  obtain r w2 where s: "test_steps net ps device connector demo_mode ?v = (r, w2)"
    by (cases "test_steps net ps device connector demo_mode ?v")
  obtain t w4 where l: "monotonic (close_owned w2) = (t, w4)" by (cases "monotonic (close_owned w2)")
  show thesis
    by (rule that [OF s books]) (use assms monotonic_frame(4) [OF l] in
      \<open>auto simp: timed_test_def m s Let_def l split: sum.splits\<close>)
qed

lemma books_more:
  fixes w :: link
  assumes "wire.more w' = wire.more w"
  shows "opened w' = opened w" "owned w' = owned w" "closed w' = closed w" "dialled w' = dialled w" "expired w' = expired w"
  using assms by (cases w; cases w'; simp)+

lemma loopback_targets:
  assumes "endpoint True d"
  shows "\<forall>(h, p) \<in> hop_targets net d. loopback_text (JStr h)"
  using assms by (auto simp: endpoint_def hop_targets_def targets_def text_of_def loopback_text_def
      split: json.splits option.splits)

lemma accepted_profiles_hop:
  assumes "validate_profile tf fs profile demo_mode = Inr (device, connector, seconds)"
  shows "endpoint demo_mode (first_hop device connector)"
  using validated_accepted [OF assms] by (auto simp: accepted_def first_hop_def text_of_def)

text \<open>
  C21. Whatever the network does, a connection test opens nothing that it does not close,
  and dials only the addresses of its first hop: the device for a direct test, else the selected
  proxy, never the device behind its back. A profile that is not valid dials nothing, and in the
  demo every address dialled is a loopback literal.
\<close>

theorem tests_dial_only_the_first_hop:
  assumes "run_connection_test tf fs net ps profile demo_mode w = (report, w')"
    and "opened w = []" and "owned w = []" and "dialled w = []"
  shows "owned w' = [] \<and> set (opened w') \<subseteq> set (closed w') \<and> (case validate_profile tf fs profile demo_mode of
      Inl _ \<Rightarrow> dialled w' = []
    | Inr (device, connector, seconds) \<Rightarrow>
        set (dialled w') \<subseteq> hop_targets net (first_hop device connector)
        \<and> (demo_mode \<longrightarrow> (\<forall>(h, p) \<in> set (dialled w'). loopback_text (JStr h))))"
  using assms(1)
proof (rule run_connection_test_cases)
  fix success stage detail duration v u
  assume v: "wire.more v = wire.more w" and u: "wire.more w' = wire.more u"
    and run: "case validate_profile tf fs profile demo_mode of
        Inl e \<Rightarrow> (success, stage, detail) = (False, failure_of False e) \<and> u = v
      | Inr (device, connector, seconds) \<Rightarrow>
          timed_test net ps device connector seconds demo_mode v = ((success, stage, detail), u)"
  note vw = books_more [OF v] and wu = books_more [OF u]
  show ?thesis
  proof (cases "validate_profile tf fs profile demo_mode")
    case (Inl e)
    then show ?thesis using run assms vw wu by simp
  next
    case (Inr x)
    then obtain device connector seconds where x: "validate_profile tf fs profile demo_mode = Inr (device, connector, seconds)"
      by (cases x) auto
    then obtain v1 r w2 where s: "test_steps net ps device connector demo_mode v1 = (r, w2)"
      and b: "opened v1 = []" "owned v1 = []" "dialled v1 = []" and e: "wire.more u = wire.more (close_owned w2)"
      using run assms vw by (auto elim: timed_test_steps)
    let ?A = "hop_targets net (first_hop device connector)"
    have "accounted w2" by (rule keepsD [OF steps_accounted _ s]) (simp add: accounted_def b)
    moreover have d: "dialled_only ?A w2" by (rule keepsD [OF steps_only _ s]) (simp add: dialled_only_def b)
    moreover have "endpoint True (first_hop device connector)" if demo_mode
      using accepted_profiles_hop [OF x] that by simp
    ultimately show ?thesis
      using books_more [OF e] wu loopback_targets [of "first_hop device connector" net]
      by (auto simp: x close_owned_def accounted_def dialled_only_def)
  qed
qed

end
