(* ===== verification/ReportLaws.thy ===== *)
theory ReportLaws
  imports ConnectionTestLaws
begin

text \<open>
  The reports of connection tests come from a fixed vocabulary: every error a check or a program of
  the test can raise names one of the stages and texts written in the code.
\<close>

section \<open>Reports\<close>

text \<open>The stages and texts a report can have: constants of the code, none built from its input.\<close>

definition stages :: "string list" where
  "stages = [''validation'', ''unsupported'', ''demo_policy'', ''timeout'', ''connect'', ''proxy_connect'',
     ''device_connect'', ''protocol'', ''proxy_auth'', ''device_auth'', ''proxy_host_key'', ''device_host_key'',
     ''internal'']"

definition details :: "string list" where
  "details = [
     ''A TCP port must be an integer from 1 to 65535.'',
     ''A host must be an IP address or plain DNS hostname.'',
     ''A password is required for this login.'',
     ''A resolved connection profile is required.'',
     ''A resolved connector object is required.'',
     ''A saved proxy reference cannot be tested as a direct connection.'',
     ''A username is required for this login.'',
     ''Demo SSH logins require an explicit trusted known_hosts file.'',
     ''Demo connections require literal loopback addresses or localhost.'',
     ''Demo mode accepts pasted SSH keys, not private-key file paths.'',
     ''Demo trust files must be inside configured local demo storage or test/fixtures.'',
     ''Generic Telnet login and prompt verified; no device commands were executed.'',
     ''HTTP Basic proxy usernames cannot contain a colon.'',
     ''HTTP CONNECT proxy authentication was rejected.'',
     ''Interactive SSH shell supports generic Telnet only, not SSH or NETCONF.'',
     ''Login fields must be bounded text without control characters.'',
     ''NETCONF hello must not contain a DTD or entity declaration.'',
     ''Proxy username and password must be supplied together.'',
     ''SOCKS5 credentials cannot exceed 255 encoded bytes.'',
     ''SOCKS5 proxy authentication was rejected.'',
     ''SSH authentication and NETCONF hello verified; no RPCs were sent.'',
     ''SSH authentication verified; no device commands were executed.'',
     ''SSH authentication was rejected.'',
     ''Select exactly one password or SSH-key credential.'',
     ''Select pasted key material or a key file, not both.'',
     ''The HTTP CONNECT proxy denied or could not reach the destination.'',
     ''The HTTP proxy returned an invalid CONNECT response.'',
     ''The SOCKS5 proxy denied or could not reach the destination.'',
     ''The SOCKS5 proxy rejected the selected authentication method.'',
     ''The SOCKS5 proxy returned an invalid bound address.'',
     ''The SOCKS5 proxy returned an invalid response.'',
     ''The SSH connection or selected trust file could not be opened.'',
     ''The SSH handshake could not be completed.'',
     ''The SSH host key does not match the selected trust store.'',
     ''The SSH host key is not present in the selected trust store.'',
     ''The SSH private key is missing or too large.'',
     ''The SSH private key or key passphrase is invalid or unsupported.'',
     ''The TCP endpoint refused or could not establish a connection.'',
     ''The bastion denied or could not establish the requested channel.'',
     ''The configured SSH key file could not be read.'',
     ''The connection closed or failed during protocol negotiation.'',
     ''The connection test could not be completed.'',
     ''The endpoint hostname could not be resolved.'',
     ''The login prompt exceeded the allowed response size.'',
     ''The overall connection-test deadline expired.'',
     ''The overall timeout must be between 1 and 30 seconds.'',
     ''The peer closed before completing the protocol handshake.'',
     ''The peer closed before the expected login prompt.'',
     ''The protocol handshake exceeded the allowed response size.'',
     ''The remote login was rejected or the remote connection closed.'',
     ''The saved proxy reference must be resolved before testing.'',
     ''The selected authentication method is unsupported.'',
     ''The selected connector is unsupported.'',
     ''The selected device protocol is unsupported.'',
     ''The server did not provide a valid compatible NETCONF hello.'',
     ''This login supports passwords only; SSH keys are not applicable.'']"

definition known :: "conn_exn \<Rightarrow> bool" where
  "known e \<longleftrightarrow> (case e of ConnectorError stage detail \<Rightarrow> stage \<in> set stages \<and> detail \<in> set details | _ \<Rightarrow> True)"

text \<open>The same reading of pure checks as of programs.\<close>

definition fails_only :: "('e \<Rightarrow> bool) \<Rightarrow> 'e + 'a \<Rightarrow> bool" where
  "fails_only E r \<longleftrightarrow> (\<forall>e. r = Inl e \<longrightarrow> E e)"

named_theorems fails_rules \<open>introduction rules for the errors of checks\<close>

lemma fails_pure [fails_rules]:
  "fails_only E (Inr x)" "E e \<Longrightarrow> fails_only E (Inl e)" "E e \<Longrightarrow> fails_only E (check c e)"
  by (auto simp: fails_only_def check_eq_Inl)

lemma fails_bindE [fails_rules]:
  "fails_only E r \<Longrightarrow> (\<And>x. fails_only E (f x)) \<Longrightarrow> fails_only E (bindE r f)"
  by (auto simp: fails_only_def bindE_eq_Inl)

lemma fails_if [fails_rules]: "fails_only E r \<Longrightarrow> fails_only E s \<Longrightarrow> fails_only E (if c then r else s)"
  by simp

lemma fails_liftW [raises_rules]: "fails_only E r \<Longrightarrow> raises_only E (liftW r)"
  by (auto simp: fails_only_def raises_only_def)

lemma known_other [simp]: "known (OtherFailure c)" "known OsFailure" "known SocketTimeout" "known SshFailure" "known EofFailure"
  by (simp_all add: known_def)

lemmas known_simps = known_def stages_def details_def validation_def bad_port_def bad_host_def not_loopback_def
  bad_trust_file_def bad_timeout_def deadline_expired_def peer_closed_def too_long_def prompt_closed_def
  prompt_overflow_def prompt_refused_def bad_hello_def

lemma one_of_known [fails_rules]: "known e \<Longrightarrow> fails_only known (one_of names v e)"
  by (auto simp: one_of_def hashable_def fails_only_def split: json.splits if_splits)

lemma check_port_known [fails_rules]: "fails_only known (check_port v)"
  by (auto simp: check_port_def fails_only_def known_simps split: json.splits sum.splits if_splits)

lemma check_host_known [fails_rules]: "fails_only known (check_host v)"
  by (auto simp: check_host_def fails_only_def known_simps split: json.splits option.splits if_splits)

lemma loopback_known [fails_rules]: "fails_only known (loopback_host h)"
  by (auto simp: loopback_host_def fails_only_def known_simps split: option.splits if_splits)

lemma with_network_host_known [fails_rules]: "fails_only known (with_network_host demo_mode d)"
  unfolding with_network_host_def
  by (cases "dget d ''host''"; simp only: json.case; intro fails_rules known_other)

lemma check_timeout_known [fails_rules]: "fails_only known (check_timeout tf d)"
  by (auto simp: check_timeout_def fails_only_def bindE_eq_Inl check_eq_Inl known_simps
      split: sum.splits number_error.splits pyfloat.splits if_splits)

lemma auth_fields_known [fails_rules]: "fails_only known (auth_fields d required ssh)"
  unfolding auth_fields_def Let_def by (intro fails_rules) (simp_all add: known_simps)

lemma selected_connector_known [fails_rules]: "fails_only known (selected_connector d protocol)"
proof -
  have "fails_only known (bindE (one_of connector_kinds (dget c ''type'')
        (ConnectorError ''unsupported'' ''The selected connector is unsupported.'')) (\<lambda>kind.
      bindE (check (\<not> (truthy (dget d ''proxy_id'') \<and> kind = ''direct''))
        (validation ''A saved proxy reference cannot be tested as a direct connection.'')) (\<lambda>_.
      bindE (check (\<not> (kind = ''ssh_shell'' \<and> protocol \<noteq> ''telnet''))
        (ConnectorError ''unsupported'' ''Interactive SSH shell supports generic Telnet only, not SSH or NETCONF.'')) (\<lambda>_.
      Inr (c, kind)))))" for c
    by (intro fails_rules) (simp_all add: known_simps)
  moreover have "known (validation ''A resolved connector object is required.'')" by (simp add: known_simps)
  ultimately have "fails_only known (case v of JObj c \<Rightarrow> bindE (one_of connector_kinds (dget c ''type'')
        (ConnectorError ''unsupported'' ''The selected connector is unsupported.'')) (\<lambda>kind.
      bindE (check (\<not> (truthy (dget d ''proxy_id'') \<and> kind = ''direct''))
        (validation ''A saved proxy reference cannot be tested as a direct connection.'')) (\<lambda>_.
      bindE (check (\<not> (kind = ''ssh_shell'' \<and> protocol \<noteq> ''telnet''))
        (ConnectorError ''unsupported'' ''Interactive SSH shell supports generic Telnet only, not SSH or NETCONF.'')) (\<lambda>_.
      Inr (c, kind))))
    | _ \<Rightarrow> Inl (validation ''A resolved connector object is required.''))" for v
    by (cases v) (simp_all add: fails_pure)
  then show ?thesis unfolding selected_connector_def by (intro fails_rules) (simp_all add: known_simps)
qed

lemma with_endpoint_known [fails_rules]: "fails_only known (with_endpoint d p)"
  unfolding with_endpoint_def Let_def by (intro fails_rules)

lemma demo_checks_known [fails_rules]: "fails_only known (demo_checks fs demo_mode kind d c)"
  unfolding demo_checks_def demo_file_policy_def by (intro fails_rules) (simp_all add: known_simps)

lemma login_checks_known [fails_rules]: "fails_only known (login_checks protocol kind d c)"
  unfolding login_checks_def by (intro fails_rules) (simp_all add: known_simps)

lemma validate_profile_known: "fails_only known (validate_profile tf fs profile demo_mode)"
proof (cases profile)
  case (JObj d)
  show ?thesis unfolding JObj validate_profile_def json.case case_prod_beta Let_def
    by (intro fails_rules) (simp_all add: known_simps)
qed (simp_all add: validate_profile_def fails_only_def known_simps)

text \<open>The network answers with exceptions of its libraries, not with the tester's own.\<close>

definition library_errors :: "network \<Rightarrow> bool" where
  "library_errors net \<longleftrightarrow> (\<forall>p. fails_only known (known_hosts_load net p)) \<and> (\<forall>r. fails_only known (channel net r))"

lemma remaining_known [raises_rules]: "raises_only known remaining"
  by (auto simp: raises_only_def remaining_def Let_def known_simps split: prod.splits if_splits)

lemma own_known [raises_rules]: "raises_only known (own r)"
  by (auto simp: raises_only_def own_def Let_def known_simps split: if_splits)

lemma quiet_calls [raises_rules]:
  "raises_only E (set_arrivals as)" "raises_only E (close_resource r)" "raises_only E (dial a)"
  by (simp_all add: raises_only_def set_arrivals_def close_resource_def dial_def)

lemma send_known [raises_rules]: "raises_only known (send bs)"
proof -
  have "raises_only known (\<lambda>w. case sendall bs w of (True, w') \<Rightarrow> (Inr (), w') | (False, w') \<Rightarrow> (Inl OsFailure, w'))"
    by (auto simp: raises_only_def split: prod.splits bool.splits)
  then show ?thesis unfolding send_def by (intro raises_rules)
qed

lemma receive_known [raises_rules]: "raises_only known (receive n)"
proof -
  have "raises_only known (\<lambda>w. case recv n w of (Some bs, w') \<Rightarrow> (Inr bs, w')
      | (None, w') \<Rightarrow> (Inl (if arrivals w = [] then SocketTimeout else OsFailure), w'))"
    by (auto simp: raises_only_def split: prod.splits option.splits)
  then show ?thesis unfolding receive_def by (intro raises_rules)
qed

lemma known_stops [simp]: "known peer_closed" "known too_long" "known prompt_closed" "known prompt_overflow" "known prompt_refused"
  by (simp_all add: known_simps)

lemma receive_exact_known [raises_rules]: "raises_only known (receive_exact n)"
proof (rule raises_onlyI)
  fix w e w' show "receive_exact n w = (Inl e, w') \<Longrightarrow> known e"
  proof (induction n w arbitrary: w' rule: receive_exact.induct)
    case (1 n w)
    obtain q v where q: "receive n w = (q, v)" by (cases "receive n w")
    show ?case
    proof (cases "n = 0 \<or> q = Inr [] \<or> (\<exists>e. q = Inl e)")
      case True
      then show ?thesis using "1.prems" q raises_onlyD [OF receive_known, of n w _ v]
        by (auto simp: receive_exact.simps [of n w] split: if_splits)
    next
      case False
      then obtain chunk where c: "q = Inr chunk" "chunk \<noteq> []" by (cases q) auto
      obtain s u where s: "receive_exact (n - length chunk) v = (s, u)" by (cases "receive_exact (n - length chunk) v")
      then show ?thesis using "1.prems" "1.IH" [OF _ q [symmetric] c, of u] False q c
        by (auto simp: receive_exact.simps [of n w] split: sum.splits)
    qed
  qed
qed

lemma receive_until_known [raises_rules]: "raises_only known (receive_until mark limit data)"
proof (rule raises_onlyI)
  fix w e w' show "receive_until mark limit data w = (Inl e, w') \<Longrightarrow> known e"
  proof (induction mark limit data w arbitrary: w' rule: receive_until.induct)
    case (1 mark limit data w)
    obtain q v where q: "receive_exact 1 w = (q, v)" by (cases "receive_exact 1 w")
    show ?case using "1.prems" "1.IH" [OF _ _ q [symmetric]] q raises_onlyD [OF receive_exact_known, of 1 w _ v]
      by (auto simp: receive_until.simps [of mark limit data] split: if_splits sum.splits)
  qed
qed

lemma read_prompt_known [raises_rules]: "raises_only known (read_prompt pattern data n ng)"
proof (rule raises_onlyI)
  fix w e w' show "read_prompt pattern data n ng w = (Inl e, w') \<Longrightarrow> known e"
  proof (induction pattern data n ng w arbitrary: w' rule: read_prompt.induct)
    case (1 pattern data n ng w)
    obtain q v where q: "receive 1024 w = (q, v)" by (cases "receive 1024 w")
    show ?case
    proof (cases q)
      case (Inl e')
      then show ?thesis using "1.prems" q raises_onlyD [OF receive_known, of 1024 w _ v]
        by (auto simp: read_prompt.simps [of pattern data])
    next
      case (Inr chunk)
      obtain out ng' u where f: "filter_chunk chunk ng v = (out, ng', u)" by (cases "filter_chunk chunk ng v")
      show ?thesis
        using "1.prems" q Inr f "1.IH" [OF q [symmetric] Inr _ _ f [symmetric] refl refl]
        by (auto simp: read_prompt.simps [of pattern data] split: if_splits)
    qed
  qed
qed

lemma resolve_known [raises_rules]: "raises_only known (resolve net host port)"
proof -
  have k: "known (ConnectorError ''connect'' ''The endpoint hostname could not be resolved.'')" "known deadline_expired"
    by (simp_all add: known_simps)
  have "raises_only known (case found of
         NoSlot \<Rightarrow> raiseW deadline_expired
       | found \<Rightarrow> bindW remaining (\<lambda>_. case found of
           Resolved as \<Rightarrow> if as = [] then raiseW (ConnectorError ''connect'' ''The endpoint hostname could not be resolved.'')
             else returnW as
         | NotResolved \<Rightarrow> raiseW (ConnectorError ''connect'' ''The endpoint hostname could not be resolved.'')
         | _ \<Rightarrow> raiseW deadline_expired))" for found
    by (cases found; simp only: dns_answer.case; intro raises_rules k)
  then show ?thesis unfolding resolve_def by (intro raises_rules)
qed

lemma connect_each_known: "known (ConnectorError stage ''The TCP endpoint refused or could not establish a connection.'') \<Longrightarrow>
    raises_only known (connect_each net stage as)"
proof (induction as)
  case Nil
  then show ?case unfolding connect_each.simps by (intro raises_rules)
next
  case (Cons a as)
  have "raises_only known (case reaches net a of Some as \<Rightarrow> set_arrivals as
      | None \<Rightarrow> bindW (close_resource (TcpSocket a)) (\<lambda>_. bindW remaining (\<lambda>_. connect_each net stage as)))"
    by (cases "reaches net a"; simp only: option.case; intro raises_rules Cons)
  then show ?case by (simp only: connect_each.simps, intro raises_rules)
qed

lemma connect_tcp_known [raises_rules]:
  "raises_only known (connect_tcp net host port ''device_connect'')"
  "raises_only known (connect_tcp net host port ''proxy_connect'')"
  unfolding connect_tcp_def by (intro raises_rules connect_each_known; simp add: known_simps)+

lemma login_outcome_known [raises_rules]:
  "role \<in> {''proxy'', ''device''} \<Longrightarrow> raises_only known (login_outcome role a)"
  unfolding login_outcome_def
  by (cases a; simp only: ssh_answer.case; intro raises_rules; auto simp: known_simps)

lemma ssh_failed_known:
  "role \<in> {''proxy'', ''device''} \<Longrightarrow> known e \<Longrightarrow> raises_only known (ssh_failed role e)"
  unfolding ssh_failed_def
  by (cases e; simp only: conn_exn.case; intro raises_rules; auto simp: known_simps)

lemma private_key_known [fails_rules]: "fails_only known (private_key net auth)"
proof -
  have "fails_only known (case key_file net f of
      None \<Rightarrow> Inl (validation ''The configured SSH key file could not be read.'')
    | Some s \<Rightarrow> Inr (JStr (take 65537 s)))" for f
    by (cases "key_file net f") (simp_all add: fails_only_def known_simps)
  moreover have "fails_only known (case v of
      JStr s \<Rightarrow> if 65536 < length s then Inl (validation ''The SSH private key is missing or too large.'')
        else if key_parses net s p then Inr ()
        else Inl (validation ''The SSH private key or key passphrase is invalid or unsupported.'')
    | _ \<Rightarrow> Inl (validation ''The SSH private key is missing or too large.''))" for v p
    by (cases v; simp only: json.case; intro fails_rules; simp add: known_simps)
  ultimately show ?thesis unfolding private_key_def by (intro fails_rules)
qed

lemma connect_ssh_known:
  assumes "library_errors net" and "role \<in> {''proxy'', ''device''}"
  shows "raises_only known (connect_ssh net auth demo_mode role)"
proof -
  have "fails_only known (load_trust net auth demo_mode role)"
    using assms by (auto simp: load_trust_def library_errors_def fails_only_def check_eq_Inl known_simps)
  moreover have "fails_only known (single_auth net auth)"
    unfolding single_auth_def by (intro fails_rules)
  ultimately have "raises_only known (bindW (liftW (load_trust net auth demo_mode role)) (\<lambda>_.
       bindW (liftW (single_auth net auth)) (\<lambda>used. bindW remaining (\<lambda>_. returnW used))))"
    by (intro raises_bindW fails_liftW remaining_known raises_pure(1))
  then have "raises_only known (catchW (bindW (liftW (load_trust net auth demo_mode role)) (\<lambda>_.
       bindW (liftW (single_auth net auth)) (\<lambda>used. bindW remaining (\<lambda>_. returnW used)))) (ssh_failed role))"
    by (rule raises_catchW) (rule ssh_failed_known [OF assms(2)])
  then show ?thesis unfolding connect_ssh_def by (intro raises_rules assms(2))
qed

lemma socks5_known [raises_rules]: "raises_only known (socks5 connector device)"
  unfolding socks5_def socks_login_def socks_reply_def Let_def
  by (intro raises_rules; simp add: known_simps)

lemma connect_response_known [fails_rules]: "fails_only known (connect_response bs)"
  by (auto simp: connect_response_def Let_def fails_only_def bindE_eq_Inl check_eq_Inl known_simps split: option.splits)

lemma http_connect_known [raises_rules]: "raises_only known (http_connect connector device)"
  unfolding http_connect_def
  by (intro raises_bindW send_known receive_until_known fails_liftW connect_response_known)

lemma open_channel_known: "library_errors net \<Longrightarrow> raises_only known (open_channel net request)"
proof -
  assume l: "library_errors net"
  have "raises_only known (case channel net request of Inl e \<Rightarrow> raiseW e
      | Inr as \<Rightarrow> bindW (own (SshChannel request)) (\<lambda>_. set_arrivals as))"
  proof (cases "channel net request")
    case (Inl e)
    then show ?thesis using l by (auto simp: library_errors_def fails_only_def raises_only_def)
  next
    case (Inr as)
    show ?thesis unfolding Inr sum.case by (intro raises_rules)
  qed
  then show ?thesis unfolding open_channel_def by (intro raises_rules)
qed

lemma bastion_failed_known: "known e \<Longrightarrow> raises_only known (bastion_failed e)"
  unfolding bastion_failed_def
  by (cases e; simp only: conn_exn.case; intro raises_rules; simp add: known_simps)

lemma bastion_channel_known: "library_errors net \<Longrightarrow> raises_only known (bastion_channel net kind device)"
  unfolding bastion_channel_def by (intro raises_rules open_channel_known)

lemma open_stream_known: "library_errors net \<Longrightarrow> raises_only known (open_stream net device connector demo_mode)"
  unfolding open_stream_def Let_def
  by (intro raises_rules connect_ssh_known raises_catchW [where F = known] bastion_channel_known bastion_failed_known)
    simp_all

lemma hello_known: "fails_only known (check_hello ps raw)"
proof -
  have "fails_only known (case parse_xml ps raw of None \<Rightarrow> Inl bad_hello | Some doc \<Rightarrow> check (hello_valid doc) bad_hello)"
    by (cases "parse_xml ps raw") (simp_all add: fails_pure known_simps)
  then show ?thesis unfolding check_hello_def by (intro fails_rules) (simp_all add: known_simps)
qed

lemma netconf_hello_known: "library_errors net \<Longrightarrow> raises_only known (netconf_hello net ps)"
  unfolding netconf_hello_def
  by (intro raises_bindW open_channel_known remaining_known send_known receive_until_known fails_liftW hello_known)

lemma telnet_login_known [raises_rules]: "raises_only known (telnet_login device)"
  unfolding telnet_login_def case_prod_beta by (intro raises_rules)

lemma test_steps_known:
  "library_errors net \<Longrightarrow> raises_only known (test_steps net ps device connector demo_mode)"
  unfolding test_steps_def Let_def
  by (intro raises_rules open_stream_known connect_ssh_known netconf_hello_known) simp_all

lemma failure_known:
  assumes "known e"
  shows "fst (failure_of late e) \<in> set stages \<and> snd (failure_of late e) \<in> set details"
proof -
  have "''timeout'' \<in> set stages" "''internal'' \<in> set stages" "''protocol'' \<in> set stages"
    "''The overall connection-test deadline expired.'' \<in> set details"
    "''The connection test could not be completed.'' \<in> set details"
    "''The connection closed or failed during protocol negotiation.'' \<in> set details"
    by (simp_all add: stages_def details_def)
  then show ?thesis using assms by (cases e) (auto simp: failure_of_def known_def)
qed

lemma test_detail_known: "test_detail protocol \<in> set details"
  by (simp add: test_detail_def details_def)

lemma steps_detail:
  assumes "test_steps net ps device connector demo_mode w = (Inr detail, w')"
  shows "detail = test_detail (text_of device ''protocol'')"
  using assms unfolding test_steps_def Let_def
  by (elim bindW_InrE) simp

text \<open>
  A connection test always returns a report, and its stage and detail are constants of
  the code: a success is complete with the sentence of its protocol, and any failure, whatever the
  profile holds and the network answers, has one of the listed stages and texts. No credential,
  host or server message can be in it.
\<close>

theorem reports_use_fixed_texts:
  assumes "library_errors net"
    and "run_connection_test tf fs net ps profile demo_mode w = (report, w')"
  shows "\<exists>success stage detail duration. report = connection_report success stage detail duration
    \<and> detail \<in> set details \<and> (if success then stage = ''complete'' else stage \<in> set stages)"
  using assms(2)
proof (rule run_connection_test_cases)
  fix success stage detail duration v u
  assume r: "report = connection_report success stage detail duration"
    and run: "case validate_profile tf fs profile demo_mode of
        Inl e \<Rightarrow> (success, stage, detail) = (False, failure_of False e) \<and> u = v
      | Inr (device, connector, seconds) \<Rightarrow>
          timed_test net ps device connector seconds demo_mode v = ((success, stage, detail), u)"
  have "detail \<in> set details \<and> (if success then stage = ''complete'' else stage \<in> set stages)"
  proof (cases "validate_profile tf fs profile demo_mode")
    case (Inl e)
    then have "known e" using validate_profile_known [of tf fs profile demo_mode] by (auto simp: fails_only_def)
    then show ?thesis using failure_known [of e False] run Inl by (cases "failure_of False e") auto
  next
    case (Inr x)
    then obtain device connector seconds where
      t: "timed_test net ps device connector seconds demo_mode v = ((success, stage, detail), u)"
      using run by (cases x) auto
    then obtain v1 q w2 where s: "test_steps net ps device connector demo_mode v1 = (q, w2)"
      and o: "case q of Inr detail' \<Rightarrow> (success, stage, detail) = (True, ''complete'', detail')
        | Inl e \<Rightarrow> \<exists>late. (success, stage, detail) = (False, failure_of late e)"
      by (rule timed_test_steps)
    show ?thesis
    proof (cases q)
      case (Inl e)
      then have "known e" using raises_onlyD [OF test_steps_known [OF assms(1)]] s by blast
      moreover obtain late where "(success, stage, detail) = (False, failure_of late e)" using o Inl by auto
      ultimately show ?thesis using failure_known [of e late] by (cases "failure_of late e") auto
    next
      case (Inr d)
      then have "d = test_detail (text_of device ''protocol'')"
        using steps_detail [of net ps device connector demo_mode v1 d w2] s by simp
      then show ?thesis using o Inr test_detail_known by auto
    qed
  qed
  then show ?thesis using r by blast
qed

definition sample_network :: network where
  "sample_network = \<lparr>lookup = (\<lambda>_ _. NotResolved),
     reaches = (\<lambda>a. if a = (''127.0.0.1'', 1080) then Some [Data [5, 0], Data [5, 0, 0, 1, 0, 0, 0, 0, 0, 0],
        Data (ascii ''Username: ''), Data (ascii ''Password: ''), Data (ascii ''hi>'')] else None),
     known_hosts_load = (\<lambda>_. Inl OsFailure), key_file = (\<lambda>_. None), key_parses = (\<lambda>_ _. False),
     ssh_login = (\<lambda>_ _ _ _. LoginRejected), channel = (\<lambda>_. Inl SshFailure)\<rparr>"

definition sample_parsers :: parsers where
  "sample_parsers = \<lparr>valid_utf8 = (\<lambda>_. False), parse_xml = (\<lambda>_. None)\<rparr>"

definition sample_link :: link where
  "sample_link = \<lparr>readings = [], now = 0, arrivals = [], sends = [], sent = [], dl_end = 0, alarms = [],
     expired = False, opened = [], owned = [], closed = [], dialled = []\<rparr>"

lemma sample_test_run:
  "\<exists>w'. run_connection_test (\<lambda>_. None) sample_files sample_network sample_parsers (JObj sample_profile) True sample_link
     = (connection_report True ''complete'' (test_detail ''telnet'') 0, w') \<and> dialled w' = [(''127.0.0.1'', 1080)]"
proof -
  have "case run_connection_test (\<lambda>_. None) sample_files sample_network sample_parsers (JObj sample_profile) True sample_link
    of (report, w') \<Rightarrow> report = connection_report True ''complete'' (test_detail ''telnet'') 0
      \<and> dialled w' = [(''127.0.0.1'', 1080)]" by code_simp
  then show ?thesis by (auto split: prod.splits)
qed

theorem reports_use_fixed_texts_witness:
  "\<exists>w'. run_connection_test (\<lambda>_. None) sample_files sample_network sample_parsers (JObj sample_profile) True sample_link
     = (connection_report True ''complete'' (test_detail ''telnet'') 0, w')
   \<and> (\<exists>success stage detail duration.
        connection_report True ''complete'' (test_detail ''telnet'') 0 = connection_report success stage detail duration
        \<and> detail \<in> set details \<and> (if success then stage = ''complete'' else stage \<in> set stages))"
proof -
  have "library_errors sample_network" by (simp add: library_errors_def sample_network_def fails_only_def)
  then show ?thesis using reports_use_fixed_texts sample_test_run by fast
qed

theorem tests_dial_only_the_first_hop_witness:
  "\<exists>report w'. run_connection_test (\<lambda>_. None) sample_files sample_network sample_parsers (JObj sample_profile) True sample_link = (report, w')
     \<and> dialled w' = [(''127.0.0.1'', 1080)] \<and> owned w' = [] \<and> set (opened w') \<subseteq> set (closed w')"
proof -
  obtain w' where r: "run_connection_test (\<lambda>_. None) sample_files sample_network sample_parsers (JObj sample_profile) True sample_link
      = (connection_report True ''complete'' (test_detail ''telnet'') 0, w')" and d: "dialled w' = [(''127.0.0.1'', 1080)]"
    using sample_test_run by blast
  from tests_dial_only_the_first_hop [OF r] r d show ?thesis by (auto simp: sample_link_def)
qed

end
