(* ===== verification/Settings.thy ===== *)
theory Settings
  imports Uuid Identity
begin

text \<open>
  The settings read from the environment, \<open>config/settings.py\<close>: the device-data provider and the
  authentication mode with everything each mode needs. The environment is a map of names to texts;
  an error is the name of the setting it is about.
\<close>

type_synonym environ = "string \<Rightarrow> string option"

definition getenv :: "environ \<Rightarrow> string \<Rightarrow> string \<Rightarrow> string" where
  "getenv env name missing = (case env name of Some s \<Rightarrow> s | None \<Rightarrow> missing)"

definition device_data_provider :: "environ \<Rightarrow> string + string" where
  "device_data_provider env =
     (let provider = getenv env ''GATEWAY_DEVICE_DATA_PROVIDER'' ''disabled'' in
      if provider = ''fake'' then Inr ''fake''
      else if provider = ''disabled'' then Inr ''disabled''
      else Inl ''GATEWAY_DEVICE_DATA_PROVIDER'')"

section \<open>URIs\<close>

text \<open>
  \<open>urllib.parse.urlsplit\<close> of Python 3.11, as far as the code reads its result: the scheme, the
  network location and the fragment. \<open>None\<close> is a \<open>ValueError\<close>.
\<close>

definition scheme_char :: "char \<Rightarrow> bool" where
  "scheme_char c \<longleftrightarrow> is_ascii_alnum c \<or> c \<in> set ''+-.''"

definition cleaned_url :: "string \<Rightarrow> string" where
  "cleaned_url url = filter (\<lambda>c. ord_of c \<notin> {9, 10, 13}) (dropWhile (\<lambda>c. ord_of c \<le> 32) url)"

definition split_scheme :: "string \<Rightarrow> string \<times> string" where
  "split_scheme url = (let s = takeWhile (\<lambda>c. c \<noteq> CHR '':'') url in
     if CHR '':'' \<in> set url \<and> s \<noteq> [] \<and> is_ascii_alpha (hd s) \<and> list_all scheme_char s
     then (lower s, drop (Suc (length s)) url) else ([], url))"

definition split_netloc :: "string \<Rightarrow> string \<times> string" where
  "split_netloc rest = (if startswith rest ''//''
     then (takeWhile (\<lambda>c. c \<notin> set ''/?#'') (drop 2 rest), dropWhile (\<lambda>c. c \<notin> set ''/?#'') (drop 2 rest))
     else ([], rest))"

text \<open>A host in brackets is a future address or an IPv6 address, maybe with a zone.\<close>

definition bracketed_ok :: "string \<Rightarrow> bool" where
  "bracketed_ok h = (if startswith h ''v''
     then (let digits = takeWhile is_hex (tl h); r = dropWhile is_hex (tl h) in
           digits \<noteq> [] \<and> r \<noteq> [] \<and> hd r = CHR ''.'' \<and> tl r \<noteq> [])
     else (let zone = dropWhile (\<lambda>c. c \<noteq> CHR ''%'') h in
           (zone = [] \<or> tl zone \<noteq> [] \<and> CHR ''%'' \<notin> set (tl zone))
           \<and> (case parse_address (takeWhile (\<lambda>c. c \<noteq> CHR ''%'') h) of Some (V6 _) \<Rightarrow> True | _ \<Rightarrow> False)))"

definition in_brackets :: "string \<Rightarrow> string" where
  "in_brackets s = takeWhile (\<lambda>c. c \<noteq> CHR '']'') (drop 1 (dropWhile (\<lambda>c. c \<noteq> CHR ''['') s))"

definition urlsplit :: "string \<Rightarrow> (string \<times> string \<times> string) option" where
  "urlsplit url =
     (let (scheme, rest) = split_scheme (cleaned_url url); (netloc, rest) = split_netloc rest in
      if (CHR ''['' \<in> set netloc) \<noteq> (CHR '']'' \<in> set netloc) then None
      else if CHR ''['' \<in> set netloc \<and> \<not> bracketed_ok (in_brackets netloc) then None
      else Some (scheme, netloc, drop 1 (dropWhile (\<lambda>c. c \<noteq> CHR ''#'') rest)))"

text \<open>The properties \<open>username\<close>, \<open>password\<close> (empty when absent) and \<open>hostname\<close> of the result.\<close>

definition url_userinfo :: "string \<Rightarrow> string" where
  "url_userinfo netloc = (case rsplit1 (CHR ''@'') netloc of Some (u, _) \<Rightarrow> u | None \<Rightarrow> [])"

definition url_username :: "string \<Rightarrow> string" where
  "url_username netloc = takeWhile (\<lambda>c. c \<noteq> CHR '':'') (url_userinfo netloc)"

definition url_password :: "string \<Rightarrow> string" where
  "url_password netloc = drop 1 (dropWhile (\<lambda>c. c \<noteq> CHR '':'') (url_userinfo netloc))"

definition url_hostname :: "string \<Rightarrow> string" where
  "url_hostname netloc =
     (let h = (case rsplit1 (CHR ''@'') netloc of Some (_, h) \<Rightarrow> h | None \<Rightarrow> netloc);
          name = (if CHR ''['' \<in> set h then in_brackets h else takeWhile (\<lambda>c. c \<noteq> CHR '':'') h)
      in lower (takeWhile (\<lambda>c. c \<noteq> CHR ''%'') name) @ dropWhile (\<lambda>c. c \<noteq> CHR ''%'') name)"

definition localhost_names :: "string list" where
  "localhost_names = [''localhost'', ''127.0.0.1'', ''::1'']"

definition absolute_redirect_uri :: "string \<Rightarrow> string \<Rightarrow> string + string" where
  "absolute_redirect_uri v name = (case urlsplit v of
      None \<Rightarrow> Inl name
    | Some (scheme, netloc, fragment) \<Rightarrow>
        if scheme \<notin> {''http'', ''https''} \<or> netloc = [] \<or> url_username netloc \<noteq> []
          \<or> url_password netloc \<noteq> [] \<or> fragment \<noteq> []
          \<or> scheme = ''http'' \<and> url_hostname netloc \<notin> set localhost_names
        then Inl name else Inr v)"

definition redirect_uris_setting :: "environ \<Rightarrow> string + string list" where
  "redirect_uris_setting env =
     (let values = filter (\<lambda>v. v \<noteq> []) (map strip (split_on (CHR '','')
        (getenv env ''GATEWAY_ENTRA_REDIRECT_URIS'' []))) in
      bindE (check (values \<noteq> []) ''GATEWAY_ENTRA_REDIRECT_URIS'') (\<lambda>_.
      mapE (\<lambda>v. absolute_redirect_uri v ''GATEWAY_ENTRA_REDIRECT_URIS'') values))"

section \<open>Authentication\<close>

datatype settings_mode = EntraMode | DemoMode | DisabledMode

record auth_settings =
  cfg_mode :: settings_mode
  cfg_tenant_id :: "string option"
  cfg_client_id :: "string option"
  cfg_api_client_id :: "string option"
  cfg_client_secret :: "string option"
  cfg_redirect_uris :: "string list"
  cfg_post_logout :: "string option"
  cfg_scopes :: "string list"
  cfg_demo_id :: "string option"
  cfg_demo_email :: "string option"
  cfg_demo_name :: "string option"
  cfg_demo_role :: "gateway_role option"

text \<open>\<open>AuthSettings(mode=...)\<close> with the defaults of every other field.\<close>

definition default_settings :: "settings_mode \<Rightarrow> auth_settings" where
  "default_settings m = \<lparr>cfg_mode = m, cfg_tenant_id = None, cfg_client_id = None, cfg_api_client_id = None,
     cfg_client_secret = None, cfg_redirect_uris = [], cfg_post_logout = None,
     cfg_scopes = [''openid'', ''profile'', ''email''], cfg_demo_id = None, cfg_demo_email = None,
     cfg_demo_name = None, cfg_demo_role = None\<rparr>"

definition uuid_setting :: "environ \<Rightarrow> string \<Rightarrow> string + string" where
  "uuid_setting env name = (case parse_uuid (strip (getenv env name [])) of
      None \<Rightarrow> Inl name | Some i \<Rightarrow> Inr (show_uuid i))"

text \<open>\<open>s.split()\<close>: the words between runs of white space.\<close>

definition words :: "string \<Rightarrow> string list" where
  "words s = filter (\<lambda>w. w \<noteq> []) (split_on (CHR '' '') (map (\<lambda>c. if is_space c then CHR '' '' else c) s))"

definition demo_settings :: "environ \<Rightarrow> string + auth_settings" where
  "demo_settings env =
     (case role_of_name (strip (getenv env ''GATEWAY_DEMO_USER_ROLE'' [])) of
        None \<Rightarrow> Inl ''GATEWAY_DEMO_USER_ROLE''
      | Some role \<Rightarrow>
          let subject = strip (getenv env ''GATEWAY_DEMO_USER_ID'' []);
              name = strip (getenv env ''GATEWAY_DEMO_USER_NAME'' []);
              email = strip (getenv env ''GATEWAY_DEMO_USER_EMAIL'' [])
          in if subject = [] \<or> name = [] then Inl ''GATEWAY_DEMO_USER_ID''
             else Inr ((default_settings DemoMode)\<lparr>cfg_demo_id := Some subject,
               cfg_demo_email := (if email = [] then None else Some email),
               cfg_demo_name := Some name, cfg_demo_role := Some role\<rparr>))"

definition entra_settings :: "environ \<Rightarrow> string + auth_settings" where
  "entra_settings env =
     (let secret = getenv env ''GATEWAY_ENTRA_CLIENT_SECRET'' [];
          scopes = words (replace (getenv env ''GATEWAY_ENTRA_SCOPES'' ''openid,profile,email'') '','' '' '');
          post_logout = strip (getenv env ''GATEWAY_ENTRA_POST_LOGOUT_REDIRECT_URI'' [])
      in
      bindE (check (secret \<noteq> []) ''GATEWAY_ENTRA_CLIENT_SECRET'') (\<lambda>_.
      bindE (check (''openid'' \<in> set scopes) ''GATEWAY_ENTRA_SCOPES'') (\<lambda>_.
      bindE (uuid_setting env ''GATEWAY_ENTRA_CLIENT_ID'') (\<lambda>client.
      bindE (if strip (getenv env ''GATEWAY_ENTRA_API_CLIENT_ID'' []) \<noteq> []
          then uuid_setting env ''GATEWAY_ENTRA_API_CLIENT_ID'' else Inr client) (\<lambda>api_client.
      bindE (uuid_setting env ''GATEWAY_ENTRA_TENANT_ID'') (\<lambda>tenant.
      bindE (redirect_uris_setting env) (\<lambda>uris.
      bindE (if post_logout \<noteq> [] then bindE (absolute_redirect_uri post_logout
            ''GATEWAY_ENTRA_POST_LOGOUT_REDIRECT_URI'') (\<lambda>v. Inr (Some v)) else Inr None) (\<lambda>logout.
      Inr ((default_settings EntraMode)\<lparr>cfg_tenant_id := Some tenant, cfg_client_id := Some client,
        cfg_api_client_id := Some api_client, cfg_client_secret := Some secret, cfg_redirect_uris := uris,
        cfg_post_logout := logout, cfg_scopes := scopes\<rparr>)))))))))"

definition load_auth_settings :: "environ \<Rightarrow> string + auth_settings" where
  "load_auth_settings env =
     (let mode = strip (getenv env ''GATEWAY_AUTH_MODE'' ''disabled'') in
      if mode \<notin> {''entra'', ''demo'', ''disabled''} then Inl ''GATEWAY_AUTH_MODE''
      else if mode = ''disabled'' then Inr (default_settings DisabledMode)
      else if mode = ''demo'' then demo_settings env
      else entra_settings env)"

section \<open>Every mode is complete\<close>

text \<open>What a setting of each mode holds; a mode with anything missing is never loaded.\<close>

definition safe_redirect :: "string \<Rightarrow> bool" where
  "safe_redirect v \<longleftrightarrow> (\<exists>scheme netloc. urlsplit v = Some (scheme, netloc, []) \<and> netloc \<noteq> []
     \<and> url_username netloc = [] \<and> url_password netloc = []
     \<and> (scheme = ''https'' \<or> scheme = ''http'' \<and> url_hostname netloc \<in> set localhost_names))"

definition canonical_uuid :: "string option \<Rightarrow> bool" where
  "canonical_uuid v \<longleftrightarrow> (\<exists>i. 0 \<le> i \<and> i < 2 ^ 128 \<and> v = Some (show_uuid i))"

definition complete_settings :: "auth_settings \<Rightarrow> bool" where
  "complete_settings s \<longleftrightarrow> (case cfg_mode s of
      DisabledMode \<Rightarrow> s = default_settings DisabledMode
    | DemoMode \<Rightarrow> cfg_demo_role s \<noteq> None \<and> (\<exists>i n. cfg_demo_id s = Some i \<and> i \<noteq> [] \<and> cfg_demo_name s = Some n \<and> n \<noteq> [])
    | EntraMode \<Rightarrow> canonical_uuid (cfg_tenant_id s) \<and> canonical_uuid (cfg_client_id s)
        \<and> canonical_uuid (cfg_api_client_id s)
        \<and> (\<exists>k. cfg_client_secret s = Some k \<and> k \<noteq> []) \<and> ''openid'' \<in> set (cfg_scopes s)
        \<and> cfg_redirect_uris s \<noteq> [] \<and> list_all safe_redirect (cfg_redirect_uris s)
        \<and> (case cfg_post_logout s of None \<Rightarrow> True | Some v \<Rightarrow> safe_redirect v))"

lemma absolute_redirect_safe: "absolute_redirect_uri v name = Inr u \<Longrightarrow> u = v \<and> safe_redirect v"
  by (auto simp: absolute_redirect_uri_def safe_redirect_def split: option.splits if_splits)

lemma uuid_setting_canonical: "uuid_setting env name = Inr u \<Longrightarrow> canonical_uuid (Some u)"
  by (auto simp: uuid_setting_def canonical_uuid_def parse_uuid_def Let_def
      split: option.splits if_splits)

lemma redirect_uris_safe:
  assumes "redirect_uris_setting env = Inr uris"
  shows "uris \<noteq> [] \<and> list_all safe_redirect uris"
proof -
  let ?f = "\<lambda>v. absolute_redirect_uri v ''GATEWAY_ENTRA_REDIRECT_URIS''"
  obtain vs where v: "vs \<noteq> []" and m: "mapE ?f vs = Inr uris"
    using assms by (auto simp: redirect_uris_setting_def Let_def result_simps)
  have "uris \<noteq> []" using v mapE_length [OF m] by auto
  moreover have "safe_redirect u" if "u \<in> set uris" for u
    using mapE_Inr_set [OF m that] absolute_redirect_safe by blast
  ultimately show ?thesis by (simp add: list_all_iff)
qed

lemma demo_settings_complete: "demo_settings env = Inr s \<Longrightarrow> cfg_mode s = DemoMode \<and> complete_settings s"
  by (auto simp: demo_settings_def default_settings_def complete_settings_def Let_def
      split: option.splits if_splits)

lemma entra_settings_complete:
  assumes "entra_settings env = Inr s"
  shows "cfg_mode s = EntraMode \<and> complete_settings s"
proof -
  have opt: "(if c then uuid_setting env n else Inr client) = Inr u \<Longrightarrow> canonical_uuid (Some client)
      \<Longrightarrow> canonical_uuid (Some u)" for c n client u
    using uuid_setting_canonical by (auto split: if_splits)
  have out: "(if c then bindE (absolute_redirect_uri v n) (\<lambda>v. Inr (Some v)) else Inr None) = Inr l
      \<Longrightarrow> (case l of None \<Rightarrow> True | Some v \<Rightarrow> safe_redirect v)" for c v n l
    by (auto simp: result_simps split: if_splits dest: absolute_redirect_safe)
  obtain client api_client tenant uris logout where
    c: "uuid_setting env ''GATEWAY_ENTRA_CLIENT_ID'' = Inr client"
    and a: "(if strip (getenv env ''GATEWAY_ENTRA_API_CLIENT_ID'' []) \<noteq> []
      then uuid_setting env ''GATEWAY_ENTRA_API_CLIENT_ID'' else Inr client) = Inr api_client"
    and t: "uuid_setting env ''GATEWAY_ENTRA_TENANT_ID'' = Inr tenant"
    and r: "redirect_uris_setting env = Inr uris"
    and l: "(let post_logout = strip (getenv env ''GATEWAY_ENTRA_POST_LOGOUT_REDIRECT_URI'' []) in
      if post_logout \<noteq> [] then bindE (absolute_redirect_uri post_logout
        ''GATEWAY_ENTRA_POST_LOGOUT_REDIRECT_URI'') (\<lambda>v. Inr (Some v)) else Inr None) = Inr logout"
    and s: "s = (default_settings EntraMode)\<lparr>cfg_tenant_id := Some tenant, cfg_client_id := Some client,
      cfg_api_client_id := Some api_client, cfg_client_secret := Some (getenv env ''GATEWAY_ENTRA_CLIENT_SECRET'' []),
      cfg_redirect_uris := uris, cfg_post_logout := logout, cfg_scopes := words (replace
        (getenv env ''GATEWAY_ENTRA_SCOPES'' ''openid,profile,email'') '','' '' '')\<rparr>"
    and k: "getenv env ''GATEWAY_ENTRA_CLIENT_SECRET'' [] \<noteq> []"
    and o: "''openid'' \<in> set (words (replace (getenv env ''GATEWAY_ENTRA_SCOPES'' ''openid,profile,email'') '','' '' ''))"
    using assms unfolding entra_settings_def Let_def bindE_eq_Inr check_eq_Inr by blast
  show ?thesis
    using uuid_setting_canonical [OF c] opt [OF a uuid_setting_canonical [OF c]] uuid_setting_canonical [OF t]
      redirect_uris_safe [OF r] out [OF l [unfolded Let_def]] k o
    by (simp add: s default_settings_def complete_settings_def)
qed

text \<open>
  Settings are only ever loaded complete: the demo has a named user with
  one of the roles, Entra has canonical identifiers of its tenant and clients, a secret, the scope
  \<open>openid\<close> and redirect URIs that are HTTPS or on the local host and carry neither a password
  nor a fragment, and anything else leaves authentication disabled or refuses to start.
\<close>

theorem settings_are_complete:
  assumes "load_auth_settings env = Inr s"
  shows "complete_settings s
    \<and> (cfg_mode s = DisabledMode \<longleftrightarrow> strip (getenv env ''GATEWAY_AUTH_MODE'' ''disabled'') = ''disabled'')
    \<and> (cfg_mode s = EntraMode \<longleftrightarrow> strip (getenv env ''GATEWAY_AUTH_MODE'' ''disabled'') = ''entra'')"
  using assms demo_settings_complete [of env s] entra_settings_complete [of env s]
  by (auto simp: load_auth_settings_def Let_def complete_settings_def default_settings_def split: if_splits)

definition sample_environ :: environ where
  "sample_environ = map_of
     [(''GATEWAY_AUTH_MODE'', ''entra''),
      (''GATEWAY_ENTRA_TENANT_ID'', ''{11111111-1111-1111-1111-11111111111F}''),
      (''GATEWAY_ENTRA_CLIENT_ID'', ''22222222-2222-2222-2222-222222222222''),
      (''GATEWAY_ENTRA_CLIENT_SECRET'', ''test-secret''),
      (''GATEWAY_ENTRA_REDIRECT_URIS'', ''http://localhost:8000/api/v1/callback, https://gw.example/api/v1/callback'')]"

theorem settings_are_complete_witness:
  "case load_auth_settings sample_environ of
     Inl _ \<Rightarrow> False
   | Inr s \<Rightarrow> complete_settings s \<and> cfg_tenant_id s = Some ''11111111-1111-1111-1111-11111111111f''
       \<and> length (cfg_redirect_uris s) = 2"
proof -
  have e: "map_sum id (\<lambda>s. (cfg_tenant_id s, length (cfg_redirect_uris s))) (load_auth_settings sample_environ)
      = Inr (Some ''11111111-1111-1111-1111-11111111111f'', 2)"
    by code_simp
  then show ?thesis
    using settings_are_complete [of sample_environ] by (cases "load_auth_settings sample_environ") auto
qed

end
