(* ===== verification/Auth.thy ===== *)
theory Auth
  imports Settings Base64 PyNumber
begin

text \<open>
  Browser sign-in and bearer tokens, \<open>app/bl/services/auth.py\<close>: signed cookies, the cached
  documents of the identity provider, the verification of tokens, and the login flow. Cryptography,
  JSON texts and the HTTP answers of the provider are parameters.
\<close>

section \<open>Libraries and the outside\<close>

text \<open>
  Library functions: HMAC and SHA-256, the JSON text of a dictionary (with sorted keys) and its
  parser, the verification of an RSA signature (of exponent, modulus, signature and message, false
  when it raises), query strings, \<open>repr\<close>, and the float a decimal text denotes.
\<close>

record auth_library =
  hmac :: "bytes \<Rightarrow> bytes \<Rightarrow> bytes"
  sha256 :: "bytes \<Rightarrow> bytes"
  json_dumps :: "dict \<Rightarrow> bytes"
  json_loads :: "bytes \<Rightarrow> json option"
  rsa_verifies :: "bytes \<Rightarrow> bytes \<Rightarrow> bytes \<Rightarrow> bytes \<Rightarrow> bool"
  urlencode :: "(string \<times> string) list \<Rightarrow> string"
  json_repr :: "json \<Rightarrow> string"
  float_text :: "string \<Rightarrow> pyfloat option"

datatype http_request = Get json | Post json "(string \<times> json) list"

text \<open>An answer over HTTP: a JSON document, or a \<open>RequestException\<close> (no answer, an error status, no JSON).\<close>

datatype http_answer = Unreachable | Document json

datatype cache_key = DiscoveryOf string | JwksOf json

text \<open>
  The world of the service: what the two clocks will say, the answers of the provider in the order
  they are asked for, the requests made, the random tokens, and the module's cache.
\<close>

record auth_world =
  wall :: "rat list"
  wall_now :: rat
  ticks :: "rat list"
  tick_now :: rat
  answers :: "http_answer list"
  asked :: "http_request list"
  token_source :: "nat \<Rightarrow> nat \<Rightarrow> string"
  drawn :: nat
  auth_cache :: "cache_key \<Rightarrow> (rat \<times> dict) option"

type_synonym 'a auth_call = "(auth_world, http_exn, 'a) io"

definition unauthorized :: http_exn where
  "unauthorized = HTTPException 401"

text \<open>\<open>time.time()\<close>, which may go back, and \<open>time.monotonic()\<close>, which does not.\<close>

definition time_now :: "rat auth_call" where
  "time_now w = (case wall w of [] \<Rightarrow> (Inr (wall_now w), w)
     | t # ts \<Rightarrow> (Inr t, w\<lparr>wall := ts, wall_now := t\<rparr>))"

definition tick :: "rat auth_call" where
  "tick w = (case ticks w of [] \<Rightarrow> (Inr (tick_now w), w)
     | t # ts \<Rightarrow> (Inr (max (tick_now w) t), w\<lparr>ticks := ts, tick_now := max (tick_now w) t\<rparr>))"

text \<open>A request whose URL is no text fails before anything is sent.\<close>

definition http_call :: "(json \<Rightarrow> http_request) \<Rightarrow> json \<Rightarrow> http_answer auth_call" where
  "http_call request url w = (if \<not> is_str url then (Inr Unreachable, w)
     else case answers w of
       [] \<Rightarrow> (Inr Unreachable, w\<lparr>asked := asked w @ [request url]\<rparr>)
     | a # as \<Rightarrow> (Inr a, w\<lparr>answers := as, asked := asked w @ [request url]\<rparr>))"

definition token_urlsafe :: "nat \<Rightarrow> string auth_call" where
  "token_urlsafe n w = (Inr (token_source w (drawn w) n), w\<lparr>drawn := Suc (drawn w)\<rparr>)"

section \<open>Signed values\<close>

text \<open>
  \<open>_decode_b64url\<close> on any JSON value: the alphabet test runs over the elements of a list or the
  keys of a dictionary, and everything else fails with a \<open>TypeError\<close>.
\<close>

definition b64url_alphabet :: string where
  "b64url_alphabet = ''ABCDEFGHIJKLMNOPQRSTUVWXYZabcdefghijklmnopqrstuvwxyz0123456789-_''"

definition decode_elements :: "json list \<Rightarrow> http_exn" where
  "decode_elements vs = (case dropWhile (\<lambda>v. case v of JStr s \<Rightarrow> contains s b64url_alphabet | _ \<Rightarrow> False) vs of
      JStr s # rest \<Rightarrow> ValueError | _ \<Rightarrow> OtherError ''TypeError'')"

definition decode_any :: "json \<Rightarrow> http_exn + bytes" where
  "decode_any v = (case v of
      JStr s \<Rightarrow> (case decode_b64url s of Some bs \<Rightarrow> Inr bs | None \<Rightarrow> Inl ValueError)
    | _ \<Rightarrow> if \<not> truthy v then Inl ValueError
        else (case v of
            JList vs \<Rightarrow> Inl (decode_elements vs)
          | JObj d \<Rightarrow> Inl (decode_elements (map (JStr \<circ> fst) d))
          | _ \<Rightarrow> Inl (OtherError ''TypeError'')))"

definition json_segment :: "auth_library \<Rightarrow> string \<Rightarrow> http_exn + dict" where
  "json_segment lib v = (case decode_b64url v of
      None \<Rightarrow> Inl ValueError
    | Some bs \<Rightarrow> (case json_loads lib bs of Some (JObj d) \<Rightarrow> Inr d | _ \<Rightarrow> Inl ValueError))"

definition sign :: "auth_library \<Rightarrow> dict \<Rightarrow> string \<Rightarrow> string" where
  "sign lib payload secret = (let encoded = b64url (json_dumps lib payload) in
     encoded @ ''.'' @ b64url (hmac lib (utf8 secret) (ascii encoded)))"

definition is_ascii :: "string \<Rightarrow> bool" where
  "is_ascii s = list_all (\<lambda>c. ord_of c < 128) s"

definition unsign :: "auth_library \<Rightarrow> string option \<Rightarrow> string \<Rightarrow> http_exn + dict" where
  "unsign lib v secret = (case v of None \<Rightarrow> Inl ValueError
    | Some s \<Rightarrow> (case rsplit1 (CHR ''.'') s of
        None \<Rightarrow> Inl ValueError
      | Some (encoded, signature) \<Rightarrow>
          bindE (check (is_ascii encoded) ValueError) (\<lambda>_.
          case decode_b64url signature of
            None \<Rightarrow> Inl ValueError
          | Some given \<Rightarrow>
              if hmac lib (utf8 secret) (ascii encoded) \<noteq> given then Inl ValueError
              else json_segment lib encoded)))"

definition cookie_secret :: "auth_settings \<Rightarrow> http_exn + string" where
  "cookie_secret s = (case cfg_client_secret s of
      Some k \<Rightarrow> if cfg_mode s \<noteq> EntraMode \<or> k = [] then Inl ValueError else Inr k
    | None \<Rightarrow> Inl ValueError)"

section \<open>Documents of the provider\<close>

text \<open>A cached document whose time has not passed; the clock is read only when there is one.\<close>

definition cached :: "cache_key \<Rightarrow> dict option auth_call" where
  "cached key w = (case auth_cache w key of
      None \<Rightarrow> (Inr None, w)
    | Some (until, d) \<Rightarrow> bindW tick (\<lambda>t. returnW (if t < until then Some d else None)) w)"

definition remember :: "cache_key \<Rightarrow> rat \<Rightarrow> dict \<Rightarrow> dict auth_call" where
  "remember key ttl d = bindW tick (\<lambda>t w. (Inr d, w\<lparr>auth_cache := (auth_cache w)(key \<mapsto> (t + ttl, d))\<rparr>))"

definition fetch_document :: "cache_key \<Rightarrow> json \<Rightarrow> rat \<Rightarrow> (dict \<Rightarrow> bool) \<Rightarrow> dict auth_call" where
  "fetch_document key url ttl valid = bindW (cached key) (\<lambda>hit. case hit of
      Some d \<Rightarrow> returnW d
    | None \<Rightarrow> bindW (http_call Get url) (\<lambda>a. case a of
        Document (JObj d) \<Rightarrow> if valid d then remember key ttl d else raiseW unauthorized
      | _ \<Rightarrow> raiseW unauthorized))"

definition discovery_url :: "string \<Rightarrow> string" where
  "discovery_url tenant = ''https://login.microsoftonline.com/'' @ tenant @ ''/v2.0/.well-known/openid-configuration''"

definition discovery_keys :: "string list" where
  "discovery_keys = [''issuer'', ''authorization_endpoint'', ''token_endpoint'', ''jwks_uri'']"

definition discovery_valid :: "dict \<Rightarrow> bool" where
  "discovery_valid d \<longleftrightarrow> list_all (dhas d) discovery_keys"

definition discovery :: "auth_settings \<Rightarrow> dict auth_call" where
  "discovery s = (case cfg_tenant_id s of
      None \<Rightarrow> raiseW ValueError
    | Some tenant \<Rightarrow> if tenant = [] then raiseW ValueError
        else fetch_document (DiscoveryOf tenant) (JStr (discovery_url tenant)) 3600 discovery_valid)"

definition jwks :: "json \<Rightarrow> dict auth_call" where
  "jwks uri = fetch_document (JwksOf uri) uri 3600 (\<lambda>d. is_list (dget d ''keys''))"

section \<open>Tokens\<close>

definition item_of :: "dict \<Rightarrow> string \<Rightarrow> http_exn + json" where
  "item_of d k = (if dhas d k then Inr (dget d k) else Inl (OtherError ''KeyError''))"

text \<open>The first RSA key with the identifier; an entry that is no dictionary has no \<open>get\<close>.\<close>

fun select_key :: "string \<Rightarrow> json list \<Rightarrow> http_exn + dict" where
  "select_key kid [] = Inl (OtherError ''StopIteration'')"
| "select_key kid (JObj key # rest) = (if dget key ''kid'' = JStr kid \<and> dget key ''kty'' = JStr ''RSA''
     then Inr key else select_key kid rest)"
| "select_key kid (_ # rest) = Inl (OtherError ''AttributeError'')"

definition token_key_id :: "auth_library \<Rightarrow> string \<Rightarrow> http_exn + string" where
  "token_key_id lib part = bindE (json_segment lib part) (\<lambda>header.
     case dget header ''kid'' of
       JStr kid \<Rightarrow> if dget header ''alg'' \<noteq> JStr ''RS256'' then Inl ValueError else Inr kid
     | _ \<Rightarrow> Inl ValueError)"

definition list_of :: "json \<Rightarrow> json list" where
  "list_of v = (case v of JList vs \<Rightarrow> vs | _ \<Rightarrow> [])"

definition check_signature :: "auth_library \<Rightarrow> string list \<Rightarrow> string \<Rightarrow> json list \<Rightarrow> http_exn + dict" where
  "check_signature lib parts kid keys =
     bindE (select_key kid keys) (\<lambda>key.
     bindE (bindE (item_of key ''e'') decode_any) (\<lambda>e.
     bindE (bindE (item_of key ''n'') decode_any) (\<lambda>n.
     bindE (decode_any (JStr (parts ! 2))) (\<lambda>signature.
     bindE (check (is_ascii (parts ! 0 @ ''.'' @ parts ! 1)
       \<and> rsa_verifies lib e n signature (ascii (parts ! 0 @ ''.'' @ parts ! 1))) ValueError) (\<lambda>_.
     json_segment lib (parts ! 1))))))"

text \<open>\<open>except (ValueError, KeyError, StopIteration, ...)\<close>.\<close>

definition token_failed :: "http_exn \<Rightarrow> http_exn" where
  "token_failed e = (case e of
      ValueError \<Rightarrow> unauthorized
    | OtherError c \<Rightarrow> if c \<in> {''KeyError'', ''StopIteration''} then unauthorized else e
    | HTTPException code \<Rightarrow> e)"

text \<open>A JSON number, which a boolean is too, compared with the time: \<open>v <= now\<close> and \<open>v > now\<close>.\<close>

definition number_of_json :: "json \<Rightarrow> pyfloat option" where
  "number_of_json v = (case v of
      JInt i \<Rightarrow> Some (Finite (of_int i))
    | JBool b \<Rightarrow> Some (Finite (of_bool b))
    | JFloat x \<Rightarrow> Some x
    | _ \<Rightarrow> None)"

definition fl_above :: "pyfloat \<Rightarrow> rat \<Rightarrow> bool" where
  "fl_above x t = (case x of Finite r \<Rightarrow> t < r | PosInf \<Rightarrow> True | _ \<Rightarrow> False)"

definition number_passed :: "json \<Rightarrow> rat \<Rightarrow> bool" where
  "number_passed v t = (case number_of_json v of None \<Rightarrow> True | Some x \<Rightarrow> fl_le x t)"

definition issuer_of :: "string \<Rightarrow> string" where
  "issuer_of tenant = ''https://login.microsoftonline.com/'' @ tenant @ ''/v2.0''"

definition audience_matches :: "json \<Rightarrow> string \<Rightarrow> bool" where
  "audience_matches v audience = (case v of
      JList vs \<Rightarrow> JStr audience \<in> set vs | _ \<Rightarrow> v = JStr audience)"

definition claims_accepted :: "string \<Rightarrow> string \<Rightarrow> string option \<Rightarrow> dict \<Rightarrow> rat \<Rightarrow> bool" where
  "claims_accepted tenant audience nonce claims t \<longleftrightarrow>
     dget claims ''iss'' = JStr (issuer_of tenant)
     \<and> dget claims ''tid'' = JStr tenant
     \<and> audience_matches (dget claims ''aud'') audience
     \<and> \<not> number_passed (dget claims ''exp'') t
     \<and> \<not> (case number_of_json (dget claims ''nbf'') of None \<Rightarrow> False | Some x \<Rightarrow> fl_above x t)
     \<and> (case nonce of None \<Rightarrow> True | Some n \<Rightarrow> dget claims ''nonce'' = JStr n)"

definition text_or_empty :: "string option \<Rightarrow> string" where
  "text_or_empty v = (case v of Some s \<Rightarrow> s | None \<Rightarrow> [])"

definition verify_token ::
    "auth_library \<Rightarrow> auth_settings \<Rightarrow> string \<Rightarrow> string \<Rightarrow> string option \<Rightarrow> dict auth_call" where
  "verify_token lib s token audience nonce =
     (let parts = split_on (CHR ''.'') token in
      bindW (whenW (length parts \<noteq> 3) unauthorized) (\<lambda>_.
      bindW (catchW
          (bindW (liftW (token_key_id lib (parts ! 0))) (\<lambda>kid.
           bindW (discovery s) (\<lambda>document.
           bindW (liftW (item_of document ''jwks_uri'')) (\<lambda>uri.
           bindW (jwks uri) (\<lambda>keys.
           liftW (check_signature lib parts kid (list_of (dget keys ''keys''))))))))
          (\<lambda>e. raiseW (token_failed e))) (\<lambda>claims.
      bindW time_now (\<lambda>t.
      if claims_accepted (text_or_empty (cfg_tenant_id s)) audience nonce claims t then returnW claims
      else raiseW unauthorized))))"

section \<open>Users\<close>

text \<open>The roles of a token; a list or a dictionary among them has no hash.\<close>

fun token_roles :: "json list \<Rightarrow> http_exn + gateway_role set" where
  "token_roles [] = Inr {}"
| "token_roles (JStr r # rest) = (case role_of_name r of
     None \<Rightarrow> Inl unauthorized
   | Some role \<Rightarrow> bindE (token_roles rest) (\<lambda>rs. Inr (insert role rs)))"
| "token_roles (v # rest) = (if is_list v \<or> is_dict v then Inl (OtherError ''TypeError'') else Inl unauthorized)"

definition either :: "json \<Rightarrow> json \<Rightarrow> json" where
  "either v v' = (if truthy v then v else v')"

definition text_of_json :: "auth_library \<Rightarrow> json \<Rightarrow> string" where
  "text_of_json lib v = (case v of JStr s \<Rightarrow> s | _ \<Rightarrow> json_repr lib v)"

definition user_from_claims :: "auth_library \<Rightarrow> auth_settings \<Rightarrow> dict \<Rightarrow> http_exn + authenticated_user" where
  "user_from_claims lib s claims =
     bindE (case dget claims ''roles'' of JList (r # rs) \<Rightarrow> token_roles (r # rs) | _ \<Rightarrow> Inl unauthorized) (\<lambda>granted.
     case either (dget claims ''oid'') (dget claims ''sub'') of
       JStr (c # cs) \<Rightarrow>
         let name = either (dget claims ''name'') (either (dget claims ''preferred_username'') (JStr (c # cs)));
             mail = either (dget claims ''email'') (dget claims ''preferred_username'')
         in Inr \<lparr>subject = c # cs, tenant_id = cfg_tenant_id s, user_name = text_of_json lib name,
              email = (case mail of JStr m \<Rightarrow> Some m | _ \<Rightarrow> None), roles = granted, auth_mode = Entra\<rparr>
     | _ \<Rightarrow> Inl unauthorized)"

text \<open>
  What the service reads of a request: whether the application runs in demo mode, the
  \<open>Authorization\<close> header (empty when absent) and the cookies.
\<close>

record auth_request =
  demo_app :: bool
  authorization :: string
  session_value :: "string option"
  flow_value :: "string option"

text \<open>The demo user; settings of the demo always have a role.\<close>

definition demo_user :: "auth_settings \<Rightarrow> authenticated_user" where
  "demo_user s = \<lparr>subject = text_or_empty (cfg_demo_id s), tenant_id = None,
     user_name = text_or_empty (cfg_demo_name s), email = cfg_demo_email s,
     roles = set_option (cfg_demo_role s), auth_mode = Demo\<rparr>"

definition is_bearer :: "string \<Rightarrow> bool" where
  "is_bearer header \<longleftrightarrow> startswith header ''Bearer '' \<and> length (filter (\<lambda>c. c = CHR '' '') header) = 1"

definition authenticate_request ::
    "auth_library \<Rightarrow> auth_settings \<Rightarrow> auth_request \<Rightarrow> authenticated_user auth_call" where
  "authenticate_request lib s req = (case cfg_mode s of
      DemoMode \<Rightarrow> if \<not> demo_app req then raiseW unauthorized else returnW (demo_user s)
    | DisabledMode \<Rightarrow> raiseW unauthorized
    | EntraMode \<Rightarrow>
        if is_bearer (authorization req) then
          bindW (verify_token lib s (drop 7 (authorization req)) (text_or_empty (cfg_api_client_id s)) None)
            (\<lambda>claims. liftW (user_from_claims lib s claims))
        else
          bindW (liftW (bindE (cookie_secret s) (unsign lib (session_value req)))) (\<lambda>claims.
          bindW (if number_of_json (dget claims ''expires_at'') = None then raiseW unauthorized
            else bindW time_now (\<lambda>t. whenW (number_passed (dget claims ''expires_at'') t) unauthorized)) (\<lambda>_.
          liftW (user_from_claims lib s claims))))"

definition session_cookie :: "auth_library \<Rightarrow> auth_settings \<Rightarrow> authenticated_user \<Rightarrow> rat \<Rightarrow> http_exn + string" where
  "session_cookie lib s user expires_at = bindE (cookie_secret s) (\<lambda>secret.
     Inr (sign lib (dset ''expires_at'' (JFloat (Finite expires_at)) (public_user user)) secret))"

section \<open>The login flow\<close>

definition challenge_of :: "auth_library \<Rightarrow> string \<Rightarrow> string" where
  "challenge_of lib verifier = b64url (sha256 lib (ascii verifier))"

definition optional_text :: "string option \<Rightarrow> string" where
  "optional_text v = (case v of Some s \<Rightarrow> s | None \<Rightarrow> ''None'')"

definition login_params :: "auth_library \<Rightarrow> auth_settings \<Rightarrow> string \<Rightarrow> string \<Rightarrow> string \<Rightarrow> string \<Rightarrow> (string \<times> string) list" where
  "login_params lib s redirect_uri state nonce verifier =
     [(''client_id'', optional_text (cfg_client_id s)), (''response_type'', ''code''), (''redirect_uri'', redirect_uri),
      (''response_mode'', ''query''), (''scope'', join '' '' (cfg_scopes s)), (''state'', state),
      (''nonce'', nonce), (''code_challenge'', challenge_of lib verifier), (''code_challenge_method'', ''S256'')]"

definition flow_payload :: "string \<Rightarrow> string \<Rightarrow> string \<Rightarrow> string \<Rightarrow> rat \<Rightarrow> dict" where
  "flow_payload state nonce verifier redirect_uri iat =
     [(''state'', JStr state), (''nonce'', JStr nonce), (''verifier'', JStr verifier),
      (''redirect_uri'', JStr redirect_uri), (''iat'', JFloat (Finite iat))]"

definition start_login :: "auth_library \<Rightarrow> auth_settings \<Rightarrow> string \<Rightarrow> (string \<times> string) auth_call" where
  "start_login lib s redirect_uri =
     bindW (whenW (cfg_mode s \<noteq> EntraMode \<or> redirect_uri \<notin> set (cfg_redirect_uris s)) unauthorized) (\<lambda>_.
     bindW (token_urlsafe 32) (\<lambda>state.
     bindW (token_urlsafe 32) (\<lambda>nonce.
     bindW (token_urlsafe 64) (\<lambda>verifier.
     bindW time_now (\<lambda>iat.
     bindW (liftW (cookie_secret s)) (\<lambda>secret.
     bindW (discovery s) (\<lambda>document.
     bindW (liftW (item_of document ''authorization_endpoint'')) (\<lambda>endpoint. case endpoint of
       JStr url \<Rightarrow> returnW (url @ ''?'' @ urlencode lib (login_params lib s redirect_uri state nonce verifier),
         sign lib (flow_payload state nonce verifier redirect_uri iat) secret)
     | _ \<Rightarrow> raiseW (OtherError ''TypeError'')))))))))"

text \<open>The fields of a login cookie with its time of issue; \<open>except (KeyError, TypeError, ValueError)\<close> is 401.\<close>

definition flow_fields :: "auth_library \<Rightarrow> dict \<Rightarrow> http_exn + (json \<times> json \<times> json \<times> json \<times> pyfloat)" where
  "flow_fields lib flow =
     bindE (check (list_all (dhas flow) [''state'', ''nonce'', ''verifier'', ''redirect_uri'', ''iat'']) unauthorized) (\<lambda>_.
     case py_float (float_text lib) (dget flow ''iat'') of
       Inl TooLarge \<Rightarrow> Inl (OtherError ''OverflowError'')
     | Inl _ \<Rightarrow> Inl unauthorized
     | Inr iat \<Rightarrow> Inr (dget flow ''state'', dget flow ''nonce'', dget flow ''verifier'', dget flow ''redirect_uri'', iat))"

text \<open>\<open>t - x > 600\<close> for the time of issue \<open>x\<close>.\<close>

definition too_old :: "pyfloat \<Rightarrow> rat \<Rightarrow> bool" where
  "too_old x t = (case x of Finite r \<Rightarrow> 600 < t - r | NegInf \<Rightarrow> True | _ \<Rightarrow> False)"

definition check_flow ::
    "auth_settings \<Rightarrow> string \<Rightarrow> json \<times> json \<times> json \<times> json \<times> pyfloat \<Rightarrow> (string \<times> string \<times> string) auth_call" where
  "check_flow s state flow = (case flow of
      (JStr flow_state, JStr nonce, JStr verifier, JStr redirect_uri, iat) \<Rightarrow>
        bindW (whenW (redirect_uri \<notin> set (cfg_redirect_uris s)) unauthorized) (\<lambda>_.
        bindW (whenW (\<not> (is_ascii flow_state \<and> is_ascii state)) (OtherError ''TypeError'')) (\<lambda>_.
        bindW (whenW (flow_state \<noteq> state) unauthorized) (\<lambda>_.
        bindW time_now (\<lambda>t. bindW (whenW (fl_above iat t) unauthorized) (\<lambda>_.
        bindW time_now (\<lambda>t. bindW (whenW (too_old iat t) unauthorized) (\<lambda>_.
        returnW (nonce, verifier, redirect_uri))))))))
    | _ \<Rightarrow> raiseW unauthorized)"

definition login_state :: "auth_library \<Rightarrow> auth_settings \<Rightarrow> string \<Rightarrow> string option
    \<Rightarrow> (string \<times> string \<times> string) auth_call" where
  "login_state lib s state state_cookie =
     (case bindE (cookie_secret s) (unsign lib state_cookie) of
        Inl e \<Rightarrow> raiseW (if e = ValueError then unauthorized else e)
      | Inr flow \<Rightarrow> bindW (liftW (flow_fields lib flow)) (check_flow s state))"

definition token_request :: "auth_settings \<Rightarrow> string \<Rightarrow> string \<Rightarrow> string \<Rightarrow> (string \<times> json) list" where
  "token_request s code redirect_uri verifier =
     [(''client_id'', opt_str (cfg_client_id s)), (''client_secret'', opt_str (cfg_client_secret s)),
      (''grant_type'', JStr ''authorization_code''), (''code'', JStr code), (''redirect_uri'', JStr redirect_uri),
      (''code_verifier'', JStr verifier)]"

text \<open>The exchange of the code for an identity token; what is missing or malformed is 401.\<close>

definition exchange_code :: "auth_settings \<Rightarrow> string \<Rightarrow> string \<Rightarrow> string \<Rightarrow> json auth_call" where
  "exchange_code s code redirect_uri verifier =
     bindW (catchW (discovery s) (\<lambda>e. raiseW (if e = ValueError then unauthorized else e))) (\<lambda>document.
     bindW (liftW (check (dhas document ''token_endpoint'') unauthorized)) (\<lambda>_.
     bindW (http_call (\<lambda>url. Post url (token_request s code redirect_uri verifier)) (dget document ''token_endpoint'')) (\<lambda>a.
     case a of
       Document (JObj d) \<Rightarrow> if dhas d ''id_token'' then returnW (dget d ''id_token'') else raiseW unauthorized
     | _ \<Rightarrow> raiseW unauthorized)))"

definition complete_login ::
    "auth_library \<Rightarrow> auth_settings \<Rightarrow> string \<Rightarrow> string \<Rightarrow> string option \<Rightarrow> authenticated_user auth_call" where
  "complete_login lib s code state state_cookie =
     bindW (whenW (cfg_mode s \<noteq> EntraMode) unauthorized) (\<lambda>_.
     bindW (login_state lib s state state_cookie) (\<lambda>(nonce, verifier, redirect_uri).
     bindW (exchange_code s code redirect_uri verifier) (\<lambda>v. case v of
       JStr id_token \<Rightarrow>
         bindW (verify_token lib s id_token (text_or_empty (cfg_client_id s)) (Some nonce))
           (\<lambda>claims. liftW (user_from_claims lib s claims))
     | _ \<Rightarrow> raiseW (OtherError ''AttributeError''))))"

section \<open>Routes\<close>

text \<open>
  \<open>app/api/routes/auth.py\<close>. A response: its status, where it redirects, its body, the cookies it
  sets (name, value, age, path, secure) and those it deletes.
\<close>

record web_response =
  web_status :: nat
  web_location :: "string option"
  web_body :: json
  set_cookies :: "(string \<times> string \<times> nat \<times> string \<times> bool) list"
  deleted_cookies :: "(string \<times> string) list"

definition redirect_to :: "string \<Rightarrow> web_response" where
  "redirect_to url = \<lparr>web_status = 302, web_location = Some url, web_body = JNull, set_cookies = [],
     deleted_cookies = []\<rparr>"

definition secure_cookie :: "string \<Rightarrow> bool" where
  "secure_cookie hostname \<longleftrightarrow> hostname \<notin> set localhost_names"

text \<open>
  \<open>AuthenticationService.from_request\<close> reads the settings, which may raise a \<open>ValueError\<close>, and
  \<open>current_user\<close> makes that and every other \<open>ValueError\<close> a 401.
\<close>

definition service_settings :: "environ \<Rightarrow> http_exn + auth_settings" where
  "service_settings env = (case load_auth_settings env of Inl _ \<Rightarrow> Inl ValueError | Inr s \<Rightarrow> Inr s)"

definition request_user :: "auth_library \<Rightarrow> environ \<Rightarrow> auth_request \<Rightarrow> authenticated_user auth_call" where
  "request_user lib env req w =
     (case bindW (liftW (service_settings env)) (\<lambda>s. authenticate_request lib s req) w of
        (r, w') \<Rightarrow> (current_user r, w'))"

definition route_session :: "auth_library \<Rightarrow> environ \<Rightarrow> auth_request \<Rightarrow> dict auth_call" where
  "route_session lib env req = catchW (bindW (request_user lib env req) (\<lambda>u. returnW [(''user'', JObj (public_user u))]))
     (\<lambda>e. if e = unauthorized then returnW [(''user'', JNull)] else raiseW e)"

definition route_login :: "auth_library \<Rightarrow> environ \<Rightarrow> string \<Rightarrow> string \<Rightarrow> web_response auth_call" where
  "route_login lib env hostname redirect_uri =
     bindW (liftW (service_settings env)) (\<lambda>s.
     bindW (start_login lib s redirect_uri) (\<lambda>(url, cookie).
     returnW ((redirect_to url)\<lparr>set_cookies := [(''gateway_oidc_flow'', cookie, 600, ''/api/v1'', secure_cookie hostname)]\<rparr>)))"

definition route_callback ::
    "auth_library \<Rightarrow> environ \<Rightarrow> string \<Rightarrow> string \<Rightarrow> string \<Rightarrow> auth_request \<Rightarrow> web_response auth_call" where
  "route_callback lib env hostname code state req =
     bindW (liftW (service_settings env)) (\<lambda>s.
     bindW (complete_login lib s code state (flow_value req)) (\<lambda>user.
     bindW time_now (\<lambda>t.
     bindW (liftW (session_cookie lib s user (t + 3600))) (\<lambda>cookie.
     returnW ((redirect_to ''/ui'')\<lparr>set_cookies := [(''gateway_session'', cookie, 3600, ''/'', secure_cookie hostname)],
       deleted_cookies := [(''gateway_oidc_flow'', ''/api/v1'')]\<rparr>)))))"

definition route_logout :: "environ \<Rightarrow> http_exn + web_response" where
  "route_logout env = bindE (service_settings env) (\<lambda>s.
     Inr (case cfg_post_logout s of
       Some url \<Rightarrow> if cfg_mode s = EntraMode \<and> url \<noteq> []
           then (redirect_to url)\<lparr>deleted_cookies := [(''gateway_session'', ''/'')]\<rparr>
           else \<lparr>web_status = 200, web_location = None, web_body = JObj [(''detail'', JStr ''Signed out.'')], set_cookies = [],
             deleted_cookies = [(''gateway_session'', ''/'')]\<rparr>
     | None \<Rightarrow> \<lparr>web_status = 200, web_location = None, web_body = JObj [(''detail'', JStr ''Signed out.'')], set_cookies = [],
         deleted_cookies = [(''gateway_session'', ''/'')]\<rparr>))"

end
