(* ===== verification/AuthLaws.thy ===== *)
theory AuthLaws
  imports Auth Instance
begin

text \<open>
  What sign-in guarantees: signed cookies read back and nothing else is accepted as one, a token
  counts only with the signature of a key of the provider, a login is completed only with its own
  state and in time, cached documents are valid and expire, and (against the intention) no browser
  session is ever accepted.
\<close>

section \<open>Signed values\<close>

text \<open>
  What the libraries promise: the JSON text of a dictionary is not empty and reads back with the
  same items (in sorted order), and a message authentication code is not empty.
\<close>

definition library_laws :: "auth_library \<Rightarrow> bool" where
  "library_laws lib \<longleftrightarrow>
     (\<forall>d. wf_dict d \<longrightarrow> json_dumps lib d \<noteq> [] \<and>
        (\<exists>d'. json_loads lib (json_dumps lib d) = Some (JObj d') \<and> map_of d' = map_of d))
     \<and> (\<forall>k m. hmac lib k m \<noteq> [])"

lemma b64url_ascii: "is_ascii (b64url bs)"
proof -
  have "ord_of (sextet_char True n) < 128" if "n < 64" for n
    using that by (auto simp: sextet_char_def ord_of_def)
  then show ?thesis using b64url_chars by (fastforce simp: is_ascii_def list_all_iff)
qed

lemma unsign_sign:
  assumes "library_laws lib" and "wf_dict d"
  obtains d' where "unsign lib (Some (sign lib d secret)) secret = Inr d'" and "map_of d' = map_of d"
proof -
  let ?e = "b64url (json_dumps lib d)"
  obtain d' where l: "json_loads lib (json_dumps lib d) = Some (JObj d')" and m: "map_of d' = map_of d"
    and n: "json_dumps lib d \<noteq> []" using assms by (auto simp: library_laws_def)
  have h: "hmac lib (utf8 secret) (ascii ?e) \<noteq> []" using assms(1) by (simp add: library_laws_def)
  have "rsplit1 (CHR ''.'') (sign lib d secret) = Some (?e, b64url (hmac lib (utf8 secret) (ascii ?e)))"
    using rsplit1_append [OF b64url_no_dot] by (simp add: sign_def Let_def)
  then have "unsign lib (Some (sign lib d secret)) secret = Inr d'"
    using l decode_b64url_encode [OF h] decode_b64url_encode [OF n] b64url_ascii
    by (simp add: unsign_def json_segment_def)
  then show thesis using m by (rule that)
qed

text \<open>What is accepted as signed carries the code of its own text under the secret.\<close>

definition signed_by :: "auth_library \<Rightarrow> string \<Rightarrow> string \<Rightarrow> dict \<Rightarrow> bool" where
  "signed_by lib secret v d \<longleftrightarrow> (\<exists>encoded signature. v = encoded @ ''.'' @ signature
     \<and> decode_b64url signature = Some (hmac lib (utf8 secret) (ascii encoded))
     \<and> json_segment lib encoded = Inr d)"

lemma unsign_signed:
  assumes "unsign lib v secret = Inr d"
  obtains s where "v = Some s" and "signed_by lib secret s d"
  using assms
  by (auto simp: unsign_def signed_by_def result_simps split: option.splits prod.splits if_splits
      dest!: rsplit1_Some)

section \<open>Browser sessions\<close>

lemma token_roles_names: "token_roles (map JStr (map role_name rs)) = Inr (set rs)"
  by (induction rs) simp_all

lemma no_user_without_id:
  assumes "dget claims ''roles'' = JList (map JStr (sorted_role_names R))"
    and "\<not> truthy (dget claims ''oid'')" and "\<not> truthy (dget claims ''sub'')"
  shows "user_from_claims lib s claims = Inl unauthorized"
proof -
  obtain rs where rs: "sorted_role_names R = map role_name rs" by (simp add: sorted_role_names_def)
  have "either (dget claims ''oid'') (dget claims ''sub'') = dget claims ''sub''"
    using assms(2) by (simp add: either_def)
  moreover have "dget claims ''sub'' \<noteq> JStr (c # cs)" for c cs using assms(3) by auto
  ultimately show ?thesis
    using assms(1) token_roles_names [of rs]
    by (cases rs) (auto simp: user_from_claims_def rs bindE_def split: json.splits list.splits sum.splits)
qed

lemma time_now_frame:
  obtains t v where "time_now w = (Inr t, v)" and "wall_now v = t" and "auth_cache v = auth_cache w"
    and "tick_now v = tick_now w"
  by (cases "wall w") (simp_all add: time_now_def)

lemma session_cookie_refused:
  assumes "library_laws lib" and "session_cookie lib s user t = Inr cookie"
    and "session_value req = Some cookie" and "\<not> is_bearer (authorization req)"
  shows "fst (authenticate_request lib s req w) = Inl unauthorized"
proof -
  let ?p = "dset ''expires_at'' (JFloat (Finite t)) (public_user user)"
  from assms(2) obtain secret where k: "cookie_secret s = Inr secret" and c: "cookie = sign lib ?p secret"
    by (auto simp: session_cookie_def result_simps)
  have "wf_dict ?p" by (intro wf_dset) (simp add: public_user_def wf_dict_def)
  with assms(1) obtain d where u: "unsign lib (Some cookie) secret = Inr d" and m: "map_of d = map_of ?p"
    unfolding c by (rule unsign_sign)
  have mode: "cfg_mode s = EntraMode" using k by (auto simp: cookie_secret_def split: option.splits if_splits)
  have e: "dget d ''expires_at'' = JFloat (Finite t)" and r: "dget d ''roles'' = JList (map JStr (sorted_role_names (roles user)))"
    and i: "dget d ''oid'' = JNull" "dget d ''sub'' = JNull"
    by (simp_all add: dget_def m map_of_dset public_user_def)
  have "user_from_claims lib s d = Inl unauthorized" using r i by (intro no_user_without_id) auto
  moreover obtain t' v where "time_now w = (Inr t', v)" by (rule time_now_frame)
  ultimately show ?thesis
    using mode k u e assms(3,4)
    by (auto simp: authenticate_request_def bindW_def number_of_json_def whenW_def)
qed

text \<open>
  C22. The session cookie the callback sets after a successful login is
  never accepted: the cookie holds the public view of the user, which has neither of the claims
  the session is read from, so with it \<open>/session\<close> answers that nobody is signed in, whenever it is
  asked. (The intention is the opposite: the cookie is set so that the browser is signed in.)
\<close>

theorem browser_sessions_are_refused:
  assumes "library_laws lib" and "service_settings env = Inr s"
    and "route_callback lib env hostname code state req w = (Inr response, w')"
    and "(''gateway_session'', cookie, age, path, secure) \<in> set (set_cookies response)"
    and "session_value later = Some cookie" and "\<not> is_bearer (authorization later)"
  shows "fst (route_session lib env later w2) = Inr [(''user'', JNull)]"
proof -
  obtain user t where "session_cookie lib s user t = Inr cookie"
    using assms(2-4) by (auto simp: route_callback_def redirect_to_def elim!: bindW_InrE)
  then have "fst (authenticate_request lib s later w2) = Inl unauthorized"
    using assms(1,5,6) by (intro session_cookie_refused)
  then show ?thesis using assms(2)
    by (cases "authenticate_request lib s later w2")
      (simp add: route_session_def request_user_def bindW_def catchW_def current_user_def unauthorized_def)
qed

section \<open>Cached documents\<close>

text \<open>
  A document in the cache is one the service may use, and is there for at most an hour.
\<close>

definition cache_valid :: "auth_world \<Rightarrow> bool" where
  "cache_valid w \<longleftrightarrow> (\<forall>key until d. auth_cache w key = Some (until, d) \<longrightarrow>
     until \<le> tick_now w + 3600 \<and> (case key of
       DiscoveryOf tenant \<Rightarrow> discovery_valid d | JwksOf uri \<Rightarrow> is_list (dget d ''keys'')))"

lemma tick_frame:
  obtains t v where "tick w = (Inr t, v)" and "tick_now v = t" and "tick_now w \<le> t"
    and "auth_cache v = auth_cache w"
  by (cases "ticks w") (simp_all add: tick_def)

lemma plain_calls:
  "keeps cache_valid time_now" "keeps cache_valid (token_urlsafe n)" "keeps cache_valid (http_call r url)"
proof -
  show "keeps cache_valid time_now"
  proof (rule keepsI)
    fix w r w' assume "cache_valid w" and "time_now w = (r, w')"
    then show "cache_valid w'" by (cases rule: time_now_frame [of w]) (simp add: cache_valid_def)
  qed
  show "keeps cache_valid (token_urlsafe n)" "keeps cache_valid (http_call r url)"
    by (auto simp: keeps_def cache_valid_def token_urlsafe_def http_call_def split: if_splits list.splits)
qed

lemma tick_valid: "keeps cache_valid tick"
proof (rule keepsI)
  fix w r w' assume v: "cache_valid w" and t: "tick w = (r, w')"
  then show "cache_valid w'"
    by (cases rule: tick_frame [of w]) (fastforce simp: cache_valid_def)
qed

lemma cached_valid: "keeps cache_valid (cached key)"
proof (rule keepsI)
  fix w r w' assume v: "cache_valid w" and c: "cached key w = (r, w')"
  have k: "keeps cache_valid (bindW tick (\<lambda>t. returnW (if t < until then Some d else None)))" for until d
    by (intro keeps_rules tick_valid)
  show "cache_valid w'"
    using c v by (auto simp: cached_def split: option.splits prod.splits intro: keepsD [OF k v])
qed

lemma remember_valid:
  assumes "case key of DiscoveryOf tenant \<Rightarrow> discovery_valid d | JwksOf uri \<Rightarrow> is_list (dget d ''keys'')"
  shows "keeps cache_valid (remember key 3600 d)"
proof (rule keepsI)
  fix w r w' assume v: "cache_valid w" and c: "remember key 3600 d w = (r, w')"
  obtain t v1 where t: "tick w = (Inr t, v1)" "tick_now v1 = t" by (rule tick_frame)
  then have w': "w' = v1\<lparr>auth_cache := (auth_cache v1)(key \<mapsto> (t + 3600, d))\<rparr>"
    using c by (simp add: remember_def bindW_def)
  show "cache_valid w'" using keepsD [OF tick_valid v t(1)] assms t(2)
    by (auto simp: w' cache_valid_def)
qed

lemma fetch_valid:
  assumes "\<And>d. valid d \<Longrightarrow> case key of DiscoveryOf tenant \<Rightarrow> discovery_valid d | JwksOf uri \<Rightarrow> is_list (dget d ''keys'')"
  shows "keeps cache_valid (fetch_document key url 3600 valid)"
  unfolding fetch_document_def
  by (intro keeps_bindW cached_valid) (auto split: option.splits http_answer.splits json.splits
      intro!: keeps_rules plain_calls remember_valid assms)

lemma provider_calls [keeps_rules]:
  "keeps cache_valid (discovery s)" "keeps cache_valid (jwks uri)"
  by (auto simp: discovery_def jwks_def split: option.splits intro!: keeps_rules fetch_valid)

lemmas auth_calls = plain_calls tick_valid provider_calls

lemma verify_token_valid: "keeps cache_valid (verify_token lib s token audience nonce)"
  unfolding verify_token_def Let_def by (intro keeps_rules auth_calls)

lemma session_checks_valid:
  "keeps cache_valid (if c then raiseW unauthorized else bindW time_now (\<lambda>t. whenW (b t) unauthorized))"
  by (intro keeps_rules auth_calls)

lemma authenticate_valid: "keeps cache_valid (authenticate_request lib s req)"
  unfolding authenticate_request_def
  by (cases "cfg_mode s"; simp only: settings_mode.case) (intro keeps_rules auth_calls verify_token_valid)+

lemma start_login_valid: "keeps cache_valid (start_login lib s uri)"
proof -
  have "keeps cache_valid (case endpoint of JStr url \<Rightarrow> returnW (f url) | _ \<Rightarrow> raiseW e)" for endpoint f e
    by (cases endpoint; simp only: json.case) (intro keeps_rules)+
  then show ?thesis unfolding start_login_def by (intro keeps_rules auth_calls)
qed

lemma login_state_valid: "keeps cache_valid (login_state lib s state c)"
proof -
  have "keeps cache_valid (check_flow s state flow)" for flow
    unfolding check_flow_def
    by (auto split: prod.splits json.splits simp del: io_simps intro!: keeps_rules auth_calls)
  then show ?thesis unfolding login_state_def
    by (auto split: sum.splits simp del: io_simps intro!: keeps_rules auth_calls)
qed

lemma exchange_valid: "keeps cache_valid (exchange_code s code uri verifier)"
proof -
  have "keeps cache_valid (case a of Document (JObj d) \<Rightarrow> (if dhas d k then returnW (dget d k) else raiseW e) | _ \<Rightarrow> raiseW e)"
    for a k e
    by (auto split: http_answer.splits json.splits simp del: io_simps intro!: keeps_rules)
  then show ?thesis unfolding exchange_code_def by (intro keeps_rules auth_calls)
qed

lemma complete_login_valid: "keeps cache_valid (complete_login lib s code state c)"
proof -
  have k: "keeps cache_valid (case v of JStr t \<Rightarrow> bindW (verify_token lib s t audience n) f | _ \<Rightarrow> raiseW e)"
    if "\<And>x. keeps cache_valid (f x)" for v audience n f e
    using that by (auto split: json.splits simp del: io_simps intro!: keeps_rules verify_token_valid)
  then show ?thesis unfolding complete_login_def
    by (auto split: prod.splits simp del: io_simps intro!: keeps_rules login_state_valid exchange_valid k)
qed

text \<open>Everything the application asks of the service, in any order.\<close>

datatype auth_command =
    Authenticate auth_request
  | StartLogin string
  | CompleteLogin string string "string option"

primrec run_auth_command :: "auth_library \<Rightarrow> auth_settings \<Rightarrow> auth_command \<Rightarrow> auth_world \<Rightarrow> auth_world" where
  "run_auth_command lib s (Authenticate req) w = snd (authenticate_request lib s req w)"
| "run_auth_command lib s (StartLogin uri) w = snd (start_login lib s uri w)"
| "run_auth_command lib s (CompleteLogin code state c) w = snd (complete_login lib s code state c w)"

definition run_auth :: "auth_library \<Rightarrow> auth_settings \<Rightarrow> auth_command list \<Rightarrow> auth_world \<Rightarrow> auth_world" where
  "run_auth lib s cmds w = fold (run_auth_command lib s) cmds w"

lemma keeps_snd: "keeps P m \<Longrightarrow> P w \<Longrightarrow> P (snd (m w))"
  by (cases "m w") (auto dest: keepsD)

lemma run_auth_valid: "cache_valid w \<Longrightarrow> cache_valid (run_auth lib s cmds w)"
proof (induction cmds arbitrary: w)
  case Nil
  then show ?case by (simp add: run_auth_def)
next
  case (Cons c cmds)
  have "cache_valid (run_auth_command lib s c w)"
    using Cons.prems by (cases c) (simp_all add: keeps_snd authenticate_valid start_login_valid complete_login_valid)
  from Cons.IH [OF this] show ?case by (simp add: run_auth_def)
qed

text \<open>A served document: in the cache afterwards, and asked for unless it was there in time.\<close>

lemma fetch_document_Inr:
  assumes "fetch_document key url ttl valid w = (Inr d, w')"
  shows "(\<exists>until. auth_cache w' key = Some (until, d) \<and> (asked w' = asked w \<longrightarrow> auth_cache w key = Some (until, d) \<and> tick_now w' < until))
    \<and> (\<forall>k. k \<noteq> key \<longrightarrow> auth_cache w' k = auth_cache w k)"
proof -
  obtain hit v where c: "cached key w = (Inr hit, v)"
    and r: "(case hit of Some d \<Rightarrow> returnW d | None \<Rightarrow> bindW (http_call Get url) (\<lambda>a. case a of
        Document (JObj d) \<Rightarrow> if valid d then remember key ttl d else raiseW unauthorized
      | _ \<Rightarrow> raiseW unauthorized)) v = (Inr d, w')"
    using assms unfolding fetch_document_def by (rule bindW_InrE)
  have same: "auth_cache v = auth_cache w \<and> asked v = asked w"
    using c by (auto simp: cached_def bindW_def tick_def split: option.splits list.splits)
  show ?thesis
  proof (cases hit)
    case (Some d')
    then have "w' = v" and "d' = d" using r by auto
    then show ?thesis using c Some same
      by (auto simp: cached_def bindW_def tick_def split: option.splits list.splits if_splits)
  next
    case None
    then obtain a v1 where h: "http_call Get url v = (Inr a, v1)"
      and k: "a = Document (JObj d)" "remember key ttl d v1 = (Inr d, w')"
      using r by (auto elim!: bindW_InrE split: http_answer.splits json.splits if_splits
          simp: remember_def bindW_def split: prod.splits sum.splits)
    obtain t v2 where t: "tick v1 = (Inr t, v2)" "auth_cache v2 = auth_cache v1" by (rule tick_frame)
    have "auth_cache v1 = auth_cache v" and "asked v1 \<noteq> asked v"
      using h k(1) by (auto simp: http_call_def split: if_splits list.splits)
    moreover have "asked w' = asked v1" and "auth_cache w' = (auth_cache v2)(key \<mapsto> (t + ttl, d))"
      using k(2) t by (auto simp: remember_def bindW_def tick_def split: list.splits)
    ultimately show ?thesis using same t by auto
  qed
qed

text \<open>
  However the service is used, its cache holds only documents it can
  work with, none for longer than an hour; and a discovery document is served without asking the
  provider only from the cache and before its time has passed.
\<close>

theorem cached_documents_expire:
  assumes "auth_cache w = Map.empty" and "cfg_tenant_id s = Some tenant"
  shows "cache_valid (run_auth lib s cmds w)
    \<and> (discovery s (run_auth lib s cmds w) = (Inr d, v') \<longrightarrow> discovery_valid d
      \<and> (asked v' = asked (run_auth lib s cmds w) \<longrightarrow>
         (\<exists>until. auth_cache (run_auth lib s cmds w) (DiscoveryOf tenant) = Some (until, d) \<and> tick_now v' < until)))"
proof -
  let ?v = "run_auth lib s cmds w"
  have v: "cache_valid ?v" using assms(1) by (intro run_auth_valid) (simp add: cache_valid_def)
  moreover have "discovery_valid d \<and> (asked v' = asked ?v \<longrightarrow>
      (\<exists>until. auth_cache ?v (DiscoveryOf tenant) = Some (until, d) \<and> tick_now v' < until))"
    if "discovery s ?v = (Inr d, v')"
  proof -
    have f: "fetch_document (DiscoveryOf tenant) (JStr (discovery_url tenant)) 3600 discovery_valid ?v = (Inr d, v')"
      using that assms(2) by (auto simp: discovery_def split: if_splits)
    have "cache_valid v'" using keepsD [OF provider_calls(1) v that] .
    then show ?thesis using fetch_document_Inr [OF f] by (fastforce simp: cache_valid_def)
  qed
  ultimately show ?thesis by blast
qed

section \<open>Tokens and users\<close>

lemma token_roles_some: "token_roles (v # vs) = Inr rs \<Longrightarrow> rs \<noteq> {}"
  by (cases v) (auto simp: result_simps split: option.splits if_splits)

lemma user_from_claims_roles:
  assumes "user_from_claims lib s claims = Inr u"
  shows "roles u \<noteq> {}"
proof -
  let ?id = "either (dget claims ''oid'') (dget claims ''sub'')"
  obtain granted where g: "(case dget claims ''roles'' of JList (r # rs) \<Rightarrow> token_roles (r # rs) | _ \<Rightarrow> Inl unauthorized)
      = Inr granted"
    and r: "?id = JStr (c # cs) \<Longrightarrow> roles u = granted" and i: "\<exists>c cs. ?id = JStr (c # cs)" for c cs
    using assms unfolding user_from_claims_def
    by (rule bindE_InrE) (cases ?id; force simp: Let_def split: list.splits)
  have "granted \<noteq> {}" using g by (auto split: json.splits list.splits simp del: token_roles.simps dest: token_roles_some)
  then show ?thesis using r i by metis
qed

text \<open>
  A token vouched for by the provider: its signature verifies under an RSA key, with the identifier
  its header names, of the key document that the cached discovery document points to.
\<close>

definition vouched :: "auth_library \<Rightarrow> auth_world \<Rightarrow> string \<Rightarrow> string \<Rightarrow> dict \<Rightarrow> bool" where
  "vouched lib w tenant token claims \<longleftrightarrow> (\<exists>h p sig kid u document u' keys key e n signature.
     token = h @ ''.'' @ p @ ''.'' @ sig \<and> token_key_id lib h = Inr kid
     \<and> auth_cache w (DiscoveryOf tenant) = Some (u, document)
     \<and> auth_cache w (JwksOf (dget document ''jwks_uri'')) = Some (u', keys)
     \<and> JObj key \<in> set (list_of (dget keys ''keys'')) \<and> dget key ''kid'' = JStr kid \<and> dget key ''kty'' = JStr ''RSA''
     \<and> decode_any (dget key ''e'') = Inr e \<and> decode_any (dget key ''n'') = Inr n
     \<and> decode_b64url sig = Some signature
     \<and> rsa_verifies lib e n signature (ascii (h @ ''.'' @ p)) \<and> json_segment lib p = Inr claims)"

lemma select_key_Inr: "select_key kid vs = Inr key \<Longrightarrow>
    JObj key \<in> set vs \<and> dget key ''kid'' = JStr kid \<and> dget key ''kty'' = JStr ''RSA''"
  by (induction kid vs rule: select_key.induct) (auto split: if_splits)

lemma three_parts:
  assumes "split_on c s = ps" and "length ps = 3"
  shows "s = ps ! 0 @ [c] @ ps ! 1 @ [c] @ ps ! 2"
proof -
  obtain h p q where "ps = [h, p, q]" using assms(2) by (auto simp: numeral_3_eq_3 length_Suc_conv)
  then show ?thesis using join_split_on [of c s] assms(1) by simp
qed

lemma check_signature_Inr:
  assumes "check_signature lib parts kid keys = Inr claims"
  obtains key e n signature where "JObj key \<in> set keys" and "dget key ''kid'' = JStr kid" and "dget key ''kty'' = JStr ''RSA''"
    and "decode_any (dget key ''e'') = Inr e" and "decode_any (dget key ''n'') = Inr n"
    and "decode_b64url (parts ! 2) = Some signature"
    and "rsa_verifies lib e n signature (ascii (parts ! 0 @ ''.'' @ parts ! 1))"
    and "json_segment lib (parts ! 1) = Inr claims"
  using assms
  by (auto simp: check_signature_def item_of_def decode_any_def result_simps split: if_splits option.splits
      dest!: select_key_Inr)

lemma verify_token_Inr:
  assumes "verify_token lib s token audience nonce w = (Inr claims, w')"
  shows "\<exists>tenant. cfg_tenant_id s = Some tenant \<and> vouched lib w' tenant token claims
    \<and> claims_accepted tenant audience nonce claims (wall_now w')"
proof -
  let ?p = "split_on (CHR ''.'') token"
  obtain w1 v where len: "length ?p = 3"
    and c: "catchW (bindW (liftW (token_key_id lib (?p ! 0))) (\<lambda>kid. bindW (discovery s) (\<lambda>document.
           bindW (liftW (item_of document ''jwks_uri'')) (\<lambda>uri. bindW (jwks uri) (\<lambda>keys.
           liftW (check_signature lib ?p kid (list_of (dget keys ''keys''))))))))
          (\<lambda>e. raiseW (token_failed e)) w = (Inr claims, v)"
    and a: "bindW time_now (\<lambda>t. if claims_accepted (text_or_empty (cfg_tenant_id s)) audience nonce claims t
      then returnW claims else raiseW unauthorized) v = (Inr claims, w')"
    using assms unfolding verify_token_def Let_def
    by (auto elim!: bindW_InrE simp: whenW_Inr bindW_def split: prod.splits sum.splits if_splits)
  obtain kid document uri keys v1 v2 where k: "token_key_id lib (?p ! 0) = Inr kid"
    and d: "discovery s w = (Inr document, v1)" and u: "uri = dget document ''jwks_uri''"
    and j: "jwks uri v1 = (Inr keys, v)" and g: "check_signature lib ?p kid (list_of (dget keys ''keys'')) = Inr claims"
    using c by (auto elim!: catchW_cases bindW_InrE simp: item_of_def split: if_splits)
  obtain tenant where t: "cfg_tenant_id s = Some tenant"
    and f: "fetch_document (DiscoveryOf tenant) (JStr (discovery_url tenant)) 3600 discovery_valid w = (Inr document, v1)"
    using d by (auto simp: discovery_def split: option.splits if_splits)
  obtain l where cd: "auth_cache v (DiscoveryOf tenant) = Some (l, document)"
    using fetch_document_Inr [OF f] fetch_document_Inr [OF j [unfolded jwks_def]] by auto
  obtain l' where cj: "auth_cache v (JwksOf uri) = Some (l', keys)"
    using fetch_document_Inr [OF j [unfolded jwks_def]] by auto
  obtain t' where n: "auth_cache w' = auth_cache v" "wall_now w' = t'"
    and ok: "claims_accepted tenant audience nonce claims t'"
    using a t by (cases rule: time_now_frame [of v]) (auto simp: bindW_def text_or_empty_def split: if_splits)
  have "vouched lib w' tenant token claims"
    using check_signature_Inr [OF g] three_parts [OF refl len] k cd cj n(1)
    unfolding vouched_def u by (metis append_Cons append_Nil)
  then show ?thesis using t ok n(2) by blast
qed

text \<open>
  What a token in force is, read off the claims themselves: the issuer of the tenant, the tenant, the
  audience, alone or in a list, an expiry that is a number ahead of the time, and no start ahead of
  it. A boolean counts as a number, and a NaN is on neither side of any time.
\<close>

definition ahead :: "json \<Rightarrow> rat \<Rightarrow> bool" where
  "ahead v t = (case v of
      JInt i \<Rightarrow> t < of_int i
    | JBool b \<Rightarrow> t < of_bool b
    | JFloat x \<Rightarrow> (case x of Finite r \<Rightarrow> t < r | PosInf \<Rightarrow> True | NegInf \<Rightarrow> False | NaN \<Rightarrow> True)
    | _ \<Rightarrow> False)"

definition begun :: "json \<Rightarrow> rat \<Rightarrow> bool" where
  "begun v t = (case v of
      JInt i \<Rightarrow> of_int i \<le> t
    | JBool b \<Rightarrow> of_bool b \<le> t
    | JFloat x \<Rightarrow> (case x of Finite r \<Rightarrow> r \<le> t | PosInf \<Rightarrow> False | NegInf \<Rightarrow> True | NaN \<Rightarrow> True)
    | _ \<Rightarrow> True)"

definition in_force :: "string \<Rightarrow> string \<Rightarrow> dict \<Rightarrow> rat \<Rightarrow> bool" where
  "in_force tenant audience claims t \<longleftrightarrow>
     dget claims ''iss'' = JStr (''https://login.microsoftonline.com/'' @ tenant @ ''/v2.0'')
     \<and> dget claims ''tid'' = JStr tenant
     \<and> (dget claims ''aud'' = JStr audience \<or> (\<exists>vs. dget claims ''aud'' = JList vs \<and> JStr audience \<in> set vs))
     \<and> ahead (dget claims ''exp'') t \<and> begun (dget claims ''nbf'') t"

lemma not_passed_ahead: "\<not> number_passed v t \<Longrightarrow> ahead v t"
  by (auto simp: number_passed_def number_of_json_def ahead_def fl_le_def split: json.splits pyfloat.splits)

lemma claims_accepted_in_force: "claims_accepted tenant audience nonce claims t \<Longrightarrow> in_force tenant audience claims t"
  by (auto simp: claims_accepted_def in_force_def issuer_of_def audience_matches_def begun_def number_of_json_def
      fl_above_def split: json.splits pyfloat.splits intro: not_passed_ahead)

lemma claims_accepted_nonce: "claims_accepted tenant audience (Some n) claims t \<Longrightarrow> dget claims ''nonce'' = JStr n"
  by (simp add: claims_accepted_def)

text \<open>
  C10. A request is given a user only in one of three ways: in the demo the configured one, and
  otherwise one whose roles (at least one) and identity are the claims of a bearer token vouched for
  by the provider, whose issuer and tenant are the configured ones, whose audience is this API, whose
  expiry is ahead and whose start is not; or of a cookie that carries the code of its own text under
  the client secret and whose expiry is ahead.
\<close>

theorem only_verified_users_enter:
  assumes "authenticate_request lib s req w = (Inr u, w')"
  shows "cfg_mode s = DemoMode \<and> demo_app req \<and> u = demo_user s
    \<or> cfg_mode s = EntraMode \<and> (\<exists>claims. user_from_claims lib s claims = Inr u \<and> roles u \<noteq> {} \<and>
        ((\<exists>tenant token. authorization req = ''Bearer '' @ token \<and> cfg_tenant_id s = Some tenant
            \<and> vouched lib w' tenant token claims
            \<and> in_force tenant (text_or_empty (cfg_api_client_id s)) claims (wall_now w'))
         \<or> (\<exists>secret cookie. cfg_client_secret s = Some secret \<and> secret \<noteq> [] \<and> session_value req = Some cookie
            \<and> signed_by lib secret cookie claims \<and> ahead (dget claims ''expires_at'') (wall_now w'))))"
proof (cases "cfg_mode s")
  case DemoMode
  then show ?thesis using assms by (auto simp: authenticate_request_def split: if_splits)
next
  case DisabledMode
  then show ?thesis using assms by (auto simp: authenticate_request_def)
next
  case EntraMode
  show ?thesis
  proof (cases "is_bearer (authorization req)")
    case True
    then obtain claims where
      v: "verify_token lib s (drop 7 (authorization req)) (text_or_empty (cfg_api_client_id s)) None w = (Inr claims, w')"
      and c: "user_from_claims lib s claims = Inr u"
      using assms EntraMode by (auto simp: authenticate_request_def elim!: bindW_InrE)
    have "authorization req = ''Bearer '' @ drop 7 (authorization req)"
      using True startswithD [of "authorization req" "''Bearer ''"] by (simp add: is_bearer_def eval_nat_numeral)
    then show ?thesis
      using EntraMode c verify_token_Inr [OF v] claims_accepted_in_force user_from_claims_roles [OF c] by blast
  next
    case False
    then obtain secret claims where k: "cookie_secret s = Inr secret" and n: "unsign lib (session_value req) secret = Inr claims"
      and c: "user_from_claims lib s claims = Inr u"
      and t: "bindW time_now (\<lambda>t. whenW (number_passed (dget claims ''expires_at'') t) unauthorized) w = (Inr (), w')"
      using assms EntraMode
      by (auto simp: authenticate_request_def bindE_eq_Inr split: if_splits elim!: bindW_InrE)
    have "ahead (dget claims ''expires_at'') (wall_now w')"
      using t not_passed_ahead by (cases rule: time_now_frame [of w]) (auto simp: bindW_def whenW_Inr)
    moreover have "cfg_client_secret s = Some secret \<and> secret \<noteq> []"
      using k by (auto simp: cookie_secret_def split: option.splits if_splits)
    ultimately show ?thesis using EntraMode c user_from_claims_roles [OF c] unsign_signed [OF n] by metis
  qed
qed

section \<open>The login flow\<close>

text \<open>The fields a login cookie must hold for \<open>complete_login\<close> to go on with a state.\<close>

definition flow_of :: "dict \<Rightarrow> string \<Rightarrow> string \<Rightarrow> string \<Rightarrow> string \<Rightarrow> bool" where
  "flow_of flow state nonce verifier redirect_uri \<longleftrightarrow>
     dget flow ''state'' = JStr state \<and> dget flow ''nonce'' = JStr nonce
     \<and> dget flow ''verifier'' = JStr verifier \<and> dget flow ''redirect_uri'' = JStr redirect_uri"

lemma check_flow_Inr:
  assumes "check_flow s state (a, b, c, d, iat) w = (Inr (nonce, verifier, redirect_uri), w')"
  shows "a = JStr state \<and> b = JStr nonce \<and> c = JStr verifier \<and> d = JStr redirect_uri
    \<and> redirect_uri \<in> set (cfg_redirect_uris s)"
proof -
  obtain a' where a: "a = JStr a'" using assms by (cases a) (simp_all add: check_flow_def)
  obtain b' where b: "b = JStr b'" using assms by (cases b) (simp_all add: check_flow_def a)
  obtain c' where c: "c = JStr c'" using assms by (cases c) (simp_all add: check_flow_def a b)
  obtain d' where d: "d = JStr d'" using assms by (cases d) (simp_all add: check_flow_def a b c)
  have "d' \<in> set (cfg_redirect_uris s) \<and> a' = state \<and> (b', c', d') = (nonce, verifier, redirect_uri)"
    using assms unfolding a b c d check_flow_def prod.case json.case
    by (elim bindW_InrE) (auto simp: whenW_Inr)
  then show ?thesis by (auto simp: a b c d)
qed

lemma login_state_Inr:
  assumes "login_state lib s state state_cookie w = (Inr (nonce, verifier, redirect_uri), w')"
  obtains secret v flow where "cfg_client_secret s = Some secret" and "secret \<noteq> []" and "state_cookie = Some v"
    and "signed_by lib secret v flow" and "flow_of flow state nonce verifier redirect_uri"
    and "redirect_uri \<in> set (cfg_redirect_uris s)"
proof -
  obtain secret flow where k: "cookie_secret s = Inr secret" and u: "unsign lib state_cookie secret = Inr flow"
    and b: "bindW (liftW (flow_fields lib flow)) (check_flow s state) w = (Inr (nonce, verifier, redirect_uri), w')"
    using assms by (auto simp: login_state_def bindE_eq_Inr split: sum.splits if_splits)
  obtain iat where f: "flow_fields lib flow = Inr (dget flow ''state'', dget flow ''nonce'', dget flow ''verifier'',
      dget flow ''redirect_uri'', iat)"
    and c: "check_flow s state (dget flow ''state'', dget flow ''nonce'', dget flow ''verifier'',
      dget flow ''redirect_uri'', iat) w = (Inr (nonce, verifier, redirect_uri), w')"
    using b by (auto simp: flow_fields_def bindE_eq_Inr elim!: bindW_InrE split: sum.splits number_error.splits)
  have "flow_of flow state nonce verifier redirect_uri \<and> redirect_uri \<in> set (cfg_redirect_uris s)"
    using check_flow_Inr [OF c] by (simp add: flow_of_def)
  moreover obtain v where "state_cookie = Some v" and "signed_by lib secret v flow" using u by (rule unsign_signed)
  moreover have "cfg_client_secret s = Some secret \<and> secret \<noteq> []"
    using k by (auto simp: cookie_secret_def split: option.splits if_splits)
  ultimately show thesis by (auto intro: that)
qed

lemma complete_login_steps:
  assumes "complete_login lib s code state state_cookie w = (Inr u, w')"
  obtains nonce verifier redirect_uri w1 w2 id_token claims where
    "login_state lib s state state_cookie w = (Inr (nonce, verifier, redirect_uri), w1)"
    and "verify_token lib s id_token (text_or_empty (cfg_client_id s)) (Some nonce) w2 = (Inr claims, w')"
    and "user_from_claims lib s claims = Inr u"
proof -
  obtain v where b: "bindW (login_state lib s state state_cookie) (\<lambda>(nonce, verifier, redirect_uri).
     bindW (exchange_code s code redirect_uri verifier) (\<lambda>v. case v of
       JStr id_token \<Rightarrow> bindW (verify_token lib s id_token (text_or_empty (cfg_client_id s)) (Some nonce))
           (\<lambda>claims. liftW (user_from_claims lib s claims))
     | _ \<Rightarrow> raiseW (OtherError ''AttributeError''))) v = (Inr u, w')" and "v = w"
    using assms unfolding complete_login_def by (rule bindW_InrE) (auto simp: whenW_Inr)
  obtain x w1 where l: "login_state lib s state state_cookie w = (Inr x, w1)"
    and r: "(case x of (nonce, verifier, redirect_uri) \<Rightarrow>
     bindW (exchange_code s code redirect_uri verifier) (\<lambda>v. case v of
       JStr id_token \<Rightarrow> bindW (verify_token lib s id_token (text_or_empty (cfg_client_id s)) (Some nonce))
           (\<lambda>claims. liftW (user_from_claims lib s claims))
     | _ \<Rightarrow> raiseW (OtherError ''AttributeError''))) w1 = (Inr u, w')"
    using b unfolding \<open>v = w\<close> by (rule bindW_InrE)
  obtain nonce verifier redirect_uri where x: "x = (nonce, verifier, redirect_uri)" by (cases x)
  obtain y w2 where t: "(case y of
       JStr id_token \<Rightarrow> bindW (verify_token lib s id_token (text_or_empty (cfg_client_id s)) (Some nonce))
           (\<lambda>claims. liftW (user_from_claims lib s claims))
     | _ \<Rightarrow> raiseW (OtherError ''AttributeError'')) w2 = (Inr u, w')"
    using r unfolding x prod.case by (rule bindW_InrE)
  then obtain id_token where "bindW (verify_token lib s id_token (text_or_empty (cfg_client_id s)) (Some nonce))
           (\<lambda>claims. liftW (user_from_claims lib s claims)) w2 = (Inr u, w')" by (cases y) simp_all
  then obtain claims where "verify_token lib s id_token (text_or_empty (cfg_client_id s)) (Some nonce) w2 = (Inr claims, w')"
    and "user_from_claims lib s claims = Inr u" by (rule bindW_InrE) simp
  with l show thesis unfolding x by (rule that)
qed

text \<open>
  C23. A login is completed only with a cookie that carries the code
  of its own text under the client secret, for the very state it holds and a registered redirect
  URI, and the user is made of the claims of an identity token vouched for by the provider, in force
  for this client and the configured tenant, and with the nonce of that cookie.
\<close>

theorem logins_are_bound_to_their_start:
  assumes "complete_login lib s code state state_cookie w = (Inr u, w')"
  shows "\<exists>secret v flow nonce verifier redirect_uri tenant id_token claims.
    cfg_client_secret s = Some secret \<and> state_cookie = Some v \<and> signed_by lib secret v flow
    \<and> flow_of flow state nonce verifier redirect_uri \<and> redirect_uri \<in> set (cfg_redirect_uris s)
    \<and> cfg_tenant_id s = Some tenant \<and> vouched lib w' tenant id_token claims
    \<and> in_force tenant (text_or_empty (cfg_client_id s)) claims (wall_now w')
    \<and> dget claims ''nonce'' = JStr nonce \<and> user_from_claims lib s claims = Inr u"
proof -
  obtain nonce verifier redirect_uri w1 w2 id_token claims where
    l: "login_state lib s state state_cookie w = (Inr (nonce, verifier, redirect_uri), w1)"
    and v: "verify_token lib s id_token (text_or_empty (cfg_client_id s)) (Some nonce) w2 = (Inr claims, w')"
    and c: "user_from_claims lib s claims = Inr u"
    using assms by (rule complete_login_steps)
  obtain secret x flow where "cfg_client_secret s = Some secret" "state_cookie = Some x" "signed_by lib secret x flow"
    and "flow_of flow state nonce verifier redirect_uri" "redirect_uri \<in> set (cfg_redirect_uris s)"
    using l by (rule login_state_Inr)
  moreover obtain tenant where "cfg_tenant_id s = Some tenant" "vouched lib w' tenant id_token claims"
    and a: "claims_accepted tenant (text_or_empty (cfg_client_id s)) (Some nonce) claims (wall_now w')"
    using verify_token_Inr [OF v] by blast
  ultimately show ?thesis
    using claims_accepted_in_force [OF a] claims_accepted_nonce [OF a] c by blast
qed

lemma start_login_Inr:
  assumes "start_login lib s uri w = (Inr (url, cookie), w')"
  obtains secret state nonce verifier iat endpoint where "cookie_secret s = Inr secret"
    and "uri \<in> set (cfg_redirect_uris s)"
    and "state = token_source w (drawn w) 32" and "nonce = token_source w (Suc (drawn w)) 32"
    and "verifier = token_source w (Suc (Suc (drawn w))) 64"
    and "url = endpoint @ ''?'' @ urlencode lib (login_params lib s uri state nonce verifier)"
    and "cookie = sign lib (flow_payload state nonce verifier uri iat) secret"
    and "iat = (case wall w of [] \<Rightarrow> wall_now w | t # ts \<Rightarrow> t)"
  using assms unfolding start_login_def
  by (auto simp: whenW_Inr token_urlsafe_def time_now_def elim!: bindW_InrE split: json.splits list.splits intro: that)

text \<open>
  C24. The cookie of a started login is accepted exactly with the state that was
  sent to the provider, not before its time of issue and within ten minutes of it, and then gives
  back the nonce, the verifier whose challenge was sent, and the redirect URI.
\<close>

theorem a_login_comes_back:
  assumes "library_laws lib" and "start_login lib s uri w = (Inr (url, cookie), w')"
    and "\<forall>i n. is_ascii (token_source w i n)" and "is_ascii answered"
    and "wall v = [t1, t2]"
  shows "\<exists>endpoint state nonce verifier.
    url = endpoint @ ''?'' @ urlencode lib (login_params lib s uri state nonce verifier)
    \<and> fst (login_state lib s answered (Some cookie) v) =
      (if answered = state \<and> hd (wall w @ [wall_now w]) \<le> t1 \<and> t2 - hd (wall w @ [wall_now w]) \<le> 600
       then Inr (nonce, verifier, uri) else Inl unauthorized)"
proof -
  obtain secret state nonce verifier iat endpoint where k: "cookie_secret s = Inr secret"
    and r: "uri \<in> set (cfg_redirect_uris s)" and st: "state = token_source w (drawn w) 32"
    and url: "url = endpoint @ ''?'' @ urlencode lib (login_params lib s uri state nonce verifier)"
    and c: "cookie = sign lib (flow_payload state nonce verifier uri iat) secret"
    and i: "iat = (case wall w of [] \<Rightarrow> wall_now w | t # ts \<Rightarrow> t)"
    using assms(2) by (rule start_login_Inr)
  let ?p = "flow_payload state nonce verifier uri iat"
  have "wf_dict ?p" by (simp add: flow_payload_def wf_dict_def)
  with assms(1) obtain d where u: "unsign lib (Some cookie) secret = Inr d" and m: "map_of d = map_of ?p"
    unfolding c by (rule unsign_sign)
  have f: "flow_fields lib d = Inr (JStr state, JStr nonce, JStr verifier, JStr uri, Finite iat)"
    by (simp add: flow_fields_def dget_def dhas_def m flow_payload_def py_float_def)
  have h: "hd (wall w @ [wall_now w]) = iat" using i by (cases "wall w") simp_all
  have "fst (login_state lib s answered (Some cookie) v) =
      (if answered = state \<and> iat \<le> t1 \<and> t2 - iat \<le> 600 then Inr (nonce, verifier, uri) else Inl unauthorized)"
    using r st assms(3,4,5)
    by (simp add: login_state_def k u f check_flow_def bindW_def whenW_def time_now_def fl_above_def too_old_def)
  then show ?thesis using url h by metis
qed

end
