(* ===== verification/AuthSamples.thy ===== *)
theory AuthSamples
  imports AuthLaws
begin

text \<open>
  Runs of the sign-in code at concrete inputs: a login from its start to the session cookie, and a
  bearer token. They are the witnesses of the theorems of \<open>AuthLaws\<close>.
\<close>

section \<open>A provider and a library\<close>

definition sample_auth :: auth_settings where
  "sample_auth = (default_settings EntraMode)\<lparr>
     cfg_tenant_id := Some ''11111111-1111-1111-1111-11111111111f'',
     cfg_client_id := Some ''22222222-2222-2222-2222-222222222222'',
     cfg_api_client_id := Some ''22222222-2222-2222-2222-222222222222'',
     cfg_client_secret := Some ''test-secret'',
     cfg_redirect_uris := [''http://localhost:8000/api/v1/callback'', ''https://gw.example/api/v1/callback'']\<rparr>"

lemma sample_loaded: "service_settings sample_environ = Inr sample_auth"
  by code_simp

definition sample_claims :: dict where
  "sample_claims = [(''iss'', JStr (issuer_of ''11111111-1111-1111-1111-11111111111f'')),
     (''tid'', JStr ''11111111-1111-1111-1111-11111111111f''),
     (''aud'', JStr ''22222222-2222-2222-2222-222222222222''), (''exp'', JInt 2000), (''nonce'', JStr ''n1''),
     (''oid'', JStr ''u-1''), (''roles'', JList [JStr ''Viewer''])]"

definition sample_signed_in :: authenticated_user where
  "sample_signed_in = \<lparr>subject = ''u-1'', tenant_id = Some ''11111111-1111-1111-1111-11111111111f'',
     user_name = ''u-1'', email = None, roles = {Viewer}, auth_mode = Entra\<rparr>"

text \<open>Dictionaries whose JSON text is a single byte; every other one is serialised.\<close>

definition sample_texts :: "(bytes \<times> dict) list" where
  "sample_texts =
     [([1], [(''alg'', JStr ''RS256''), (''kid'', JStr ''k1'')]),
      ([2], sample_claims),
      ([3], flow_payload ''s0'' ''n1'' ''v2'' ''http://localhost:8000/api/v1/callback'' 900),
      ([5], flow_payload ''s0'' ''n1'' ''v2'' ''http://localhost:8000/api/v1/callback'' 1000),
      ([4], dset ''expires_at'' (JFloat (Finite 4600)) (public_user sample_signed_in))]"

definition sample_dumps :: "dict \<Rightarrow> bytes" where
  "sample_dumps d = (case find (\<lambda>p. snd p = d) sample_texts of
      Some p \<Rightarrow> fst p | None \<Rightarrow> 0 # ascii (enc (JObj d)))"

definition sample_loads :: "bytes \<Rightarrow> json option" where
  "sample_loads bs = (case map_of sample_texts bs of
      Some d \<Rightarrow> Some (JObj d)
    | None \<Rightarrow> (case bs of [] \<Rightarrow> None | _ # r \<Rightarrow> map_option fst (dec (length r) (map (\<lambda>b. char_of (unat b)) r))))"

definition sample_library :: auth_library where
  "sample_library = \<lparr>hmac = (\<lambda>k m. [7]), sha256 = id, json_dumps = sample_dumps, json_loads = sample_loads,
     rsa_verifies = (\<lambda>e n signature m. signature = [9]), urlencode = (\<lambda>ps. concat (map snd ps)),
     json_repr = (\<lambda>v. ''value''), float_text = (\<lambda>_. None)\<rparr>"

lemma char_of_ascii: "map (\<lambda>b. char_of (unat b)) (ascii s) = s"
proof -
  have "char_of (unat (word_of_nat (ord_of c) :: byte)) = c" for c
  proof -
    have "ord_of c < 256" by (simp add: ord_of_def)
    then have "unat (word_of_nat (ord_of c) :: byte) = ord_of c" by (simp add: unat_of_nat)
    then show ?thesis by (simp add: ord_of_def)
  qed
  then show ?thesis by (simp add: ascii_def comp_def)
qed

lemma sample_library_laws: "library_laws sample_library"
proof -
  have keys: "map_of sample_texts (fst p) = Some (snd p)" if "p \<in> set sample_texts" for p
    using that by (auto simp: sample_texts_def)
  have zero: "map_of sample_texts (0 # r) = None" for r by (simp add: sample_texts_def)
  have "sample_dumps d \<noteq> [] \<and> sample_loads (sample_dumps d) = Some (JObj d)" for d
  proof (cases "find (\<lambda>p. snd p = d) sample_texts")
    case None
    then show ?thesis using zero dec_enc [OF weight_le_length, of "JObj d" "[]"]
      by (simp add: sample_dumps_def sample_loads_def char_of_ascii)
  next
    case (Some p)
    then have p: "p \<in> set sample_texts" "snd p = d" using find_Some_iff_set [of _ sample_texts p] by auto
    then have "fst p \<noteq> []" by (auto simp: sample_texts_def)
    then show ?thesis using Some keys [OF p(1)] p(2) by (simp add: sample_dumps_def sample_loads_def)
  qed
  then show ?thesis by (simp add: library_laws_def sample_library_def)
qed

definition sample_token :: string where
  "sample_token = join ''.'' (map b64url [[1], [2], [9]])"

definition sample_discovery :: dict where
  "sample_discovery = [(''issuer'', JStr ''i''), (''authorization_endpoint'', JStr ''https://login/a''),
     (''token_endpoint'', JStr ''https://login/t''), (''jwks_uri'', JStr ''https://login/k'')]"

definition sample_jwks :: dict where
  "sample_jwks = [(''keys'', JList [JObj [(''kid'', JStr ''k0'')],
     JObj [(''kid'', JStr ''k1''), (''kty'', JStr ''RSA''), (''e'', JStr ''AQAB''), (''n'', JStr ''AQAB'')]])]"

definition sample_auth_world :: "http_answer list \<Rightarrow> auth_world" where
  "sample_auth_world documents = \<lparr>wall = [], wall_now = 1000, ticks = [], tick_now = 0, answers = documents, asked = [],
     token_source = (\<lambda>i n. [''s0'', ''n1'', ''v2''] ! (i mod 3)), drawn = 0, auth_cache = Map.empty\<rparr>"

definition sample_request :: auth_request where
  "sample_request = \<lparr>demo_app = False, authorization = [], session_value = None,
     flow_value = Some (sign sample_library
       (flow_payload ''s0'' ''n1'' ''v2'' ''http://localhost:8000/api/v1/callback'' 900) ''test-secret'')\<rparr>"

definition login_answers :: "http_answer list" where
  "login_answers = [Document (JObj sample_discovery), Document (JObj [(''id_token'', JStr sample_token)]),
     Document (JObj sample_jwks)]"

lemma sample_completed:
  "fst (complete_login sample_library sample_auth ''c'' ''s0'' (flow_value sample_request) (sample_auth_world login_answers))
     = Inr sample_signed_in"
  by code_simp

section \<open>Witnesses\<close>

definition sample_session_cookie :: string where
  "sample_session_cookie = sign sample_library
     (dset ''expires_at'' (JFloat (Finite 4600)) (public_user sample_signed_in)) ''test-secret''"

lemma sample_callback:
  "\<exists>response w'. route_callback sample_library sample_environ ''localhost'' ''c'' ''s0'' sample_request
       (sample_auth_world login_answers) = (Inr response, w')
     \<and> (''gateway_session'', sample_session_cookie, 3600, ''/'', False) \<in> set (set_cookies response)"
proof -
  let ?w = "sample_auth_world login_answers"
  obtain v where c: "complete_login sample_library sample_auth ''c'' ''s0'' (flow_value sample_request) ?w = (Inr sample_signed_in, v)"
    using sample_completed by (metis prod.collapse)
  have v: "wall v = [] \<and> wall_now v = 1000"
  proof -
    have "v = snd (complete_login sample_library sample_auth ''c'' ''s0'' (flow_value sample_request) ?w)" using c by simp
    moreover have "wall (snd (complete_login sample_library sample_auth ''c'' ''s0'' (flow_value sample_request) ?w)) = []
        \<and> wall_now (snd (complete_login sample_library sample_auth ''c'' ''s0'' (flow_value sample_request) ?w)) = 1000"
      by code_simp
    ultimately show ?thesis by simp
  qed
  have "session_cookie sample_library sample_auth sample_signed_in 4600 = Inr sample_session_cookie"
    by (simp add: session_cookie_def cookie_secret_def sample_auth_def default_settings_def sample_session_cookie_def)
  moreover have "secure_cookie ''localhost'' = False" by code_simp
  ultimately show ?thesis using c v
    by (simp add: route_callback_def sample_loaded bindW_def time_now_def redirect_to_def)
qed

theorem browser_sessions_are_refused_witness:
  "\<exists>response w'. route_callback sample_library sample_environ ''localhost'' ''c'' ''s0'' sample_request
       (sample_auth_world login_answers) = (Inr response, w')
     \<and> fst (route_session sample_library sample_environ (sample_request\<lparr>session_value := Some sample_session_cookie\<rparr>)
         (sample_auth_world [])) = Inr [(''user'', JNull)]"
proof -
  obtain response w' where r: "route_callback sample_library sample_environ ''localhost'' ''c'' ''s0'' sample_request
       (sample_auth_world login_answers) = (Inr response, w')"
    and c: "(''gateway_session'', sample_session_cookie, 3600, ''/'', False) \<in> set (set_cookies response)"
    using sample_callback by blast
  have "\<not> is_bearer []" by code_simp
  then show ?thesis
    using browser_sessions_are_refused [OF sample_library_laws sample_loaded r c,
        of "sample_request\<lparr>session_value := Some sample_session_cookie\<rparr>" "sample_auth_world []"] r
    by (simp add: sample_request_def)
qed

theorem cached_documents_expire_witness:
  "case discovery sample_auth (run_auth sample_library sample_auth
      [StartLogin ''http://localhost:8000/api/v1/callback''] (sample_auth_world login_answers)) of
     (Inl _, _) \<Rightarrow> False
   | (Inr d, v) \<Rightarrow> discovery_valid d \<and> tick_now v < 3600"
proof -
  let ?cmds = "[StartLogin ''http://localhost:8000/api/v1/callback'']"
  let ?w = "run_auth sample_library sample_auth ?cmds (sample_auth_world login_answers)"
  have "case discovery sample_auth ?w of (Inl _, _) \<Rightarrow> False | (Inr d, v) \<Rightarrow> d = sample_discovery \<and> tick_now v = 0"
    by code_simp
  then obtain d v where d: "discovery sample_auth ?w = (Inr d, v)" and "tick_now v = 0"
    by (auto split: prod.splits sum.splits)
  moreover have "auth_cache (sample_auth_world login_answers) = Map.empty"
    and "cfg_tenant_id sample_auth = Some ''11111111-1111-1111-1111-11111111111f''"
    by (simp_all add: sample_auth_world_def sample_auth_def)
  ultimately show ?thesis
    using cached_documents_expire [of "sample_auth_world login_answers" sample_auth _ sample_library ?cmds d v] by simp
qed

theorem only_verified_users_enter_witness:
  "case authenticate_request sample_library sample_auth (sample_request\<lparr>authorization := ''Bearer '' @ sample_token\<rparr>)
      (sample_auth_world [Document (JObj sample_discovery), Document (JObj sample_jwks)]) of
     (Inl _, _) \<Rightarrow> False
   | (Inr u, w') \<Rightarrow> u = sample_signed_in \<and> (\<exists>claims. user_from_claims sample_library sample_auth claims = Inr u
       \<and> vouched sample_library w' ''11111111-1111-1111-1111-11111111111f'' sample_token claims
       \<and> ahead (dget claims ''exp'') (wall_now w'))"
proof -
  let ?w = "sample_auth_world [Document (JObj sample_discovery), Document (JObj sample_jwks)]"
  let ?r = "sample_request\<lparr>authorization := ''Bearer '' @ sample_token\<rparr>"
  have "fst (authenticate_request sample_library sample_auth ?r ?w) = Inr sample_signed_in" by code_simp
  then obtain w' where a: "authenticate_request sample_library sample_auth ?r ?w = (Inr sample_signed_in, w')"
    by (metis prod.collapse)
  have "cfg_mode sample_auth = EntraMode" "session_value ?r = None"
    "cfg_tenant_id sample_auth = Some ''11111111-1111-1111-1111-11111111111f''"
    by (simp_all add: sample_auth_def default_settings_def sample_request_def)
  then show ?thesis using only_verified_users_enter [OF a] a by (auto simp: in_force_def)
qed

theorem logins_are_bound_to_their_start_witness:
  "\<exists>w' flow nonce id_token claims. complete_login sample_library sample_auth ''c'' ''s0'' (flow_value sample_request)
       (sample_auth_world login_answers) = (Inr sample_signed_in, w')
     \<and> dget flow ''state'' = JStr ''s0'' \<and> dget flow ''nonce'' = JStr nonce
     \<and> vouched sample_library w' ''11111111-1111-1111-1111-11111111111f'' id_token claims
     \<and> dget claims ''nonce'' = JStr nonce"
proof -
  obtain w' where c: "complete_login sample_library sample_auth ''c'' ''s0'' (flow_value sample_request)
      (sample_auth_world login_answers) = (Inr sample_signed_in, w')"
    using sample_completed by (metis prod.collapse)
  have "cfg_tenant_id sample_auth = Some ''11111111-1111-1111-1111-11111111111f''" by (simp add: sample_auth_def)
  then show ?thesis using logins_are_bound_to_their_start [OF c] c
    by (auto simp: flow_of_def)
qed

theorem a_login_comes_back_witness:
  "case start_login sample_library sample_auth ''http://localhost:8000/api/v1/callback''
       (sample_auth_world login_answers) of
     (Inl _, _) \<Rightarrow> False
   | (Inr (url, cookie), _) \<Rightarrow> \<exists>endpoint state nonce verifier.
       url = endpoint @ ''?'' @ urlencode sample_library (login_params sample_library sample_auth
         ''http://localhost:8000/api/v1/callback'' state nonce verifier)
       \<and> fst (login_state sample_library sample_auth ''s0'' (Some cookie)
           ((sample_auth_world [])\<lparr>wall := [1100, 1200]\<rparr>)) =
         (if ''s0'' = state then Inr (nonce, verifier, ''http://localhost:8000/api/v1/callback'') else Inl unauthorized)"
proof -
  let ?w = "sample_auth_world login_answers" and ?uri = "''http://localhost:8000/api/v1/callback''"
  let ?v = "(sample_auth_world [])\<lparr>wall := [1100, 1200]\<rparr>"
  have "case fst (start_login sample_library sample_auth ?uri ?w) of Inl _ \<Rightarrow> False | Inr _ \<Rightarrow> True" by code_simp
  then obtain url cookie w' where st: "start_login sample_library sample_auth ?uri ?w = (Inr (url, cookie), w')"
    by (cases "start_login sample_library sample_auth ?uri ?w") (auto split: sum.splits)
  have a: "is_ascii ([''s0'', ''n1'', ''v2''] ! (i mod 3))" for i :: nat
  proof -
    have "i mod 3 \<in> {0, 1, 2}" by auto
    then show ?thesis by (auto simp: is_ascii_def ord_of_def)
  qed
  have "is_ascii ''s0''" by code_simp
  then show ?thesis
    using a_login_comes_back [OF sample_library_laws st, of "''s0''" ?v 1100 1200] a st
    by (simp add: sample_auth_world_def)
qed

end
