(* ===== verification/WriteModels.thy ===== *)
theory WriteModels
  imports RouteLaws Configs
begin

text \<open>
  The request and response models of the HTTP API: \<open>app/api/schemas/management.py\<close>,
  \<open>app/api/schemas/device_data.py\<close> and \<open>app/api/schemas/transactions.py\<close>. A class is translated
  to the declaration of its fields (inherited ones first) with its \<open>model_validator\<close> as a predicate
  on the fields that are set. Reading a value with a declaration is the work of a library, a
  parameter of the routes; \<open>accepts\<close> and \<open>dump\<close> state what it documents for strict models:
  no conversion, no unknown field, every constraint checked.
\<close>

section \<open>Declarations\<close>

text \<open>
  The annotations of a field: \<open>str\<close> with its lengths and a further check (a pattern or an
  \<open>AfterValidator\<close>), \<open>Literal\<close>, \<open>int\<close> with its bounds, \<open>bool\<close>, the one value \<open>True\<close>, a finite
  non-negative \<open>float\<close>, any JSON value, \<open>... | None\<close>, \<open>list\<close> and \<open>dict\<close> with their sizes, and a
  nested model. A field of a model is its name, whether it is required, and its annotation.
\<close>

datatype annotation =
    Text nat "nat option" "string \<Rightarrow> bool"
  | OneOf "string list"
  | Whole "int option" "int option"
  | Switch
  | Always
  | Duration
  | Anything
  | Nullable annotation
  | Items annotation nat "nat option"
  | Entries annotation annotation nat nat
  | Model "(string \<times> bool \<times> annotation) list" "dict \<Rightarrow> bool"

definition at_most :: "nat \<Rightarrow> nat option \<Rightarrow> bool" where
  "at_most n bound \<longleftrightarrow> (case bound of None \<Rightarrow> True | Some m \<Rightarrow> n \<le> m)"

definition in_range :: "int option \<Rightarrow> int option \<Rightarrow> int \<Rightarrow> bool" where
  "in_range lo hi i \<longleftrightarrow> (case lo of None \<Rightarrow> True | Some l \<Rightarrow> l \<le> i) \<and> (case hi of None \<Rightarrow> True | Some h \<Rightarrow> i \<le> h)"

fun accepts :: "annotation \<Rightarrow> json \<Rightarrow> bool"
and accepts_fields :: "(string \<times> bool \<times> annotation) list \<Rightarrow> dict \<Rightarrow> bool" where
  "accepts (Text lo hi p) v = (case v of JStr s \<Rightarrow> lo \<le> length s \<and> at_most (length s) hi \<and> p s | _ \<Rightarrow> False)"
| "accepts (OneOf ws) v = (v \<in> JStr ` set ws)"
| "accepts (Whole lo hi) v = (case v of JInt i \<Rightarrow> in_range lo hi i | _ \<Rightarrow> False)"
| "accepts Switch v = is_bool v"
| "accepts Always v = (v = JBool True)"
| "accepts Duration v = (case v of JFloat (Finite r) \<Rightarrow> 0 \<le> r | _ \<Rightarrow> False)"
| "accepts Anything v = True"
| "accepts (Nullable t) v = (v = JNull \<or> accepts t v)"
| "accepts (Items t lo hi) v = (case v of
     JList xs \<Rightarrow> lo \<le> length xs \<and> at_most (length xs) hi \<and> list_all (accepts t) xs | _ \<Rightarrow> False)"
| "accepts (Entries k t lo hi) v = (case v of
     JObj d \<Rightarrow> lo \<le> length d \<and> length d \<le> hi \<and> list_all (\<lambda>p. accepts k (JStr (fst p)) \<and> accepts t (snd p)) d
   | _ \<Rightarrow> False)"
| "accepts (Model fs ok) v = (case v of
     JObj d \<Rightarrow> list_all (\<lambda>p. fst p \<in> fst ` set fs) d \<and> accepts_fields fs d \<and> ok d | _ \<Rightarrow> False)"
| "accepts_fields [] d = True"
| "accepts_fields (f # fs) d = ((case map_of d (fst f) of None \<Rightarrow> \<not> fst (snd f) | Some v \<Rightarrow> accepts (snd (snd f)) v)
     \<and> accepts_fields fs d)"

text \<open>\<open>model_dump(exclude_unset=True)\<close>: the set fields in the order of their declaration.\<close>

fun dump :: "annotation \<Rightarrow> json \<Rightarrow> json"
and dump_fields :: "(string \<times> bool \<times> annotation) list \<Rightarrow> dict \<Rightarrow> dict" where
  "dump (Nullable t) v = (if v = JNull then JNull else dump t v)"
| "dump (Items t lo hi) v = (case v of JList xs \<Rightarrow> JList (map (dump t) xs) | _ \<Rightarrow> v)"
| "dump (Entries k t lo hi) v = (case v of JObj d \<Rightarrow> JObj (map (\<lambda>p. (fst p, dump t (snd p))) d) | _ \<Rightarrow> v)"
| "dump (Model fs ok) v = (case v of JObj d \<Rightarrow> JObj (dump_fields fs d) | _ \<Rightarrow> v)"
| "dump _ v = v"
| "dump_fields [] d = []"
| "dump_fields (f # fs) d = (case map_of d (fst f) of None \<Rightarrow> [] | Some v \<Rightarrow> [(fst f, dump (snd (snd f)) v)])
     @ dump_fields fs d"

text \<open>
  The library: \<open>read_body\<close> reads a value with a declaration and dumps the result (\<open>None\<close> is a
  validation error); \<open>render\<close> reads the result of a route with its \<open>response_model\<close>, converting
  where it can, filling defaults and dropping what is not declared.
\<close>

record web_library =
  read_body :: "annotation \<Rightarrow> json \<Rightarrow> json option"
  render :: "annotation \<Rightarrow> json \<Rightarrow> json option"

text \<open>
  The documented behaviour of the two: \<open>render\<close> gives a JSON object whose keys are different at
  every depth and that the declaration accepts.
\<close>

fun unique_keys :: "json \<Rightarrow> bool" where
  "unique_keys (JObj d) = (wf_dict d \<and> list_all (\<lambda>p. unique_keys (snd p)) d)"
| "unique_keys (JList xs) = list_all unique_keys xs"
| "unique_keys _ = True"

definition reads_strictly :: "web_library \<Rightarrow> bool" where
  "reads_strictly lib \<longleftrightarrow> (\<forall>t v. read_body lib t v = (if accepts t v then Some (dump t v) else None))"

definition renders_declared :: "web_library \<Rightarrow> bool" where
  "renders_declared lib \<longleftrightarrow> (\<forall>t v u. render lib t v = Some u \<longrightarrow> accepts t u \<and> unique_keys u)"

section \<open>Profiles\<close>

definition anyone :: "string \<Rightarrow> bool" where
  "anyone s \<longleftrightarrow> True"

definition authentication_write :: "(string \<times> bool \<times> annotation) list" where
  "authentication_write =
     [(''username'', False, Nullable (Text 0 (Some 255) anyone)),
      (''password'', False, Nullable (Text 0 (Some 16384) anyone)),
      (''private_key_path'', False, Nullable (Text 0 (Some 4096) anyone)),
      (''known_hosts_path'', False, Nullable (Text 0 (Some 4096) anyone)),
      (''role_account_id'', False, Nullable (Text 1 (Some 128) anyone))]"

definition exclusive_role :: "dict \<Rightarrow> bool" where
  "exclusive_role d \<longleftrightarrow> \<not> (truthy (dget d ''role_account_id'')
     \<and> list_ex (\<lambda>key. dget d key \<noteq> JNull) [''username'', ''password'', ''private_key_path''])"

definition endpoint_given :: "dict \<Rightarrow> bool" where
  "endpoint_given d \<longleftrightarrow> \<not> (dget_or d ''type'' (JStr ''direct'') \<noteq> JStr ''direct''
     \<and> (\<not> truthy (dget d ''host'') \<or> dget d ''port'' = JNull))"

definition connector_write :: annotation where
  "connector_write = Model (authentication_write @
     [(''type'', False, OneOf connector_types),
      (''host'', False, Nullable (Text 1 (Some 255) anyone)),
      (''port'', False, Nullable (Whole (Some 1) (Some 65535)))])
     (\<lambda>d. exclusive_role d \<and> endpoint_given d)"

definition client_types :: "string list" where
  "client_types = [''network'', ''fake'']"

definition exclusive_proxy :: "dict \<Rightarrow> bool" where
  "exclusive_proxy d \<longleftrightarrow> \<not> (truthy (dget d ''proxy_id'') \<and> dget d ''connector'' \<noteq> JNull)"

definition connection_write :: annotation where
  "connection_write = Model (authentication_write @
     [(''name'', True, Text 1 (Some 255) anyone),
      (''client_type'', False, OneOf client_types),
      (''protocol'', True, OneOf protocols),
      (''host'', True, Text 1 (Some 255) anyone),
      (''port'', True, Whole (Some 1) (Some 65535)),
      (''timeout_seconds'', False, Whole (Some 1) (Some 30)),
      (''proxy_id'', False, Nullable (Text 1 (Some 128) anyone)),
      (''connector'', False, Nullable connector_write)])
     (\<lambda>d. exclusive_role d \<and> exclusive_proxy d)"

definition proxy_write :: annotation where
  "proxy_write = Model (authentication_write @
     [(''name'', True, Text 1 (Some 255) anyone),
      (''type'', True, OneOf proxy_types),
      (''host'', True, Text 1 (Some 255) anyone),
      (''port'', True, Whole (Some 1) (Some 65535))])
     exclusive_role"

definition authentication_types :: "string list" where
  "authentication_types = [''password'', ''ssh_key'']"

definition exclusive_authentication :: "dict \<Rightarrow> bool" where
  "exclusive_authentication d \<longleftrightarrow>
     \<not> (dget d ''authentication_type'' = JStr ''password''
        \<and> (dget d ''private_key'' \<noteq> JNull \<or> dget d ''key_passphrase'' \<noteq> JNull))
     \<and> \<not> (dget d ''authentication_type'' = JStr ''ssh_key'' \<and> dget d ''password'' \<noteq> JNull)
     \<and> \<not> (dget d ''key_passphrase'' \<noteq> JNull \<and> dget d ''private_key'' = JNull)"

definition role_account_write :: annotation where
  "role_account_write = Model
     [(''name'', True, Text 1 (Some 255) anyone),
      (''username'', True, Text 1 (Some 255) anyone),
      (''authentication_type'', True, OneOf authentication_types),
      (''password'', False, Nullable (Text 0 (Some 16384) anyone)),
      (''private_key'', False, Nullable (Text 0 (Some 65536) anyone)),
      (''key_passphrase'', False, Nullable (Text 0 (Some 16384) anyone))]
     exclusive_authentication"

definition profile_write :: "resource \<Rightarrow> annotation" where
  "profile_write res = (case res of Connections \<Rightarrow> connection_write | Proxies \<Rightarrow> proxy_write
     | RoleAccounts \<Rightarrow> role_account_write)"

definition connection_test_write :: annotation where
  "connection_test_write = Model [] (\<lambda>_. True)"

definition unique_ids :: "dict \<Rightarrow> bool" where
  "unique_ids d \<longleftrightarrow> (case dget d ''connection_ids'' of
     JList ids \<Rightarrow> list_all (\<lambda>i. case i of JStr s \<Rightarrow> s \<noteq> [] \<and> length s \<le> 128 | _ \<Rightarrow> True) ids \<and> distinct ids
   | _ \<Rightarrow> True)"

definition batch_write :: annotation where
  "batch_write = Model [(''connection_ids'', True, Items (Text 0 None anyone) 1 (Some 1000))] unique_ids"

section \<open>Public models\<close>

definition public_authentication :: "(string \<times> bool \<times> annotation) list" where
  "public_authentication =
     [(''username'', False, Nullable (Text 0 None anyone)),
      (''private_key_path'', False, Nullable (Text 0 None anyone)),
      (''known_hosts_path'', False, Nullable (Text 0 None anyone)),
      (''role_account_id'', False, Nullable (Text 0 None anyone)),
      (''password_configured'', False, Switch),
      (''private_key_configured'', False, Switch)]"

definition always_valid :: "dict \<Rightarrow> bool" where
  "always_valid d \<longleftrightarrow> True"

definition public_connector :: annotation where
  "public_connector = Model (public_authentication @
     [(''type'', True, OneOf connector_types),
      (''host'', False, Nullable (Text 0 None anyone)),
      (''port'', False, Nullable (Whole None None))]) always_valid"

definition public_connection_model :: annotation where
  "public_connection_model = Model (public_authentication @
     [(''id'', True, Text 0 None anyone),
      (''name'', True, Text 0 None anyone),
      (''client_type'', False, OneOf client_types),
      (''protocol'', True, OneOf protocols),
      (''host'', True, Text 0 None anyone),
      (''port'', True, Whole None None),
      (''timeout_seconds'', False, Whole None None),
      (''proxy_id'', False, Nullable (Text 0 None anyone)),
      (''connector'', False, public_connector)]) always_valid"

definition public_proxy_model :: annotation where
  "public_proxy_model = Model (public_authentication @
     [(''id'', True, Text 0 None anyone),
      (''name'', True, Text 0 None anyone),
      (''type'', True, OneOf proxy_types),
      (''host'', True, Text 0 None anyone),
      (''port'', True, Whole None None)]) always_valid"

definition public_role_account_model :: annotation where
  "public_role_account_model = Model
     [(''id'', True, Text 0 None anyone),
      (''name'', True, Text 0 None anyone),
      (''username'', True, Text 0 None anyone),
      (''authentication_type'', True, OneOf authentication_types),
      (''password_configured'', False, Switch),
      (''private_key_configured'', False, Switch)] always_valid"

definition public_model :: "resource \<Rightarrow> annotation" where
  "public_model res = (case res of Connections \<Rightarrow> public_connection_model | Proxies \<Rightarrow> public_proxy_model
     | RoleAccounts \<Rightarrow> public_role_account_model)"

definition collection_model :: "resource \<Rightarrow> annotation" where
  "collection_model res = Model [(''items'', True, Items (public_model res) 0 None)] always_valid"

definition capabilities_model :: annotation where
  "capabilities_model = Model
     [(''protocols'', True, Items (OneOf protocols) 0 None),
      (''connectors'', True, Items (Model
         [(''type'', True, OneOf connector_types),
          (''label'', True, Text 0 None anyone),
          (''protocols'', True, Items (OneOf protocols) 0 None),
          (''description'', True, Text 0 None anyone)] always_valid) 0 None)] always_valid"

definition test_result_fields :: "(string \<times> bool \<times> annotation) list" where
  "test_result_fields =
     [(''success'', True, Switch),
      (''simulated'', False, Switch),
      (''stage'', True, Text 0 None anyone),
      (''detail'', True, Text 0 None anyone),
      (''duration_ms'', True, Duration)]"

definition test_result_model :: annotation where
  "test_result_model = Model test_result_fields always_valid"

definition batch_result_model :: annotation where
  "batch_result_model = Model (test_result_fields @
     [(''connection_id'', True, Text 0 None anyone),
      (''name'', True, Text 0 None anyone),
      (''protocol'', True, OneOf protocols),
      (''host'', True, Text 0 None anyone),
      (''port'', True, Whole None None),
      (''connector_type'', True, OneOf connector_types)]) always_valid"

definition public_job_model :: annotation where
  "public_job_model = Model
     [(''id'', True, Text 0 None anyone),
      (''status'', True, OneOf [''queued'', ''running'', ''completed'', ''failed'']),
      (''total'', True, Whole (Some 0) None),
      (''completed'', True, Whole (Some 0) None),
      (''results'', True, Items batch_result_model 0 None),
      (''error'', False, Nullable (Text 0 None anyone))] always_valid"

end
