(* ===== verification/ResponseModels.thy ===== *)
theory ResponseModels
  imports WriteModels FakeDevice
begin

text \<open>
  The remaining models of the HTTP API: the operational configurations of
  \<open>app/api/schemas/management.py\<close>, the simulated device data of \<open>app/api/schemas/device_data.py\<close>
  and the audit records of \<open>app/api/schemas/transactions.py\<close>.
\<close>

section \<open>Operational configurations\<close>

text \<open>The pattern \<open>^[A-Za-z_][A-Za-z0-9_]*$\<close> and the validator \<open>_identifier\<close>.\<close>

definition identifier_pattern :: "string \<Rightarrow> bool" where
  "identifier_pattern s \<longleftrightarrow> (case s of [] \<Rightarrow> False
     | c # cs \<Rightarrow> (is_ascii_alpha c \<or> c = CHR ''_'') \<and> list_all (\<lambda>x. is_ascii_alnum x \<or> x = CHR ''_'') cs)"

definition not_none_word :: "string \<Rightarrow> bool" where
  "not_none_word s \<longleftrightarrow> lower s \<noteq> ''none''"

definition metadata_identifier_field :: annotation where
  "metadata_identifier_field = Text 1 (Some 128) (\<lambda>s. identifier_pattern s \<and> not_none_word s)"

definition mapping_key_check :: "string \<Rightarrow> bool" where
  "mapping_key_check s \<longleftrightarrow> \<not> (s \<noteq> lower s \<or> list_ex (\<lambda>c. ord_of c < 32) s)"

definition mapping_key_field :: annotation where
  "mapping_key_field = Text 1 (Some 255) mapping_key_check"

definition proxy_host_pattern :: "string \<Rightarrow> bool" where
  "proxy_host_pattern s \<longleftrightarrow> s \<noteq> [] \<and> list_all (\<lambda>c. is_ascii_alnum c \<or> c \<in> set ''_.:-'') s"

definition proxy_host_field :: annotation where
  "proxy_host_field = Text 1 (Some 255) proxy_host_pattern"

definition device_lookup_settings :: annotation where
  "device_lookup_settings = Model
     [(''table'', True, metadata_identifier_field),
      (''search_column'', True, metadata_identifier_field)] always_valid"

definition unique_columns :: "dict \<Rightarrow> bool" where
  "unique_columns d \<longleftrightarrow> (case dget d ''key_columns'' of JList columns \<Rightarrow> distinct columns | _ \<Rightarrow> True)"

definition mapping_settings :: "(string \<times> bool \<times> annotation) list" where
  "mapping_settings = [(''key_columns'', True, Items metadata_identifier_field 1 (Some 8))]"

definition client_class_names :: "string list" where
  "client_class_names = [
     ''app.dal.device.nccclient_adva.AdvaFSP114ProNCCClient'',
     ''app.dal.device.nccclient_alcatel.AlcatelNCCClient'',
     ''app.dal.device.nccclient_ceina.CeinaNCCClient'',
     ''app.dal.device.nccclient_ios.IOSNCCClient'',
     ''app.dal.device.nccclient_iox.IOXNCCClient'',
     ''app.dal.device.nccclient_juniper.JuniperNCCClient'',
     ''app.dal.device.telnet_client.GenericTelnetNCCClient'']"

definition client_mapping_settings :: annotation where
  "client_mapping_settings = Model (mapping_settings @
     [(''map'', True, Entries mapping_key_field (OneOf client_class_names) 1 1000)]) unique_columns"

definition proxy_mapping_settings :: annotation where
  "proxy_mapping_settings = Model (mapping_settings @
     [(''map'', True, Entries mapping_key_field (Nullable proxy_host_field) 0 1000)]) unique_columns"

definition settings_models :: "(string \<times> annotation) list" where
  "settings_models = [(''device_lookup'', device_lookup_settings),
     (''client_mapping'', client_mapping_settings), (''proxy_mapping'', proxy_mapping_settings)]"

section \<open>Simulated device data\<close>

definition simulated_response :: "(string \<times> bool \<times> annotation) list" where
  "simulated_response = [(''provider'', True, OneOf [''fake'']), (''simulated'', True, Always)]"

abbreviation any_text :: annotation where
  "any_text \<equiv> Text 0 None anyone"

abbreviation counter :: annotation where
  "counter \<equiv> Whole (Some 0) None"

definition device_identity :: annotation where
  "device_identity = Model
     [(''id'', True, any_text), (''name'', True, any_text), (''protocol'', True, OneOf protocols),
      (''host'', True, any_text), (''port'', True, Whole None None)] always_valid"

definition device_access :: annotation where
  "device_access = Model
     [(''role_account_id'', True, any_text), (''proxy_id'', True, any_text),
      (''proxy_role_account_id'', True, any_text), (''connector_type'', True, OneOf connector_types)] always_valid"

definition system_inventory :: annotation where
  "system_inventory = Model
     [(''hostname'', True, any_text), (''model'', True, any_text), (''software_version'', True, any_text),
      (''serial_number'', True, any_text), (''uptime_seconds'', True, counter)] always_valid"

definition interface_inventory :: annotation where
  "interface_inventory = Model
     [(''name'', True, any_text), (''description'', True, any_text), (''admin_status'', True, any_text),
      (''oper_status'', True, any_text), (''mtu'', True, Whole None None), (''mac_address'', True, any_text),
      (''addresses'', True, Items any_text 0 None), (''rx_bytes'', True, counter), (''tx_bytes'', True, counter)] always_valid"

definition bgp_neighbor :: annotation where
  "bgp_neighbor = Model
     [(''address'', True, any_text), (''remote_asn'', True, Whole None None), (''state'', True, any_text),
      (''uptime_seconds'', True, counter), (''prefixes_received'', True, counter),
      (''prefixes_sent'', True, counter)] always_valid"

definition bgp_inventory :: annotation where
  "bgp_inventory = Model
     [(''local_asn'', True, Whole None None), (''router_id'', True, any_text),
      (''neighbors'', True, Items bgp_neighbor 0 None)] always_valid"

definition mpls_interface :: annotation where
  "mpls_interface = Model [(''name'', True, any_text), (''enabled'', True, Switch)] always_valid"

definition ldp_neighbor :: annotation where
  "ldp_neighbor = Model
     [(''router_id'', True, any_text), (''address'', True, any_text), (''state'', True, any_text),
      (''uptime_seconds'', True, counter)] always_valid"

definition label_switched_path :: annotation where
  "label_switched_path = Model
     [(''name'', True, any_text), (''source'', True, any_text), (''destination'', True, any_text),
      (''state'', True, any_text), (''label'', True, Whole None None)] always_valid"

definition mpls_inventory :: annotation where
  "mpls_inventory = Model
     [(''interfaces'', True, Items mpls_interface 0 None),
      (''ldp_neighbors'', True, Items ldp_neighbor 0 None),
      (''lsps'', True, Items label_switched_path 0 None)] always_valid"

definition device_inventory_model :: annotation where
  "device_inventory_model = Model (simulated_response @
     [(''device'', True, device_identity), (''access'', True, device_access),
      (''system'', True, system_inventory), (''interfaces'', True, Items interface_inventory 0 None),
      (''bgp'', True, bgp_inventory), (''mpls'', True, mpls_inventory)]) always_valid"

text \<open>
  A static route. The pattern \<open>^[^/%]+/[0-9]{1,3}$\<close> allows no second slash. The validator
  \<open>network_family\<close> replaces the two addresses by their canonical texts; \<open>None\<close> is a \<open>ValueError\<close>.
\<close>

definition destination_pattern :: "string \<Rightarrow> bool" where
  "destination_pattern s \<longleftrightarrow> prefix_shape s \<and> CHR ''%'' \<notin> set s"

definition static_route_fields :: "(string \<times> bool \<times> annotation) list" where
  "static_route_fields =
     [(''destination'', True, Text 1 (Some 64) destination_pattern),
      (''next_hop'', True, Text 1 (Some 45) anyone),
      (''interface'', False, Nullable (OneOf route_interfaces)),
      (''metric'', False, Whole (Some 0) (Some 65535)),
      (''description'', False, Text 0 (Some 200) anyone),
      (''enabled'', False, Switch)]"

definition network_family :: "dict \<Rightarrow> (ip_network \<times> ip_address) option" where
  "network_family d = (case (dget d ''destination'', dget d ''next_hop'') of
      (JStr destination, JStr next_hop) \<Rightarrow>
        (case (parse_network destination, parse_address next_hop) of
           (Some network, Some address) \<Rightarrow>
             if net_version network \<noteq> version address \<or> CHR ''%'' \<in> set next_hop then None
             else Some (network, address)
         | _ \<Rightarrow> None)
    | _ \<Rightarrow> None)"

definition static_route_write :: annotation where
  "static_route_write = Model static_route_fields (\<lambda>d. network_family d \<noteq> None)"

text \<open>\<open>model_dump()\<close> after the validator, with the defaults of the fields that are not set.\<close>

definition static_route_dump :: "dict \<Rightarrow> dict" where
  "static_route_dump d = (case network_family d of
      None \<Rightarrow> []
    | Some (network, address) \<Rightarrow>
        [(''destination'', JStr (show_network network)), (''next_hop'', JStr (show_address address)),
         (''interface'', dget d ''interface''), (''metric'', dget_or d ''metric'' (JInt 1)),
         (''description'', dget_or d ''description'' (JStr [])), (''enabled'', dget_or d ''enabled'' (JBool True))])"

definition static_route_body :: "web_library \<Rightarrow> json \<Rightarrow> json option" where
  "static_route_body lib v = (case read_body lib static_route_write v of
      Some (JObj d) \<Rightarrow> Some (JObj (static_route_dump d)) | _ \<Rightarrow> None)"

definition static_route_model :: annotation where
  "static_route_model = Model (static_route_fields @
     [(''id'', True, any_text), (''connection_id'', True, any_text)]) (\<lambda>d. network_family d \<noteq> None)"

definition static_route_collection :: annotation where
  "static_route_collection = Model (simulated_response @ [(''items'', True, Items static_route_model 0 None)]) always_valid"

definition static_route_item :: annotation where
  "static_route_item = Model (simulated_response @ [(''item'', True, static_route_model)]) always_valid"

section \<open>Audit records\<close>

definition outcomes :: "string list" where
  "outcomes = [''succeeded'', ''failed'']"

definition transaction_record :: annotation where
  "transaction_record = Model
     [(''id'', True, any_text), (''timestamp_utc'', True, any_text), (''correlation_id'', True, any_text),
      (''actor_subject'', True, any_text), (''actor_tenant_id'', False, Nullable any_text),
      (''actor_name'', True, any_text), (''actor_email'', False, Nullable any_text),
      (''actor_roles'', True, Items any_text 0 None), (''auth_mode'', True, OneOf [''entra'', ''demo'']),
      (''action'', True, any_text), (''resource_type'', True, any_text),
      (''resource_id'', False, Nullable any_text), (''connection_id'', False, Nullable any_text),
      (''outcome'', True, OneOf outcomes), (''before_state'', False, Anything), (''after_state'', False, Anything),
      (''detail'', False, Nullable any_text), (''request_method'', False, Nullable any_text),
      (''request_path'', False, Nullable any_text)] always_valid"

definition transaction_collection :: annotation where
  "transaction_collection = Model
     [(''items'', True, Items transaction_record 0 None), (''total'', True, counter)] always_valid"

end
