(* ===== verification/HttpApi.thy ===== *)
theory HttpApi
  imports ResponseModels Batches DeviceData Auth ConnectionTests
begin

text \<open>
  The management API over HTTP: \<open>app/api/routes/management.py\<close>, \<open>app/api/routes/device_data.py\<close>
  and \<open>app/api/routes/transactions.py\<close>. A request is checked against cross-site use, then its role
  and the store are looked up, then its parameters are read, then the service is called, and the
  result is read with the response model of the route; the exceptions on the way become responses.
\<close>

section \<open>Requests and responses\<close>

datatype request_body = Absent | Malformed | Parsed json

text \<open>
  A request as the routes see it. \<open>rq_path\<close> are the decoded segments after \<open>/api/v1\<close>, \<open>rq_caller\<close> is
  the answer of the authentication service, and headers that are not sent are \<open>None\<close>. \<open>rq_query\<close> has
  one entry for each parameter that was sent, with the last value sent for it.
\<close>

record web_request =
  rq_verb :: string
  rq_path :: "string list"
  rq_url_path :: string
  rq_query :: "(string \<times> string) list"
  rq_base_url :: string
  rq_origin :: "string option"
  rq_fetch_site :: "string option"
  rq_content_type :: "string option"
  rq_correlation :: "string option"
  rq_body :: request_body
  rq_caller :: "http_exn + authenticated_user"

text \<open>
  A body is a JSON value, a \<open>detail\<close> text, a file with its media type, nothing, or the fixed text of
  a refusal outside these routes (of the authentication service, or of an unhandled exception).
\<close>

datatype body = JsonBody json | Detail string | FileBody string string | NoBody | Elsewhere

record response =
  rs_status :: nat
  rs_body :: body
  rs_headers :: "(string \<times> string) list"

definition plain_response :: "nat \<Rightarrow> body \<Rightarrow> response" where
  "plain_response n b = \<lparr>rs_status = n, rs_body = b, rs_headers = []\<rparr>"

section \<open>\<open>_origin\<close> and \<open>_check_browser_mutation\<close>\<close>

text \<open>The path and the query of \<open>urlsplit\<close>, and the property \<open>port\<close>; \<open>None\<close> is a \<open>ValueError\<close>.\<close>

definition url_rest :: "string \<Rightarrow> string" where
  "url_rest url = takeWhile (\<lambda>c. c \<noteq> CHR ''#'') (snd (split_netloc (snd (split_scheme (cleaned_url url)))))"

definition url_path :: "string \<Rightarrow> string" where
  "url_path url = takeWhile (\<lambda>c. c \<noteq> CHR ''?'') (url_rest url)"

definition url_query :: "string \<Rightarrow> string" where
  "url_query url = drop 1 (dropWhile (\<lambda>c. c \<noteq> CHR ''?'') (url_rest url))"

definition url_port_text :: "string \<Rightarrow> string" where
  "url_port_text netloc =
     (let h = (case rsplit1 (CHR ''@'') netloc of Some (_, h) \<Rightarrow> h | None \<Rightarrow> netloc);
          after = (if CHR ''['' \<in> set h then drop 1 (dropWhile (\<lambda>c. c \<noteq> CHR '']'') h) else h)
      in drop 1 (dropWhile (\<lambda>c. c \<noteq> CHR '':'') after))"

definition url_port :: "string \<Rightarrow> nat option option" where
  "url_port netloc = (let p = url_port_text netloc in
     if p = [] then Some None
     else if list_all is_ascii_digit p \<and> read_nat p \<le> 65535 then Some (Some (read_nat p)) else None)"

definition default_port :: "string \<Rightarrow> nat" where
  "default_port scheme = (if scheme = ''https'' then 443 else 80)"

definition url_origin :: "string \<Rightarrow> (string \<times> string \<times> nat) option" where
  "url_origin v = (case urlsplit v of
      None \<Rightarrow> None
    | Some (scheme, netloc, fragment) \<Rightarrow>
        if scheme \<notin> {''http'', ''https''} \<or> url_hostname netloc = [] \<or> url_username netloc \<noteq> []
          \<or> url_password netloc \<noteq> [] then None
        else if url_path v \<notin> {[], ''/''} \<or> url_query v \<noteq> [] \<or> fragment \<noteq> [] then None
        else (case url_port netloc of
            None \<Rightarrow> None
          | Some port \<Rightarrow> Some (scheme, lower (url_hostname netloc),
              (case port of Some p \<Rightarrow> if p = 0 then default_port scheme else p | None \<Rightarrow> default_port scheme))))"

definition cross_origin_text :: string where
  "cross_origin_text = ''Cross-origin administrative requests are not allowed.''"

definition json_only_text :: string where
  "json_only_text = ''Administrative requests require application/json.''"

definition media_type :: "string \<Rightarrow> string" where
  "media_type content_type = lower (strip (takeWhile (\<lambda>c. c \<noteq> CHR '';'') content_type))"

definition check_browser_mutation :: "web_request \<Rightarrow> response + unit" where
  "check_browser_mutation req =
     (if rq_verb req \<in> {''GET'', ''HEAD'', ''OPTIONS''} then Inr ()
      else bindE (check (lower (optional_text (rq_fetch_site req)) \<notin> {''cross-site'', ''same-site''})
             (plain_response 403 (Detail cross_origin_text))) (\<lambda>_.
           bindE (check (case rq_origin req of None \<Rightarrow> True
               | Some origin \<Rightarrow> url_origin origin \<noteq> None \<and> url_origin origin = url_origin (rq_base_url req))
             (plain_response 403 (Detail cross_origin_text))) (\<lambda>_.
           check (rq_verb req \<in> {''POST'', ''PUT'', ''PATCH''}
               \<longrightarrow> media_type (optional_text (rq_content_type req)) = ''application/json'')
             (plain_response 415 (Detail json_only_text)))))"

section \<open>Routes\<close>

datatype route =
    GetCapabilities
  | ListProfiles resource
  | GetProfile resource string
  | CreateProfile resource
  | UpdateProfile resource string
  | DeleteProfileRow resource string
  | TestConnection string
  | CreateBatch
  | GetBatch string
  | ExportBatch string
  | GetSettings string
  | UpdateSettings string
  | GetInventory string
  | ListStaticRoutes string
  | CreateStaticRoute string
  | UpdateStaticRoute string string
  | DeleteStaticRoute string string
  | ListTransactions

definition profile_paths :: "(string \<times> resource) list" where
  "profile_paths = [(''connections'', Connections), (''proxies'', Proxies), (''role-accounts'', RoleAccounts)]"

definition resource_text :: "resource \<Rightarrow> string" where
  "resource_text res = (case res of Connections \<Rightarrow> ''connections'' | Proxies \<Rightarrow> ''proxies''
     | RoleAccounts \<Rightarrow> ''role_accounts'')"

text \<open>The decorators of the routes: paths with at least one segment, and the verb.\<close>

definition route_of_one :: "string \<Rightarrow> string \<Rightarrow> route option" where
  "route_of_one verb a =
     (if verb = ''GET'' \<and> a = ''capabilities'' then Some GetCapabilities
      else if verb = ''GET'' \<and> a = ''transactions'' then Some ListTransactions
      else if verb = ''POST'' \<and> a = ''connection-tests'' then Some CreateBatch
      else (case map_of profile_paths a of
          Some res \<Rightarrow> if verb = ''GET'' then Some (ListProfiles res)
            else if verb = ''POST'' then Some (CreateProfile res) else None
        | None \<Rightarrow> None))"

definition route_of_two :: "string \<Rightarrow> string \<Rightarrow> string \<Rightarrow> route option" where
  "route_of_two verb a i =
     (if verb = ''GET'' \<and> a = ''connection-tests'' then Some (GetBatch i)
      else if verb = ''GET'' \<and> a = ''mappings'' then Some (GetSettings i)
      else if verb = ''PUT'' \<and> a = ''mappings'' then Some (UpdateSettings i)
      else (case map_of profile_paths a of
          Some res \<Rightarrow> if verb = ''GET'' then Some (GetProfile res i)
            else if verb = ''PUT'' then Some (UpdateProfile res i)
            else if verb = ''DELETE'' then Some (DeleteProfileRow res i) else None
        | None \<Rightarrow> None))"

definition route_of_three :: "string \<Rightarrow> string \<Rightarrow> string \<Rightarrow> string \<Rightarrow> route option" where
  "route_of_three verb a i b =
     (if verb = ''POST'' \<and> a = ''connections'' \<and> b = ''test'' then Some (TestConnection i)
      else if verb = ''GET'' \<and> a = ''connection-tests'' \<and> b = ''export'' then Some (ExportBatch i)
      else if verb = ''GET'' \<and> a = ''connections'' \<and> b = ''inventory'' then Some (GetInventory i)
      else if verb = ''GET'' \<and> a = ''connections'' \<and> b = ''static-routes'' then Some (ListStaticRoutes i)
      else if verb = ''POST'' \<and> a = ''connections'' \<and> b = ''static-routes'' then Some (CreateStaticRoute i)
      else None)"

definition route_of_four :: "string \<Rightarrow> string \<Rightarrow> string \<Rightarrow> string \<Rightarrow> string \<Rightarrow> route option" where
  "route_of_four verb a i b r =
     (if verb = ''PUT'' \<and> a = ''connections'' \<and> b = ''static-routes'' then Some (UpdateStaticRoute i r)
      else if verb = ''DELETE'' \<and> a = ''connections'' \<and> b = ''static-routes'' then Some (DeleteStaticRoute i r)
      else None)"

definition route_at :: "string \<Rightarrow> string list \<Rightarrow> route option" where
  "route_at verb path = (if [] \<in> set path then None else case path of
      [a] \<Rightarrow> route_of_one verb a
    | [a, i] \<Rightarrow> route_of_two verb a i
    | [a, i, b] \<Rightarrow> route_of_three verb a i b
    | [a, i, b, r] \<Rightarrow> route_of_four verb a i b r
    | _ \<Rightarrow> None)"

text \<open>The dependency \<open>require_viewer\<close>, \<open>require_operator\<close> or \<open>require_administrator\<close> of a route.\<close>

definition needed_role :: "route \<Rightarrow> gateway_role" where
  "needed_role route = (case route of
      GetCapabilities \<Rightarrow> Viewer | ListProfiles _ \<Rightarrow> Viewer | GetProfile _ _ \<Rightarrow> Viewer
    | CreateProfile _ \<Rightarrow> Administrator | UpdateProfile _ _ \<Rightarrow> Administrator
    | DeleteProfileRow _ _ \<Rightarrow> Administrator | TestConnection _ \<Rightarrow> Operator
    | CreateBatch \<Rightarrow> Operator | GetBatch _ \<Rightarrow> Operator | ExportBatch _ \<Rightarrow> Operator
    | GetSettings _ \<Rightarrow> Administrator | UpdateSettings _ \<Rightarrow> Administrator
    | GetInventory _ \<Rightarrow> Viewer | ListStaticRoutes _ \<Rightarrow> Viewer | CreateStaticRoute _ \<Rightarrow> Operator
    | UpdateStaticRoute _ _ \<Rightarrow> Operator | DeleteStaticRoute _ _ \<Rightarrow> Operator | ListTransactions \<Rightarrow> Viewer)"

definition takes_body :: "route \<Rightarrow> bool" where
  "takes_body route = (case route of
      CreateProfile _ \<Rightarrow> True | UpdateProfile _ _ \<Rightarrow> True | TestConnection _ \<Rightarrow> True | CreateBatch \<Rightarrow> True
    | UpdateSettings _ \<Rightarrow> True | CreateStaticRoute _ \<Rightarrow> True | UpdateStaticRoute _ _ \<Rightarrow> True | _ \<Rightarrow> False)"

definition uses_device_data :: "route \<Rightarrow> bool" where
  "uses_device_data route = (case route of GetInventory _ \<Rightarrow> True | ListStaticRoutes _ \<Rightarrow> True
     | CreateStaticRoute _ \<Rightarrow> True | UpdateStaticRoute _ _ \<Rightarrow> True | DeleteStaticRoute _ _ \<Rightarrow> True
     | ListTransactions \<Rightarrow> True | _ \<Rightarrow> False)"

definition uses_batches :: "route \<Rightarrow> bool" where
  "uses_batches route = (case route of CreateBatch \<Rightarrow> True | GetBatch _ \<Rightarrow> True | ExportBatch _ \<Rightarrow> True | _ \<Rightarrow> False)"


section \<open>What a call draws and where it runs\<close>

text \<open>
  Of the process and of the library for one request: whether the configured store could be opened,
  what its two transactions draw, the correlation id it would mint, whether the executor accepts a
  job, the JSON writer of exports, and the integers the library reads from query texts.
\<close>

record surroundings =
  storage_ready :: bool
  call_draws :: draws
  record_draws :: draws
  minted_id :: string
  scheduled :: bool
  dumps :: "json \<Rightarrow> string"
  query_int :: "string \<Rightarrow> int option"

text \<open>
  The state of the application: the store, the management service built from the flags of
  \<open>app.state\<close>, and the batch service once a route has asked for it, with its own management service.
\<close>

record gateway =
  gw_store :: store
  gw_management :: management
  gw_batches :: "(management \<times> batch) option"

definition fresh_batch :: batch where
  "fresh_batch = \<lparr>bt_closed = False, bt_busy = False, bt_submitted = []\<rparr>"

text \<open>\<open>get_batch_service\<close>: created on first use; later only its provider is refreshed.\<close>

definition batch_service :: "gateway \<Rightarrow> management \<times> batch" where
  "batch_service gw = (case gw_batches gw of
      None \<Rightarrow> (gw_management gw, fresh_batch)
    | Some (mg, bt) \<Rightarrow> (mg\<lparr>mg_provider := mg_provider (gw_management gw)\<rparr>, bt))"

text \<open>
  What the function of a route leads to: a value for the response model of the route, an empty
  response, a file, a validation error of the parameters, or an \<open>HTTPException\<close>.
\<close>

datatype outcome =
    Answer nat annotation json "(string \<times> string) list"
  | Empty "(string \<times> string) list"
  | File string string "(string \<times> string) list"
  | Unprocessable
  | Refused nat string

section \<open>Parameters\<close>

text \<open>A required body; the optional body of the connection test may be missing or null.\<close>

definition body_json :: "request_body \<Rightarrow> json" where
  "body_json b = (case b of Parsed j \<Rightarrow> j | _ \<Rightarrow> JNull)"

definition with_body ::
    "web_library \<Rightarrow> annotation \<Rightarrow> web_request \<Rightarrow> (json \<Rightarrow> outcome service) \<Rightarrow> outcome service" where
  "with_body lib t req f = (case read_body lib t (body_json (rq_body req)) of
      None \<Rightarrow> returnS Unprocessable | Some payload \<Rightarrow> f payload)"

text \<open>\<open>Query(default=None, max_length=n)\<close>, a \<open>Literal\<close> query and an integer query with its bounds.\<close>

definition text_query :: "web_request \<Rightarrow> string \<Rightarrow> nat \<Rightarrow> json option" where
  "text_query req name n = (case map_of (rq_query req) name of
      None \<Rightarrow> Some JNull
    | Some s \<Rightarrow> if length s \<le> n then Some (JStr s) else None)"

definition outcome_query :: "web_request \<Rightarrow> json option" where
  "outcome_query req = (case map_of (rq_query req) ''outcome'' of
      None \<Rightarrow> Some JNull
    | Some s \<Rightarrow> if s \<in> set outcomes then Some (JStr s) else None)"

definition int_query ::
    "surroundings \<Rightarrow> web_request \<Rightarrow> string \<Rightarrow> int \<Rightarrow> int option \<Rightarrow> int option \<Rightarrow> json option" where
  "int_query en req name initial lo hi = (case map_of (rq_query req) name of
      None \<Rightarrow> Some (JInt initial)
    | Some s \<Rightarrow> (case query_int en s of
        Some i \<Rightarrow> if in_range lo hi i then Some (JInt i) else None
      | None \<Rightarrow> None))"

definition transaction_queries :: "surroundings \<Rightarrow> web_request \<Rightarrow> json list option" where
  "transaction_queries en req = those
     [text_query req ''connection_id'' 128, text_query req ''action'' 128,
      text_query req ''actor_subject'' 255, outcome_query req,
      text_query req ''from_time'' 64, text_query req ''to_time'' 64,
      int_query en req ''limit'' 50 (Some 1) (Some 200), int_query en req ''offset'' 0 (Some 0) None]"

section \<open>Functions of the routes\<close>

definition txn_dict :: "txn_row \<Rightarrow> dict" where
  "txn_dict t =
     [(''id'', JStr (tx_id t)), (''timestamp_utc'', JStr (tx_timestamp_utc t)),
      (''correlation_id'', JStr (tx_correlation_id t)), (''actor_subject'', JStr (tx_actor_subject t)),
      (''actor_tenant_id'', opt_str (tx_actor_tenant_id t)), (''actor_name'', JStr (tx_actor_name t)),
      (''actor_email'', opt_str (tx_actor_email t)), (''actor_roles'', JList (map JStr (tx_actor_roles t))),
      (''auth_mode'', JStr (tx_auth_mode t)), (''action'', JStr (tx_action t)),
      (''resource_type'', JStr (tx_resource_type t)), (''resource_id'', opt_str (tx_resource_id t)),
      (''connection_id'', opt_str (tx_connection_id t)), (''outcome'', JStr (tx_outcome t)),
      (''before_state'', tx_before_state t), (''after_state'', tx_after_state t),
      (''detail'', opt_str (tx_detail t)), (''request_method'', opt_str (tx_request_method t)),
      (''request_path'', opt_str (tx_request_path t))]"

definition page_dict :: "txn_page \<Rightarrow> dict" where
  "page_dict p = [(''items'', JList (map (\<lambda>t. JObj (txn_dict t)) (pg_items p))), (''total'', JInt (int (pg_total p))),
     (''limit'', JInt (pg_limit p)), (''offset'', JInt (pg_offset p))]"

text \<open>\<open>_public_settings\<close>: what the store holds is read with the model of its name again.\<close>

definition public_settings :: "web_library \<Rightarrow> annotation \<Rightarrow> dict \<Rightarrow> outcome service" where
  "public_settings lib t payload = (case read_body lib t (JObj payload) of
      None \<Rightarrow> raiseS (ManagementError ''Invalid stored management configuration.'' 500)
    | Some j \<Rightarrow> returnS (Answer 200 t j []))"

text \<open>The body of \<open>update_settings\<close> is first read as any of the three models.\<close>

definition read_settings :: "web_library \<Rightarrow> json \<Rightarrow> json option" where
  "read_settings lib v = (case filter (\<lambda>r. r \<noteq> None) (map (\<lambda>m. read_body lib (snd m) v) settings_models) of
      [] \<Rightarrow> None | r # _ \<Rightarrow> r)"

definition update_settings :: "web_library \<Rightarrow> string \<Rightarrow> annotation \<Rightarrow> json \<Rightarrow> outcome service" where
  "update_settings lib name t payload = (case read_body lib t payload of
      None \<Rightarrow> returnS (Refused 422 ''Invalid settings fields for the selected configuration.'')
    | Some validated \<Rightarrow> bindS (management_save_config name validated) (public_settings lib t))"

definition correlation_of :: "surroundings \<Rightarrow> web_request \<Rightarrow> string" where
  "correlation_of en req = resolve_correlation_id (rq_correlation req) (minted_id en)"

definition correlated :: "string \<Rightarrow> (string \<times> string) list" where
  "correlated cid = [(''X-Correlation-ID'', cid)]"

definition export_headers :: "string \<Rightarrow> (string \<times> string) list" where
  "export_headers filename = [(''Content-Disposition'', ''attachment; filename='' @ [CHR 0x22] @ filename @ [CHR 0x22]),
     (''X-Content-Type-Options'', ''nosniff''), (''Cache-Control'', ''no-store'')]"

text \<open>Routes of the management service.\<close>

definition management_route ::
    "web_library \<Rightarrow> services \<Rightarrow> surroundings \<Rightarrow> management \<Rightarrow> web_request \<Rightarrow> route \<Rightarrow> outcome service" where
  "management_route lib sv en mg req route = (case route of
      GetCapabilities \<Rightarrow> returnS (Answer 200 capabilities_model (JObj capabilities) [])
    | ListProfiles res \<Rightarrow> bindS (management_list sv (resource_text res))
        (\<lambda>d. returnS (Answer 200 (collection_model res) (JObj d) []))
    | GetProfile res i \<Rightarrow> bindS (management_get sv (resource_text res) (JStr i))
        (\<lambda>d. returnS (Answer 200 (public_model res) (JObj d) []))
    | CreateProfile res \<Rightarrow> with_body lib (profile_write res) req (\<lambda>payload.
        bindS (management_save sv (call_draws en) (resource_text res) payload None)
          (\<lambda>d. returnS (Answer 201 (public_model res) (JObj d) [])))
    | UpdateProfile res i \<Rightarrow> with_body lib (profile_write res) req (\<lambda>payload.
        bindS (management_save sv (call_draws en) (resource_text res) payload (Some i))
          (\<lambda>d. returnS (Answer 200 (public_model res) (JObj d) [])))
    | DeleteProfileRow res i \<Rightarrow> bindS (management_delete (resource_text res) i) (\<lambda>_. returnS (Empty []))
    | TestConnection i \<Rightarrow>
        (if body_json (rq_body req) \<noteq> JNull \<and> read_body lib connection_test_write (body_json (rq_body req)) = None
         then returnS Unprocessable
         else bindS (management_test sv mg (JStr i)) (\<lambda>d. returnS (Answer 200 test_result_model (JObj d) [])))
    | GetSettings name \<Rightarrow> (case map_of settings_models name of
          None \<Rightarrow> returnS Unprocessable
        | Some t \<Rightarrow> bindS (management_get_config name) (public_settings lib t))
    | UpdateSettings name \<Rightarrow> (case (map_of settings_models name, read_settings lib (body_json (rq_body req))) of
          (Some t, Some payload) \<Rightarrow> update_settings lib name t payload
        | _ \<Rightarrow> returnS Unprocessable)
    | _ \<Rightarrow> returnS Unprocessable)"

text \<open>Routes of the device-data and of the transactions service.\<close>

definition device_route ::
    "web_library \<Rightarrow> services \<Rightarrow> surroundings \<Rightarrow> string \<Rightarrow> authenticated_user \<Rightarrow> web_request \<Rightarrow> route \<Rightarrow> outcome service" where
  "device_route lib sv en provider user req route = (let cid = correlation_of en req in case route of
      GetInventory i \<Rightarrow> bindS (device_inventory sv provider i)
        (\<lambda>d. returnS (Answer 200 device_inventory_model (JObj d) []))
    | ListStaticRoutes i \<Rightarrow> bindS (device_list_routes sv (call_draws en) provider i)
        (\<lambda>d. returnS (Answer 200 static_route_collection (JObj d) []))
    | CreateStaticRoute i \<Rightarrow> (case static_route_body lib (body_json (rq_body req)) of
          None \<Rightarrow> returnS Unprocessable
        | Some payload \<Rightarrow> bindS (device_create_route sv (call_draws en) (record_draws en) provider i payload user cid
              (rq_verb req) (rq_url_path req))
            (\<lambda>d. returnS (Answer 201 static_route_item (JObj d) (correlated cid))))
    | UpdateStaticRoute i r \<Rightarrow> (case static_route_body lib (body_json (rq_body req)) of
          None \<Rightarrow> returnS Unprocessable
        | Some payload \<Rightarrow> bindS (device_update_route sv (call_draws en) (record_draws en) provider i r payload user cid
              (rq_verb req) (rq_url_path req))
            (\<lambda>d. returnS (Answer 200 static_route_item (JObj d) (correlated cid))))
    | DeleteStaticRoute i r \<Rightarrow> bindS (device_delete_route sv (call_draws en) (record_draws en) provider i r user cid
          (rq_verb req) (rq_url_path req)) (\<lambda>_. returnS (Empty (correlated cid)))
    | ListTransactions \<Rightarrow> (case transaction_queries en req of
          Some [connection_id, action, actor_subject, outcome, from_time, to_time, limit, offset] \<Rightarrow>
            bindS (transactions_list sv connection_id action actor_subject outcome from_time to_time limit offset)
              (\<lambda>p. returnS (Answer 200 transaction_collection (JObj (page_dict p)) []))
        | _ \<Rightarrow> returnS Unprocessable)
    | _ \<Rightarrow> returnS Unprocessable)"

text \<open>Routes of the batch service, which also change its state.\<close>

definition batch_ids :: "json \<Rightarrow> string list" where
  "batch_ids payload = (case payload of
      JObj d \<Rightarrow> (case dget d ''connection_ids'' of
          JList xs \<Rightarrow> map (\<lambda>x. case x of JStr s \<Rightarrow> s | _ \<Rightarrow> []) xs | _ \<Rightarrow> []) | _ \<Rightarrow> [])"

definition batch_route ::
    "web_library \<Rightarrow> services \<Rightarrow> surroundings \<Rightarrow> management \<Rightarrow> web_request \<Rightarrow> route \<Rightarrow> batch \<Rightarrow> (outcome \<times> batch) service" where
  "batch_route lib sv en mg req route bt = (case route of
      CreateBatch \<Rightarrow> (case read_body lib batch_write (body_json (rq_body req)) of
          None \<Rightarrow> returnS (Unprocessable, bt)
        | Some payload \<Rightarrow> bindS (batch_start sv mg (call_draws en) (scheduled en) (batch_ids payload) bt)
            (\<lambda>(job, bt). returnS (Answer 202 public_job_model (JObj job) [], bt)))
    | GetBatch i \<Rightarrow> bindS (batch_get (JStr i)) (\<lambda>job. returnS (Answer 200 public_job_model (JObj job) [], bt))
    | ExportBatch i \<Rightarrow> bindS (batch_export sv (dumps en) (JStr i)
          (case map_of (rq_query req) ''format'' of None \<Rightarrow> ''csv'' | Some f \<Rightarrow> f))
        (\<lambda>(data, media, filename). returnS (File data media (export_headers filename), bt))
    | _ \<Rightarrow> returnS (Unprocessable, bt))"

section \<open>\<open>SafeManagementRoute\<close>\<close>

definition invalid_fields :: response where
  "invalid_fields = plain_response 422 (Detail ''Invalid request fields.'')"

definition storage_unavailable :: response where
  "storage_unavailable = plain_response 503 (Detail ''Management storage is unavailable.'')"

definition unhandled :: response where
  "unhandled = plain_response 500 Elsewhere"

text \<open>An exception of the role dependency: the text of the 403 is the one of \<open>require_role\<close>.\<close>

definition role_refusal :: "http_exn \<Rightarrow> response" where
  "role_refusal e = (case e of
      HTTPException n \<Rightarrow> plain_response n (if n = 403 then Detail ''Insufficient role.'' else Elsewhere) | _ \<Rightarrow> unhandled)"

definition respond :: "web_library \<Rightarrow> service_error + outcome \<Rightarrow> response" where
  "respond lib r = (case r of
      Inl (ManagementError m n) \<Rightarrow> plain_response n (Detail m)
    | Inl (Raised e) \<Rightarrow> unhandled
    | Inr (Answer n t j hs) \<Rightarrow> (case render lib t j of
          None \<Rightarrow> plain_response 500 (Detail ''Invalid management response.'')
        | Some u \<Rightarrow> (plain_response n (JsonBody u))\<lparr>rs_headers := hs\<rparr>)
    | Inr (Empty hs) \<Rightarrow> (plain_response 204 NoBody)\<lparr>rs_headers := hs\<rparr>
    | Inr (File data media hs) \<Rightarrow> (plain_response 200 (FileBody data media))\<lparr>rs_headers := hs\<rparr>
    | Inr Unprocessable \<Rightarrow> invalid_fields
    | Inr (Refused n m) \<Rightarrow> plain_response n (Detail m))"

text \<open>
  The \<open>response_model\<close> of a route with one; the two routes of the configurations answer with the
  model of their name.
\<close>

definition answer_model :: "route \<Rightarrow> annotation" where
  "answer_model route = (case route of
      GetCapabilities \<Rightarrow> capabilities_model
    | ListProfiles res \<Rightarrow> collection_model res
    | GetProfile res _ \<Rightarrow> public_model res
    | CreateProfile res \<Rightarrow> public_model res
    | UpdateProfile res _ \<Rightarrow> public_model res
    | TestConnection _ \<Rightarrow> test_result_model
    | CreateBatch \<Rightarrow> public_job_model
    | GetBatch _ \<Rightarrow> public_job_model
    | GetInventory _ \<Rightarrow> device_inventory_model
    | ListStaticRoutes _ \<Rightarrow> static_route_collection
    | CreateStaticRoute _ \<Rightarrow> static_route_item
    | UpdateStaticRoute _ _ \<Rightarrow> static_route_item
    | ListTransactions \<Rightarrow> transaction_collection
    | _ \<Rightarrow> connection_test_write)"

text \<open>The dependency on the service, then the function of the route.\<close>

definition call_route ::
    "web_library \<Rightarrow> services \<Rightarrow> surroundings \<Rightarrow> authenticated_user \<Rightarrow> web_request \<Rightarrow> route \<Rightarrow> gateway \<Rightarrow>
       (service_error + outcome) \<times> gateway" where
  "call_route lib sv en user req route gw =
     (if uses_batches route then
        (let (mg, bt) = batch_service gw; gw = gw\<lparr>gw_batches := Some (mg, bt)\<rparr> in
         case batch_route lib sv en mg req route bt (gw_store gw) of
           (Inl e, st) \<Rightarrow> (Inl e, gw\<lparr>gw_store := st\<rparr>)
         | (Inr (out, bt'), st) \<Rightarrow> (Inr out, gw\<lparr>gw_store := st, gw_batches := Some (mg, bt')\<rparr>))
      else
        (case (if uses_device_data route
               then device_route lib sv en (mg_provider (gw_management gw)) user req route
               else management_route lib sv en (gw_management gw) req route) (gw_store gw) of
           (r, st) \<Rightarrow> (r, gw\<lparr>gw_store := st\<rparr>)))"

text \<open>
  One request. The body of a request is parsed before the dependencies run, its fields are read
  after them. \<open>None\<close> is a path and verb that these routes do not serve.
\<close>

definition serve ::
    "web_library \<Rightarrow> services \<Rightarrow> surroundings \<Rightarrow> web_request \<Rightarrow> gateway \<Rightarrow> response option \<times> gateway" where
  "serve lib sv en req gw = (case route_at (rq_verb req) (rq_path req) of
      None \<Rightarrow> (None, gw)
    | Some route \<Rightarrow>
        (case check_browser_mutation req of
           Inl refused \<Rightarrow> (Some refused, gw)
         | Inr _ \<Rightarrow>
            if takes_body route \<and> rq_body req = Malformed then (Some invalid_fields, gw)
            else (case require_role (needed_role route) (rq_caller req) of
                Inl e \<Rightarrow> (Some (role_refusal e), gw)
              | Inr user \<Rightarrow>
                  if route \<noteq> GetCapabilities \<and> \<not> storage_ready en then (Some storage_unavailable, gw)
                  else (case call_route lib sv en user req route gw of
                      (r, gw') \<Rightarrow> (Some (respond lib r), gw')))))"

section \<open>Life cycle\<close>

text \<open>
  The exit of \<open>lifespan\<close> in \<open>app/main.py\<close>: \<open>shutdown_management\<close> stops the batch service (its worker
  has ended when the call returns), then the store is closed.
\<close>

definition shutdown_management :: "gateway \<Rightarrow> gateway" where
  "shutdown_management gw = (case gw_batches gw of
      None \<Rightarrow> gw | Some (mg, bt) \<Rightarrow> gw\<lparr>gw_batches := Some (mg, batch_shutdown bt)\<rparr>)"

definition leave_lifespan :: "gateway \<Rightarrow> gateway" where
  "leave_lifespan gw = (let gw = shutdown_management gw in
     gw\<lparr>gw_store := close_store (gw_store gw), gw_batches := None\<rparr>)"

end
