(* ===== verification/ModelLaws.thy ===== *)
theory ModelLaws
  imports ResponseModels
begin

text \<open>
  The request models against the validators of the store: the two descriptions of an operational
  configuration accept the same objects, an accepted route is accepted by the store with the same
  canonical addresses, and an accepted profile leaves the store nothing to refuse that the model
  declares.
\<close>

section \<open>Reading a declaration\<close>

lemma accepts_fields_iff:
  "accepts_fields fs d \<longleftrightarrow> (\<forall>(k, required, t) \<in> set fs.
     case map_of d k of None \<Rightarrow> \<not> required | Some v \<Rightarrow> accepts t v)"
  by (induction fs) (auto split: option.splits)

lemma accepted_field:
  assumes "accepts (Model fs ok) (JObj d)" and "(k, required, t) \<in> set fs"
  shows "dhas d k \<Longrightarrow> accepts t (dget d k)" and "required \<Longrightarrow> dhas d k"
  using assms by (auto simp: accepts_fields_iff dhas_def dget_def split: option.splits)

lemma accepted_keys: "accepts (Model fs ok) (JObj d) \<Longrightarrow> fst ` set d \<subseteq> fst ` set fs"
  by (auto simp: list_all_iff)

lemma accepts_Model: "accepts (Model fs ok) v \<longleftrightarrow>
    (\<exists>d. v = JObj d \<and> fst ` set d \<subseteq> fst ` set fs \<and> accepts_fields fs d \<and> ok d)"
  by (cases v) (auto simp: list_all_iff)

lemma keys_dump_fields: "fst ` set (dump_fields fs d) \<subseteq> fst ` set fs"
  by (induction fs) (auto split: option.splits)

lemma map_of_dump_fields:
  "distinct (map fst fs) \<Longrightarrow> map_of (dump_fields fs d) k = (case map_of fs k of
      None \<Rightarrow> None | Some f \<Rightarrow> map_option (dump (snd f)) (map_of d k))"
proof (induction fs)
  case (Cons f fs)
  have "map_of (dump_fields fs d) (fst f) = None"
    using keys_dump_fields [of fs d] Cons.prems by (auto simp: map_of_eq_None_iff image_iff)
  then show ?case using Cons by (cases f) (auto simp: map_add_def split: option.splits)
qed simp

lemma wf_dump_fields: "distinct (map fst fs) \<Longrightarrow> wf_dict (dump_fields fs d)"
proof (induction fs)
  case (Cons f fs)
  then have "fst f \<notin> fst ` set (dump_fields fs d)" using keys_dump_fields [of fs d] by auto
  then show ?case using Cons by (auto simp: wf_dict_def split: option.splits)
qed (simp add: wf_dict_def)

lemma dump_dget:
  assumes "distinct (map fst fs)" and "map_of fs k = Some (r, t)"
  shows "dhas (dump_fields fs d) k = dhas d k"
    and "dhas d k \<Longrightarrow> dget (dump_fields fs d) k = dump t (dget d k)"
    and "\<not> dhas d k \<Longrightarrow> dget (dump_fields fs d) k = JNull"
  using assms by (auto simp: map_of_dump_fields dhas_def dget_def)

text \<open>Everything but a nested model is dumped as it is.\<close>

primrec flat :: "annotation \<Rightarrow> bool" where
  "flat (Text lo hi p) = True"
| "flat (OneOf ws) = True"
| "flat (Whole lo hi) = True"
| "flat Switch = True"
| "flat Always = True"
| "flat Duration = True"
| "flat Anything = True"
| "flat (Nullable t) = flat t"
| "flat (Items t lo hi) = flat t"
| "flat (Entries k t lo hi) = flat t"
| "flat (Model fs ok) = False"

lemma dump_flat: "flat t \<Longrightarrow> dump t v = v"
proof (induction t arbitrary: v)
  case (Items t lo hi)
  then show ?case by (cases v) (auto intro!: map_idI)
next
  case (Entries k t lo hi)
  then show ?case by (cases v) (auto intro!: map_idI)
qed auto

section \<open>Operational configurations\<close>

lemma identifier_field: "accepts metadata_identifier_field v \<longleftrightarrow> metadata_identifier v"
  by (cases v) (auto simp: metadata_identifier_field_def metadata_identifier_def identifier_pattern_def
      not_none_word_def at_most_def split: list.splits)

lemma key_field: "accepts mapping_key_field (JStr s) \<longleftrightarrow> mapping_key_ok s"
  by (auto simp: mapping_key_field_def mapping_key_ok_def mapping_key_check_def at_most_def list_all_iff
      list_ex_iff not_less Suc_le_eq)

lemma class_names: "client_class_names = client_classes"
  by (simp add: client_class_names_def client_classes_def)

lemma client_value: "accepts (OneOf client_class_names) v \<longleftrightarrow> mapping_value_check ''client_mapping'' v = Inr ()"
  by (simp add: mapping_value_client class_names)

lemma proxy_value: "accepts (Nullable proxy_host_field) v \<longleftrightarrow> mapping_value_check ''proxy_mapping'' v = Inr ()"
  by (cases v) (auto simp: mapping_value_check_def check_eq_Inr proxy_host_field_def proxy_host_pattern_def
      host_char_def [abs_def] at_most_def Suc_le_eq)

lemma mapE_unit: "(\<exists>us. mapE f xs = Inr (us :: unit list)) \<longleftrightarrow> (\<forall>x \<in> set xs. f x = Inr ())"
proof (induction xs)
  case (Cons x xs)
  then show ?case by (auto simp: bindE_eq_Inr)
qed simp

text \<open>What both descriptions of a mapping ask of its columns and its entries.\<close>

definition mapping_shape :: "string \<Rightarrow> json list \<Rightarrow> dict \<Rightarrow> bool" where
  "mapping_shape name columns mappings \<longleftrightarrow>
     1 \<le> length columns \<and> length columns \<le> 8 \<and> list_all metadata_identifier columns \<and> distinct columns
     \<and> length mappings \<le> 1000 \<and> \<not> (name = ''client_mapping'' \<and> mappings = [])
     \<and> (\<forall>p \<in> set mappings. mapping_key_ok (fst p) \<and> mapping_value_check name (snd p) = Inr ())"

lemma validate_mapping_shape:
  "validate_mapping name d = Inr q \<longleftrightarrow> set (map fst d) = {''key_columns'', ''map''}
     \<and> (\<exists>columns mappings. dget d ''key_columns'' = JList columns \<and> dget d ''map'' = JObj mappings
          \<and> mapping_shape name columns mappings \<and> q = [(''key_columns'', JList columns), (''map'', JObj mappings)])"
proof -
  have entries: "(\<exists>us. mapE (\<lambda>p. bindE (check (mapping_key_ok (fst p)) (bad_config InvalidMappingKey))
         (\<lambda>_. mapping_value_check name (snd p))) mappings = Inr us) \<longleftrightarrow>
       (\<forall>p \<in> set mappings. mapping_key_ok (fst p) \<and> mapping_value_check name (snd p) = Inr ())" for mappings
    unfolding mapE_unit by (auto simp: bindE_eq_Inr check_eq_Inr)
  show ?thesis
    by (auto simp: validate_mapping_def mapping_shape_def result_simps entries split: json.splits if_splits)
qed

lemma columns_field: "accepts (Items metadata_identifier_field 1 (Some 8)) v \<longleftrightarrow>
    (\<exists>columns. v = JList columns \<and> 1 \<le> length columns \<and> length columns \<le> 8 \<and> list_all metadata_identifier columns)"
  by (cases v) (auto simp: at_most_def identifier_field list_all_iff)

lemma client_entries: "accepts (Entries mapping_key_field (OneOf client_class_names) 1 1000) v \<longleftrightarrow>
    (\<exists>m. v = JObj m \<and> m \<noteq> [] \<and> length m \<le> 1000
       \<and> (\<forall>p \<in> set m. mapping_key_ok (fst p) \<and> mapping_value_check ''client_mapping'' (snd p) = Inr ()))"
  by (cases v) (auto simp: list_all_iff key_field client_value [symmetric] Suc_le_eq simp del: accepts.simps(2))

lemma proxy_entries: "accepts (Entries mapping_key_field (Nullable proxy_host_field) 0 1000) v \<longleftrightarrow>
    (\<exists>m. v = JObj m \<and> length m \<le> 1000
       \<and> (\<forall>p \<in> set m. mapping_key_ok (fst p) \<and> mapping_value_check ''proxy_mapping'' (snd p) = Inr ()))"
  by (cases v) (auto simp: list_all_iff key_field proxy_value [symmetric] simp del: accepts.simps(8))

lemma two_keys:
  "set (map fst d) = {a, b} \<longleftrightarrow> fst ` set d \<subseteq> {a, b} \<and> dhas d a \<and> dhas d b"
  by (auto simp: dhas_iff_key)

lemma two_field_model:
  "accepts (Model [(a, True, s), (b, True, t)] ok) (JObj d) \<longleftrightarrow>
     set (map fst d) = {a, b} \<and> accepts s (dget d a) \<and> accepts t (dget d b) \<and> ok d"
proof -
  have "list_all (\<lambda>p. fst p \<in> fst ` set [(a, True, s), (b, True, t)]) d \<longleftrightarrow> fst ` set d \<subseteq> {a, b}"
    by (auto simp: list_all_iff)
  moreover have "accepts_fields [(a, True, s), (b, True, t)] d \<longleftrightarrow>
      dhas d a \<and> dhas d b \<and> accepts s (dget d a) \<and> accepts t (dget d b)"
    by (auto simp: dhas_def dget_def split: option.splits)
  ultimately show ?thesis unfolding two_keys by (simp only: accepts.simps json.case) blast
qed

lemma unique_columns_list: "dget d ''key_columns'' = JList columns \<Longrightarrow> unique_columns d = distinct columns"
  by (simp add: unique_columns_def)

lemma mapping_model_shape:
  assumes "\<And>v. accepts entries v \<longleftrightarrow> (\<exists>m. v = JObj m \<and> entries_ok m)"
    and "\<And>columns m. mapping_shape name columns m \<longleftrightarrow> 1 \<le> length columns \<and> length columns \<le> 8
       \<and> list_all metadata_identifier columns \<and> distinct columns \<and> entries_ok m"
  shows "accepts (Model [(''key_columns'', True, Items metadata_identifier_field 1 (Some 8)), (''map'', True, entries)]
      unique_columns) (JObj d) \<longleftrightarrow> set (map fst d) = {''key_columns'', ''map''}
     \<and> (\<exists>columns mappings. dget d ''key_columns'' = JList columns \<and> dget d ''map'' = JObj mappings
          \<and> mapping_shape name columns mappings)"
proof -
  have pair: "((\<exists>c. x = JList c \<and> P c) \<and> (\<exists>m. y = JObj m \<and> Q m) \<and> u) \<longleftrightarrow>
      (\<exists>c m. x = JList c \<and> y = JObj m \<and> P c \<and> Q m \<and> u)" for x y P Q u
    by blast
  have eq: "(1 \<le> length c \<and> length c \<le> 8 \<and> list_all metadata_identifier c) \<and> entries_ok m \<and> unique_columns d
      \<longleftrightarrow> mapping_shape name c m" if "dget d ''key_columns'' = JList c" for c m
    unfolding assms(2) unique_columns_list [OF that] by argo
  show ?thesis
    unfolding two_field_model columns_field assms(1) pair using eq by (intro conj_cong refl) metis
qed

lemma client_model_shape:
  "accepts client_mapping_settings (JObj d) \<longleftrightarrow> set (map fst d) = {''key_columns'', ''map''}
     \<and> (\<exists>columns mappings. dget d ''key_columns'' = JList columns \<and> dget d ''map'' = JObj mappings
          \<and> mapping_shape ''client_mapping'' columns mappings)"
  unfolding client_mapping_settings_def mapping_settings_def append_Cons append_Nil
  by (rule mapping_model_shape) (rule client_entries, simp add: mapping_shape_def, argo)

lemma proxy_model_shape:
  "accepts proxy_mapping_settings (JObj d) \<longleftrightarrow> set (map fst d) = {''key_columns'', ''map''}
     \<and> (\<exists>columns mappings. dget d ''key_columns'' = JList columns \<and> dget d ''map'' = JObj mappings
          \<and> mapping_shape ''proxy_mapping'' columns mappings)"
  unfolding proxy_mapping_settings_def mapping_settings_def append_Cons append_Nil
  by (rule mapping_model_shape) (rule proxy_entries, simp add: mapping_shape_def)

lemma validate_lookup_shape:
  "validate_lookup d = Inr q \<longleftrightarrow> set (map fst d) = {''table'', ''search_column''}
     \<and> list_all (\<lambda>p. metadata_identifier (snd p)) d \<and> q = d"
  by (auto simp: validate_lookup_def result_simps)

lemma lookup_model_shape:
  "accepts device_lookup_settings (JObj d) \<longleftrightarrow> set (map fst d) = {''table'', ''search_column''}
     \<and> metadata_identifier (dget d ''table'') \<and> metadata_identifier (dget d ''search_column'')"
  by (simp only: device_lookup_settings_def two_field_model identifier_field always_valid_def simp_thms)

lemma settings_cases:
  assumes "(name, t) \<in> set settings_models"
  obtains "name = ''device_lookup''" "t = device_lookup_settings"
    | "name = ''client_mapping''" "t = client_mapping_settings"
    | "name = ''proxy_mapping''" "t = proxy_mapping_settings"
  using assms by (auto simp: settings_models_def)

lemma two_field_dump:
  assumes "accepts (Model [(a, True, s), (b, True, u)] ok) (JObj d)" and "flat s" and "flat u"
  shows "dump (Model [(a, True, s), (b, True, u)] ok) (JObj d) = JObj [(a, dget d a), (b, dget d b)]"
proof -
  have "dhas d a" "dhas d b" using assms(1) unfolding two_field_model two_keys by blast+
  then show ?thesis using assms(2,3) by (auto simp: dump_flat dhas_def dget_def)
qed

lemma flat_fields: "flat metadata_identifier_field" "flat mapping_key_field" "flat proxy_host_field"
  by (simp_all add: metadata_identifier_field_def mapping_key_field_def proxy_host_field_def)

lemma lookup_dump: "accepts device_lookup_settings (JObj d) \<Longrightarrow>
    dump device_lookup_settings (JObj d) = JObj [(''table'', dget d ''table''), (''search_column'', dget d ''search_column'')]"
  unfolding device_lookup_settings_def by (rule two_field_dump) (simp_all add: flat_fields)

lemma client_dump: "accepts client_mapping_settings (JObj d) \<Longrightarrow>
    dump client_mapping_settings (JObj d) = JObj [(''key_columns'', dget d ''key_columns''), (''map'', dget d ''map'')]"
  unfolding client_mapping_settings_def mapping_settings_def append_Cons append_Nil
  by (rule two_field_dump) (simp_all add: flat_fields)

lemma proxy_dump: "accepts proxy_mapping_settings (JObj d) \<Longrightarrow>
    dump proxy_mapping_settings (JObj d) = JObj [(''key_columns'', dget d ''key_columns''), (''map'', dget d ''map'')]"
  unfolding proxy_mapping_settings_def mapping_settings_def append_Cons append_Nil
  by (rule two_field_dump) (simp_all add: flat_fields)

lemma settings_kinds:
  assumes "(name, t) \<in> set settings_models"
  obtains (Lookup) "\<And>d. validate_config name (JObj d) = validate_lookup d" and "t = device_lookup_settings"
      and "\<And>d. accepts t (JObj d) \<longleftrightarrow> set (map fst d) = {''table'', ''search_column''}
         \<and> metadata_identifier (dget d ''table'') \<and> metadata_identifier (dget d ''search_column'')"
      and "\<And>d. accepts t (JObj d) \<Longrightarrow>
         dump t (JObj d) = JObj [(''table'', dget d ''table''), (''search_column'', dget d ''search_column'')]"
    | (Mapping) "\<And>d. validate_config name (JObj d) = validate_mapping name d"
      and "\<And>d. accepts t (JObj d) \<longleftrightarrow> set (map fst d) = {''key_columns'', ''map''}
         \<and> (\<exists>columns mappings. dget d ''key_columns'' = JList columns \<and> dget d ''map'' = JObj mappings
              \<and> mapping_shape name columns mappings)"
      and "\<And>d. accepts t (JObj d) \<Longrightarrow>
         dump t (JObj d) = JObj [(''key_columns'', dget d ''key_columns''), (''map'', dget d ''map'')]"
  using assms
proof (cases rule: settings_cases)
  case 1
  then have "validate_config name (JObj d) = validate_lookup d" for d
    by (simp add: validate_config_def config_names_def)
  then show thesis by (rule Lookup) (unfold 1, rule refl, rule lookup_model_shape, erule lookup_dump)
next
  case 2
  then have "validate_config name (JObj d) = validate_mapping name d" for d
    by (simp add: validate_config_def config_names_def)
  then show thesis by (rule Mapping) (unfold 2, rule client_model_shape, erule client_dump)
next
  case 3
  then have "validate_config name (JObj d) = validate_mapping name d" for d
    by (simp add: validate_config_def config_names_def)
  then show thesis by (rule Mapping) (unfold 3, rule proxy_model_shape, erule proxy_dump)
qed

lemma validate_mapping_iff:
  "(\<exists>q. validate_mapping name d = Inr q) \<longleftrightarrow> set (map fst d) = {''key_columns'', ''map''}
     \<and> (\<exists>columns mappings. dget d ''key_columns'' = JList columns \<and> dget d ''map'' = JObj mappings
          \<and> mapping_shape name columns mappings)"
proof -
  have "(\<exists>q. A \<and> (\<exists>c m. P c \<and> Q m \<and> R c m \<and> q = f c m)) \<longleftrightarrow> A \<and> (\<exists>c m. P c \<and> Q m \<and> R c m)" for A P Q R f
    by blast
  then show ?thesis unfolding validate_mapping_shape by simp
qed

lemma identifiers_of_keys:
  "wf_dict d \<Longrightarrow> list_all (\<lambda>p. metadata_identifier (snd p)) d \<longleftrightarrow> (\<forall>k \<in> set (map fst d). metadata_identifier (dget d k))"
  by (auto simp: list_all_iff wf_dict_def dget_def)

lemma identifiers_at_keys:
  assumes "list_all (\<lambda>p. metadata_identifier (snd p)) d" and "k \<in> set (map fst d)"
  shows "metadata_identifier (dget d k)"
proof -
  obtain x where "map_of d k = Some x" using assms(2) by (cases "map_of d k") (auto simp: map_of_eq_None_iff)
  then show ?thesis using assms(1) map_of_SomeD [of d k x] by (auto simp: dget_def list_all_iff)
qed

text \<open>What the store has validated, the model accepts.\<close>

lemma validated_settings_accepted:
  assumes "(name, t) \<in> set settings_models" and "validate_config name v = Inr q"
  shows "accepts t (JObj q)"
proof -
  obtain d where v: "v = JObj d"
    using assms(2) by (auto simp: validate_config_def result_simps split: json.splits)
  show ?thesis
    using assms(1)
  proof (cases rule: settings_kinds)
    case Lookup
    then have "set (map fst d) = {''table'', ''search_column''}" "list_all (\<lambda>p. metadata_identifier (snd p)) d" "q = d"
      using assms(2) by (simp_all only: v validate_lookup_shape)
    then show ?thesis using identifiers_at_keys [of d] by (simp only: Lookup(3)) simp
  next
    case Mapping
    then have "validate_mapping name d = Inr q" using assms(2) by (simp only: v)
    then obtain columns mappings where "mapping_shape name columns mappings"
      and q: "q = [(''key_columns'', JList columns), (''map'', JObj mappings)]"
      unfolding validate_mapping_shape by blast
    moreover have "dget q ''key_columns'' = JList columns" "dget q ''map'' = JObj mappings"
      "set (map fst q) = {''key_columns'', ''map''}"
      by (simp_all add: q dget_Cons)
    ultimately show ?thesis unfolding Mapping(2) by blast
  qed
qed

lemma accepted_settings_validate:
  assumes "(name, t) \<in> set settings_models" and "wf_dict d"
  shows "accepts t (JObj d) \<longleftrightarrow> (\<exists>q. validate_config name (JObj d) = Inr q)"
  using assms(1)
proof (cases rule: settings_kinds)
  case Lookup
  have "(\<exists>q. validate_lookup d = Inr q) \<longleftrightarrow> set (map fst d) = {''table'', ''search_column''}
      \<and> list_all (\<lambda>p. metadata_identifier (snd p)) d"
    unfolding validate_lookup_shape by simp
  then show ?thesis
    unfolding Lookup(1,3) identifiers_of_keys [OF assms(2)]
    by (simp only:) (intro conj_cong refl, simp only: ball_simps simp_thms)
next
  case Mapping
  then show ?thesis by (simp only: validate_mapping_iff)
qed

lemma dumped_settings:
  assumes "(name, t) \<in> set settings_models" and acc: "accepts t (JObj d)"
  shows "\<exists>q. dump t (JObj d) = JObj q \<and> validate_config name (JObj q) = Inr q
       \<and> accepts t (JObj q) \<and> dump t (JObj q) = JObj q"
  using assms(1)
proof (cases rule: settings_kinds)
  case Lookup
  define q where "q = [(''table'', dget d ''table''), (''search_column'', dget d ''search_column'')]"
  have q: "set (map fst q) = {''table'', ''search_column''}" "dget q ''table'' = dget d ''table''"
    "dget q ''search_column'' = dget d ''search_column''"
    by (simp_all add: q_def dget_Cons)
  then have "accepts t (JObj q)" using acc by (simp only: Lookup(3))
  moreover have "validate_config name (JObj q) = Inr q"
    using acc q(1) by (simp only: Lookup(1,3) validate_lookup_shape) (simp add: q_def)
  moreover have "dump t (JObj d) = JObj q" "dump t (JObj q) = JObj q"
    using Lookup(4) [OF acc] Lookup(4) [OF \<open>accepts t (JObj q)\<close>] by (simp_all only: q q_def [symmetric])
  ultimately show ?thesis by blast
next
  case Mapping
  define q where "q = [(''key_columns'', dget d ''key_columns''), (''map'', dget d ''map'')]"
  have q: "set (map fst q) = {''key_columns'', ''map''}" "dget q ''key_columns'' = dget d ''key_columns''"
    "dget q ''map'' = dget d ''map''"
    by (simp_all add: q_def dget_Cons)
  then have "accepts t (JObj q)" using acc by (simp only: Mapping(2))
  moreover from this obtain columns mappings where f: "dget q ''key_columns'' = JList columns"
    "dget q ''map'' = JObj mappings" "mapping_shape name columns mappings"
    unfolding Mapping(2) by blast
  then have "dget d ''key_columns'' = JList columns" "dget d ''map'' = JObj mappings"
    unfolding q by simp_all
  then have "q = [(''key_columns'', JList columns), (''map'', JObj mappings)]"
    unfolding q_def by simp
  then have "validate_config name (JObj q) = Inr q"
    unfolding Mapping(1) validate_mapping_shape using q(1) f by blast
  moreover have "dump t (JObj d) = JObj q" "dump t (JObj q) = JObj q"
    using Mapping(3) [OF acc] Mapping(3) [OF \<open>accepts t (JObj q)\<close>] by (simp_all only: q q_def [symmetric])
  ultimately show ?thesis by blast
qed

text \<open>
  C26. The model of an operational configuration at the HTTP boundary and the
  validator of the store agree: they accept the same objects, and the fields the model dumps of an
  accepted object are validated by the store without a change.
\<close>

theorem settings_models_agree:
  assumes "(name, t) \<in> set settings_models" and "wf_dict d"
  shows "(accepts t (JObj d) \<longleftrightarrow> (\<exists>q. validate_config name (JObj d) = Inr q))
     \<and> (accepts t (JObj d) \<longrightarrow> (\<exists>q. dump t (JObj d) = JObj q \<and> validate_config name (JObj q) = Inr q
          \<and> accepts t (JObj q) \<and> dump t (JObj q) = JObj q))"
  using accepted_settings_validate [OF assms] dumped_settings [OF assms(1)] by blast

end
