(* ===== verification/GatewayLaws.thy ===== *)
theory GatewayLaws
  imports HttpApi BatchLaws DeviceDataLaws ModelLaws
begin

text \<open>
  The store as its clients share it. Every operation the services call keeps the invariants of all
  components at once: the profiles stay readable, the routes owned and canonical, the jobs in
  agreement with their snapshots, jobs only progress, and the audit log only grows. The rules below
  compose, so that the same follows for the services and for whole requests.
\<close>

section \<open>One step of the database\<close>

definition gateway_ok :: "services \<Rightarrow> db \<Rightarrow> bool" where
  "gateway_ok sv d \<longleftrightarrow> profiles_ok sv d \<and> routes_ok d \<and> jobs_consistent sv d"

definition evolves :: "services \<Rightarrow> db \<Rightarrow> db \<Rightarrow> bool" where
  "evolves sv d d' \<longleftrightarrow> gateway_ok sv d' \<and> history d d' \<and> prefix (gateway_transactions d) (gateway_transactions d')"

lemma evolves_refl: "gateway_ok sv d \<Longrightarrow> evolves sv d d"
  by (simp add: evolves_def history_app [of _ _ "[]"])

lemma evolves_trans: "evolves sv a b \<Longrightarrow> evolves sv b c \<Longrightarrow> evolves sv a c"
  unfolding evolves_def by (blast intro: history_trans prefix_order.trans)

lemma gateway_ok_schema: "gateway_ok sv d \<Longrightarrow> schema_ok d"
  by (simp add: gateway_ok_def profiles_ok_def)

lemma gateway_ok_parts:
  "gateway_ok sv d \<longleftrightarrow> schema_ok d \<and> readable sv d
     \<and> list_all (\<lambda>r. rt_connection_id r \<in> set (route_inits d)) (static_routes d)
     \<and> list_all (job_consistent sv) (jobs d)"
  by (auto simp: gateway_ok_def profiles_ok_def routes_ok_def jobs_consistent_def)

lemma readable_cong:
  "role_accounts d' = role_accounts d \<Longrightarrow> proxies d' = proxies d \<Longrightarrow> connections d' = connections d \<Longrightarrow>
     readable sv d' = readable sv d"
  by (simp add: readable_def)

lemma history_same: "jobs d' = jobs d \<Longrightarrow> history d d'"
  by (simp add: history_app [of _ _ "[]"])

text \<open>Profiles: a save leaves the routes and the jobs, a delete takes a connection's routes with it.\<close>

lemma save_body_frame:
  assumes "save_body sv fresh res payload item_id d = Inr (p, d')"
  shows "route_inits d' = route_inits d \<and> static_routes d' = static_routes d \<and> jobs d' = jobs d
     \<and> gateway_transactions d' = gateway_transactions d"
  using assms
  by (cases res) (auto simp: save_body_def write_row_def Let_def result_simps execute_eq_Inr)

lemma save_evolves:
  assumes "vault_law sv" and "gateway_ok sv d" and "save_body sv fresh res payload item_id d = Inr (p, d')"
  shows "evolves sv d d'"
proof -
  have "profiles_ok sv d'" using save_body_keeps(1) [OF assms(3) _ assms(1)] assms(2) by (simp add: gateway_ok_def)
  then show ?thesis
    using save_body_frame [OF assms(3)] assms(2)
    by (simp add: evolves_def gateway_ok_parts profiles_ok_def history_same)
qed

lemma delete_evolves:
  assumes "gateway_ok sv d" and "delete_body res i d = Inr (u, d')"
  shows "evolves sv d d'"
proof -
  have d: "\<not> referenced res i d" "d' = delete_row res i d"
    using assms(2) delete_body_exact [OF gateway_ok_schema [OF assms(1)], of res i] by (auto split: if_splits)
  have "schema_ok d'" "readable sv d'"
    using assms(1) schema_delete [OF _ d(1)] readable_delete d(2) by (simp_all add: gateway_ok_parts)
  moreover have "jobs d' = jobs d" "gateway_transactions d' = gateway_transactions d"
    by (cases res; simp add: d delete_row_def)+
  moreover have "list_all (\<lambda>r. rt_connection_id r \<in> set (route_inits d')) (static_routes d')"
    using assms(1) by (cases res) (auto simp: d delete_row_def gateway_ok_parts list_all_iff)
  ultimately show ?thesis using assms(1) by (simp add: evolves_def gateway_ok_parts history_same)
qed

text \<open>Routes and the audit log.\<close>

lemma touches_only_evolves:
  assumes "gateway_ok sv d" and "touches_only c d d'" and "routes_ok d'"
  shows "evolves sv d d'"
  using assms readable_cong [of d' d sv]
  by (simp add: evolves_def gateway_ok_parts touches_only_def routes_ok_def history_same)

lemma insertion_evolves:
  assumes "gateway_ok sv d" and "insert_transaction dr v d = Inr (row, d')"
  shows "evolves sv d d'"
proof -
  have d': "d' = d\<lparr>gateway_transactions := gateway_transactions d @ [row]\<rparr>"
    using insert_transaction_Inr(1) [OF assms(2)] .
  have "routes_ok d'"
    using audited_step_keeps [of d sv "(AppendRecord v, dr)" "()" d'] assms
    by (simp add: gateway_ok_def audited_step_def)
  then show ?thesis
    using assms(1) readable_cong [of d' d sv]
    by (simp add: evolves_def gateway_ok_parts routes_ok_def history_same d')
qed

lemma route_row_evolves:
  assumes "gateway_ok sv d"
  shows "list_routes_body sv u c d = Inr (rows, d') \<Longrightarrow> evolves sv d d'"
    and "create_static_route_row sv u c p d = Inr (r, d') \<Longrightarrow> evolves sv d d'"
    and "update_static_route_row sv u c i p d = Inr (ba, d') \<Longrightarrow> evolves sv d d'"
    and "delete_static_route_row sv u c i d = Inr (r, d') \<Longrightarrow> evolves sv d d'"
proof -
  have step: "evolves sv d d'" if "route_step sv cmd d = Inr (x, d')" for cmd x
    using route_step_keeps [OF _ that] assms touches_only_evolves [OF assms] by (auto simp: gateway_ok_def)
  show "list_routes_body sv u c d = Inr (rows, d') \<Longrightarrow> evolves sv d d'"
    by (rule step [of "ListRoutes c u"]) (simp add: route_step_def)
  show "create_static_route_row sv u c p d = Inr (r, d') \<Longrightarrow> evolves sv d d'"
    by (rule step [of "CreateRoute c p u" "[r]"]) (simp add: route_step_def)
  show "update_static_route_row sv u c i p d = Inr (ba, d') \<Longrightarrow> evolves sv d d'"
    by (rule step [of "UpdateRoute c i p u" "[fst ba, snd ba]"]) (simp add: route_step_def split: prod.splits)
  show "delete_static_route_row sv u c i d = Inr (r, d') \<Longrightarrow> evolves sv d d'"
    by (rule step [of "DeleteRoute c i u" "[r]"]) (simp add: route_step_def)
qed

lemma evolves_ok: "evolves sv d d' \<Longrightarrow> gateway_ok sv d'"
  by (simp add: evolves_def)

lemma audited_evolves:
  assumes "gateway_ok sv d"
  shows "create_route_audited_body sv dr c p a d = Inr (r, d') \<Longrightarrow> evolves sv d d'"
    and "update_route_audited_body sv dr c i p a d = Inr (r, d') \<Longrightarrow> evolves sv d d'"
    and "delete_route_audited_body sv dr c i a d = Inr (u, d') \<Longrightarrow> evolves sv d d'"
proof -
  have two: "evolves sv d d'" if "evolves sv d d1" "insert_transaction dr v d1 = Inr (row, d')" for d1 dr v row
    using insertion_evolves [OF evolves_ok [OF that(1)] that(2)] that(1) by (rule evolves_trans [rotated])
  show "create_route_audited_body sv dr c p a d = Inr (r, d') \<Longrightarrow> evolves sv d d'"
    by (erule create_audited_Inr) (use two route_row_evolves(2) [OF assms] in blast)
  show "update_route_audited_body sv dr c i p a d = Inr (r, d') \<Longrightarrow> evolves sv d d'"
    by (erule update_audited_Inr) (use two route_row_evolves(3) [OF assms] in blast)
  show "delete_route_audited_body sv dr c i a d = Inr (u, d') \<Longrightarrow> evolves sv d d'"
    by (erule delete_audited_Inr) (use two route_row_evolves(4) [OF assms] in blast)
qed

text \<open>Jobs and configurations.\<close>

definition only_jobs :: "db \<Rightarrow> db \<Rightarrow> bool" where
  "only_jobs d d' \<longleftrightarrow> (\<exists>js. d' = d\<lparr>jobs := js\<rparr>)"

lemma only_jobs_update: "only_jobs d (update_job i f d)"
  by (auto simp: only_jobs_def update_job_def)

lemma job_step_frame:
  assumes "job_step sv c d = Inr (u, d')"
  shows "only_jobs d d'"
proof (cases c)
  case (CreateJob dr v)
  with assms obtain ids p where "create_job_body sv dr ids d = Inr (p, d')"
    by (auto simp: job_step_def result_simps)
  then show ?thesis by (rule create_job_body_Inr) (auto simp: only_jobs_def)
next
  case (RecordResult i r)
  then have "record_result_body sv i r d = Inr (u, d')" using assms by (simp add: job_step_def)
  then show ?thesis by (rule record_result_body_Inr) (simp add: only_jobs_update)
next
  case (SetStatus i st e)
  then have "set_status_body sv i st e d = Inr (u, d')" using assms by (simp add: job_step_def)
  then show ?thesis by (rule set_status_body_Inr) (simp add: only_jobs_update)
next
  case Restart
  then show ?thesis
    using assms by (auto simp: job_step_def recovery_body_def result_simps execute_eq_Inr only_jobs_def)
qed

lemma job_evolves:
  assumes "vault_law sv" and "gateway_ok sv d" and "job_step sv c d = Inr (u, d')"
  shows "evolves sv d d'"
proof -
  obtain js where d': "d' = d\<lparr>jobs := js\<rparr>" using job_step_frame [OF assms(3)] by (auto simp: only_jobs_def)
  have "jobs_consistent sv d'"
    using job_step_consistent [OF assms(1) _ assms(3)] assms(2) by (simp add: gateway_ok_def)
  moreover have "history d d'" using job_step_history [OF gateway_ok_schema [OF assms(2)] assms(3)] .
  ultimately show ?thesis
    using assms(2) readable_cong [of d' d sv] by (simp add: evolves_def gateway_ok_parts jobs_consistent_def d')
qed

lemma config_evolves:
  assumes "gateway_ok sv d" and "name \<in> set config_names"
  shows "evolves sv d (upsert_config name q d)"
proof -
  have "schema_ok (upsert_config name q d)" by (rule schema_upsert [OF gateway_ok_schema [OF assms(1)] assms(2)])
  then show ?thesis
    using assms(1) readable_cong [of "upsert_config name q d" d sv]
    by (simp add: evolves_def gateway_ok_parts upsert_config_def history_same)
qed

section \<open>Operations of the store\<close>

text \<open>
  \<open>op_evolves sv op\<close>: when the call returns, the database has evolved and the store is open as
  before. \<open>op_reads op\<close>: when the call returns, nothing has changed.
\<close>

definition op_evolves :: "services \<Rightarrow> (store \<Rightarrow> exn + ('a \<times> store)) \<Rightarrow> bool" where
  "op_evolves sv op \<longleftrightarrow> (\<forall>st x st'. gateway_ok sv (st_db st) \<longrightarrow> op st = Inr (x, st') \<longrightarrow>
     evolves sv (st_db st) (st_db st') \<and> st_closed st' = st_closed st)"

definition op_reads :: "(store \<Rightarrow> exn + ('a \<times> store)) \<Rightarrow> bool" where
  "op_reads op \<longleftrightarrow> (\<forall>st x st'. op st = Inr (x, st') \<longrightarrow> st' = st)"

named_theorems op_rules \<open>operations of the store that keep its invariants\<close>
named_theorems read_rules \<open>operations of the store that only read\<close>

lemma op_reads_evolves [op_rules]: "op_reads op \<Longrightarrow> op_evolves sv op"
  by (auto simp: op_reads_def op_evolves_def intro: evolves_refl)

lemma op_readsD: "op_reads op \<Longrightarrow> op st = Inr (x, st') \<Longrightarrow> st' = st"
  by (auto simp: op_reads_def)

lemma transaction_evolves:
  assumes "\<And>d x d'. gateway_ok sv d \<Longrightarrow> body d = Inr (x, d') \<Longrightarrow> evolves sv d d'"
  shows "op_evolves sv (transaction body)"
  using assms by (auto simp: op_evolves_def transaction_def split: if_splits sum.splits)

lemma transaction_reads: "op_reads (transaction (reading f))"
  by (auto simp: op_reads_def transaction_def reading_def result_simps split: if_splits sum.splits)

lemma op_evolves_bindE [op_rules]:
  assumes "\<And>x. m = Inr x \<Longrightarrow> op_evolves sv (f x)"
  shows "op_evolves sv (\<lambda>st. bindE m (\<lambda>x. f x st))"
  using assms by (auto simp: op_evolves_def bindE_eq_Inr)

lemma op_reads_bindE:
  assumes "\<And>x. m = Inr x \<Longrightarrow> op_reads (f x)"
  shows "op_reads (\<lambda>st. bindE m (\<lambda>x. f x st))"
  using assms by (auto simp: op_reads_def bindE_eq_Inr)

lemma op_evolves_then:
  assumes "op_evolves sv op" and "\<And>x. op_evolves sv (f x)"
  shows "op_evolves sv (\<lambda>st. bindE (op st) (\<lambda>(x, st). f x st))"
  unfolding op_evolves_def
proof (intro allI impI)
  fix st y st' assume ok: "gateway_ok sv (st_db st)" and r: "bindE (op st) (\<lambda>(x, st). f x st) = Inr (y, st')"
  then obtain x st1 where "op st = Inr (x, st1)" "f x st1 = Inr (y, st')"
    by (auto simp: bindE_eq_Inr)
  then have one: "evolves sv (st_db st) (st_db st1)" "st_closed st1 = st_closed st"
    and two: "gateway_ok sv (st_db st1) \<longrightarrow> evolves sv (st_db st1) (st_db st') \<and> st_closed st' = st_closed st1"
    using assms ok unfolding op_evolves_def by blast+
  then show "evolves sv (st_db st) (st_db st') \<and> st_closed st' = st_closed st"
    using evolves_ok [OF one(1)] evolves_trans [OF one(1)] by simp
qed

lemma op_evolves_map:
  assumes "op_evolves sv op"
  shows "op_evolves sv (\<lambda>st. bindE (op st) (\<lambda>(x, st). Inr (g x, st)))"
  using assms by (auto simp: op_evolves_def bindE_eq_Inr)

lemma op_reads_map:
  assumes "op_reads op"
  shows "op_reads (\<lambda>st. bindE (op st) (\<lambda>(x, st). Inr (g x, st)))"
  using assms by (auto simp: op_reads_def bindE_eq_Inr)

lemma store_reads [read_rules]:
  "op_reads (store_list sv name)" "op_reads (store_get sv name v)" "op_reads (store_resolve_connection sv v)"
  "op_reads (store_get_config cname)" "op_reads (get_job v)" "op_reads (get_job_connections sv v)"
  unfolding store_list_def [abs_def] store_get_def [abs_def] store_resolve_connection_def [abs_def]
    store_get_config_def [abs_def] get_job_def [abs_def]
  by (intro op_reads_bindE transaction_reads)+ (auto simp: op_reads_def intro: get_connections_same)

lemma list_transactions_reads [read_rules]: "op_reads (list_transactions sv filters limit offset)"
  unfolding list_transactions_def [abs_def] by (intro op_reads_bindE transaction_reads)

lemma store_save_evolves [op_rules]: "vault_law sv \<Longrightarrow> op_evolves sv (store_save sv dr name payload i)"
  unfolding store_save_def [abs_def] by (intro op_evolves_bindE transaction_evolves) (rule save_evolves)

lemma store_delete_evolves [op_rules]: "op_evolves sv (store_delete name i)"
  unfolding store_delete_def [abs_def] by (intro op_evolves_bindE transaction_evolves) (rule delete_evolves)

lemma store_save_config_evolves [op_rules]: "op_evolves sv (store_save_config name payload)"
proof -
  have "name \<in> set config_names" if "validate_config name payload = Inr q" for q
    using that by (auto simp: validate_config_def result_simps)
  then have "op_evolves sv (transaction (\<lambda>d. bindE (execute (upsert_config name q d)) (\<lambda>d'. Inr ((), d'))))"
    if "validate_config name payload = Inr q" for q
    using that by (intro transaction_evolves) (auto simp: bindE_eq_Inr execute_eq_Inr intro: config_evolves)
  then show ?thesis
    unfolding store_save_config_def [abs_def] by (intro op_evolves_bindE op_evolves_map)
qed

lemma job_ops_evolve [op_rules]:
  assumes "vault_law sv"
  shows "op_evolves sv (create_job sv dr ids)" and "op_evolves sv (set_job_status sv i s e)"
    and "op_evolves sv (record_job_result sv i r)"
proof -
  have step: "op_evolves sv (transaction (job_step sv c))" for c
    by (rule transaction_evolves) (rule job_evolves [OF assms])
  show "op_evolves sv (create_job sv dr ids)"
    unfolding create_job_def [abs_def]
  proof (intro op_evolves_bindE transaction_evolves)
    fix js d x d' assume "job_ids ids = Inr js" "gateway_ok sv d" "create_job_body sv dr js d = Inr (x, d')"
    then show "evolves sv d d'" using job_evolves [OF assms, of d "CreateJob dr ids" "()" d'] by (simp add: job_step_def)
  qed
  show "op_evolves sv (set_job_status sv i s e)"
    unfolding set_job_status_def [abs_def]
    by (intro op_evolves_bindE) (use step [of "SetStatus i _ e"] in \<open>simp add: job_step_def [abs_def]\<close>)
  show "op_evolves sv (record_job_result sv i r)"
    using step [of "RecordResult i _"]
    by (cases r) (auto simp: record_job_result_def [abs_def] job_step_def [abs_def] op_evolves_def)
qed

lemma append_evolves [op_rules]: "op_evolves sv (append_transaction dr v)"
  unfolding append_transaction_def [abs_def] by (rule transaction_evolves) (rule insertion_evolves)

lemma fake_profile_reads [read_rules]: "op_reads (fake_profile sv i)"
  using store_reads(3) unfolding op_reads_def fake_profile_def [abs_def] by (fastforce simp: bindE_eq_Inr)

lemma fake_inventory_reads [read_rules]: "op_reads (fake_device_inventory sv i)"
  using fake_profile_reads unfolding op_reads_def fake_device_inventory_def [abs_def] by (fastforce simp: bindE_eq_Inr)

lemma fake_routes_evolve [op_rules]:
  "op_evolves sv (fake_list_routes sv dr i)"
  "op_evolves sv (fake_create_route sv dr i p (Some a))"
  "op_evolves sv (fake_update_route sv dr i r p (Some a))"
  "op_evolves sv (fake_delete_route sv dr i r (Some a))"
proof -
  note profile = op_reads_evolves [OF fake_profile_reads]
  show "op_evolves sv (fake_list_routes sv dr i)"
    unfolding fake_list_routes_def [abs_def] store_list_routes_def [abs_def]
    by (intro op_evolves_then profile op_evolves_map transaction_evolves) (rule route_row_evolves(1))
  show "op_evolves sv (fake_create_route sv dr i p (Some a))"
    unfolding fake_create_route_def [abs_def] create_static_route_audited_def [abs_def] option.case
    by (intro op_evolves_then profile op_evolves_map transaction_evolves) (rule audited_evolves(1))
  show "op_evolves sv (fake_update_route sv dr i r p (Some a))"
    unfolding fake_update_route_def [abs_def] update_static_route_audited_def [abs_def] option.case
    by (intro op_evolves_then profile op_evolves_map transaction_evolves) (rule audited_evolves(2))
  show "op_evolves sv (fake_delete_route sv dr i r (Some a))"
    unfolding fake_delete_route_def [abs_def] delete_static_route_audited_def [abs_def] option.case
    by (intro op_evolves_then profile transaction_evolves) (rule audited_evolves(3))
qed

section \<open>Calls of the services\<close>

text \<open>
  A service call may do several transactions and keeps what the finished ones have done when it
  raises; \<open>service_texts\<close> are the texts a service error can carry.
\<close>

definition keeps_gateway :: "services \<Rightarrow> 'a service \<Rightarrow> bool" where
  "keeps_gateway sv m \<longleftrightarrow> (\<forall>st. gateway_ok sv (st_db st) \<longrightarrow>
     evolves sv (st_db st) (st_db (snd (m st))) \<and> st_closed (snd (m st)) = st_closed st)"

definition only_reads :: "'a service \<Rightarrow> bool" where
  "only_reads m \<longleftrightarrow> (\<forall>st. snd (m st) = st)"

definition service_texts :: "string list" where
  "service_texts = map snd error_messages @
     [''The management operation failed.'', ''Invalid device client type.'', ''Simulated device access is disabled.'',
      ''Device data is unsupported for network profiles.'', ''Select unique device identifiers.'',
      ''The batch worker is shutting down.'', ''A batch is already active.'', ''The batch could not be scheduled.'',
      ''Choose CSV or JSON export.'', ''The batch has not finished.'', ''Invalid stored management configuration.'']"

definition speaks_fixed :: "'a service \<Rightarrow> bool" where
  "speaks_fixed m \<longleftrightarrow> (\<forall>st t n. fst (m st) = Inl (ManagementError t n) \<longrightarrow> t \<in> set service_texts)"

named_theorems service_rules \<open>service calls that keep the invariants and speak fixed messages\<close>

lemma returnS_rules [service_rules]:
  "keeps_gateway sv (returnS x)" "only_reads (returnS x)" "speaks_fixed (returnS x)"
  by (simp_all add: keeps_gateway_def only_reads_def speaks_fixed_def evolves_refl)

lemma raiseS_rules [service_rules]:
  "keeps_gateway sv (raiseS e)" "only_reads (raiseS e)"
  "t \<in> set service_texts \<Longrightarrow> speaks_fixed (raiseS (ManagementError t n))" "speaks_fixed (raiseS (Raised x))"
  by (simp_all add: keeps_gateway_def only_reads_def speaks_fixed_def evolves_refl)

lemma liftS_rules [service_rules]: "keeps_gateway sv (liftS r)" "only_reads (liftS r)"
  by (simp_all add: keeps_gateway_def only_reads_def evolves_refl)

lemma store_call_keeps [service_rules]: "op_evolves sv op \<Longrightarrow> keeps_gateway sv (store_call op)"
  by (auto simp: keeps_gateway_def op_evolves_def store_call_def evolves_refl split: sum.splits)

lemma store_call_reads [service_rules]: "op_reads op \<Longrightarrow> only_reads (store_call op)"
  by (auto simp: only_reads_def op_reads_def store_call_def split: sum.splits)

lemma store_call_speaks [service_rules]: "speaks_fixed (store_call op)"
proof -
  have "m \<in> set (map snd error_messages)" if "map_of error_messages n = Some m" for n m
    using map_of_SomeD [OF that] by force
  then show ?thesis
    by (auto simp: speaks_fixed_def store_call_def management_error_def service_texts_def
        split: sum.splits option.splits)
qed

lemma bindS_snd: "bindS m f st = (case m st of (Inl e, st') \<Rightarrow> (Inl e, st') | (Inr x, st') \<Rightarrow> f x st')"
  by (simp add: bindS_def)

lemma bindS_keeps [service_rules]:
  assumes "keeps_gateway sv m" and "\<And>x. keeps_gateway sv (f x)"
  shows "keeps_gateway sv (bindS m f)"
  unfolding keeps_gateway_def
proof (intro allI impI)
  fix st :: store assume ok: "gateway_ok sv (st_db st)"
  obtain r st1 where m: "m st = (r, st1)" by (cases "m st")
  then have one: "evolves sv (st_db st) (st_db st1)" "st_closed st1 = st_closed st"
    using assms(1) ok unfolding keeps_gateway_def by (metis snd_conv)+
  show "evolves sv (st_db st) (st_db (snd (bindS m f st))) \<and> st_closed (snd (bindS m f st)) = st_closed st"
  proof (cases r)
    case (Inl e)
    then show ?thesis using m one by (simp add: bindS_def)
  next
    case (Inr x)
    have "evolves sv (st_db st1) (st_db (snd (f x st1)))" "st_closed (snd (f x st1)) = st_closed st1"
      using assms(2) [of x] evolves_ok [OF one(1)] unfolding keeps_gateway_def by blast+
    then show ?thesis using m one Inr evolves_trans by (auto simp: bindS_def)
  qed
qed

lemma bindS_reads [service_rules]:
  assumes "only_reads m" and "\<And>x. only_reads (f x)"
  shows "only_reads (bindS m f)"
  using assms by (auto simp: only_reads_def bindS_def split: prod.splits sum.splits) (metis snd_conv)+

lemma bindS_speaks [service_rules]:
  assumes "speaks_fixed m" and "\<And>x. speaks_fixed (f x)"
  shows "speaks_fixed (bindS m f)"
  using assms unfolding speaks_fixed_def bindS_def
  by (auto split: prod.splits sum.splits) (metis fst_conv)+

lemma if_rules [service_rules]:
  "keeps_gateway sv m \<Longrightarrow> keeps_gateway sv m' \<Longrightarrow> keeps_gateway sv (if c then m else m')"
  "only_reads m \<Longrightarrow> only_reads m' \<Longrightarrow> only_reads (if c then m else m')"
  "speaks_fixed m \<Longrightarrow> speaks_fixed m' \<Longrightarrow> speaks_fixed (if c then m else m')"
  by simp_all

lemma reads_keep: "only_reads m \<Longrightarrow> keeps_gateway sv m"
  by (simp add: only_reads_def keeps_gateway_def evolves_refl)

lemma prod_rules [service_rules]:
  "(\<And>a b. keeps_gateway sv (f a b)) \<Longrightarrow> keeps_gateway sv (case p of (a, b) \<Rightarrow> f a b)"
  "(\<And>a b. only_reads (f a b)) \<Longrightarrow> only_reads (case p of (a, b) \<Rightarrow> f a b)"
  "(\<And>a b. speaks_fixed (f a b)) \<Longrightarrow> speaks_fixed (case p of (a, b) \<Rightarrow> f a b)"
  by (cases p; simp)+

lemma option_rules [service_rules]:
  "keeps_gateway sv m \<Longrightarrow> (\<And>a. keeps_gateway sv (f a)) \<Longrightarrow> keeps_gateway sv (case x of None \<Rightarrow> m | Some a \<Rightarrow> f a)"
  "only_reads m \<Longrightarrow> (\<And>a. only_reads (f a)) \<Longrightarrow> only_reads (case x of None \<Rightarrow> m | Some a \<Rightarrow> f a)"
  "speaks_fixed m \<Longrightarrow> (\<And>a. speaks_fixed (f a)) \<Longrightarrow> speaks_fixed (case x of None \<Rightarrow> m | Some a \<Rightarrow> f a)"
  by (cases x; simp)+

lemma member_fixed [service_rules]:
  "''Invalid device client type.'' \<in> set service_texts" "''Simulated device access is disabled.'' \<in> set service_texts"
  "''Device data is unsupported for network profiles.'' \<in> set service_texts"
  "''Select unique device identifiers.'' \<in> set service_texts" "''The batch worker is shutting down.'' \<in> set service_texts"
  "''A batch is already active.'' \<in> set service_texts" "''The batch could not be scheduled.'' \<in> set service_texts"
  "''Choose CSV or JSON export.'' \<in> set service_texts" "''The batch has not finished.'' \<in> set service_texts"
  "''Invalid stored management configuration.'' \<in> set service_texts"
  by (simp_all add: service_texts_def)

section \<open>The services\<close>

lemma management_keeps [service_rules]:
  assumes "vault_law sv"
  shows "keeps_gateway sv (management_save sv dr name payload i)" "keeps_gateway sv (management_delete name j)"
    "keeps_gateway sv (management_save_config cname payload)"
  unfolding management_save_def management_delete_def management_save_config_def
  by (intro service_rules op_rules assms)+

lemma management_reads [service_rules]:
  "only_reads (management_list sv name)" "only_reads (management_get sv name v)"
  "only_reads (management_test sv mg v)" "only_reads (management_get_config cname)"
  "only_reads (batch_get v)" "only_reads (batch_export sv writer v format)"
  "only_reads (device_inventory sv provider i)" "only_reads (fake_client sv provider i)"
  "only_reads (transactions_list sv a b c d e f g h)"
  unfolding management_list_def management_get_def management_test_def management_get_config_def
    batch_export_def batch_get_def device_inventory_def fake_client_def transactions_list_def
  by (intro service_rules read_rules; (simp add: only_reads_def Let_def split: sum.splits)?)+

lemma test_profile_speaks: "test_profile sv mg profile = Inl (ManagementError t n) \<Longrightarrow> t \<in> set service_texts"
  by (auto simp: test_profile_def check_test_provider_def Let_def result_simps member_fixed split: if_splits)

lemma management_speaks [service_rules]:
  "speaks_fixed (management_list sv name)" "speaks_fixed (management_get sv name v)"
  "speaks_fixed (management_save sv dr name payload i)" "speaks_fixed (management_delete name j)"
  "speaks_fixed (management_save_config cname payload)" "speaks_fixed (management_get_config cname)"
  "speaks_fixed (batch_get v)" "speaks_fixed (transactions_list sv a b c d e f g h)"
  "speaks_fixed (fake_client sv provider k)"
  unfolding management_list_def management_get_def management_save_def management_delete_def
    management_save_config_def management_get_config_def batch_get_def transactions_list_def fake_client_def
  by (intro service_rules)+

lemma more_services_speak [service_rules]:
  "speaks_fixed (management_test sv mg v)" "speaks_fixed (device_inventory sv provider i)"
  "speaks_fixed (batch_export sv writer v format)"
proof -
  have "speaks_fixed (liftS (test_profile sv mg profile))" for profile
    using test_profile_speaks by (auto simp: speaks_fixed_def)
  then show "speaks_fixed (management_test sv mg v)"
    unfolding management_test_def by (intro service_rules)
  show "speaks_fixed (device_inventory sv provider i)"
    unfolding device_inventory_def by (intro service_rules)
  have "speaks_fixed (case public_export job of Inl e \<Rightarrow> raiseS (Raised e) | Inr public \<Rightarrow> returnS (f public))" for job f
    by (cases "public_export job") (simp_all add: service_rules)
  then show "speaks_fixed (batch_export sv writer v format)"
    unfolding batch_export_def Let_def by (intro service_rules)
qed

lemma record_failure_evolves:
  assumes "gateway_ok sv (st_db st)"
  shows "evolves sv (st_db st) (st_db (record_failure dr a rid c t st))
     \<and> st_closed (record_failure dr a rid c t st) = st_closed st"
  using store_call_keeps [OF append_evolves, of sv dr "failure_record a rid c t"] assms
  by (simp add: record_failure_def keeps_gateway_def)

lemma attempted_rules [service_rules]:
  "keeps_gateway sv m \<Longrightarrow> keeps_gateway sv (attempted dr a rid c m)"
  "speaks_fixed m \<Longrightarrow> speaks_fixed (attempted dr a rid c m)"
proof -
  assume m: "keeps_gateway sv m"
  show "keeps_gateway sv (attempted dr a rid c m)"
    unfolding keeps_gateway_def
  proof (intro allI impI)
    fix st :: store assume ok: "gateway_ok sv (st_db st)"
    obtain r st1 where r: "m st = (r, st1)" by (cases "m st")
    then have one: "evolves sv (st_db st) (st_db st1)" "st_closed st1 = st_closed st"
      using m ok unfolding keeps_gateway_def by (metis snd_conv)+
    show "evolves sv (st_db st) (st_db (snd (attempted dr a rid c m st)))
        \<and> st_closed (snd (attempted dr a rid c m st)) = st_closed st"
      using r one record_failure_evolves [OF evolves_ok [OF one(1)]] evolves_trans [OF one(1)]
      by (auto simp: attempted_def split: sum.splits service_error.splits)
  qed
next
  assume "speaks_fixed m"
  then show "speaks_fixed (attempted dr a rid c m)"
    by (auto simp: speaks_fixed_def attempted_def split: prod.splits sum.splits service_error.splits) (metis fst_conv)+
qed

lemma device_services [service_rules]:
  "keeps_gateway sv (device_list_routes sv dr provider i)"
  "keeps_gateway sv (device_create_route sv dr dr' provider i payload u cid verb path)"
  "keeps_gateway sv (device_update_route sv dr dr' provider i r payload u cid verb path)"
  "keeps_gateway sv (device_delete_route sv dr dr' provider i r u cid verb path)"
  "speaks_fixed (device_list_routes sv dr provider i)"
  "speaks_fixed (device_create_route sv dr dr' provider i payload u cid verb path)"
  "speaks_fixed (device_update_route sv dr dr' provider i r payload u cid verb path)"
  "speaks_fixed (device_delete_route sv dr dr' provider i r u cid verb path)"
  unfolding device_list_routes_def device_create_route_def device_update_route_def device_delete_route_def Let_def
  by (intro service_rules op_rules reads_keep)+

lemma fail_job_evolves:
  assumes "vault_law sv" and "gateway_ok sv (st_db st)"
  shows "evolves sv (st_db st) (st_db (fail_job sv i t st)) \<and> st_closed (fail_job sv i t st) = st_closed st"
  using job_ops_evolve(2) [OF assms(1), of i "JStr ''failed''" "JStr t"] assms(2)
  by (auto simp: fail_job_def op_evolves_def evolves_refl split: sum.splits)

lemma start_checks_rules [service_rules]:
  "only_reads (start_checks sv mg ids)" "speaks_fixed (start_checks sv mg ids)"
proof -
  have "speaks_fixed (liftS (check_test_provider mg profile))" for profile
    by (auto simp: speaks_fixed_def check_test_provider_def Let_def result_simps member_fixed)
  then show "only_reads (start_checks sv mg ids)" "speaks_fixed (start_checks sv mg ids)"
    unfolding start_checks_def by (induction ids) (auto intro!: service_rules)
qed

lemma batch_start_rules [service_rules]:
  "vault_law sv \<Longrightarrow> keeps_gateway sv (batch_start sv mg dr accepted ids bt)"
  "speaks_fixed (batch_start sv mg dr accepted ids bt)"
proof -
  assume v: "vault_law sv"
  have "keeps_gateway sv (\<lambda>st. (Inl e, fail_job sv i t st))" for e i t
    using fail_job_evolves [OF v] by (simp add: keeps_gateway_def)
  then show "keeps_gateway sv (batch_start sv mg dr accepted ids bt)"
    unfolding batch_start_def by (intro service_rules op_rules v reads_keep [OF start_checks_rules(1)])
next
  have "speaks_fixed (\<lambda>st. (Inl (ManagementError ''The batch could not be scheduled.'' 503), g st))" for g
    by (simp add: speaks_fixed_def member_fixed)
  then show "speaks_fixed (batch_start sv mg dr accepted ids bt)"
    unfolding batch_start_def by (intro service_rules)
qed

end
