(* ===== verification/HttpLaws.thy ===== *)
theory HttpLaws
  imports GatewayLaws
begin

text \<open>
  What a request can do: nothing without its role and, for a change, without a request of the same
  origin; reads change nothing; the error texts are fixed and the answers hold declared fields only;
  and over any sequence of requests and steps of the batch worker the store stays consistent.
\<close>

section \<open>Routes\<close>

lemma with_body_rules [service_rules]:
  "(\<And>p. keeps_gateway sv (f p)) \<Longrightarrow> keeps_gateway sv (with_body lib t req f)"
  "(\<And>p. speaks_fixed (f p)) \<Longrightarrow> speaks_fixed (with_body lib t req f)"
  unfolding with_body_def by (intro service_rules; simp)+

lemma settings_rules [service_rules]:
  "only_reads (public_settings lib t payload)" "speaks_fixed (public_settings lib t payload)"
  unfolding public_settings_def by (intro service_rules)+

lemma update_settings_rules [service_rules]:
  "vault_law sv \<Longrightarrow> keeps_gateway sv (update_settings lib name t payload)"
  "speaks_fixed (update_settings lib name t payload)"
  unfolding update_settings_def by (intro service_rules reads_keep [OF settings_rules(1)]; assumption?)+

lemma management_route_rules:
  "vault_law sv \<Longrightarrow> keeps_gateway sv (management_route lib sv en mg req route)"
  "speaks_fixed (management_route lib sv en mg req route)"
proof -
  assume v: "vault_law sv"
  show "keeps_gateway sv (management_route lib sv en mg req route)"
    by (cases route) (simp_all add: management_route_def service_rules reads_keep v split: option.splits)
next
  show "speaks_fixed (management_route lib sv en mg req route)"
    by (cases route) (simp_all add: management_route_def service_rules split: option.splits)
qed

lemma queries_rules [service_rules]:
  "(\<And>a b c d e f g h. only_reads (k a b c d e f g h)) \<Longrightarrow> only_reads (case transaction_queries en req of
      Some [a, b, c, d, e, f, g, h] \<Rightarrow> k a b c d e f g h | _ \<Rightarrow> returnS Unprocessable)"
  "(\<And>a b c d e f g h. speaks_fixed (k a b c d e f g h)) \<Longrightarrow> speaks_fixed (case transaction_queries en req of
      Some [a, b, c, d, e, f, g, h] \<Rightarrow> k a b c d e f g h | _ \<Rightarrow> returnS Unprocessable)"
  by (auto simp: service_rules split: option.splits list.splits)

lemma device_route_rules:
  "keeps_gateway sv (device_route lib sv en provider user req route)"
  "speaks_fixed (device_route lib sv en provider user req route)"
proof -
  show "keeps_gateway sv (device_route lib sv en provider user req route)"
  proof (cases route)
    case ListTransactions
    show ?thesis
      unfolding ListTransactions device_route_def Let_def route.case by (intro reads_keep service_rules)
  qed (simp_all add: device_route_def Let_def service_rules reads_keep split: option.splits)
  show "speaks_fixed (device_route lib sv en provider user req route)"
  proof (cases route)
    case ListTransactions
    show ?thesis
      unfolding ListTransactions device_route_def Let_def route.case by (intro service_rules)
  qed (simp_all add: device_route_def Let_def service_rules split: option.splits)
qed

lemma batch_route_rules:
  "vault_law sv \<Longrightarrow> keeps_gateway sv (batch_route lib sv en mg req route bt)"
  "speaks_fixed (batch_route lib sv en mg req route bt)"
proof -
  assume v: "vault_law sv"
  show "keeps_gateway sv (batch_route lib sv en mg req route bt)"
    by (cases route) (simp_all add: batch_route_def service_rules reads_keep v split: option.splits prod.splits)
next
  show "speaks_fixed (batch_route lib sv en mg req route bt)"
    by (cases route) (simp_all add: batch_route_def service_rules split: option.splits prod.splits)
qed

text \<open>The reading routes: all of GET but the list of static routes, which inserts the default ones.\<close>

definition pure_read :: "route \<Rightarrow> bool" where
  "pure_read route = (case route of
      GetCapabilities \<Rightarrow> True | ListProfiles _ \<Rightarrow> True | GetProfile _ _ \<Rightarrow> True | GetBatch _ \<Rightarrow> True
    | ExportBatch _ \<Rightarrow> True | GetSettings _ \<Rightarrow> True | GetInventory _ \<Rightarrow> True | ListTransactions \<Rightarrow> True | _ \<Rightarrow> False)"

lemma pure_reads:
  assumes "pure_read route"
  shows "only_reads (management_route lib sv en mg req route)"
    and "only_reads (device_route lib sv en provider user req route)"
    and "only_reads (batch_route lib sv en mg req route bt)"
proof -
  show "only_reads (management_route lib sv en mg req route)"
    using assms by (cases route) (simp_all add: management_route_def pure_read_def service_rules split: option.splits)
  show "only_reads (batch_route lib sv en mg req route bt)"
    using assms by (cases route) (simp_all add: batch_route_def pure_read_def service_rules split: prod.splits)
  show "only_reads (device_route lib sv en provider user req route)"
  proof (cases route)
    case ListTransactions
    show ?thesis
      unfolding ListTransactions device_route_def Let_def route.case by (intro service_rules)
  qed (use assms in \<open>simp_all add: device_route_def Let_def pure_read_def service_rules\<close>)
qed

section \<open>One call\<close>

lemma speaks_fixedD: "speaks_fixed m \<Longrightarrow> fst (m st) = Inl (ManagementError t n) \<Longrightarrow> t \<in> set service_texts"
  unfolding speaks_fixed_def by blast

lemma call_route_store:
  "gw_store (snd (call_route lib sv en user req route gw)) =
     (if uses_batches route
      then snd (batch_route lib sv en (fst (batch_service gw)) req route (snd (batch_service gw)) (gw_store gw))
      else if uses_device_data route
      then snd (device_route lib sv en (mg_provider (gw_management gw)) user req route (gw_store gw))
      else snd (management_route lib sv en (gw_management gw) req route (gw_store gw)))"
  by (simp add: call_route_def Let_def split: prod.splits sum.splits)

lemma call_route_management: "gw_management (snd (call_route lib sv en user req route gw)) = gw_management gw"
  by (simp add: call_route_def Let_def split: prod.splits sum.splits)

lemma call_route_evolves:
  assumes "vault_law sv" and "gateway_ok sv (st_db (gw_store gw))"
  shows "evolves sv (st_db (gw_store gw)) (st_db (gw_store (snd (call_route lib sv en user req route gw))))"
  unfolding call_route_store
  using management_route_rules(1) [OF assms(1)] device_route_rules(1) batch_route_rules(1) [OF assms(1)] assms(2)
  unfolding keeps_gateway_def by (simp split: if_splits)

lemma call_route_reads:
  "pure_read route \<Longrightarrow> gw_store (snd (call_route lib sv en user req route gw)) = gw_store gw"
  unfolding call_route_store using pure_reads unfolding only_reads_def by simp

lemma call_route_speaks:
  assumes "fst (call_route lib sv en user req route gw) = Inl (ManagementError t n)"
  shows "t \<in> set service_texts"
proof -
  let ?mg = "fst (batch_service gw)" and ?bt = "snd (batch_service gw)"
  have "fst (batch_route lib sv en ?mg req route ?bt (gw_store gw)) = Inl (ManagementError t n)
      \<or> fst (device_route lib sv en (mg_provider (gw_management gw)) user req route (gw_store gw)) = Inl (ManagementError t n)
      \<or> fst (management_route lib sv en (gw_management gw) req route (gw_store gw)) = Inl (ManagementError t n)"
    using assms by (auto simp: call_route_def Let_def split: if_splits prod.splits sum.splits)
  then show ?thesis
    by (elim disjE)
      (erule speaks_fixedD [OF batch_route_rules(2)] speaks_fixedD [OF device_route_rules(2)]
        speaks_fixedD [OF management_route_rules(2)])+
qed

section \<open>One request\<close>

lemma serve_cases:
  obtains (away) "serve lib sv en req gw = (None, gw)" and "route_at (rq_verb req) (rq_path req) = None"
    | (refused) resp where "serve lib sv en req gw = (Some resp, gw)"
        and "check_browser_mutation req = Inl resp \<or> resp = invalid_fields \<or> resp = storage_unavailable
           \<or> (\<exists>r e. require_role r (rq_caller req) = Inl e \<and> resp = role_refusal e)"
    | (called) route user where "route_at (rq_verb req) (rq_path req) = Some route"
        and "check_browser_mutation req = Inr ()" and "rq_caller req = Inr user" and "has_role user (needed_role route)"
        and "serve lib sv en req gw = (Some (respond lib (fst (call_route lib sv en user req route gw))),
           snd (call_route lib sv en user req route gw))"
proof (cases "route_at (rq_verb req) (rq_path req)")
  case None
  then show thesis using away by (simp add: serve_def)
next
  case (Some route)
  note path = this
  show thesis
  proof (cases "check_browser_mutation req")
    case (Inl resp)
    then show thesis using refused [of resp] path by (simp add: serve_def)
  next
    case (Inr u)
    note checked = this
    show thesis
    proof (cases "takes_body route \<and> rq_body req = Malformed")
      case True
      then show thesis using refused [of invalid_fields] path checked by (simp add: serve_def)
    next
      case False
      note body = this
      show thesis
      proof (cases "require_role (needed_role route) (rq_caller req)")
        case (Inl e)
        then show thesis using refused [of "role_refusal e"] path checked body by (auto simp: serve_def)
      next
        case (Inr user)
        then have "rq_caller req = Inr user" "has_role user (needed_role route)" by (simp_all add: require_role_Inr)
        moreover have "serve lib sv en req gw =
            (if route \<noteq> GetCapabilities \<and> \<not> storage_ready en then (Some storage_unavailable, gw)
             else (Some (respond lib (fst (call_route lib sv en user req route gw))),
                   snd (call_route lib sv en user req route gw)))"
          by (simp only: serve_def path checked Inr body option.case sum.case if_False split_beta)
        ultimately show thesis
          using refused [of storage_unavailable] called [of route user] path checked
          by (cases "route \<noteq> GetCapabilities \<and> \<not> storage_ready en") (simp_all add: unit_eq)
      qed
    qed
  qed
qed

definition same_site :: "web_request \<Rightarrow> bool" where
  "same_site req \<longleftrightarrow> lower (optional_text (rq_fetch_site req)) \<notin> {''cross-site'', ''same-site''}
     \<and> (case rq_origin req of None \<Rightarrow> True
        | Some origin \<Rightarrow> \<exists>t. url_origin origin = Some t \<and> url_origin (rq_base_url req) = Some t)"

lemma check_browser_mutation_Inr:
  "check_browser_mutation req = Inr u \<longleftrightarrow> rq_verb req \<in> {''GET'', ''HEAD'', ''OPTIONS''}
     \<or> same_site req \<and> (rq_verb req \<in> {''POST'', ''PUT'', ''PATCH''} \<longrightarrow>
          media_type (optional_text (rq_content_type req)) = ''application/json'')"
  by (auto simp: check_browser_mutation_def same_site_def result_simps split: option.splits)

lemma check_browser_mutation_Inl:
  "check_browser_mutation req = Inl resp \<Longrightarrow>
     resp = plain_response 403 (Detail cross_origin_text) \<or> resp = plain_response 415 (Detail json_only_text)"
  by (auto simp: check_browser_mutation_def result_simps split: if_splits)

text \<open>
  C2. A request that is answered with a status below 400, or that changes
  anything at all, is one of the routes, comes from a caller with the role of that route, and, when
  it is not a read, is neither declared nor shown by its origin to come from another site and
  carries JSON.
\<close>

theorem requests_need_their_role:
  assumes "serve lib sv en req gw = (r, gw')"
    and "gw' \<noteq> gw \<or> (\<exists>resp. r = Some resp \<and> rs_status resp < 400)"
    and "\<And>n. rq_caller req = Inl (HTTPException n) \<Longrightarrow> 400 \<le> n"
  shows "\<exists>route user. route_at (rq_verb req) (rq_path req) = Some route \<and> rq_caller req = Inr user
     \<and> has_role user (needed_role route)
     \<and> (rq_verb req \<in> {''GET'', ''HEAD'', ''OPTIONS''} \<or> same_site req
         \<and> (rq_verb req \<in> {''POST'', ''PUT'', ''PATCH''} \<longrightarrow>
              media_type (optional_text (rq_content_type req)) = ''application/json''))"
proof (cases rule: serve_cases [of lib sv en req gw])
  case away
  then show ?thesis using assms(1,2) by auto
next
  case (refused resp)
  have "400 \<le> rs_status (role_refusal e)" if "require_role role (rq_caller req) = Inl e" for role e
    using that assms(3) by (cases "rq_caller req"; cases e)
      (auto simp: require_role_def current_user_def role_refusal_def unhandled_def plain_response_def split: http_exn.splits if_splits)
  then have "400 \<le> rs_status resp"
    using refused(2) check_browser_mutation_Inl
    by (fastforce simp: invalid_fields_def storage_unavailable_def plain_response_def)
  then show ?thesis using assms(1,2) refused(1) by auto
next
  case (called route user)
  then show ?thesis using check_browser_mutation_Inr by blast
qed

lemma get_routes: "route_at ''GET'' path = Some route \<Longrightarrow> pure_read route \<or> (\<exists>i. route = ListStaticRoutes i)"
  by (auto simp: route_at_def route_of_one_def route_of_two_def route_of_three_def route_of_four_def pure_read_def
      split: if_splits list.splits option.splits)

text \<open>
  A request with the verb GET leaves the store as it is, unless it lists the
  static routes of a connection, which inserts the default routes once.
\<close>

theorem reads_change_nothing:
  assumes "rq_verb req = ''GET''" and "\<And>i. route_at (rq_verb req) (rq_path req) \<noteq> Some (ListStaticRoutes i)"
  shows "gw_store (snd (serve lib sv en req gw)) = gw_store gw"
proof (cases rule: serve_cases [of lib sv en req gw])
  case (called route user)
  then have "pure_read route" using get_routes [of "rq_path req" route] assms by auto
  then show ?thesis using called(5) call_route_reads by simp
qed simp_all

definition fixed_details :: "string list" where
  "fixed_details = service_texts @ [cross_origin_text, json_only_text, ''Invalid request fields.'',
     ''Management storage is unavailable.'', ''Insufficient role.'', ''Invalid management response.'',
     ''Invalid settings fields for the selected configuration.'']"

lemma bindS_fst_Inr: "fst (bindS m f st) = Inr y \<longleftrightarrow> (\<exists>x st'. m st = (Inr x, st') \<and> fst (f x st') = Inr y)"
  by (auto simp: bindS_def split: prod.splits sum.splits)

lemma management_refusals:
  "fst (management_route lib sv en mg req route st) = Inr (Refused n m) \<Longrightarrow>
     m = ''Invalid settings fields for the selected configuration.''"
  by (cases route) (auto simp: management_route_def bindS_fst_Inr with_body_def public_settings_def
      update_settings_def split: option.splits if_splits)

lemma device_refusals: "fst (device_route lib sv en provider user req route st) \<noteq> Inr (Refused n m)"
  by (cases route) (auto simp: device_route_def Let_def bindS_fst_Inr split: option.splits list.splits)

lemma batch_refusals: "fst (batch_route lib sv en mg req route bt st) \<noteq> Inr (Refused n m, bt')"
  by (cases route) (auto simp: batch_route_def bindS_fst_Inr split: option.splits)

lemma refused_texts:
  assumes "fst (call_route lib sv en user req route gw) = Inr (Refused n m)"
  shows "m = ''Invalid settings fields for the selected configuration.''"
proof (cases "uses_batches route")
  case True
  then show ?thesis
    using assms batch_refusals [of lib sv en "fst (batch_service gw)" req route "snd (batch_service gw)" "gw_store gw" n m]
    by (auto simp: call_route_def Let_def split: prod.splits sum.splits)
next
  case False
  then show ?thesis
    using assms management_refusals [of lib sv en "gw_management gw" req route "gw_store gw" n m]
      device_refusals [of lib sv en "mg_provider (gw_management gw)" user req route "gw_store gw" n m]
    by (auto simp: call_route_def split: prod.splits if_splits)
qed

lemma fixed_detailsI:
  "t \<in> set service_texts \<Longrightarrow> t \<in> set fixed_details" "cross_origin_text \<in> set fixed_details"
  "json_only_text \<in> set fixed_details" "''Invalid request fields.'' \<in> set fixed_details"
  "''Management storage is unavailable.'' \<in> set fixed_details" "''Insufficient role.'' \<in> set fixed_details"
  "''Invalid management response.'' \<in> set fixed_details"
  "''Invalid settings fields for the selected configuration.'' \<in> set fixed_details"
  by (simp_all add: fixed_details_def)

lemma role_refusal_detail: "rs_body (role_refusal e) = Detail t \<Longrightarrow> t = ''Insufficient role.''"
  by (cases e) (auto simp: role_refusal_def plain_response_def unhandled_def split: if_splits)

lemma role_refusal_body: "rs_body (role_refusal e) \<noteq> JsonBody u"
  by (cases e) (simp_all add: role_refusal_def plain_response_def unhandled_def)

text \<open>
  C25. Every \<open>detail\<close> a response carries is one of a fixed list of texts: nothing
  of the request, of a stored profile or of an exception is reflected.
\<close>

theorem error_texts_are_fixed:
  assumes "serve lib sv en req gw = (Some resp, gw')" and "rs_body resp = Detail t"
  shows "t \<in> set fixed_details"
proof (cases rule: serve_cases [of lib sv en req gw])
  case away
  then show ?thesis using assms by simp
next
  case (refused resp')
  then have "resp' = resp" using assms(1) by simp
  then show ?thesis
    using refused(2) assms(2) check_browser_mutation_Inl [of req resp] role_refusal_detail
    by (fastforce simp: plain_response_def invalid_fields_def storage_unavailable_def intro: fixed_detailsI)
next
  case (called route user)
  then have resp: "resp = respond lib (fst (call_route lib sv en user req route gw))" using assms(1) by simp
  show ?thesis
    using assms(2) call_route_speaks [of lib sv en user req route gw] refused_texts [of lib sv en user req route gw]
    unfolding resp respond_def
    by (auto simp: plain_response_def invalid_fields_def unhandled_def intro: fixed_detailsI
        split: sum.splits service_error.splits outcome.splits option.splits)
qed

section \<open>Sequences\<close>

text \<open>
  What happens to the application between its start and its end: requests, and the transactions of
  the batch worker in whatever order they come between them.
\<close>

datatype gateway_event =
    Request surroundings web_request
  | WorkerStatus json json json
  | WorkerResult json json

definition gateway_step :: "web_library \<Rightarrow> services \<Rightarrow> gateway \<Rightarrow> gateway_event \<Rightarrow> gateway" where
  "gateway_step lib sv gw event = (case event of
      Request en req \<Rightarrow> snd (serve lib sv en req gw)
    | WorkerStatus i s e \<Rightarrow> gw\<lparr>gw_store := snd (store_call (set_job_status sv i s e) (gw_store gw))\<rparr>
    | WorkerResult i r \<Rightarrow> gw\<lparr>gw_store := snd (store_call (record_job_result sv i r) (gw_store gw))\<rparr>)"

lemma serve_evolves:
  assumes "vault_law sv" and "gateway_ok sv (st_db (gw_store gw))"
  shows "evolves sv (st_db (gw_store gw)) (st_db (gw_store (snd (serve lib sv en req gw))))"
proof (cases rule: serve_cases [of lib sv en req gw])
  case (called route user)
  then show ?thesis using call_route_evolves [OF assms] by simp
qed (simp_all add: evolves_refl assms)

lemma gateway_step_evolves:
  assumes "vault_law sv" and "gateway_ok sv (st_db (gw_store gw))"
  shows "evolves sv (st_db (gw_store gw)) (st_db (gw_store (gateway_step lib sv gw event)))"
proof (cases event)
  case (Request en req)
  then show ?thesis using serve_evolves [OF assms] by (simp add: gateway_step_def)
next
  case (WorkerStatus i s e)
  then show ?thesis
    using store_call_keeps [OF job_ops_evolve(2) [OF assms(1)], of i s e] assms(2)
    by (simp add: gateway_step_def keeps_gateway_def)
next
  case (WorkerResult i r)
  then show ?thesis
    using store_call_keeps [OF job_ops_evolve(3) [OF assms(1)], of i r] assms(2)
    by (simp add: gateway_step_def keeps_gateway_def)
qed

interpretation gateway_runs: invariant_system "gateway_step lib sv"
    "\<lambda>gw. vault_law sv \<and> evolves sv d (st_db (gw_store gw))" for lib sv d
proof
  fix gw :: gateway and event assume inv: "vault_law sv \<and> evolves sv d (st_db (gw_store gw))"
  then show "vault_law sv \<and> evolves sv d (st_db (gw_store (gateway_step lib sv gw event)))"
    using gateway_step_evolves [of sv gw lib event] evolves_ok evolves_trans by blast
qed

text \<open>
  C1. Whatever requests are served and whatever the batch worker does
  between them, in any order and with any answers of the outside: the database satisfies its schema,
  every stored profile can be decrypted and read, every static route belongs to an initialised
  connection, every job agrees with its snapshot and has only progressed, and the audit log has only
  grown.
\<close>

theorem the_gateway_stays_consistent:
  assumes "vault_law sv" and "gateway_ok sv (st_db (gw_store gw))"
  shows "let d = st_db (gw_store gw); d' = st_db (gw_store (foldl (gateway_step lib sv) gw events)) in
     profiles_ok sv d' \<and> routes_ok d' \<and> jobs_consistent sv d' \<and> history d d'
     \<and> prefix (gateway_transactions d) (gateway_transactions d')"
  using gateway_runs.run_inv [of sv "st_db (gw_store gw)" gw lib events] assms evolves_refl [OF assms(2)]
  by (simp add: Let_def evolves_def gateway_ok_def)

section \<open>Answers\<close>

text \<open>The names a declaration allows at any depth, when it has no open part.\<close>

fun declared_names :: "annotation \<Rightarrow> string set" where
  "declared_names (Nullable t) = declared_names t"
| "declared_names (Items t lo hi) = declared_names t"
| "declared_names (Model fs ok) = fst ` set fs \<union> \<Union> (set (map (\<lambda>f. declared_names (snd (snd f))) fs))"
| "declared_names _ = {}"

fun closed_model :: "annotation \<Rightarrow> bool" where
  "closed_model Anything = False"
| "closed_model (Entries k t lo hi) = False"
| "closed_model (Nullable t) = closed_model t"
| "closed_model (Items t lo hi) = closed_model t"
| "closed_model (Model fs ok) = list_all (\<lambda>f. closed_model (snd (snd f))) fs"
| "closed_model _ = True"

lemma accepted_names:
  "accepts t v \<Longrightarrow> closed_model t \<Longrightarrow> unique_keys v \<Longrightarrow> all_keys v \<subseteq> declared_names t"
  "accepts_fields fs d \<Longrightarrow> list_all (\<lambda>f. closed_model (snd (snd f))) fs \<Longrightarrow>
     \<forall>f \<in> set fs. \<forall>v. map_of d (fst f) = Some v \<longrightarrow> unique_keys v \<longrightarrow> all_keys v \<subseteq> declared_names (snd (snd f))"
proof (induction t v and fs d rule: accepts_accepts_fields.induct [case_names Text OneOf Whole Switch Always Duration
      Anything Nullable Items Entries Model NoField Field])
  case (Text lo hi p v)
  then show ?case by (cases v) simp_all
next
  case (OneOf ws v)
  then show ?case by (cases v) (simp_all add: image_iff)
next
  case (Whole lo hi v)
  then show ?case by (cases v) simp_all
next
  case (Switch v)
  then show ?case by (cases v) (simp_all add: is_bool_def)
next
  case (Duration v)
  then show ?case by (cases v) simp_all
next
  case (Nullable t v)
  then show ?case by (cases "v = JNull") simp_all
next
  case (Items t lo hi v)
  then obtain xs where v: "v = JList xs" and xs: "list_all (accepts t) xs" by (cases v) simp_all
  have "all_keys x \<subseteq> declared_names t" if "x \<in> set xs" for x
    using Items.IH [OF v that] that xs Items.prems by (simp add: v list_all_iff)
  then show ?case by (simp add: v UN_least)
next
  case (Model fs ok v)
  then obtain d where v: "v = JObj d" and keys: "fst ` set d \<subseteq> fst ` set fs" and fs: "accepts_fields fs d"
    unfolding accepts_Model by blast
  have ih: "\<forall>f \<in> set fs. \<forall>v. map_of d (fst f) = Some v \<longrightarrow> unique_keys v \<longrightarrow> all_keys v \<subseteq> declared_names (snd (snd f))"
    using Model.prems(2) by (intro Model.IH [OF v fs]) simp
  have "all_keys x \<subseteq> \<Union> (set (map (\<lambda>f. declared_names (snd (snd f))) fs))" if "(k, x) \<in> set d" for k x
  proof -
    have "map_of d k = Some x" "unique_keys x"
      using that Model.prems(3) by (auto simp: v wf_dict_def list_all_iff)
    moreover have "k \<in> fst ` set fs" using keys image_eqI [OF _ that, of k fst] by auto
    then obtain f where f: "f \<in> set fs" "fst f = k" by blast
    ultimately have "all_keys x \<subseteq> declared_names (snd (snd f))" using ih by blast
    then show ?thesis using f(1) by auto
  qed
  then have "(\<Union>(k, x) \<in> set d. all_keys x) \<subseteq> \<Union> (set (map (\<lambda>f. declared_names (snd (snd f))) fs))"
    unfolding case_prod_unfold by (intro UN_least) (metis prod.collapse)
  then show ?case using keys unfolding v all_keys.simps declared_names.simps by (rule Un_mono [rotated])
next
  case (Field f fs d)
  then show ?case by (cases "map_of d (fst f)") simp_all
qed simp_all

lemma answers_of_routes:
  "fst (management_route lib sv en mg req route st) = Inr (Answer n t j hs) \<Longrightarrow>
     t = answer_model route \<or> (\<exists>name. route = GetSettings name \<or> route = UpdateSettings name)"
  "fst (device_route lib sv en provider user req route st) = Inr (Answer n t j hs) \<Longrightarrow> t = answer_model route"
  "fst (batch_route lib sv en mg req route bt st) = Inr (Answer n t j hs, bt') \<Longrightarrow> t = answer_model route"
proof -
  show "fst (management_route lib sv en mg req route st) = Inr (Answer n t j hs) \<Longrightarrow>
     t = answer_model route \<or> (\<exists>name. route = GetSettings name \<or> route = UpdateSettings name)"
    by (cases route) (auto simp: management_route_def answer_model_def bindS_fst_Inr with_body_def split: option.splits if_splits)
  show "fst (device_route lib sv en provider user req route st) = Inr (Answer n t j hs) \<Longrightarrow> t = answer_model route"
    by (cases route) (auto simp: device_route_def answer_model_def Let_def bindS_fst_Inr split: option.splits list.splits)
  show "fst (batch_route lib sv en mg req route bt st) = Inr (Answer n t j hs, bt') \<Longrightarrow> t = answer_model route"
    by (cases route) (auto simp: batch_route_def answer_model_def bindS_fst_Inr split: option.splits)
qed

lemma answer_of_call:
  assumes "fst (call_route lib sv en user req route gw) = Inr (Answer n t j hs)"
  shows "t = answer_model route \<or> (\<exists>name. route = GetSettings name \<or> route = UpdateSettings name)"
proof (cases "uses_batches route")
  case True
  then show ?thesis
    using assms answers_of_routes(3) [of lib sv en "fst (batch_service gw)" req route "snd (batch_service gw)" "gw_store gw"]
    by (auto simp: call_route_def Let_def split: prod.splits sum.splits)
next
  case False
  then show ?thesis
    using assms answers_of_routes(1) [of lib sv en "gw_management gw" req route "gw_store gw"]
      answers_of_routes(2) [of lib sv en "mg_provider (gw_management gw)" user req route "gw_store gw"]
    by (auto simp: call_route_def split: prod.splits if_splits)
qed

text \<open>The routes whose answers have no open part: all but the configurations and the audit log.\<close>

definition closed_route :: "route \<Rightarrow> bool" where
  "closed_route route = (case route of GetSettings _ \<Rightarrow> False | UpdateSettings _ \<Rightarrow> False | ListTransactions \<Rightarrow> False | _ \<Rightarrow> True)"

lemmas model_defs = authentication_write_def public_authentication_def public_connector_def public_connection_model_def
  public_proxy_model_def public_role_account_model_def public_model_def collection_model_def capabilities_model_def
  test_result_fields_def test_result_model_def batch_result_model_def public_job_model_def simulated_response_def
  device_identity_def device_access_def system_inventory_def interface_inventory_def bgp_neighbor_def
  bgp_inventory_def mpls_interface_def ldp_neighbor_def label_switched_path_def mpls_inventory_def
  device_inventory_model_def static_route_fields_def static_route_model_def static_route_collection_def
  static_route_item_def

lemma closed_answers:
  assumes "closed_route route"
  shows "closed_model (answer_model route) \<and> declared_names (answer_model route) \<inter> set secret_fields = {}"
proof -
  have "closed_model (public_model res) \<and> declared_names (public_model res) \<inter> set secret_fields = {}" for res
    by (cases res) (simp_all add: model_defs secret_fields_def)
  moreover have "declared_names (collection_model res) = insert ''items'' (declared_names (public_model res))"
    "closed_model (collection_model res) = closed_model (public_model res)" for res
    by (simp_all add: collection_model_def)
  moreover have "''items'' \<notin> set secret_fields" by (simp add: secret_fields_def)
  moreover have "declared_names t \<inter> set secret_fields = {} \<and> closed_model t"
    if "t \<in> {capabilities_model, test_result_model, public_job_model, device_inventory_model, static_route_collection,
      static_route_item, connection_test_write}" for t
    using that by (auto simp: model_defs connection_test_write_def secret_fields_def)
  ultimately show ?thesis
    using assms by (cases route) (simp_all add: answer_model_def closed_route_def)
qed

text \<open>
  A JSON answer of a route other than those of the mappings and the audit log consists, at every
  depth, of fields declared by the response model of its route, and none of them is a credential.
\<close>

theorem answers_hold_declared_fields:
  assumes "renders_declared lib" and "serve lib sv en req gw = (Some resp, gw')" and "rs_body resp = JsonBody u"
    and "route_at (rq_verb req) (rq_path req) = Some route" and "closed_route route"
  shows "all_keys u \<subseteq> declared_names (answer_model route) \<and> all_keys u \<inter> set secret_fields = {}"
proof (cases rule: serve_cases [of lib sv en req gw])
  case away
  then show ?thesis using assms(2) by simp
next
  case (refused resp')
  then show ?thesis
    using assms(2,3) check_browser_mutation_Inl [of req resp] role_refusal_body
    by (fastforce simp: plain_response_def invalid_fields_def storage_unavailable_def)
next
  case (called route' user)
  then have resp: "resp = respond lib (fst (call_route lib sv en user req route gw))"
    using assms(2,4) by simp
  then obtain n t j hs where a: "fst (call_route lib sv en user req route gw) = Inr (Answer n t j hs)"
    and r: "render lib t j = Some u"
    using assms(3) by (auto simp: respond_def plain_response_def invalid_fields_def unhandled_def
        split: sum.splits service_error.splits outcome.splits option.splits)
  have "t = answer_model route"
    using answer_of_call [OF a] assms(5) by (auto simp: closed_route_def)
  moreover have "accepts t u" "unique_keys u" using assms(1) r by (auto simp: renders_declared_def)
  ultimately show ?thesis
    using accepted_names(1) [of t u] closed_answers [OF assms(5)] by blast
qed

end
