(* ===== verification/HttpSamples.thy ===== *)
theory HttpSamples
  imports HttpLaws
begin

text \<open>
  Requests at concrete inputs: an administrator lists the role accounts, deletes one, and asks for one that is missing. They are the witnesses of the theorems of \<open>HttpLaws\<close> and \<open>ModelLaws\<close>.
\<close>

section \<open>A library and a gateway\<close>

definition sample_web :: web_library where
  "sample_web = \<lparr>read_body = (\<lambda>t v. if accepts t v then Some (dump t v) else None),
     render = (\<lambda>t v. if accepts t v \<and> unique_keys v then Some v else None)\<rparr>"

lemma sample_web_laws: "reads_strictly sample_web" "renders_declared sample_web"
  by (simp_all add: reads_strictly_def renders_declared_def sample_web_def)

definition sample_surroundings :: surroundings where
  "sample_surroundings = \<lparr>storage_ready = True, call_draws = sample_draws, record_draws = sample_draws,
     minted_id = sample_cid, scheduled = True, dumps = enc, query_int = (\<lambda>_. None)\<rparr>"

definition sample_admin :: authenticated_user where
  "sample_admin = \<lparr>subject = ''a-1'', tenant_id = None, user_name = ''Ada'', email = None,
     roles = {Administrator}, auth_mode = Entra\<rparr>"

definition sample_web_request :: "string \<Rightarrow> string list \<Rightarrow> request_body \<Rightarrow> web_request" where
  "sample_web_request verb path b = \<lparr>rq_verb = verb, rq_path = path, rq_url_path = ''/api/v1'', rq_query = [],
     rq_base_url = ''http://gw/'', rq_origin = Some ''http://gw'', rq_fetch_site = None,
     rq_content_type = Some ''application/json'', rq_correlation = None, rq_body = b,
     rq_caller = Inr sample_admin\<rparr>"

definition sample_gateway :: "db \<Rightarrow> gateway" where
  "sample_gateway d = \<lparr>gw_store = \<lparr>st_db = d, st_closed = False\<rparr>,
     gw_management = \<lparr>mg_demo_mode = True, mg_provider = ''fake'', mg_network = sample_tester, mg_fake = sample_tester\<rparr>,
     gw_batches = None\<rparr>"

definition sample_get :: web_request where
  "sample_get = sample_web_request ''GET'' [''role-accounts''] Absent"

definition sample_delete :: web_request where
  "sample_delete = sample_web_request ''DELETE'' [''role-accounts'', ''0''] Absent"

definition sample_answer :: "web_request \<Rightarrow> db \<Rightarrow> response option" where
  "sample_answer req d = fst (serve sample_web sample_services sample_surroundings req (sample_gateway d))"

lemma sample_deleted: "map_option rs_status (sample_answer sample_delete (st_db sample_store)) = Some 204"
  by code_simp

lemma sample_listed: "map_option rs_body (sample_answer sample_get (st_db sample_store)) =
    Some (JsonBody (JObj [(''items'', JList [JObj sample_public_role])]))"
  by code_simp

lemma sample_missing: "map_option rs_body (sample_answer sample_delete empty_db) = Some (Detail ''The requested resource was not found.'')"
  by code_simp

lemma sample_answered: "map_option f (sample_answer req d) = Some y \<Longrightarrow>
    \<exists>resp gw'. serve sample_web sample_services sample_surroundings req (sample_gateway d) = (Some resp, gw') \<and> f resp = y"
  by (cases "serve sample_web sample_services sample_surroundings req (sample_gateway d)") (auto simp: sample_answer_def)

section \<open>Witnesses\<close>

theorem requests_need_their_role_witness:
  "\<exists>route user. route_at (rq_verb sample_delete) (rq_path sample_delete) = Some route \<and> rq_caller sample_delete = Inr user
     \<and> has_role user (needed_role route)"
proof -
  obtain resp gw' where "serve sample_web sample_services sample_surroundings sample_delete (sample_gateway (st_db sample_store)) = (Some resp, gw')"
    and "rs_status resp = 204" using sample_answered [OF sample_deleted] by blast
  then show ?thesis
    using requests_need_their_role [of sample_web sample_services sample_surroundings sample_delete "sample_gateway (st_db sample_store)"]
    by (fastforce simp: sample_delete_def sample_web_request_def)
qed

theorem reads_change_nothing_witness:
  "gw_store (snd (serve sample_web sample_services sample_surroundings sample_get (sample_gateway empty_db)))
     = gw_store (sample_gateway empty_db)"
proof -
  have "route_at ''GET'' [''role-accounts''] = Some (ListProfiles RoleAccounts)" by code_simp
  then show ?thesis by (intro reads_change_nothing) (simp_all add: sample_get_def sample_web_request_def)
qed

theorem error_texts_are_fixed_witness: "''The requested resource was not found.'' \<in> set fixed_details"
  using sample_answered [OF sample_missing] error_texts_are_fixed by blast

theorem the_gateway_stays_consistent_witness:
  "let d' = st_db (gw_store (foldl (gateway_step sample_web sample_services) (sample_gateway (st_db sample_store))
     [Request sample_surroundings sample_delete, WorkerStatus (JStr ''0'') (JStr ''failed'') JNull, Request sample_surroundings sample_get]))
   in profiles_ok sample_services d' \<and> routes_ok d' \<and> jobs_consistent sample_services d'"
proof -
  have "gateway_ok sample_services (st_db (gw_store (sample_gateway (st_db sample_store))))"
    by (simp add: sample_gateway_def gateway_ok_def) code_simp
  then show ?thesis
    using the_gateway_stays_consistent [OF sample_services_law] unfolding Let_def by blast
qed

theorem answers_hold_declared_fields_witness:
  "all_keys (JObj [(''items'', JList [JObj sample_public_role])]) \<inter> set secret_fields = {}"
proof -
  have "route_at (rq_verb sample_get) (rq_path sample_get) = Some (ListProfiles RoleAccounts)" by code_simp
  then show ?thesis
    using sample_answered [OF sample_listed] answers_hold_declared_fields [OF sample_web_laws(2)]
    by (fastforce simp: closed_route_def)
qed

theorem settings_models_agree_witness:
  "accepts device_lookup_settings (JObj [(''search_column'', JStr ''name''), (''table'', JStr ''devices'')])
     \<and> (\<exists>q. validate_config ''device_lookup'' (JObj [(''search_column'', JStr ''name''), (''table'', JStr ''devices'')]) = Inr q)"
proof -
  have "(''device_lookup'', device_lookup_settings) \<in> set settings_models" by (simp add: settings_models_def)
  moreover have "wf_dict [(''search_column'', JStr ''name''), (''table'', JStr ''devices'')]" by (simp add: wf_dict_def)
  moreover have "accepts device_lookup_settings (JObj [(''search_column'', JStr ''name''), (''table'', JStr ''devices'')])"
    by code_simp
  ultimately show ?thesis using settings_models_agree by blast
qed

end
