(* ===== verification/Peers.thy ===== *)
theory Peers
  imports Handshakes
begin

text \<open>
  The protocol peers of \<open>demo/emulators/proxy_protocols.py\<close>: loopback listeners that speak the
  other side of the handshakes of the gateway. This theory has what they share: who owns which
  socket and how a peer is stopped, exact reads, checked destinations, and the relay.
\<close>

section \<open>Ownership\<close>

text \<open>
  The state of one \<open>LoopbackPeer\<close> that its threads share: the stop event, the owned resources, the
  listener, what is open, and the resources a call of \<open>stop\<close> still has to close.
\<close>

record 'r peer_life =
  lf_stop :: bool
  lf_resources :: "'r set"
  lf_listener :: "'r option"
  lf_open :: "'r set"
  lf_closing :: "'r set option"

definition peer_new :: "'r peer_life" where
  "peer_new = \<lparr>lf_stop = False, lf_resources = {}, lf_listener = None, lf_open = {}, lf_closing = None\<rparr>"

text \<open>\<open>isinstance(port, int)\<close> but no Boolean.\<close>

definition peer_port_ok :: "json \<Rightarrow> bool" where
  "peer_port_ok port = (case port of JInt i \<Rightarrow> 0 \<le> i \<and> i \<le> 65535 | _ \<Rightarrow> False)"

text \<open>\<open>own\<close> of a resource that was just opened; false is the \<open>EOFError\<close>.\<close>

definition life_own :: "'r \<Rightarrow> 'r peer_life \<Rightarrow> bool \<times> 'r peer_life" where
  "life_own r f = (if lf_stop f then (False, f)
     else (True, f\<lparr>lf_resources := insert r (lf_resources f), lf_open := insert r (lf_open f)\<rparr>))"

text \<open>A close, and the \<open>discard\<close> that follows it, of the thread that used a resource.\<close>

definition life_close :: "'r \<Rightarrow> 'r peer_life \<Rightarrow> 'r peer_life" where
  "life_close r f = f\<lparr>lf_open := lf_open f - {r}\<rparr>"

definition life_discard :: "'r \<Rightarrow> 'r peer_life \<Rightarrow> 'r peer_life" where
  "life_discard r f = f\<lparr>lf_resources := lf_resources f - {r}\<rparr>"

text \<open>\<open>start\<close>; \<open>binds\<close> tells whether the listener could be bound.\<close>

datatype start_error = AlreadyStarted | ListenFailed | StoppedBefore

definition life_start :: "'r \<Rightarrow> bool \<Rightarrow> 'r peer_life \<Rightarrow> (start_error + unit) \<times> 'r peer_life" where
  "life_start listener binds f =
     (if lf_listener f \<noteq> None then (Inl AlreadyStarted, f)
      else case life_own listener f of
        (False, f) \<Rightarrow> (Inl StoppedBefore, f)
      | (True, f) \<Rightarrow>
          if binds then (Inr (), f\<lparr>lf_listener := Some listener\<rparr>)
          else (Inl ListenFailed, (life_discard listener (life_close listener f))\<lparr>lf_listener := None\<rparr>))"

text \<open>
  The steps of the threads, in any order. A worker discards a resource only after it closed it;
  \<open>stop\<close> sets the event, copies the resources, closes the copies and forgets the resources.
\<close>

inductive peer_step :: "'r peer_life \<Rightarrow> 'r peer_life \<Rightarrow> bool" where
  Start: "r \<notin> lf_open f \<Longrightarrow> peer_step f (snd (life_start r binds f))"
| Own: "peer_step f (snd (life_own r f))"
| Close: "peer_step f (life_close r f)"
| Discard: "r \<notin> lf_open f \<Longrightarrow> peer_step f (life_discard r f)"
| SetStop: "peer_step f (f\<lparr>lf_stop := True\<rparr>)"
| Snapshot: "lf_stop f \<Longrightarrow> lf_closing f = None \<Longrightarrow> peer_step f (f\<lparr>lf_closing := Some (lf_resources f)\<rparr>)"
| CloseNext: "lf_closing f = Some S \<Longrightarrow> r \<in> S \<Longrightarrow>
    peer_step f ((life_close r f)\<lparr>lf_closing := Some (S - {r})\<rparr>)"
| Clear: "lf_closing f = Some {} \<Longrightarrow> peer_step f (f\<lparr>lf_resources := {}, lf_closing := None\<rparr>)"

inductive_cases peer_stepE: "peer_step f f'"

text \<open>Everything open is owned, and once \<open>stop\<close> has copied the resources nothing else is open.\<close>

definition owned_ok :: "'r peer_life \<Rightarrow> bool" where
  "owned_ok f \<longleftrightarrow> lf_open f \<subseteq> lf_resources f \<and> (case lf_closing f of None \<Rightarrow> True | Some S \<Rightarrow> lf_stop f \<and> lf_open f \<subseteq> S)"

lemma peer_new_ok: "owned_ok peer_new"
  by (simp add: owned_ok_def peer_new_def)

lemma life_own_ok: "owned_ok f \<Longrightarrow> owned_ok (snd (life_own r f))"
  by (auto simp: owned_ok_def life_own_def split: option.splits)

lemma life_start_ok: "owned_ok f \<Longrightarrow> owned_ok (snd (life_start r binds f))"
  by (auto simp: owned_ok_def life_own_def life_start_def life_close_def life_discard_def split: option.splits)

lemma peer_step_ok: "peer_step f f' \<Longrightarrow> owned_ok f \<Longrightarrow> owned_ok f'"
proof (induction rule: peer_step.induct)
  case (Start r f binds)
  then show ?case by (simp add: life_start_ok)
next
  case (Own f r)
  then show ?case by (simp add: life_own_ok)
qed (auto simp: owned_ok_def life_close_def life_discard_def split: option.splits)

text \<open>After \<open>stop\<close> nothing becomes open any more.\<close>

lemma peer_step_stopped:
  "peer_step f f' \<Longrightarrow> lf_stop f \<Longrightarrow> lf_stop f' \<and> lf_open f' \<subseteq> lf_open f"
  by (induction rule: peer_step.induct) (auto simp: life_own_def life_start_def life_close_def life_discard_def)

end
