(* ===== verification/PeerProtocols.thy ===== *)
theory PeerProtocols
  imports Peers PyNumber
begin

text \<open>
  One accepted connection of a peer of \<open>demo/emulators/proxy_protocols.py\<close>: exact reads and
  checked destinations, the SOCKS5, HTTP CONNECT and Telnet handlers, the SSH server interface with
  its shell and NETCONF channels, and the relay that follows a granted request.
\<close>

section \<open>Reads and writes\<close>

datatype peer_exn = PeerOs | PeerEof | PeerValue

datatype peer_resource = Accepted | Target "string \<times> int" | Transport | Channel nat

text \<open>
  The connection a worker serves: the stream, whether the stop event is set when it is looked at,
  the events noted, what the worker owns and what it closed, and the connections it asked for.
\<close>

record peer = wire +
  stops :: "bool list"
  noted :: "string list"
  held :: "peer_resource list"
  freed :: "peer_resource list"
  visits :: "(string \<times> int) list"

type_synonym 'a peer_call = "(peer, peer_exn, 'a) io"

definition log_event :: "string \<Rightarrow> unit peer_call" where
  "log_event event p = (Inr (), p\<lparr>noted := noted p @ [event]\<rparr>)"

definition say :: "bytes \<Rightarrow> unit peer_call" where
  "say bs p = (case sendall bs p of (True, p') \<Rightarrow> (Inr (), p') | (False, p') \<Rightarrow> (Inl PeerOs, p'))"

definition peer_recv :: "nat \<Rightarrow> bytes peer_call" where
  "peer_recv n p = (case recv n p of (Some bs, p') \<Rightarrow> (Inr bs, p') | (None, p') \<Rightarrow> (Inl PeerOs, p'))"

definition is_stopped :: "bool peer_call" where
  "is_stopped p = (case stops p of [] \<Rightarrow> (Inr False, p) | s # ss \<Rightarrow> (Inr s, p\<lparr>stops := ss\<rparr>))"

text \<open>\<open>_exact\<close>.\<close>

function exact :: "nat \<Rightarrow> bytes peer_call" where
  "exact n p = (if n = 0 then (Inr [], p)
     else case peer_recv n p of
       (Inl e, p') \<Rightarrow> (Inl e, p')
     | (Inr chunk, p') \<Rightarrow> if chunk = [] then (Inl PeerEof, p')
         else case exact (n - length chunk) p' of
           (Inl e, p'') \<Rightarrow> (Inl e, p'')
         | (Inr rest, p'') \<Rightarrow> (Inr (chunk @ rest), p''))"
  by pat_completeness auto

termination
  by (relation "measure fst") (auto simp: length_greater_0_conv diff_less)

declare exact.simps [simp del]

text \<open>\<open>_exact(stream, _exact(stream, 1)[0])\<close>: a byte and as many bytes as it says.\<close>

definition sized_field :: "bytes peer_call" where
  "sized_field = bindW (exact 1) (\<lambda>size. exact (unat (size ! 0)))"

lemma peer_recv_length: "peer_recv n p = (Inr bs, p') \<Longrightarrow> length bs \<le> n"
  using recv_Some(1) [of n p] by (auto simp: peer_recv_def split: prod.splits option.splits)

lemma exact_cases:
  assumes "exact n p = (Inr bs, p')" and "n \<noteq> 0"
  obtains chunk v rest where "peer_recv n p = (Inr chunk, v)" and "chunk \<noteq> []"
    and "exact (n - length chunk) v = (Inr rest, p')" and "bs = chunk @ rest"
  using assms by (auto simp: exact.simps [of n p] split: prod.splits sum.splits if_splits)

lemma exact_length: "exact n p = (Inr bs, p') \<Longrightarrow> length bs = n"
proof (induction n p arbitrary: bs p' rule: exact.induct)
  case (1 n p)
  show ?case
  proof (cases "n = 0")
    case True
    then show ?thesis using "1.prems" by (simp add: exact.simps)
  next
    case False
    obtain chunk v rest where c: "peer_recv n p = (Inr chunk, v)" "chunk \<noteq> []"
      and r: "exact (n - length chunk) v = (Inr rest, p')" and b: "bs = chunk @ rest"
      using "1.prems" False by (rule exact_cases)
    then show ?thesis using "1.IH" [OF False c(1) [symmetric] refl c(2) r] peer_recv_length [OF c(1)] by simp
  qed
qed

text \<open>\<open>_until\<close>, with what was read so far.\<close>

function until :: "bytes \<Rightarrow> nat \<Rightarrow> bytes \<Rightarrow> bytes peer_call" where
  "until mark limit data p =
     (if suffix mark data then (Inr data, p)
      else if limit \<le> length data then (Inl PeerValue, p)
      else case exact 1 p of
        (Inl e, p') \<Rightarrow> (Inl e, p')
      | (Inr bs, p') \<Rightarrow> until mark limit (data @ bs) p')"
  by pat_completeness auto

termination
  by (relation "measure (\<lambda>(_, limit, data, _). limit - length data)")
    (simp, clarsimp, drule sym, drule exact_length, simp)

declare until.simps [simp del]

section \<open>Texts\<close>

text \<open>\<open>bytes.decode("ascii")\<close>, and the code points of \<open>bytes.decode("utf-8")\<close>, both strict.\<close>

definition decode_ascii :: "bytes \<Rightarrow> string option" where
  "decode_ascii bs = (if list_all (\<lambda>b. b < 128) bs then Some (map (\<lambda>b. char_of (unat b)) bs) else None)"

definition continuation :: "byte \<Rightarrow> bool" where
  "continuation b \<longleftrightarrow> 128 \<le> b \<and> b < 192"

text \<open>How many bytes follow a first byte, and the code points they may stand for.\<close>

definition sequence_of :: "byte \<Rightarrow> (nat \<times> nat \<times> nat) option" where
  "sequence_of b = (if b < 128 then Some (0, 0, 127)
     else if 192 \<le> b \<and> b < 224 then Some (1, 128, 2047)
     else if 224 \<le> b \<and> b < 240 then Some (2, 2048, 65535)
     else if 240 \<le> b \<and> b < 248 then Some (3, 65536, 1114111) else None)"

definition lead_bits :: "nat \<Rightarrow> byte \<Rightarrow> nat" where
  "lead_bits k b = (if k = 0 then unat b else if k = 1 then unat b - 192 else if k = 2 then unat b - 224 else unat b - 240)"

definition code_point :: "nat \<Rightarrow> bytes \<Rightarrow> nat" where
  "code_point first rest = foldl (\<lambda>n b. n * 64 + (unat b - 128)) first rest"

fun utf8_points :: "bytes \<Rightarrow> nat list option" where
  "utf8_points [] = Some []"
| "utf8_points (b # bs) = (case sequence_of b of
      None \<Rightarrow> None
    | Some (k, lo, hi) \<Rightarrow>
        let n = code_point (lead_bits k b) (take k bs) in
        if length bs < k \<or> \<not> list_all continuation (take k bs) \<or> n < lo \<or> hi < n \<or> 55296 \<le> n \<and> n \<le> 57343 then None
        else map_option (\<lambda>ns. n # ns) (utf8_points (drop k bs)))"

definition decoded :: "'a option \<Rightarrow> 'a peer_call" where
  "decoded x = (case x of None \<Rightarrow> raiseW PeerValue | Some y \<Rightarrow> returnW y)"

definition points :: "string \<Rightarrow> nat list" where
  "points s = map ord_of s"

section \<open>Destinations\<close>

text \<open>\<open>_loopback\<close>: an IPv6 address may carry a scope.\<close>

definition scoped_address :: "string \<Rightarrow> (ip_address \<times> string) option" where
  "scoped_address host = (let address = takeWhile (\<lambda>c. c \<noteq> CHR ''%'') host; scope = dropWhile (\<lambda>c. c \<noteq> CHR ''%'') host in
     if scope = [] then map_option (\<lambda>a. (a, [])) (parse_address host)
     else if tl scope = [] \<or> CHR ''%'' \<in> set (tl scope) \<or> CHR ''/'' \<in> set host then None
     else map_option (\<lambda>w. (V6 w, scope)) (parse_ipv6 address))"

definition peer_loopback :: "string \<Rightarrow> string option" where
  "peer_loopback host = (if lower host = ''localhost'' then Some ''127.0.0.1''
     else case scoped_address host of
       None \<Rightarrow> None
     | Some (a, scope) \<Rightarrow> if is_loopback a then Some (show_address a @ scope) else None)"

text \<open>\<open>own\<close> for a worker: a stopped peer closes the resource at once.\<close>

definition peer_own :: "peer_resource \<Rightarrow> unit peer_call" where
  "peer_own r = bindW is_stopped (\<lambda>stopped p.
     if stopped then (Inl PeerEof, p\<lparr>freed := freed p @ [r]\<rparr>) else (Inr (), p\<lparr>held := held p @ [r]\<rparr>))"

definition peer_free :: "peer_resource \<Rightarrow> unit peer_call" where
  "peer_free r p = (Inr (), p\<lparr>held := remove1 r (held p), freed := freed p @ [r]\<rparr>)"

text \<open>\<open>destination\<close>; \<open>reach\<close> tells which endpoints of the loopback interface accept connections.\<close>

definition visit :: "string \<times> int \<Rightarrow> unit peer_call" where
  "visit a p = (Inr (), p\<lparr>visits := visits p @ [a]\<rparr>)"

definition peer_destination :: "(string \<times> int \<Rightarrow> bool) \<Rightarrow> string \<Rightarrow> int \<Rightarrow> (string \<times> int) peer_call" where
  "peer_destination reach host port =
     bindW (decoded (peer_loopback host)) (\<lambda>host.
     bindW (whenW (\<not> (1 \<le> port \<and> port \<le> 65535)) PeerValue) (\<lambda>_.
     bindW (peer_own (Target (host, port))) (\<lambda>_.
     bindW (visit (host, port)) (\<lambda>_.
     bindW (whenW (\<not> reach (host, port)) PeerOs) (\<lambda>_.
     bindW (log_event ''destination_connected'') (\<lambda>_. returnW (host, port)))))))"

text \<open>\<open>except (ValueError, OSError)\<close> around a call of \<open>destination\<close>: an answer, then the end.\<close>

definition or_answer :: "'a peer_call \<Rightarrow> bytes \<Rightarrow> 'a option peer_call" where
  "or_answer m refused_with = catchW (bindW m (\<lambda>x. returnW (Some x)))
     (\<lambda>e. if e = PeerEof then raiseW e else bindW (say refused_with) (\<lambda>_. returnW None))"

section \<open>SOCKS5\<close>

text \<open>The options of the two proxies; a handler returns the destination it goes on to relay to.\<close>

record proxy_peer =
  pp_username :: "string option"
  pp_password :: "string option"
  pp_deny :: bool
  pp_malformed :: bool

definition wants_login :: "proxy_peer \<Rightarrow> bool" where
  "wants_login c \<longleftrightarrow> (case pp_username c of Some (_ # _) \<Rightarrow> True | _ \<Rightarrow> False)"

definition socks_answer :: "byte \<Rightarrow> bytes" where
  "socks_answer code = [5, code, 0, 1] @ replicate 6 0"

definition socks_authenticate :: "proxy_peer \<Rightarrow> bool peer_call" where
  "socks_authenticate c =
     bindW (exact 2) (\<lambda>head.
     bindW (exact (unat (head ! 1))) (\<lambda>bs. bindW (decoded (utf8_points bs)) (\<lambda>username.
     bindW sized_field (\<lambda>bs. bindW (decoded (utf8_points bs)) (\<lambda>password.
     if head ! 0 \<noteq> 1 \<or> Some username \<noteq> map_option points (pp_username c)
       \<or> Some password \<noteq> map_option points (pp_password c)
     then bindW (log_event ''auth_rejected'') (\<lambda>_. bindW (say [1, 1]) (\<lambda>_. returnW False))
     else bindW (say [1, 0]) (\<lambda>_. returnW True))))))"

definition socks_host :: "byte \<Rightarrow> string option peer_call" where
  "socks_host kind =
     (if kind = 1 then bindW (exact 4) (\<lambda>bs. returnW (Some (show_ipv4 (word_of_int (of_digits 256 (map uint bs))))))
      else if kind = 4 then bindW (exact 16) (\<lambda>bs. returnW (Some (show_ipv6 (word_of_int (of_digits 256 (map uint bs))))))
      else if kind = 3 then bindW sized_field (\<lambda>bs.
        bindW (decoded (decode_ascii bs)) (\<lambda>host. returnW (Some host)))
      else returnW None)"

definition socks_request :: "(string \<times> int \<Rightarrow> bool) \<Rightarrow> proxy_peer \<Rightarrow> (string \<times> int) option peer_call" where
  "socks_request reach c =
     bindW (exact 4) (\<lambda>head.
     bindW (socks_host (head ! 3)) (\<lambda>found. case found of
       None \<Rightarrow> returnW None
     | Some host \<Rightarrow>
         bindW (exact 2) (\<lambda>bs. let port = of_digits 256 (map uint bs) in
         if pp_malformed c then bindW (say ([4, 0, 0, 1] @ replicate 6 0)) (\<lambda>_. returnW None)
         else if pp_deny c \<or> take 3 head \<noteq> [5, 1, 0] then bindW (say (socks_answer 2)) (\<lambda>_. returnW None)
         else bindW (or_answer (peer_destination reach host port) (socks_answer 4)) (\<lambda>target. case target of
           None \<Rightarrow> returnW None
         | Some t \<Rightarrow> bindW (say (socks_answer 0)) (\<lambda>_. returnW (Some t))))))"

definition socks_peer :: "(string \<times> int \<Rightarrow> bool) \<Rightarrow> proxy_peer \<Rightarrow> (string \<times> int) option peer_call" where
  "socks_peer reach c =
     bindW (exact 2) (\<lambda>head.
     bindW (exact (unat (head ! 1))) (\<lambda>offered.
     let selected = (if wants_login c then 2 else 0) in
     if head ! 0 \<noteq> 5 \<or> selected \<notin> set offered then bindW (say [5, 255]) (\<lambda>_. returnW None)
     else bindW (say [5, selected]) (\<lambda>_.
       bindW (if wants_login c then socks_authenticate c else returnW True) (\<lambda>welcome.
       if welcome then socks_request reach c else returnW None))))"

section \<open>HTTP CONNECT\<close>

text \<open>\<open>split("\r\n")\<close> and the split at the first colon and blank.\<close>

fun text_lines :: "string \<Rightarrow> string list" where
  "text_lines [] = [[]]"
| "text_lines [c] = [[c]]"
| "text_lines (c # d # r) = (if [c, d] = crlf_text then [] # text_lines r
     else (case text_lines (d # r) of [] \<Rightarrow> [[c]] | l # ls \<Rightarrow> (c # l) # ls))"

fun split_header :: "string \<Rightarrow> (string \<times> string) option" where
  "split_header (c # d # r) = (if [c, d] = '': '' then Some ([], r)
     else map_option (\<lambda>(k, v). (c # k, v)) (split_header (d # r)))"
| "split_header _ = None"

definition authority_char :: "char \<Rightarrow> bool" where
  "authority_char c \<longleftrightarrow> is_ascii_alnum c \<or> c = CHR ''.'' \<or> c = CHR ''-''"

text \<open>
  The pattern of the request line, whose one unescaped dot is any character but a line feed. The
  host and the digits of the port.
\<close>

definition connect_target :: "string \<Rightarrow> (string \<times> string) option" where
  "connect_target line = (if \<not> startswith line ''CONNECT '' then None else
     let rest = drop 8 line;
         inner = takeWhile (\<lambda>c. is_hex c \<or> c = CHR '':'') (tl rest);
         host = (if startswith rest ''['' then [CHR ''[''] @ inner @ [CHR '']''] else takeWhile authority_char rest);
         after = drop (length host) rest;
         port = takeWhile is_ascii_digit (tl after);
         version = drop (length port) (tl after)
     in if host \<noteq> [] \<and> host \<noteq> ''[]'' \<and> startswith rest host \<and> startswith after '':'' \<and> port \<noteq> []
          \<and> length version = 9 \<and> startswith version '' HTTP/1'' \<and> version ! 7 \<noteq> CHR 0x0A \<and> version ! 8 = CHR ''1''
        then Some (host, port) else None)"

definition strip_brackets :: "string \<Rightarrow> string" where
  "strip_brackets s = (let bracket = (\<lambda>c. c = CHR ''['' \<or> c = CHR '']'') in
     rev (dropWhile bracket (rev (dropWhile bracket s))))"

definition expected_login :: "proxy_peer \<Rightarrow> string" where
  "expected_login c = ''Basic '' @ b64encode (utf8 ((case pp_username c of Some u \<Rightarrow> u | None \<Rightarrow> [])
     @ '':'' @ (case pp_password c of Some s \<Rightarrow> s | None \<Rightarrow> ''None'')))"

definition status_line :: "string \<Rightarrow> bytes" where
  "status_line s = ascii (''HTTP/1.1 '' @ s) @ [13, 10, 13, 10]"

definition connect_granted :: "(string \<times> int \<Rightarrow> bool) \<Rightarrow> proxy_peer \<Rightarrow> string \<Rightarrow> string \<Rightarrow> (string \<times> int) option peer_call" where
  "connect_granted reach c host port =
     (if pp_malformed c then bindW (say (status_line ''200junk'')) (\<lambda>_. returnW None)
      else if pp_deny c then bindW (say (status_line ''403 Forbidden'')) (\<lambda>_. returnW None)
      else bindW (or_answer (bindW (decoded (parse_int port)) (peer_destination reach (strip_brackets host)))
             (status_line ''502 Bad Gateway'')) (\<lambda>target. case target of
          None \<Rightarrow> returnW None
        | Some t \<Rightarrow> bindW (say (status_line ''200 Connection Established'')) (\<lambda>_. returnW (Some t))))"

definition connect_peer :: "(string \<times> int \<Rightarrow> bool) \<Rightarrow> proxy_peer \<Rightarrow> (string \<times> int) option peer_call" where
  "connect_peer reach c =
     bindW (until [13, 10, 13, 10] 8192 []) (\<lambda>bs.
     bindW (decoded (decode_ascii bs)) (\<lambda>request.
     let lines = text_lines request in
     case connect_target (hd lines) of
       None \<Rightarrow> bindW (say (status_line ''400 Bad Request'')) (\<lambda>_. returnW None)
     | Some (host, port) \<Rightarrow>
         bindW (decoded (those (map split_header (filter (\<lambda>l. l \<noteq> []) (tl lines))))) (\<lambda>headers.
         if wants_login c \<and> map_of (rev headers) ''Proxy-Authorization'' \<noteq> Some (expected_login c)
         then bindW (log_event ''auth_rejected'') (\<lambda>_.
              bindW (say (status_line ''407 Proxy Authentication Required'')) (\<lambda>_. returnW None))
         else connect_granted reach c host port)))"

section \<open>Telnet\<close>

record telnet_peer_options =
  tp_username :: string
  tp_password :: string
  tp_bad_prompt :: bool
  tp_negotiates :: bool

definition strip_line :: "bytes \<Rightarrow> bytes" where
  "strip_line bs = rev (dropWhile line_break (rev (dropWhile line_break bs)))"

definition read_line :: "nat list peer_call" where
  "read_line = bindW (until [10] 4096 []) (\<lambda>bs. decoded (utf8_points (strip_line bs)))"

definition telnet_conversation :: "telnet_peer_options \<Rightarrow> unit peer_call" where
  "telnet_conversation c =
     bindW (say (ascii ''Generic simulated Telnet'' @ [13, 10] @ ascii ''Username: '')) (\<lambda>_.
     bindW read_line (\<lambda>username.
     bindW (say (ascii ''Password: '')) (\<lambda>_.
     bindW read_line (\<lambda>password.
     if username \<noteq> points (tp_username c) \<or> password \<noteq> points (tp_password c)
     then bindW (log_event ''auth_rejected'') (\<lambda>_. say (ascii ''Login incorrect'' @ [13, 10]))
     else bindW (log_event ''password_authenticated'') (\<lambda>_.
       if tp_bad_prompt c then say ([13, 10] @ ascii ''not a prompt'' @ [13, 10])
       else bindW (say ([13, 10] @ ascii ''device> '')) (\<lambda>_.
         bindW (peer_recv 1024) (\<lambda>payload.
         if payload \<noteq> [] then log_event ''unexpected_command'' else returnW ())))))))"

definition telnet_peer :: "telnet_peer_options \<Rightarrow> unit peer_call" where
  "telnet_peer c =
     (if tp_negotiates c then bindW (say [255]) (\<lambda>_. bindW (say [251, 1]) (\<lambda>_.
        bindW (exact 3) (\<lambda>reply. if reply \<noteq> [255, 254, 1] then returnW ()
          else bindW (log_event ''telnet_negotiated'') (\<lambda>_. telnet_conversation c))))
      else telnet_conversation c)"

end
