(* ===== verification/PeerSessions.thy ===== *)
theory PeerSessions
  imports PeerProtocols "HOL-Library.Stream"
begin

text \<open>
  The SSH peer of \<open>demo/emulators/proxy_protocols.py\<close>, the relay between a client and its
  destination, and the life of one worker.
\<close>

section \<open>\<open>shlex.split\<close>\<close>

text \<open>
  The POSIX tokenizer without comments: between words, in a word, in quotes, after a backslash.
  \<open>word\<close> is the word so far and \<open>quoted\<close> whether it had quotes; \<open>None\<close> is a \<open>ValueError\<close>.
\<close>

datatype shlex_state = Between | InWord | Quoted char | Escaped shlex_state

definition shlex_blank :: "char \<Rightarrow> bool" where
  "shlex_blank c \<longleftrightarrow> c = CHR 0x20 \<or> c = CHR 0x09 \<or> c = CHR 0x0A \<or> c = CHR 0x0D"

definition single_quote :: char where
  "single_quote = CHR 0x27"

definition double_quote :: char where
  "double_quote = CHR 0x22"

definition backslash :: char where
  "backslash = CHR 0x5C"

definition escaped_text :: "shlex_state \<Rightarrow> char \<Rightarrow> string" where
  "escaped_text state c = (case state of
      Quoted q \<Rightarrow> if c \<noteq> backslash \<and> c \<noteq> q then [backslash, c] else [c] | _ \<Rightarrow> [c])"

fun shlex_words :: "shlex_state \<Rightarrow> string \<Rightarrow> bool \<Rightarrow> string \<Rightarrow> string list option" where
  "shlex_words Between word quoted [] = Some (if word \<noteq> [] \<or> quoted then [word] else [])"
| "shlex_words InWord word quoted [] = Some (if word \<noteq> [] \<or> quoted then [word] else [])"
| "shlex_words (Quoted q) word quoted [] = None"
| "shlex_words (Escaped state) word quoted [] = None"
| "shlex_words Between word quoted (c # cs) =
     (if shlex_blank c then
        (if word \<noteq> [] \<or> quoted then map_option (\<lambda>ws. word # ws) (shlex_words Between [] False cs)
         else shlex_words Between word quoted cs)
      else if c = backslash then shlex_words (Escaped InWord) word quoted cs
      else if c = single_quote \<or> c = double_quote then shlex_words (Quoted c) word quoted cs
      else shlex_words InWord [c] quoted cs)"
| "shlex_words InWord word quoted (c # cs) =
     (if shlex_blank c then
        (if word \<noteq> [] \<or> quoted then map_option (\<lambda>ws. word # ws) (shlex_words Between [] False cs)
         else shlex_words Between word quoted cs)
      else if c = single_quote \<or> c = double_quote then shlex_words (Quoted c) word quoted cs
      else if c = backslash then shlex_words (Escaped InWord) word quoted cs
      else shlex_words InWord (word @ [c]) quoted cs)"
| "shlex_words (Quoted q) word quoted (c # cs) =
     (if c = q then shlex_words InWord word True cs
      else if c = backslash \<and> q = double_quote then shlex_words (Escaped (Quoted q)) word True cs
      else shlex_words (Quoted q) (word @ [c]) True cs)"
| "shlex_words (Escaped state) word quoted (c # cs) = shlex_words state (word @ escaped_text state c) quoted cs"

definition shlex_split :: "string \<Rightarrow> string list option" where
  "shlex_split s = shlex_words Between [] False s"

section \<open>The SSH server interface\<close>

record ssh_peer =
  sp_username :: string
  sp_password :: "string option"
  sp_key :: "string option"
  sp_bastion :: bool
  sp_deny :: bool
  sp_bad_hello :: bool
  sp_stall_prompt :: bool
  sp_stall_hello :: bool
  sp_hello :: "bytes option"
  sp_partial :: bool
  sp_interactive :: bool

datatype ssh_mode = ShellMode | NetconfMode

record ssh_server =
  ss_destinations :: "nat \<rightharpoonup> string \<times> int"
  ss_mode :: "ssh_mode option"
  ss_noted :: "string list"

datatype auth_result = AuthFailed | AuthPartial | AuthSuccessful

definition ssh_note :: "string \<Rightarrow> ssh_server \<Rightarrow> ssh_server" where
  "ssh_note event s = s\<lparr>ss_noted := ss_noted s @ [event]\<rparr>"

definition allowed_auths :: "ssh_peer \<Rightarrow> string" where
  "allowed_auths c = (if sp_interactive c then ''keyboard-interactive'' else ''publickey,password'')"

definition check_password :: "ssh_peer \<Rightarrow> string \<Rightarrow> string \<Rightarrow> ssh_server \<Rightarrow> auth_result \<times> ssh_server" where
  "check_password c username password s =
     (if sp_interactive c then (AuthFailed, s)
      else if sp_password c \<noteq> None \<and> username = sp_username c \<and> Some password = sp_password c then
        (if sp_partial c then (AuthPartial, s) else (AuthSuccessful, ssh_note ''password_authenticated'' s))
      else (AuthFailed, ssh_note ''auth_rejected'' s))"

definition check_publickey :: "ssh_peer \<Rightarrow> string \<Rightarrow> string \<Rightarrow> ssh_server \<Rightarrow> auth_result \<times> ssh_server" where
  "check_publickey c username key s =
     (if username = sp_username c \<and> sp_key c \<noteq> None \<and> Some key = sp_key c then
        (if sp_partial c then (AuthPartial, s) else (AuthSuccessful, ssh_note ''key_authenticated'' s))
      else (AuthFailed, ssh_note ''auth_rejected'' s))"

definition check_interactive :: "ssh_server \<Rightarrow> auth_result \<times> ssh_server" where
  "check_interactive s = (AuthFailed, ssh_note ''unexpected_interactive_auth'' s)"

definition check_session :: "string \<Rightarrow> bool" where
  "check_session kind \<longleftrightarrow> kind = ''session''"

definition check_tcpip :: "ssh_peer \<Rightarrow> nat \<Rightarrow> string \<times> int \<Rightarrow> ssh_server \<Rightarrow> bool \<times> ssh_server" where
  "check_tcpip c chan destination s =
     (if \<not> sp_bastion c \<or> sp_deny c then (False, s)
      else if peer_loopback (fst destination) = None then (False, s)
      else (True, s\<lparr>ss_destinations := (ss_destinations s)(chan \<mapsto> destination)\<rparr>))"

definition check_pty :: "ssh_peer \<Rightarrow> bool" where
  "check_pty c \<longleftrightarrow> sp_bastion c \<and> \<not> sp_deny c"

definition check_shell :: "ssh_peer \<Rightarrow> ssh_server \<Rightarrow> bool \<times> ssh_server" where
  "check_shell c s = (if \<not> sp_bastion c \<or> sp_deny c then (False, s) else (True, s\<lparr>ss_mode := Some ShellMode\<rparr>))"

definition check_subsystem :: "ssh_peer \<Rightarrow> string \<Rightarrow> ssh_server \<Rightarrow> bool \<times> ssh_server" where
  "check_subsystem c name s = (if sp_bastion c \<or> name \<noteq> ''netconf'' \<or> sp_deny c then (False, s)
     else (True, s\<lparr>ss_mode := Some NetconfMode\<rparr>))"

definition check_exec :: "ssh_server \<Rightarrow> bool \<times> ssh_server" where
  "check_exec s = (False, ssh_note ''unexpected_exec'' s)"

text \<open>The requests of a client, as the transport of the library hands them on.\<close>

datatype ssh_request =
    AskPassword string string
  | AskKey string string
  | AskInteractive
  | AskTcpip nat "string \<times> int"
  | AskShell
  | AskSubsystem string
  | AskExec

definition ssh_serve :: "ssh_peer \<Rightarrow> ssh_request \<Rightarrow> ssh_server \<Rightarrow> bool \<times> ssh_server" where
  "ssh_serve c request s = (case request of
      AskPassword u p \<Rightarrow> map_prod (\<lambda>a. a = AuthSuccessful) id (check_password c u p s)
    | AskKey u k \<Rightarrow> map_prod (\<lambda>a. a = AuthSuccessful) id (check_publickey c u k s)
    | AskInteractive \<Rightarrow> map_prod (\<lambda>a. a = AuthSuccessful) id (check_interactive s)
    | AskTcpip chan d \<Rightarrow> check_tcpip c chan d s
    | AskShell \<Rightarrow> check_shell c s
    | AskSubsystem name \<Rightarrow> check_subsystem c name s
    | AskExec \<Rightarrow> check_exec s)"

definition ssh_start :: ssh_server where
  "ssh_start = \<lparr>ss_destinations = Map.empty, ss_mode = None, ss_noted = []\<rparr>"

section \<open>Channels\<close>

definition bastion_prompt :: bytes where
  "bastion_prompt = ascii ''bastion$ ''"

text \<open>\<open>_shell\<close>: the only command is \<open>telnet HOST PORT\<close>.\<close>

definition shell_channel :: "(string \<times> int \<Rightarrow> bool) \<Rightarrow> ssh_peer \<Rightarrow> (string \<times> int) option peer_call" where
  "shell_channel reach c = (if sp_stall_prompt c then returnW None else
     bindW (say (ascii ''Generic simulated bastion'' @ [13, 10] @ bastion_prompt)) (\<lambda>_.
     bindW (until [10] 1024 []) (\<lambda>bs.
     bindW (decoded (decode_ascii bs)) (\<lambda>line.
     bindW (decoded (shlex_split (strip line))) (\<lambda>command.
     if length command \<noteq> 3 \<or> command ! 0 \<noteq> ''telnet''
     then bindW (log_event ''unexpected_shell_command'') (\<lambda>_. returnW None)
     else bindW (log_event ''telnet_command'') (\<lambda>_.
       or_answer (bindW (decoded (parse_int (command ! 2))) (peer_destination reach (command ! 1)))
         (ascii ''Connection refused'' @ [13, 10] @ bastion_prompt)))))))"

definition netconf_mark :: bytes where
  "netconf_mark = ascii '']]>]]>''"

definition netconf_hello_text :: bytes where
  "netconf_hello_text = ascii (''<hello xmlns='' @ [double_quote] @ ''urn:ietf:params:xml:ns:netconf:base:1.0'' @ [double_quote]
     @ ''><capabilities><capability>urn:ietf:params:netconf:base:1.0</capability></capabilities>''
     @ ''<session-id>42</session-id></hello>'') @ netconf_mark"

lemma to_come_simps [simp]: "to_come (p\<lparr>stops := x\<rparr>) = to_come p" "to_come (p\<lparr>noted := y\<rparr>) = to_come p"
  by (simp_all add: to_come_def)

lemma is_stopped_to_come: "is_stopped p = (r, p') \<Longrightarrow> to_come p' = to_come p"
  by (auto simp: is_stopped_def split: list.splits)

lemma netconf_drain_smaller:
  "is_stopped p = (r, p1) \<Longrightarrow> recv 1024 p1 = (Some payload, p2) \<Longrightarrow> payload \<noteq> [] \<Longrightarrow>
     to_come (snd (log_event e p2)) < to_come p"
  using recv_Some(3) [of 1024 p1 payload p2] by (simp add: is_stopped_to_come log_event_def)

text \<open>What a client sends after the hello is noted until it closes or the peer stops.\<close>

function netconf_drain :: "unit peer_call" where
  "netconf_drain p = (case is_stopped p of
      (Inl e, p) \<Rightarrow> (Inl e, p)
    | (Inr True, p) \<Rightarrow> (Inr (), p)
    | (Inr False, p) \<Rightarrow> (case recv 1024 p of
        (None, p) \<Rightarrow> (Inl PeerOs, p)
      | (Some payload, p) \<Rightarrow> if payload = [] then (Inr (), p)
          else netconf_drain (snd (log_event ''unexpected_rpc'' p))))"
  by pat_completeness auto

termination
  by (relation "measure to_come") (simp, simp, rule netconf_drain_smaller, erule sym, erule sym, assumption)

declare netconf_drain.simps [simp del]

definition netconf_channel :: "ssh_peer \<Rightarrow> unit peer_call" where
  "netconf_channel c =
     bindW (until netconf_mark 65536 []) (\<lambda>hello.
     bindW (log_event (if sublist (ascii ''<hello'') hello then ''client_hello'' else ''unexpected_rpc'')) (\<lambda>_.
     if sp_stall_hello c then returnW ()
     else bindW (say (case sp_hello c of Some h \<Rightarrow> h
         | None \<Rightarrow> if sp_bad_hello c then ascii ''<not-hello/>'' @ netconf_mark else netconf_hello_text)) (\<lambda>_.
       netconf_drain)))"

text \<open>
  The part of \<open>handle\<close> after a channel was accepted: \<open>requested\<close> tells whether a shell or subsystem
  was asked for in time.
\<close>

definition ssh_channel ::
    "(string \<times> int \<Rightarrow> bool) \<Rightarrow> ssh_peer \<Rightarrow> ssh_server \<Rightarrow> bool \<Rightarrow> nat \<Rightarrow> (string \<times> int) option peer_call" where
  "ssh_channel reach c s requested chan =
     bindW (peer_own (Channel chan)) (\<lambda>_.
     case ss_destinations s chan of
       Some d \<Rightarrow> bindW (peer_destination reach (fst d) (snd d)) (\<lambda>t. returnW (Some t))
     | None \<Rightarrow>
         if \<not> requested then returnW None
         else case ss_mode s of
           Some ShellMode \<Rightarrow> shell_channel reach c
         | Some NetconfMode \<Rightarrow> bindW (netconf_channel c) (\<lambda>_. returnW None)
         | None \<Rightarrow> returnW None)"

text \<open>\<open>transport.accept\<close> until a channel comes; the list ends when the transport or the peer does.\<close>

fun first_channel :: "nat option list \<Rightarrow> nat option" where
  "first_channel [] = None"
| "first_channel (None # answers) = first_channel answers"
| "first_channel (Some chan # answers) = Some chan"

definition ssh_handle ::
    "(string \<times> int \<Rightarrow> bool) \<Rightarrow> ssh_peer \<Rightarrow> ssh_server \<Rightarrow> bool \<Rightarrow> nat option list \<Rightarrow> (string \<times> int) option peer_call" where
  "ssh_handle reach c s requested answers =
     bindW (peer_own Transport) (\<lambda>_. case first_channel answers of
       None \<Rightarrow> returnW None | Some chan \<Rightarrow> ssh_channel reach c s requested chan)"

section \<open>The relay\<close>

text \<open>
  A relay may run for ever, so what one side of it will answer has no end: a stream of arrivals, a
  stream that says which calls of \<open>sendall\<close> succeed, and what it has been sent. \<open>relay_recv\<close> is
  \<open>recv(32768)\<close>; the rest of a longer arrival stays for the next call.
\<close>

record relay_side =
  rs_arrivals :: "arrival stream"
  rs_sends :: "bool stream"
  rs_sent :: "bytes list"

definition relay_recv :: "arrival stream \<Rightarrow> bytes option \<times> arrival stream" where
  "relay_recv as = (case shd as of
      Fails \<Rightarrow> (None, stl as)
    | Data bs \<Rightarrow> (Some (take 32768 bs), if length bs \<le> 32768 then stl as else Data (drop 32768 bs) ## stl as))"

definition relay_send :: "bytes \<Rightarrow> relay_side \<Rightarrow> bool \<times> relay_side" where
  "relay_send bs s = (shd (rs_sends s), s\<lparr>rs_sends := stl (rs_sends s),
     rs_sent := (if shd (rs_sends s) then rs_sent s @ [bs] else rs_sent s)\<rparr>)"

text \<open>
  One turn of the loop: the peer is stopped, or \<open>select\<close> reports which sides can be read, none of them
  when its 0.1 seconds are over. The turns are a sequence without an end, and the result of the relay
  is an option.
\<close>

datatype turn = Halted | Ready bool bool

datatype relay_end = RelayStopped | RelayClosed | RelayFailed

definition relay_copy :: "relay_side \<Rightarrow> relay_side \<Rightarrow> relay_end option \<times> relay_side \<times> relay_side" where
  "relay_copy source sink = (case relay_recv (rs_arrivals source) of
      (None, as) \<Rightarrow> (Some RelayFailed, source\<lparr>rs_arrivals := as\<rparr>, sink)
    | (Some payload, as) \<Rightarrow>
        if payload = [] then (Some RelayClosed, source\<lparr>rs_arrivals := as\<rparr>, sink)
        else (case relay_send payload sink of
          (True, sink) \<Rightarrow> (None, source\<lparr>rs_arrivals := as\<rparr>, sink)
        | (False, sink) \<Rightarrow> (Some RelayFailed, source\<lparr>rs_arrivals := as\<rparr>, sink)))"

definition relay_turn :: "bool \<Rightarrow> bool \<Rightarrow> relay_side \<times> relay_side \<Rightarrow> relay_end option \<times> relay_side \<times> relay_side" where
  "relay_turn l r s = (case (if l then relay_copy (fst s) (snd s) else (None, s)) of
      (Some e, s) \<Rightarrow> (Some e, s)
    | (None, left, right) \<Rightarrow>
        if r then (case relay_copy right left of (e, right, left) \<Rightarrow> (e, left, right)) else (None, left, right))"

partial_function (option) relay ::
    "(nat \<Rightarrow> turn) \<Rightarrow> nat \<Rightarrow> relay_side \<times> relay_side \<Rightarrow> (relay_end \<times> relay_side \<times> relay_side) option" where
  "relay turns n s = (case turns n of
      Halted \<Rightarrow> Some (RelayStopped, s)
    | Ready l r \<Rightarrow> (case relay_turn l r s of
        (Some e, s) \<Rightarrow> Some (e, s) | (None, s) \<Rightarrow> relay turns (Suc n) s))"

section \<open>One worker\<close>

text \<open>
  \<open>_run\<close>: a stalled peer says nothing, and the exceptions of the handler are swallowed; the stream
  is closed in any case. \<open>finish\<close> are the resources the handler itself gives back at its end: the
  destination of a relay, the transport of SSH.
\<close>

definition free_all :: "peer_resource list \<Rightarrow> peer \<Rightarrow> peer" where
  "free_all rs p = foldl (\<lambda>p r. snd (peer_free r p)) p (filter (\<lambda>r. r \<in> set (held p)) rs)"

definition peer_run :: "bool \<Rightarrow> (string \<times> int) option peer_call \<Rightarrow> peer \<Rightarrow> (string \<times> int) option \<times> peer" where
  "peer_run stall handle p = (let p = snd (log_event ''accepted'' p) in
     if stall then (None, snd (peer_free Accepted p))
     else case handle p of
       (Inr (Some t), p) \<Rightarrow> (Some t, free_all [Target t, Transport, Accepted] p)
     | (_, p) \<Rightarrow> (None, free_all [Transport, Accepted] p))"

end
