(* ===== verification/PeerLaws.thy ===== *)
theory PeerLaws
  imports PeerSessions
begin

text \<open>
  What the protocol peers promise: a stopped peer leaves nothing open, when its relays end and that
  they forward in order, only loopback destinations are dialled, the shell reads back the command
  the gateway quotes, and the handshakes of the gateway and of the peers meet.
\<close>

section \<open>Ownership\<close>

text \<open>
  C31. In whatever order the threads of a peer run: when a call of
  \<open>stop\<close> has closed its copy of the resources, nothing the peer ever opened is open, and nothing
  becomes open afterwards.
\<close>

theorem stopped_peers_leave_nothing_open:
  assumes "peer_step\<^sup>*\<^sup>* peer_new f" and "lf_closing f = Some {}" and "peer_step\<^sup>*\<^sup>* f f'"
  shows "lf_open f' = {} \<and> lf_stop f'"
proof -
  have "owned_ok f" using assms(1)
    by (induction rule: rtranclp_induct) (auto intro: peer_new_ok peer_step_ok)
  then have f: "lf_open f = {}" "lf_stop f" using assms(2) by (simp_all add: owned_ok_def)
  from assms(3) show ?thesis
  proof (induction rule: rtranclp_induct)
    case base
    then show ?case using f by simp
  next
    case (step y z)
    then show ?case using peer_step_stopped [OF step.hyps(2)] by auto
  qed
qed

definition sample_stopped :: "nat peer_life" where
  "sample_stopped = \<lparr>lf_stop = True, lf_resources = {1}, lf_listener = Some 1, lf_open = {}, lf_closing = Some {}\<rparr>"

theorem stopped_peers_leave_nothing_open_witness:
  "peer_step\<^sup>*\<^sup>* peer_new sample_stopped \<and> lf_open (snd (life_own 2 sample_stopped)) = {}"
proof -
  let ?a = "\<lparr>lf_stop = False, lf_resources = {1 :: nat}, lf_listener = Some 1, lf_open = {1}, lf_closing = None\<rparr>"
  let ?b = "?a\<lparr>lf_stop := True\<rparr>"
  let ?c = "?b\<lparr>lf_closing := Some {1}\<rparr>"
  have "peer_step (peer_new :: nat peer_life) ?a"
    using peer_step.Start [of 1 "peer_new :: nat peer_life" True] by (simp add: life_start_def life_own_def peer_new_def)
  moreover have "peer_step ?a ?b" using peer_step.SetStop [of ?a] by simp
  moreover have "peer_step ?b ?c" using peer_step.Snapshot [of ?b] by simp
  moreover have "peer_step ?c sample_stopped"
    using peer_step.CloseNext [of ?c "{1}" 1] by (simp add: life_close_def sample_stopped_def)
  ultimately have run: "peer_step\<^sup>*\<^sup>* peer_new sample_stopped"
    by (meson rtranclp.rtrancl_into_rtrancl rtranclp.rtrancl_refl)
  have "peer_step\<^sup>*\<^sup>* sample_stopped (snd (life_own 2 sample_stopped))"
    by (rule r_into_rtranclp) (rule peer_step.Own)
  then show ?thesis
    using run stopped_peers_leave_nothing_open [OF run] by (simp add: sample_stopped_def)
qed

section \<open>The relay\<close>

text \<open>An arrival that ends a relay when it is read: the end of the stream, or a failure.\<close>

definition closes :: "arrival \<Rightarrow> bool" where
  "closes a \<longleftrightarrow> a = Fails \<or> a = Data []"

definition endless :: "relay_side \<Rightarrow> bool" where
  "endless s \<longleftrightarrow> (\<forall>k. \<not> closes (rs_arrivals s !! k)) \<and> (\<forall>k. rs_sends s !! k)"

lemma relay_recv_closes: "closes (shd as) \<longleftrightarrow> fst (relay_recv as) \<in> {None, Some []}"
  by (auto simp: closes_def relay_recv_def split: arrival.splits)

lemma stl_not_closes: "\<forall>k. \<not> closes (as !! k) \<Longrightarrow> \<forall>k. \<not> closes (stl as !! k)"
  by (metis snth.simps(2))

lemma relay_recv_endless:
  assumes "\<forall>k. \<not> closes (as !! k)"
  shows "\<not> closes (snd (relay_recv as) !! k)"
proof (cases "shd as")
  case (Data bs)
  have "\<not> closes ((Data (drop 32768 bs) ## stl as) !! k)" if "\<not> length bs \<le> 32768"
    using that stl_not_closes [OF assms] by (cases k) (auto simp: closes_def)
  then show ?thesis using Data stl_not_closes [OF assms] by (simp add: relay_recv_def)
qed (use stl_not_closes [OF assms] in \<open>simp add: relay_recv_def\<close>)

text \<open>One direction of one turn, and the two of them.\<close>

lemma relay_copy_on:
  assumes "relay_copy source sink = (None, source', sink')"
  shows "rs_arrivals source' = snd (relay_recv (rs_arrivals source))" and "rs_arrivals sink' = rs_arrivals sink"
    and "\<not> closes (shd (rs_arrivals source))"
  using assms by (auto simp: relay_copy_def relay_send_def relay_recv_closes split: prod.splits option.splits if_splits bool.splits)

lemma relay_turn_on:
  assumes "relay_turn l r s = (None, s')"
  shows "rs_arrivals (fst s') = (if l then snd (relay_recv (rs_arrivals (fst s))) else rs_arrivals (fst s))
      \<and> (l \<longrightarrow> \<not> closes (shd (rs_arrivals (fst s))))"
    and "rs_arrivals (snd s') = (if r then snd (relay_recv (rs_arrivals (snd s))) else rs_arrivals (snd s))
      \<and> (r \<longrightarrow> \<not> closes (shd (rs_arrivals (snd s))))"
proof -
  obtain a b where c: "(if l then relay_copy (fst s) (snd s) else (None, s)) = (None, a, b)"
    and d: "(if r then (case relay_copy b a of (e, right, left) \<Rightarrow> (e, left, right)) else (None, a, b)) = (None, s')"
    using assms by (auto simp: relay_turn_def split: option.splits prod.splits if_splits)
  have one: "rs_arrivals a = (if l then snd (relay_recv (rs_arrivals (fst s))) else rs_arrivals (fst s))"
    "rs_arrivals b = rs_arrivals (snd s)" "l \<longrightarrow> \<not> closes (shd (rs_arrivals (fst s)))"
    using c relay_copy_on [of "fst s" "snd s" a b] by (auto split: if_splits)
  obtain e2 b' a' where e2: "relay_copy b a = (e2, b', a')" by (cases "relay_copy b a")
  have onward: "if r then relay_copy b a = (None, b', a') \<and> s' = (a', b') else s' = (a, b)"
    using d e2 by (simp split: if_splits)
  have two: "rs_arrivals (snd s') = (if r then snd (relay_recv (rs_arrivals b)) else rs_arrivals b)"
    "rs_arrivals (fst s') = rs_arrivals a" "r \<longrightarrow> \<not> closes (shd (rs_arrivals b))"
    using onward relay_copy_on by (metis fst_conv snd_conv)+
  show "rs_arrivals (fst s') = (if l then snd (relay_recv (rs_arrivals (fst s))) else rs_arrivals (fst s))
      \<and> (l \<longrightarrow> \<not> closes (shd (rs_arrivals (fst s))))" using one two by simp
  show "rs_arrivals (snd s') = (if r then snd (relay_recv (rs_arrivals (snd s))) else rs_arrivals (snd s))
      \<and> (r \<longrightarrow> \<not> closes (shd (rs_arrivals (snd s))))" using one two by simp
qed

text \<open>On endless traffic every turn goes on, and leaves endless traffic.\<close>

lemma relay_copy_endless:
  assumes "endless source" and "endless sink"
  shows "\<exists>source' sink'. relay_copy source sink = (None, source', sink') \<and> endless source' \<and> endless sink'"
proof -
  have "\<not> closes (shd (rs_arrivals source))" using assms(1) snth.simps(1) unfolding endless_def by metis
  then have "fst (relay_recv (rs_arrivals source)) \<notin> {None, Some []}" using relay_recv_closes by blast
  then obtain payload as where c: "relay_recv (rs_arrivals source) = (Some payload, as)" and p: "payload \<noteq> []"
    by (cases "relay_recv (rs_arrivals source)") auto
  have sends: "shd (rs_sends sink)" "\<forall>k. stl (rs_sends sink) !! k"
    using assms(2) snth.simps unfolding endless_def by metis+
  have "\<forall>k. \<not> closes (as !! k)"
    using relay_recv_endless [of "rs_arrivals source"] assms(1) c by (simp add: endless_def)
  then show ?thesis
    using assms c p sends by (auto simp: relay_copy_def relay_send_def endless_def)
qed

lemma relay_turn_endless:
  assumes "endless (fst s)" and "endless (snd s)"
  shows "\<exists>s'. relay_turn l r s = (None, s') \<and> endless (fst s') \<and> endless (snd s')"
proof -
  obtain a b where c: "(if l then relay_copy (fst s) (snd s) else (None, s)) = (None, a, b)" "endless a" "endless b"
    using relay_copy_endless [OF assms] assms by (cases s; cases l) auto
  obtain b' a' where "relay_copy b a = (None, b', a')" "endless b'" "endless a'"
    using relay_copy_endless [OF c(3,2)] by blast
  then show ?thesis using c by (cases r) (auto simp: relay_turn_def)
qed

lemma relay_endless:
  assumes "\<forall>n. turns n \<noteq> Halted" and "endless (fst s)" and "endless (snd s)"
  shows "relay turns n s = None"
proof (rule ccontr)
  assume "relay turns n s \<noteq> None"
  then obtain y where "relay turns n s = Some y" by blast
  then have "(\<forall>n. turns n \<noteq> Halted) \<and> endless (fst s) \<and> endless (snd s) \<longrightarrow> False"
  proof (induction rule: relay.raw_induct [rotated, consumes 1, case_names step])
    case (step rec turns n s y)
    show ?case
    proof (rule impI, elim conjE)
      assume go: "\<forall>n. turns n \<noteq> Halted" and e: "endless (fst s)" "endless (snd s)"
      obtain l r where t: "turns n = Ready l r" using go by (cases "turns n") auto
      obtain s' where "relay_turn l r s = (None, s')" "endless (fst s')" "endless (snd s')"
        using relay_turn_endless [OF e] by blast
      then show False using step(1) [of turns "Suc n" s' y] step(2) t go by simp
    qed
  qed
  then show False using assms by blast
qed

lemma relay_halts:
  assumes "turns (n + k) = Halted"
  shows "\<exists>y. relay turns n s = Some y"
  using assms
proof (induction k arbitrary: n s)
  case 0
  then show ?case by (simp add: relay.simps [of turns n s])
next
  case (Suc k)
  then show ?case using Suc.IH [of "Suc n"]
    by (auto simp: relay.simps [of turns n s] split: turn.splits option.splits prod.splits)
qed

text \<open>How far off the end of a stream is; every read that does not end the relay comes nearer.\<close>

definition away :: "nat \<Rightarrow> arrival stream \<Rightarrow> nat" where
  "away k as = sum_list (map arrival_size (stake k as))"

lemma relay_recv_nearer:
  assumes "closes (as !! k)" and "\<not> closes (shd as)"
  shows "\<exists>k'. closes (snd (relay_recv as) !! k') \<and> away k' (snd (relay_recv as)) < away k as"
proof -
  obtain j where k: "k = Suc j" using assms by (cases k) auto
  obtain bs where bs: "shd as = Data bs" using assms(2) by (cases "shd as") (auto simp: closes_def)
  show ?thesis
  proof (cases "length bs \<le> 32768")
    case True
    then show ?thesis using assms bs k by (intro exI [of _ j]) (simp add: relay_recv_def away_def)
  next
    case False
    then show ?thesis using assms bs k by (intro exI [of _ k]) (simp add: relay_recv_def away_def)
  qed
qed

text \<open>
  One side, picked from the two, that is readable in turn after turn and closes some time; the turns
  before the next one in which it is readable do not touch what it will deliver.
\<close>

lemma relay_closes:
  fixes pick :: "relay_side \<times> relay_side \<Rightarrow> relay_side" and heard :: "bool \<Rightarrow> bool \<Rightarrow> bool"
  assumes on: "\<And>l r s s'. relay_turn l r s = (None, s') \<Longrightarrow>
      rs_arrivals (pick s') = (if heard l r then snd (relay_recv (rs_arrivals (pick s))) else rs_arrivals (pick s))
      \<and> (heard l r \<longrightarrow> \<not> closes (shd (rs_arrivals (pick s))))"
    and again: "\<And>m. \<exists>k \<ge> m. \<exists>l r. turns k = Ready l r \<and> heard l r"
    and "closes (rs_arrivals (pick s) !! k)"
  shows "\<exists>y. relay turns n s = Some y"
  using assms(3)
proof (induction "away k (rs_arrivals (pick s))" arbitrary: k n s rule: less_induct)
  case less
  obtain i where i: "i \<ge> n" "\<exists>l r. turns i = Ready l r \<and> heard l r" using again by blast
  define d where "d = i - n"
  have "\<exists>l r. turns (n + d) = Ready l r \<and> heard l r" using i by (simp add: d_def)
  from this less show ?case
  proof (induction d arbitrary: n s)
    case 0
    then obtain l r where t: "turns n = Ready l r" "heard l r" by auto
    obtain e s' where c: "relay_turn l r s = (e, s')" by (cases "relay_turn l r s")
    show ?case
    proof (cases e)
      case None
      have "\<not> closes (shd (rs_arrivals (pick s)))"
        and same: "rs_arrivals (pick s') = snd (relay_recv (rs_arrivals (pick s)))"
        using on [OF c [unfolded None]] t(2) by simp_all
      then obtain k' where "closes (rs_arrivals (pick s') !! k')" "away k' (rs_arrivals (pick s')) < away k (rs_arrivals (pick s))"
        using relay_recv_nearer [OF "0.prems"(3)] by metis
      then have "\<exists>y. relay turns (Suc n) s' = Some y" using "0.prems"(2) by blast
      then show ?thesis using t c None by (simp add: relay.simps [of turns n s])
    qed (use t c in \<open>simp add: relay.simps [of turns n s]\<close>)
  next
    case (Suc d)
    show ?case
    proof (cases "turns n")
      case (Ready l r)
      obtain e s' where c: "relay_turn l r s = (e, s')" by (cases "relay_turn l r s")
      show ?thesis
      proof (cases e)
        case None
        note o = on [OF c [unfolded None]]
        have "\<exists>y. relay turns (Suc n) s' = Some y"
        proof (cases "heard l r")
          case True
          then obtain k' where "closes (rs_arrivals (pick s') !! k')"
            "away k' (rs_arrivals (pick s')) < away k (rs_arrivals (pick s))"
            using relay_recv_nearer [OF Suc.prems(3)] o by metis
          then show ?thesis using Suc.prems(2) by blast
        next
          case False
          then show ?thesis using Suc.IH [of "Suc n" s'] Suc.prems o by simp
        qed
        then show ?thesis using Ready c None by (simp add: relay.simps [of turns n s])
      qed (use Ready c in \<open>simp add: relay.simps [of turns n s]\<close>)
    qed (simp add: relay.simps [of turns n s])
  qed
qed

lemma relay_closes_left:
  assumes "\<forall>m. \<exists>k \<ge> m. \<exists>r. turns k = Ready True r" and "closes (rs_arrivals (fst s) !! k)"
  shows "\<exists>y. relay turns n s = Some y"
  by (rule relay_closes [of fst "\<lambda>l r. l", OF relay_turn_on(1) _ assms(2)]) (use assms(1) in blast)+

lemma relay_closes_right:
  assumes "\<forall>m. \<exists>k \<ge> m. \<exists>l. turns k = Ready l True" and "closes (rs_arrivals (snd s) !! k)"
  shows "\<exists>y. relay turns n s = Some y"
  by (rule relay_closes [of snd "\<lambda>l r. r", OF relay_turn_on(2) _ assms(2)]) (use assms(1) in blast)+

text \<open>
  C29. A relay ends when its peer is stopped, and when a side that is readable in turn after turn
  closes or fails some time. Only that ends it: while the peer is not stopped it relays for ever
  between two sides that neither close nor fail, however much they say.
\<close>

theorem relays_end:
  "((\<exists>n. turns n = Halted)
     \<or> (\<forall>m. \<exists>k \<ge> m. \<exists>r. turns k = Ready True r) \<and> (\<exists>k. closes (rs_arrivals (fst s) !! k))
     \<or> (\<forall>m. \<exists>k \<ge> m. \<exists>l. turns k = Ready l True) \<and> (\<exists>k. closes (rs_arrivals (snd s) !! k))
     \<longrightarrow> (\<exists>y. relay turns 0 s = Some y))
   \<and> ((\<forall>n. turns n \<noteq> Halted) \<and> endless (fst s) \<and> endless (snd s) \<longrightarrow> relay turns 0 s = None)"
proof -
  have stopped: "\<exists>y. relay turns 0 s = Some y" if "\<exists>n. turns n = Halted"
    using that relay_halts [of turns 0 _ s] by auto
  then show ?thesis using relay_closes_left relay_closes_right relay_endless by blast
qed

definition sample_side :: "arrival stream \<Rightarrow> relay_side" where
  "sample_side as = \<lparr>rs_arrivals = as, rs_sends = sconst True, rs_sent = []\<rparr>"

theorem relays_end_witness:
  "(\<exists>y. relay (\<lambda>n. Ready True False) 0 (sample_side (Data [1] ## sconst (Data [])), sample_side (sconst (Data [2]))) = Some y)
   \<and> relay (\<lambda>n. Ready True True) 0 (sample_side (sconst (Data [1])), sample_side (sconst (Data [2]))) = None"
proof -
  have all: "siterate id x !! k = x" for x :: 'a and k
    by (induction k) (simp_all add: snth_siterate)
  have "closes (rs_arrivals (sample_side (Data [1] ## sconst (Data []))) !! 1)"
    by (simp add: sample_side_def closes_def)
  moreover have "endless (sample_side (sconst (Data [b])))" for b
    by (simp add: endless_def sample_side_def closes_def all)
  ultimately show ?thesis
    using relays_end [of "\<lambda>n. Ready True False" "(sample_side (Data [1] ## sconst (Data [])), sample_side (sconst (Data [2])))"]
      relays_end [of "\<lambda>n. Ready True True" "(sample_side (sconst (Data [1])), sample_side (sconst (Data [2])))"]
    by (metis fst_conv snd_conv order_refl turn.distinct(1))
qed

text \<open>
  The bytes of the first arrivals of a stream. \<open>continues u as as'\<close>: \<open>as'\<close> is what \<open>as\<close> still delivers
  when exactly \<open>u\<close> has been read of it.
\<close>

definition flow :: "nat \<Rightarrow> arrival stream \<Rightarrow> bytes" where
  "flow k as = concat (map arrival_bytes (stake k as))"

definition continues :: "bytes \<Rightarrow> arrival stream \<Rightarrow> arrival stream \<Rightarrow> bool" where
  "continues u as as' \<longleftrightarrow> (\<exists>j. \<forall>i > 0. u @ flow i as' = flow (j + i) as)"

lemma flow_Suc: "flow (Suc k) as = arrival_bytes (shd as) @ flow k (stl as)"
  by (simp add: flow_def)

lemma flow_more: "prefix (flow k as) (flow (Suc k) as)"
  unfolding flow_def stake_Suc by simp

lemma continues_refl [simp]: "continues [] as as"
  unfolding continues_def by (rule exI [of _ 0]) simp

lemma continues_trans:
  assumes "continues u as bs" and "continues v bs cs"
  shows "continues (u @ v) as cs"
proof -
  obtain j j' where j: "\<forall>i > 0. u @ flow i bs = flow (j + i) as" "\<forall>i > 0. v @ flow i cs = flow (j' + i) bs"
    using assms unfolding continues_def by blast
  then have "\<forall>i > 0. (u @ v) @ flow i cs = flow ((j + j') + i) as"
    by (metis add.assoc add_gr_0 append_assoc)
  then show ?thesis unfolding continues_def by blast
qed

lemma continues_prefix:
  assumes "continues u as bs" and "prefix v (flow k bs)"
  shows "\<exists>k'. prefix (u @ v) (flow k' as)"
proof -
  obtain j where "\<forall>i > 0. u @ flow i bs = flow (j + i) as" using assms(1) unfolding continues_def by blast
  moreover have "prefix v (flow (Suc k) bs)" using assms(2) flow_more prefix_order.order_trans by blast
  ultimately show ?thesis by (metis same_prefix_prefix zero_less_Suc)
qed

lemma relay_recv_continues:
  assumes "relay_recv as = (Some payload, as')"
  shows "continues payload as as'"
proof (cases "shd as")
  case (Data bs)
  show ?thesis
  proof (cases "length bs \<le> 32768")
    case True
    then show ?thesis using assms Data
      by (auto simp: relay_recv_def continues_def flow_Suc intro!: exI [of _ 1])
  next
    case False
    have "take 32768 bs @ flow i (Data (drop 32768 bs) ## stl as) = flow i as" if "0 < i" for i
      using that Data by (cases i) (simp_all add: flow_Suc flip: append_assoc)
    then show ?thesis using assms Data False
      by (auto simp: relay_recv_def continues_def intro!: exI [of _ 0])
  qed
qed (use assms in \<open>simp add: relay_recv_def\<close>)

text \<open>
  What one side was sent is a first piece of what the other delivers; \<open>ok\<close> when the relay did not fail
  on the way: then it is exactly what was read of it.
\<close>

definition forwarded :: "bool \<Rightarrow> relay_side \<times> relay_side \<Rightarrow> relay_side \<times> relay_side \<Rightarrow> bool" where
  "forwarded ok s s' \<longleftrightarrow> (\<exists>u v. concat (rs_sent (snd s')) = concat (rs_sent (snd s)) @ u
     \<and> concat (rs_sent (fst s')) = concat (rs_sent (fst s)) @ v
     \<and> (\<exists>k. prefix u (flow k (rs_arrivals (fst s)))) \<and> (\<exists>k. prefix v (flow k (rs_arrivals (snd s))))
     \<and> (ok \<longrightarrow> continues u (rs_arrivals (fst s)) (rs_arrivals (fst s'))
          \<and> continues v (rs_arrivals (snd s)) (rs_arrivals (snd s'))))"

lemma forwarded_refl: "forwarded ok s s"
  unfolding forwarded_def by (intro exI [of _ "[]"]) simp

lemma forwarded_trans:
  assumes "forwarded True a b" and "forwarded ok b c"
  shows "forwarded ok a c"
proof -
  obtain u v u' v' where
    "concat (rs_sent (snd b)) = concat (rs_sent (snd a)) @ u" "concat (rs_sent (fst b)) = concat (rs_sent (fst a)) @ v"
    and c: "continues u (rs_arrivals (fst a)) (rs_arrivals (fst b))" "continues v (rs_arrivals (snd a)) (rs_arrivals (snd b))"
    and "concat (rs_sent (snd c)) = concat (rs_sent (snd b)) @ u'" "concat (rs_sent (fst c)) = concat (rs_sent (fst b)) @ v'"
    and p: "\<exists>k. prefix u' (flow k (rs_arrivals (fst b)))" "\<exists>k. prefix v' (flow k (rs_arrivals (snd b)))"
    and "ok \<longrightarrow> continues u' (rs_arrivals (fst b)) (rs_arrivals (fst c)) \<and> continues v' (rs_arrivals (snd b)) (rs_arrivals (snd c))"
    using assms unfolding forwarded_def by blast
  then show ?thesis
    unfolding forwarded_def
    using continues_prefix [OF c(1)] continues_prefix [OF c(2)] continues_trans [OF c(1)] continues_trans [OF c(2)]
    by (intro exI [of _ "u @ u'"] exI [of _ "v @ v'"]) auto
qed

lemma forwarded_swap: "forwarded ok (prod.swap s) (prod.swap s') \<Longrightarrow> forwarded ok s s'"
  unfolding forwarded_def by auto

lemma relay_copy_forwards:
  assumes "relay_copy l r = (e, l', r')"
  shows "forwarded (e \<noteq> Some RelayFailed) (l, r) (l', r')"
proof (cases "relay_recv (rs_arrivals l)")
  case (Pair found as)
  show ?thesis
  proof (cases found)
    case None
    then have "e = Some RelayFailed" "r' = r" "l' = l\<lparr>rs_arrivals := as\<rparr>"
      using assms Pair by (simp_all add: relay_copy_def)
    then show ?thesis by (auto simp: forwarded_def)
  next
    case (Some payload)
    have c: "continues payload (rs_arrivals l) as" using relay_recv_continues Pair Some by simp
    have p: "\<exists>k. prefix payload (flow k (rs_arrivals l))" using continues_prefix [OF c, of "[]" 0] by simp
    obtain ok r1 where s: "relay_send payload r = (ok, r1)" by (cases "relay_send payload r")
    have r1: "rs_arrivals r1 = rs_arrivals r" "concat (rs_sent r1) = concat (rs_sent r) @ (if ok then payload else [])"
      using s by (auto simp: relay_send_def)
    have "(e, l', r') = (if payload = [] then (Some RelayClosed, l\<lparr>rs_arrivals := as\<rparr>, r)
        else if ok then (None, l\<lparr>rs_arrivals := as\<rparr>, r1) else (Some RelayFailed, l\<lparr>rs_arrivals := as\<rparr>, r1))"
      using assms Pair Some s by (cases ok; cases "payload = []") (simp_all add: relay_copy_def)
    then show ?thesis using r1 c p by (auto simp: forwarded_def split: if_splits)
  qed
qed

lemma relay_turn_forwards:
  assumes "relay_turn l r s = (e, s')"
  shows "forwarded (e \<noteq> Some RelayFailed) s s'"
proof -
  obtain e1 a b where c: "(if l then relay_copy (fst s) (snd s) else (None, s)) = (e1, a, b)"
    by (cases "if l then relay_copy (fst s) (snd s) else (None, s)")
  obtain e2 b' a' where d: "relay_copy b a = (e2, b', a')" by (cases "relay_copy b a")
  have one: "forwarded (e1 \<noteq> Some RelayFailed) s (a, b)"
    using c relay_copy_forwards [of "fst s" "snd s" e1 a b] forwarded_refl [of _ s] by (auto split: if_splits)
  have two: "forwarded (e2 \<noteq> Some RelayFailed) (a, b) (a', b')"
    using relay_copy_forwards [OF d] forwarded_swap [of _ "(a, b)" "(a', b')"] by simp
  have e: "(e, s') = (if e1 \<noteq> None then (e1, a, b) else if r then (e2, a', b') else (None, a, b))"
    using assms c d by (auto simp: relay_turn_def split: option.splits)
  show ?thesis
  proof (cases "e1 = None \<and> r")
    case True
    then have "forwarded True s (a, b)" using one by simp
    then show ?thesis using forwarded_trans [OF _ two] e True by auto
  next
    case False
    then have "e = e1" "s' = (a, b)" using e by (auto split: if_splits)
    then show ?thesis using one by simp
  qed
qed

text \<open>
  C30. What a relay sends to either side is what the other delivers, in order and from its
  beginning; and unless the relay failed it is exactly what has been read of it.
\<close>

theorem relays_forward_in_order:
  assumes "relay turns n s = Some (e, s')"
  shows "forwarded (e \<noteq> RelayFailed) s s'"
proof -
  have "forwarded (fst y \<noteq> RelayFailed) s (snd y)" if "relay turns n s = Some y" for y
    using that
  proof (induction rule: relay.raw_induct [rotated, consumes 1, case_names step])
    case (step rec turns n s y)
    show ?case
    proof (cases "turns n")
      case Halted
      then show ?thesis using step(2) by (auto simp: forwarded_refl)
    next
      case (Ready l r)
      obtain x s1 where t: "relay_turn l r s = (x, s1)" by (cases "relay_turn l r s")
      show ?thesis
      proof (cases x)
        case None
        then show ?thesis
          using step(1) [of turns "Suc n" s1 y] step(2) Ready t relay_turn_forwards [OF t] forwarded_trans by auto
      next
        case (Some e)
        then show ?thesis using step(2) Ready t relay_turn_forwards [OF t] by auto
      qed
    qed
  qed
  from this [OF assms] show ?thesis by simp
qed

theorem relays_forward_in_order_witness:
  "\<exists>e s'. relay (\<lambda>n. Ready True False) 0 (sample_side (Data [1] ## sconst (Data [])), sample_side (sconst (Data [2])))
       = Some (e, s')
     \<and> (\<exists>k. prefix (concat (rs_sent (snd s'))) (flow k (Data [1] ## sconst (Data []))))"
proof -
  let ?s = "(sample_side (Data [1] ## sconst (Data [])), sample_side (sconst (Data [2])))"
  have "closes (rs_arrivals (fst ?s) !! 1)" by (simp add: sample_side_def closes_def)
  then have "\<exists>y. relay (\<lambda>n. Ready True False) 0 ?s = Some y"
    by (intro relay_closes_left [of _ ?s 1]) auto
  then obtain e s' where r: "relay (\<lambda>n. Ready True False) 0 ?s = Some (e, s')" by auto
  from relays_forward_in_order [OF r] show ?thesis
    using r by (auto simp: forwarded_def sample_side_def)
qed

section \<open>Destinations\<close>

definition loopback_endpoint :: "string \<Rightarrow> bool" where
  "loopback_endpoint host \<longleftrightarrow> (\<exists>a scope. is_loopback a \<and> host = show_address a @ scope \<and> (scope = [] \<or> hd scope = CHR ''%''))"

definition visits_within :: "(string \<times> int) set \<Rightarrow> peer \<Rightarrow> bool" where
  "visits_within V p \<longleftrightarrow> set (visits p) \<subseteq> V \<union> {(host, port). loopback_endpoint host \<and> 1 \<le> port \<and> port \<le> 65535}"

lemma localhost_address: "is_loopback (V4 (127 * 2 ^ 24 + 1)) \<and> show_address (V4 (127 * 2 ^ 24 + 1)) = ''127.0.0.1''"
  by code_simp

lemma peer_loopback_endpoint: "peer_loopback host = Some h \<Longrightarrow> loopback_endpoint h"
proof -
  assume h: "peer_loopback host = Some h"
  show ?thesis
  proof (cases "lower host = ''localhost''")
    case True
    then have "h = ''127.0.0.1''" using h by (simp add: peer_loopback_def)
    then show ?thesis using localhost_address unfolding loopback_endpoint_def by (metis append_Nil2)
  next
    case False
    then obtain a scope where s: "scoped_address host = Some (a, scope)" "is_loopback a" "h = show_address a @ scope"
      using h by (auto simp: peer_loopback_def split: option.splits if_splits)
    then have "scope = [] \<or> hd scope = CHR ''%''"
      using hd_dropWhile [of "\<lambda>c. c \<noteq> CHR ''%''" host] by (auto simp: scoped_address_def Let_def split: if_splits)
    then show ?thesis using s unfolding loopback_endpoint_def by blast
  qed
qed

lemma visits_frame [keeps_rules]:
  "keeps (visits_within V) (say bs)" "keeps (visits_within V) (log_event e)" "keeps (visits_within V) (peer_recv n)"
  "keeps (visits_within V) is_stopped" "keeps (visits_within V) (decoded x)"
proof -
  have more: "visits w' = visits w" if "wire.more w' = wire.more w" for w w' :: peer
    using that by (cases w; cases w') simp
  show "keeps (visits_within V) (say bs)"
    by (rule keepsI) (auto simp: say_def visits_within_def split: prod.splits bool.splits dest!: sendall_frame(4) more)
  show "keeps (visits_within V) (peer_recv n)"
    by (rule keepsI) (auto simp: peer_recv_def visits_within_def split: prod.splits option.splits dest!: recv_frame(5) more)
qed (auto simp: keeps_def log_event_def is_stopped_def decoded_def visits_within_def split: list.splits option.splits)

lemma exact_keeps [keeps_rules]:
  assumes "\<And>k. keeps P (peer_recv k)"
  shows "keeps P (exact n)"
proof (rule keepsI)
  fix p r p' assume "P p" "exact n p = (r, p')"
  then show "P p'"
  proof (induction n p arbitrary: r p' rule: exact.induct)
    case (1 n p)
    show ?case
    proof (cases "n = 0")
      case True
      then show ?thesis using "1.prems" by (simp add: exact.simps)
    next
      case False
      obtain x v where c: "peer_recv n p = (x, v)" by (cases "peer_recv n p")
      then have v: "P v" using keepsD [OF assms] "1.prems"(1) by blast
      show ?thesis
      proof (cases "\<exists>chunk. x = Inr chunk \<and> chunk \<noteq> []")
        case True
        then obtain chunk where x: "x = Inr chunk" "chunk \<noteq> []" by blast
        obtain y u where r: "exact (n - length chunk) v = (y, u)" by (cases "exact (n - length chunk) v")
        then have "P u" using "1.IH" [OF False _ _ x(2) v] c x by auto
        then show ?thesis using "1.prems"(2) False c x r by (simp add: exact.simps [of n p] split: sum.splits)
      next
        case False
        then show ?thesis using "1.prems"(2) \<open>n \<noteq> 0\<close> c v by (auto simp: exact.simps [of n p] split: sum.splits if_splits)
      qed
    qed
  qed
qed

lemma until_keeps [keeps_rules]:
  assumes "\<And>k. keeps P (exact k)"
  shows "keeps P (until mark limit data)"
proof (rule keepsI)
  fix p r p' assume "P p" "until mark limit data p = (r, p')"
  then show "P p'"
  proof (induction mark limit data p arbitrary: r p' rule: until.induct)
    case (1 mark limit data p)
    obtain x v where c: "exact 1 p = (x, v)" by (cases "exact 1 p")
    then have v: "P v" using keepsD [OF assms] "1.prems"(1) by blast
    show ?case
    proof (cases "suffix mark data \<or> limit \<le> length data")
      case True
      then show ?thesis using "1.prems" by (auto simp: until.simps [of mark limit data p] split: if_splits)
    next
      case False
      then have step: "until mark limit data p = (case x of Inl e \<Rightarrow> (Inl e, v) | Inr bs \<Rightarrow> until mark limit (data @ bs) v)"
        using c by (subst until.simps) (simp split: sum.splits)
      show ?thesis
      proof (cases x)
        case (Inl e)
        then show ?thesis using step "1.prems"(2) v by simp
      next
        case (Inr bs)
        then have "until mark limit (data @ bs) v = (r, p')" using step "1.prems"(2) by simp
        moreover have "\<not> suffix mark data" "\<not> limit \<le> length data" using False by simp_all
        ultimately show ?thesis using "1.IH" [OF _ _ c [symmetric] Inr] v by blast
      qed
    qed
  qed
qed

lemma peer_own_visits [keeps_rules]: "keeps (visits_within V) (peer_own r)" "keeps (visits_within V) (peer_free r)"
proof -
  show "keeps (visits_within V) (peer_own r)" unfolding peer_own_def
    by (intro keeps_rules) (auto simp: keeps_def visits_within_def)
  show "keeps (visits_within V) (peer_free r)" by (simp add: keeps_def peer_free_def visits_within_def)
qed

lemma bindW_pure: "bindW (returnW x) f = f x" "bindW (whenW False e) g = g ()"
  by (simp_all add: bindW_def fun_eq_iff)

lemma destination_visits [keeps_rules]: "keeps (visits_within V) (peer_destination reach host port)"
proof (cases "\<exists>h. peer_loopback host = Some h \<and> 1 \<le> port \<and> port \<le> 65535")
  case True
  then obtain h where h: "peer_loopback host = Some h" "1 \<le> port" "port \<le> 65535" by blast
  then have "keeps (visits_within V) (visit (h, port))"
    using peer_loopback_endpoint by (auto simp: keeps_def visit_def visits_within_def)
  then show ?thesis
    using h unfolding peer_destination_def decoded_def by (simp add: bindW_pure keeps_rules)
next
  case False
  then show ?thesis
    by (cases "peer_loopback host") (auto simp: keeps_def peer_destination_def decoded_def bindW_def whenW_def)
qed

lemma or_answer_visits [keeps_rules]: "keeps (visits_within V) m \<Longrightarrow> keeps (visits_within V) (or_answer m bs)"
  unfolding or_answer_def by (intro keeps_rules)

lemma keeps_option [keeps_rules]:
  "keeps P m \<Longrightarrow> (\<And>x. keeps P (f x)) \<Longrightarrow> keeps P (case y of None \<Rightarrow> m | Some x \<Rightarrow> f x)"
  "(\<And>a b. keeps P (g a b)) \<Longrightarrow> keeps P (case z of (a, b) \<Rightarrow> g a b)"
  by (auto split: option.splits prod.splits)

lemma netconf_drain_visits [keeps_rules]: "keeps (visits_within V) netconf_drain"
proof (rule keepsI)
  fix p r p' assume "visits_within V p" "netconf_drain p = (r, p')"
  then show "visits_within V p'"
  proof (induction p arbitrary: r p' rule: netconf_drain.induct)
    case (1 p)
    obtain x v where s: "is_stopped p = (x, v)" by (cases "is_stopped p")
    obtain y u where r: "recv 1024 v = (y, u)" by (cases "recv 1024 v")
    have v: "visits_within V v" using keepsD [OF visits_frame(4) "1.prems"(1) s] .
    then have u: "visits_within V u" using keepsD [OF visits_frame(3) v, of 1024] r
      by (cases y) (auto simp: peer_recv_def)
    then have e: "visits_within V (snd (log_event ''unexpected_rpc'' u))" by (simp add: log_event_def visits_within_def)
    show ?case
      using "1.prems"(2) "1.IH" s r v u e
      by (auto simp: netconf_drain.simps [of p] split: sum.splits bool.splits option.splits if_splits)
  qed
qed

lemma socks_visits: "keeps (visits_within V) (socks_peer reach c)"
  unfolding socks_peer_def socks_authenticate_def socks_request_def socks_host_def sized_field_def Let_def
  by (intro keeps_rules)

lemma connect_visits: "keeps (visits_within V) (connect_peer reach c)"
  unfolding connect_peer_def connect_granted_def Let_def by (intro keeps_rules)

lemma ssh_visits: "keeps (visits_within V) (ssh_handle reach d s requested answers)"
  unfolding ssh_handle_def ssh_channel_def shell_channel_def netconf_channel_def
  by (intro keeps_rules) (simp add: keeps_rules split: option.splits ssh_mode.splits)

text \<open>
  C32. Whatever arrives and whatever the library answers: the SOCKS5, HTTP
  CONNECT and SSH peers ask for connections to loopback addresses only, at valid ports.
\<close>

theorem peers_dial_loopback_only:
  assumes "handle \<in> {socks_peer reach c, connect_peer reach c, ssh_handle reach d s requested answers}"
    and "peer_run stall handle p = (t, p')" and "(host, port) \<in> set (visits p') - set (visits p)"
  shows "loopback_endpoint host \<and> 1 \<le> port \<and> port \<le> 65535"
proof -
  have h: "keeps (visits_within (set (visits p))) handle"
    using assms(1) socks_visits connect_visits ssh_visits by auto
  have free: "visits (free_all rs q) = visits q" for rs q
  proof -
    have "visits (foldl (\<lambda>p r. snd (peer_free r p)) q xs) = visits q" for xs
      by (induction xs arbitrary: q) (simp_all add: peer_free_def)
    then show ?thesis by (simp add: free_all_def)
  qed
  let ?q = "snd (log_event ''accepted'' p)"
  have "visits_within (set (visits p)) ?q" by (simp add: log_event_def visits_within_def)
  then have "visits_within (set (visits p)) (snd (handle ?q))" using keepsD [OF h] by (cases "handle ?q") simp
  moreover have "visits p' = visits ?q \<or> visits p' = visits (snd (handle ?q))"
    using assms(2) by (auto simp: peer_run_def Let_def free peer_free_def split: if_splits prod.splits sum.splits option.splits)
  ultimately show ?thesis
    using assms(3) \<open>visits_within (set (visits p)) ?q\<close> unfolding visits_within_def by auto
qed

theorem peers_dial_loopback_only_witness:
  "\<exists>t p'. peer_run False (connect_peer (\<lambda>a. True) \<lparr>pp_username = None, pp_password = None, pp_deny = False, pp_malformed = False\<rparr>)
     \<lparr>readings = [], now = 0, arrivals = [Data (ascii ''CONNECT localhost:80 HTTP/1.1'' @ [13, 10, 13, 10])], sends = [], sent = [],
      stops = [], noted = [], held = [Accepted], freed = [], visits = []\<rparr> = (t, p')
     \<and> (\<exists>host port. (host, port) \<in> set (visits p') \<and> loopback_endpoint host)"
proof -
  let ?c = "\<lparr>pp_username = None, pp_password = None, pp_deny = False, pp_malformed = False\<rparr>"
  let ?p = "\<lparr>readings = [], now = 0, arrivals = [Data (ascii ''CONNECT localhost:80 HTTP/1.1'' @ [13, 10, 13, 10])], sends = [], sent = [],
      stops = [], noted = [], held = [Accepted], freed = [], visits = []\<rparr>"
  obtain t p' where r: "peer_run False (connect_peer (\<lambda>a. True) ?c) ?p = (t, p')"
    by (cases "peer_run False (connect_peer (\<lambda>a. True) ?c) ?p")
  have "visits (snd (peer_run False (connect_peer (\<lambda>a. True) ?c) ?p)) = [(''127.0.0.1'', 80)]" by code_simp
  then have v: "visits p' = [(''127.0.0.1'', 80)]" using r by simp
  have "(''127.0.0.1'', 80) \<in> set (visits p') - set (visits ?p)" using v by simp
  from peers_dial_loopback_only [OF insertI2 [OF insertI1] r this] show ?thesis using r v by auto
qed

section \<open>The command of a bastion\<close>

lemma replace_char: "replace s [q] new = concat (map (\<lambda>c. if c = q then new else [c]) s)"
proof -
  have "re_sub (literal [q]) new s = concat (map (\<lambda>c. if c = q then new else [c]) s)"
    by (induction s) (auto simp: literal_def startswith_def)
  then show ?thesis by (simp add: replace_def)
qed

lemma shell_safe_plain:
  "shell_safe c \<Longrightarrow> \<not> shlex_blank c \<and> c \<noteq> single_quote \<and> c \<noteq> double_quote \<and> c \<noteq> backslash"
  by (auto simp: shell_safe_def shlex_blank_def single_quote_def double_quote_def backslash_def is_ascii_alnum_def
      is_ascii_alpha_def is_ascii_upper_def is_ascii_lower_def is_ascii_digit_def ord_of_def)

lemma plain_word:
  "list_all shell_safe s \<Longrightarrow> shlex_words InWord w q (s @ r) = shlex_words InWord (w @ s) q r"
  by (induction s arbitrary: w) (simp_all add: shell_safe_plain)

lemma plain_word_start:
  "list_all shell_safe s \<Longrightarrow> s \<noteq> [] \<Longrightarrow> shlex_words Between [] q (s @ r) = shlex_words InWord s q r"
  by (cases s) (simp_all add: shell_safe_plain plain_word)

definition quoted_body :: "string \<Rightarrow> string" where
  "quoted_body s = concat (map (\<lambda>c. if c = single_quote
     then [single_quote, double_quote, single_quote, double_quote, single_quote] else [c]) s)"

lemma quoted_word:
  "shlex_words (Quoted single_quote) w True (quoted_body s @ r) = shlex_words (Quoted single_quote) (w @ s) True r"
proof (induction s arbitrary: w)
  case Nil
  then show ?case by (simp add: quoted_body_def)
next
  case (Cons c s)
  have q: "quoted_body (x # s) = (if x = single_quote
      then [single_quote, double_quote, single_quote, double_quote, single_quote] else [x]) @ quoted_body s" for x
    by (simp add: quoted_body_def)
  have "double_quote \<noteq> single_quote" "\<not> shlex_blank single_quote" "\<not> shlex_blank double_quote"
      "single_quote \<noteq> double_quote" "double_quote \<noteq> backslash" "single_quote \<noteq> backslash"
    by (simp_all add: shlex_blank_def single_quote_def double_quote_def backslash_def)
  then show ?case using Cons.IH [of "w @ [c]"] by (cases "c = single_quote") (simp_all add: q)
qed

lemma quote_39: "char_of (39 :: nat) = single_quote"
  unfolding single_quote_def by code_simp

lemma shlex_quote_body:
  "s \<noteq> [] \<Longrightarrow> \<not> list_all shell_safe s \<Longrightarrow> shlex_quote s = single_quote # quoted_body s @ [single_quote]"
proof -
  assume s: "s \<noteq> []" "\<not> list_all shell_safe s"
  have q: "CHR 0x22 = double_quote" by (simp add: double_quote_def)
  show ?thesis unfolding shlex_quote_def replace_char quoted_body_def quote_39 q using s by simp
qed

lemma quoted_word_read:
  "\<exists>q. (s = [] \<longrightarrow> q) \<and> shlex_words Between [] False (shlex_quote s @ r) = shlex_words InWord s q r"
proof -
  have plain: "\<not> shlex_blank single_quote" "single_quote \<noteq> backslash"
    by (simp_all add: shlex_blank_def single_quote_def backslash_def)
  consider "s = []" | "s \<noteq> []" "list_all shell_safe s" | "s \<noteq> []" "\<not> list_all shell_safe s" by blast
  then show ?thesis
  proof cases
    case 1
    then show ?thesis using plain by (intro exI [of _ True]) (simp add: shlex_quote_def quote_39)
  next
    case 2
    then have "shlex_quote s = s" by (simp add: shlex_quote_def)
    then show ?thesis using 2 plain_word_start by auto
  next
    case 3
    have "shlex_words (Quoted single_quote) [] False (quoted_body s @ t) = shlex_words (Quoted single_quote) [] True (quoted_body s @ t)" for t
      using 3(1) by (cases s) (simp_all add: quoted_body_def)
    then show ?thesis
      using plain quoted_word [of "[]" s "single_quote # r"] by (intro exI [of _ True]) (simp add: shlex_quote_body [OF 3])
  qed
qed

lemma show_int_safe: "list_all shell_safe (show_int i) \<and> show_int i \<noteq> []"
proof -
  have "list_all is_ascii_digit (show_nat n)" for n using show_nat_digits by (simp add: list_all_iff)
  then have "list_all shell_safe (show_nat n)" for n by (simp add: list_all_iff shell_safe_def is_ascii_alnum_def)
  moreover have "shell_safe CHR ''-''" by (simp add: shell_safe_def)
  ultimately show ?thesis by (simp add: show_int_def)
qed

text \<open>
  C28. The shell of a bastion, which splits its command line as a POSIX
  shell does, reads the three words of the command the gateway sends, for any destination host at
  all: the quoting leaves no way to add a word or to open a quote.
\<close>

theorem bastions_read_the_command:
  "shlex_split (strip (telnet_command device))
     = Some [''telnet'', text_of device ''network_host'', show_int (number_of device ''port'')]"
proof -
  let ?h = "text_of device ''network_host''" and ?p = "show_int (number_of device ''port'')"
  obtain q where q: "?h = [] \<longrightarrow> q"
    "shlex_words Between [] False (shlex_quote ?h @ '' '' @ ?p) = shlex_words InWord ?h q ('' '' @ ?p)"
    using quoted_word_read by blast
  have safe: "list_all shell_safe ?p" "?p \<noteq> []" using show_int_safe by simp_all
  have "\<not> is_space (last ?p)"
  proof -
    have "shell_safe (last ?p)" using safe by (simp add: list_all_iff)
    then show ?thesis
      by (auto simp: shell_safe_def is_space_def is_ascii_alnum_def is_ascii_alpha_def is_ascii_upper_def
          is_ascii_lower_def is_ascii_digit_def ord_of_def)
  qed
  moreover have "is_space (char_of (10 :: nat))" "\<not> is_space (CHR ''t'')" by (simp_all add: is_space_def ord_of_def)
  ultimately have "strip (telnet_command device) = ''telnet '' @ shlex_quote ?h @ '' '' @ ?p"
    using safe(2) by (cases ?p rule: rev_cases) (simp_all add: telnet_command_def strip_def)
  moreover have "shlex_words Between [] False (''telnet '' @ t) = map_option (\<lambda>ws. ''telnet'' # ws) (shlex_words Between [] False t)" for t
    by (simp add: shlex_blank_def single_quote_def double_quote_def backslash_def)
  moreover have "shlex_words InWord ?h q ('' '' @ ?p) = map_option (\<lambda>ws. ?h # ws) (shlex_words Between [] False ?p)"
    using q(1) by (auto simp: shlex_blank_def)
  moreover have "shlex_words Between [] False ?p = Some [?p]"
    using plain_word_start [OF safe, of False "[]"] safe(2) by simp
  ultimately show ?thesis using q(2) by (simp add: shlex_split_def)
qed

end
