(* ===== verification/Conversations.thy ===== *)
theory Conversations
  imports PeerLaws RouteLaws
begin

text \<open>
  The two ends of a handshake together: the dialling code of \<open>app/dal/proxy/connectors.py\<close> and the
  peers of \<open>demo/emulators/proxy_protocols.py\<close>, each of which was modelled on its own, understand
  each other. A conversation is a pair of message lists such that either end, given the messages of
  the other, sends its own.
\<close>

section \<open>Endpoints\<close>

text \<open>
  \<open>steps good m as x q as'\<close>: in every good world with the arrivals \<open>as\<close>, the program \<open>m\<close> returns
  \<open>x\<close>, sends the messages \<open>q\<close> and leaves the arrivals \<open>as'\<close> in a good world.
\<close>

definition steps ::
    "('z wire_scheme \<Rightarrow> bool) \<Rightarrow> ('z wire_scheme, 'e, 'a) io \<Rightarrow> arrival list \<Rightarrow> 'a \<Rightarrow> bytes list \<Rightarrow> arrival list \<Rightarrow> bool" where
  "steps good m as x q as' \<longleftrightarrow> (\<forall>w. good w \<and> arrivals w = as \<longrightarrow>
     (\<exists>w'. m w = (Inr x, w') \<and> good w' \<and> sent w' = sent w @ q \<and> arrivals w' = as'))"

lemma steps_return: "steps good (returnW x) as x [] as"
  by (simp add: steps_def)

lemma steps_bind:
  assumes "steps good m as x q as'" and "steps good (f x) as' y q' as''"
  shows "steps good (bindW m f) as y (q @ q') as''"
  unfolding steps_def
proof (intro allI impI)
  fix w assume "good w \<and> arrivals w = as"
  then obtain w' where m: "m w = (Inr x, w')" "good w'" "sent w' = sent w @ q" "arrivals w' = as'"
    using assms(1) unfolding steps_def by blast
  then obtain w'' where "f x w' = (Inr y, w'')" "good w''" "sent w'' = sent w' @ q'" "arrivals w'' = as''"
    using assms(2) unfolding steps_def by blast
  then show "\<exists>w''. bindW m f w = (Inr y, w'') \<and> good w'' \<and> sent w'' = sent w @ q @ q' \<and> arrivals w'' = as''"
    using m by (simp add: bindW_def)
qed

lemma steps_bindI:
  "steps good m as x q as' \<Longrightarrow> steps good (f x) as' y q' as'' \<Longrightarrow> r = q @ q' \<Longrightarrow> steps good (bindW m f) as y r as''"
  by (simp only:) (rule steps_bind)

lemma steps_when: "\<not> c \<Longrightarrow> steps good (whenW c e) as () [] as"
  by (simp add: steps_def)

text \<open>What is left of a chunk and the later ones after \<open>n\<close> bytes.\<close>

definition left_over :: "nat \<Rightarrow> bytes \<Rightarrow> arrival list \<Rightarrow> arrival list" where
  "left_over n bs as = (if length bs \<le> n then as else Data (drop n bs) # as)"

definition rest_of :: "bytes \<Rightarrow> arrival list \<Rightarrow> arrival list" where
  "rest_of bs as = (if bs = [] then as else Data bs # as)"

lemma rest_of_simps [simp]: "rest_of [] as = as" "rest_of (b # bs) as = Data (b # bs) # as"
  by (simp_all add: rest_of_def)

text \<open>Both ends send and read exactly; what they then do in a conversation is proved once.\<close>

locale endpoint =
  fixes good :: "'z wire_scheme \<Rightarrow> bool"
    and put :: "bytes \<Rightarrow> ('z wire_scheme, 'e, unit) io"
    and get :: "nat \<Rightarrow> ('z wire_scheme, 'e, bytes) io"
  assumes put_steps: "steps good (put bs) as () [bs] as"
    and get_steps: "0 < n \<Longrightarrow> n \<le> length bs \<Longrightarrow> steps good (get n) (Data bs # as) (take n bs) [] (left_over n bs as)"
    and get_nothing: "steps good (get 0) as [] [] as"
begin

lemma get_chunk: "length bs = n \<Longrightarrow> steps good (get n) (rest_of (bs @ rest) as) bs [] (rest_of rest as)"
  using get_steps [of n "bs @ rest" as] get_nothing [of "rest_of rest as"]
  by (cases "bs = []") (auto simp: rest_of_def left_over_def)

text \<open>A field of one length byte and that many bytes.\<close>

lemma get_field:
  assumes "length bs < 256"
  shows "steps good (bindW (get 1) (\<lambda>n. get (unat (n ! 0)))) (rest_of (word_of_nat (length bs) # bs @ rest) as) bs [] (rest_of rest as)"
proof -
  have one: "steps good (get 1) (rest_of ([word_of_nat (length bs)] @ bs @ rest) as) [word_of_nat (length bs)] [] (rest_of (bs @ rest) as)"
    by (rule get_chunk) simp
  have n: "unat ([word_of_nat (length bs) :: byte] ! 0) = length bs" using assms(1) by (simp add: unat_of_nat)
  then have two: "steps good (get (unat ([word_of_nat (length bs) :: byte] ! 0))) (rest_of (bs @ rest) as) bs [] (rest_of rest as)"
    by (intro get_chunk) simp
  show ?thesis using steps_bind [where f = "\<lambda>n. get (unat (n ! 0))", OF one two] by simp
qed

end

text \<open>The gateway in time: no alarm, and every reading of the clock before the end of its time.\<close>

definition in_time :: "link \<Rightarrow> bool" where
  "in_time w \<longleftrightarrow> alarms w = [] \<and> \<not> expired w \<and> now w < dl_end w \<and> (\<forall>t \<in> set (readings w). t < dl_end w) \<and> sends w = []"

definition peer_ready :: "peer \<Rightarrow> bool" where
  "peer_ready p \<longleftrightarrow> sends p = [] \<and> stops p = []"

lemma remaining_steps: "in_time w \<Longrightarrow> \<exists>t w'. remaining w = (Inr t, w') \<and> in_time w' \<and> sent w' = sent w \<and> arrivals w' = arrivals w"
  by (cases "readings w") (auto simp: in_time_def remaining_def alarm_tick_def monotonic_def Let_def)

lemma send_steps: "steps in_time (send bs) as () [bs] as"
  unfolding steps_def
proof (intro allI impI)
  fix w assume w: "in_time w \<and> arrivals w = as"
  then obtain t v where v: "remaining w = (Inr t, v)" "in_time v" "sent v = sent w" "arrivals v = arrivals w"
    using remaining_steps by blast
  then have "sendall bs v = (True, v\<lparr>sent := sent v @ [bs]\<rparr>)" by (simp add: sendall_def in_time_def)
  then show "\<exists>w'. send bs w = (Inr (), w') \<and> in_time w' \<and> sent w' = sent w @ [bs] \<and> arrivals w' = as"
    using v w by (auto simp: send_def bindW_def in_time_def)
qed

lemma receive_exact_steps:
  assumes "0 < n" and "n \<le> length bs"
  shows "steps in_time (receive_exact n) (Data bs # as) (take n bs) [] (left_over n bs as)"
  unfolding steps_def
proof (intro allI impI)
  fix w assume w: "in_time w \<and> arrivals w = Data bs # as"
  then obtain t v where v: "remaining w = (Inr t, v)" "in_time v" "sent v = sent w" "arrivals v = arrivals w"
    using remaining_steps by blast
  let ?u = "v\<lparr>arrivals := left_over n bs as\<rparr>"
  have "recv n v = (Some (take n bs), ?u)" using v w by (simp add: recv_def left_over_def)
  then have "receive n w = (Inr (take n bs), ?u)" using v by (simp add: receive_def bindW_def)
  moreover have "take n bs \<noteq> []" "n - length (take n bs) = 0" using assms by auto
  moreover have "receive_exact 0 ?u = (Inr [], ?u)" by (simp add: receive_exact.simps)
  ultimately have "receive_exact n w = (Inr (take n bs), ?u)"
    using assms by (subst receive_exact.simps) simp
  then show "\<exists>w'. receive_exact n w = (Inr (take n bs), w') \<and> in_time w' \<and> sent w' = sent w @ [] \<and> arrivals w' = left_over n bs as"
    using v by (auto simp: in_time_def)
qed

lemma say_steps: "steps peer_ready (say bs) as () [bs] as"
  by (auto simp: steps_def say_def sendall_def peer_ready_def)

lemma exact_steps:
  assumes "0 < n" and "n \<le> length bs"
  shows "steps peer_ready (exact n) (Data bs # as) (take n bs) [] (left_over n bs as)"
  unfolding steps_def
proof (intro allI impI)
  fix p assume p: "peer_ready p \<and> arrivals p = Data bs # as"
  let ?u = "p\<lparr>arrivals := left_over n bs as\<rparr>"
  have "peer_recv n p = (Inr (take n bs), ?u)" using p by (simp add: peer_recv_def recv_def left_over_def)
  moreover have "take n bs \<noteq> []" "n - length (take n bs) = 0" using assms by auto
  moreover have "exact 0 ?u = (Inr [], ?u)" by (simp add: exact.simps)
  ultimately have "exact n p = (Inr (take n bs), ?u)" using assms by (subst exact.simps) simp
  then show "\<exists>w'. exact n p = (Inr (take n bs), w') \<and> peer_ready w' \<and> sent w' = sent p @ [] \<and> arrivals w' = left_over n bs as"
    using p by (auto simp: peer_ready_def)
qed

lemma read_nothing: "steps in_time (receive_exact 0) as [] [] as" "steps peer_ready (exact 0) as [] [] as"
  by (auto simp: steps_def receive_exact.simps exact.simps)

interpretation gateway_end: endpoint in_time send receive_exact
  by unfold_locales (intro send_steps receive_exact_steps read_nothing; assumption)+

interpretation peer_end: endpoint peer_ready say exact
  by unfold_locales (intro say_steps exact_steps read_nothing; assumption)+

section \<open>Credentials and addresses\<close>

lemma utf8_points_utf8: "utf8_points (utf8 s) = Some (points s)"
proof (induction s)
  case Nil
  then show ?case by (simp add: utf8_def points_def)
next
  case (Cons c s)
  define n where "n = ord_of c"
  have n: "n < 256" by (simp add: n_def ord_of_def)
  have s: "utf8 (c # s) = utf8_char c @ utf8 s" by (simp add: utf8_def)
  show ?case
  proof (cases "n < 128")
    case True
    then have "unat (word_of_nat n :: byte) = n" "(word_of_nat n :: byte) < 128"
      by (simp_all add: unat_of_nat word_less_nat_alt)
    then show ?thesis using True Cons.IH
      by (simp add: s utf8_char_def n_def [symmetric] sequence_of_def lead_bits_def code_point_def points_def Let_def)
  next
    case False
    let ?a = "word_of_nat (192 + n div 64) :: byte" and ?b = "word_of_nat (128 + n mod 64) :: byte"
    have u: "unat ?a = 192 + n div 64" "unat ?b = 128 + n mod 64"
      using n by (simp_all add: unat_of_nat del: of_nat_add)
    have d: "2 \<le> n div 64" "n div 64 < 4" "n mod 64 < 64" using n False by auto
    have seq: "sequence_of ?a = Some (1, 128, 2047)"
      using u d by (simp add: sequence_of_def word_less_nat_alt word_le_nat_alt del: of_nat_add)
    have cont: "continuation ?b"
      using u d by (simp add: continuation_def word_less_nat_alt word_le_nat_alt del: of_nat_add)
    have point: "code_point (lead_bits 1 ?a) [?b] = n"
      using u div_mult_mod_eq [of n 64] by (simp add: code_point_def lead_bits_def del: of_nat_add)
    have e: "utf8_char c = [?a, ?b]" using False by (simp add: utf8_char_def n_def [symmetric] del: of_nat_add)
    show ?thesis using False n Cons.IH seq cont point
      by (simp add: s e points_def n_def [symmetric] Let_def del: of_nat_add)
  qed
qed

lemma packed_digits: "map uint (map word_of_int (to_digits 256 k n) :: bytes) = to_digits 256 k n"
proof -
  have "uint (word_of_int d :: byte) = d" if "d \<in> set (to_digits 256 k n)" for d
    using to_digits_less [OF _ that] by (simp add: uint_word_of_int_eq take_bit_int_eq_self)
  then show ?thesis by (simp add: map_idI)
qed

lemma packed_read:
  "word_of_int (of_digits 256 (map uint (map word_of_int (to_digits 256 4 (uint v)) :: bytes))) = (v :: 32 word)"
  "word_of_int (of_digits 256 (map uint (map word_of_int (to_digits 256 16 (uint w)) :: bytes))) = (w :: 128 word)"
proof -
  have "uint v < 256 ^ 4" "uint w < 256 ^ 16" using uint_lt2p [of v] uint_lt2p [of w] by simp_all
  then show "word_of_int (of_digits 256 (map uint (map word_of_int (to_digits 256 4 (uint v)) :: bytes))) = v"
    "word_of_int (of_digits 256 (map uint (map word_of_int (to_digits 256 16 (uint w)) :: bytes))) = w"
    unfolding packed_digits by (simp_all add: of_to_digits)
qed

lemma port_read: "0 \<le> port \<Longrightarrow> port < 65536 \<Longrightarrow> of_digits 256 (map uint (port_bytes port)) = port"
proof -
  assume p: "0 \<le> port" "port < 65536"
  then have "port div 256 < 256" "0 \<le> port div 256" by auto
  then have "uint (word_of_int (port div 256) :: byte) = port div 256" "uint (word_of_int (port mod 256) :: byte) = port mod 256"
    by (simp_all add: uint_word_of_int_eq take_bit_int_eq_self)
  then show ?thesis by (simp add: port_bytes_def of_digits_def)
qed

text \<open>A loopback address in its canonical text is dialled as it is.\<close>

lemma lower_localhost_no_address: "lower host = ''localhost'' \<Longrightarrow> parse_address host = None"
proof -
  assume l: "lower host = ''localhost''"
  have absent: "c \<notin> set host" if "lower_char c = c" "c \<notin> set ''localhost''" for c
  proof
    assume "c \<in> set host"
    then have "lower_char c \<in> set (lower host)" by (simp add: lower_def)
    then show False using that l by simp
  qed
  have "CHR ''.'' \<notin> set host" "CHR '':'' \<notin> set host" by (rule absent; code_simp)+
  then have "split_on CHR ''.'' host = [host]" "split_on CHR '':'' host = [host]" by (simp_all add: split_on_clean)
  then show ?thesis by (simp add: parse_address_def parse_ipv4_def parse_ipv6_def Let_def)
qed

lemma peer_loopback_address: "is_loopback a \<Longrightarrow> peer_loopback (show_address a) = Some (show_address a)"
proof -
  assume a: "is_loopback a"
  have "lower (show_address a) \<noteq> ''localhost''" using lower_localhost_no_address parse_show_address by fastforce
  moreover have "dropWhile (\<lambda>c. c \<noteq> CHR ''%'') (show_address a) = []"
    using show_address_no_percent [of a] by auto
  ultimately show ?thesis
    using a by (simp add: peer_loopback_def scoped_address_def parse_show_address)
qed

section \<open>SOCKS5\<close>

text \<open>The messages of the gateway: greeting, login and request.\<close>

definition greeting_message :: "bool \<Rightarrow> bytes" where
  "greeting_message login = [5, 1, if login then 2 else 0]"

definition login_message :: "string \<Rightarrow> string \<Rightarrow> bytes" where
  "login_message user pass = [1, word_of_nat (length (utf8 user))] @ utf8 user @ [word_of_nat (length (utf8 pass))] @ utf8 pass"

definition request_message :: "ip_address \<Rightarrow> int \<Rightarrow> bytes" where
  "request_message a port = [5, 1, 0, if version a = 4 then 1 else 4] @ packed a @ port_bytes port"

lemma socks_login_steps:
  assumes "length (utf8 user) \<le> 255" and "length (utf8 pass) \<le> 255"
  shows "steps in_time (socks_login user pass) (Data [1, 0] # as) () [login_message user pass] as"
  unfolding socks_login_def Let_def
proof (rule steps_bindI)
  show "steps in_time (whenW (255 < length (utf8 user) \<or> 255 < length (utf8 pass))
      (validation ''SOCKS5 credentials cannot exceed 255 encoded bytes.'')) (Data [1, 0] # as) () [] (Data [1, 0] # as)"
    using assms by (intro steps_when) simp
  show "steps in_time (bindW (send ([1, word_of_nat (length (utf8 user))] @ utf8 user @ [word_of_nat (length (utf8 pass))] @ utf8 pass))
      (\<lambda>_. bindW (receive_exact 2) (\<lambda>rep. whenW (rep \<noteq> [1, 0])
        (ConnectorError ''proxy_auth'' ''SOCKS5 proxy authentication was rejected.''))))
      (Data [1, 0] # as) () [login_message user pass] as"
  proof (rule steps_bindI)
    show "steps in_time (send ([1, word_of_nat (length (utf8 user))] @ utf8 user @ [word_of_nat (length (utf8 pass))] @ utf8 pass))
        (Data [1, 0] # as) () [login_message user pass] (Data [1, 0] # as)"
      unfolding login_message_def by (rule send_steps)
    show "steps in_time (bindW (receive_exact 2) (\<lambda>rep. whenW (rep \<noteq> [1, 0])
        (ConnectorError ''proxy_auth'' ''SOCKS5 proxy authentication was rejected.''))) (Data [1, 0] # as) () [] as"
      using steps_bind [OF gateway_end.get_chunk [of "[1, 0]" 2 "[]" as] steps_when, simplified] by simp
  qed simp
qed simp

lemma socks_reply_steps:
  "steps in_time (bindW (receive_exact 4) socks_reply) (Data (socks_answer 0) # as) () [] as"
proof (rule steps_bindI)
  let ?rep = "[5, 0, 0, 1] :: bytes" and ?rest = "replicate 6 0 :: bytes"
  show "steps in_time (receive_exact 4) (Data (socks_answer 0) # as) ?rep [] (rest_of ?rest as)"
    using gateway_end.get_chunk [of ?rep 4 ?rest as] by (simp add: socks_answer_def)
  have "steps in_time (receive_exact 6) (rest_of ?rest as) ?rest [] as"
    using gateway_end.get_chunk [of ?rest 6 "[]" as] by simp
  then have "steps in_time (bindW (receive_exact 6) (\<lambda>_. returnW ())) (rest_of ?rest as) () [] as"
    by (rule steps_bindI) (auto intro: steps_return)
  then show "steps in_time (socks_reply ?rep) (rest_of ?rest as) () [] as"
    by (simp add: socks_reply_def bindW_pure)
qed simp

lemma gateway_socks:
  assumes "length (utf8 user) \<le> 255" and "length (utf8 pass) \<le> 255"
    and "truthy_text connector ''username'' = user" and "text_of connector ''password'' = pass"
    and "text_of device ''network_host'' = show_address a" and "number_of device ''port'' = port"
  defines "login \<equiv> user \<noteq> []"
  shows "steps in_time (socks5 connector device)
     (map Data ([[5, if login then 2 else 0]] @ (if login then [[1, 0]] else []) @ [socks_answer 0])) ()
     ([greeting_message login] @ (if login then [login_message user pass] else []) @ [request_message a port]) []"
proof -
  let ?s = "if login then 2 else 0 :: byte"
  let ?fin = "[Data (socks_answer 0)]" and ?mid = "if login then [Data [1, 0]] else []"
  have arrive: "map Data ([[5, ?s]] @ (if login then [[1, 0]] else []) @ [socks_answer 0]) = Data [5, ?s] # ?mid @ ?fin" by simp
  have address: "[5, 1, 0] @ socks_address (text_of device ''network_host'') @ port_bytes (number_of device ''port'') = request_message a port"
    using assms(5,6) by (simp add: socks_address_def parse_show_address request_message_def)
  have request: "steps in_time (bindW (send (request_message a port)) (\<lambda>_. bindW (receive_exact 4) socks_reply)) ?fin () [request_message a port] []"
    using steps_bind [OF send_steps socks_reply_steps] by simp
  have mid: "steps in_time (if login then socks_login user pass else returnW ()) (?mid @ ?fin) () (if login then [login_message user pass] else []) ?fin"
    using socks_login_steps [OF assms(1,2)] steps_return by auto
  have greeted: "steps in_time (whenW ([5, ?s] \<noteq> [5, ?s])
      (ConnectorError ''proxy_auth'' ''The SOCKS5 proxy rejected the selected authentication method.'')) (?mid @ ?fin) () [] (?mid @ ?fin)"
    by (rule steps_when) simp
  have get: "steps in_time (receive_exact 2) (Data [5, ?s] # ?mid @ ?fin) [5, ?s] [] (?mid @ ?fin)"
    using gateway_end.get_chunk [of "[5, ?s]" 2 "[]" "?mid @ ?fin"] by simp
  show ?thesis
    unfolding socks5_def assms(3) assms(4) address Let_def login_def [symmetric] arrive
    by (rule steps_bindI, rule send_steps, rule steps_bindI, rule get, rule steps_bindI, rule greeted,
        rule steps_bindI, rule mid, rule request) (auto simp: greeting_message_def)
qed

text \<open>The answers of the peer.\<close>

lemma decoded_steps: "x = Some y \<Longrightarrow> steps good (decoded x) as y [] as"
  by (simp add: decoded_def steps_return)

lemma authenticate_steps:
  assumes "length (utf8 user) \<le> 255" and "length (utf8 pass) \<le> 255"
    and "pp_username c = Some user" and "pp_password c = Some pass"
  shows "steps peer_ready (socks_authenticate c) (Data (login_message user pass) # as) True [[1, 0]] as"
proof -
  let ?u = "utf8 user" and ?v = "utf8 pass"
  let ?head = "[1, word_of_nat (length ?u)] :: bytes" and ?tail = "word_of_nat (length ?v) # ?v"
  have head: "steps peer_ready (exact 2) (Data (login_message user pass) # as) ?head [] (rest_of (?u @ ?tail) as)"
    using peer_end.get_chunk [of ?head 2 "?u @ ?tail" as] by (simp add: login_message_def)
  have n: "unat (?head ! 1) = length ?u" using assms(1) by (simp add: unat_of_nat)
  have u: "steps peer_ready (exact (unat (?head ! 1))) (rest_of (?u @ ?tail) as) ?u [] (rest_of ?tail as)"
    unfolding n by (rule peer_end.get_chunk) simp
  have v: "steps peer_ready sized_field (rest_of ?tail as) ?v [] as"
    using peer_end.get_field [of ?v "[]" as] assms(2) by (simp add: sized_field_def)
  have say: "steps peer_ready (bindW (say [1, 0]) (\<lambda>_. returnW True)) as True [[1, 0]] as"
    by (rule steps_bindI, rule say_steps, rule steps_return) simp
  have test: "(?head ! 0 \<noteq> 1 \<or> Some (points user) \<noteq> map_option points (pp_username c)
      \<or> Some (points pass) \<noteq> map_option points (pp_password c)) = False"
    using assms(3,4) by simp
  show ?thesis
    unfolding socks_authenticate_def
    by (rule steps_bindI, rule head, rule steps_bindI, rule u, rule steps_bindI, rule decoded_steps, rule utf8_points_utf8,
        rule steps_bindI, rule v, rule steps_bindI, rule decoded_steps, rule utf8_points_utf8,
        unfold test if_False, rule say) simp_all
qed

lemma socks_host_steps:
  "steps peer_ready (socks_host (if version a = 4 then 1 else 4)) (rest_of (packed a @ port_bytes port) as)
     (Some (show_address a)) [] (rest_of (port_bytes port) as)"
proof (cases a)
  case (V4 v)
  have "steps peer_ready (exact 4) (rest_of (packed a @ port_bytes port) as) (packed a) [] (rest_of (port_bytes port) as)"
    by (rule peer_end.get_chunk) (simp add: V4 packed_def)
  from steps_bind [OF this steps_return, of "\<lambda>bs. Some (show_ipv4 (word_of_int (of_digits 256 (map uint bs))))"] show ?thesis
    using packed_read(1) [of v] by (simp add: V4 socks_host_def version_def packed_def show_address_def del: io_simps map_map)
next
  case (V6 w)
  have "steps peer_ready (exact 16) (rest_of (packed a @ port_bytes port) as) (packed a) [] (rest_of (port_bytes port) as)"
    by (rule peer_end.get_chunk) (simp add: V6 packed_def)
  from steps_bind [OF this steps_return, of "\<lambda>bs. Some (show_ipv6 (word_of_int (of_digits 256 (map uint bs))))"] show ?thesis
    using packed_read(2) [of w] by (simp add: V6 socks_host_def version_def packed_def show_address_def del: io_simps map_map)
qed

lemma destination_steps:
  assumes "is_loopback a" and "1 \<le> port" and "port \<le> 65535" and "reach (show_address a, port)"
  shows "steps peer_ready (peer_destination reach (show_address a) port) as (show_address a, port) [] as"
  using assms
  by (auto simp: steps_def peer_destination_def decoded_def peer_loopback_address bindW_def whenW_def peer_own_def
      is_stopped_def visit_def log_event_def peer_ready_def)

lemma or_answer_steps: "steps good m as x q as' \<Longrightarrow> steps good (or_answer m bs) as (Some x) q as'"
  unfolding steps_def or_answer_def catchW_def bindW_def by fastforce

lemma socks_request_steps:
  assumes "is_loopback a" and "1 \<le> port" and "port \<le> 65535" and "reach (show_address a, port)"
    and "\<not> pp_deny c" and "\<not> pp_malformed c"
  shows "steps peer_ready (socks_request reach c) (Data (request_message a port) # as) (Some (show_address a, port)) [socks_answer 0] as"
proof -
  let ?head = "[5, 1, 0, if version a = 4 then 1 else 4] :: bytes"
  have head: "steps peer_ready (exact 4) (Data (request_message a port) # as) ?head [] (rest_of (packed a @ port_bytes port) as)"
    using peer_end.get_chunk [of ?head 4 "packed a @ port_bytes port" as] by (simp add: request_message_def)
  have host: "steps peer_ready (socks_host (?head ! 3)) (rest_of (packed a @ port_bytes port) as) (Some (show_address a)) [] (rest_of (port_bytes port) as)"
    using socks_host_steps by (simp add: numeral_3_eq_3)
  have port: "steps peer_ready (exact 2) (rest_of (port_bytes port) as) (port_bytes port) [] as"
    using peer_end.get_chunk [of "port_bytes port" 2 "[]" as] by (simp add: port_bytes_def)
  have read: "of_digits 256 (map uint (port_bytes port)) = port" using assms(2,3) by (intro port_read) auto
  have dial: "steps peer_ready (or_answer (peer_destination reach (show_address a) port) (socks_answer 4)) as
      (Some (show_address a, port)) [] as"
    by (intro or_answer_steps destination_steps assms)
  have say: "steps peer_ready (bindW (say (socks_answer 0)) (\<lambda>_. returnW (Some (show_address a, port)))) as
      (Some (show_address a, port)) [socks_answer 0] as"
    by (rule steps_bindI, rule say_steps, rule steps_return) simp
  have test: "pp_malformed c = False" "(pp_deny c \<or> take 3 ?head \<noteq> [5, 1, 0]) = False" using assms(5,6) by simp_all
  show ?thesis
    unfolding socks_request_def
    by (rule steps_bindI, rule head, rule steps_bindI, rule host, unfold option.case, rule steps_bindI, rule port,
        unfold Let_def read test if_False, rule steps_bindI, rule dial, unfold option.case, rule say) simp_all
qed

lemma peer_socks:
  assumes "length (utf8 user) \<le> 255" and "length (utf8 pass) \<le> 255"
    and "pp_username c = Some user" and "pp_password c = Some pass" and "\<not> pp_deny c" and "\<not> pp_malformed c"
    and "is_loopback a" and "1 \<le> port" and "port \<le> 65535" and "reach (show_address a, port)"
  defines "login \<equiv> user \<noteq> []"
  shows "steps peer_ready (socks_peer reach c)
     (map Data ([greeting_message login] @ (if login then [login_message user pass] else []) @ [request_message a port]))
     (Some (show_address a, port)) ([[5, if login then 2 else 0]] @ (if login then [[1, 0]] else []) @ [socks_answer 0]) []"
proof -
  let ?s = "if login then 2 else 0 :: byte"
  let ?fin = "[Data (request_message a port)]" and ?mid = "if login then [Data (login_message user pass)] else []"
  have arrive: "map Data ([greeting_message login] @ (if login then [login_message user pass] else []) @ [request_message a port])
      = Data [5, 1, ?s] # ?mid @ ?fin"
    by (simp add: greeting_message_def)
  have wants: "wants_login c = login"
    using assms(3) by (simp add: wants_login_def login_def split: list.splits)
  have head: "steps peer_ready (exact 2) (Data [5, 1, ?s] # ?mid @ ?fin) [5, 1] [] (Data [?s] # ?mid @ ?fin)"
    using peer_end.get_chunk [of "[5, 1]" 2 "[?s]" "?mid @ ?fin"] by simp
  have offered: "steps peer_ready (exact (unat ([5, 1 :: byte] ! 1))) (Data [?s] # ?mid @ ?fin) [?s] [] (?mid @ ?fin)"
    using peer_end.get_chunk [of "[?s]" 1 "[]" "?mid @ ?fin"] by simp
  have auth: "steps peer_ready (if login then socks_authenticate c else returnW True) (?mid @ ?fin) True (if login then [[1, 0]] else []) ?fin"
    using authenticate_steps [OF assms(1-4)] steps_return by auto
  have request: "steps peer_ready (if True then socks_request reach c else returnW None) ?fin (Some (show_address a, port)) [socks_answer 0] []"
    using socks_request_steps [of a port reach c "[]", OF assms(7-10,5,6)] by simp
  have test: "([5, 1 :: byte] ! 0 \<noteq> 5 \<or> ?s \<notin> set [?s]) = False" by simp
  show ?thesis
    unfolding socks_peer_def arrive
    by (rule steps_bindI, rule head, rule steps_bindI, rule offered, unfold Let_def wants test if_False,
        rule steps_bindI, rule say_steps, rule steps_bindI, rule auth, rule request) simp_all
qed

text \<open>
  C5. The SOCKS5 handshake of the gateway and the SOCKS5 peer understand each
  other: with the same credentials, of at most 255 encoded bytes each, and a loopback destination
  that accepts connections, there is a conversation in which the gateway reports success and the
  peer goes on to relay to exactly that destination.
\<close>

theorem socks_handshakes_meet:
  assumes "pp_username c = Some (truthy_text connector ''username'')" and "pp_password c = Some (text_of connector ''password'')"
    and "\<not> pp_deny c" and "\<not> pp_malformed c"
    and "length (utf8 (truthy_text connector ''username'')) \<le> 255" and "length (utf8 (text_of connector ''password'')) \<le> 255"
    and "text_of device ''network_host'' = show_address a" and "is_loopback a"
    and "1 \<le> number_of device ''port''" and "number_of device ''port'' \<le> 65535"
    and "reach (show_address a, number_of device ''port'')"
  shows "\<exists>questions replies. steps in_time (socks5 connector device) (map Data replies) () questions []
     \<and> steps peer_ready (socks_peer reach c) (map Data questions) (Some (show_address a, number_of device ''port'')) replies []"
  using gateway_socks [OF assms(5,6) refl refl assms(7) refl]
    peer_socks [of _ _ c a "number_of device ''port''" reach, OF assms(5,6,1-4,8-11)] by blast

end
