(* ===== verification/ConnectConversations.thy ===== *)
theory ConnectConversations
  imports Conversations
begin

text \<open>
  The HTTP CONNECT handshake of the gateway and the HTTP CONNECT peer: the request the gateway
  writes is the one the peer parses.
\<close>

section \<open>Reading up to a mark\<close>

text \<open>An endpoint that also collects bytes one by one until a mark has arrived.\<close>

locale marked_endpoint = endpoint good put get
  for good :: "'z wire_scheme \<Rightarrow> bool" and put :: "bytes \<Rightarrow> ('z wire_scheme, 'e, unit) io"
    and get :: "nat \<Rightarrow> ('z wire_scheme, 'e, bytes) io" +
  fixes collect :: "bytes \<Rightarrow> nat \<Rightarrow> bytes \<Rightarrow> ('z wire_scheme, 'e, bytes) io"
  assumes collect_stop: "suffix mark data \<Longrightarrow> collect mark limit data = returnW data"
    and collect_more: "\<not> suffix mark data \<Longrightarrow> length data < limit \<Longrightarrow>
      collect mark limit data = bindW (get 1) (\<lambda>bs. collect mark limit (data @ bs))"
begin

lemma collect_steps:
  assumes "suffix mark (data @ bs)" and "\<forall>k < length bs. \<not> suffix mark (data @ take k bs)"
    and "length (data @ bs) \<le> limit"
  shows "steps good (collect mark limit data) (rest_of bs as) (data @ bs) [] as"
  using assms
proof (induction bs arbitrary: data)
  case Nil
  then show ?case by (simp add: collect_stop steps_return del: io_simps)
next
  case (Cons b bs)
  have "\<not> suffix mark data" using Cons.prems(2) by (metis append_Nil2 length_greater_0_conv list.distinct(1) take_0)
  then have c: "collect mark limit data = bindW (get 1) (\<lambda>bs. collect mark limit (data @ bs))"
    using Cons.prems(3) by (intro collect_more) simp_all
  have "\<forall>k < length bs. \<not> suffix mark ((data @ [b]) @ take k bs)"
    using Cons.prems(2) by (auto dest: spec [of _ "Suc _"])
  then have "steps good (collect mark limit (data @ [b])) (rest_of bs as) ((data @ [b]) @ bs) [] as"
    using Cons.prems by (intro Cons.IH) simp_all
  moreover have "steps good (get 1) (rest_of ([b] @ bs) as) [b] [] (rest_of bs as)" by (rule get_chunk) simp
  ultimately show ?case unfolding c by (intro steps_bindI [of good "get 1"]) (simp_all del: rest_of_simps)
qed

end

interpretation gateway_marks: marked_endpoint in_time send receive_exact receive_until
  by unfold_locales (simp_all add: fun_eq_iff receive_until.simps [of _ _ _ w for w] bindW_def split: prod.splits sum.splits)

interpretation peer_marks: marked_endpoint peer_ready say exact until
  by unfold_locales (simp_all add: fun_eq_iff until.simps [of _ _ _ w for w] bindW_def split: prod.splits sum.splits)

section \<open>Lines\<close>

definition crlf_bytes :: bytes where
  "crlf_bytes = [13, 10]"

lemma split_lines_neq_Nil [simp]: "split_lines bs \<noteq> []"
  by (induction bs rule: split_lines.induct) (auto split: list.splits)

lemma split_lines_append: "split_lines (y @ crlf_bytes @ r) = split_lines y @ split_lines r"
proof (induction y rule: split_lines.induct)
  case (3 b c y)
  then show ?case by (cases "split_lines (c # y)") (auto simp: split: list.splits)
qed (simp_all add: crlf_bytes_def)

lemma split_lines_plain: "13 \<notin> set l \<Longrightarrow> split_lines l = [l]"
  by (induction l rule: split_lines.induct) auto

lemma split_lines_single: "split_lines z = [[]] \<Longrightarrow> z = []"
  by (induction z rule: split_lines.induct) (auto split: if_splits list.splits)

text \<open>The blank line that ends a message comes nowhere before.\<close>

lemma first_blank_line:
  assumes "\<forall>l \<in> set ls. l \<noteq> [] \<and> 13 \<notin> set l" and "bs = concat (map (\<lambda>l. l @ crlf_bytes) ls) @ crlf_bytes"
  shows "suffix (crlf_bytes @ crlf_bytes) bs \<or> ls = []" and "\<forall>k < length bs. \<not> suffix (crlf_bytes @ crlf_bytes) (take k bs)"
proof -
  have lines: "split_lines bs = ls @ [[], []]"
    using assms(1) unfolding assms(2)
  proof (induction ls)
    case Nil
    then show ?case by (simp add: crlf_bytes_def)
  next
    case (Cons l ls)
    then show ?case using split_lines_append [of l] by (simp add: split_lines_plain)
  qed
  show "suffix (crlf_bytes @ crlf_bytes) bs \<or> ls = []"
    unfolding assms(2) by (cases ls rule: rev_cases) (auto simp: suffix_def)
  show "\<forall>k < length bs. \<not> suffix (crlf_bytes @ crlf_bytes) (take k bs)"
  proof (intro allI impI notI)
    fix k assume k: "k < length bs" and "suffix (crlf_bytes @ crlf_bytes) (take k bs)"
    then obtain y where "take k bs = y @ crlf_bytes @ crlf_bytes" by (auto simp: suffix_def)
    then have "bs = y @ crlf_bytes @ [] @ crlf_bytes @ drop k bs" by (metis append.assoc append_Nil append_take_drop_id)
    then have "split_lines bs = split_lines y @ [[]] @ split_lines (drop k bs)"
      using split_lines_append [of y "[] @ crlf_bytes @ drop k bs"] split_lines_append [of "[]" "drop k bs"] by simp
    then have e: "split_lines y @ [[]] @ split_lines (drop k bs) = ls @ [[], []]" using lines by simp
    have "length ls \<le> length (split_lines y)"
    proof (rule ccontr)
      assume "\<not> length ls \<le> length (split_lines y)"
      then have "ls ! length (split_lines y) = []" using arg_cong [OF e, of "\<lambda>xs. xs ! length (split_lines y)"]
        by (simp add: nth_append)
      then show False using assms(1) \<open>\<not> length ls \<le> length (split_lines y)\<close> by (auto simp: not_le dest: nth_mem)
    qed
    moreover have "length (split_lines y) + 1 + length (split_lines (drop k bs)) = length ls + 2"
      using arg_cong [OF e, of length] by simp
    moreover have "0 < length (split_lines (drop k bs))" by simp
    ultimately have "length (split_lines (drop k bs)) = 1" by linarith
    then obtain z where z: "split_lines (drop k bs) = [z]" by (cases "split_lines (drop k bs)") auto
    then have "z = []" using arg_cong [OF e, of last] by simp
    then show False using split_lines_single [of "drop k bs"] z k by simp
  qed
qed

section \<open>The request\<close>

lemma decode_ascii_ascii: "\<forall>c \<in> set s. ord_of c < 128 \<Longrightarrow> decode_ascii (ascii s) = Some s"
proof (induction s)
  case (Cons c s)
  have "ord_of c < 256" by (simp add: ord_of_def)
  then have "unat (word_of_nat (ord_of c) :: byte) = ord_of c" by (simp add: unat_of_nat)
  then have "char_of (unat (word_of_nat (ord_of c) :: byte)) = c" "(word_of_nat (ord_of c) :: byte) < 128"
    using Cons.prems by (simp_all add: ord_of_def word_less_nat_alt)
  then show ?case using Cons by (simp add: decode_ascii_def ascii_def split: if_splits)
qed (simp add: decode_ascii_def)

text \<open>Characters of a header line: ASCII, and no carriage return.\<close>

definition line_char :: "char \<Rightarrow> bool" where
  "line_char c \<longleftrightarrow> ord_of c < 128 \<and> ord_of c \<noteq> 13"

lemma text_lines_plain: "list_all line_char l \<Longrightarrow> text_lines (l @ crlf_text @ r) = l # text_lines r"
proof (induction l rule: text_lines.induct)
  case 1
  then show ?case by (simp add: crlf_text_def)
next
  case (2 c)
  then have "[c, char_of 13] \<noteq> crlf_text" by (auto simp: crlf_text_def line_char_def ord_of_def)
  then show ?case by (simp add: crlf_text_def)
next
  case (3 c d l)
  then have "[c, d] \<noteq> crlf_text" by (auto simp: crlf_text_def line_char_def ord_of_def)
  then show ?case using 3 by simp
qed

lemma line_char_byte: "list_all line_char l \<Longrightarrow> 13 \<notin> set (ascii l)"
proof -
  have "(word_of_nat (ord_of c) :: byte) \<noteq> 13" if "line_char c" for c
  proof
    assume "(word_of_nat (ord_of c) :: byte) = 13"
    then have "unat (word_of_nat (ord_of c) :: byte) = 13" by simp
    moreover have "ord_of c < 256" by (simp add: ord_of_def)
    ultimately show False using that by (simp add: line_char_def unat_of_nat)
  qed
  then show "list_all line_char l \<Longrightarrow> 13 \<notin> set (ascii l)" by (auto simp: ascii_def list_all_iff)
qed

definition host_text_char :: "char \<Rightarrow> bool" where
  "host_text_char c \<longleftrightarrow> is_hex c \<or> c = CHR ''.'' \<or> c = CHR '':''"

lemma show_ipv4_chars: "c \<in> set (show_ipv4 v) \<Longrightarrow> is_ascii_digit c \<or> c = CHR ''.''"
proof -
  assume c: "c \<in> set (show_ipv4 v)"
  have "\<forall>d \<in> set (show_int n). is_ascii_digit d" if "n \<in> set (to_digits 256 4 (uint v))" for n
    using to_digits_less [OF _ that] by (intro show_int_digits) simp
  then show ?thesis
    using c set_join [of "''.''" "map show_int (to_digits 256 4 (uint v))"] by (fastforce simp: show_ipv4_def)
qed

lemma set_compress: "set (compress_hextets hs) \<subseteq> insert [] (set hs)"
  by (auto simp: compress_hextets_def Let_def split: prod.splits if_splits dest: in_set_takeD in_set_dropD)

lemma show_ipv6_chars: "c \<in> set (show_ipv6 w) \<Longrightarrow> is_hex c \<or> c = CHR '':''"
proof -
  assume c: "c \<in> set (show_ipv6 w)"
  obtain hs where hs: "hs = map show_hex (to_digits 65536 8 (uint w))" by simp
  have hex: "is_hex d" if h: "h \<in> set hs" and d: "d \<in> set h" for h d
  proof -
    obtain n where "n \<in> set (to_digits 65536 8 (uint w))" "h = show_hex n" using h unfolding hs set_map by blast
    then show ?thesis using to_digits_less [of 65536 n 8 "uint w"] show_hex_chars [of n d] d by simp
  qed
  have "c \<in> set (join '':'' (compress_hextets hs))" using c by (simp only: show_ipv6_def hs)
  then consider "c = CHR '':''" | h where "h \<in> set (compress_hextets hs)" "c \<in> set h"
    using set_join [of "'':''" "compress_hextets hs"] by auto
  then show ?thesis
  proof cases
    case (2 h)
    then have "h \<in> set hs" using set_compress [of hs] by auto
    then show ?thesis using hex 2(2) by blast
  qed simp
qed

lemma hex_chars: "is_hex c \<Longrightarrow> is_ascii_alnum c \<and> line_char c \<and> c \<noteq> CHR ''['' \<and> c \<noteq> CHR '']''"
  by (auto simp: is_hex_def is_ascii_alnum_def is_ascii_alpha_def is_ascii_upper_def is_ascii_lower_def is_ascii_digit_def
      line_char_def ord_of_def)

lemma digit_hex: "is_ascii_digit c \<Longrightarrow> is_hex c"
  by (simp add: is_hex_def)

lemma show_int_port:
  assumes "1 \<le> port" and "port \<le> 65535"
  shows "parse_int (show_int port) = Some port" and "list_all is_ascii_digit (show_int port)" and "show_int port \<noteq> []"
proof -
  have p: "show_int port = show_nat (nat port)" using assms by (simp add: show_int_def)
  have a: "nat port < 10 ^ 5" using assms by simp
  have b: "(10 :: nat) ^ 5 \<le> 10 ^ 4300" by (rule power_increasing) simp_all
  have "parse_int (show_nat (nat port)) = Some (int (nat port))"
    by (rule parse_int_show) (rule less_le_trans [OF a b])
  then show "parse_int (show_int port) = Some port" unfolding p using assms by simp
  show "list_all is_ascii_digit (show_int port)" unfolding p using show_nat_digits by (simp add: list_all_iff)
  show "show_int port \<noteq> []" using show_int_safe by blast
qed

lemma b64_line: "list_all line_char (b64encode bs)"
proof -
  have "line_char (sextet_char False n)" if "n < 64" for n
    using that by (auto simp: line_char_def sextet_char_def ord_of_def)
  moreover have "line_char (CHR ''='')" by (simp add: line_char_def ord_of_def)
  ultimately show ?thesis using sextets_bound by (auto simp: b64encode_def Let_def list_all_iff)
qed

text \<open>The request line of the gateway is the one the peer matches.\<close>

lemma span_all: "list_all P xs \<Longrightarrow> \<not> P y \<Longrightarrow> takeWhile P (xs @ y # ys) = xs"
  by (induction xs) simp_all

lemma connect_target_v4:
  assumes "list_all authority_char host" and "host \<noteq> []" and "list_all is_ascii_digit port" and "port \<noteq> []"
  shows "connect_target (''CONNECT '' @ (host @ '':'' @ port) @ '' HTTP/1.1'') = Some (host, port)"
proof -
  have c: "\<not> authority_char CHR '':''" "\<not> is_ascii_digit CHR '' ''" by code_simp+
  have "hd host \<noteq> CHR ''[''" using assms(1,2) by (cases host) (auto simp: authority_char_def is_ascii_alnum_def
        is_ascii_alpha_def is_ascii_upper_def is_ascii_lower_def is_ascii_digit_def ord_of_def)
  then have b: "\<not> startswith (host @ '':'' @ port @ '' HTTP/1.1'') ''[''" "host \<noteq> ''[]''"
    using assms(2) by (cases host; auto simp: startswith_def)+
  have h: "takeWhile authority_char (host @ '':'' @ port @ '' HTTP/1.1'') = host"
    using span_all [OF assms(1) c(1), of "port @ '' HTTP/1.1''"] by simp
  have p: "takeWhile is_ascii_digit (port @ '' HTTP/1.1'') = port"
    using span_all [OF assms(3) c(2), of "''HTTP/1.1''"] by simp
  have "startswith (''CONNECT '' @ r) ''CONNECT ''" "drop 8 (''CONNECT '' @ r) = r" for r by (simp_all add: startswith_def)
  then show ?thesis
    using h p b assms(2,4) by (simp add: connect_target_def Let_def startswith_def)
qed

lemma connect_target_v6:
  assumes "list_all (\<lambda>c. is_hex c \<or> c = CHR '':'') host" and "host \<noteq> []" and "list_all is_ascii_digit port" and "port \<noteq> []"
  shows "connect_target (''CONNECT '' @ (''['' @ host @ '']:'' @ port) @ '' HTTP/1.1'') = Some (''['' @ host @ '']'', port)"
proof -
  have c: "\<not> (is_hex CHR '']'' \<or> CHR '']'' = CHR '':'')" "\<not> is_ascii_digit CHR '' ''" by code_simp+
  have h: "takeWhile (\<lambda>c. is_hex c \<or> c = CHR '':'') (host @ '']:'' @ port @ '' HTTP/1.1'') = host"
    using span_all [OF assms(1) c(1), of "'':'' @ port @ '' HTTP/1.1''"] by simp
  have p: "takeWhile is_ascii_digit (port @ '' HTTP/1.1'') = port"
    using span_all [OF assms(3) c(2), of "''HTTP/1.1''"] by simp
  have "startswith (''CONNECT '' @ r) ''CONNECT ''" "drop 8 (''CONNECT '' @ r) = r" for r by (simp_all add: startswith_def)
  then show ?thesis
    using h p assms(2,4) by (simp add: connect_target_def Let_def startswith_def)
qed

lemma strip_brackets_host:
  assumes "CHR ''['' \<notin> set host" and "CHR '']'' \<notin> set host" and "host \<noteq> []"
  shows "strip_brackets host = host" and "strip_brackets (''['' @ host @ '']'') = host"
proof -
  let ?b = "\<lambda>c. c = CHR ''['' \<or> c = CHR '']''"
  have d: "dropWhile ?b xs = xs" if "set xs = set host" for xs
    using that assms by (cases xs) auto
  have e: "dropWhile ?b (xs @ ys) = xs @ ys" if "set xs = set host" for xs ys
    using that assms by (cases xs) auto
  show "strip_brackets host = host" using d [of host] d [of "rev host"] by (simp add: strip_brackets_def Let_def)
  show "strip_brackets (''['' @ host @ '']'') = host"
    using e [of host "'']''"] d [of "rev host"] by (simp add: strip_brackets_def Let_def)
qed

text \<open>The authority of an address, as the peer reads it.\<close>

lemma authority_read:
  assumes "1 \<le> port" and "port \<le> 65535"
  obtains host where "connect_target (''CONNECT '' @ authority (show_address a) port @ '' HTTP/1.1'') = Some (host, show_int port)"
    and "strip_brackets host = show_address a"
proof (cases a)
  case (V4 v)
  let ?h = "show_ipv4 v"
  have chars: "list_all authority_char ?h" "CHR '':'' \<notin> set ?h" "CHR ''['' \<notin> set ?h" "CHR '']'' \<notin> set ?h"
    using show_ipv4_chars [of _ v] show_ipv4_chars [of "CHR '':''" v] show_ipv4_chars [of "CHR ''[''" v] show_ipv4_chars [of "CHR '']''" v]
    by (auto simp: list_all_iff authority_char_def is_ascii_alnum_def is_ascii_digit_def ord_of_def)
  have ne: "?h \<noteq> []" using parse_show_ipv4 [of v] by (auto simp: parse_ipv4_def)
  have "authority (show_address a) port = ?h @ '':'' @ show_int port"
    using chars(2) by (simp add: authority_def V4 show_address_def)
  then show ?thesis
    using that [of ?h] connect_target_v4 [OF chars(1) ne show_int_port(2,3) [OF assms]] strip_brackets_host(1) [OF chars(3,4) ne]
    by (simp add: V4 show_address_def)
next
  case (V6 w)
  let ?h = "show_ipv6 w"
  have "CHR '':'' \<in> set ?h" by (rule show_ipv6_colon)
  moreover have chars: "list_all (\<lambda>c. is_hex c \<or> c = CHR '':'') ?h" "CHR ''['' \<notin> set ?h" "CHR '']'' \<notin> set ?h"
    using show_ipv6_chars [of _ w] hex_chars by (fastforce simp: list_all_iff)+
  ultimately have ne: "?h \<noteq> []" and "authority (show_address a) port = ''['' @ ?h @ '']:'' @ show_int port"
    by (auto simp: authority_def V6 show_address_def)
  then show ?thesis
    using that [of "''['' @ ?h @ '']''"] connect_target_v6 [OF chars(1) ne show_int_port(2,3) [OF assms]] strip_brackets_host(2) [OF chars(2,3) ne]
    by (simp add: V6 show_address_def)
qed

lemma authority_line: "1 \<le> port \<Longrightarrow> port \<le> 65535 \<Longrightarrow> list_all line_char (authority (show_address a) port)"
proof -
  assume p: "1 \<le> port" "port \<le> 65535"
  have digit: "line_char c" if "is_ascii_digit c" for c using hex_chars digit_hex that by blast
  have "line_char c" if "c \<in> set (show_address a)" for c
    using that show_ipv4_chars show_ipv6_chars hex_chars digit
    by (cases a) (fastforce simp: show_address_def line_char_def ord_of_def)+
  moreover have "list_all line_char (show_int port)" using show_int_port(2) [OF p] digit by (simp add: list_all_iff)
  moreover have "list_all line_char ''[]:''" by code_simp
  ultimately show ?thesis by (auto simp: authority_def list_all_iff)
qed

section \<open>The conversation\<close>

definition connect_lines :: "ip_address \<Rightarrow> int \<Rightarrow> string \<Rightarrow> string \<Rightarrow> string list" where
  "connect_lines a port user pass =
     [''CONNECT '' @ authority (show_address a) port @ '' HTTP/1.1'', ''Host: '' @ authority (show_address a) port]
     @ (if user \<noteq> [] then [''Proxy-Authorization: Basic '' @ b64encode (utf8 (user @ '':'' @ pass))] else [])"

lemma connect_request_lines:
  assumes "text_of device ''network_host'' = show_address a"
  shows "connect_request connector device = concat (map (\<lambda>l. l @ crlf_text)
     (connect_lines a (number_of device ''port'') (truthy_text connector ''username'') (text_of connector ''password''))) @ crlf_text"
  using assms by (simp add: connect_request_def connect_lines_def Let_def)

lemma ascii_crlf: "ascii crlf_text = crlf_bytes"
  by (simp add: ascii_def crlf_text_def crlf_bytes_def ord_of_def)

lemma ascii_lines: "ascii (concat (map (\<lambda>l. l @ crlf_text) ls) @ crlf_text) = concat (map (\<lambda>l. l @ crlf_bytes) (map ascii ls)) @ crlf_bytes"
  by (induction ls) (simp_all add: ascii_crlf)

lemma text_lines_concat: "\<forall>l \<in> set ls. list_all line_char l \<Longrightarrow>
    text_lines (concat (map (\<lambda>l. l @ crlf_text) ls) @ crlf_text) = ls @ [[], []]"
proof (induction ls)
  case Nil
  then show ?case by (simp add: crlf_text_def)
qed (simp add: text_lines_plain)

text \<open>A message of such lines is read as a whole and decoded to its lines.\<close>

lemma message_collected:
  assumes "\<forall>l \<in> set ls. l \<noteq> [] \<and> list_all line_char l" and "ls \<noteq> []"
    and "message = concat (map (\<lambda>l. l @ crlf_text) ls) @ crlf_text" and "length message \<le> 8192"
  shows "steps in_time (receive_until [13, 10, 13, 10] 8192 []) (Data (ascii message) # as) (ascii message) [] as"
    and "steps peer_ready (until [13, 10, 13, 10] 8192 []) (Data (ascii message) # as) (ascii message) [] as"
    and "decode_ascii (ascii message) = Some message" and "text_lines message = ls @ [[], []]"
proof -
  have ls: "\<forall>l \<in> set (map ascii ls). l \<noteq> [] \<and> 13 \<notin> set l" using assms(1) line_char_byte by (auto simp: ascii_def)
  have m: "ascii message = concat (map (\<lambda>l. l @ crlf_bytes) (map ascii ls)) @ crlf_bytes" unfolding assms(3) by (rule ascii_lines)
  have mark: "crlf_bytes @ crlf_bytes = [13, 10, 13, 10]" by (simp add: crlf_bytes_def)
  note blank = first_blank_line [OF ls m, unfolded mark]
  have "ascii message \<noteq> []" unfolding m by (simp add: crlf_bytes_def)
  then have d: "Data (ascii message) # as = rest_of (ascii message) as" by (simp add: rest_of_def)
  show "steps in_time (receive_until [13, 10, 13, 10] 8192 []) (Data (ascii message) # as) (ascii message) [] as"
    unfolding d using gateway_marks.collect_steps [of "[13, 10, 13, 10]" "[]" "ascii message" 8192 as] blank assms(2,4) by simp
  show "steps peer_ready (until [13, 10, 13, 10] 8192 []) (Data (ascii message) # as) (ascii message) [] as"
    unfolding d using peer_marks.collect_steps [of "[13, 10, 13, 10]" "[]" "ascii message" 8192 as] blank assms(2,4) by simp
  have "\<forall>c \<in> set message. ord_of c < 128"
    using assms(1) unfolding assms(3) by (auto simp: list_all_iff line_char_def crlf_text_def ord_of_def)
  then show "decode_ascii (ascii message) = Some message" by (rule decode_ascii_ascii)
  show "text_lines message = ls @ [[], []]" unfolding assms(3) using assms(1) by (intro text_lines_concat) simp
qed

definition granted_message :: string where
  "granted_message = ''HTTP/1.1 200 Connection Established'' @ crlf_text @ crlf_text"

lemma granted_reply: "status_line ''200 Connection Established'' = ascii granted_message" "connect_response (ascii granted_message) = Inr ()"
  "length granted_message \<le> 8192"
  by (code_simp, code_simp, simp add: granted_message_def crlf_text_def)

lemma gateway_connect:
  "steps in_time (http_connect connector device) [Data (ascii granted_message)] () [ascii (connect_request connector device)] []"
proof -
  have line: "list_all line_char ''HTTP/1.1 200 Connection Established''" by code_simp
  have read: "steps in_time (receive_until [13, 10, 13, 10] 8192 []) [Data (ascii granted_message)] (ascii granted_message) [] []"
    by (rule message_collected(1) [of "[''HTTP/1.1 200 Connection Established'']"])
      (use line granted_reply(3) in \<open>simp_all add: granted_message_def\<close>)
  have ok: "steps in_time (liftW (connect_response (ascii granted_message))) [] () [] []"
    unfolding granted_reply(2) by (simp add: steps_def)
  show ?thesis
    unfolding http_connect_def
    by (rule steps_bindI, rule send_steps, rule steps_bindI, rule read, rule ok) simp_all
qed

lemma connect_lines_ok:
  assumes "1 \<le> port" and "port \<le> 65535"
  shows "\<forall>l \<in> set (connect_lines a port user pass). l \<noteq> [] \<and> list_all line_char l"
proof -
  have "list_all line_char ''CONNECT ''" "list_all line_char '' HTTP/1.1''" "list_all line_char ''Host: ''"
    "list_all line_char ''Proxy-Authorization: Basic ''" by code_simp+
  then show ?thesis using authority_line [OF assms, of a] b64_line by (auto simp: connect_lines_def)
qed

lemma connect_headers:
  "those (map split_header (filter (\<lambda>l. l \<noteq> []) (tl (connect_lines a port user pass @ [[], []])))) =
     Some ((''Host'', authority (show_address a) port)
       # (if user \<noteq> [] then [(''Proxy-Authorization'', ''Basic '' @ b64encode (utf8 (user @ '':'' @ pass)))] else []))"
  by (simp add: connect_lines_def)

lemma connect_granted_steps:
  assumes "is_loopback a" and "1 \<le> port" and "port \<le> 65535" and "reach (show_address a, port)"
    and "\<not> pp_deny c" and "\<not> pp_malformed c" and "strip_brackets host = show_address a"
  shows "steps peer_ready (connect_granted reach c host (show_int port)) as (Some (show_address a, port)) [ascii granted_message] as"
proof -
  have dial: "steps peer_ready (or_answer (bindW (decoded (parse_int (show_int port))) (peer_destination reach (strip_brackets host)))
      (status_line ''502 Bad Gateway'')) as (Some (show_address a, port)) [] as"
  proof (rule or_answer_steps, rule steps_bindI)
    show "steps peer_ready (decoded (parse_int (show_int port))) as port [] as"
      by (rule decoded_steps) (rule show_int_port [OF assms(2,3)])
    show "steps peer_ready (peer_destination reach (strip_brackets host) port) as (show_address a, port) [] as"
      unfolding assms(7) by (rule destination_steps [of a port reach, OF assms(1-4)])
  qed simp
  have say: "steps peer_ready (bindW (say (ascii granted_message)) (\<lambda>_. returnW (Some (show_address a, port)))) as
      (Some (show_address a, port)) [ascii granted_message] as"
    by (rule steps_bindI, rule say_steps, rule steps_return) simp
  have flags: "pp_malformed c = False" "pp_deny c = False" using assms(5,6) by simp_all
  show ?thesis
    unfolding connect_granted_def flags if_False granted_reply(1)
    by (rule steps_bindI, rule dial, unfold option.case, rule say) simp
qed

text \<open>
  C27. The HTTP CONNECT handshake of the gateway and the HTTP CONNECT peer
  understand each other: with the same credentials, whatever characters they consist of, a request
  within the size limit and a loopback destination that accepts connections, there is a conversation
  in which the gateway reports success and the peer goes on to relay to exactly that destination.
\<close>

theorem connect_handshakes_meet:
  assumes "pp_username c = Some (truthy_text connector ''username'')" and "pp_password c = Some (text_of connector ''password'')"
    and "\<not> pp_deny c" and "\<not> pp_malformed c"
    and "length (connect_request connector device) \<le> 8192"
    and "text_of device ''network_host'' = show_address a" and "is_loopback a"
    and "1 \<le> number_of device ''port''" and "number_of device ''port'' \<le> 65535"
    and "reach (show_address a, number_of device ''port'')"
  shows "\<exists>questions replies. steps in_time (http_connect connector device) (map Data replies) () questions []
     \<and> steps peer_ready (connect_peer reach c) (map Data questions) (Some (show_address a, number_of device ''port'')) replies []"
proof -
  let ?user = "truthy_text connector ''username''" and ?pass = "text_of connector ''password''" and ?port = "number_of device ''port''"
  let ?message = "connect_request connector device" and ?lines = "connect_lines a ?port ?user ?pass"
  obtain host where t: "connect_target (''CONNECT '' @ authority (show_address a) ?port @ '' HTTP/1.1'') = Some (host, show_int ?port)"
    and h: "strip_brackets host = show_address a" using authority_read [OF assms(8,9)] by blast
  have "?lines \<noteq> []" by (simp add: connect_lines_def)
  note collected = message_collected [OF connect_lines_ok [OF assms(8,9)] this connect_request_lines [OF assms(6)] assms(5)]
  have target: "connect_target (hd (text_lines ?message)) = Some (host, show_int ?port)"
    unfolding collected(4) using t by (simp add: connect_lines_def)
  have accepted_login: "(wants_login c \<and> map_of (rev ((''Host'', authority (show_address a) ?port)
      # (if ?user \<noteq> [] then [(''Proxy-Authorization'', ''Basic '' @ b64encode (utf8 (?user @ '':'' @ ?pass)))] else [])))
      ''Proxy-Authorization'' \<noteq> Some (expected_login c)) = False"
    using assms(1,2) by (cases ?user) (simp_all add: wants_login_def expected_login_def)
  have grant: "steps peer_ready (connect_granted reach c host (show_int ?port)) [] (Some (show_address a, ?port)) [ascii granted_message] []"
    by (rule connect_granted_steps [of a ?port reach, OF assms(7-10,3,4) h])
  have "steps peer_ready (connect_peer reach c) [Data (ascii ?message)] (Some (show_address a, ?port)) [ascii granted_message] []"
    unfolding connect_peer_def
    by (rule steps_bindI, rule collected(2), rule steps_bindI, rule decoded_steps, rule collected(3),
        unfold Let_def target option.case prod.case, rule steps_bindI, rule decoded_steps,
        unfold collected(4), rule connect_headers, unfold accepted_login if_False, rule grant) simp_all
  then show ?thesis
    using gateway_connect [of connector device]
    by (intro exI [of _ "[ascii ?message]"] exI [of _ "[ascii granted_message]"]) simp
qed

section \<open>Witnesses\<close>

definition sample_connector :: dict where
  "sample_connector = [(''username'', JStr ''u''), (''password'', JStr ''p''), (''type'', JStr ''socks5'')]"

definition sample_destination :: dict where
  "sample_destination = [(''network_host'', JStr ''127.0.0.1''), (''port'', JInt 22)]"

definition sample_proxy :: proxy_peer where
  "sample_proxy = \<lparr>pp_username = Some ''u'', pp_password = Some ''p'', pp_deny = False, pp_malformed = False\<rparr>"

lemma sample_texts_agree:
  "pp_username sample_proxy = Some (truthy_text sample_connector ''username'')"
  "pp_password sample_proxy = Some (text_of sample_connector ''password'')"
  "text_of sample_destination ''network_host'' = show_address (V4 0x7F000001)"
  "is_loopback (V4 0x7F000001)" "number_of sample_destination ''port'' = 22"
  "length (utf8 (truthy_text sample_connector ''username'')) = 1" "length (utf8 (text_of sample_connector ''password'')) = 1"
  by code_simp+

theorem socks_handshakes_meet_witness:
  "\<exists>questions replies. steps in_time (socks5 sample_connector sample_destination) (map Data replies) () questions []
     \<and> steps peer_ready (socks_peer (\<lambda>t. True) sample_proxy) (map Data questions) (Some (''127.0.0.1'', 22)) replies []"
proof -
  have "show_address (V4 0x7F000001) = ''127.0.0.1''" by code_simp
  then show ?thesis
    using socks_handshakes_meet [of sample_proxy sample_connector sample_destination "V4 0x7F000001" "\<lambda>t. True"] sample_texts_agree
    by (simp add: sample_proxy_def)
qed

theorem connect_handshakes_meet_witness:
  "\<exists>questions replies. steps in_time (http_connect sample_connector sample_destination) (map Data replies) () questions []
     \<and> steps peer_ready (connect_peer (\<lambda>t. True) sample_proxy) (map Data questions) (Some (''127.0.0.1'', 22)) replies []"
proof -
  have "show_address (V4 0x7F000001) = ''127.0.0.1''" by code_simp
  moreover have "length (connect_request sample_connector sample_destination) = 86" by code_simp
  ultimately show ?thesis
    using connect_handshakes_meet [of sample_proxy sample_connector sample_destination "V4 0x7F000001" "\<lambda>t. True"] sample_texts_agree
    by (simp add: sample_proxy_def)
qed

end
