(* ===== verification/DeviceClients.thy ===== *)
theory DeviceClients
  imports Factories Telnet
begin

text \<open>
  The clients of the legacy device routes: \<open>app/dal/device/base_client.py\<close> with its vendor
  subclasses \<open>nccclient_*.py\<close>, \<open>app/dal/proxy/proxy_client.py\<close>, and the two controllers that run
  them, \<open>app/api/routes/legacy/device_controller.py\<close> and \<open>router_controller.py\<close>. The libraries
  \<open>ncclient\<close> and \<open>paramiko\<close> are outside: every call on them is an event of a history, and whether it
  succeeds and what it returns is an argument of the model. The Telnet client is the one of
  \<open>Telnet\<close>.
\<close>

section \<open>Calls on the libraries\<close>

text \<open>
  A login: where it goes, with which credentials, whether over a channel of a proxy, the timeout,
  and whether a host with an unknown key is refused.
\<close>

record login =
  lg_host :: string
  lg_port :: int
  lg_username :: string
  lg_password :: string
  lg_channel :: bool
  lg_timeout :: "int option"
  lg_verify :: bool

datatype device_call =
    ProxyCreate | ProxyLogin login | ProxyTransport
  | OpenChannel "string \<times> int" "string \<times> int" | ProxyClose
  | NetconfConnect login "string option" | NetconfGetConfig string | NetconfEdit string string
  | NetconfGet "string option" | NetconfClose
  | SshCreate | LoadHostKeys string | SshConnect login | SshTransport | SshExec string int | SshClose

type_synonym call_history = "(device_call \<times> bool) list"

text \<open>
  What a request finds: the settings of the environment, the conversions of Python, how the
  libraries answer a call after a history (an exception with its text, or a text), the bytes a
  command prints, and the two databases.
\<close>

record legacy_env =
  le_setting :: "string \<Rightarrow> string option"
  le_services :: services
  le_float :: "string \<Rightarrow> pyfloat option"
  le_utf8_ignore :: "bytes \<Rightarrow> string"
  le_responds :: "call_history \<Rightarrow> device_call \<Rightarrow> string + string"
  le_prints :: "call_history \<Rightarrow> string \<Rightarrow> bytes"
  le_metadata :: metadata_db
  le_store :: store

text \<open>
  The world of a client: the calls so far with their success, the three references that may be
  \<open>None\<close> (\<open>ProxyClient.ssh_client\<close>, \<open>session\<close> and \<open>ssh_client\<close>), and the socket of a Telnet client.
\<close>

record outside =
  calls :: call_history
  proxy_ssh :: bool
  nc_session :: bool
  ssh_client :: bool
  telnet_line :: telnet

text \<open>
  Exceptions: of the factories, of the clients (with the exception they quote), of the Telnet
  client, a setting that is missing, and what a library raises.
\<close>

datatype device_error =
    Mapping gateway_error
  | NetconfConnectFailed device_error | SshConnectFailed device_error
  | ProxyConnectFailed device_error | ChannelFailed device_error
  | NoProxyTransport | NoNetconfSession | NoSshSession | SshNotActive
  | TelnetRaised telnet_error | MissingSetting string | Foreign string

type_synonym 'a device_io = "(outside, device_error, 'a) io"

definition ask :: "legacy_env \<Rightarrow> device_call \<Rightarrow> string device_io" where
  "ask env c w = (case le_responds env (calls w) c of
      Inl m \<Rightarrow> (Inl (Foreign m), w\<lparr>calls := calls w @ [(c, False)]\<rparr>)
    | Inr t \<Rightarrow> (Inr t, w\<lparr>calls := calls w @ [(c, True)]\<rparr>))"

text \<open>An object is created: this never fails.\<close>

definition create :: "device_call \<Rightarrow> unit device_io" where
  "create c w = (Inr (), w\<lparr>calls := calls w @ [(c, True)]\<rparr>)"

definition set_proxy_ssh :: "bool \<Rightarrow> unit device_io" where
  "set_proxy_ssh b w = (Inr (), w\<lparr>proxy_ssh := b\<rparr>)"

definition set_session :: "bool \<Rightarrow> unit device_io" where
  "set_session b w = (Inr (), w\<lparr>nc_session := b\<rparr>)"

definition set_ssh :: "bool \<Rightarrow> unit device_io" where
  "set_ssh b w = (Inr (), w\<lparr>ssh_client := b\<rparr>)"

definition testW :: "('w \<Rightarrow> bool) \<Rightarrow> ('w, 'e, 'a) io \<Rightarrow> ('w, 'e, 'a) io \<Rightarrow> ('w, 'e, 'a) io" where
  "testW p m k w = (if p w then m w else k w)"

section \<open>Settings\<close>

definition setting_or :: "legacy_env \<Rightarrow> string \<Rightarrow> string \<Rightarrow> string" where
  "setting_or env name initial = (case le_setting env name of Some s \<Rightarrow> s | None \<Rightarrow> initial)"

definition required_setting :: "legacy_env \<Rightarrow> string \<Rightarrow> device_error + string" where
  "required_setting env name = (case le_setting env name of Some s \<Rightarrow> Inr s | None \<Rightarrow> Inl (MissingSetting name))"

definition truthy_values :: "string list" where
  "truthy_values = [''1'', ''true'', ''yes'', ''on'']"

definition netconf_hostkey_verify :: "legacy_env \<Rightarrow> bool" where
  "netconf_hostkey_verify env =
     (lower (setting_or env ''ROUTER_NETCONF_HOSTKEY_VERIFY'' ''true'') \<in> set truthy_values)"

text \<open>A path that is blank counts as missing.\<close>

definition path_setting :: "legacy_env \<Rightarrow> string \<Rightarrow> string option" where
  "path_setting env name = (let path = strip (setting_or env name []) in if path = [] then None else Some path)"

definition ssh_config_path :: "legacy_env \<Rightarrow> string option" where
  "ssh_config_path env = path_setting env ''ROUTER_SSH_CONFIG_PATH''"

definition connect_timeout :: "legacy_env \<Rightarrow> int" where
  "connect_timeout env = (case py_int (JStr (setting_or env ''ROUTER_CONNECT_TIMEOUT'' ''10'')) of
      Inr n \<Rightarrow> n | Inl _ \<Rightarrow> 10)"

section \<open>The proxy client\<close>

definition proxy_port :: int where
  "proxy_port = 22"

definition proxy_login :: "string \<Rightarrow> string \<Rightarrow> string \<Rightarrow> login" where
  "proxy_login host username password = \<lparr>lg_host = host, lg_port = proxy_port, lg_username = username,
     lg_password = password, lg_channel = False, lg_timeout = None, lg_verify = False\<rparr>"

text \<open>\<open>ProxyClient(proxy_host)\<close>: no SSH client yet.\<close>

definition proxy_new :: "unit device_io" where
  "proxy_new = set_proxy_ssh False"

text \<open>\<open>connect\<close>: unknown host keys are added (\<open>AutoAddPolicy\<close>).\<close>

definition proxy_connect :: "legacy_env \<Rightarrow> string \<Rightarrow> unit device_io" where
  "proxy_connect env host = catchW
     (bindW (create ProxyCreate) (\<lambda>_.
      bindW (set_proxy_ssh True) (\<lambda>_.
      bindW (liftW (required_setting env ''PROXY_USERNAME'')) (\<lambda>username.
      bindW (liftW (required_setting env ''PROXY_PASSWORD'')) (\<lambda>password.
      bindW (ask env (ProxyLogin (proxy_login host username password))) (\<lambda>_. returnW ()))))))
     (\<lambda>e. raiseW (ProxyConnectFailed e))"

definition proxy_transport :: "legacy_env \<Rightarrow> unit device_io" where
  "proxy_transport env = catchW (bindW (ask env ProxyTransport) (\<lambda>_. returnW ())) (\<lambda>_. raiseW NoProxyTransport)"

definition proxy_get_channel :: "legacy_env \<Rightarrow> string \<Rightarrow> string \<times> int \<Rightarrow> unit device_io" where
  "proxy_get_channel env host dest = catchW
     (bindW (testW proxy_ssh (returnW ()) (proxy_connect env host)) (\<lambda>_.
      bindW (proxy_transport env) (\<lambda>_.
      bindW (ask env (OpenChannel dest (host, proxy_port))) (\<lambda>_. returnW ()))))
     (\<lambda>e. raiseW (ChannelFailed e))"

text \<open>\<open>close\<close>: an exception is logged, the reference goes either way.\<close>

definition proxy_close :: "legacy_env \<Rightarrow> unit device_io" where
  "proxy_close env = testW proxy_ssh
     (bindW (catchW (bindW (ask env ProxyClose) (\<lambda>_. returnW ())) (\<lambda>_. returnW ())) (\<lambda>_. set_proxy_ssh False))
     (returnW ())"

section \<open>The NETCONF and SSH client\<close>

record ncc_client =
  nc_class :: string
  nc_host :: string
  nc_info :: dict
  nc_port :: int
  nc_ssh_port :: int

text \<open>\<open>_safe_port\<close>: only an infinite number escapes, as an \<open>OverflowError\<close>.\<close>

definition ncc_safe_port :: "json \<Rightarrow> int \<Rightarrow> int option" where
  "ncc_safe_port v initial = (if v = JNull then Some initial else case py_int v of
      Inr n \<Rightarrow> Some n | Inl TooLarge \<Rightarrow> None | Inl _ \<Rightarrow> Some initial)"

definition ncc_new :: "client_handle \<Rightarrow> ncc_client option" where
  "ncc_new h =
     (case (ncc_safe_port (dget (cl_router_info h) ''netconf_port'') 830,
            ncc_safe_port (dget (cl_router_info h) ''ssh_port'') 22) of
        (Some port, Some ssh) \<Rightarrow> Some \<lparr>nc_class = cl_class h, nc_host = cl_host h, nc_info = cl_router_info h,
           nc_port = port, nc_ssh_port = ssh\<rparr>
      | _ \<Rightarrow> None)"

definition ncc_credential :: "legacy_env \<Rightarrow> dict \<Rightarrow> string \<Rightarrow> string \<Rightarrow> device_error + string" where
  "ncc_credential env info column name = (if truthy (dget info column)
     then Inr (py_str (le_services env) (dget info column)) else required_setting env name)"

definition ncc_credentials :: "legacy_env \<Rightarrow> dict \<Rightarrow> device_error + (string \<times> string)" where
  "ncc_credentials env info =
     bindE (ncc_credential env info ''username'' ''ROUTER_USERNAME'') (\<lambda>username.
     bindE (ncc_credential env info ''password'' ''ROUTER_PASSWORD'') (\<lambda>password.
     Inr (username, password)))"

text \<open>\<open>sock = proxy.get_channel(host, port) if proxy else None\<close>: whether there is a socket.\<close>

definition ncc_channel :: "legacy_env \<Rightarrow> ncc_client \<Rightarrow> int \<Rightarrow> bool device_io" where
  "ncc_channel env c port =
     (case get_proxy (le_services env) (le_store env) (nc_info c) of
        Inl e \<Rightarrow> raiseW (Mapping e)
      | Inr None \<Rightarrow> returnW False
      | Inr (Some host) \<Rightarrow> bindW proxy_new (\<lambda>_.
          bindW (proxy_get_channel env host (nc_host c, port)) (\<lambda>_. returnW True)))"

definition ncc_login :: "legacy_env \<Rightarrow> ncc_client \<Rightarrow> int \<Rightarrow> bool \<Rightarrow> bool \<Rightarrow> string \<times> string \<Rightarrow> login" where
  "ncc_login env c port verify channel auth = \<lparr>lg_host = nc_host c, lg_port = port, lg_username = fst auth,
     lg_password = snd auth, lg_channel = channel, lg_timeout = Some (connect_timeout env), lg_verify = verify\<rparr>"

definition ncc_connect :: "legacy_env \<Rightarrow> ncc_client \<Rightarrow> unit device_io" where
  "ncc_connect env c = testW nc_session (returnW ()) (catchW
     (bindW (ncc_channel env c (nc_port c)) (\<lambda>channel.
      bindW (liftW (ncc_credentials env (nc_info c))) (\<lambda>auth.
      bindW (ask env (NetconfConnect (ncc_login env c (nc_port c) (netconf_hostkey_verify env) channel auth)
          (ssh_config_path env))) (\<lambda>_.
      set_session True))))
     (\<lambda>e. raiseW (NetconfConnectFailed e)))"

definition ncc_close :: "legacy_env \<Rightarrow> unit device_io" where
  "ncc_close env = testW nc_session (bindW (ask env NetconfClose) (\<lambda>_. set_session False)) (returnW ())"

definition ncc_known_hosts :: "legacy_env \<Rightarrow> unit device_io" where
  "ncc_known_hosts env = (case path_setting env ''ROUTER_KNOWN_HOSTS_PATH'' of
      Some path \<Rightarrow> bindW (ask env (LoadHostKeys path)) (\<lambda>_. returnW ()) | None \<Rightarrow> returnW ())"

text \<open>\<open>_connect_ssh\<close>: the client is kept even when a later call fails; unknown keys are refused.\<close>

definition ncc_connect_ssh :: "legacy_env \<Rightarrow> ncc_client \<Rightarrow> unit device_io" where
  "ncc_connect_ssh env c = testW ssh_client (returnW ()) (catchW
     (bindW (create SshCreate) (\<lambda>_.
      bindW (set_ssh True) (\<lambda>_.
      bindW (ncc_known_hosts env) (\<lambda>_.
      bindW (ncc_channel env c (nc_ssh_port c)) (\<lambda>channel.
      bindW (liftW (ncc_credentials env (nc_info c))) (\<lambda>auth.
      bindW (ask env (SshConnect (ncc_login env c (nc_ssh_port c) True channel auth))) (\<lambda>_. returnW ())))))))
     (\<lambda>e. raiseW (SshConnectFailed e)))"

definition ncc_close_ssh :: "legacy_env \<Rightarrow> unit device_io" where
  "ncc_close_ssh env = testW ssh_client (bindW (ask env SshClose) (\<lambda>_. set_ssh False)) (returnW ())"

definition ncc_cleanup :: "legacy_env \<Rightarrow> unit device_io" where
  "ncc_cleanup env = bindW (ncc_close env) (\<lambda>_. ncc_close_ssh env)"

definition execute_ssh_command :: "legacy_env \<Rightarrow> ncc_client \<Rightarrow> string \<Rightarrow> string device_io" where
  "execute_ssh_command env c command =
     bindW (ncc_connect_ssh env c) (\<lambda>_.
     bindW (testW ssh_client (returnW ()) (raiseW NoSshSession)) (\<lambda>_.
     bindW (catchW (ask env SshTransport) (\<lambda>_. raiseW SshNotActive)) (\<lambda>_.
     (\<lambda>w. bindW (ask env (SshExec command (connect_timeout env)))
        (\<lambda>_. returnW (le_utf8_ignore env (le_prints env (calls w) command))) w))))"

text \<open>The NETCONF operations: connect, then one request.\<close>

definition netconf_request :: "legacy_env \<Rightarrow> ncc_client \<Rightarrow> device_call \<Rightarrow> string device_io" where
  "netconf_request env c request =
     bindW (ncc_connect env c) (\<lambda>_.
     bindW (testW nc_session (returnW ()) (raiseW NoNetconfSession)) (\<lambda>_.
     ask env request))"

definition ncc_get_config :: "legacy_env \<Rightarrow> ncc_client \<Rightarrow> string device_io" where
  "ncc_get_config env c = netconf_request env c (NetconfGetConfig ''running'')"

definition ncc_set_config :: "legacy_env \<Rightarrow> ncc_client \<Rightarrow> string \<Rightarrow> dict device_io" where
  "ncc_set_config env c config_data = bindW (netconf_request env c (NetconfEdit ''running'' config_data))
     (\<lambda>xml. returnW [(''status'', JStr ''ok''), (''reply'', JStr xml)])"

definition ncc_get_operational_state :: "legacy_env \<Rightarrow> ncc_client \<Rightarrow> string device_io" where
  "ncc_get_operational_state env c = netconf_request env c (NetconfGet None)"

definition bgp_filter :: "legacy_env \<Rightarrow> dict \<Rightarrow> string" where
  "bgp_filter env info = ''<bgp xmlns='' @ [CHR 0x27]
     @ py_str (le_services env) (dget_or info ''bgp_namespace'' (JStr ''http://openconfig.net/yang/bgp''))
     @ [CHR 0x27] @ ''/>''"

definition ncc_get_bgp :: "legacy_env \<Rightarrow> ncc_client \<Rightarrow> string device_io" where
  "ncc_get_bgp env c = netconf_request env c (NetconfGet (Some (bgp_filter env (nc_info c))))"

text \<open>\<open>get_show_interface_command\<close>, with the overrides of the vendors.\<close>

definition base_show_command :: "string \<Rightarrow> string" where
  "base_show_command name = (if name \<noteq> [] then ''show interface '' @ name else ''show interfaces'')"

definition alcatel_show_command :: "string \<Rightarrow> string" where
  "alcatel_show_command name = (if name \<noteq> [] then ''show router interface '' @ name else ''show router interface'')"

definition juniper_show_command :: "string \<Rightarrow> string" where
  "juniper_show_command name = (if name \<noteq> [] then ''show interfaces '' @ name else ''show interfaces terse'')"

definition ncc_show_command :: "string \<Rightarrow> string \<Rightarrow> string" where
  "ncc_show_command class_name name =
     (if class_name = ''AlcatelNCCClient'' then alcatel_show_command name
      else if class_name = ''JuniperNCCClient'' then juniper_show_command name
      else base_show_command name)"

definition ncc_show_interface :: "legacy_env \<Rightarrow> ncc_client \<Rightarrow> string option \<Rightarrow> dict device_io" where
  "ncc_show_interface env c interface_name =
     (let command = ncc_show_command (nc_class c) (case interface_name of Some n \<Rightarrow> n | None \<Rightarrow> []) in
      bindW (execute_ssh_command env c command) (\<lambda>output.
      returnW [(''command'', JStr command), (''output'', JStr output)]))"

section \<open>One operation of a client\<close>

datatype device_op =
    ShowInterface "string option" | GetConfig | SetConfig string | GetOperationalState
  | ConfigureInterface string string | GetBgp | SetBgp string | ConfigureFirewall string

definition ncc_perform :: "legacy_env \<Rightarrow> ncc_client \<Rightarrow> device_op \<Rightarrow> json device_io" where
  "ncc_perform env c op = (case op of
      ShowInterface n \<Rightarrow> bindW (ncc_show_interface env c n) (\<lambda>d. returnW (JObj d))
    | GetConfig \<Rightarrow> bindW (ncc_get_config env c) (\<lambda>s. returnW (JStr s))
    | SetConfig x \<Rightarrow> bindW (ncc_set_config env c x) (\<lambda>d. returnW (JObj d))
    | GetOperationalState \<Rightarrow> bindW (ncc_get_operational_state env c) (\<lambda>s. returnW (JStr s))
    | ConfigureInterface _ x \<Rightarrow> bindW (ncc_set_config env c x) (\<lambda>d. returnW (JObj d))
    | GetBgp \<Rightarrow> bindW (ncc_get_bgp env c) (\<lambda>s. returnW (JStr s))
    | SetBgp x \<Rightarrow> bindW (ncc_set_config env c x) (\<lambda>d. returnW (JObj d))
    | ConfigureFirewall x \<Rightarrow> bindW (ncc_set_config env c x) (\<lambda>d. returnW (JObj d)))"

text \<open>The Telnet client runs on its own stream.\<close>

definition on_line :: "'a telnet_call \<Rightarrow> 'a device_io" where
  "on_line m w = (case m (telnet_line w) of
      (Inl e, t) \<Rightarrow> (Inl (TelnetRaised e), w\<lparr>telnet_line := t\<rparr>)
    | (Inr x, t) \<Rightarrow> (Inr x, w\<lparr>telnet_line := t\<rparr>))"

definition op_name :: "device_op \<Rightarrow> string" where
  "op_name op = (case op of ShowInterface _ \<Rightarrow> ''show_interface'' | GetConfig \<Rightarrow> ''get_config''
     | SetConfig _ \<Rightarrow> ''set_config'' | GetOperationalState \<Rightarrow> ''get_operational_state''
     | ConfigureInterface _ _ \<Rightarrow> ''configure_interface'' | GetBgp \<Rightarrow> ''get_bgp'' | SetBgp _ \<Rightarrow> ''set_bgp''
     | ConfigureFirewall _ \<Rightarrow> ''configure_firewall'')"

definition telnet_perform :: "telnet_client \<Rightarrow> device_op \<Rightarrow> json device_io" where
  "telnet_perform c op = on_line (case op of
      ShowInterface n \<Rightarrow> bindW (show_interface c (case n of Some s \<Rightarrow> s | None \<Rightarrow> []))
        (\<lambda>d. returnW (JObj d))
    | _ \<Rightarrow> unsupported (op_name op))"

definition telnet_cleanup :: "unit device_io" where
  "telnet_cleanup = on_line tn_close"

datatype device_client = Ncc ncc_client | Telnet telnet_client

definition telnet_class :: string where
  "telnet_class = ''GenericTelnetNCCClient''"

definition telnet_new :: "legacy_env \<Rightarrow> client_handle \<Rightarrow> telnet_client option" where
  "telnet_new env h =
     (let c = \<lparr>router_info = cl_router_info h, setting = le_setting env, text_float = le_float env,
           to_text = le_services env, utf8_ignore = le_utf8_ignore env\<rparr> in
      case telnet_port c of Inr _ \<Rightarrow> Some c | Inl _ \<Rightarrow> None)"

text \<open>
  \<open>NCCClientFactory.get_client\<close> with the constructor it calls: an exception of a constructor is a
  mapping error as well.
\<close>

definition new_client :: "legacy_env \<Rightarrow> string \<Rightarrow> device_error + device_client" where
  "new_client env device =
     (case get_client (le_services env) (le_metadata env) (le_store env) device of
        Inl e \<Rightarrow> Inl (Mapping e)
      | Inr h \<Rightarrow> (case (if cl_class h = telnet_class then map_option Telnet (telnet_new env h)
            else map_option Ncc (ncc_new h)) of
          Some c \<Rightarrow> Inr c | None \<Rightarrow> Inl (Mapping ClientMappingError)))"

text \<open>A new client object holds nothing.\<close>

definition new_references :: "outside \<Rightarrow> outside" where
  "new_references w = w\<lparr>nc_session := False, ssh_client := False,
     telnet_line := (telnet_line w)\<lparr>socket_open := False, session_negotiator := None, authenticated := False\<rparr>\<rparr>"

definition client_perform :: "legacy_env \<Rightarrow> device_client \<Rightarrow> device_op \<Rightarrow> json device_io" where
  "client_perform env client op = (case client of
      Ncc c \<Rightarrow> ncc_perform env c op | Telnet c \<Rightarrow> telnet_perform c op)"

definition client_cleanup :: "legacy_env \<Rightarrow> device_client \<Rightarrow> unit device_io" where
  "client_cleanup env client = (case client of Ncc _ \<Rightarrow> ncc_cleanup env | Telnet _ \<Rightarrow> telnet_cleanup)"

section \<open>The controllers\<close>

text \<open>The value of a route, an \<open>HTTPException\<close> with the text of an exception, or an exception.\<close>

datatype device_answer = Given json | Failed nat device_error | Crashed device_error

definition is_gateway_error :: "device_error \<Rightarrow> bool" where
  "is_gateway_error e = (case e of
      MissingSetting _ \<Rightarrow> False | Foreign _ \<Rightarrow> False
    | TelnetRaised (TelnetReadError _ _) \<Rightarrow> True | TelnetRaised (TelnetGatewayError _) \<Rightarrow> True
    | TelnetRaised _ \<Rightarrow> False | _ \<Rightarrow> True)"

definition device_status :: "device_error \<Rightarrow> nat" where
  "device_status e = (if e = Mapping DeviceNotFoundError then 404
     else if e = Mapping ClientMappingError then 400
     else if is_gateway_error e then 502 else 500)"

text \<open>What the actions of the two controllers make of the value of a client.\<close>

definition device_value :: "device_op \<Rightarrow> json \<Rightarrow> json" where
  "device_value op v = (case op of
      GetConfig \<Rightarrow> JObj [(''config'', v)] | GetBgp \<Rightarrow> JObj [(''bgp'', v)]
    | GetOperationalState \<Rightarrow> JObj [(''operational_state'', v)] | _ \<Rightarrow> v)"

text \<open>\<open>_run_for_device\<close>: the client is cleaned up whatever happened; an exception there escapes.\<close>

definition run_for_device :: "legacy_env \<Rightarrow> string \<Rightarrow> device_op \<Rightarrow> outside \<Rightarrow> device_answer \<times> outside" where
  "run_for_device env device op w = (case new_client env device of
      Inl e \<Rightarrow> (Failed (device_status e) e, w)
    | Inr client \<Rightarrow>
        (case client_perform env client op (new_references w) of (r, w1) \<Rightarrow>
          (case client_cleanup env client w1 of
             (Inl e, w2) \<Rightarrow> (Crashed e, w2)
           | (Inr _, w2) \<Rightarrow> (case r of
                Inl e \<Rightarrow> (Failed (device_status e) e, w2)
              | Inr v \<Rightarrow> (Given (device_value op v), w2)))))"

definition router_status :: "device_error \<Rightarrow> nat" where
  "router_status e = (if e = Mapping ConfigNotFoundError then 400 else device_status e)"

text \<open>\<open>get_config\<close> and \<open>get_operational_state\<close> of the router controller: no clean-up.\<close>

definition run_for_router :: "legacy_env \<Rightarrow> string \<Rightarrow> device_op \<Rightarrow> outside \<Rightarrow> device_answer \<times> outside" where
  "run_for_router env device op w = (case new_client env device of
      Inl e \<Rightarrow> (Failed (router_status e) e, w)
    | Inr client \<Rightarrow>
        (case client_perform env client op (new_references w) of
           (Inl e, w1) \<Rightarrow> (Failed (router_status e) e, w1)
         | (Inr v, w1) \<Rightarrow> (Given (device_value op v), w1)))"

end
