(* ===== verification/DeviceClientLaws.thy ===== *)
theory DeviceClientLaws
  imports DeviceClients
begin

text \<open>
  What the requests on the legacy device routes do on the outside. The lemmas follow every call of a
  client through the monad: a count of the sessions and SSH clients that were opened and not closed,
  and the set of calls an operation may make at all. The locale \<open>device_adapter\<close> states what
  \<open>_run_for_device\<close> relies on; both kinds of clients are instances.
\<close>

section \<open>Rules\<close>

text \<open>A program that, started in \<open>P\<close>, ends in \<open>Q\<close>, whether it returns or raises.\<close>

definition leads :: "('w \<Rightarrow> bool) \<Rightarrow> ('w, 'e, 'a) io \<Rightarrow> ('w \<Rightarrow> bool) \<Rightarrow> bool" where
  "leads P m Q \<longleftrightarrow> (\<forall>w r w'. P w \<longrightarrow> m w = (r, w') \<longrightarrow> Q w')"

lemma leadsI: "(\<And>w r w'. P w \<Longrightarrow> m w = (r, w') \<Longrightarrow> Q w') \<Longrightarrow> leads P m Q"
  by (auto simp: leads_def)

lemma leadsD: "leads P m Q \<Longrightarrow> P w \<Longrightarrow> m w = (r, w') \<Longrightarrow> Q w'"
  by (auto simp: leads_def)

lemma leads_bindW:
  assumes "keeps P m" and "\<And>w. P w \<Longrightarrow> Q w" and "\<And>x. leads P (f x) Q"
  shows "leads P (bindW m f) Q"
proof (rule leadsI)
  fix w r w' assume p: "P w" and b: "bindW m f w = (r, w')"
  from b show "Q w'"
  proof (cases rule: bindW_cases)
    case (raised e)
    then show ?thesis using assms(2) keepsD [OF assms(1) p] by simp
  next
    case (returned x w1)
    then show ?thesis using leadsD [OF assms(3) keepsD [OF assms(1) p]] by simp
  qed
qed

lemma leads_catchW:
  assumes "leads P m Q" and "\<And>e. keeps Q (h e)"
  shows "leads P (catchW m h) Q"
proof (rule leadsI)
  fix w r w' assume p: "P w" and b: "catchW m h w = (r, w')"
  from b show "Q w'"
  proof (cases rule: catchW_cases)
    case (returned x)
    then show ?thesis using leadsD [OF assms(1) p] by simp
  next
    case (handled e w1)
    then show ?thesis using keepsD [OF assms(2) leadsD [OF assms(1) p]] by simp
  qed
qed

lemma keeps_testW:
  assumes "leads (\<lambda>w. P w \<and> b w) m P" and "leads (\<lambda>w. P w \<and> \<not> b w) k P"
  shows "keeps P (testW b m k)"
proof (rule keepsI)
  fix w r w' assume p: "P w" and t: "testW b m k w = (r, w')"
  show "P w'"
  proof (cases "b w")
    case True
    then show ?thesis using leadsD [OF assms(1)] p t by (simp add: testW_def)
  next
    case False
    then show ?thesis using leadsD [OF assms(2)] p t by (simp add: testW_def)
  qed
qed

lemma leads_keeps: "keeps P m \<Longrightarrow> leads (\<lambda>w. P w \<and> b w) m P"
  by (auto simp: leads_def keeps_def)

text \<open>The calls a program may add to the history.\<close>

definition calls_only :: "(device_call \<Rightarrow> bool) \<Rightarrow> 'a device_io \<Rightarrow> bool" where
  "calls_only E m \<longleftrightarrow>
     (\<forall>w r w'. m w = (r, w') \<longrightarrow> (\<exists>new. calls w' = calls w @ new \<and> list_all (E \<circ> fst) new))"

named_theorems calls_rules \<open>introduction rules for the calls of a program\<close>

lemma calls_onlyI:
  "(\<And>w r w'. m w = (r, w') \<Longrightarrow> \<exists>new. calls w' = calls w @ new \<and> list_all (E \<circ> fst) new) \<Longrightarrow> calls_only E m"
  by (auto simp: calls_only_def)

lemma calls_onlyD:
  assumes "calls_only E m" and "m w = (r, w')"
  obtains new where "calls w' = calls w @ new" and "list_all (E \<circ> fst) new"
  using assms unfolding calls_only_def by blast

lemma calls_pure [calls_rules]:
  "calls_only E (returnW x)" "calls_only E (raiseW e)" "calls_only E (liftW r)"
  "calls_only E (set_proxy_ssh b)" "calls_only E (set_session b)" "calls_only E (set_ssh b)"
  by (auto simp: calls_only_def set_proxy_ssh_def set_session_def set_ssh_def)

lemma calls_ask [calls_rules]: "E c \<Longrightarrow> calls_only E (ask env c)" "E c \<Longrightarrow> calls_only E (create c)"
  by (auto simp: calls_only_def ask_def create_def split: sum.splits)

lemma calls_bindW_returned:
  assumes "calls_only E m" and "\<And>x w w1. m w = (Inr x, w1) \<Longrightarrow> calls_only E (f x)"
  shows "calls_only E (bindW m f)"
proof (rule calls_onlyI)
  fix w r w' assume "bindW m f w = (r, w')"
  then show "\<exists>new. calls w' = calls w @ new \<and> list_all (E \<circ> fst) new"
  proof (cases rule: bindW_cases)
    case (raised e)
    then show ?thesis using calls_onlyD [OF assms(1)] by metis
  next
    case (returned x w1)
    obtain n1 where "calls w1 = calls w @ n1" "list_all (E \<circ> fst) n1"
      using calls_onlyD [OF assms(1) returned(1)] .
    moreover obtain n2 where "calls w' = calls w1 @ n2" "list_all (E \<circ> fst) n2"
      using calls_onlyD [OF assms(2) [OF returned(1)] returned(2)] .
    ultimately show ?thesis by (intro exI [of _ "n1 @ n2"]) simp
  qed
qed

lemma calls_bindW [calls_rules]:
  "calls_only E m \<Longrightarrow> (\<And>x. calls_only E (f x)) \<Longrightarrow> calls_only E (bindW m f)"
  by (rule calls_bindW_returned)

lemma calls_catchW [calls_rules]:
  assumes "calls_only E m" and "\<And>e. calls_only E (h e)"
  shows "calls_only E (catchW m h)"
proof (rule calls_onlyI)
  fix w r w' assume "catchW m h w = (r, w')"
  then show "\<exists>new. calls w' = calls w @ new \<and> list_all (E \<circ> fst) new"
  proof (cases rule: catchW_cases)
    case (returned x)
    then show ?thesis using calls_onlyD [OF assms(1)] by metis
  next
    case (handled e w1)
    obtain n1 where "calls w1 = calls w @ n1" "list_all (E \<circ> fst) n1"
      using calls_onlyD [OF assms(1) handled(1)] .
    moreover obtain n2 where "calls w' = calls w1 @ n2" "list_all (E \<circ> fst) n2"
      using calls_onlyD [OF assms(2) handled(2)] .
    ultimately show ?thesis by (intro exI [of _ "n1 @ n2"]) simp
  qed
qed

lemma calls_testW [calls_rules]: "calls_only E m \<Longrightarrow> calls_only E k \<Longrightarrow> calls_only E (testW b m k)"
  by (auto simp: calls_only_def testW_def)

section \<open>Open sessions\<close>

text \<open>
  Each successful \<open>manager.connect\<close> opens a NETCONF session, each \<open>SSHClient()\<close> of a device client
  and of a proxy client is an object to close; a call of the closing function counts as closing.
\<close>

definition netconf_change :: "device_call \<times> bool \<Rightarrow> int" where
  "netconf_change e = (case e of (NetconfConnect _ _, ok) \<Rightarrow> of_bool ok | (NetconfClose, _) \<Rightarrow> - 1 | _ \<Rightarrow> 0)"

definition ssh_change :: "device_call \<times> bool \<Rightarrow> int" where
  "ssh_change e = (case e of (SshCreate, _) \<Rightarrow> 1 | (SshClose, _) \<Rightarrow> - 1 | _ \<Rightarrow> 0)"

definition proxy_change :: "device_call \<times> bool \<Rightarrow> int" where
  "proxy_change e = (case e of (ProxyCreate, _) \<Rightarrow> 1 | (ProxyClose, _) \<Rightarrow> - 1 | _ \<Rightarrow> 0)"

definition netconf_left :: "call_history \<Rightarrow> int" where
  "netconf_left h = sum_list (map netconf_change h)"

definition ssh_left :: "call_history \<Rightarrow> int" where
  "ssh_left h = sum_list (map ssh_change h)"

definition proxies_left :: "call_history \<Rightarrow> int" where
  "proxies_left h = sum_list (map proxy_change h)"

text \<open>Nothing the client opened since the world \<open>w\<close> is left: sessions, SSH clients, its socket.\<close>

definition settled :: "outside \<Rightarrow> outside \<Rightarrow> bool" where
  "settled w w' \<longleftrightarrow> netconf_left (calls w') = netconf_left (calls w)
     \<and> ssh_left (calls w') = ssh_left (calls w) \<and> \<not> socket_open (telnet_line w')"

section \<open>What \<open>_run_for_device\<close> relies on\<close>

locale device_adapter =
  fixes perform :: "device_op \<Rightarrow> json device_io"
    and cleanup :: "unit device_io"
    and holds :: "outside \<Rightarrow> outside \<Rightarrow> bool"
  assumes perform_holds: "perform op (new_references w) = (r, w') \<Longrightarrow> holds w w'"
    and cleanup_settles: "holds w w1 \<Longrightarrow> cleanup w1 = (r', w2) \<Longrightarrow> settled w w2"
begin

lemma request_settles:
  assumes "perform op (new_references w) = (r, w1)" and "cleanup w1 = (r', w2)"
  shows "settled w w2"
  by (rule cleanup_settles [OF perform_holds]) (rule assms)+

end

section \<open>The books of a NETCONF and SSH client\<close>

definition books :: "outside \<Rightarrow> bool \<Rightarrow> bool \<Rightarrow> outside \<Rightarrow> bool" where
  "books w0 n s w \<longleftrightarrow> netconf_left (calls w) = netconf_left (calls w0) + of_bool n
     \<and> ssh_left (calls w) = ssh_left (calls w0) + of_bool s
     \<and> nc_session w = n \<and> ssh_client w = s \<and> \<not> socket_open (telnet_line w)"

definition netconf_books :: "outside \<Rightarrow> outside \<Rightarrow> bool" where
  "netconf_books w0 w \<longleftrightarrow> books w0 (nc_session w) False w"

definition ssh_books :: "outside \<Rightarrow> outside \<Rightarrow> bool" where
  "ssh_books w0 w \<longleftrightarrow> books w0 False (ssh_client w) w"

definition quiet_call :: "device_call \<Rightarrow> bool" where
  "quiet_call c \<longleftrightarrow> (\<forall>ok. netconf_change (c, ok) = 0 \<and> ssh_change (c, ok) = 0)"

lemma quiet_device_calls:
  "quiet_call ProxyCreate" "quiet_call (ProxyLogin l)" "quiet_call ProxyTransport"
  "quiet_call (OpenChannel d f)" "quiet_call (LoadHostKeys p)" "quiet_call (SshConnect l)"
  "quiet_call SshTransport" "quiet_call (SshExec x t)" "quiet_call (NetconfGetConfig x)"
  "quiet_call (NetconfEdit x y)" "quiet_call (NetconfGet flt)"
  by (simp_all add: quiet_call_def netconf_change_def ssh_change_def)

lemma left_snoc [simp]:
  "netconf_left (h @ [e]) = netconf_left h + netconf_change e"
  "ssh_left (h @ [e]) = ssh_left h + ssh_change e"
  by (simp_all add: netconf_left_def ssh_left_def)

lemma books_quiet:
  "quiet_call c \<Longrightarrow> keeps (books w0 n s) (ask env c)" "quiet_call c \<Longrightarrow> keeps (books w0 n s) (create c)"
  "keeps (books w0 n s) (set_proxy_ssh b)"
  by (auto simp: keeps_def books_def ask_def create_def quiet_call_def set_proxy_ssh_def split: sum.splits)

lemma keeps_test: "keeps P m \<Longrightarrow> keeps P k \<Longrightarrow> keeps P (testW b m k)"
  by (intro keeps_testW leads_keeps)

lemma proxy_connect_books: "keeps (books w0 n s) (proxy_connect env host)"
  unfolding proxy_connect_def by (intro keeps_rules books_quiet quiet_device_calls)

lemma proxy_get_channel_books: "keeps (books w0 n s) (proxy_get_channel env host dest)"
  unfolding proxy_get_channel_def proxy_transport_def
  by (intro keeps_rules keeps_test proxy_connect_books books_quiet quiet_device_calls)

lemma books_channel: "keeps (books w0 n s) (ncc_channel env c port)"
proof (cases "get_proxy (le_services env) (le_store env) (nc_info c)")
  case (Inl e)
  then show ?thesis by (simp add: ncc_channel_def keeps_rules)
next
  case (Inr p)
  then show ?thesis
    by (cases p) (simp_all add: ncc_channel_def proxy_new_def keeps_rules proxy_get_channel_books books_quiet)
qed

lemma books_lift:
  assumes "\<And>n s. keeps (books w0 n s) m"
  shows "keeps (netconf_books w0) m" "keeps (ssh_books w0) m"
    "keeps (\<lambda>w. netconf_books w0 w \<and> \<not> nc_session w) m"
proof -
  have step: "books w0 n s w'" if "books w0 n s w" and "m w = (r, w')" for n s w r w'
    by (rule keepsD [OF assms that])
  have refs: "nc_session w = n \<and> ssh_client w = s" if "books w0 n s w" for n s w
    using that by (simp add: books_def)
  show "keeps (netconf_books w0) m"
    by (rule keepsI, unfold netconf_books_def, drule (1) step, simp add: refs)
  show "keeps (ssh_books w0) m"
    by (rule keepsI, unfold ssh_books_def, drule (1) step, simp add: refs)
  show "keeps (\<lambda>w. netconf_books w0 w \<and> \<not> nc_session w) m"
    by (rule keepsI, unfold netconf_books_def, elim conjE, drule (1) step, simp add: refs)
qed

lemma books_ask: "quiet_call c \<Longrightarrow> keeps (netconf_books w0) (ask env c)" "quiet_call c \<Longrightarrow> keeps (ssh_books w0) (ask env c)"
  by (simp_all add: books_lift books_quiet)

lemma netconf_login_books:
  "leads (\<lambda>w. netconf_books w0 w \<and> \<not> nc_session w)
     (bindW (ask env (NetconfConnect l p)) (\<lambda>_. set_session True)) (netconf_books w0)"
  by (auto simp: leads_def netconf_books_def books_def bindW_def ask_def set_session_def netconf_change_def
      ssh_change_def split: sum.splits)

lemma ncc_connect_books: "keeps (netconf_books w0) (ncc_connect env c)"
  unfolding ncc_connect_def
  by (intro keeps_testW leads_keeps leads_catchW leads_bindW keeps_rules netconf_login_books
      books_lift books_channel) auto

lemma netconf_request_books: "quiet_call q \<Longrightarrow> keeps (netconf_books w0) (netconf_request env c q)"
  unfolding netconf_request_def
  by (intro keeps_rules keeps_test ncc_connect_books books_ask)

lemma ncc_known_hosts_books: "keeps (books w0 n s) (ncc_known_hosts env)"
  by (cases "path_setting env ''ROUTER_KNOWN_HOSTS_PATH''")
    (simp_all add: ncc_known_hosts_def keeps_rules books_quiet quiet_device_calls)

lemma ssh_create_books:
  assumes "\<And>n s. keeps (books w0 n s) m"
  shows "leads (\<lambda>w. ssh_books w0 w \<and> \<not> ssh_client w)
     (bindW (create SshCreate) (\<lambda>_. bindW (set_ssh True) (\<lambda>_. m))) (ssh_books w0)"
proof (rule leadsI)
  fix w r w'
  assume p: "ssh_books w0 w \<and> \<not> ssh_client w"
    and b: "bindW (create SshCreate) (\<lambda>_. bindW (set_ssh True) (\<lambda>_. m)) w = (r, w')"
  let ?w = "w\<lparr>calls := calls w @ [(SshCreate, True)], ssh_client := True\<rparr>"
  have "books w0 False True ?w"
    using p by (auto simp: ssh_books_def books_def netconf_change_def ssh_change_def)
  moreover have "m ?w = (r, w')" using b by (simp add: bindW_def create_def set_ssh_def)
  ultimately have "books w0 False True w'" by (rule keepsD [OF assms])
  then show "ssh_books w0 w'" by (simp add: ssh_books_def books_def)
qed

lemma ncc_connect_ssh_books: "keeps (ssh_books w0) (ncc_connect_ssh env c)"
  unfolding ncc_connect_ssh_def
  by (intro keeps_testW leads_keeps leads_catchW ssh_create_books keeps_rules ncc_known_hosts_books
      books_channel books_quiet quiet_device_calls)

lemma execute_ssh_command_books: "keeps (ssh_books w0) (execute_ssh_command env c command)"
proof -
  have "keeps (ssh_books w0) (\<lambda>w. bindW (ask env (SshExec command t)) (\<lambda>_. returnW (f (calls w))) w)" for t f
    using books_ask(2) [OF quiet_device_calls(8), of w0 env command t]
    by (auto simp: keeps_def bindW_def split: prod.splits sum.splits)
  then show ?thesis
    unfolding execute_ssh_command_def
    by (intro keeps_rules keeps_test ncc_connect_ssh_books books_ask quiet_device_calls)
qed

lemma new_references_books:
  "netconf_books w (new_references w)" "ssh_books w (new_references w)"
  by (simp_all add: netconf_books_def ssh_books_def books_def new_references_def)

definition ncc_holds :: "outside \<Rightarrow> outside \<Rightarrow> bool" where
  "ncc_holds w0 w \<longleftrightarrow> netconf_books w0 w \<or> ssh_books w0 w"

lemma ncc_show_keeps: "keeps (ssh_books w0) (ncc_perform env c (ShowInterface n))"
  unfolding ncc_perform_def ncc_show_interface_def Let_def device_op.case
  by (intro keeps_rules execute_ssh_command_books)

lemma ncc_netconf_keeps:
  assumes "\<nexists>n. op = ShowInterface n"
  shows "keeps (netconf_books w0) (ncc_perform env c op)"
  using assms
  by (cases op) (simp_all add: ncc_perform_def ncc_get_config_def ncc_set_config_def
      ncc_get_operational_state_def ncc_get_bgp_def keeps_rules netconf_request_books quiet_device_calls)

lemma ncc_perform_holds:
  assumes "ncc_perform env c op (new_references w) = (r, w')"
  shows "ncc_holds w w'"
proof (cases "\<exists>n. op = ShowInterface n")
  case True
  then obtain n where "op = ShowInterface n" by blast
  then have "ssh_books w w'" using keepsD [OF ncc_show_keeps new_references_books(2)] assms by simp
  then show ?thesis by (simp add: ncc_holds_def)
next
  case False
  then have "netconf_books w w'"
    using keepsD [OF ncc_netconf_keeps new_references_books(1) assms] by blast
  then show ?thesis by (simp add: ncc_holds_def)
qed

lemma ncc_cleanup_settles:
  assumes "ncc_holds w w1" and "ncc_cleanup env w1 = (r, w2)"
  shows "settled w w2"
  using assms
  by (auto simp: ncc_holds_def netconf_books_def ssh_books_def books_def settled_def ncc_cleanup_def
      ncc_close_def ncc_close_ssh_def testW_def bindW_def ask_def set_session_def set_ssh_def
      netconf_change_def ssh_change_def split: sum.splits if_splits)

interpretation ncc: device_adapter "ncc_perform env c" "ncc_cleanup env" ncc_holds for env c
  by unfold_locales (rule ncc_perform_holds, assumption, rule ncc_cleanup_settles)

lemma on_line_calls: "on_line m w = (r, w') \<Longrightarrow> calls w' = calls w"
  by (auto simp: on_line_def split: prod.splits sum.splits)

definition telnet_holds :: "outside \<Rightarrow> outside \<Rightarrow> bool" where
  "telnet_holds w0 w \<longleftrightarrow> calls w = calls w0"

lemma telnet_perform_holds: "telnet_perform c op (new_references w) = (r, w') \<Longrightarrow> telnet_holds w w'"
  using on_line_calls by (fastforce simp: telnet_perform_def telnet_holds_def new_references_def)

lemma telnet_cleanup_settles: "telnet_holds w w1 \<Longrightarrow> telnet_cleanup w1 = (r, w2) \<Longrightarrow> settled w w2"
  by (auto simp: telnet_holds_def telnet_cleanup_def on_line_def tn_close_def settled_def split: if_splits)

interpretation tel: device_adapter "telnet_perform c" telnet_cleanup telnet_holds for c
  by unfold_locales (rule telnet_perform_holds, assumption, rule telnet_cleanup_settles)

text \<open>Both kinds of clients, as the factory returns them.\<close>

lemma client_request_settles:
  assumes "client_perform env client op (new_references w) = (r, w1)" and "client_cleanup env client w1 = (r', w2)"
  shows "settled w w2"
  using assms ncc.request_settles tel.request_settles
  by (cases client) (auto simp: client_perform_def client_cleanup_def)

section \<open>The calls of a request\<close>

text \<open>The configuration an operation writes.\<close>

definition written_config :: "device_op \<Rightarrow> string option" where
  "written_config op = (case op of SetConfig x \<Rightarrow> Some x | ConfigureInterface _ x \<Rightarrow> Some x
     | SetBgp x \<Rightarrow> Some x | ConfigureFirewall x \<Rightarrow> Some x | _ \<Rightarrow> None)"

definition proxy_of :: "legacy_env \<Rightarrow> ncc_client \<Rightarrow> gateway_error + string option" where
  "proxy_of env c = get_proxy (le_services env) (le_store env) (nc_info c)"

text \<open>
  What a request may do on the outside: log in to the device of the client, at its ports, with the
  credentials of its row; use the proxy its row is mapped to, with the credentials of the proxies;
  run the show command; write a configuration only when the operation is to write it.
\<close>

definition permitted_call :: "legacy_env \<Rightarrow> ncc_client \<Rightarrow> device_op \<Rightarrow> device_call \<Rightarrow> bool" where
  "permitted_call env c op call = (case call of
      ProxyLogin l \<Rightarrow> proxy_of env c = Inr (Some (lg_host l)) \<and> lg_port l = proxy_port
        \<and> le_setting env ''PROXY_USERNAME'' = Some (lg_username l)
        \<and> le_setting env ''PROXY_PASSWORD'' = Some (lg_password l) \<and> \<not> lg_verify l
    | OpenChannel dest source \<Rightarrow> dest \<in> {(nc_host c, nc_port c), (nc_host c, nc_ssh_port c)}
        \<and> proxy_of env c = Inr (Some (fst source))
    | NetconfConnect l _ \<Rightarrow> lg_host l = nc_host c \<and> lg_port l = nc_port c
        \<and> ncc_credentials env (nc_info c) = Inr (lg_username l, lg_password l)
        \<and> lg_verify l = netconf_hostkey_verify env
        \<and> lg_channel l = (\<exists>host. proxy_of env c = Inr (Some host))
    | SshConnect l \<Rightarrow> lg_host l = nc_host c \<and> lg_port l = nc_ssh_port c
        \<and> ncc_credentials env (nc_info c) = Inr (lg_username l, lg_password l)
        \<and> lg_verify l \<and> lg_channel l = (\<exists>host. proxy_of env c = Inr (Some host))
    | NetconfEdit target x \<Rightarrow> target = ''running'' \<and> written_config op = Some x
    | SshExec command _ \<Rightarrow> (\<exists>n. op = ShowInterface n
        \<and> command = ncc_show_command (nc_class c) (case n of Some s \<Rightarrow> s | None \<Rightarrow> []))
    | ProxyClose \<Rightarrow> False
    | _ \<Rightarrow> True)"

lemma proxy_get_channel_calls:
  assumes "proxy_of env c = Inr (Some host)" and "dest \<in> {(nc_host c, nc_port c), (nc_host c, nc_ssh_port c)}"
  shows "calls_only (permitted_call env c op) (proxy_get_channel env host dest)"
proof -
  have "calls_only (permitted_call env c op) (proxy_connect env host)"
    unfolding proxy_connect_def using assms(1)
    by (intro calls_rules calls_bindW_returned [where m = "liftW r" for r])
      (auto simp: permitted_call_def proxy_login_def required_setting_def split: option.splits)
  then show ?thesis
    unfolding proxy_get_channel_def proxy_transport_def using assms
    by (intro calls_rules) (auto simp: permitted_call_def)
qed

lemma ncc_channel_calls:
  assumes "port \<in> {nc_port c, nc_ssh_port c}"
  shows "calls_only (permitted_call env c op) (ncc_channel env c port)"
    and "ncc_channel env c port w = (Inr channel, w1) \<Longrightarrow> channel = (\<exists>host. proxy_of env c = Inr (Some host))"
  using assms
  by (auto simp: ncc_channel_def proxy_of_def proxy_new_def split: sum.splits option.splits
      intro!: calls_rules proxy_get_channel_calls elim!: bindW_InrE)

lemma ncc_connect_calls: "calls_only (permitted_call env c op) (ncc_connect env c)"
  unfolding ncc_connect_def
  by (intro calls_rules calls_bindW_returned [where m = "liftW r" for r]
      calls_bindW_returned [where m = "ncc_channel env c p" for p] ncc_channel_calls(1))
    (auto simp: permitted_call_def ncc_login_def dest: ncc_channel_calls(2) [rotated])

lemma netconf_request_calls:
  "permitted_call env c op q \<Longrightarrow> calls_only (permitted_call env c op) (netconf_request env c q)"
  unfolding netconf_request_def by (intro calls_rules ncc_connect_calls)

lemma ncc_connect_ssh_calls: "calls_only (permitted_call env c op) (ncc_connect_ssh env c)"
  unfolding ncc_connect_ssh_def ncc_known_hosts_def
  by (cases "path_setting env ''ROUTER_KNOWN_HOSTS_PATH''"; simp)
    (intro calls_rules calls_bindW_returned [where m = "liftW r" for r]
      calls_bindW_returned [where m = "ncc_channel env c p" for p] ncc_channel_calls(1);
     auto simp: permitted_call_def ncc_login_def dest: ncc_channel_calls(2) [rotated])+

lemma execute_ssh_command_calls:
  assumes "\<And>t. permitted_call env c op (SshExec command t)"
  shows "calls_only (permitted_call env c op) (execute_ssh_command env c command)"
proof -
  have "calls_only (permitted_call env c op)
      (\<lambda>w. bindW (ask env (SshExec command t)) (\<lambda>_. returnW (f (calls w))) w)" for t f
    using calls_ask(1) [of "permitted_call env c op", OF assms [of t], of env]
    by (auto simp: calls_only_def bindW_def split: prod.splits sum.splits)
  moreover have "calls_only (permitted_call env c op) (ask env SshTransport)"
    by (rule calls_ask) (simp add: permitted_call_def)
  ultimately show ?thesis
    unfolding execute_ssh_command_def
    by (intro calls_rules ncc_connect_ssh_calls) (simp_all add: permitted_call_def)
qed

lemma ncc_perform_calls: "calls_only (permitted_call env c op) (ncc_perform env c op)"
  by (cases op) (auto simp: ncc_perform_def ncc_show_interface_def Let_def ncc_get_config_def ncc_set_config_def
      ncc_get_operational_state_def ncc_get_bgp_def permitted_call_def written_config_def
      intro!: calls_rules execute_ssh_command_calls netconf_request_calls)

lemma ncc_cleanup_calls: "calls_only (permitted_call env c op) (ncc_cleanup env)"
  unfolding ncc_cleanup_def ncc_close_def ncc_close_ssh_def
  by (intro calls_rules) (simp_all add: permitted_call_def)

lemma client_calls:
  assumes "client_perform env client op w = (r, w1)" and "client_cleanup env client w1 = (r', w2)"
  obtains new where "calls w2 = calls w @ new"
    and "\<And>c. client = Ncc c \<Longrightarrow> list_all (permitted_call env c op \<circ> fst) new"
    and "\<And>c. client = Telnet c \<Longrightarrow> new = []"
proof (cases client)
  case (Ncc c)
  then obtain n1 where n1: "calls w1 = calls w @ n1" "list_all (permitted_call env c op \<circ> fst) n1"
    using assms(1) calls_onlyD [OF ncc_perform_calls] by (metis client_perform_def device_client.case(1))
  moreover obtain n2 where "calls w2 = calls w1 @ n2" "list_all (permitted_call env c op \<circ> fst) n2"
    using assms(2) Ncc calls_onlyD [OF ncc_cleanup_calls] by (metis client_cleanup_def device_client.case(1))
  ultimately show ?thesis using Ncc that [of "n1 @ n2"] by simp
next
  case (Telnet c)
  have "calls w1 = calls w"
    using assms(1) Telnet by (simp add: client_perform_def telnet_perform_def on_line_calls)
  moreover have "calls w2 = calls w1"
    using assms(2) Telnet by (simp add: client_cleanup_def telnet_cleanup_def on_line_calls)
  ultimately have "calls w2 = calls w" by simp
  then show ?thesis using Telnet that [of "[]"] by simp
qed

lemma run_for_device_cases [consumes 1, case_names refused answered]:
  assumes "run_for_device env device op w = (a, w')"
  obtains e where "new_client env device = Inl e" and "a = Failed (device_status e) e" and "w' = w"
  | client r w1 r' where "new_client env device = Inr client"
      and "client_perform env client op (new_references w) = (r, w1)"
      and "client_cleanup env client w1 = (r', w')"
      and "a = (case r' of Inl e \<Rightarrow> Crashed e | Inr _ \<Rightarrow> (case r of
             Inl e \<Rightarrow> Failed (device_status e) e | Inr v \<Rightarrow> Given (device_value op v)))"
  using assms by (auto simp: run_for_device_def split: sum.splits prod.splits)

lemma calls_new_references [simp]: "calls (new_references w) = calls w"
  by (simp add: new_references_def)

section \<open>Properties\<close>

text \<open>
  C34. A request of the device controller leaves open no session
  it has opened: for every NETCONF session that came up it has called \<open>close_session\<close>, for every
  SSH client \<open>close\<close>, and its Telnet socket is closed, whatever operation ran, and whichever of the
  calls failed.
\<close>

theorem device_requests_close_their_sessions:
  assumes "run_for_device env device op w = (a, w')" and "new_client env device = Inr client"
  shows "netconf_left (calls w') = netconf_left (calls w) \<and> ssh_left (calls w') = ssh_left (calls w)
     \<and> \<not> socket_open (telnet_line w')"
  using assms client_request_settles by (cases rule: run_for_device_cases) (auto simp: settled_def)

text \<open>
  C33. The calls a request of the device controller makes on the
  outside all concern its device: logins go to the address and the ports of the device, with the
  credentials of its row (or of the environment); a proxy is used exactly when the row is mapped to
  one and then that one, with the credentials of the proxies; and nothing is written unless the
  operation is to write it. An unknown host key is refused by every SSH login to a device, by a NETCONF
  login exactly as the setting \<open>ROUTER_NETCONF_HOSTKEY_VERIFY\<close> says, and never by the login to a
  proxy. A Telnet device causes none of these calls.
\<close>

theorem requests_stay_with_their_device:
  assumes "run_for_device env device op w = (a, w')" and "new_client env device = Inr client"
  shows "\<exists>new. calls w' = calls w @ new
     \<and> (case client of Ncc c \<Rightarrow> list_all (permitted_call env c op \<circ> fst) new | Telnet _ \<Rightarrow> new = [])"
  using assms(1)
proof (cases rule: run_for_device_cases)
  case (refused e)
  then show ?thesis using assms(2) by simp
next
  case (answered cl r w1 r')
  then have "cl = client" using assms(2) by simp
  with client_calls [OF answered(2,3)] obtain new where "calls w' = calls w @ new"
    and "\<And>c. client = Ncc c \<Longrightarrow> list_all (permitted_call env c op \<circ> fst) new"
    and "\<And>c. client = Telnet c \<Longrightarrow> new = []" by auto
  then show ?thesis by (intro exI [of _ new]) (auto split: device_client.split)
qed

lemma netconf_request_session:
  assumes "netconf_request env c q w = (Inr x, w')"
  shows "nc_session w'"
  using assms unfolding netconf_request_def
  by (auto elim!: bindW_InrE simp: testW_def ask_def split: if_splits sum.splits)

lemma router_read_open:
  assumes "client_perform env client GetConfig (new_references w) = (Inr v, w')"
  shows "netconf_left (calls w') = netconf_left (calls w) + 1"
proof (cases client)
  case (Ncc c)
  then have p: "ncc_perform env c GetConfig (new_references w) = (Inr v, w')"
    using assms by (simp add: client_perform_def)
  then have "nc_session w'"
    by (auto simp: ncc_perform_def ncc_get_config_def elim!: bindW_InrE dest: netconf_request_session)
  moreover have "netconf_books w w'"
    by (rule keepsD [OF ncc_netconf_keeps new_references_books(1) p]) simp
  ultimately show ?thesis by (simp add: netconf_books_def books_def)
next
  case (Telnet c)
  then show ?thesis
    using assms by (simp add: client_perform_def telnet_perform_def on_line_def unsupported_def)
qed

lemma no_proxy_close:
  "list_all (permitted_call env c op \<circ> fst) new \<Longrightarrow>
     sum_list (map proxy_change new) = int (length (filter (\<lambda>e. fst e = ProxyCreate) new))"
  by (induction new) (auto simp: permitted_call_def proxy_change_def split: device_call.splits)

text \<open>
  C35. Two kinds of connections are never closed by the code. A request of
  the device controller that uses a proxy makes an SSH client for it, and no request calls its
  \<open>close\<close>; and a configuration read through the router controller leaves its NETCONF session open,
  one more for each answer.
\<close>

theorem connections_are_left_open:
  "(run_for_device env device op w = (a, w') \<longrightarrow> (\<exists>new. calls w' = calls w @ new
      \<and> proxies_left (calls w') = proxies_left (calls w) + int (length (filter (\<lambda>e. fst e = ProxyCreate) new))))
   \<and> (run_for_router env device GetConfig w = (Given v, w'') \<longrightarrow>
      netconf_left (calls w'') = netconf_left (calls w) + 1)"
proof (intro conjI impI)
  assume run: "run_for_device env device op w = (a, w')"
  then show "\<exists>new. calls w' = calls w @ new
      \<and> proxies_left (calls w') = proxies_left (calls w) + int (length (filter (\<lambda>e. fst e = ProxyCreate) new))"
  proof (cases rule: run_for_device_cases)
    case (refused e)
    then show ?thesis by simp
  next
    case (answered client r w1 r')
    from client_calls [OF answered(2,3)] obtain new where new: "calls w' = calls w @ new"
      and ncc: "\<And>c. client = Ncc c \<Longrightarrow> list_all (permitted_call env c op \<circ> fst) new"
      and tel: "\<And>c. client = Telnet c \<Longrightarrow> new = []" by auto
    have "sum_list (map proxy_change new) = int (length (filter (\<lambda>e. fst e = ProxyCreate) new))"
      using ncc no_proxy_close tel by (cases client) auto
    then show ?thesis using new by (auto simp: proxies_left_def)
  qed
next
  assume "run_for_router env device GetConfig w = (Given v, w'')"
  then show "netconf_left (calls w'') = netconf_left (calls w) + 1"
    by (auto simp: run_for_router_def router_read_open split: sum.splits prod.splits)
qed

section \<open>A sample\<close>

definition sample_device_row :: dict where
  "sample_device_row = [(''name'', JStr ''r1''), (''vendor'', JStr ''juniper''), (''owner'', JStr ''lab''),
     (''host'', JStr ''r1.lab''), (''username'', JStr ''ops''), (''password'', JStr ''pw'')]"

definition sample_legacy_store :: store where
  "sample_legacy_store = empty_store\<lparr>st_db := empty_db\<lparr>configurations :=
     [(''device_lookup'', JObj [(''table'', JStr ''devices''), (''search_column'', JStr ''name'')]),
      (''client_mapping'', JObj [(''key_columns'', JList [JStr ''vendor'']),
         (''map'', JObj [(''juniper'', JStr ''app.dal.device.nccclient_juniper.JuniperNCCClient'')])]),
      (''proxy_mapping'', JObj sample_proxy_config)]\<rparr>\<rparr>"

definition sample_legacy_env :: legacy_env where
  "sample_legacy_env = \<lparr>le_setting = (\<lambda>name. if name \<in> {''PROXY_USERNAME'', ''PROXY_PASSWORD''} then Some ''jump'' else None),
     le_services = sample_services, le_float = (\<lambda>s. None), le_utf8_ignore = (\<lambda>b. []),
     le_responds = (\<lambda>h c. Inr ''<data/>''), le_prints = (\<lambda>h c. []),
     le_metadata = (\<lambda>t. if t = ''devices'' then Some (map fst sample_device_row, [sample_device_row]) else None),
     le_store = sample_legacy_store\<rparr>"

definition sample_outside :: outside where
  "sample_outside = \<lparr>calls = [], proxy_ssh = False, nc_session = False, ssh_client = False,
     telnet_line = \<lparr>readings = [], now = 0, arrivals = [], sends = [], sent = [], socket_open = False,
       session_negotiator = None, authenticated = False, dials = []\<rparr>\<rparr>"

definition sample_ncc :: ncc_client where
  "sample_ncc = \<lparr>nc_class = ''JuniperNCCClient'', nc_host = ''r1.lab'', nc_info = sample_device_row,
     nc_port = 830, nc_ssh_port = 22\<rparr>"

lemma sample_handle:
  "get_client sample_services (le_metadata sample_legacy_env) sample_legacy_store ''r1''
     = Inr \<lparr>cl_module = ''app.dal.device.nccclient_juniper'', cl_class = ''JuniperNCCClient'',
         cl_host = ''r1.lab'', cl_router_info = sample_device_row\<rparr>"
  by code_simp

lemma sample_new_client: "new_client sample_legacy_env ''r1'' = Inr (Ncc sample_ncc)"
proof -
  have "le_services sample_legacy_env = sample_services" "le_store sample_legacy_env = sample_legacy_store"
    by (simp_all add: sample_legacy_env_def)
  then show ?thesis
    by (simp add: new_client_def sample_handle telnet_class_def ncc_new_def ncc_safe_port_def sample_device_row_def
        sample_ncc_def dget_def)
qed

lemma sample_device_proxy: "proxy_of sample_legacy_env sample_ncc = Inr (Some ''jump-1'')"
  by code_simp

lemma sample_settings:
  "ncc_credentials sample_legacy_env sample_device_row = Inr (''ops'', ''pw'')"
  "netconf_hostkey_verify sample_legacy_env" "ssh_config_path sample_legacy_env = None"
  "required_setting sample_legacy_env ''PROXY_USERNAME'' = Inr ''jump''"
  "required_setting sample_legacy_env ''PROXY_PASSWORD'' = Inr ''jump''"
  by code_simp+

lemma sample_responds [simp]: "le_responds sample_legacy_env h c = Inr ''<data/>''"
  by (simp add: sample_legacy_env_def)

lemma sample_config_read:
  "ncc_perform sample_legacy_env sample_ncc GetConfig (new_references sample_outside)
     = (Inr (JStr ''<data/>''), sample_outside\<lparr>proxy_ssh := True, nc_session := True, calls :=
         [(ProxyCreate, True), (ProxyLogin (proxy_login ''jump-1'' ''jump'' ''jump''), True), (ProxyTransport, True),
          (OpenChannel (''r1.lab'', 830) (''jump-1'', 22), True),
          (NetconfConnect (ncc_login sample_legacy_env sample_ncc 830 True True (''ops'', ''pw'')) None, True),
          (NetconfGetConfig ''running'', True)]\<rparr>)"
  using sample_device_proxy sample_settings
  by (simp add: ncc_perform_def ncc_get_config_def netconf_request_def ncc_connect_def ncc_channel_def proxy_of_def
      proxy_new_def proxy_get_channel_def proxy_connect_def proxy_transport_def bindW_def catchW_def testW_def ask_def
      create_def set_proxy_ssh_def set_session_def new_references_def sample_outside_def sample_ncc_def proxy_port_def)

lemma sample_outside_simps:
  "ssh_client sample_outside = False" "nc_session sample_outside = False" "calls sample_outside = []"
  by (simp_all add: sample_outside_def)

lemma sample_device_read:
  obtains w' where "run_for_device sample_legacy_env ''r1'' GetConfig sample_outside
     = (Given (JObj [(''config'', JStr ''<data/>'')]), w')"
  and "map fst (calls w') = [ProxyCreate, ProxyLogin (proxy_login ''jump-1'' ''jump'' ''jump''), ProxyTransport,
          OpenChannel (''r1.lab'', 830) (''jump-1'', 22),
          NetconfConnect (ncc_login sample_legacy_env sample_ncc 830 True True (''ops'', ''pw'')) None,
          NetconfGetConfig ''running'', NetconfClose]"
  by (simp add: run_for_device_def sample_new_client client_perform_def client_cleanup_def sample_config_read
      ncc_cleanup_def ncc_close_def ncc_close_ssh_def testW_def bindW_def ask_def set_session_def
      device_value_def sample_outside_simps)

definition sample_after :: outside where
  "sample_after = snd (run_for_device sample_legacy_env ''r1'' GetConfig sample_outside)"

lemma sample_after_run:
  "run_for_device sample_legacy_env ''r1'' GetConfig sample_outside
     = (Given (JObj [(''config'', JStr ''<data/>'')]), sample_after)"
  and sample_after_calls: "map fst (calls sample_after) = [ProxyCreate, ProxyLogin (proxy_login ''jump-1'' ''jump'' ''jump''),
       ProxyTransport, OpenChannel (''r1.lab'', 830) (''jump-1'', 22),
       NetconfConnect (ncc_login sample_legacy_env sample_ncc 830 True True (''ops'', ''pw'')) None,
       NetconfGetConfig ''running'', NetconfClose]"
proof -
  obtain w' where "run_for_device sample_legacy_env ''r1'' GetConfig sample_outside
     = (Given (JObj [(''config'', JStr ''<data/>'')]), w')"
    and "map fst (calls w') = [ProxyCreate, ProxyLogin (proxy_login ''jump-1'' ''jump'' ''jump''), ProxyTransport,
          OpenChannel (''r1.lab'', 830) (''jump-1'', 22),
          NetconfConnect (ncc_login sample_legacy_env sample_ncc 830 True True (''ops'', ''pw'')) None,
          NetconfGetConfig ''running'', NetconfClose]"
    by (rule sample_device_read)
  then show "run_for_device sample_legacy_env ''r1'' GetConfig sample_outside
     = (Given (JObj [(''config'', JStr ''<data/>'')]), sample_after)"
    and "map fst (calls sample_after) = [ProxyCreate, ProxyLogin (proxy_login ''jump-1'' ''jump'' ''jump''),
       ProxyTransport, OpenChannel (''r1.lab'', 830) (''jump-1'', 22),
       NetconfConnect (ncc_login sample_legacy_env sample_ncc 830 True True (''ops'', ''pw'')) None,
       NetconfGetConfig ''running'', NetconfClose]"
    by (simp_all add: sample_after_def)
qed

theorem device_requests_close_their_sessions_witness:
  "netconf_left (calls sample_after) = 0 \<and> ssh_left (calls sample_after) = 0 \<and> \<not> socket_open (telnet_line sample_after)"
  using device_requests_close_their_sessions [OF sample_after_run sample_new_client]
  by (simp add: sample_outside_simps netconf_left_def ssh_left_def)

theorem requests_stay_with_their_device_witness:
  "list_all (permitted_call sample_legacy_env sample_ncc GetConfig \<circ> fst) (calls sample_after) \<and> length (calls sample_after) = 7"
  using requests_stay_with_their_device [OF sample_after_run sample_new_client] arg_cong [OF sample_after_calls, of length]
  by (simp add: sample_outside_simps)

theorem connections_are_left_open_witness:
  "proxies_left (calls sample_after) = 1
   \<and> netconf_left (calls (snd (run_for_router sample_legacy_env ''r1'' GetConfig sample_outside))) = 1"
proof
  have "length (filter (\<lambda>e. fst e = ProxyCreate) (calls sample_after))
      = length (filter (\<lambda>c. c = ProxyCreate) (map fst (calls sample_after)))"
    by (simp add: filter_map comp_def)
  then have one: "length (filter (\<lambda>e. fst e = ProxyCreate) (calls sample_after)) = 1"
    by (simp add: sample_after_calls)
  show "proxies_left (calls sample_after) = 1"
    using connections_are_left_open [of sample_legacy_env "''r1''" GetConfig sample_outside] sample_after_run one
    by (auto simp: sample_outside_simps proxies_left_def)
  have "run_for_router sample_legacy_env ''r1'' GetConfig sample_outside
      = (Given (JObj [(''config'', JStr ''<data/>'')]),
          snd (run_for_router sample_legacy_env ''r1'' GetConfig sample_outside))"
    by (simp add: run_for_router_def sample_new_client client_perform_def sample_config_read device_value_def)
  then show "netconf_left (calls (snd (run_for_router sample_legacy_env ''r1'' GetConfig sample_outside))) = 1"
    using connections_are_left_open [of sample_legacy_env "''r1''" GetConfig sample_outside]
    by (auto simp: sample_outside_simps netconf_left_def)
qed

end
