(* ===== verification/LegacyApi.thy ===== *)
theory LegacyApi
  imports DeviceClientLaws HttpApi
begin

text \<open>
  The legacy routes, \<open>app/routes.py\<close> with the controllers of \<open>app/api/routes/legacy\<close>: the tables of
  their paths, the read-only guard all of them share, and the functions behind them. Most functions
  are placeholders that repeat their parameters; those of the device and the router controller run a
  client of \<open>DeviceClients\<close>. A request is the \<open>web_request\<close> of \<open>HttpApi\<close>, its path counted from the
  root here.
\<close>

section \<open>Routes\<close>

text \<open>
  A path is a list of literal and of variable segments, a body is absent, any JSON object, or an
  object with the text \<open>config_xml\<close>. A placeholder answers with path parameters, with its body and
  with constants; an action makes an operation of the device of its path parameters, its query and
  its body.
\<close>

datatype segment = Lit string | Par string

datatype body_kind = NoBodyParam | AnyObject | XmlPayload

datatype field_source = From string | TheBody | Const json

type_synonym bindings = "(string \<times> string) list"

datatype legacy_handler =
    Echo "(string \<times> field_source) list"
  | OnDevice "bindings \<Rightarrow> string option \<Rightarrow> string \<Rightarrow> device_op"
  | OnRouter device_op

record legacy_route =
  lr_verb :: string
  lr_path :: "segment list"
  lr_body :: body_kind
  lr_handler :: legacy_handler

definition legacy_entry :: "string \<Rightarrow> segment list \<Rightarrow> body_kind \<Rightarrow> legacy_handler \<Rightarrow> legacy_route" where
  "legacy_entry verb path b h = \<lparr>lr_verb = verb, lr_path = path, lr_body = b, lr_handler = h\<rparr>"

definition path_param :: "bindings \<Rightarrow> string \<Rightarrow> string" where
  "path_param b name = (case map_of b name of Some s \<Rightarrow> s | None \<Rightarrow> [])"

section \<open>Tables\<close>

definition router_routes :: "legacy_route list" where
  "router_routes = [
     legacy_entry ''GET'' [Lit ''routers'', Par ''device'', Lit ''get-config''] NoBodyParam (OnRouter GetConfig),
     legacy_entry ''GET'' [Lit ''routers'', Par ''device'', Lit ''operational-state''] NoBodyParam (OnRouter GetOperationalState)]"

definition interface_routes :: "legacy_route list" where
  "interface_routes = [
     legacy_entry ''GET'' [Lit ''interfaces'', Par ''device'', Lit ''interfaces''] NoBodyParam
       (Echo [(''device'', From ''device''), (''interfaces'', Const (JList []))]),
     legacy_entry ''GET'' [Lit ''interfaces'', Par ''device'', Lit ''interfaces'', Par ''interface_id''] NoBodyParam
       (Echo [(''device'', From ''device''), (''interface_id'', From ''interface_id''), (''interface'',
          Const (JObj []))]),
     legacy_entry ''PUT'' [Lit ''interfaces'', Par ''device'', Lit ''interfaces'', Par ''interface_id''] AnyObject
       (Echo [(''device'', From ''device''), (''interface_id'', From ''interface_id''), (''result'',
          Const (JStr ''interface modified'')), (''data'', TheBody)]),
     legacy_entry ''POST'' [Lit ''interfaces'', Par ''device'', Lit ''interfaces''] AnyObject
       (Echo [(''device'', From ''device''), (''result'', Const (JStr ''interface created'')), (''data'', TheBody)]),
     legacy_entry ''DELETE'' [Lit ''interfaces'', Par ''device'', Lit ''interfaces'', Par ''interface_id''] NoBodyParam
       (Echo [(''device'', From ''device''), (''interface_id'', From ''interface_id''), (''result'',
          Const (JStr ''interface deleted''))])]"

definition protocol_config_routes :: "legacy_route list" where
  "protocol_config_routes = [
     legacy_entry ''GET'' [Lit ''protocols'', Par ''device'', Lit ''protocols'', Par ''protocol''] NoBodyParam
       (Echo [(''device'', From ''device''), (''protocol'', From ''protocol''), (''config'', Const (JObj []))]),
     legacy_entry ''PUT'' [Lit ''protocols'', Par ''device'', Lit ''protocols'', Par ''protocol''] NoBodyParam
       (Echo [(''device'', From ''device''), (''protocol'', From ''protocol''), (''result'',
          Const (JStr ''modified''))])]"

definition bgp_neighbor_routes :: "legacy_route list" where
  "bgp_neighbor_routes = [
     legacy_entry ''GET'' [Lit ''protocols'', Par ''device'', Lit ''protocols'', Lit ''bgp'', Lit ''neighbors''] NoBodyParam
       (Echo [(''device'', From ''device''), (''neighbors'', Const (JList []))]),
     legacy_entry ''GET'' [Lit ''protocols'', Par ''device'', Lit ''protocols'', Lit ''bgp'', Lit ''neighbors'',
          Par ''neighbor_ip''] NoBodyParam
       (Echo [(''device'', From ''device''), (''neighbor_ip'', From ''neighbor_ip''), (''neighbor'',
          Const (JObj []))]),
     legacy_entry ''POST'' [Lit ''protocols'', Par ''device'', Lit ''protocols'', Lit ''bgp'', Lit ''neighbors''] AnyObject
       (Echo [(''device'', From ''device''), (''neighbor'', TheBody), (''result'',
          Const (JStr ''bgp neighbor added''))]),
     legacy_entry ''PUT'' [Lit ''protocols'', Par ''device'', Lit ''protocols'', Lit ''bgp'', Lit ''neighbors'',
          Par ''neighbor_ip''] AnyObject
       (Echo [(''device'', From ''device''), (''neighbor_ip'', From ''neighbor_ip''), (''neighbor'', TheBody),
          (''result'', Const (JStr ''bgp neighbor modified''))]),
     legacy_entry ''DELETE'' [Lit ''protocols'', Par ''device'', Lit ''protocols'', Lit ''bgp'', Lit ''neighbors'',
          Par ''neighbor_ip''] NoBodyParam
       (Echo [(''device'', From ''device''), (''neighbor_ip'', From ''neighbor_ip''), (''result'',
          Const (JStr ''bgp neighbor removed''))])]"

definition static_route_routes :: "legacy_route list" where
  "static_route_routes = [
     legacy_entry ''GET'' [Lit ''protocols'', Par ''device'', Lit ''protocols'', Lit ''static'', Lit ''routes''] NoBodyParam
       (Echo [(''device'', From ''device''), (''routes'', Const (JList []))]),
     legacy_entry ''GET'' [Lit ''protocols'', Par ''device'', Lit ''protocols'', Lit ''static'', Lit ''routes'',
          Par ''route_id''] NoBodyParam
       (Echo [(''device'', From ''device''), (''route_id'', From ''route_id''), (''route'', Const (JObj []))]),
     legacy_entry ''POST'' [Lit ''protocols'', Par ''device'', Lit ''protocols'', Lit ''static'', Lit ''routes''] AnyObject
       (Echo [(''device'', From ''device''), (''route'', TheBody), (''result'', Const (JStr ''static route added''))]),
     legacy_entry ''PUT'' [Lit ''protocols'', Par ''device'', Lit ''protocols'', Lit ''static'', Lit ''routes'',
          Par ''route_id''] AnyObject
       (Echo [(''device'', From ''device''), (''route_id'', From ''route_id''), (''route'', TheBody), (''result'',
          Const (JStr ''static route modified''))]),
     legacy_entry ''DELETE'' [Lit ''protocols'', Par ''device'', Lit ''protocols'', Lit ''static'', Lit ''routes'',
          Par ''route_id''] NoBodyParam
       (Echo [(''device'', From ''device''), (''route_id'', From ''route_id''), (''result'',
          Const (JStr ''static route removed''))])]"

definition mpls_instance_routes :: "legacy_route list" where
  "mpls_instance_routes = [
     legacy_entry ''GET'' [Lit ''mpls'', Par ''device'', Lit ''mpls''] NoBodyParam
       (Echo [(''device'', From ''device''), (''mpls_instances'', Const (JList []))]),
     legacy_entry ''POST'' [Lit ''mpls'', Par ''device'', Lit ''mpls''] NoBodyParam
       (Echo [(''device'', From ''device''), (''result'', Const (JStr ''mpls instance created''))]),
     legacy_entry ''GET'' [Lit ''mpls'', Par ''device'', Lit ''mpls'', Par ''mpls_id''] NoBodyParam
       (Echo [(''device'', From ''device''), (''mpls_id'', From ''mpls_id''), (''mpls'', Const (JObj []))]),
     legacy_entry ''PUT'' [Lit ''mpls'', Par ''device'', Lit ''mpls'', Par ''mpls_id''] NoBodyParam
       (Echo [(''device'', From ''device''), (''mpls_id'', From ''mpls_id''), (''result'',
          Const (JStr ''mpls modified''))]),
     legacy_entry ''DELETE'' [Lit ''mpls'', Par ''device'', Lit ''mpls'', Par ''mpls_id''] NoBodyParam
       (Echo [(''device'', From ''device''), (''mpls_id'', From ''mpls_id''), (''result'',
          Const (JStr ''mpls instance deleted''))])]"

definition mpls_neighbor_routes :: "legacy_route list" where
  "mpls_neighbor_routes = [
     legacy_entry ''GET'' [Lit ''mpls'', Par ''device'', Lit ''mpls'', Par ''mpls_id'', Lit ''bgp'',
          Lit ''neighbors''] NoBodyParam
       (Echo [(''device'', From ''device''), (''mpls_id'', From ''mpls_id''), (''neighbors'', Const (JList []))]),
     legacy_entry ''POST'' [Lit ''mpls'', Par ''device'', Lit ''mpls'', Par ''mpls_id'', Lit ''bgp'', Lit ''neighbors''] AnyObject
       (Echo [(''device'', From ''device''), (''mpls_id'', From ''mpls_id''), (''neighbor'', TheBody), (''result'',
          Const (JStr ''bgp neighbor added''))]),
     legacy_entry ''PUT'' [Lit ''mpls'', Par ''device'', Lit ''mpls'', Par ''mpls_id'', Lit ''bgp'', Lit ''neighbors'',
          Par ''neighbor_ip''] AnyObject
       (Echo [(''device'', From ''device''), (''mpls_id'', From ''mpls_id''), (''neighbor_ip'',
          From ''neighbor_ip''), (''neighbor'', TheBody), (''result'', Const (JStr ''bgp neighbor modified''))]),
     legacy_entry ''DELETE'' [Lit ''mpls'', Par ''device'', Lit ''mpls'', Par ''mpls_id'', Lit ''bgp'', Lit ''neighbors'',
          Par ''neighbor_ip''] NoBodyParam
       (Echo [(''device'', From ''device''), (''mpls_id'', From ''mpls_id''), (''neighbor_ip'',
          From ''neighbor_ip''), (''result'', Const (JStr ''bgp neighbor removed''))])]"

definition mpls_static_routes :: "legacy_route list" where
  "mpls_static_routes = [
     legacy_entry ''GET'' [Lit ''mpls'', Par ''device'', Lit ''mpls'', Par ''mpls_id'', Lit ''static'',
          Lit ''routes''] NoBodyParam
       (Echo [(''device'', From ''device''), (''mpls_id'', From ''mpls_id''), (''routes'', Const (JList []))]),
     legacy_entry ''POST'' [Lit ''mpls'', Par ''device'', Lit ''mpls'', Par ''mpls_id'', Lit ''static'', Lit ''routes''] AnyObject
       (Echo [(''device'', From ''device''), (''mpls_id'', From ''mpls_id''), (''route'', TheBody), (''result'',
          Const (JStr ''static route added''))]),
     legacy_entry ''PUT'' [Lit ''mpls'', Par ''device'', Lit ''mpls'', Par ''mpls_id'', Lit ''static'', Lit ''routes'',
          Par ''route_id''] AnyObject
       (Echo [(''device'', From ''device''), (''mpls_id'', From ''mpls_id''), (''route_id'', From ''route_id''),
          (''route'', TheBody), (''result'', Const (JStr ''static route modified''))]),
     legacy_entry ''DELETE'' [Lit ''mpls'', Par ''device'', Lit ''mpls'', Par ''mpls_id'', Lit ''static'', Lit ''routes'',
          Par ''route_id''] NoBodyParam
       (Echo [(''device'', From ''device''), (''mpls_id'', From ''mpls_id''), (''route_id'', From ''route_id''),
          (''result'', Const (JStr ''static route removed''))])]"

definition mpls_interface_routes :: "legacy_route list" where
  "mpls_interface_routes = [
     legacy_entry ''GET'' [Lit ''mpls'', Par ''device'', Lit ''mpls'', Par ''mpls_id'', Lit ''interfaces''] NoBodyParam
       (Echo [(''device'', From ''device''), (''mpls_id'', From ''mpls_id''), (''interfaces'', Const (JList []))]),
     legacy_entry ''GET'' [Lit ''mpls'', Par ''device'', Lit ''mpls'', Par ''mpls_id'', Lit ''interfaces'',
          Par ''interface_id''] NoBodyParam
       (Echo [(''device'', From ''device''), (''mpls_id'', From ''mpls_id''), (''interface_id'',
          From ''interface_id''), (''interface'', Const (JObj []))]),
     legacy_entry ''POST'' [Lit ''mpls'', Par ''device'', Lit ''mpls'', Par ''mpls_id'', Lit ''interfaces''] NoBodyParam
       (Echo [(''device'', From ''device''), (''mpls_id'', From ''mpls_id''), (''result'',
          Const (JStr ''interface added''))]),
     legacy_entry ''DELETE'' [Lit ''mpls'', Par ''device'', Lit ''mpls'', Par ''mpls_id'', Lit ''interfaces'',
          Par ''interface_id''] NoBodyParam
       (Echo [(''device'', From ''device''), (''mpls_id'', From ''mpls_id''), (''interface_id'',
          From ''interface_id''), (''result'', Const (JStr ''interface removed''))])]"

definition device_routes :: "legacy_route list" where
  "device_routes = [
     legacy_entry ''GET'' [Lit ''devices'', Par ''device'', Lit ''show-interface''] NoBodyParam
       (OnDevice (\<lambda>b name xml. ShowInterface name)),
     legacy_entry ''GET'' [Lit ''devices'', Par ''device'', Lit ''config''] NoBodyParam (OnDevice (\<lambda>b name xml. GetConfig)),
     legacy_entry ''PUT'' [Lit ''devices'', Par ''device'', Lit ''config''] XmlPayload (OnDevice (\<lambda>b name xml. SetConfig xml)),
     legacy_entry ''PUT'' [Lit ''devices'', Par ''device'', Lit ''interfaces'', Par ''interface_name''] XmlPayload
       (OnDevice (\<lambda>b name xml. ConfigureInterface (path_param b ''interface_name'') xml)),
     legacy_entry ''GET'' [Lit ''devices'', Par ''device'', Lit ''protocols'', Lit ''bgp''] NoBodyParam
       (OnDevice (\<lambda>b name xml. GetBgp)),
     legacy_entry ''PUT'' [Lit ''devices'', Par ''device'', Lit ''protocols'', Lit ''bgp''] XmlPayload
       (OnDevice (\<lambda>b name xml. SetBgp xml)),
     legacy_entry ''POST'' [Lit ''devices'', Par ''device'', Lit ''firewall'', Lit ''rules''] XmlPayload
       (OnDevice (\<lambda>b name xml. ConfigureFirewall xml))]"

definition legacy_routes :: "legacy_route list" where
  "legacy_routes = router_routes @ interface_routes
     @ (protocol_config_routes @ bgp_neighbor_routes @ static_route_routes)
     @ (mpls_instance_routes @ mpls_neighbor_routes @ mpls_static_routes @ mpls_interface_routes) @ device_routes"

section \<open>Dispatch\<close>

text \<open>A variable segment matches any text that is not empty.\<close>

fun match_path :: "segment list \<Rightarrow> string list \<Rightarrow> bindings option" where
  "match_path [] [] = Some []"
| "match_path (Lit s # ps) (x # xs) = (if x = s then match_path ps xs else None)"
| "match_path (Par n # ps) (x # xs) = (if x = [] then None else map_option (Cons (n, x)) (match_path ps xs))"
| "match_path _ _ = None"

definition matching :: "string list \<Rightarrow> legacy_route \<Rightarrow> bool" where
  "matching path r = (match_path (lr_path r) path \<noteq> None)"

text \<open>The first route whose path and verb match; a path alone that matches is answered with 405.\<close>

definition dispatch :: "string \<Rightarrow> string list \<Rightarrow> legacy_route option" where
  "dispatch verb path = find (\<lambda>r. lr_verb r = verb \<and> matching path r) legacy_routes"

definition bound :: "legacy_route \<Rightarrow> string list \<Rightarrow> bindings" where
  "bound r path = (case match_path (lr_path r) path of Some b \<Rightarrow> b | None \<Rightarrow> [])"

section \<open>One request\<close>

text \<open>
  Replies: not served by these routes, a verb the path does not have, a body that cannot be read,
  the exception of the guard, a JSON value, an \<open>HTTPException\<close> of a controller, or an exception.
\<close>

datatype legacy_reply =
    Unmatched | NotAllowed | InvalidBody | GuardRefused http_exn
  | Answered json | DeviceFailed nat device_error | Unhandled device_error

definition object_payload :: "request_body \<Rightarrow> json option" where
  "object_payload b = (case body_json b of JObj d \<Rightarrow> Some (JObj d) | _ \<Rightarrow> None)"

definition xml_payload :: "request_body \<Rightarrow> string option" where
  "xml_payload b = (case body_json b of
      JObj d \<Rightarrow> (case dget d ''config_xml'' of JStr x \<Rightarrow> Some x | _ \<Rightarrow> None) | _ \<Rightarrow> None)"

definition field_value :: "bindings \<Rightarrow> json \<Rightarrow> field_source \<Rightarrow> json" where
  "field_value b payload src = (case src of
      From name \<Rightarrow> JStr (path_param b name) | TheBody \<Rightarrow> payload | Const j \<Rightarrow> j)"

definition echo_fields :: "bindings \<Rightarrow> json \<Rightarrow> (string \<times> field_source) list \<Rightarrow> dict" where
  "echo_fields b payload fs = map (\<lambda>(k, src). (k, field_value b payload src)) fs"

definition controller_reply :: "device_answer \<Rightarrow> legacy_reply" where
  "controller_reply a = (case a of Given j \<Rightarrow> Answered j | Failed n e \<Rightarrow> DeviceFailed n e | Crashed e \<Rightarrow> Unhandled e)"

definition run_handler ::
    "legacy_env \<Rightarrow> web_request \<Rightarrow> bindings \<Rightarrow> json \<Rightarrow> string \<Rightarrow> legacy_handler \<Rightarrow> outside \<Rightarrow> legacy_reply \<times> outside" where
  "run_handler env req b payload xml h w = (case h of
      Echo fs \<Rightarrow> (Answered (JObj (echo_fields b payload fs)), w)
    | OnDevice f \<Rightarrow> (case run_for_device env (path_param b ''device'')
          (f b (map_of (rq_query req) ''interface_name'') xml) w of (a, w') \<Rightarrow> (controller_reply a, w'))
    | OnRouter op \<Rightarrow> (case run_for_router env (path_param b ''device'') op w of
          (a, w') \<Rightarrow> (controller_reply a, w')))"

text \<open>
  A body is parsed before the guard \<open>require_legacy_read_only\<close> runs, and read after it.
\<close>

definition serve_legacy :: "legacy_env \<Rightarrow> web_request \<Rightarrow> outside \<Rightarrow> legacy_reply \<times> outside" where
  "serve_legacy env req w = (case dispatch (rq_verb req) (rq_path req) of
      None \<Rightarrow> ((if list_ex (matching (rq_path req)) legacy_routes then NotAllowed else Unmatched), w)
    | Some r \<Rightarrow>
        if lr_body r \<noteq> NoBodyParam \<and> rq_body req = Malformed then (InvalidBody, w)
        else (case require_legacy_read_only (rq_verb req) (rq_caller req) of
            Inl e \<Rightarrow> (GuardRefused e, w)
          | Inr user \<Rightarrow>
              (case (lr_body r, object_payload (rq_body req), xml_payload (rq_body req)) of
                 (AnyObject, None, _) \<Rightarrow> (InvalidBody, w)
               | (XmlPayload, _, None) \<Rightarrow> (InvalidBody, w)
               | (_, payload, xml) \<Rightarrow> run_handler env req (bound r (rq_path req))
                   (case payload of Some j \<Rightarrow> j | None \<Rightarrow> JNull) (case xml of Some x \<Rightarrow> x | None \<Rightarrow> [])
                   (lr_handler r) w)))"

section \<open>Properties\<close>

text \<open>Two paths no request can match both.\<close>

fun clash :: "segment list \<Rightarrow> segment list \<Rightarrow> bool" where
  "clash [] [] = False"
| "clash (Lit s # ps) (Lit t # qs) = (s \<noteq> t \<or> clash ps qs)"
| "clash (_ # ps) (_ # qs) = clash ps qs"
| "clash _ _ = True"

lemma match_path_tail: "match_path (p # ps) (x # xs) \<noteq> None \<Longrightarrow> match_path ps xs \<noteq> None"
  by (cases p) (auto split: if_splits)

lemma match_path_Nil: "match_path (p # ps) [] = None"
  by (cases p) simp_all

lemma clash_exclusive: "clash p q \<Longrightarrow> match_path p xs \<noteq> None \<Longrightarrow> match_path q xs = None"
proof (induction p q arbitrary: xs rule: clash.induct [case_names both_end literals left right longer shorter])
  case (literals s ps t qs)
  then show ?case by (cases xs) (auto split: if_splits)
next
  case (left n ps q qs)
  then show ?case using match_path_tail by (cases xs) (fastforce simp: match_path_Nil)+
next
  case (right p ps n qs)
  then show ?case using match_path_tail by (cases xs) (fastforce simp: match_path_Nil)+
qed (auto simp: match_path_Nil neq_Nil_conv elim: match_path.elims)

definition exclusive :: "legacy_route \<Rightarrow> legacy_route \<Rightarrow> bool" where
  "exclusive r s = (lr_verb r \<noteq> lr_verb s \<or> clash (lr_path r) (lr_path s))"

lemma find_exclusive:
  assumes "sorted_wrt exclusive rs" and "r \<in> set rs" and "matching path r"
  shows "find (\<lambda>s. lr_verb s = lr_verb r \<and> matching path s) rs = Some r"
  using assms
proof (induction rs)
  case Nil
  then show ?case by simp
next
  case (Cons s rs)
  show ?case
  proof (cases "s = r")
    case False
    then have "r \<in> set rs" and "exclusive s r" using Cons.prems by auto
    have "\<not> (lr_verb s = lr_verb r \<and> matching path s)"
    proof
      assume a: "lr_verb s = lr_verb r \<and> matching path s"
      then have "clash (lr_path s) (lr_path r)" using \<open>exclusive s r\<close> by (simp add: exclusive_def)
      then have "match_path (lr_path r) path = None"
        by (rule clash_exclusive) (use a in \<open>simp add: matching_def\<close>)
      then show False using Cons.prems(3) by (simp add: matching_def)
    qed
    then have "find (\<lambda>s. lr_verb s = lr_verb r \<and> matching path s) (s # rs)
        = find (\<lambda>s. lr_verb s = lr_verb r \<and> matching path s) rs" by auto
    then show ?thesis using Cons \<open>r \<in> set rs\<close> by simp
  qed (use Cons.prems in simp)
qed

text \<open>
  No legacy route hides another: a request whose path and verb fit a
  route reaches that route, wherever it stands in the tables.
\<close>

theorem legacy_routes_do_not_shadow:
  assumes "r \<in> set legacy_routes" and "matching path r"
  shows "dispatch (lr_verb r) path = Some r"
  unfolding dispatch_def by (rule find_exclusive [OF _ assms]) code_simp

lemma guard_reads: "require_legacy_read_only verb call = Inr u \<longleftrightarrow>
    verb \<in> {''GET'', ''HEAD''} \<and> call = Inr u \<and> has_role u Viewer"
  by (auto simp: require_legacy_read_only_def bindE_eq_Inr require_role_Inr split: if_splits)

text \<open>What a request that passed the guard runs.\<close>

lemma serve_legacy_cases [consumes 1, case_names unserved served]:
  assumes "serve_legacy env req w = (rp, w')"
  obtains "w' = w" and "\<nexists>j. rp = Answered j"
  | r user payload xml where "dispatch (rq_verb req) (rq_path req) = Some r"
      and "rq_verb req \<in> {''GET'', ''HEAD''}" and "rq_caller req = Inr user" and "has_role user Viewer"
      and "run_handler env req (bound r (rq_path req)) payload xml (lr_handler r) w = (rp, w')"
  using assms
  by (auto simp: serve_legacy_def guard_reads split: option.splits if_splits sum.splits body_kind.splits)

text \<open>
  What every entry of the tables satisfies: it serves one of four verbs, a read never carries a
  configuration, and only the paths of devices and routers lead to a client.
\<close>

definition reads_only :: "legacy_handler \<Rightarrow> bool" where
  "reads_only h = (case h of Echo _ \<Rightarrow> True | OnDevice f \<Rightarrow> (\<forall>b n x. written_config (f b n x) = None)
     | OnRouter op \<Rightarrow> written_config op = None)"

definition is_echo :: "legacy_handler \<Rightarrow> bool" where
  "is_echo h = (case h of Echo _ \<Rightarrow> True | _ \<Rightarrow> False)"

definition entry_ok :: "legacy_route \<Rightarrow> bool" where
  "entry_ok r \<longleftrightarrow> lr_verb r \<noteq> ''HEAD'' \<and> (lr_verb r = ''GET'' \<longrightarrow> reads_only (lr_handler r))
     \<and> (is_echo (lr_handler r) \<or> (\<exists>p. lr_path r \<noteq> [] \<and> hd (lr_path r) = Lit p \<and> p \<in> {''devices'', ''routers''}))"

lemma entry_route:
  "entry_ok (legacy_entry verb (Lit p # ps) b (Echo fs)) \<longleftrightarrow> verb \<noteq> ''HEAD''"
  by (simp add: entry_ok_def legacy_entry_def reads_only_def is_echo_def)

lemma placeholder_entries:
  "list_all entry_ok interface_routes"
  "list_all entry_ok (protocol_config_routes @ bgp_neighbor_routes @ static_route_routes)"
  "list_all entry_ok (mpls_instance_routes @ mpls_neighbor_routes @ mpls_static_routes @ mpls_interface_routes)"
  by (simp_all add: entry_route interface_routes_def protocol_config_routes_def bgp_neighbor_routes_def
      static_route_routes_def mpls_instance_routes_def mpls_neighbor_routes_def mpls_static_routes_def
      mpls_interface_routes_def)

lemma controller_entries: "list_all entry_ok router_routes" "list_all entry_ok device_routes"
  by (simp_all add: router_routes_def device_routes_def entry_ok_def legacy_entry_def reads_only_def is_echo_def
      written_config_def)

lemma entries_ok: "list_all entry_ok legacy_routes"
  unfolding legacy_routes_def using placeholder_entries controller_entries by simp

lemma dispatch_entry:
  assumes "dispatch verb path = Some r"
  shows "entry_ok r" and "lr_verb r = verb" and "matching path r"
  using assms entries_ok by (auto simp: dispatch_def list_all_iff dest!: find_Some_iff_set)

lemma matching_hd: "matching path r \<Longrightarrow> lr_path r \<noteq> [] \<Longrightarrow> hd (lr_path r) = Lit p \<Longrightarrow> hd path = p"
  by (cases "lr_path r"; cases path) (auto simp: matching_def split: if_splits)

text \<open>An operation that writes nothing sends no configuration.\<close>

definition no_edit :: "device_call \<times> bool \<Rightarrow> bool" where
  "no_edit e \<longleftrightarrow> (case e of (NetconfEdit _ _, _) \<Rightarrow> False | _ \<Rightarrow> True)"

lemma permitted_no_edit: "permitted_call env c op q \<Longrightarrow> written_config op = None \<Longrightarrow> no_edit (q, ok)"
  by (auto simp: permitted_call_def no_edit_def split: device_call.splits)

lemma permitted_no_edits:
  "list_all (permitted_call env c op \<circ> fst) new \<Longrightarrow> written_config op = None \<Longrightarrow> list_all no_edit new"
  by (auto simp: list_all_iff dest!: permitted_no_edit [rotated])

lemma device_reads:
  assumes "run_for_device env device op w = (a, w')" and "written_config op = None"
  shows "\<exists>new. calls w' = calls w @ new \<and> list_all no_edit new"
  using assms(1)
proof (cases rule: run_for_device_cases)
  case (refused e)
  then show ?thesis by simp
next
  case (answered client r w1 r')
  from client_calls [OF answered(2,3)] obtain new where new: "calls w' = calls w @ new"
    and "\<And>c. client = Ncc c \<Longrightarrow> list_all (permitted_call env c op \<circ> fst) new"
    and "\<And>c. client = Telnet c \<Longrightarrow> new = []" by auto
  then have "list_all no_edit new" using permitted_no_edits [OF _ assms(2)] by (cases client) auto
  then show ?thesis using new by blast
qed

lemma router_reads:
  assumes "run_for_router env device op w = (a, w')" and "written_config op = None"
  shows "\<exists>new. calls w' = calls w @ new \<and> list_all no_edit new"
proof (cases "new_client env device")
  case (Inl e)
  then show ?thesis using assms(1) by (simp add: run_for_router_def)
next
  case (Inr client)
  then obtain r where r: "client_perform env client op (new_references w) = (r, w')"
    using assms(1) by (auto simp: run_for_router_def split: prod.splits sum.splits)
  show ?thesis
  proof (cases client)
    case (Ncc c)
    then have "ncc_perform env c op (new_references w) = (r, w')" using r by (simp add: client_perform_def)
    from calls_onlyD [OF ncc_perform_calls this] permitted_no_edits [OF _ assms(2)]
    show ?thesis by (metis calls_new_references)
  next
    case (Telnet c)
    then have "calls w' = calls w" using r by (simp add: client_perform_def telnet_perform_def on_line_calls)
    then show ?thesis by simp
  qed
qed

text \<open>
  C12. Whatever a caller sends to the legacy routes, no configuration is
  ever written to a device, and nothing at all happens outside unless the request is a GET on a path
  of the devices or of the routers by an authenticated viewer.
\<close>

theorem legacy_requests_only_read:
  assumes "serve_legacy env req w = (rp, w')"
  shows "(\<exists>new. calls w' = calls w @ new \<and> list_all no_edit new)
     \<and> (w' \<noteq> w \<longrightarrow> rq_verb req = ''GET'' \<and> hd (rq_path req) \<in> {''devices'', ''routers''}
          \<and> (\<exists>user. rq_caller req = Inr user \<and> has_role user Viewer))"
  using assms
proof (cases rule: serve_legacy_cases)
  case unserved
  then show ?thesis by simp
next
  case (served r user payload xml)
  note entry = dispatch_entry [OF served(1)]
  then have get: "rq_verb req = ''GET''" using served(2) by (auto simp: entry_ok_def)
  then have reads: "reads_only (lr_handler r)" using entry(1,2) by (simp add: entry_ok_def)
  have "\<exists>new. calls w' = calls w @ new \<and> list_all no_edit new"
    using served(5) reads device_reads router_reads
    by (cases "lr_handler r") (fastforce simp: run_handler_def reads_only_def split: prod.splits)+
  moreover have "w' = w \<or> hd (rq_path req) \<in> {''devices'', ''routers''}"
    using served(5) entry(1,3) matching_hd [of "rq_path req" r]
    by (auto simp: entry_ok_def is_echo_def run_handler_def split: legacy_handler.splits)
  ultimately show ?thesis using get served(3,4) by blast
qed

section \<open>Witnesses\<close>

definition sample_legacy_route :: legacy_route where
  "sample_legacy_route = legacy_entry ''GET'' [Lit ''protocols'', Par ''device'', Lit ''protocols'', Par ''protocol''] NoBodyParam
     (Echo [(''device'', From ''device''), (''protocol'', From ''protocol''), (''config'', Const (JObj []))])"

theorem legacy_routes_do_not_shadow_witness:
  "dispatch ''GET'' [''protocols'', ''r1'', ''protocols'', ''bgp''] = Some sample_legacy_route"
proof -
  have "sample_legacy_route \<in> set legacy_routes"
    by (simp add: legacy_routes_def protocol_config_routes_def sample_legacy_route_def)
  moreover have "matching [''protocols'', ''r1'', ''protocols'', ''bgp''] sample_legacy_route"
    by (simp add: matching_def sample_legacy_route_def legacy_entry_def)
  moreover have "lr_verb sample_legacy_route = ''GET''" by (simp add: sample_legacy_route_def legacy_entry_def)
  ultimately show ?thesis by (metis legacy_routes_do_not_shadow)
qed

definition sample_write :: web_request where
  "sample_write = \<lparr>rq_verb = ''PUT'', rq_path = [''devices'', ''r1'', ''config''], rq_url_path = ''/devices/r1/config'',
     rq_query = [], rq_base_url = ''http://gw/'', rq_origin = None, rq_fetch_site = None,
     rq_content_type = Some ''application/json'', rq_correlation = None,
     rq_body = Parsed (JObj [(''config_xml'', JStr ''<x/>'')]), rq_caller = Inr sample_user\<rparr>"

theorem legacy_requests_only_read_witness:
  "serve_legacy sample_legacy_env sample_write sample_outside = (GuardRefused (HTTPException 501), sample_outside)"
proof -
  obtain rp w' where run: "serve_legacy sample_legacy_env sample_write sample_outside = (rp, w')"
    by (cases "serve_legacy sample_legacy_env sample_write sample_outside")
  have d: "\<exists>r. dispatch ''PUT'' [''devices'', ''r1'', ''config''] = Some r \<and> lr_body r = XmlPayload"
    by (simp add: dispatch_def legacy_routes_def router_routes_def interface_routes_def protocol_config_routes_def
        bgp_neighbor_routes_def static_route_routes_def mpls_instance_routes_def mpls_neighbor_routes_def
        mpls_static_routes_def mpls_interface_routes_def device_routes_def legacy_entry_def matching_def)
  have "require_legacy_read_only ''PUT'' (Inr sample_user) = Inl (HTTPException 501)" by code_simp
  with d run have "rp = GuardRefused (HTTPException 501)"
    by (auto simp: serve_legacy_def sample_write_def)
  moreover have "w' = sample_outside"
    using legacy_requests_only_read [OF run] by (auto simp: sample_write_def)
  ultimately show ?thesis using run by simp
qed

end
