(* ===== verification/DemoSeeding.thy ===== *)
theory DemoSeeding
  imports ProfileLaws FakeDevice Factories Wire
begin

text \<open>
  The data of the loopback demo: its constants (\<open>demo/demo_config.py\<close>), the key, the operational
  configuration and the profiles that \<open>demo/management_seed.py\<close> puts into the gateway store, and the
  device table of \<open>demo/seed_demo_db.py\<close>. A file is its parsed content; Fernet decides which keys it
  accepts. A path is a text, and \<open>dir / name\<close> joins two of them with a slash.
\<close>

definition path_join :: "string \<Rightarrow> string \<Rightarrow> string" where
  "path_join dir name = (if endswith dir ''/'' then dir @ name else dir @ ''/'' @ name)"

section \<open>\<open>demo_config\<close>\<close>

definition demo_loopback_host :: string where "demo_loopback_host = ''127.0.0.1''"

definition netconf_emulator_port :: int where "netconf_emulator_port = 8830"
definition ssh_emulator_port :: int where "ssh_emulator_port = 8822"
definition telnet_emulator_port :: int where "telnet_emulator_port = 8023"
definition ssh_tunnel_emulator_port :: int where "ssh_tunnel_emulator_port = 8823"
definition ssh_shell_emulator_port :: int where "ssh_shell_emulator_port = 8824"
definition socks5_emulator_port :: int where "socks5_emulator_port = 1080"
definition http_connect_emulator_port :: int where "http_connect_emulator_port = 8888"

definition demo_username :: string where "demo_username = ''demo-fake-user''"
definition demo_password :: string where "demo_password = ''demo-fake-pass''"
definition bastion_username :: string where "bastion_username = ''demo-fake-proxy-user''"
definition bastion_password :: string where "bastion_password = ''demo-fake-proxy-pass''"

definition demo_device :: "string \<Rightarrow> string \<Rightarrow> string \<Rightarrow> string \<Rightarrow> int \<Rightarrow> string \<Rightarrow> dict" where
  "demo_device hostname vendor protocol port_name port notes =
     [(''hostname'', JStr hostname), (''vendor'', JStr vendor), (''software'', JStr ''demo''),
      (''protocol'', JStr protocol), (''host'', JStr demo_loopback_host), (port_name, JInt port),
      (''username'', JStr demo_username), (''password'', JStr demo_password), (''notes'', JStr notes)]"

definition demo_devices :: "dict list" where
  "demo_devices = [
     demo_device ''demo-router-netconf'' ''demo-juniper'' ''netconf'' ''netconf_port'' netconf_emulator_port
       ''Real ncclient/paramiko NETCONF-over-SSH session against a local emulator.'',
     demo_device ''demo-router-ssh'' ''demo-ios'' ''ssh'' ''ssh_port'' ssh_emulator_port
       ''Real paramiko SSH exec_command session against a local emulator.'',
     demo_device ''demo-router-telnet'' ''demo-generic'' ''telnet'' ''telnet_port'' telnet_emulator_port
       (''Generic simulated Telnet login shell. Not a Lucent DDM2200 emulation: ''
        @ ''no DDM2200 authentication details or command syntax were supplied, so ''
        @ ''none are emulated here.'')]"

section \<open>The device table\<close>

text \<open>
  The metadata database maps a table to its rows. A row holds every column; a missing key of a
  device is stored as null.
\<close>

definition device_columns :: "string list" where
  "device_columns = [''hostname'', ''vendor'', ''software'', ''protocol'', ''host'', ''netconf_port'',
     ''ssh_port'', ''telnet_port'', ''username'', ''password'', ''notes'']"

datatype demo_error = DemoSafetyError string | StoreRaised exn

definition assert_sqlite_backend :: "string option \<Rightarrow> demo_error + unit" where
  "assert_sqlite_backend backend = check (lower (strip ((case backend of Some s \<Rightarrow> s | None \<Rightarrow> []))) = ''sqlite'')
     (DemoSafetyError ''Refusing to seed the demo device table: DB_BACKEND is not sqlite'')"

definition device_row :: "dict \<Rightarrow> dict" where
  "device_row device = map (\<lambda>c. (c, dget device c)) device_columns"

definition same_hostname :: "dict \<Rightarrow> dict \<Rightarrow> bool" where
  "same_hostname row r = (dget r ''hostname'' = dget row ''hostname'')"

text \<open>The columns of an update: all but the primary key.\<close>

definition overwrite :: "dict \<Rightarrow> dict \<Rightarrow> dict" where
  "overwrite row r = dmerge r (filter (\<lambda>p. fst p \<noteq> ''hostname'') row)"

definition seed_device :: "bool \<Rightarrow> dict \<Rightarrow> dict list \<Rightarrow> dict list" where
  "seed_device reset device rows = (let row = device_row device in
     case find (same_hostname row) rows of
       None \<Rightarrow> rows @ [row]
     | Some _ \<Rightarrow> if reset then map (\<lambda>r. if same_hostname row r then overwrite row r else r) rows else rows)"

definition seed_devices ::
    "string option \<Rightarrow> dict list \<Rightarrow> bool \<Rightarrow> metadata_db \<Rightarrow> demo_error + (nat \<times> metadata_db)" where
  "seed_devices backend devices reset meta =
     bindE (assert_sqlite_backend backend) (\<lambda>_.
     let (columns, rows) = (case meta ''devices'' of Some table \<Rightarrow> table | None \<Rightarrow> (device_columns, [])) in
     Inr (length devices, meta(''devices'' \<mapsto> (columns, fold (seed_device reset) devices rows))))"

section \<open>The encryption key\<close>

text \<open>The storage directory maps the name of a file to its text.\<close>

type_synonym storage_files = "string \<Rightarrow> string option"

definition configure_management_key ::
    "(string \<Rightarrow> bool) \<Rightarrow> string \<Rightarrow> (storage_files, demo_error, string) io" where
  "configure_management_key accepted fresh files =
     (if files ''gateway.key'' = None \<and> files ''gateway.sqlite3'' \<noteq> None
      then (Inl (DemoSafetyError ''Demo database exists but gateway.key is missing; restore its original key.''), files)
      else let files = (if files ''gateway.key'' = None then files(''gateway.key'' \<mapsto> fresh) else files);
               key = strip (case files ''gateway.key'' of Some s \<Rightarrow> s | None \<Rightarrow> []) in
        ((if accepted key then Inr key
          else Inl (DemoSafetyError ''The demo gateway.key is not a valid encryption key.'')), files))"

section \<open>Operational configuration\<close>

definition legacy_settings :: "(string \<times> dict) list" where
  "legacy_settings = [
     (''client_mapping'', [(''key_columns'', JList [JStr ''vendor'', JStr ''protocol'']),
        (''map'', JObj [(''demo-juniper:netconf'', JStr ''app.dal.device.nccclient_juniper.JuniperNCCClient''),
           (''demo-ios:ssh'', JStr ''app.dal.device.nccclient_ios.IOSNCCClient''),
           (''demo-generic:telnet'', JStr ''app.dal.device.telnet_client.GenericTelnetNCCClient'')])]),
     (''proxy_mapping'', [(''key_columns'', JList [JStr ''owner'']), (''map'', JObj [])]),
     (''device_lookup'', [(''table'', JStr ''devices''), (''search_column'', JStr ''hostname'')])]"

text \<open>
  The programs below run in a world and may raise; what was committed before an exception stays. A
  call of the store leaves it as it was when it raises.
\<close>

definition store_io :: "(store \<Rightarrow> exn + ('a \<times> store)) \<Rightarrow> (store, exn, 'a) io" where
  "store_io f st = (case f st of Inl e \<Rightarrow> (Inl e, st) | Inr (x, st') \<Rightarrow> (Inr x, st'))"

definition save_missing :: "string \<times> dict \<Rightarrow> exn \<Rightarrow> (store, exn, dict) io" where
  "save_missing setting e = (case e of
      StoreError r n \<Rightarrow> if n \<noteq> 404 then raiseW e else store_io (store_save_config (fst setting) (JObj (snd setting)))
    | _ \<Rightarrow> raiseW e)"

definition seed_setting :: "string \<times> dict \<Rightarrow> (store, exn, unit) io" where
  "seed_setting setting = bindW (catchW (store_io (store_get_config (fst setting))) (save_missing setting))
     (\<lambda>_. returnW ())"

fun eachW :: "('a \<Rightarrow> ('w, 'e, unit) io) \<Rightarrow> 'a list \<Rightarrow> ('w, 'e, unit) io" where
  "eachW f [] = returnW ()"
| "eachW f (x # xs) = thenW (f x) (eachW f xs)"

definition seed_demo_settings :: "(store, exn, unit) io" where
  "seed_demo_settings = eachW seed_setting legacy_settings"

section \<open>Profiles\<close>

text \<open>
  The state of \<open>seed_management\<close>: the store, the inventory it has listed, and the manifest that
  remembers which profile was made for which slot. \<open>dr\<close> are the draws of the save for a slot.
\<close>

record seeding =
  sd_store :: store
  sd_inventory :: "string \<Rightarrow> dict list"
  sd_manifest :: dict

definition known_row :: "string \<Rightarrow> dict \<Rightarrow> seeding \<Rightarrow> string \<Rightarrow> dict option" where
  "known_row slot payload s resource =
     (case find (\<lambda>row. dget row ''id'' = dget (sd_manifest s) slot) (sd_inventory s resource) of
        Some row \<Rightarrow> Some row
      | None \<Rightarrow> find (\<lambda>row. dget row ''name'' = dget payload ''name'') (sd_inventory s resource))"

type_synonym 'a seeding_io = "(seeding, exn, 'a) io"

definition save_slot ::
    "services \<Rightarrow> (string \<Rightarrow> draws) \<Rightarrow> string \<Rightarrow> string \<Rightarrow> dict \<Rightarrow> dict seeding_io" where
  "save_slot sv dr resource slot payload s =
     (case store_save sv (dr slot) resource (JObj payload) None (sd_store s) of
        Inl e \<Rightarrow> (Inl e, s)
      | Inr (row, st) \<Rightarrow> (Inr row, s\<lparr>sd_store := st,
          sd_inventory := (sd_inventory s)(resource := sd_inventory s resource @ [row])\<rparr>))"

definition ensure ::
    "services \<Rightarrow> (string \<Rightarrow> draws) \<Rightarrow> string \<Rightarrow> string \<Rightarrow> dict \<Rightarrow> json seeding_io" where
  "ensure sv dr resource slot payload =
     bindW (\<lambda>s. (case known_row slot payload s resource of
         Some row \<Rightarrow> returnW row | None \<Rightarrow> save_slot sv dr resource slot payload) s)
       (\<lambda>row s. (Inr (dget row ''id''), s\<lparr>sd_manifest := dset slot (dget row ''id'') (sd_manifest s)\<rparr>))"

definition role_payload :: "string \<Rightarrow> string \<Rightarrow> string \<Rightarrow> dict" where
  "role_payload name username password = [(''name'', JStr name), (''username'', JStr username),
     (''authentication_type'', JStr ''password''), (''password'', JStr password)]"

definition demo_proxies :: "(string \<times> int) list" where
  "demo_proxies = [(''ssh_tunnel'', ssh_tunnel_emulator_port), (''ssh_shell'', ssh_shell_emulator_port),
     (''socks5'', socks5_emulator_port), (''http_connect'', http_connect_emulator_port)]"

definition proxy_payload :: "string \<Rightarrow> string \<times> int \<Rightarrow> json \<Rightarrow> dict" where
  "proxy_payload dir px role = [(''name'', JStr (''Demo '' @ fst px)), (''type'', JStr (fst px)),
     (''host'', JStr demo_loopback_host), (''port'', JInt (snd px)), (''role_account_id'', role)]
     @ (if startswith (fst px) ''ssh_'' then [(''known_hosts_path'', JStr (path_join dir ''demo_bastion_known_hosts''))] else [])"

definition demo_profiles :: "(string \<times> string \<times> int \<times> string option) list" where
  "demo_profiles = [
     (''Direct SSH'', ''ssh'', ssh_emulator_port, None),
     (''Direct NETCONF'', ''netconf'', netconf_emulator_port, None),
     (''Direct Telnet'', ''telnet'', telnet_emulator_port, None),
     (''SSH tunnel NETCONF'', ''netconf'', netconf_emulator_port, Some ''ssh_tunnel''),
     (''SSH shell Telnet'', ''telnet'', telnet_emulator_port, Some ''ssh_shell''),
     (''SOCKS5 SSH'', ''ssh'', ssh_emulator_port, Some ''socks5''),
     (''HTTP CONNECT Telnet'', ''telnet'', telnet_emulator_port, Some ''http_connect'')]"

definition profile_payload ::
    "string \<Rightarrow> dict \<Rightarrow> json \<Rightarrow> string \<times> string \<times> int \<times> string option \<Rightarrow> dict" where
  "profile_payload dir proxy_ids role p = (case p of (name, protocol, port, proxy) \<Rightarrow>
     [(''name'', JStr (''Demo '' @ name)), (''client_type'', JStr ''network''), (''protocol'', JStr protocol),
      (''host'', JStr demo_loopback_host), (''port'', JInt port), (''timeout_seconds'', JInt 8),
      (''role_account_id'', role),
      (''proxy_id'', case proxy of Some px \<Rightarrow> dget proxy_ids px | None \<Rightarrow> JNull),
      (''known_hosts_path'', JStr (path_join dir ''demo_known_hosts''))]
     @ (if proxy = None then [(''connector'', JObj [(''type'', JStr ''direct'')])] else []))"

text \<open>The loop over the proxies returns their identifiers by type.\<close>

fun ensure_proxies ::
    "services \<Rightarrow> (string \<Rightarrow> draws) \<Rightarrow> string \<Rightarrow> json \<Rightarrow> (string \<times> int) list \<Rightarrow> dict \<Rightarrow> dict seeding_io" where
  "ensure_proxies sv dr dir role [] ids = returnW ids"
| "ensure_proxies sv dr dir role (px # pxs) ids =
     bindW (ensure sv dr ''proxies'' (fst px) (proxy_payload dir px role)) (\<lambda>i.
     ensure_proxies sv dr dir role pxs (ids @ [(fst px, i)]))"

definition ensure_profile ::
    "services \<Rightarrow> (string \<Rightarrow> draws) \<Rightarrow> string \<Rightarrow> dict \<Rightarrow> json \<Rightarrow>
       string \<times> string \<times> int \<times> string option \<Rightarrow> unit seeding_io" where
  "ensure_profile sv dr dir ids role p =
     bindW (ensure sv dr ''connections'' (fst p) (profile_payload dir ids role p)) (\<lambda>_. returnW ())"

definition fake_proxy_payload :: "json \<Rightarrow> dict" where
  "fake_proxy_payload role = [(''name'', JStr ''Fake bastion''), (''type'', JStr fake_proxy_type),
     (''host'', JStr fake_proxy_host), (''port'', JInt fake_proxy_port), (''role_account_id'', role)]"

definition fake_connection_payload :: "json \<Rightarrow> json \<Rightarrow> dict" where
  "fake_connection_payload role proxy = [(''name'', JStr ''Fake transport device''), (''client_type'', JStr ''fake''),
     (''protocol'', JStr fake_device_protocol), (''host'', JStr fake_device_host), (''port'', JInt fake_device_port),
     (''timeout_seconds'', JInt 8), (''role_account_id'', role), (''proxy_id'', proxy)]"

definition seed_profiles :: "services \<Rightarrow> (string \<Rightarrow> draws) \<Rightarrow> string \<Rightarrow> unit seeding_io" where
  "seed_profiles sv dr dir =
     bindW (ensure sv dr ''role_accounts'' ''device_role''
       (role_payload ''Demo device login'' demo_username demo_password)) (\<lambda>device_role.
     bindW (ensure sv dr ''role_accounts'' ''bastion_role''
       (role_payload ''Demo bastion login'' bastion_username bastion_password)) (\<lambda>bastion_role.
     bindW (ensure_proxies sv dr dir bastion_role demo_proxies []) (\<lambda>proxy_ids.
     bindW (eachW (ensure_profile sv dr dir proxy_ids device_role) demo_profiles) (\<lambda>_.
     bindW (ensure sv dr ''role_accounts'' ''fake_device_role''
       (role_payload ''Fake device login'' fake_device_username fake_device_password)) (\<lambda>fake_device_role.
     bindW (ensure sv dr ''role_accounts'' ''fake_proxy_role''
       (role_payload ''Fake proxy login'' fake_proxy_username fake_proxy_password)) (\<lambda>fake_proxy_role.
     bindW (ensure sv dr ''proxies'' ''fake_bastion'' (fake_proxy_payload fake_proxy_role)) (\<lambda>fake_proxy.
     bindW (ensure sv dr ''connections'' ''fake_device'' (fake_connection_payload fake_device_role fake_proxy))
       (\<lambda>_. returnW ()))))))))"

definition seeded_resources :: "string list" where
  "seeded_resources = [''role_accounts'', ''proxies'', ''connections'']"

definition list_inventory :: "services \<Rightarrow> store \<Rightarrow> exn + (string \<Rightarrow> dict list)" where
  "list_inventory sv st =
     bindE (mapE (\<lambda>r. bindE (store_list sv r st) (\<lambda>(rows, _). Inr (r, rows))) seeded_resources) (\<lambda>lists.
     Inr (\<lambda>r. case map_of lists r of Some rows \<Rightarrow> rows | None \<Rightarrow> []))"

text \<open>
  The manifest is given as it was read (\<open>None\<close> when there is no file). The result are the counts and
  the manifest that is written at the end.
\<close>

definition read_manifest :: "json option \<Rightarrow> dict option" where
  "read_manifest manifest = (case manifest of None \<Rightarrow> Some [] | Some (JObj m) \<Rightarrow> Some m | Some _ \<Rightarrow> None)"

definition seed_management ::
    "services \<Rightarrow> (string \<Rightarrow> draws) \<Rightarrow> string \<Rightarrow> json option \<Rightarrow> store \<Rightarrow>
       (demo_error + ((string \<times> nat) list \<times> dict)) \<times> store" where
  "seed_management sv dr dir manifest st =
     (case seed_demo_settings st of
        (Inl e, st) \<Rightarrow> (Inl (StoreRaised e), st)
      | (Inr _, st) \<Rightarrow>
        (case read_manifest manifest of
           None \<Rightarrow> (Inl (DemoSafetyError ''Invalid demo seed manifest.''), st)
         | Some m \<Rightarrow>
           (case list_inventory sv st of
              Inl e \<Rightarrow> (Inl (StoreRaised e), st)
            | Inr inventory \<Rightarrow>
              (case seed_profiles sv dr dir \<lparr>sd_store = st, sd_inventory = inventory, sd_manifest = m\<rparr> of
                 (Inl e, s) \<Rightarrow> (Inl (StoreRaised e), sd_store s)
               | (Inr _, s) \<Rightarrow> (Inr (map (\<lambda>r. (r, length (sd_inventory s r))) seeded_resources, sd_manifest s),
                   sd_store s)))))"

end
