(* ===== verification/DemoSeedingLaws.thy ===== *)
theory DemoSeedingLaws
  imports DemoSeeding Instance "HOL-Library.Multiset"
begin

text \<open>
  The laws of the demo seeds. Whatever the outcome, a seed only adds rows; and seeding again, with
  the manifest of a first seed, changes nothing. Both follow the programs call by call.
\<close>

section \<open>Only additions\<close>

definition only_adds :: "db \<Rightarrow> db \<Rightarrow> bool" where
  "only_adds d d' \<longleftrightarrow>
     (\<exists>rs. role_accounts d' = role_accounts d @ rs) \<and> (\<exists>ps. proxies d' = proxies d @ ps)
     \<and> (\<exists>cs. connections d' = connections d @ cs)
     \<and> (\<forall>name v. map_of (configurations d) name = Some v \<longrightarrow> v \<noteq> JNull \<longrightarrow> map_of (configurations d') name = Some v)
     \<and> route_inits d' = route_inits d \<and> static_routes d' = static_routes d \<and> jobs d' = jobs d
     \<and> gateway_transactions d' = gateway_transactions d"

lemma only_adds_refl: "only_adds d d"
  by (simp add: only_adds_def)

lemma only_adds_trans: "only_adds d d' \<Longrightarrow> only_adds d' d'' \<Longrightarrow> only_adds d d''"
  by (fastforce simp: only_adds_def)

lemma save_body_adds:
  assumes "save_body sv fresh res payload None d = Inr (p, d')"
  shows "only_adds d d'" and "configurations d' = configurations d"
    and "\<exists>i. row_keys res d' = row_keys res d @ [i]" and "res' \<noteq> res \<Longrightarrow> row_keys res' d' = row_keys res' d"
  using assms
  by (cases res; cases res';
      auto simp: save_body_def write_row_def Let_def target_of_def put_row_def result_simps execute_eq_Inr
        only_adds_def row_keys_def split: if_splits)+

lemma store_save_body:
  assumes "store_save sv dr name payload None st = Inr (p, st')"
  obtains res payload' where "table_of name = Inr res" and "\<not> st_closed st" and "st_closed st' = st_closed st"
    and "save_body sv (uuid4 dr 0) res payload' None (st_db st) = Inr (p, st_db st')"
  using assms by (auto simp: store_save_def transaction_def result_simps split: if_splits sum.splits)

definition store_adds :: "db \<Rightarrow> store \<Rightarrow> bool" where
  "store_adds d st \<longleftrightarrow> only_adds d (st_db st)"

lemma get_config_unchanged: "store_get_config name st = Inr (c, st') \<Longrightarrow> st' = st"
  by (auto simp: store_get_config_def transaction_def reading_def result_simps split: if_splits sum.splits)

lemma mapping_value_refusals: "refuses {400} (mapping_value_check name v)"
  unfolding mapping_value_check_def bad_config_def by (intro refuses_if refuses_check) simp_all

lemma validate_mapping_refusals: "refuses {400} (validate_mapping name d)"
  unfolding validate_mapping_def
  by (intro refuses_bindE refuses_check refuses_mapE mapping_value_refusals)
    (simp_all add: bad_config_def refuses_def check_eq_Inl split: json.split)

lemma validate_lookup_refusals: "refuses {400} (validate_lookup d)"
  unfolding validate_lookup_def by (intro refuses_bindE) (simp_all add: bad_config_def refuses_def check_eq_Inl)

lemma validate_config_refusals: "name \<in> set config_names \<Longrightarrow> refuses {400} (validate_config name v)"
  using validate_mapping_refusals [of name] validate_lookup_refusals
  by (cases v) (simp_all add: validate_config_def check_def bad_config_def refuses_def)

lemma get_config_missing:
  assumes "store_get_config name st = Inl (StoreError r 404)" and "name \<in> set config_names"
  shows "map_of (configurations (st_db st)) name \<in> {None, Some JNull}"
proof (rule ccontr)
  assume "map_of (configurations (st_db st)) name \<notin> {None, Some JNull}"
  then obtain v where "map_of (configurations (st_db st)) name = Some v" and "v \<noteq> JNull" by auto
  then have "get_config_body name (st_db st) = validate_config name v"
    by (cases v) (simp_all add: get_config_body_def)
  then have "refuses {400} (get_config_body name (st_db st))"
    using validate_config_refusals [OF assms(2)] by simp
  then show False
    using assms by (auto simp: store_get_config_def transaction_def reading_def check_def refuses_def bindE_def
        translate_def split: if_splits sum.splits)
qed

text \<open>The seed of the operational configuration.\<close>

lemma setting_names: "setting \<in> set legacy_settings \<Longrightarrow> fst setting \<in> set config_names"
  by (auto simp: legacy_settings_def config_names_def)

lemma save_config_adds:
  assumes "store_save_config name (JObj d) st = Inr (c, st')"
    and "map_of (configurations (st_db st)) name \<in> {None, Some JNull}"
  shows "only_adds (st_db st) (st_db st')" and "st_closed st' = st_closed st"
  using assms
  by (auto simp: store_save_config_def transaction_def result_simps execute_eq_Inr upsert_config_def only_adds_def
      update_conv' split: if_splits sum.splits)

lemma store_io_cases [consumes 1, case_names raised returned]:
  assumes "store_io f st = (r, st')"
  obtains e where "f st = Inl e" and "r = Inl e" and "st' = st"
  | x where "f st = Inr (x, st')" and "r = Inr x"
  using assms by (auto simp: store_io_def split: sum.splits)

lemma seed_setting_cases [consumes 2, case_names unchanged saved]:
  assumes "seed_setting setting st = (r, st')" and "fst setting \<in> set config_names"
  obtains "st' = st" and "r = Inr () \<Longrightarrow> \<exists>c. store_get_config (fst setting) st = Inr (c, st)"
  | c where "r = Inr ()" and "store_save_config (fst setting) (JObj (snd setting)) st = Inr (c, st')"
      and "map_of (configurations (st_db st)) (fst setting) \<in> {None, Some JNull}"
proof -
  from assms(1) obtain r' where "catchW (store_io (store_get_config (fst setting))) (save_missing setting) st = (r', st')"
    and r: "r = (case r' of Inl e \<Rightarrow> Inl e | Inr _ \<Rightarrow> Inr ())"
    by (auto simp: seed_setting_def bindW_def split: prod.splits sum.splits)
  then show thesis
  proof (cases rule: catchW_cases)
    case (returned x)
    then have get: "store_get_config (fst setting) st = Inr (x, st')"
      by (auto simp: store_io_def split: sum.splits)
    then have "st' = st" by (rule get_config_unchanged)
    then show thesis using get by (intro that(1)) auto
  next
    case (handled e w)
    then have w: "w = st" and get: "store_get_config (fst setting) st = Inl e"
      by (auto simp: store_io_def split: sum.splits)
    show thesis
    proof (cases "\<exists>rs. e = StoreError rs 404")
      case True
      then obtain rs where e: "e = StoreError rs 404" by blast
      then have missing: "map_of (configurations (st_db st)) (fst setting) \<in> {None, Some JNull}"
        using get_config_missing get assms(2) by blast
      have "store_io (store_save_config (fst setting) (JObj (snd setting))) st = (r', st')"
        using handled(2) e w by (simp add: save_missing_def)
      then show thesis
      proof (cases rule: store_io_cases)
        case (raised e)
        then show thesis using that(1) r by simp
      next
        case (returned x)
        then show thesis using that(2) missing r by simp
      qed
    next
      case False
      then have "st' = st" and "\<exists>e. r' = Inl e"
        using handled(2) w by (auto simp: save_missing_def split: exn.splits if_splits)
      then show thesis using r by (intro that(1)) auto
    qed
  qed
qed

lemma seed_setting_adds:
  assumes "fst setting \<in> set config_names"
  shows "keeps (\<lambda>st. only_adds d (st_db st)) (seed_setting setting)"
proof (rule keepsI)
  fix st r st' assume "only_adds d (st_db st)" and "seed_setting setting st = (r, st')"
  from this(2) assms show "only_adds d (st_db st')"
  proof (cases rule: seed_setting_cases)
    case unchanged
    then show ?thesis using \<open>only_adds d (st_db st)\<close> by simp
  next
    case (saved c)
    then show ?thesis using save_config_adds(1) only_adds_trans [OF \<open>only_adds d (st_db st)\<close>] by blast
  qed
qed

lemma keeps_eachW: "(\<And>x. x \<in> set xs \<Longrightarrow> keeps P (f x)) \<Longrightarrow> keeps P (eachW f xs)"
  by (induction xs) (auto intro!: keeps_pure keeps_thenW)

lemma seed_demo_settings_adds: "keeps (\<lambda>st. only_adds d (st_db st)) seed_demo_settings"
  unfolding seed_demo_settings_def by (intro keeps_eachW seed_setting_adds setting_names)

text \<open>The seed of the profiles.\<close>

lemma ensure_adds: "keeps (\<lambda>s. only_adds d (st_db (sd_store s))) (ensure sv dr resource slot payload)"
proof -
  have "keeps (\<lambda>s. only_adds d (st_db (sd_store s)))
      (\<lambda>s. (case known_row slot payload s resource of
         Some row \<Rightarrow> returnW row | None \<Rightarrow> save_slot sv dr resource slot payload) s)"
  proof (rule keepsI)
    fix s r s'
    assume adds: "only_adds d (st_db (sd_store s))"
      and run: "(case known_row slot payload s resource of
         Some row \<Rightarrow> returnW row | None \<Rightarrow> save_slot sv dr resource slot payload) s = (r, s')"
    show "only_adds d (st_db (sd_store s'))"
    proof (cases "sd_store s' = sd_store s")
      case False
      then obtain row where "store_save sv (dr slot) resource (JObj payload) None (sd_store s) = Inr (row, sd_store s')"
        using run by (auto simp: save_slot_def split: option.splits sum.splits)
      then obtain res payload' where "save_body sv (uuid4 (dr slot) 0) res payload' None (st_db (sd_store s))
          = Inr (row, st_db (sd_store s'))"
        by (rule store_save_body)
      then show ?thesis using save_body_adds(1) only_adds_trans [OF adds] by blast
    qed (use adds in simp)
  qed
  then show ?thesis
    unfolding ensure_def by (rule keeps_bindW) (auto simp: keeps_def)
qed

lemma ensure_proxies_adds:
  "keeps (\<lambda>s. only_adds d (st_db (sd_store s))) (ensure_proxies sv dr dir role pxs ids)"
  by (induction pxs arbitrary: ids) (auto intro!: keeps_pure keeps_bindW ensure_adds)

lemma seed_profiles_adds: "keeps (\<lambda>s. only_adds d (st_db (sd_store s))) (seed_profiles sv dr dir)"
  unfolding seed_profiles_def
  by (intro keeps_bindW ensure_adds ensure_proxies_adds keeps_eachW keeps_pure)
    (simp_all add: ensure_profile_def keeps_bindW ensure_adds keeps_pure)

text \<open>
  Seeding the demo never changes or removes anything the store holds, whether
  it succeeds or is refused half way: every role account, proxy, connection and operational
  configuration stays as it was, new rows come after the old ones, and routes, jobs and the audit
  log are not touched.
\<close>

theorem seeding_only_adds:
  assumes "seed_management sv dr dir manifest st = (r, st')"
  shows "only_adds (st_db st) (st_db st')"
proof -
  obtain r1 st1 where first: "seed_demo_settings st = (r1, st1)" by (cases "seed_demo_settings st")
  then have one: "only_adds (st_db st) (st_db st1)"
    by (rule keepsD [OF seed_demo_settings_adds only_adds_refl])
  have two: "only_adds (st_db st) (st_db (sd_store s))"
    if "seed_profiles sv dr dir \<lparr>sd_store = st1, sd_inventory = inventory, sd_manifest = m\<rparr> = (r2, s)" for inventory m r2 s
    by (rule keepsD [OF seed_profiles_adds _ that]) (simp add: one)
  show ?thesis
    using assms first one two
    by (auto simp: seed_management_def split: sum.splits option.splits prod.splits)
qed

section \<open>Seeding again\<close>

text \<open>
  The configurations: a name that is served stays served, and after a successful seed all are.
\<close>

definition served :: "services \<Rightarrow> string set \<Rightarrow> store \<Rightarrow> bool" where
  "served sv names st \<longleftrightarrow> profiles_ok sv (st_db st) \<and> \<not> st_closed st
     \<and> (\<forall>name \<in> names. \<exists>c. get_config_body name (st_db st) = Inr c)"

lemma get_config_served:
  "\<not> st_closed st \<Longrightarrow> name \<in> set config_names \<Longrightarrow>
     (\<exists>c. store_get_config name st = Inr (c, st)) \<longleftrightarrow> (\<exists>c. get_config_body name (st_db st) = Inr c)"
  by (auto simp: store_get_config_def transaction_def reading_def check_def bindE_def split: sum.splits)

lemma save_config_served:
  assumes "store_save_config name (JObj d) st = Inr (c, st')" and "served sv names st"
  shows "served sv (insert name names) st'"
proof -
  have open_ok: "schema_ok (st_db st)" "\<not> st_closed st"
    using assms(2) by (simp_all add: served_def profiles_ok_def)
  from saved_config_is_served [OF this, of name "JObj d"] assms(1)
  have st': "schema_ok (st_db st')" "store_get_config name st' = Inr (c, st')"
    "\<And>other. other \<noteq> name \<Longrightarrow> get_config_body other (st_db st') = get_config_body other (st_db st)"
    by (auto split: sum.splits)
  have "readable sv (st_db st') = readable sv (st_db st)" and closed: "st_closed st' = st_closed st"
    using assms(1) by (auto simp: store_save_config_def transaction_def result_simps execute_eq_Inr
        upsert_config_def readable_def split: if_splits sum.splits)
  moreover have "\<exists>c. get_config_body name (st_db st') = Inr c"
    using st'(2) by (auto simp: store_get_config_def transaction_def reading_def result_simps split: if_splits sum.splits)
  ultimately have "profiles_ok sv (st_db st')" and "\<not> st_closed st'"
    and "\<exists>c. get_config_body other (st_db st') = Inr c" if "other \<in> insert name names" for other
    using assms(2) st'(1) st'(3) [of other] that by (cases "other = name"; simp add: served_def profiles_ok_def)+
  then show ?thesis by (auto simp: served_def)
qed

lemma seed_setting_served:
  assumes "seed_setting setting st = (Inr (), st')" and "fst setting \<in> set config_names" and "served sv names st"
  shows "served sv (insert (fst setting) names) st'"
  using assms(1,2)
proof (cases rule: seed_setting_cases)
  case unchanged
  then show ?thesis using assms(2,3) get_config_served [of st "fst setting"] by (auto simp: served_def)
next
  case (saved c)
  then show ?thesis using save_config_served assms(3) by blast
qed

lemma eachW_served:
  assumes "eachW seed_setting ss st = (Inr (), st')" and "fst ` set ss \<subseteq> set config_names" and "served sv names st"
  shows "served sv (names \<union> fst ` set ss) st'"
  using assms
proof (induction ss arbitrary: st names)
  case Nil
  then show ?case by simp
next
  case (Cons setting ss)
  from Cons.prems(1) obtain st1 where one: "seed_setting setting st = (Inr (), st1)"
    and rest: "eachW seed_setting ss st1 = (Inr (), st')"
    by (auto elim: thenW_InrE)
  have "served sv (insert (fst setting) names) st1"
    using seed_setting_served [OF one] Cons.prems by simp
  from Cons.IH [OF rest _ this] Cons.prems(2) show ?case by simp
qed

lemma seed_setting_again:
  assumes "served sv names st" and "fst setting \<in> names" and "fst setting \<in> set config_names"
  shows "seed_setting setting st = (Inr (), st)"
proof -
  obtain c where "store_get_config (fst setting) st = Inr (c, st)"
    using assms get_config_served [of st "fst setting"] by (auto simp: served_def)
  then show ?thesis by (simp add: seed_setting_def bindW_def catchW_def store_io_def)
qed

lemma seed_settings_again:
  "served sv (fst ` set legacy_settings) st \<Longrightarrow> seed_demo_settings st = (Inr (), st)"
proof -
  assume ok: "served sv (fst ` set legacy_settings) st"
  have "eachW seed_setting ss st = (Inr (), st)" if "set ss \<subseteq> set legacy_settings" for ss
    using that
  proof (induction ss)
    case (Cons setting ss)
    then have "seed_setting setting st = (Inr (), st)"
      by (intro seed_setting_again [OF ok]) (auto intro: setting_names)
    then show ?case using Cons by (simp add: thenW_def bindW_def)
  qed simp
  then show ?thesis by (simp add: seed_demo_settings_def)
qed

text \<open>
  The inventory holds exactly the identifiers of the rows; a slot is remembered when the manifest
  names a row of the inventory.
\<close>

definition listed :: "(string \<Rightarrow> dict list) \<Rightarrow> db \<Rightarrow> bool" where
  "listed inventory d \<longleftrightarrow> (\<forall>name \<in> set seeded_resources. \<forall>res. table_of name = Inr res \<longrightarrow>
     mset (map (\<lambda>p. dget p ''id'') (inventory name)) = mset (map JStr (row_keys res d)))"

definition tracks :: "services \<Rightarrow> seeding \<Rightarrow> bool" where
  "tracks sv s \<longleftrightarrow> served sv (fst ` set legacy_settings) (sd_store s) \<and> listed (sd_inventory s) (st_db (sd_store s))"

definition remembers :: "seeding \<Rightarrow> string \<times> string \<Rightarrow> bool" where
  "remembers s p \<longleftrightarrow> dhas (sd_manifest s) (snd p)
     \<and> dget (sd_manifest s) (snd p) \<in> (\<lambda>row. dget row ''id'') ` set (sd_inventory s (fst p))"

lemma dset_same: "dhas m k \<Longrightarrow> dget m k = v \<Longrightarrow> dset k v m = m"
proof (induction m)
  case (Cons p m)
  then show ?case by (cases p) (auto simp: dset_def dhas_def dget_def split: if_splits)
qed (simp add: dhas_def)

lemma ensure_remembered:
  assumes "remembers s (resource, slot)"
  shows "ensure sv dr resource slot payload s = (Inr (dget (sd_manifest s) slot), s)"
proof -
  from assms obtain row where "find (\<lambda>row. dget row ''id'' = dget (sd_manifest s) slot) (sd_inventory s resource) = Some row"
    by (cases "find (\<lambda>row. dget row ''id'' = dget (sd_manifest s) slot) (sd_inventory s resource)")
      (auto simp: remembers_def find_None_iff)
  moreover from this have "dget row ''id'' = dget (sd_manifest s) slot" by (auto dest: find_Some_iff_set)
  moreover have "dset slot (dget (sd_manifest s) slot) (sd_manifest s) = sd_manifest s"
    using assms by (intro dset_same) (simp_all add: remembers_def)
  ultimately show ?thesis by (simp add: ensure_def known_row_def bindW_def)
qed

text \<open>A slot that is not remembered: afterwards it is, and what was remembered still is.\<close>

lemma saved_key:
  assumes "save_body sv fresh res payload None d = Inr (p, d')" and "row_keys res d' = row_keys res d @ [i]"
    and "profiles_ok sv d"
  shows "i = fresh"
proof (cases res)
  case Connections
  then obtain previous row where prev: "previous_of cn_id (stored_connection sv) None (connections d) = Inr previous"
    and row: "save_connection sv d fresh payload previous = Inr row" and d': "connections d' = connections d @ [row]"
    using assms(1) by (auto simp: save_body_def write_row_def Let_def target_of_def put_row_def key_of_def
        result_simps execute_eq_Inr)
  have "readable sv d" using assms(3) by (simp add: profiles_ok_def)
  then have "cn_id row = fresh" by (rule save_connection_Inr(1) [OF row previous_of_connectors [OF _ prev]])
  then show ?thesis using assms(2) d' Connections by (simp add: row_keys_def)
qed (use assms(1,2) in \<open>auto simp: save_body_def write_row_def Let_def target_of_def put_row_def key_of_def result_simps
    execute_eq_Inr row_keys_def save_role_Inr(1) save_proxy_Inr(1)\<close>)

lemma store_save_tracks:
  assumes "store_save sv dr name payload None st = Inr (p, st')" and "vault_law sv"
    and "served sv names st" and "listed inventory (st_db st)" and "name \<in> set seeded_resources"
  shows "served sv names st'" and "listed (inventory(name := inventory name @ [p])) (st_db st')"
proof -
  from assms(1) obtain res payload' where t: "table_of name = Inr res" and c: "\<not> st_closed st" "st_closed st' = st_closed st"
    and b: "save_body sv (uuid4 dr 0) res payload' None (st_db st) = Inr (p, st_db st')"
    by (rule store_save_body)
  have ok: "profiles_ok sv (st_db st)" using assms(3) by (simp add: served_def)
  note keeps = save_body_keeps [OF b ok assms(2)]
  show "served sv names st'"
    using assms(3) keeps(1) c save_body_adds(2) [OF b] by (simp add: served_def get_config_body_def)
  obtain i where i: "row_keys res (st_db st') = row_keys res (st_db st) @ [i]"
    using save_body_adds(3) [OF b] by blast
  have "i = uuid4 dr 0"
    using b i ok by (rule saved_key)
  then have id: "dget p ''id'' = JStr i" using keeps(2) by (simp add: target_of_def key_of_def)
  have others: "row_keys res' (st_db st') = row_keys res' (st_db st)" if "res' \<noteq> res" for res'
    by (rule save_body_adds(4) [OF b that])
  have inj: "other = name" if "table_of other = Inr res" "other \<in> set seeded_resources" for other
    using that t assms(5) by (auto simp: seeded_resources_def table_of_def split: if_splits)
  show "listed (inventory(name := inventory name @ [p])) (st_db st')"
    unfolding listed_def
  proof (intro ballI allI impI)
    fix other res' assume o: "other \<in> set seeded_resources" "table_of other = Inr res'"
    then have old: "mset (map (\<lambda>p. dget p ''id'') (inventory other)) = mset (map JStr (row_keys res' (st_db st)))"
      using assms(4) by (simp add: listed_def)
    show "mset (map (\<lambda>p. dget p ''id'') ((inventory(name := inventory name @ [p])) other))
        = mset (map JStr (row_keys res' (st_db st')))"
    proof (cases "other = name")
      case True
      then show ?thesis using o t old i id by simp
    next
      case False
      then have "res' \<noteq> res" using o inj by auto
      then show ?thesis using False old others by simp
    qed
  qed
qed

lemma ensure_remembers:
  assumes "ensure sv dr resource slot payload s = (Inr i, s')"
  shows "remembers s' (resource, slot)" and "snd p \<noteq> slot \<Longrightarrow> remembers s p \<Longrightarrow> remembers s' p"
    and "vault_law sv \<Longrightarrow> resource \<in> set seeded_resources \<Longrightarrow> tracks sv s \<Longrightarrow> tracks sv s'"
proof -
  from assms obtain row s1 where pick: "(case known_row slot payload s resource of
         Some row \<Rightarrow> returnW row | None \<Rightarrow> save_slot sv dr resource slot payload) s = (Inr row, s1)"
    and s': "s' = s1\<lparr>sd_manifest := dset slot (dget row ''id'') (sd_manifest s1)\<rparr>"
    by (auto simp: ensure_def elim!: bindW_InrE)
  have manifest: "sd_manifest s1 = sd_manifest s"
    and grows: "set (sd_inventory s r) \<subseteq> set (sd_inventory s1 r)" for r
    using pick by (auto simp: save_slot_def split: option.splits sum.splits)
  have row: "row \<in> set (sd_inventory s1 resource)"
    using pick by (auto simp: save_slot_def known_row_def split: option.splits sum.splits dest!: find_Some_iff_set)
  show "remembers s' (resource, slot)" using row s' by (auto simp: remembers_def)
  show "remembers s' p" if "snd p \<noteq> slot" "remembers s p"
    using that s' manifest grows [of "fst p"] by (auto simp: remembers_def)
  show "tracks sv s'" if "vault_law sv" "resource \<in> set seeded_resources" "tracks sv s"
  proof -
    have "tracks sv s1"
    proof (cases "known_row slot payload s resource")
      case None
      then obtain st where "store_save sv (dr slot) resource (JObj payload) None (sd_store s) = Inr (row, st)"
        and "s1 = s\<lparr>sd_store := st, sd_inventory := (sd_inventory s)(resource := sd_inventory s resource @ [row])\<rparr>"
        using pick by (auto simp: save_slot_def split: sum.splits)
      moreover have "served sv (fst ` set legacy_settings) (sd_store s)" and "listed (sd_inventory s) (st_db (sd_store s))"
        using that(3) by (simp_all add: tracks_def)
      note store_save_tracks [OF calculation(1) that(1) this that(2)]
      ultimately show ?thesis by (simp add: tracks_def)
    next
      case (Some known)
      then show ?thesis using pick that(3) by simp
    qed
    then show ?thesis using s' by (simp add: tracks_def)
  qed
qed

text \<open>Both laws along the loops and the whole program.\<close>

definition holds :: "services \<Rightarrow> (string \<times> string) set \<Rightarrow> seeding \<Rightarrow> bool" where
  "holds sv S s \<longleftrightarrow> tracks sv s \<and> (\<forall>p \<in> S. remembers s p)"

lemma ensure_holds:
  assumes "ensure sv dr resource slot payload s = (Inr i, s')" and "vault_law sv"
    and "resource \<in> set seeded_resources" and "slot \<notin> snd ` S" and "holds sv S s"
  shows "holds sv (insert (resource, slot) S) s'"
proof -
  have "remembers s' p" if "p \<in> S" for p
    using ensure_remembers(2) [OF assms(1), of p] that assms(4,5) by (auto simp: holds_def)
  then show ?thesis using ensure_remembers(1,3) [OF assms(1)] assms by (auto simp: holds_def)
qed

lemma ensure_proxies_holds:
  assumes "ensure_proxies sv dr dir role pxs ids s = (Inr ids', s')" and "vault_law sv"
    and "distinct (map fst pxs)" and "fst ` set pxs \<inter> snd ` S = {}" and "holds sv S s"
  shows "holds sv (S \<union> (\<lambda>px. (''proxies'', fst px)) ` set pxs) s'"
  using assms
proof (induction pxs arbitrary: ids s S)
  case Nil
  then show ?case by simp
next
  case (Cons px pxs)
  from Cons.prems(1) obtain i s1 where one: "ensure sv dr ''proxies'' (fst px) (proxy_payload dir px role) s = (Inr i, s1)"
    and rest: "ensure_proxies sv dr dir role pxs (ids @ [(fst px, i)]) s1 = (Inr ids', s')"
    by (auto elim: bindW_InrE)
  have "holds sv (insert (''proxies'', fst px) S) s1"
    using Cons.prems by (intro ensure_holds [OF one]) (auto simp: seeded_resources_def)
  from Cons.IH [OF rest _ _ _ this] Cons.prems show ?case by auto
qed

lemma ensure_profiles_holds:
  assumes "eachW (ensure_profile sv dr dir ids role) ps s = (Inr u, s')" and "vault_law sv"
    and "distinct (map fst ps)" and "fst ` set ps \<inter> snd ` S = {}" and "holds sv S s"
  shows "holds sv (S \<union> (\<lambda>p. (''connections'', fst p)) ` set ps) s'"
  using assms
proof (induction ps arbitrary: s S)
  case Nil
  then show ?case by simp
next
  case (Cons p ps)
  from Cons.prems(1) obtain i s1 where one: "ensure sv dr ''connections'' (fst p) (profile_payload dir ids role p) s = (Inr i, s1)"
    and rest: "eachW (ensure_profile sv dr dir ids role) ps s1 = (Inr u, s')"
    by (auto simp: ensure_profile_def [of sv dr dir ids role p] elim!: thenW_InrE bindW_InrE)
  have "holds sv (insert (''connections'', fst p) S) s1"
    using Cons.prems by (intro ensure_holds [OF one]) (auto simp: seeded_resources_def)
  from Cons.IH [OF rest _ _ _ this] Cons.prems show ?case by auto
qed

definition demo_slots :: "(string \<times> string) set" where
  "demo_slots = {(''role_accounts'', ''device_role''), (''role_accounts'', ''bastion_role''),
     (''role_accounts'', ''fake_device_role''), (''role_accounts'', ''fake_proxy_role''),
     (''proxies'', ''fake_bastion''), (''connections'', ''fake_device'')}
     \<union> (\<lambda>px. (''proxies'', fst px)) ` set demo_proxies \<union> (\<lambda>p. (''connections'', fst p)) ` set demo_profiles"

lemma demo_names:
  "map fst demo_proxies = [''ssh_tunnel'', ''ssh_shell'', ''socks5'', ''http_connect'']"
  "map fst demo_profiles = [''Direct SSH'', ''Direct NETCONF'', ''Direct Telnet'', ''SSH tunnel NETCONF'',
     ''SSH shell Telnet'', ''SOCKS5 SSH'', ''HTTP CONNECT Telnet'']"
  by (simp_all add: demo_proxies_def demo_profiles_def)

lemma demo_name_sets:
  "fst ` set demo_proxies = {''ssh_tunnel'', ''ssh_shell'', ''socks5'', ''http_connect''}"
  "fst ` set demo_profiles = {''Direct SSH'', ''Direct NETCONF'', ''Direct Telnet'', ''SSH tunnel NETCONF'',
     ''SSH shell Telnet'', ''SOCKS5 SSH'', ''HTTP CONNECT Telnet''}"
  using demo_names [THEN arg_cong [where f = set]] by simp_all

lemma slot_names:
  "snd ` (\<lambda>px. (''proxies'', fst px)) ` set demo_proxies = fst ` set demo_proxies"
  "snd ` (\<lambda>p. (''connections'', fst p)) ` set demo_profiles = fst ` set demo_profiles"
  by force+

lemma seed_profiles_holds:
  assumes "seed_profiles sv dr dir s = (Inr u, s')" and "vault_law sv" and "holds sv {} s"
  shows "holds sv demo_slots s'"
proof -
  from assms(1) obtain r1 s1 r2 s2 ids s3 s4 r5 s5 r6 s6 r7 s7 r8 where
    e1: "ensure sv dr ''role_accounts'' ''device_role''
       (role_payload ''Demo device login'' demo_username demo_password) s = (Inr r1, s1)" and
    e2: "ensure sv dr ''role_accounts'' ''bastion_role''
       (role_payload ''Demo bastion login'' bastion_username bastion_password) s1 = (Inr r2, s2)" and
    e3: "ensure_proxies sv dr dir r2 demo_proxies [] s2 = (Inr ids, s3)" and
    e4: "eachW (ensure_profile sv dr dir ids r1) demo_profiles s3 = (Inr (), s4)" and
    e5: "ensure sv dr ''role_accounts'' ''fake_device_role''
       (role_payload ''Fake device login'' fake_device_username fake_device_password) s4 = (Inr r5, s5)" and
    e6: "ensure sv dr ''role_accounts'' ''fake_proxy_role''
       (role_payload ''Fake proxy login'' fake_proxy_username fake_proxy_password) s5 = (Inr r6, s6)" and
    e7: "ensure sv dr ''proxies'' ''fake_bastion'' (fake_proxy_payload r6) s6 = (Inr r7, s7)" and
    e8: "ensure sv dr ''connections'' ''fake_device'' (fake_connection_payload r5 r7) s7 = (Inr r8, s')"
    unfolding seed_profiles_def by (auto elim!: bindW_InrE)
  note resources = seeded_resources_def demo_names demo_name_sets slot_names image_Un
  have h1: "holds sv {(''role_accounts'', ''device_role'')} s1"
    by (rule ensure_holds [OF e1 assms(2) _ _ assms(3)]) (simp_all add: resources)
  have h2: "holds sv {(''role_accounts'', ''bastion_role''), (''role_accounts'', ''device_role'')} s2"
    by (rule ensure_holds [OF e2 assms(2) _ _ h1]) (simp_all add: resources)
  let ?p = "(\<lambda>px. (''proxies'', fst px)) ` set demo_proxies"
  let ?c = "(\<lambda>p. (''connections'', fst p)) ` set demo_profiles"
  have h3: "holds sv ({(''role_accounts'', ''bastion_role''), (''role_accounts'', ''device_role'')} \<union> ?p) s3"
    by (rule ensure_proxies_holds [OF e3 assms(2) _ _ h2]) (simp_all add: resources)
  have h4: "holds sv ({(''role_accounts'', ''bastion_role''), (''role_accounts'', ''device_role'')} \<union> ?p \<union> ?c) s4"
    by (rule ensure_profiles_holds [OF e4 assms(2) _ _ h3]) (simp_all add: resources)
  note h5 = ensure_holds [OF e5 assms(2) _ _ h4]
  note h6 = ensure_holds [OF e6 assms(2) _ _ h5]
  note h7 = ensure_holds [OF e7 assms(2) _ _ h6]
  note h8 = ensure_holds [OF e8 assms(2) _ _ h7]
  have sets: "insert a (insert b (insert c (insert d ({e, f} \<union> P \<union> C)))) = {f, e, d, c, b, a} \<union> P \<union> C"
    for a b c d e f :: "string \<times> string" and P C
    by blast
  show ?thesis
    unfolding demo_slots_def by (rule h8 [unfolded sets]) (simp_all add: resources)
qed

text \<open>When every slot is remembered, nothing is left to do.\<close>

lemma ensure_proxies_again:
  assumes "\<forall>px \<in> set pxs. remembers s (''proxies'', fst px)"
  shows "\<exists>ids'. ensure_proxies sv dr dir role pxs ids s = (Inr ids', s)"
  using assms by (induction pxs arbitrary: ids) (simp_all add: bindW_def ensure_remembered)

lemma ensure_profiles_again:
  assumes "\<forall>p \<in> set ps. remembers s (''connections'', fst p)"
  shows "eachW (ensure_profile sv dr dir ids role) ps s = (Inr (), s)"
  using assms by (induction ps) (simp_all add: thenW_def bindW_def ensure_profile_def ensure_remembered)

lemma seed_profiles_again:
  assumes "\<forall>p \<in> demo_slots. remembers s p"
  shows "seed_profiles sv dr dir s = (Inr (), s)"
proof -
  have slots: "remembers s (''role_accounts'', ''device_role'')" "remembers s (''role_accounts'', ''bastion_role'')"
    "remembers s (''role_accounts'', ''fake_device_role'')" "remembers s (''role_accounts'', ''fake_proxy_role'')"
    "remembers s (''proxies'', ''fake_bastion'')" "remembers s (''connections'', ''fake_device'')"
    "\<forall>px \<in> set demo_proxies. remembers s (''proxies'', fst px)"
    "\<forall>p \<in> set demo_profiles. remembers s (''connections'', fst p)"
    using assms by (auto simp: demo_slots_def)
  obtain ids where "ensure_proxies sv dr dir (dget (sd_manifest s) ''bastion_role'') demo_proxies [] s = (Inr ids, s)"
    using ensure_proxies_again [OF slots(7)] by blast
  then show ?thesis
    using slots by (simp add: seed_profiles_def bindW_def ensure_remembered ensure_profiles_again)
qed

lemma store_list_ids:
  assumes "profiles_ok sv (st_db st)" and "\<not> st_closed st" and "table_of name = Inr res"
  shows "\<exists>l. store_list sv name st = Inr (l, st)
     \<and> mset (map (\<lambda>p. dget p ''id'') l) = mset (map JStr (row_keys res (st_db st)))"
proof -
  have sorted: "mset (map key (sort_key f rows)) = mset (map key rows)" for key :: "'r \<Rightarrow> string" and f :: "'r \<Rightarrow> string \<times> string" and rows
    by simp
  from reads_total [OF assms] obtain l where l: "store_list sv name st = Inr (l, st)"
    and ids: "map (\<lambda>p. dget p ''id'') l = map JStr (case res of
         RoleAccounts \<Rightarrow> map ra_id (sort_key (\<lambda>r. (ra_name r, ra_id r)) (role_accounts (st_db st)))
       | Proxies \<Rightarrow> map px_id (sort_key (\<lambda>p. (px_name p, px_id p)) (proxies (st_db st)))
       | Connections \<Rightarrow> map cn_id (sort_key (\<lambda>c. (cn_name c, cn_id c)) (connections (st_db st))))"
    by blast
  have "mset (map (\<lambda>p. dget p ''id'') l) = mset (map JStr (row_keys res (st_db st)))"
    unfolding ids by (cases res) (simp_all add: row_keys_def)
  with l show ?thesis by blast
qed

lemma list_inventory_listed:
  assumes "profiles_ok sv (st_db st)" and "\<not> st_closed st"
  shows "\<exists>inventory. list_inventory sv st = Inr inventory \<and> listed inventory (st_db st)"
proof -
  have tables: "table_of ''role_accounts'' = Inr RoleAccounts" "table_of ''proxies'' = Inr Proxies"
    "table_of ''connections'' = Inr Connections"
    by code_simp+
  obtain rs ps cs where "store_list sv ''role_accounts'' st = Inr (rs, st)" "store_list sv ''proxies'' st = Inr (ps, st)"
    "store_list sv ''connections'' st = Inr (cs, st)"
    and "mset (map (\<lambda>p. dget p ''id'') rs) = mset (map JStr (row_keys RoleAccounts (st_db st)))"
    "mset (map (\<lambda>p. dget p ''id'') ps) = mset (map JStr (row_keys Proxies (st_db st)))"
    "mset (map (\<lambda>p. dget p ''id'') cs) = mset (map JStr (row_keys Connections (st_db st)))"
    using store_list_ids [OF assms tables(1)] store_list_ids [OF assms tables(2)] store_list_ids [OF assms tables(3)]
    by blast
  then show ?thesis
    using tables by (simp add: list_inventory_def seeded_resources_def listed_def)
qed

text \<open>The shape of a seed that succeeded.\<close>

lemma seed_management_Inr:
  assumes "seed_management sv dr dir manifest st = (Inr (counts, m), st')"
  obtains st1 m0 inventory s where "seed_demo_settings st = (Inr (), st1)" and "list_inventory sv st1 = Inr inventory"
    and "seed_profiles sv dr dir \<lparr>sd_store = st1, sd_inventory = inventory, sd_manifest = m0\<rparr> = (Inr (), s)"
    and "counts = map (\<lambda>r. (r, length (sd_inventory s r))) seeded_resources" and "m = sd_manifest s" and "st' = sd_store s"
  using assms by (auto simp: seed_management_def split: prod.splits sum.splits option.splits)

lemma listed_length:
  assumes "listed inventory d" and "listed inventory' d" and "name \<in> set seeded_resources" and "table_of name = Inr res"
  shows "length (inventory name) = length (inventory' name)"
    and "(\<lambda>row. dget row ''id'') ` set (inventory name) = (\<lambda>row. dget row ''id'') ` set (inventory' name)"
proof -
  have "mset (map (\<lambda>p. dget p ''id'') (inventory name)) = mset (map (\<lambda>p. dget p ''id'') (inventory' name))"
    using assms by (simp add: listed_def)
  from this [THEN arg_cong [where f = size]] this [THEN arg_cong [where f = set_mset]]
  show "length (inventory name) = length (inventory' name)"
    and "(\<lambda>row. dget row ''id'') ` set (inventory name) = (\<lambda>row. dget row ''id'') ` set (inventory' name)"
    by simp_all
qed

lemma seeded_tables: "name \<in> set seeded_resources \<Longrightarrow> \<exists>res. table_of name = Inr res"
  by (auto simp: seeded_resources_def table_of_def)

lemma slot_resources: "p \<in> demo_slots \<Longrightarrow> fst p \<in> set seeded_resources"
  by (auto simp: demo_slots_def seeded_resources_def)

text \<open>
  C36. Seeding is idempotent: once a seed of a consistent store has
  succeeded, seeding again with the manifest it has written succeeds, reports the same counts,
  writes the same manifest and leaves the store exactly as it is.
\<close>

theorem seeding_again_changes_nothing:
  assumes "vault_law sv" and "profiles_ok sv (st_db st)" and "\<not> st_closed st"
    and "seed_management sv dr dir manifest st = (Inr (counts, m), st')"
  shows "seed_management sv dr' dir (Some (JObj m)) st' = (Inr (counts, m), st')"
  using assms(4)
proof (rule seed_management_Inr)
  fix st1 m0 inventory s
  assume settings: "seed_demo_settings st = (Inr (), st1)" and list: "list_inventory sv st1 = Inr inventory"
    and run: "seed_profiles sv dr dir \<lparr>sd_store = st1, sd_inventory = inventory, sd_manifest = m0\<rparr> = (Inr (), s)"
    and counts: "counts = map (\<lambda>r. (r, length (sd_inventory s r))) seeded_resources"
    and m: "m = sd_manifest s" and st': "st' = sd_store s"
  have "served sv {} st" using assms(2,3) by (simp add: served_def)
  then have one: "served sv (fst ` set legacy_settings) st1"
    using eachW_served [OF settings [unfolded seed_demo_settings_def]] setting_names by fastforce
  then have "listed inventory (st_db st1)"
    using list list_inventory_listed [of sv st1] by (auto simp: served_def)
  then have "holds sv {} \<lparr>sd_store = st1, sd_inventory = inventory, sd_manifest = m0\<rparr>"
    using one by (simp add: holds_def tracks_def)
  then have fin: "holds sv demo_slots s" by (rule seed_profiles_holds [OF run assms(1)])
  then have two: "served sv (fst ` set legacy_settings) st'" and listed: "listed (sd_inventory s) (st_db st')"
    using st' by (simp_all add: holds_def tracks_def)
  then obtain inventory' where list': "list_inventory sv st' = Inr inventory'" and listed': "listed inventory' (st_db st')"
    using list_inventory_listed [of sv st'] by (auto simp: served_def)
  let ?s = "\<lparr>sd_store = st', sd_inventory = inventory', sd_manifest = m\<rparr>"
  note same = listed_length [OF listed listed']
  have "remembers ?s p" if slot: "p \<in> demo_slots" for p
  proof -
    have "remembers s p" using fin slot by (simp add: holds_def)
    moreover obtain res where "table_of (fst p) = Inr res" using seeded_tables [OF slot_resources [OF slot]] ..
    ultimately show ?thesis using same(2) [OF slot_resources [OF slot]] m by (simp add: remembers_def)
  qed
  then have again: "seed_profiles sv dr' dir ?s = (Inr (), ?s)" by (simp add: seed_profiles_again)
  have "map (\<lambda>r. (r, length (inventory' r))) seeded_resources = counts"
    unfolding counts using same(1) seeded_tables by (intro map_cong refl) metis
  then show ?thesis
    using again list' seed_settings_again [OF two] by (simp add: seed_management_def read_manifest_def)
qed

section \<open>The device table\<close>

definition hostname_of :: "dict \<Rightarrow> json" where
  "hostname_of r = dget r ''hostname''"

definition canonical :: "dict \<Rightarrow> dict \<Rightarrow> bool" where
  "canonical d r \<longleftrightarrow> list_all (\<lambda>c. dget r c = dget d c) device_columns"

lemma dget_row: "dget (map (\<lambda>c. (c, f c)) cs) c = (if c \<in> set cs then f c else JNull)"
  by (induction cs) (auto simp: dget_def)

lemma dhas_row: "dhas (map (\<lambda>c. (c, f c)) cs) c \<longleftrightarrow> c \<in> set cs"
  by (induction cs) (auto simp: dhas_def)

lemma device_columns_distinct: "distinct device_columns" "''hostname'' \<in> set device_columns"
  by (simp_all add: device_columns_def)

lemma hostname_device_row: "hostname_of (device_row d) = hostname_of d"
  using device_columns_distinct(2) by (simp add: hostname_of_def device_row_def dget_row)

lemma canonical_device_row: "canonical d (device_row d)"
  by (simp add: canonical_def list_all_iff device_row_def dget_row)

lemma overwrite_row: "overwrite (device_row d) r =
    dmerge r (map (\<lambda>c. (c, dget d c)) (filter (\<lambda>c. c \<noteq> ''hostname'') device_columns))"
  by (simp add: overwrite_def device_row_def filter_map comp_def)

lemma wf_row: "distinct cs \<Longrightarrow> wf_dict (map (\<lambda>c. (c, f c)) cs)"
  by (simp add: wf_dict_def comp_def)

lemma overwrite_facts:
  assumes "hostname_of r = hostname_of d"
  shows "hostname_of (overwrite (device_row d) r) = hostname_of d" and "canonical d (overwrite (device_row d) r)"
proof -
  have wf: "wf_dict (map (\<lambda>c. (c, dget d c)) (filter (\<lambda>c. c \<noteq> ''hostname'') device_columns))"
    using device_columns_distinct by (intro wf_row) simp
  show "hostname_of (overwrite (device_row d) r) = hostname_of d"
    using assms by (simp add: overwrite_row hostname_of_def dget_dmerge [OF wf] dhas_row)
  have "dget (overwrite (device_row d) r) c = dget d c" if "c \<in> set device_columns" for c
    using assms that by (cases "c = ''hostname''") (simp_all add: overwrite_row dget_dmerge [OF wf] dhas_row dget_row hostname_of_def)
  then show "canonical d (overwrite (device_row d) r)" by (simp add: canonical_def list_all_iff)
qed

lemma same_hostname_row: "same_hostname (device_row d) r \<longleftrightarrow> hostname_of r = hostname_of d"
  using hostname_device_row [of d] by (simp add: same_hostname_def hostname_of_def)

lemma seed_device_cases [case_names fresh rewritten kept]:
  obtains "\<forall>r \<in> set rows. hostname_of r \<noteq> hostname_of d" and "seed_device reset d rows = rows @ [device_row d]"
  | "\<exists>r \<in> set rows. hostname_of r = hostname_of d" and reset
      and "seed_device reset d rows = map (\<lambda>r. if hostname_of r = hostname_of d then overwrite (device_row d) r else r) rows"
  | "\<exists>r \<in> set rows. hostname_of r = hostname_of d" and "\<not> reset" and "seed_device reset d rows = rows"
proof (cases "find (same_hostname (device_row d)) rows")
  case None
  then have "\<forall>r \<in> set rows. hostname_of r \<noteq> hostname_of d" by (auto simp: find_None_iff same_hostname_row)
  moreover have "seed_device reset d rows = rows @ [device_row d]" using None by (simp add: seed_device_def Let_def)
  ultimately show thesis by (rule that(1))
next
  case (Some r)
  then have "\<exists>r \<in> set rows. hostname_of r = hostname_of d"
    by (auto simp: same_hostname_row dest!: find_Some_iff_set)
  with Some show thesis
    by (cases reset) (auto simp: seed_device_def same_hostname_row Let_def intro: that(2,3))
qed

text \<open>One device, then all of them.\<close>

lemma seed_device_facts:
  assumes rows': "rows' = seed_device reset d rows"
  shows "\<not> reset \<Longrightarrow> \<exists>extra. rows' = rows @ extra"
    and "filter (\<lambda>r. hostname_of r \<noteq> hostname_of d) rows' = filter (\<lambda>r. hostname_of r \<noteq> hostname_of d) rows"
    and "hostname_of d \<in> hostname_of ` set rows'" and "hostname_of ` set rows \<subseteq> hostname_of ` set rows'"
    and "reset \<Longrightarrow> r \<in> set rows' \<Longrightarrow> hostname_of r = hostname_of d \<Longrightarrow> canonical d r"
proof -
  have "(\<not> reset \<longrightarrow> (\<exists>extra. rows' = rows @ extra))
    \<and> filter (\<lambda>r. hostname_of r \<noteq> hostname_of d) rows' = filter (\<lambda>r. hostname_of r \<noteq> hostname_of d) rows
    \<and> hostname_of d \<in> hostname_of ` set rows' \<and> hostname_of ` set rows \<subseteq> hostname_of ` set rows'
    \<and> (reset \<longrightarrow> (\<forall>r \<in> set rows'. hostname_of r = hostname_of d \<longrightarrow> canonical d r))"
  proof (cases rule: seed_device_cases [of rows d reset])
    case fresh
    then show ?thesis by (auto simp: rows' hostname_device_row canonical_device_row)
  next
    case rewritten
    let ?f = "\<lambda>r. if hostname_of r = hostname_of d then overwrite (device_row d) r else r"
    have same: "hostname_of (?f r) = hostname_of r" for r by (simp add: overwrite_facts(1))
    have "map hostname_of (map ?f rows) = map hostname_of rows" using same by simp
    then have "hostname_of ` set rows' = hostname_of ` set rows"
      using rewritten(3) unfolding rows' by (metis set_map)
    moreover have "filter (\<lambda>r. hostname_of r \<noteq> hostname_of d) (map ?f rows) = filter (\<lambda>r. hostname_of r \<noteq> hostname_of d) rows"
      using same by (induction rows) simp_all
    moreover have "hostname_of d \<in> hostname_of ` set rows" using rewritten(1) by (metis imageI)
    ultimately show ?thesis
      using rewritten(2,3) overwrite_facts(2) by (auto simp: rows')
  next
    case kept
    then have "hostname_of d \<in> hostname_of ` set rows" by (metis imageI)
    with kept show ?thesis by (simp add: rows')
  qed
  then show "\<not> reset \<Longrightarrow> \<exists>extra. rows' = rows @ extra"
    and "filter (\<lambda>r. hostname_of r \<noteq> hostname_of d) rows' = filter (\<lambda>r. hostname_of r \<noteq> hostname_of d) rows"
    and "hostname_of d \<in> hostname_of ` set rows'" and "hostname_of ` set rows \<subseteq> hostname_of ` set rows'"
    and "reset \<Longrightarrow> r \<in> set rows' \<Longrightarrow> hostname_of r = hostname_of d \<Longrightarrow> canonical d r"
    by blast+
qed

lemma seed_all_extends: "\<exists>extra. fold (seed_device False) ds rows = rows @ extra"
proof (induction ds arbitrary: rows)
  case (Cons d ds)
  obtain one where one: "seed_device False d rows = rows @ one" using seed_device_facts(1) [OF refl] by blast
  obtain others where "fold (seed_device False) ds (rows @ one) = (rows @ one) @ others" using Cons.IH ..
  then show ?case using one by simp
qed simp

lemma seed_all_others:
  "filter (\<lambda>r. hostname_of r \<notin> hostname_of ` set ds) (fold (seed_device reset) ds rows)
     = filter (\<lambda>r. hostname_of r \<notin> hostname_of ` set ds) rows"
proof (induction ds arbitrary: rows)
  case (Cons d ds)
  let ?p = "\<lambda>r. hostname_of r \<noteq> hostname_of d" and ?q = "\<lambda>r. hostname_of r \<notin> hostname_of ` set ds"
  have split: "filter (\<lambda>r. hostname_of r \<notin> hostname_of ` set (d # ds)) xs = filter ?p (filter ?q xs)"
    and swap: "filter ?p (filter ?q xs) = filter ?q (filter ?p xs)" for xs
    by (simp_all add: filter_filter conj_commute)
  have "filter ?p (filter ?q (fold (seed_device reset) ds (seed_device reset d rows)))
      = filter ?q (filter ?p (seed_device reset d rows))"
    by (simp only: Cons.IH swap)
  also have "filter ?p (seed_device reset d rows) = filter ?p rows" by (rule seed_device_facts(2) [OF refl])
  finally show ?case unfolding split swap by simp
qed simp

lemma seed_all_hostnames:
  "hostname_of ` set ds \<union> hostname_of ` set rows \<subseteq> hostname_of ` set (fold (seed_device reset) ds rows)"
proof (induction ds arbitrary: rows)
  case (Cons d ds)
  show ?case
    using Cons.IH [of "seed_device reset d rows"] seed_device_facts(3) [OF refl, of d reset rows]
      seed_device_facts(4) [OF refl, of rows reset d]
    unfolding fold_simps list.set image_insert by blast
qed simp

lemma seed_all_canonical:
  assumes "reset" and "d \<in> set ds" and "distinct (map hostname_of ds)"
    and "r \<in> set (fold (seed_device reset) ds rows)" and "hostname_of r = hostname_of d"
  shows "canonical d r"
  using assms
proof (induction ds arbitrary: rows)
  case (Cons d' ds)
  show ?case
  proof (cases "d = d'")
    case True
    then have "hostname_of r \<notin> hostname_of ` set ds" using Cons.prems by auto
    then have "r \<in> set (filter (\<lambda>r. hostname_of r \<notin> hostname_of ` set ds) (fold (seed_device reset) ds (seed_device reset d' rows)))"
      using Cons.prems(4) by simp
    then have "r \<in> set (seed_device reset d' rows)"
      unfolding seed_all_others by simp
    then show ?thesis using seed_device_facts(5) [OF refl] True Cons.prems by simp
  next
    case False
    then show ?thesis using Cons by simp
  qed
qed simp

definition table_rows :: "metadata_db \<Rightarrow> dict list" where
  "table_rows meta = (case meta ''devices'' of Some (columns, rows) \<Rightarrow> rows | None \<Rightarrow> [])"

text \<open>
  The seed of the device table runs only on SQLite and touches no
  other table. Without a reset it appends rows and changes none; with a reset it still leaves every
  row of another device as it is, and gives every row of a demo device the demo values. Either way
  each demo device is there afterwards.
\<close>

theorem device_seed_is_conservative:
  assumes "seed_devices backend devices reset meta = Inr (n, meta')"
  shows "(\<exists>s. backend = Some s \<and> lower (strip s) = ''sqlite'') \<and> n = length devices
     \<and> (\<forall>t. t \<noteq> ''devices'' \<longrightarrow> meta' t = meta t)
     \<and> (\<not> reset \<longrightarrow> (\<exists>extra. table_rows meta' = table_rows meta @ extra))
     \<and> filter (\<lambda>r. hostname_of r \<notin> hostname_of ` set devices) (table_rows meta')
         = filter (\<lambda>r. hostname_of r \<notin> hostname_of ` set devices) (table_rows meta)
     \<and> hostname_of ` set devices \<subseteq> hostname_of ` set (table_rows meta')
     \<and> (reset \<longrightarrow> distinct (map hostname_of devices) \<longrightarrow> (\<forall>d \<in> set devices. \<forall>r \<in> set (table_rows meta').
          hostname_of r = hostname_of d \<longrightarrow> canonical d r))"
proof -
  from assms have sqlite: "lower (strip (case backend of Some s \<Rightarrow> s | None \<Rightarrow> [])) = ''sqlite''"
    and n: "n = length devices"
    and meta': "\<exists>columns. meta' = meta(''devices'' \<mapsto> (columns, fold (seed_device reset) devices (table_rows meta)))"
    by (auto simp: seed_devices_def assert_sqlite_backend_def result_simps table_rows_def Let_def
        split: option.splits prod.splits)
  then have rows: "table_rows meta' = fold (seed_device reset) devices (table_rows meta)"
    by (auto simp: table_rows_def)
  have "\<exists>s. backend = Some s \<and> lower (strip s) = ''sqlite''"
    using sqlite by (cases backend) (simp_all add: strip_def lower_def)
  then show ?thesis
    using n meta' rows seed_all_canonical [of reset _ devices _ "table_rows meta"]
      seed_all_others [of devices reset "table_rows meta"] seed_all_hostnames [of devices "table_rows meta" reset]
      seed_all_extends [of devices "table_rows meta"]
    by (intro conjI) auto
qed

section \<open>A demo from nothing\<close>

definition slot_draws :: "string \<Rightarrow> draws" where
  "slot_draws slot = \<lparr>uuid4 = (\<lambda>_. slot), utc_now = ''2024-01-01''\<rparr>"

lemma demo_seed_runs:
  "(case seed_management sample_services slot_draws ''/demo'' None empty_store of
      (Inr (counts, _), st) \<Rightarrow> counts = [(''role_accounts'', 4), (''proxies'', 5), (''connections'', 8)]
    | _ \<Rightarrow> False)"
  by code_simp

theorem seeding_again_changes_nothing_witness:
  "\<exists>m st. seed_management sample_services slot_draws ''/demo'' None empty_store
        = (Inr ([(''role_accounts'', 4), (''proxies'', 5), (''connections'', 8)], m), st)
     \<and> seed_management sample_services slot_draws ''/demo'' (Some (JObj m)) st
        = (Inr ([(''role_accounts'', 4), (''proxies'', 5), (''connections'', 8)], m), st)"
proof -
  obtain m st where run: "seed_management sample_services slot_draws ''/demo'' None empty_store
      = (Inr ([(''role_accounts'', 4), (''proxies'', 5), (''connections'', 8)], m), st)"
    using demo_seed_runs by (auto split: prod.splits sum.splits)
  have "profiles_ok sample_services (st_db empty_store)" by (simp add: profiles_ok_empty)
  from seeding_again_changes_nothing [OF sample_services_law this _ run, of slot_draws] run show ?thesis by auto
qed

theorem seeding_only_adds_witness:
  "only_adds (st_db sample_store) (st_db (snd (seed_management sample_services slot_draws ''/demo'' None sample_store)))"
  using seeding_only_adds [of sample_services slot_draws "''/demo''" None sample_store
      "fst (seed_management sample_services slot_draws ''/demo'' None sample_store)"
      "snd (seed_management sample_services slot_draws ''/demo'' None sample_store)"]
  by simp

definition edited_table :: metadata_db where
  "edited_table t = (if t = ''devices'' then Some (device_columns,
     [device_row [(''hostname'', JStr ''core-1''), (''vendor'', JStr ''juniper'')],
      device_row [(''hostname'', JStr ''demo-router-ssh''), (''host'', JStr ''10.0.0.1'')]]) else None)"

theorem device_seed_is_conservative_witness:
  "\<exists>rows. seed_devices (Some '' SQLite '') demo_devices True edited_table
        = Inr (3, edited_table(''devices'' \<mapsto> (device_columns, rows)))
     \<and> map hostname_of rows = map JStr [''core-1'', ''demo-router-ssh'', ''demo-router-netconf'', ''demo-router-telnet'']
     \<and> canonical (demo_devices ! 1) (rows ! 1) \<and> \<not> canonical (demo_devices ! 1) (table_rows edited_table ! 1)"
proof -
  define rows where "rows = fold (seed_device True) demo_devices (table_rows edited_table)"
  have run: "seed_devices (Some '' SQLite '') demo_devices True edited_table
      = Inr (3, edited_table(''devices'' \<mapsto> (device_columns, rows)))"
  proof -
    have "assert_sqlite_backend (Some '' SQLite '') = Inr ()" "length demo_devices = 3" by code_simp+
    then show ?thesis by (simp add: rows_def table_rows_def seed_devices_def edited_table_def)
  qed
  have names: "map hostname_of rows = map JStr [''core-1'', ''demo-router-ssh'', ''demo-router-netconf'', ''demo-router-telnet'']"
    unfolding rows_def by code_simp
  have "rows ! 1 \<in> set rows" by (rule nth_mem) (use arg_cong [OF names, of length] in simp)
  moreover have "distinct (map hostname_of demo_devices)" "demo_devices ! 1 \<in> set demo_devices"
    "hostname_of (demo_devices ! 1) = JStr ''demo-router-ssh''" by code_simp+
  moreover have "hostname_of (rows ! 1) = JStr ''demo-router-ssh''"
    using names by (auto simp: map_eq_Cons_conv)
  ultimately have "canonical (demo_devices ! 1) (rows ! 1)"
    using device_seed_is_conservative [OF run] by (auto simp: table_rows_def)
  moreover have "\<not> canonical (demo_devices ! 1) (table_rows edited_table ! 1)" by code_simp
  ultimately show ?thesis using run names by blast
qed

text \<open>
  From an empty gateway store and an empty device table the two seeds
  lead to a gateway that resolves each of the three demo devices to the client class of its protocol,
  at the loopback address.
\<close>

theorem demo_devices_have_clients:
  "case (seed_demo_settings empty_store, seed_devices (Some ''sqlite'') demo_devices False (\<lambda>_. None)) of
     ((Inr _, st), Inr (_, meta)) \<Rightarrow>
       map (\<lambda>d. case get_client sample_services meta st d of
           Inr c \<Rightarrow> Some (cl_module c, cl_class c, cl_host c) | Inl _ \<Rightarrow> None)
         [''demo-router-netconf'', ''demo-router-ssh'', ''demo-router-telnet'']
       = map Some [(''app.dal.device.nccclient_juniper'', ''JuniperNCCClient'', ''127.0.0.1''),
           (''app.dal.device.nccclient_ios'', ''IOSNCCClient'', ''127.0.0.1''),
           (''app.dal.device.telnet_client'', ''GenericTelnetNCCClient'', ''127.0.0.1'')]
   | _ \<Rightarrow> False"
  by code_simp

end
