(* ===== verification/DemoStart.thy ===== *)
theory DemoStart
  imports DemoSeeding Settings Jobs
begin

text \<open>
  The start of the loopback demo: the checks of the environment (\<open>demo/env_safety.py\<close>), the host
  keys and trust files (\<open>demo/emulators/hostkeys.py\<close>), and the program that seeds, starts the
  emulators, serves, and stops them again (\<open>demo/run_demo.py\<close>). What a file system makes of a path,
  the parser of private keys, the cipher and the server are arguments.
\<close>

section \<open>\<open>env_safety\<close>\<close>

text \<open>
  \<open>Path(s).expanduser()\<close> and \<open>Path(s).resolve()\<close> as texts, the paths at which something else than
  a directory exists, and the directory of the demo package.
\<close>

record demo_paths =
  expand_user :: "string \<Rightarrow> string"
  resolve_path :: "string \<Rightarrow> string"
  occupied :: "string \<Rightarrow> bool"
  demo_root :: string

definition data_dir :: "demo_paths \<Rightarrow> string" where
  "data_dir pth = path_join (demo_root pth) ''data''"

definition trust_defaults :: "demo_paths \<Rightarrow> (string \<times> string) list" where
  "trust_defaults pth = [(''ROUTER_KNOWN_HOSTS_PATH'', path_join (data_dir pth) ''demo_known_hosts''),
     (''ROUTER_SSH_CONFIG_PATH'', path_join (data_dir pth) ''demo_ssh_config'')]"

text \<open>What a line of the file assigns, and \<open>os.environ.setdefault\<close> for each of them.\<close>

definition assignment_of :: "string \<Rightarrow> (string \<times> string) option" where
  "assignment_of line =
     (let line = strip line in
      if line = [] \<or> startswith line ''#'' \<or> CHR ''='' \<notin> set line then None
      else Some (strip (takeWhile (\<lambda>c. c \<noteq> CHR ''='') line), strip (drop 1 (dropWhile (\<lambda>c. c \<noteq> CHR ''='') line))))"

definition set_missing :: "string \<times> string \<Rightarrow> environ \<Rightarrow> environ" where
  "set_missing p env = (case env (fst p) of Some _ \<Rightarrow> env | None \<Rightarrow> env(fst p \<mapsto> snd p))"

definition load_demo_env_file :: "string list \<Rightarrow> environ \<Rightarrow> environ" where
  "load_demo_env_file lines env = fold set_missing (List.map_filter assignment_of lines) env"

definition resolve_text :: "demo_paths \<Rightarrow> string \<Rightarrow> string" where
  "resolve_text pth s = resolve_path pth (expand_user pth s)"

definition is_within :: "string \<Rightarrow> string \<Rightarrow> bool" where
  "is_within p dir \<longleftrightarrow> p = dir \<or> startswith p (path_join dir [])"

datatype demo_problem =
    ProviderUnknown
  | ProviderNotFake
  | BackendNotSqlite string
  | PathOutside string string
  | ObsoleteVariable string
  | HostNotLoopback
  | DeviceNotLoopback json json

datatype demo_refusal = Refused string | RefusedFor "demo_problem list"

definition obsolete_variables :: "string list" where
  "obsolete_variables = [''DB_CLIENT_CONFIG_PATH'', ''CLIENT_CONFIG_PATH'', ''PROXY_CONFIG_PATH'']"

definition path_problems :: "demo_paths \<Rightarrow> string option \<Rightarrow> environ \<Rightarrow> demo_problem list" where
  "path_problems pth storage env =
     (let sqlite_path = strip (getenv env ''DB_SQLITE_PATH'' []);
          resolved = resolve_text pth sqlite_path;
          allowed = resolve_path pth (case storage of Some dir \<Rightarrow> dir | None \<Rightarrow> data_dir pth)
      in if sqlite_path \<noteq> [] \<and> \<not> is_within resolved allowed then [PathOutside resolved allowed] else [])"

definition demo_problems :: "demo_paths \<Rightarrow> string option \<Rightarrow> environ \<Rightarrow> demo_problem list" where
  "demo_problems pth storage env =
     (case device_data_provider env of
        Inl _ \<Rightarrow> [ProviderUnknown]
      | Inr provider \<Rightarrow> if provider \<noteq> ''fake'' then [ProviderNotFake] else [])
     @ (let backend = lower (strip (getenv env ''DB_BACKEND'' [])) in
        if backend \<noteq> ''sqlite'' then [BackendNotSqlite backend] else [])
     @ path_problems pth storage env
     @ map ObsoleteVariable (filter (\<lambda>name. env name \<noteq> None) obsolete_variables)
     @ (if demo_loopback_host \<noteq> ''127.0.0.1'' then [HostNotLoopback] else [])
     @ map (\<lambda>d. DeviceNotLoopback (dget d ''hostname'') (dget d ''host''))
         (filter (\<lambda>d. dget d ''host'' \<noteq> JStr demo_loopback_host) demo_devices)"

definition validate_demo_environment :: "demo_paths \<Rightarrow> string option \<Rightarrow> environ \<Rightarrow> demo_refusal + unit" where
  "validate_demo_environment pth storage env =
     (let problems = demo_problems pth storage env in check (problems = []) (RefusedFor problems))"

definition inherited_variables :: "string list" where
  "inherited_variables = [''GATEWAY_DATABASE_URL'', ''GATEWAY_SQLITE_PATH'', ''GATEWAY_SECRET_KEY'',
     ''GATEWAY_SECRET_KEY_FILE'', ''GATEWAY_DEMO_STORAGE_DIR'', ''DATABASE_URL'',
     ''DB_HOST'', ''DB_PORT'', ''DB_NAME'', ''DB_USER'', ''DB_PASSWORD'']"

definition inherited_checks :: "environ \<Rightarrow> demo_refusal + unit" where
  "inherited_checks env =
     bindE (mapE (\<lambda>name. check (strip (getenv env name []) = [])
       (Refused (''Unset inherited '' @ name @ '' before starting the isolated demo.''))) inherited_variables) (\<lambda>_.
     bindE (mapE (\<lambda>name. check (env name = None)
       (Refused (''Unset obsolete '' @ name @ ''; JSON mapping overrides are no longer supported.''))) obsolete_variables) (\<lambda>_.
     bindE (check (lower (getenv env ''GATEWAY_DEMO_MODE'' ''true'') \<in> {''true'', ''1''})
       (Refused ''GATEWAY_DEMO_MODE cannot disable demo safety.'')) (\<lambda>_.
     check (lower (getenv env ''ROUTER_NETCONF_HOSTKEY_VERIFY'' ''true'') = ''true'')
       (Refused ''The demo requires NETCONF host-key verification.''))))"

definition trust_checks :: "demo_paths \<Rightarrow> environ \<Rightarrow> demo_refusal + unit" where
  "trust_checks pth env =
     bindE (mapE (\<lambda>(name, expected). check (resolve_text pth (getenv env name expected) = resolve_path pth expected)
       (Refused (''Unset inherited '' @ name @ ''; demo trust is locally generated.''))) (trust_defaults pth)) (\<lambda>_. Inr ())"

definition is_unc :: "string \<Rightarrow> bool" where
  "is_unc s \<longleftrightarrow> startswith s [CHR 0x5C, CHR 0x5C] \<or> startswith s ''//''"

definition choose_target :: "demo_paths \<Rightarrow> string option \<Rightarrow> demo_refusal + string" where
  "choose_target pth storage =
     (let chosen = expand_user pth (case storage of Some dir \<Rightarrow> dir | None \<Rightarrow> data_dir pth);
          target = resolve_path pth chosen
      in bindE (check (\<not> is_unc chosen) (Refused ''--storage-dir must be local, not a UNC/network path.'')) (\<lambda>_.
         bindE (check (\<not> is_unc target) (Refused ''--storage-dir must resolve to a local directory.'')) (\<lambda>_.
         bindE (check (\<not> occupied pth target) (Refused ''--storage-dir must designate a directory.'')) (\<lambda>_.
         Inr target))))"

definition selected_storage :: "string \<Rightarrow> (string \<times> string) list" where
  "selected_storage target = [
     (''DB_SQLITE_PATH'', path_join target ''demo_devices.sqlite3''),
     (''GATEWAY_SQLITE_PATH'', path_join target ''gateway.sqlite3''),
     (''GATEWAY_DEMO_MODE'', ''true''),
     (''GATEWAY_DEMO_STORAGE_DIR'', target),
     (''ROUTER_KNOWN_HOSTS_PATH'', path_join target ''demo_known_hosts''),
     (''ROUTER_SSH_CONFIG_PATH'', path_join target ''demo_ssh_config'')]"

definition asksW :: "('w \<Rightarrow> 'e + 'a) \<Rightarrow> ('w, 'e, 'a) io" where
  "asksW f w = (f w, w)"

definition modifyW :: "('w \<Rightarrow> 'w) \<Rightarrow> ('w, 'e, unit) io" where
  "modifyW f w = (Inr (), f w)"

text \<open>The lines are those of \<open>demo/.env.demo\<close>.\<close>

definition prepare_demo_environment ::
    "demo_paths \<Rightarrow> string list \<Rightarrow> string option \<Rightarrow> (environ, demo_refusal, string) io" where
  "prepare_demo_environment pth lines storage =
     bindW (asksW inherited_checks) (\<lambda>_.
     bindW (modifyW (load_demo_env_file lines)) (\<lambda>_.
     bindW (asksW (validate_demo_environment pth None)) (\<lambda>_.
     bindW (asksW (trust_checks pth)) (\<lambda>_.
     bindW (liftW (choose_target pth storage)) (\<lambda>target.
     bindW (modifyW (\<lambda>env. map_upds env (map fst (selected_storage target)) (map snd (selected_storage target)))) (\<lambda>_.
     bindW (asksW (validate_demo_environment pth (Some target))) (\<lambda>_. returnW target)))))))"

section \<open>Host keys and trust files\<close>

text \<open>
  A host key is the text of its private key; \<open>key_readable\<close>, \<open>key_name\<close> and \<open>key_base64\<close> are
  paramiko's, \<open>fresh_key\<close> is what it generates for a file.
\<close>

record key_library =
  key_readable :: "string \<Rightarrow> bool"
  key_name :: "string \<Rightarrow> string"
  key_base64 :: "string \<Rightarrow> string"
  fresh_key :: "string \<Rightarrow> string"

datatype demo_exn =
    PrepareRefused demo_refusal
  | SeedRefused demo_error
  | KeyUnreadable
  | PortTaken int
  | ServerRaised

type_synonym 'a file_call = "(storage_files, demo_exn, 'a) io"

definition write_file :: "string \<Rightarrow> string \<Rightarrow> unit file_call" where
  "write_file name s = modifyW (\<lambda>files. files(name \<mapsto> s))"

definition ensure_demo_host_key :: "key_library \<Rightarrow> string \<Rightarrow> string file_call" where
  "ensure_demo_host_key lib name files = (case files name of
      Some key \<Rightarrow> if key_readable lib key then (Inr key, files) else (Inl KeyUnreadable, files)
    | None \<Rightarrow> (Inr (fresh_key lib name), files(name \<mapsto> fresh_key lib name)))"

definition newline :: string where
  "newline = [CHR 0x0A]"

definition known_hosts_line :: "key_library \<Rightarrow> string \<Rightarrow> int \<Rightarrow> string" where
  "known_hosts_line lib key port = ''['' @ demo_loopback_host @ '']:'' @ show_int port
     @ '' '' @ key_name lib key @ '' '' @ key_base64 lib key"

definition write_known_hosts :: "key_library \<Rightarrow> string \<Rightarrow> string \<Rightarrow> int list \<Rightarrow> unit file_call" where
  "write_known_hosts lib key name ports =
     write_file name (join newline (map (known_hosts_line lib key) ports) @ newline)"

definition write_ssh_config :: "string \<Rightarrow> string \<Rightarrow> unit file_call" where
  "write_ssh_config name known_hosts = write_file name (''Host '' @ demo_loopback_host @ newline
     @ ''    UserKnownHostsFile '' @ [CHR 0x22] @ known_hosts @ [CHR 0x22] @ newline)"

definition ensure_demo_trust_files :: "key_library \<Rightarrow> string \<Rightarrow> string file_call" where
  "ensure_demo_trust_files lib dir =
     bindW (ensure_demo_host_key lib ''demo_host_key'') (\<lambda>key.
     bindW (write_known_hosts lib key ''demo_known_hosts'' [netconf_emulator_port, ssh_emulator_port]) (\<lambda>_.
     bindW (write_ssh_config ''demo_ssh_config'' (path_join dir ''demo_known_hosts'')) (\<lambda>_. returnW key)))"

definition ensure_bastion_trust_files :: "key_library \<Rightarrow> string file_call" where
  "ensure_bastion_trust_files lib =
     bindW (ensure_demo_host_key lib ''demo_bastion_host_key'') (\<lambda>key.
     bindW (write_known_hosts lib key ''demo_bastion_known_hosts''
       [ssh_tunnel_emulator_port, ssh_shell_emulator_port]) (\<lambda>_. returnW key))"

section \<open>\<open>run_demo\<close>\<close>

text \<open>
  The world of the program: the environment, the storage directory with the manifest and the two
  databases, and the loopback ports that are bound.
\<close>

record demo_world =
  dw_env :: environ
  dw_files :: storage_files
  dw_manifest :: "json option"
  dw_db :: db
  dw_devices :: metadata_db
  dw_bound :: "int list"

type_synonym 'a demo_call = "(demo_world, demo_exn, 'a) io"

text \<open>A call that only works on one part of the world.\<close>

definition on_env :: "(demo_refusal \<Rightarrow> demo_exn) \<Rightarrow> (environ, demo_refusal, 'a) io \<Rightarrow> 'a demo_call" where
  "on_env f m w = (case m (dw_env w) of (r, env) \<Rightarrow> (map_sum f id r, w\<lparr>dw_env := env\<rparr>))"

definition on_files :: "('e \<Rightarrow> demo_exn) \<Rightarrow> (storage_files, 'e, 'a) io \<Rightarrow> 'a demo_call" where
  "on_files f m w = (case m (dw_files w) of (r, files) \<Rightarrow> (map_sum f id r, w\<lparr>dw_files := files\<rparr>))"

datatype emulator_kind = NetconfEmulator | SSHEmulator | TelnetEmulator | SSHPeer | Socks5Peer | HttpConnectPeer

type_synonym emulator = "emulator_kind \<times> int"

definition build_emulators :: "emulator list" where
  "build_emulators = [(NetconfEmulator, netconf_emulator_port), (SSHEmulator, ssh_emulator_port),
     (TelnetEmulator, telnet_emulator_port), (SSHPeer, ssh_tunnel_emulator_port),
     (SSHPeer, ssh_shell_emulator_port), (Socks5Peer, socks5_emulator_port),
     (HttpConnectPeer, http_connect_emulator_port)]"

text \<open>
  \<open>start\<close> binds the port, or closes the socket and raises; \<open>binds\<close> tells which ports the system
  lets the program bind.
\<close>

definition start_emulator :: "(int \<Rightarrow> bool) \<Rightarrow> emulator \<Rightarrow> unit demo_call" where
  "start_emulator binds e w = (if binds (snd e) \<and> snd e \<notin> set (dw_bound w)
     then (Inr (), w\<lparr>dw_bound := snd e # dw_bound w\<rparr>) else (Inl (PortTaken (snd e)), w))"

definition stop_emulator :: "emulator \<Rightarrow> unit demo_call" where
  "stop_emulator e = modifyW (\<lambda>w. w\<lparr>dw_bound := remove1 (snd e) (dw_bound w)\<rparr>)"

fun start_emulators :: "(int \<Rightarrow> bool) \<Rightarrow> emulator list \<Rightarrow> emulator list \<Rightarrow> emulator list demo_call" where
  "start_emulators binds started [] = returnW started"
| "start_emulators binds started (e # es) =
     bindW (catchW (start_emulator binds e) (\<lambda>x. thenW (eachW stop_emulator started) (raiseW x)))
       (\<lambda>_. start_emulators binds (started @ [e]) es)"

text \<open>\<open>try: m finally: last\<close>; the clean-up raises nothing.\<close>

definition finallyW :: "('w, 'e, 'a) io \<Rightarrow> ('w, 'e, unit) io \<Rightarrow> ('w, 'e, 'a) io" where
  "finallyW m clean w = (case m w of (r, w) \<Rightarrow> (r, snd (clean w)))"

text \<open>Opening the store creates its file; \<open>vault\<close> is the construction of the cipher.\<close>

definition with_store ::
    "(string \<Rightarrow> services option) \<Rightarrow> (services \<Rightarrow> demo_world \<Rightarrow> (store, demo_error, 'a) io) \<Rightarrow> 'a demo_call" where
  "with_store vault body w =
     (let w = w\<lparr>dw_files := (dw_files w)(''gateway.sqlite3'' \<mapsto> [])\<rparr> in
      case open_store vault None (dw_env w ''GATEWAY_SECRET_KEY'') (dw_db w) of
        Inl e \<Rightarrow> (Inl (SeedRefused (StoreRaised e)), w)
      | Inr (sv, st) \<Rightarrow> (case body sv w st of
          (r, st) \<Rightarrow> (map_sum SeedRefused id r, w\<lparr>dw_db := st_db st\<rparr>)))"

definition seed_gateway ::
    "(string \<Rightarrow> services option) \<Rightarrow> (string \<Rightarrow> draws) \<Rightarrow> string \<Rightarrow> (string \<times> nat) list demo_call" where
  "seed_gateway vault dr dir =
     bindW (with_store vault (\<lambda>sv w. seed_management sv dr dir (dw_manifest w))) (\<lambda>(counts, m).
     bindW (modifyW (\<lambda>w. w\<lparr>dw_manifest := Some (JObj m)\<rparr>)) (\<lambda>_. returnW counts))"

definition seed_device_table :: "bool \<Rightarrow> nat demo_call" where
  "seed_device_table reset w = (case seed_devices (dw_env w ''DB_BACKEND'') demo_devices reset (dw_devices w) of
      Inl e \<Rightarrow> (Inl (SeedRefused e), w) | Inr (n, meta) \<Rightarrow> (Inr n, w\<lparr>dw_devices := meta\<rparr>))"

record demo_outside =
  do_paths :: demo_paths
  do_lines :: "string list"
  do_vault :: "string \<Rightarrow> services option"
  do_draws :: "string \<Rightarrow> draws"
  do_fresh :: string
  do_keys :: key_library
  do_binds :: "int \<Rightarrow> bool"

definition configure_key :: "demo_outside \<Rightarrow> string demo_call" where
  "configure_key out =
     bindW (on_files SeedRefused (configure_management_key (\<lambda>k. do_vault out k \<noteq> None) (do_fresh out))) (\<lambda>key.
     bindW (modifyW (\<lambda>w. w\<lparr>dw_env := (dw_env w)(''GATEWAY_SECRET_KEY'' \<mapsto> key)\<rparr>)) (\<lambda>_. returnW key))"

definition run_demo :: "demo_outside \<Rightarrow> string option \<Rightarrow> unit demo_call \<Rightarrow> unit demo_call" where
  "run_demo out storage serve =
     bindW (on_env PrepareRefused (prepare_demo_environment (do_paths out) (do_lines out) storage)) (\<lambda>dir.
     bindW (configure_key out) (\<lambda>_.
     bindW (on_files id (ensure_demo_trust_files (do_keys out) dir)) (\<lambda>_.
     bindW (on_files id (ensure_bastion_trust_files (do_keys out))) (\<lambda>_.
     bindW (seed_gateway (do_vault out) (do_draws out) dir) (\<lambda>_.
     bindW (seed_device_table False) (\<lambda>_.
     bindW (start_emulators (do_binds out) [] build_emulators) (\<lambda>started.
     finallyW serve (eachW stop_emulator (rev started)))))))))"

text \<open>\<open>seed_demo_db.main\<close>: the legacy part alone.\<close>

definition store_settings :: "(store, demo_error, unit) io" where
  "store_settings st = (case seed_demo_settings st of (r, st) \<Rightarrow> (map_sum StoreRaised id r, st))"

definition seed_demo_db :: "demo_outside \<Rightarrow> string option \<Rightarrow> bool \<Rightarrow> nat demo_call" where
  "seed_demo_db out storage reset =
     bindW (on_env PrepareRefused (prepare_demo_environment (do_paths out) (do_lines out) storage)) (\<lambda>_.
     bindW (configure_key out) (\<lambda>_.
     bindW (with_store (do_vault out) (\<lambda>_ _. store_settings)) (\<lambda>_. seed_device_table reset)))"

end
