(* ===== verification/DemoStartLaws.thy ===== *)
theory DemoStartLaws
  imports DemoStart Instance
begin

text \<open>
  What the start of the demo promises: it only starts isolated, a refusal touches nothing but
  unset variables, keys survive restarts, and the listeners are gone when the program ends.
\<close>

section \<open>The environment\<close>

lemma asksW_eq [simp]: "asksW f w = (f w, w)"
  by (simp add: asksW_def)

lemma modifyW_eq [simp]: "modifyW f w = (Inr (), f w)"
  by (simp add: modifyW_def)

text \<open>A program that keeps what was set, but for the variables in \<open>names\<close>.\<close>

definition extends_but :: "string set \<Rightarrow> environ \<Rightarrow> environ \<Rightarrow> bool" where
  "extends_but names env env' \<longleftrightarrow> (\<forall>name v. env name = Some v \<longrightarrow> name \<notin> names \<longrightarrow> env' name = Some v)"

lemma extends_but_refl: "extends_but names env env"
  by (simp add: extends_but_def)

lemma extends_but_trans: "extends_but names env env1 \<Longrightarrow> extends_but names env1 env2 \<Longrightarrow> extends_but names env env2"
  by (simp add: extends_but_def)

lemma load_demo_env_eq: "load_demo_env_file lines env = map_of (List.map_filter assignment_of lines) ++ env"
proof -
  have "fold set_missing ps env = map_of ps ++ env" for ps :: "(string \<times> string) list"
    by (induction ps arbitrary: env) (auto simp: set_missing_def map_add_def fun_eq_iff split: option.split)
  then show ?thesis by (simp add: load_demo_env_file_def)
qed

lemma load_demo_env_extends: "extends_but names env (load_demo_env_file lines env)"
  by (simp add: load_demo_env_eq extends_but_def)

definition selected_names :: "string set" where
  "selected_names = {''DB_SQLITE_PATH'', ''GATEWAY_SQLITE_PATH'', ''GATEWAY_DEMO_MODE'',
     ''GATEWAY_DEMO_STORAGE_DIR'', ''ROUTER_KNOWN_HOSTS_PATH'', ''ROUTER_SSH_CONFIG_PATH''}"

definition with_storage :: "string \<Rightarrow> environ \<Rightarrow> environ" where
  "with_storage target env = map_upds env (map fst (selected_storage target)) (map snd (selected_storage target))"

lemma with_storage_eq: "with_storage target env = env(
     ''DB_SQLITE_PATH'' \<mapsto> path_join target ''demo_devices.sqlite3'',
     ''GATEWAY_SQLITE_PATH'' \<mapsto> path_join target ''gateway.sqlite3'', ''GATEWAY_DEMO_MODE'' \<mapsto> ''true'',
     ''GATEWAY_DEMO_STORAGE_DIR'' \<mapsto> target, ''ROUTER_KNOWN_HOSTS_PATH'' \<mapsto> path_join target ''demo_known_hosts'',
     ''ROUTER_SSH_CONFIG_PATH'' \<mapsto> path_join target ''demo_ssh_config'')"
  by (simp add: with_storage_def selected_storage_def)

lemma with_storage_extends: "extends_but selected_names env (with_storage target env)"
  by (auto simp: extends_but_def with_storage_eq selected_names_def)

lemma with_storage_selected: "p \<in> set (selected_storage target) \<Longrightarrow> with_storage target env (fst p) = Some (snd p)"
  by (auto simp: with_storage_eq selected_storage_def)

text \<open>The ways a preparation ends.\<close>

lemma prepare_eq: "prepare_demo_environment pth lines storage env =
     (case inherited_checks env of Inl x \<Rightarrow> (Inl x, env) | Inr _ \<Rightarrow>
      let env1 = load_demo_env_file lines env in
      case validate_demo_environment pth None env1 of Inl x \<Rightarrow> (Inl x, env1) | Inr _ \<Rightarrow>
      case trust_checks pth env1 of Inl x \<Rightarrow> (Inl x, env1) | Inr _ \<Rightarrow>
      case choose_target pth storage of Inl x \<Rightarrow> (Inl x, env1) | Inr target \<Rightarrow>
      let env2 = with_storage target env1 in
      case validate_demo_environment pth (Some target) env2 of Inl x \<Rightarrow> (Inl x, env2) | Inr _ \<Rightarrow> (Inr target, env2))"
  by (simp add: prepare_demo_environment_def bindW_def with_storage_def Let_def split: sum.split)

lemma prepare_cases [consumes 1, case_names prepared refused]:
  assumes "prepare_demo_environment pth lines storage env = (r, env')"
  obtains target where "r = Inr target" and "inherited_checks env = Inr ()"
      and "choose_target pth storage = Inr target" and "env' = with_storage target (load_demo_env_file lines env)"
      and "validate_demo_environment pth (Some target) env' = Inr ()"
  | x where "r = Inl x" and "extends_but selected_names env env'"
proof -
  have "extends_but selected_names env (with_storage target (load_demo_env_file lines env))" for target
    by (rule extends_but_trans [OF load_demo_env_extends with_storage_extends])
  with assms show thesis
    using that load_demo_env_extends [of selected_names env lines] extends_but_refl [of selected_names env]
    by (auto simp: prepare_eq Let_def split: sum.splits dest!: sym [of "Inl _" "choose_target pth storage"]
        sym [of "Inr _" "choose_target pth storage"])
qed

lemma inherited_checks_Inr:
  assumes "inherited_checks env = Inr ()"
  shows "name \<in> set inherited_variables \<Longrightarrow> strip (getenv env name []) = []"
    and "name \<in> set obsolete_variables \<Longrightarrow> env name = None"
proof -
  have checked: "mapE (\<lambda>name. check (P name) (f name)) names = Inr us \<Longrightarrow> name \<in> set names \<Longrightarrow> P name"
    for P f us and name :: string and names
    by (induction names arbitrary: us) (auto simp: bindE_eq_Inr check_eq_Inr)
  from assms obtain us vs where
    "mapE (\<lambda>name. check (strip (getenv env name []) = [])
       (Refused (''Unset inherited '' @ name @ '' before starting the isolated demo.''))) inherited_variables = Inr us"
    "mapE (\<lambda>name. check (env name = None)
       (Refused (''Unset obsolete '' @ name @ ''; JSON mapping overrides are no longer supported.''))) obsolete_variables = Inr vs"
    unfolding inherited_checks_def bindE_eq_Inr by blast
  from this [THEN checked] show "name \<in> set inherited_variables \<Longrightarrow> strip (getenv env name []) = []"
    and "name \<in> set obsolete_variables \<Longrightarrow> env name = None" by blast+
qed

lemma validate_Inr:
  assumes "validate_demo_environment pth storage env = Inr ()"
  shows "device_data_provider env = Inr ''fake''" and "lower (strip (getenv env ''DB_BACKEND'' [])) = ''sqlite''"
    and "name \<in> set obsolete_variables \<Longrightarrow> env name = None" and "path_problems pth storage env = []"
  using assms
  by (auto simp: validate_demo_environment_def demo_problems_def Let_def check_eq_Inr filter_empty_conv
      split: sum.splits if_splits)

lemma choose_target_Inr: "choose_target pth storage = Inr target \<Longrightarrow> \<not> is_unc target \<and> \<not> occupied pth target"
  by (auto simp: choose_target_def Let_def bindE_eq_Inr check_eq_Inr)

text \<open>
  C37. When the demo is prepared, no variable of a production database,
  key or mapping was inherited; the provider is the fake one and the backend SQLite; every path the
  programs use lies in the chosen local directory, and the path of the device database still does
  when links are followed; every other variable that was set is unchanged.
\<close>

theorem demo_environment_is_isolated:
  assumes "prepare_demo_environment pth lines storage env = (Inr target, env')"
  shows "(\<forall>name \<in> set inherited_variables. strip (getenv env name []) = [])
     \<and> (\<forall>name \<in> set obsolete_variables. env name = None \<and> env' name = None)
     \<and> device_data_provider env' = Inr ''fake'' \<and> lower (strip (getenv env' ''DB_BACKEND'' [])) = ''sqlite''
     \<and> \<not> is_unc target \<and> \<not> occupied pth target
     \<and> (\<forall>p \<in> set (selected_storage target). env' (fst p) = Some (snd p))
     \<and> is_within (resolve_text pth (strip (path_join target ''demo_devices.sqlite3''))) (resolve_path pth target)
     \<and> extends_but selected_names env env'"
  using assms
proof (cases rule: prepare_cases)
  case (prepared target')
  then have t: "target' = target" by simp
  note ok = validate_Inr [OF prepared(5)]
  have "CHR ''3'' \<in> set (path_join target ''demo_devices.sqlite3'')" by (auto simp: path_join_def)
  moreover have "\<not> is_space CHR ''3''" by code_simp
  ultimately have "strip (path_join target ''demo_devices.sqlite3'') \<noteq> []" unfolding strip_empty_iff by blast
  moreover have "env' ''DB_SQLITE_PATH'' = Some (path_join target ''demo_devices.sqlite3'')"
    using prepared(4) t by (simp add: with_storage_eq)
  ultimately have "is_within (resolve_text pth (strip (path_join target ''demo_devices.sqlite3''))) (resolve_path pth target)"
    using ok(4) t by (simp add: path_problems_def Let_def getenv_def split: if_splits)
  moreover have "extends_but selected_names env env'"
    unfolding prepared(4) by (rule extends_but_trans [OF load_demo_env_extends with_storage_extends])
  ultimately show ?thesis
    using ok(1-3) inherited_checks_Inr [OF prepared(2)] choose_target_Inr [OF prepared(3)]
      with_storage_selected [of _ target "load_demo_env_file lines env"] prepared(4) t by auto
qed simp

text \<open>
  When the environment is refused, the demo ends with that refusal,
  and nothing but the environment has changed: no file, no database, no key and no listener; and of
  the variables that were set only those of the storage selection may differ.
\<close>

theorem refused_demo_touches_nothing:
  assumes "prepare_demo_environment (do_paths out) (do_lines out) storage (dw_env w) = (Inl x, env')"
  shows "run_demo out storage serve w = (Inl (PrepareRefused x), w\<lparr>dw_env := env'\<rparr>)
     \<and> seed_demo_db out storage reset w = (Inl (PrepareRefused x), w\<lparr>dw_env := env'\<rparr>)
     \<and> extends_but selected_names (dw_env w) env'"
proof -
  have "extends_but selected_names (dw_env w) env'" using assms by (cases rule: prepare_cases) auto
  then show ?thesis using assms by (simp add: run_demo_def seed_demo_db_def bindW_def on_env_def)
qed

section \<open>Keys and trust files\<close>

definition key_files :: "string list" where
  "key_files = [''gateway.key'', ''demo_host_key'', ''demo_bastion_host_key'']"

definition configure_keys :: "demo_outside \<Rightarrow> string \<Rightarrow> (storage_files, demo_exn, string \<times> string \<times> string) io" where
  "configure_keys out dir =
     bindW (\<lambda>files. case configure_management_key (\<lambda>k. do_vault out k \<noteq> None) (do_fresh out) files of
         (r, files) \<Rightarrow> (map_sum SeedRefused id r, files)) (\<lambda>k.
     bindW (ensure_demo_trust_files (do_keys out) dir) (\<lambda>h.
     bindW (ensure_bastion_trust_files (do_keys out)) (\<lambda>b. returnW (k, h, b))))"

lemma configure_key_facts:
  assumes "configure_management_key accepted fresh files = (r, files')"
  shows "name \<noteq> ''gateway.key'' \<Longrightarrow> files' name = files name"
    and "files ''gateway.key'' = Some s \<Longrightarrow> files' = files"
    and "r = Inr k \<Longrightarrow> \<exists>s. files' ''gateway.key'' = Some s \<and> k = strip s \<and> accepted k"
  using assms by (auto simp: configure_management_key_def Let_def split: if_splits)

lemma configure_key_again:
  "files ''gateway.key'' = Some s \<Longrightarrow> accepted (strip s) \<Longrightarrow>
     configure_management_key accepted fresh files = (Inr (strip s), files)"
  by (simp add: configure_management_key_def Let_def)

definition device_trusted :: "key_library \<Rightarrow> string \<Rightarrow> string \<Rightarrow> storage_files \<Rightarrow> bool" where
  "device_trusted lib dir h files \<longleftrightarrow> files ''demo_host_key'' = Some h
     \<and> files ''demo_known_hosts'' = Some (join newline (map (known_hosts_line lib h) [netconf_emulator_port, ssh_emulator_port]) @ newline)
     \<and> files ''demo_ssh_config'' = Some (''Host '' @ demo_loopback_host @ newline
         @ ''    UserKnownHostsFile '' @ [CHR 0x22] @ path_join dir ''demo_known_hosts'' @ [CHR 0x22] @ newline)"

definition bastion_trusted :: "key_library \<Rightarrow> string \<Rightarrow> storage_files \<Rightarrow> bool" where
  "bastion_trusted lib b files \<longleftrightarrow> files ''demo_bastion_host_key'' = Some b
     \<and> files ''demo_bastion_known_hosts''
         = Some (join newline (map (known_hosts_line lib b) [ssh_tunnel_emulator_port, ssh_shell_emulator_port]) @ newline)"

lemmas trust_defs = ensure_demo_trust_files_def ensure_bastion_trust_files_def write_known_hosts_def write_ssh_config_def
    write_file_def ensure_demo_host_key_def bindW_def device_trusted_def bastion_trusted_def

lemma device_trust:
  assumes "ensure_demo_trust_files lib dir files = (Inr h, files')"
  shows "key_readable lib h \<or> h = fresh_key lib ''demo_host_key''" and "device_trusted lib dir h files'"
    and "name \<notin> {''demo_host_key'', ''demo_known_hosts'', ''demo_ssh_config''} \<Longrightarrow> files' name = files name"
    and "files ''demo_host_key'' = Some x \<Longrightarrow> h = x"
  using assms by (auto simp: trust_defs split: option.splits if_splits)

lemma bastion_trust:
  assumes "ensure_bastion_trust_files lib files = (Inr b, files')"
  shows "key_readable lib b \<or> b = fresh_key lib ''demo_bastion_host_key''" and "bastion_trusted lib b files'"
    and "name \<notin> {''demo_bastion_host_key'', ''demo_bastion_known_hosts''} \<Longrightarrow> files' name = files name"
    and "files ''demo_bastion_host_key'' = Some x \<Longrightarrow> b = x"
  using assms by (auto simp: trust_defs split: option.splits if_splits)

lemma device_trust_again:
  assumes "device_trusted lib dir h files" and "key_readable lib h"
  shows "ensure_demo_trust_files (lib\<lparr>fresh_key := f\<rparr>) dir files = (Inr h, files)"
  using assms by (simp add: trust_defs known_hosts_line_def fun_upd_idem)

lemma bastion_trust_again:
  assumes "bastion_trusted lib b files" and "key_readable lib b"
  shows "ensure_bastion_trust_files (lib\<lparr>fresh_key := f\<rparr>) files = (Inr b, files)"
  using assms by (simp add: trust_defs known_hosts_line_def fun_upd_idem)

definition trusted :: "key_library \<Rightarrow> string \<Rightarrow> string \<Rightarrow> string \<Rightarrow> storage_files \<Rightarrow> bool" where
  "trusted lib dir h b files \<longleftrightarrow> device_trusted lib dir h files \<and> bastion_trusted lib b files"

text \<open>
  The encryption key and the host keys are made once. A start that finds a key
  keeps it; after a successful start the trust files name exactly the host keys and the ports of the
  SSH emulators; and a later start, whatever it would generate, returns the same keys and leaves
  every file as it is.
\<close>

theorem demo_keys_are_kept:
  assumes "configure_keys out dir files = (Inr (k, h, b), files')" and "\<And>name. key_readable (do_keys out) (fresh_key (do_keys out) name)"
    and "do_vault out' = do_vault out" and "do_keys out' = (do_keys out)\<lparr>fresh_key := f\<rparr>"
  shows "(\<forall>name \<in> set key_files. files name \<noteq> None \<longrightarrow> files' name = files name)
     \<and> trusted (do_keys out) dir h b files' \<and> configure_keys out' dir files' = (Inr (k, h, b), files')"
proof -
  let ?lib = "do_keys out" and ?accepted = "\<lambda>k. do_vault out k \<noteq> None"
  obtain r1 files1 where key: "configure_management_key ?accepted (do_fresh out) files = (r1, files1)" by fastforce
  obtain r2 files2 where device: "ensure_demo_trust_files ?lib dir files1 = (r2, files2)" by fastforce
  obtain r3 files3 where bastion: "ensure_bastion_trust_files ?lib files2 = (r3, files3)" by fastforce
  have ends: "r1 = Inr k" "r2 = Inr h" "r3 = Inr b" "files3 = files'"
    using assms(1) key device bastion by (cases r1; auto simp: configure_keys_def bindW_def split: sum.splits)+
  obtain s where s: "files1 ''gateway.key'' = Some s" "k = strip s" "?accepted k"
    using configure_key_facts(3) [OF key ends(1)] by blast
  note one = device_trust [OF device [unfolded ends(2)]] and two = bastion_trust [OF bastion [unfolded ends(3,4)]]
  have readable: "key_readable ?lib h" "key_readable ?lib b" using one(1) two(1) assms(2) by blast+
  have trusted: "trusted ?lib dir h b files'"
    using one(2,3) two(2,3) by (simp add: trusted_def device_trusted_def bastion_trusted_def)
  have "files' ''gateway.key'' = Some s" using one(3) two(3) s(1) by simp
  then have again: "configure_management_key (\<lambda>k. do_vault out' k \<noteq> None) (do_fresh out') files' = (Inr k, files')"
    using configure_key_again [of files' s] s(2,3) assms(3) by simp
  have "configure_keys out' dir files' = (Inr (k, h, b), files')"
    using again device_trust_again [OF _ readable(1), of dir files'] bastion_trust_again [OF _ readable(2), of files']
      trusted assms(4) by (simp add: configure_keys_def bindW_def trusted_def)
  moreover have "files' name = files name" if "name \<in> set key_files" "files name \<noteq> None" for name
    using that configure_key_facts(1,2) [OF key] one(3,4) two(3,4) trusted
    by (auto simp: key_files_def trusted_def device_trusted_def bastion_trusted_def)
  ultimately show ?thesis using trusted by blast
qed

section \<open>Listeners\<close>

text \<open>Stopping them, in any order, frees exactly the ports that were bound last.\<close>

lemma stop_all:
  assumes "distinct (map snd es)" and "distinct ports" and "set ports = set (map snd es)" and "dw_bound w = ports @ bound"
  shows "eachW stop_emulator es w = (Inr (), w\<lparr>dw_bound := bound\<rparr>)"
  using assms
proof (induction es arbitrary: ports w)
  case (Cons e es)
  have "eachW stop_emulator es (w\<lparr>dw_bound := remove1 (snd e) ports @ bound\<rparr>)
      = (Inr (), w\<lparr>dw_bound := remove1 (snd e) ports @ bound\<rparr>\<lparr>dw_bound := bound\<rparr>)"
    using Cons.prems by (intro Cons.IH [of "remove1 (snd e) ports"]) auto
  moreover have "stop_emulator e w = (Inr (), w\<lparr>dw_bound := remove1 (snd e) ports @ bound\<rparr>)"
    using Cons.prems by (simp add: stop_emulator_def remove1_append)
  ultimately show ?case by (simp add: thenW_def bindW_def)
qed simp

lemma start_emulators_cases:
  assumes "start_emulators binds started es w = (r, w')" and "dw_bound w = rev (map snd started) @ bound"
    and "distinct (map snd started)" and "set (map snd started) \<inter> set bound = {}"
  shows "r = Inr (started @ es) \<and> distinct (map snd (started @ es)) \<and> w' = w\<lparr>dw_bound := rev (map snd (started @ es)) @ bound\<rparr>
     \<or> (\<exists>port. r = Inl (PortTaken port)) \<and> w' = w\<lparr>dw_bound := bound\<rparr>"
  using assms
proof (induction es arbitrary: started w)
  case (Cons e es)
  show ?case
  proof (cases "binds (snd e) \<and> snd e \<notin> set (dw_bound w)")
    case True
    let ?w = "w\<lparr>dw_bound := snd e # dw_bound w\<rparr>"
    have "start_emulators binds (started @ [e]) es ?w = (r, w')"
      using Cons.prems(1) True by (simp add: bindW_def catchW_def start_emulator_def)
    from Cons.IH [OF this] Cons.prems(2-4) True show ?thesis by auto
  next
    case False
    have "eachW stop_emulator started w = (Inr (), w\<lparr>dw_bound := bound\<rparr>)"
      using Cons.prems by (intro stop_all [of _ "rev (map snd started)"]) auto
    then show ?thesis
      using Cons.prems(1) False by (auto simp: bindW_def catchW_def start_emulator_def thenW_def)
  qed
qed simp

text \<open>
  The emulators are started all or not at all: either every port is
  bound, or the ports that are bound are those that were bound before.
\<close>

theorem demo_emulators_start_together:
  "(case start_emulators binds [] es w of
      (Inr started, w') \<Rightarrow> started = es \<and> w' = w\<lparr>dw_bound := rev (map snd es) @ dw_bound w\<rparr>
    | (Inl e, w') \<Rightarrow> w' = w \<and> (\<exists>port. e = PortTaken port))"
  using start_emulators_cases [of binds "[]" es w _ _ "dw_bound w"]
  by (fastforce split: prod.splits sum.splits)

lemma seeds_keep_bound [keeps_rules]:
  "keeps (\<lambda>w. dw_bound w = ports) (on_env f m)" "keeps (\<lambda>w. dw_bound w = ports) (on_files g m')"
  "keeps (\<lambda>w. dw_bound w = ports) (with_store vault body)" "keeps (\<lambda>w. dw_bound w = ports) (seed_device_table reset)"
  by (auto simp: keeps_def on_env_def on_files_def with_store_def seed_device_table_def Let_def
      split: prod.splits sum.splits)

text \<open>
  C38. Whatever port is taken, whatever seed fails and however the server
  ends: when the program ends, exactly the loopback ports are bound that were bound before.
\<close>

theorem demo_releases_its_ports:
  assumes "\<And>w. dw_bound (snd (serve w)) = dw_bound w"
  shows "dw_bound (snd (run_demo out storage serve w)) = dw_bound w"
proof -
  let ?P = "\<lambda>w'. dw_bound w' = dw_bound w"
  have modify: "keeps ?P (modifyW f)" if "\<And>w. dw_bound (f w) = dw_bound w" for f :: "demo_world \<Rightarrow> demo_world"
    using that by (simp add: keeps_def)
  have last: "keeps ?P (bindW (start_emulators (do_binds out) [] build_emulators)
      (\<lambda>started. finallyW serve (eachW stop_emulator (rev started))))"
  proof (rule keepsI)
    fix w1 r w2
    assume p: "?P w1" and run: "bindW (start_emulators (do_binds out) [] build_emulators)
      (\<lambda>started. finallyW serve (eachW stop_emulator (rev started))) w1 = (r, w2)"
    show "?P w2"
      using run
    proof (cases rule: bindW_cases)
      case (raised e)
      then show ?thesis using start_emulators_cases [OF raised(1), of "dw_bound w1"] p by auto
    next
      case (returned started w3)
      then have s: "distinct (map snd started)" "dw_bound w3 = rev (map snd started) @ dw_bound w1"
        using start_emulators_cases [OF returned(1), of "dw_bound w1"] by auto
      obtain r4 w4 where serve: "serve w3 = (r4, w4)" by fastforce
      then have "dw_bound w4 = rev (map snd started) @ dw_bound w1" using assms [of w3] s by simp
      then have "eachW stop_emulator (rev started) w4 = (Inr (), w4\<lparr>dw_bound := dw_bound w1\<rparr>)"
        using s by (intro stop_all [of _ "rev (map snd started)"]) (auto simp: rev_map [symmetric])
      then show ?thesis using returned(2) serve p by (auto simp: finallyW_def)
    qed
  qed
  have "keeps ?P (run_demo out storage serve)"
    unfolding run_demo_def configure_key_def seed_gateway_def
    by (intro keeps_rules modify last) (auto intro!: keeps_rules modify split: prod.split)
  then show ?thesis by (rule keepsD [where w = w and r = "fst (run_demo out storage serve w)"]) simp_all
qed

section \<open>A sample system\<close>

text \<open>The assignments of \<open>demo/.env.demo\<close>.\<close>

definition demo_env_lines :: "string list" where
  "demo_env_lines = [
     ''# Environment for the Network Gateway API loopback demo profile.'', [],
     ''DB_BACKEND=sqlite'',
     ''DB_SQLITE_PATH=./demo/data/demo_devices.sqlite3'',
     ''ROUTER_USERNAME=demo-fake-user'',
     ''ROUTER_PASSWORD=demo-fake-pass'',
     ''PROXY_USERNAME=demo-fake-proxy-user'',
     ''PROXY_PASSWORD=demo-fake-proxy-pass'',
     ''ROUTER_NETCONF_HOSTKEY_VERIFY=true'',
     ''ROUTER_KNOWN_HOSTS_PATH=./demo/data/demo_known_hosts'',
     ''ROUTER_SSH_CONFIG_PATH=./demo/data/demo_ssh_config'',
     ''ROUTER_CONNECT_TIMEOUT=8'',
     ''ROUTER_TELNET_TIMEOUT=5'',
     ''GATEWAY_DEMO_MODE=true'',
     ''GATEWAY_AUTH_MODE=demo'',
     ''GATEWAY_DEMO_USER_ID=demo-network-admin'',
     ''GATEWAY_DEMO_USER_NAME=Demo Network Administrator'',
     ''GATEWAY_DEMO_USER_EMAIL=demo-admin@example.invalid'',
     ''GATEWAY_DEMO_USER_ROLE=Administrator'',
     ''GATEWAY_DEVICE_DATA_PROVIDER=fake'']"

definition demo_assignments :: "(string \<times> string) list" where
  "demo_assignments = List.map_filter assignment_of demo_env_lines"

definition sample_paths :: demo_paths where
  "sample_paths = \<lparr>expand_user = id,
     resolve_path = (\<lambda>s. if startswith s ''./'' then ''/repo/'' @ drop 2 s else s),
     occupied = (\<lambda>_. False), demo_root = ''/repo/demo''\<rparr>"

definition sample_keys :: key_library where
  "sample_keys = \<lparr>key_readable = (\<lambda>s. startswith s ''PRIVATE''), key_name = (\<lambda>_. ''ecdsa-sha2-nistp256''),
     key_base64 = (\<lambda>s. drop 7 s), fresh_key = (\<lambda>name. ''PRIVATE'' @ name)\<rparr>"

definition sample_demo :: demo_outside where
  "sample_demo = \<lparr>do_paths = sample_paths, do_lines = demo_env_lines,
     do_vault = (\<lambda>k. if k = ''KEY'' then Some sample_services else None),
     do_draws = (\<lambda>slot. \<lparr>uuid4 = (\<lambda>_. slot), utc_now = ''2024-01-01''\<rparr>), do_fresh = ''KEY'',
     do_keys = sample_keys, do_binds = (\<lambda>_. True)\<rparr>"

definition idle_world :: demo_world where
  "idle_world = \<lparr>dw_env = (\<lambda>_. None), dw_files = (\<lambda>_. None), dw_manifest = None, dw_db = empty_db,
     dw_devices = (\<lambda>_. None), dw_bound = [22]\<rparr>"

definition production_env :: environ where
  "production_env name = (if name = ''DATABASE_URL'' then Some ''postgresql://db.example/prod'' else None)"

theorem demo_environment_is_isolated_witness:
  "\<exists>env'. prepare_demo_environment sample_paths demo_env_lines (Some ''/srv/demo'') (\<lambda>_. None) = (Inr ''/srv/demo'', env')
     \<and> device_data_provider env' = Inr ''fake'' \<and> env' ''GATEWAY_SQLITE_PATH'' = Some ''/srv/demo/gateway.sqlite3''"
proof -
  have env: "load_demo_env_file demo_env_lines (\<lambda>_. None) = map_of demo_assignments"
    by (simp add: load_demo_env_eq demo_assignments_def map_add_def)
  have "inherited_checks (\<lambda>_. None) = Inr ()" by code_simp
  moreover have "validate_demo_environment sample_paths None (map_of demo_assignments) = Inr ()" by code_simp
  moreover have "trust_checks sample_paths (map_of demo_assignments) = Inr ()" by code_simp
  moreover have "choose_target sample_paths (Some ''/srv/demo'') = Inr ''/srv/demo''" by code_simp
  moreover have "validate_demo_environment sample_paths (Some ''/srv/demo'') (with_storage ''/srv/demo'' (map_of demo_assignments)) = Inr ()"
    by code_simp
  ultimately have "fst (prepare_demo_environment sample_paths demo_env_lines (Some ''/srv/demo'') (\<lambda>_. None)) = Inr ''/srv/demo''"
    by (simp add: prepare_eq env)
  then obtain env' where run:
    "prepare_demo_environment sample_paths demo_env_lines (Some ''/srv/demo'') (\<lambda>_. None) = (Inr ''/srv/demo'', env')"
    by (metis prod.collapse)
  show ?thesis
    using demo_environment_is_isolated [OF run] run by (auto simp: selected_storage_def path_join_def endswith_def)
qed

theorem refused_demo_touches_nothing_witness:
  "run_demo sample_demo None (raiseW ServerRaised) (idle_world\<lparr>dw_env := production_env\<rparr>)
     = (Inl (PrepareRefused (Refused ''Unset inherited DATABASE_URL before starting the isolated demo.'')),
        idle_world\<lparr>dw_env := production_env\<rparr>)"
proof -
  have checks: "inherited_checks production_env = Inl (Refused ''Unset inherited DATABASE_URL before starting the isolated demo.'')"
    by code_simp
  have "prepare_demo_environment (do_paths sample_demo) (do_lines sample_demo) None (dw_env (idle_world\<lparr>dw_env := production_env\<rparr>))
      = (Inl (Refused ''Unset inherited DATABASE_URL before starting the isolated demo.''), production_env)"
    using checks by (simp add: prepare_eq)
  from refused_demo_touches_nothing [OF this, of "raiseW ServerRaised" True] show ?thesis by simp
qed

theorem demo_keys_are_kept_witness:
  "\<exists>files. configure_keys sample_demo ''/srv/demo'' (\<lambda>_. None)
       = (Inr (''KEY'', ''PRIVATEdemo_host_key'', ''PRIVATEdemo_bastion_host_key''), files)
     \<and> files ''demo_host_key'' = Some ''PRIVATEdemo_host_key''
     \<and> configure_keys (sample_demo\<lparr>do_fresh := ''OTHER''\<rparr>) ''/srv/demo'' files
       = (Inr (''KEY'', ''PRIVATEdemo_host_key'', ''PRIVATEdemo_bastion_host_key''), files)"
proof -
  have "fst (configure_keys sample_demo ''/srv/demo'' (\<lambda>_. None))
      = Inr (''KEY'', ''PRIVATEdemo_host_key'', ''PRIVATEdemo_bastion_host_key'')"
  proof -
    have "strip ''KEY'' = ''KEY''" by code_simp
    then show ?thesis
      by (simp add: configure_keys_def configure_management_key_def Let_def trust_defs sample_demo_def sample_keys_def)
  qed
  then obtain files where run: "configure_keys sample_demo ''/srv/demo'' (\<lambda>_. None)
      = (Inr (''KEY'', ''PRIVATEdemo_host_key'', ''PRIVATEdemo_bastion_host_key''), files)"
    by (metis prod.collapse)
  have "key_readable (do_keys sample_demo) (fresh_key (do_keys sample_demo) name)" for name
    by (simp add: sample_demo_def sample_keys_def startswith_def)
  from demo_keys_are_kept [OF run this, of "sample_demo\<lparr>do_fresh := ''OTHER''\<rparr>" "fresh_key sample_keys"] run
  show ?thesis by (auto simp: sample_demo_def trusted_def device_trusted_def)
qed

theorem demo_releases_its_ports_witness:
  "dw_bound (snd (run_demo sample_demo None (raiseW ServerRaised) idle_world)) = [22]"
  using demo_releases_its_ports [of "raiseW ServerRaised" sample_demo None idle_world] by (simp add: idle_world_def)

end
