(* ===== verification/Emulators.thy ===== *)
theory Emulators
  imports PeerProtocols
begin

text \<open>
  The device emulators of the demo, \<open>demo/emulators/telnet_emulator.py\<close>, \<open>ssh_emulator.py\<close> and
  \<open>netconf_emulator.py\<close>: what one accepted connection is answered. A connection is described by what
  its reads find and whether its writes succeed; the SSH transport is paramiko, which asks the server
  interface and hands over a channel.
\<close>

section \<open>Connections\<close>

text \<open>A read finds bytes (none when the client has closed), times out, or raises \<open>OSError\<close>.\<close>

datatype line_read = Chunk bytes | Silence | Broken

record client_line =
  coming :: "line_read list"
  writable :: "bool list"
  shown :: "bytes list"

text \<open>The exceptions: \<open>OSError\<close>, and a \<open>ValueError\<close> of a strict decoder.\<close>

datatype emulator_exn = LineFailed | NotDecoded

type_synonym 'a line_call = "(client_line, emulator_exn, 'a) io"

text \<open>\<open>recv(n)\<close>; no bytes at all is the time-out. A client with nothing more to say is silent.\<close>

definition line_recv :: "nat \<Rightarrow> bytes option line_call" where
  "line_recv n w = (case coming w of
      [] \<Rightarrow> (Inr None, w)
    | Silence # rs \<Rightarrow> (Inr None, w\<lparr>coming := rs\<rparr>)
    | Broken # rs \<Rightarrow> (Inl LineFailed, w\<lparr>coming := rs\<rparr>)
    | Chunk bs # rs \<Rightarrow> (Inr (Some (take n bs)), w\<lparr>coming := (if length bs \<le> n then rs else Chunk (drop n bs) # rs)\<rparr>))"

definition line_send :: "bytes \<Rightarrow> unit line_call" where
  "line_send bs w = (case writable w of
      False # ss \<Rightarrow> (Inl LineFailed, w\<lparr>writable := ss\<rparr>)
    | True # ss \<Rightarrow> (Inr (), w\<lparr>writable := ss, shown := shown w @ [bs]\<rparr>)
    | [] \<Rightarrow> (Inr (), w\<lparr>shown := shown w @ [bs]\<rparr>))"

primrec read_size :: "line_read \<Rightarrow> nat" where
  "read_size (Chunk bs) = Suc (length bs)"
| "read_size Silence = 1"
| "read_size Broken = 1"

definition still_coming :: "client_line \<Rightarrow> nat" where
  "still_coming w = sum_list (map read_size (coming w))"

lemma line_recv_coming:
  assumes "line_recv n w = (r, w')"
  shows "still_coming w' \<le> still_coming w" and "r = Inr (Some bs) \<Longrightarrow> bs \<noteq> [] \<Longrightarrow> still_coming w' < still_coming w"
    and "r = Inr (Some bs) \<Longrightarrow> length bs \<le> n" and "shown w' = shown w" and "writable w' = writable w"
  using assms by (auto simp: line_recv_def still_coming_def split: list.splits line_read.splits if_splits)

lemma line_send_coming: "line_send bs w = (r, w') \<Longrightarrow> still_coming w' = still_coming w"
  by (auto simp: line_send_def still_coming_def split: list.splits bool.splits)

section \<open>Texts\<close>

text \<open>
  \<open>bytes.decode("utf-8", "ignore")\<close> as code points: a byte at which no sequence can be read is left
  out. \<open>encode_points\<close> is \<open>str.encode("utf-8")\<close>.
\<close>

function decode_ignore :: "bytes \<Rightarrow> nat list" where
  "decode_ignore [] = []"
| "decode_ignore (b # bs) = (case sequence_of b of
      None \<Rightarrow> decode_ignore bs
    | Some (k, lo, hi) \<Rightarrow>
        let n = code_point (lead_bits k b) (take k bs) in
        if length bs < k \<or> \<not> list_all continuation (take k bs) \<or> n < lo \<or> hi < n \<or> 55296 \<le> n \<and> n \<le> 57343
        then decode_ignore bs else n # decode_ignore (drop k bs))"
  by pat_completeness auto

termination
  by (relation "measure length") auto

definition encode_point :: "nat \<Rightarrow> bytes" where
  "encode_point n =
     (if n < 128 then [word_of_nat n]
      else if n < 2048 then [word_of_nat (192 + n div 64), word_of_nat (128 + n mod 64)]
      else if n < 65536 then [word_of_nat (224 + n div 4096), word_of_nat (128 + n div 64 mod 64), word_of_nat (128 + n mod 64)]
      else [word_of_nat (240 + n div 262144), word_of_nat (128 + n div 4096 mod 64),
            word_of_nat (128 + n div 64 mod 64), word_of_nat (128 + n mod 64)])"

definition encode_points :: "nat list \<Rightarrow> bytes" where
  "encode_points ns = concat (map encode_point ns)"

text \<open>\<open>str.strip\<close> on code points.\<close>

definition point_space :: "nat \<Rightarrow> bool" where
  "point_space n \<longleftrightarrow> 9 \<le> n \<and> n \<le> 13 \<or> 28 \<le> n \<and> n \<le> 32 \<or> 8192 \<le> n \<and> n \<le> 8202
     \<or> n \<in> {133, 160, 5760, 8232, 8233, 8239, 8287, 12288}"

definition strip_points :: "nat list \<Rightarrow> nat list" where
  "strip_points ns = rev (dropWhile point_space (rev (dropWhile point_space ns)))"

section \<open>The Telnet emulator\<close>

definition line_end :: bytes where
  "line_end = [13, 10]"

definition telnet_banner :: bytes where
  "telnet_banner = ascii ''Generic Simulated Telnet Login (demo emulator - not real device firmware)'' @ line_end"

definition telnet_prompt :: bytes where
  "telnet_prompt = ascii ''demo-router-telnet> ''"

text \<open>\<open>_recv_line\<close>, with what was read so far.\<close>

function recv_line :: "bytes \<Rightarrow> bytes line_call" where
  "recv_line buf w =
     (if 10 \<in> set buf then (Inr (strip_line buf), w)
      else case line_recv 256 w of
        (Inl e, w) \<Rightarrow> (Inl e, w)
      | (Inr None, w) \<Rightarrow> (Inr (strip_line buf), w)
      | (Inr (Some chunk), w) \<Rightarrow> if chunk = [] then (Inr (strip_line buf), w) else recv_line (buf @ chunk) w)"
  by pat_completeness auto

termination
  by (relation "measure (\<lambda>(_, w). still_coming w)") (auto dest!: sym [of "(Inr (Some _), _)"] line_recv_coming(2))

declare recv_line.simps [simp del]

text \<open>One turn of \<open>_command_loop\<close>: what is sent, and whether the session goes on.\<close>

definition telnet_response :: "bytes \<Rightarrow> bytes \<times> bool" where
  "telnet_response command =
     (let line = strip_points (decode_ignore command) in
      if line \<in> points ` {''exit'', ''quit'', ''logout''} then (ascii ''bye'' @ line_end, False)
      else if take 14 line = points ''show interface''
      then (ascii ''[SIMULATED - generic demo emulator, not real device firmware]'' @ line_end
          @ ascii ''interface0: up, simulated counters ok'' @ line_end @ telnet_prompt, True)
      else (ascii ''% Unknown command (simulated)'' @ line_end @ telnet_prompt, True))"

lemma recv_line_coming: "recv_line buf w = (r, w') \<Longrightarrow> still_coming w' \<le> still_coming w"
proof (induction buf w arbitrary: r w' rule: recv_line.induct)
  case (1 buf w)
  show ?case
    using "1.IH" "1.prems" recv_line.simps [of buf w] line_recv_coming(1) [where n = 256 and w = w]
    by (fastforce split: if_splits prod.splits sum.splits option.splits)
qed

lemma recv_line_consumes:
  assumes "recv_line [] w = (Inr line, w')" and "line \<noteq> []"
  shows "still_coming w' < still_coming w"
proof -
  have "strip_line [] = []" by (simp add: strip_line_def)
  then obtain chunk w1 where "line_recv 256 w = (Inr (Some chunk), w1)" and "chunk \<noteq> []"
    and "recv_line chunk w1 = (Inr line, w')"
    using assms by (auto simp: recv_line.simps [of "[]" w] split: prod.splits sum.splits option.splits if_splits)
  then show ?thesis using line_recv_coming(2) recv_line_coming by fastforce
qed

function command_loop :: "unit line_call" where
  "command_loop w = (case recv_line [] w of
      (Inl e, w) \<Rightarrow> (Inl e, w)
    | (Inr command, w) \<Rightarrow>
        if command = [] then (Inr (), w)
        else (case line_send (fst (telnet_response command)) w of
            (Inl e, w) \<Rightarrow> (Inl e, w)
          | (Inr _, w) \<Rightarrow> if snd (telnet_response command) then command_loop w else (Inr (), w)))"
  by pat_completeness auto

termination
  by (relation "measure still_coming")
    (auto dest!: sym [of "(Inr _, _)"] recv_line_consumes dest: line_send_coming)

declare command_loop.simps [simp del]

text \<open>
  \<open>_handle_connection\<close>. An \<open>OSError\<close> ends it silently; the socket is closed in any case, so only what
  was sent matters.
\<close>

definition telnet_greeting :: "string \<Rightarrow> string \<Rightarrow> bool line_call" where
  "telnet_greeting username password =
     bindW (line_send telnet_banner) (\<lambda>_.
     bindW (line_send (ascii ''Username: '')) (\<lambda>_.
     bindW (recv_line []) (\<lambda>given_username.
     bindW (line_send (ascii ''Password: '')) (\<lambda>_.
     bindW (recv_line []) (\<lambda>given_password.
     returnW (decode_ignore given_username = points username \<and> decode_ignore given_password = points password))))))"

definition telnet_session :: "string \<Rightarrow> string \<Rightarrow> unit line_call" where
  "telnet_session username password =
     bindW (telnet_greeting username password) (\<lambda>accepted.
     if \<not> accepted then line_send (ascii ''Login incorrect'' @ line_end)
     else bindW (line_send (line_end @ telnet_prompt)) (\<lambda>_. command_loop))"

definition telnet_emulator :: "string \<Rightarrow> string \<Rightarrow> unit line_call" where
  "telnet_emulator username password = catchW (telnet_session username password) (\<lambda>_. returnW ())"

section \<open>The server interfaces\<close>

text \<open>What both SSH servers answer to paramiko; \<open>True\<close> is success.\<close>

definition session_channel :: "string \<Rightarrow> bool" where
  "session_channel kind \<longleftrightarrow> kind = ''session''"

definition emulator_password :: "string \<times> string \<Rightarrow> string \<times> string \<Rightarrow> bool" where
  "emulator_password account given \<longleftrightarrow> fst given = fst account \<and> snd given = snd account"

definition emulator_auths :: string where
  "emulator_auths = ''password''"

section \<open>The SSH emulator\<close>

definition fake_show_interface_output :: "nat list \<Rightarrow> nat list" where
  "fake_show_interface_output command =
     points (''[SIMULATED - demo emulator, not a real device]'' @ [CHR 0x0A] @ ''% ran: '') @ command
     @ points ([CHR 0x0A] @ ''GigabitEthernet0/0 is up, line protocol is up'' @ [CHR 0x0A]
         @ ''  Description: demo-loopback-interface'' @ [CHR 0x0A]
         @ ''  Internet address is 192.0.2.1/24'' @ [CHR 0x0A]
         @ ''  5 minute input rate 1000 bits/sec, 1 packets/sec'' @ [CHR 0x0A]
         @ ''  5 minute output rate 1000 bits/sec, 1 packets/sec'' @ [CHR 0x0A])"

text \<open>
  A connection: whether the key exchange succeeds, the credentials the client tries, the kind of
  channel it asks for, and the command it wants executed, \<open>None\<close> when nothing comes in time. The
  result is the exit status that was sent.
\<close>

record ssh_client_side =
  key_exchange :: bool
  passwords :: "(string \<times> string) list"
  channel_kind :: "string option"
  exec_request :: "bytes option"

definition channel_opened :: "string \<times> string \<Rightarrow> ssh_client_side \<Rightarrow> bool" where
  "channel_opened account c \<longleftrightarrow> key_exchange c \<and> list_ex (emulator_password account) (passwords c)
     \<and> (case channel_kind c of Some kind \<Rightarrow> session_channel kind | None \<Rightarrow> False)"

definition ssh_connection :: "string \<times> string \<Rightarrow> ssh_client_side \<Rightarrow> nat option line_call" where
  "ssh_connection account c =
     (if \<not> channel_opened account c then returnW None
      else case exec_request c of
        None \<Rightarrow> returnW None
      | Some command \<Rightarrow> catchW
          (bindW (line_send (encode_points (fake_show_interface_output (decode_ignore command)))) (\<lambda>_. returnW (Some 0)))
          (\<lambda>_. returnW None))"

section \<open>The NETCONF emulator\<close>

definition dquote :: string where
  "dquote = [CHR 0x22]"

definition eom :: bytes where
  "eom = ascii '']]>]]>''"

definition server_hello :: bytes where
  "server_hello = ascii (''<hello xmlns='' @ dquote @ ''urn:ietf:params:xml:ns:netconf:base:1.0'' @ dquote
     @ ''><capabilities><capability>urn:ietf:params:netconf:base:1.0</capability></capabilities>''
     @ ''<session-id>1</session-id></hello>'') @ eom"

definition rpc_reply :: "bytes \<Rightarrow> string \<Rightarrow> bytes" where
  "rpc_reply message_id body = ascii (''<rpc-reply message-id='' @ dquote) @ message_id
     @ ascii (dquote @ '' xmlns='' @ dquote @ ''urn:ietf:params:xml:ns:netconf:base:1.0'' @ dquote @ ''>'' @ body @ ''</rpc-reply>'') @ eom"

text \<open>
  \<open>bytes.split(mark, 1)\<close> of bytes with the mark: what is before its first occurrence, and the rest.
\<close>

fun split_mark :: "bytes \<Rightarrow> bytes \<Rightarrow> (bytes \<times> bytes) option" where
  "split_mark mark [] = (if mark = [] then Some ([], []) else None)"
| "split_mark mark (b # bs) = (if prefix mark (b # bs) then Some ([], drop (length mark) (b # bs))
     else map_option (\<lambda>(l, r). (b # l, r)) (split_mark mark bs))"

text \<open>\<open>re.search\<close> of \<open>message-id="([^"]*)"\<close>: a second start would be the end of the first.\<close>

definition message_id_mark :: bytes where
  "message_id_mark = ascii (''message-id='' @ dquote)"

definition message_id_of :: "bytes \<Rightarrow> bytes option" where
  "message_id_of raw = (case split_mark message_id_mark raw of
      None \<Rightarrow> None
    | Some (_, rest) \<Rightarrow> if 34 \<in> set rest then Some (takeWhile (\<lambda>b. b \<noteq> 34) rest) else None)"

text \<open>\<open>re.search\<close> of \<open>[:<]get[ />]\<close>.\<close>

definition has_get_element :: "bytes \<Rightarrow> bool" where
  "has_get_element raw \<longleftrightarrow>
     list_ex (\<lambda>c. list_ex (\<lambda>d. sublist (ascii ([c] @ ''get'' @ [d])) raw) '' />'') '':<''"

datatype rpc_kind = CloseSession | GetConfigRpc | EditConfigRpc | GetRpc | OtherRpc

definition rpc_kind_of :: "bytes \<Rightarrow> rpc_kind" where
  "rpc_kind_of raw =
     (if sublist (ascii ''close-session'') raw then CloseSession
      else if sublist (ascii ''get-config'') raw then GetConfigRpc
      else if sublist (ascii ''edit-config'') raw then EditConfigRpc
      else if has_get_element raw then GetRpc else OtherRpc)"

definition rpc_body :: "rpc_kind \<Rightarrow> string" where
  "rpc_body kind = (case kind of
      CloseSession \<Rightarrow> ''<ok/>''
    | GetConfigRpc \<Rightarrow> ''<data><interfaces><interface><name>demo0</name><simulated>true</simulated></interface></interfaces></data>''
    | EditConfigRpc \<Rightarrow> ''<ok/>''
    | GetRpc \<Rightarrow> ''<data><simulated-operational-state>demo</simulated-operational-state></data>''
    | OtherRpc \<Rightarrow> ''<rpc-error><error-type>application</error-type><error-severity>error</error-severity>''
        @ ''<error-message>Unsupported operation in demo NETCONF emulator</error-message></rpc-error>'')"

text \<open>\<open>_handle_rpc\<close>: the identifier is decoded strictly and encoded again.\<close>

definition handle_rpc :: "bytes \<Rightarrow> emulator_exn + bytes" where
  "handle_rpc raw =
     (let message_id = (case message_id_of raw of Some i \<Rightarrow> i | None \<Rightarrow> ascii ''0'') in
      case utf8_points message_id of
        None \<Rightarrow> Inl NotDecoded
      | Some _ \<Rightarrow> Inr (rpc_reply message_id (rpc_body (rpc_kind_of raw))))"

text \<open>\<open>_read_framed_message\<close>, with what was read so far; what follows the mark is dropped.\<close>

function read_framed :: "bytes \<Rightarrow> bytes option line_call" where
  "read_framed buf w = (case split_mark eom buf of
      Some (message, _) \<Rightarrow> (Inr (Some message), w)
    | None \<Rightarrow> (case line_recv 4096 w of
        (Inl e, w) \<Rightarrow> (Inl e, w)
      | (Inr None, w) \<Rightarrow> (Inr None, w)
      | (Inr (Some chunk), w) \<Rightarrow> if chunk = [] then (Inr None, w) else read_framed (buf @ chunk) w))"
  by pat_completeness auto

termination
  by (relation "measure (\<lambda>(_, w). still_coming w)") (auto dest!: sym [of "(Inr (Some _), _)"] line_recv_coming(2))

declare read_framed.simps [simp del]

lemma read_framed_coming: "read_framed buf w = (r, w') \<Longrightarrow> still_coming w' \<le> still_coming w"
proof (induction buf w arbitrary: r w' rule: read_framed.induct)
  case (1 buf w)
  show ?case
    using "1.IH" "1.prems" read_framed.simps [of buf w] line_recv_coming(1) [where n = 4096 and w = w]
    by (fastforce split: if_splits prod.splits sum.splits option.splits)
qed

lemma read_framed_consumes:
  assumes "read_framed [] w = (Inr (Some raw), w')"
  shows "still_coming w' < still_coming w"
proof -
  have "split_mark eom [] = None" by (simp add: eom_def ascii_def)
  then obtain chunk w1 where "line_recv 4096 w = (Inr (Some chunk), w1)" and "chunk \<noteq> []"
    and "read_framed chunk w1 = (Inr (Some raw), w')"
    using assms by (auto simp: read_framed.simps [of "[]" w] split: prod.splits sum.splits option.splits if_splits)
  then show ?thesis using line_recv_coming(2) read_framed_coming by fastforce
qed

text \<open>The loop of \<open>_netconf_loop\<close>.\<close>

function rpc_loop :: "unit line_call" where
  "rpc_loop w = (case read_framed [] w of
      (Inl e, w) \<Rightarrow> (Inl e, w)
    | (Inr None, w) \<Rightarrow> (Inr (), w)
    | (Inr (Some raw), w) \<Rightarrow> (case handle_rpc raw of
        Inl e \<Rightarrow> (Inl e, w)
      | Inr out \<Rightarrow> (case line_send out w of
          (Inl e, w) \<Rightarrow> (Inl e, w)
        | (Inr _, w) \<Rightarrow> if rpc_kind_of raw = CloseSession then (Inr (), w) else rpc_loop w)))"
  by pat_completeness auto

termination
  by (relation "measure still_coming")
    (auto dest!: sym [of "(Inr _, _)"] read_framed_consumes dest: line_send_coming)

declare rpc_loop.simps [simp del]

definition netconf_loop :: "unit line_call" where
  "netconf_loop = bindW (read_framed []) (\<lambda>hello. case hello of
      None \<Rightarrow> returnW () | Some _ \<Rightarrow> bindW (line_send server_hello) (\<lambda>_. rpc_loop))"

text \<open>A connection: the channel must ask for the subsystem \<open>netconf\<close>; exceptions are logged.\<close>

definition check_netconf_subsystem :: "string \<Rightarrow> bool" where
  "check_netconf_subsystem name \<longleftrightarrow> name = ''netconf''"

definition netconf_connection :: "string \<times> string \<Rightarrow> ssh_client_side \<Rightarrow> string option \<Rightarrow> unit line_call" where
  "netconf_connection account c subsystem =
     (if \<not> channel_opened account c then returnW ()
      else case subsystem of
        None \<Rightarrow> returnW ()
      | Some name \<Rightarrow> if check_netconf_subsystem name then catchW netconf_loop (\<lambda>_. returnW ()) else returnW ())"

end
