(* ===== verification/EmulatorLaws.thy ===== *)
theory EmulatorLaws
  imports Emulators Telnet Conversations Instance
begin

text \<open>
  The emulators and their clients: the Telnet adapter of the gateway gets through a whole session
  with the Telnet emulator, and the NETCONF emulator answers every request that arrives alone.
\<close>

section \<open>Decoding\<close>

lemma decode_ignore_strict: "utf8_points bs = Some ns \<Longrightarrow> decode_ignore bs = ns"
proof (induction bs arbitrary: ns rule: utf8_points.induct)
  case (2 b bs)
  then show ?case by (auto simp: Let_def split: option.splits prod.splits if_splits)
qed simp

lemma decode_ignore_utf8: "decode_ignore (utf8 s) = points s"
  by (rule decode_ignore_strict [OF utf8_points_utf8])

section \<open>The adapter's side\<close>

lemma feed_plain: "IAC \<notin> set bs \<Longrightarrow> ng_state ng = Normal \<Longrightarrow> feed bs ng w = (bs, ng, w)"
  by (induction bs) (auto simp: feed_byte_def)

lemma recv_loop_done: "sublist mark buf \<Longrightarrow> recv_loop mark deadline limit buf ng s = (Inr buf, s\<lparr>session_negotiator := Some ng\<rparr>)"
  by (simp add: recv_loop.simps)

lemma recv_loop_more:
  assumes "\<not> sublist mark buf" and "readings s = []" and "now s < deadline" and "arrivals s = Data bs # as"
    and "bs \<noteq> []" and "length bs \<le> 1024" and "IAC \<notin> set bs" and "ng_state ng = Normal" and "length (buf @ bs) \<le> limit"
  shows "recv_loop mark deadline limit buf ng s = recv_loop mark deadline limit (buf @ bs) ng (s\<lparr>arrivals := as\<rparr>)"
  using assms by (simp add: recv_loop.simps [of mark deadline limit buf] monotonic_def recv_def feed_plain)

text \<open>A session in which the clock stands still and the socket takes everything.\<close>

definition easy :: "telnet \<Rightarrow> arrival list \<Rightarrow> bool" where
  "easy s as \<longleftrightarrow> readings s = [] \<and> sends s = [] \<and> socket_open s
     \<and> session_negotiator s = Some fresh_negotiator \<and> arrivals s = as"

definition plain_chunk :: "bytes \<Rightarrow> bool" where
  "plain_chunk bs \<longleftrightarrow> bs \<noteq> [] \<and> length bs \<le> 1024 \<and> IAC \<notin> set bs"

lemma timeout_positive: "timeout_of c = Inr d \<Longrightarrow> 0 < d"
  by (auto simp: timeout_of_def Let_def split: option.splits pyfloat.splits if_splits)

lemma await_chunks:
  assumes "timeout_of c = Inr d" and "easy s (map Data bss @ as)" and "bss \<noteq> []" and "\<forall>bs \<in> set bss. plain_chunk bs"
    and "length (concat bss) \<le> max_response_bytes" and "sublist (ascii mark) (concat bss)"
    and "\<not> sublist (ascii mark) (concat (butlast bss))"
  shows "await c mark s = (Inr (concat bss), s\<lparr>arrivals := as\<rparr>)"
proof -
  have loop: "recv_loop (ascii mark) deadline max_response_bytes (concat xs) fresh_negotiator (s\<lparr>arrivals := map Data ys @ as\<rparr>)
      = (Inr (concat bss), s\<lparr>arrivals := as\<rparr>)"
    if "bss = xs @ ys" and "now s < deadline" for xs ys deadline
    using that(1)
  proof (induction ys arbitrary: xs)
    case Nil
    have "s\<lparr>arrivals := as, session_negotiator := Some fresh_negotiator\<rparr> = s\<lparr>arrivals := as\<rparr>"
      using assms(2) by (cases s) (simp add: easy_def)
    then show ?case using Nil assms(6) by (simp add: recv_loop_done)
  next
    case (Cons y ys)
    have "\<not> sublist (ascii mark) (concat xs)"
    proof
      assume "sublist (ascii mark) (concat xs)"
      moreover have "butlast bss = xs @ butlast (y # ys)" using Cons.prems by (simp add: butlast_append)
      ultimately show False using assms(7) by (simp add: sublist_append)
    qed
    moreover have "plain_chunk y" using Cons.prems assms(4) by simp
    ultimately have "recv_loop (ascii mark) deadline max_response_bytes (concat xs) fresh_negotiator (s\<lparr>arrivals := map Data (y # ys) @ as\<rparr>)
        = recv_loop (ascii mark) deadline max_response_bytes (concat xs @ y) fresh_negotiator (s\<lparr>arrivals := map Data ys @ as\<rparr>)"
      using assms(2,5) Cons.prems that(2)
      by (subst recv_loop_more [of _ _ _ _ y "map Data ys @ as"])
        (auto simp: easy_def plain_chunk_def fresh_negotiator_def)
    also have "\<dots> = (Inr (concat bss), s\<lparr>arrivals := as\<rparr>)"
      using Cons.IH [of "xs @ [y]"] Cons.prems by simp
    finally show ?case .
  qed
  have "s\<lparr>arrivals := map Data bss @ as\<rparr> = s" using assms(2) by (cases s) (simp add: easy_def)
  then have "recv_loop (ascii mark) (now s + d) max_response_bytes [] fresh_negotiator s = (Inr (concat bss), s\<lparr>arrivals := as\<rparr>)"
    using loop [of "[]" bss "now s + d"] timeout_positive [OF assms(1)] by simp
  then show ?thesis
    using assms(1,2) by (simp add: await_def bindW_def read_clock_def monotonic_def easy_def recv_until_def)
qed

lemma tn_send_easy: "easy s as \<Longrightarrow> tn_send bs s = (Inr (), s\<lparr>sent := sent s @ [bs]\<rparr>)"
  by (simp add: tn_send_def sendall_def easy_def)

lemma easy_updates [simp]: "easy (s\<lparr>sent := x\<rparr>) as = easy s as" "easy (s\<lparr>authenticated := y\<rparr>) as = easy s as"
  "easy s bs \<Longrightarrow> easy (s\<lparr>arrivals := as\<rparr>) as"
  by (simp_all add: easy_def)

section \<open>The emulator's side\<close>

definition plain_line :: "string \<Rightarrow> bool" where
  "plain_line s \<longleftrightarrow> CHR 0x0A \<notin> set s \<and> CHR 0x0D \<notin> set s \<and> length (utf8 s) \<le> 254"

lemma recv_line_chunk:
  assumes "coming w = Chunk bs # rs" and "10 \<in> set bs" and "length bs \<le> 256"
  shows "recv_line [] w = (Inr (strip_line bs), w\<lparr>coming := rs\<rparr>)"
proof -
  have "recv_line bs (w\<lparr>coming := rs\<rparr>) = (Inr (strip_line bs), w\<lparr>coming := rs\<rparr>)"
    using assms(2) by (simp add: recv_line.simps)
  then show ?thesis using assms by (auto simp: recv_line.simps [of "[]"] line_recv_def)
qed

lemma recv_line_silent: "coming w = [] \<Longrightarrow> recv_line [] w = (Inr [], w)"
  by (simp add: recv_line.simps [of "[]"] line_recv_def strip_line_def)

lemma utf8_Nil: "utf8 s = [] \<longleftrightarrow> s = []"
  by (cases s) (simp_all add: utf8_def utf8_char_def)

lemma utf8_char_bytes:
  assumes "b \<in> set (utf8_char c)"
  shows "unat b = ord_of c \<and> ord_of c < 128 \<or> 128 \<le> unat b \<and> unat b < 255"
proof -
  define n where "n = ord_of c"
  have "n < 256" by (simp add: n_def ord_of_def)
  then have small: "n div 64 < 4" "n mod 64 < 64" by auto
  then have u: "unat (word_of_nat (192 + n div 64) :: byte) = 192 + n div 64"
    "unat (word_of_nat (128 + n mod 64) :: byte) = 128 + n mod 64"
    by (simp_all add: unat_of_nat del: of_nat_add)
  show ?thesis
  proof (cases "n < 128")
    case True
    then show ?thesis using assms by (simp add: utf8_char_def n_def [symmetric] unat_of_nat)
  next
    case False
    then have "unat b = 192 + n div 64 \<or> unat b = 128 + n mod 64"
      using assms u by (auto simp: utf8_char_def n_def [symmetric] simp del: of_nat_add)
    then show ?thesis using small by auto
  qed
qed

lemma utf8_plain:
  assumes "b \<in> set (utf8 s)"
  shows "b \<noteq> IAC" and "plain_line s \<Longrightarrow> \<not> line_break b"
proof -
  obtain c where c: "c \<in> set s" "b \<in> set (utf8_char c)" using assms by (auto simp: utf8_def)
  note b = utf8_char_bytes [OF c(2)]
  show "b \<noteq> IAC" using b by (auto simp: IAC_def)
  show "\<not> line_break b" if "plain_line s"
  proof
    assume "line_break b"
    then have "unat b = 13 \<or> unat b = 10" by (auto simp: line_break_def)
    then have "ord_of c = ord_of (CHR 0x0D) \<or> ord_of c = ord_of (CHR 0x0A)" using b by (auto simp: ord_of_def)
    then have "c = CHR 0x0D \<or> c = CHR 0x0A" by (simp only: ord_of_def of_char_eq_iff)
    then show False using c(1) that by (auto simp: plain_line_def)
  qed
qed

lemma strip_sent_line:
  assumes "plain_line s"
  shows "strip_line (utf8 s @ crlf_bytes) = utf8 s"
proof -
  have no: "\<not> line_break b" if "b \<in> set (utf8 s)" for b
    using utf8_plain(2) [OF that assms] .
  have keep: "dropWhile line_break bs = bs" if "\<forall>b \<in> set bs. \<not> line_break b" for bs
    using that by (cases bs) auto
  have brk: "line_break 13" "line_break 10" by (simp_all add: line_break_def)
  show ?thesis
  proof (cases "utf8 s")
    case Nil
    then show ?thesis using brk by (simp add: strip_line_def crlf_bytes_def)
  next
    case (Cons b bs)
    then have first: "dropWhile line_break (utf8 s @ crlf_bytes) = utf8 s @ crlf_bytes" using no by simp
    have "dropWhile line_break (rev (utf8 s @ crlf_bytes)) = rev (utf8 s)"
      using brk keep [of "rev (utf8 s)"] no by (simp add: crlf_bytes_def)
    then show ?thesis unfolding strip_line_def first by simp
  qed
qed

section \<open>A whole session\<close>

definition simulated_interface :: bytes where
  "simulated_interface = ascii ''[SIMULATED - generic demo emulator, not real device firmware]'' @ line_end
     @ ascii ''interface0: up, simulated counters ok'' @ line_end @ telnet_prompt"

definition session_questions :: "string \<Rightarrow> string \<Rightarrow> string \<Rightarrow> bytes list" where
  "session_questions username password name = map (\<lambda>line. utf8 line @ crlf_bytes)
     [username, password, show_interface_command name]"

definition session_replies :: "bytes list" where
  "session_replies = [telnet_banner, ascii ''Username: '', ascii ''Password: '', line_end @ telnet_prompt, simulated_interface]"

lemma emulator_chunks:
  "\<forall>bs \<in> set session_replies. plain_chunk bs" "\<forall>bs \<in> set session_replies. length bs \<le> 200"
proof -
  have small: "\<forall>bs \<in> set session_replies. length bs \<le> 200"
    by (simp add: session_replies_def simulated_interface_def telnet_banner_def telnet_prompt_def line_end_def)
  then show "\<forall>bs \<in> set session_replies. length bs \<le> 200" .
  have "list_all (\<lambda>bs. bs \<noteq> [] \<and> IAC \<notin> set bs) session_replies" by code_simp
  then show "\<forall>bs \<in> set session_replies. plain_chunk bs"
    using small by (fastforce simp: plain_chunk_def list_all_iff)
qed

lemma emulator_marks:
  "sublist (ascii ''Username:'') (telnet_banner @ ascii ''Username: '')" "\<not> sublist (ascii ''Username:'') telnet_banner"
  "sublist (ascii ''Password:'') (ascii ''Password: '')" "sublist (ascii ''> '') (line_end @ telnet_prompt)"
  "sublist (ascii ''> '') simulated_interface"
  by code_simp+

lemma no_mark: "m \<noteq> [] \<Longrightarrow> \<not> sublist (ascii m) []"
  by (simp add: ascii_def)

lemma adapter_session:
  assumes "timeout_of c = Inr d" and "resolve_credentials c = Inr (username, password)"
    and "\<not> socket_open s" and "readings s = []" and "sends s = []" and "dials s = [Some (map Data session_replies)]"
  shows "\<exists>s'. show_interface c name s
      = (Inr [(''command'', JStr (show_interface_command name)), (''output'', JStr (utf8_ignore c simulated_interface))], s')
     \<and> sent s' = sent s @ session_questions username password name"
proof -
  let ?chunks = "map Data session_replies"
  have await: "await c mark v = (Inr (concat bss), v\<lparr>arrivals := as\<rparr>)"
    if "easy v (map Data bss @ as)" "bss \<noteq> []" "set bss \<subseteq> set session_replies" "length bss \<le> 2"
      "sublist (ascii mark) (concat bss)" "\<not> sublist (ascii mark) (concat (butlast bss))" for mark v bss as
  proof (rule await_chunks [OF assms(1) that(1,2) _ _ that(5,6)])
    show "\<forall>bs \<in> set bss. plain_chunk bs" using that(3) emulator_chunks(1) by blast
    have "length (concat bss) \<le> sum_list (map (\<lambda>_. 200) bss)"
      unfolding length_concat using that(3) emulator_chunks(2) by (intro sum_list_mono) auto
    also have "\<dots> = length bss * 200" by (simp add: sum_list_triv)
    finally show "length (concat bss) \<le> max_response_bytes" using that(4) by (simp add: max_response_bytes_def)
  qed
  have answers: "answer c mark line v = (Inr (), v\<lparr>arrivals := as, sent := sent v @ [utf8 line @ crlf_bytes]\<rparr>)"
    if "easy v (map Data bss @ as)" "bss \<noteq> []" "set bss \<subseteq> set session_replies" "length bss \<le> 2"
      "sublist (ascii mark) (concat bss)" "\<not> sublist (ascii mark) (concat (butlast bss))" for mark line v bss as
  proof -
    have "easy (v\<lparr>arrivals := as\<rparr>) as" using that(1) by simp
    from await [OF that] tn_send_easy [OF this] show ?thesis by (simp add: answer_def bindW_def)
  qed
  define s1 where "s1 = s\<lparr>arrivals := ?chunks, dials := [], socket_open := True, session_negotiator := Some fresh_negotiator\<rparr>"
  define s2 where "s2 = s1\<lparr>arrivals := map Data (drop 2 session_replies), sent := sent s1 @ [utf8 username @ crlf_bytes]\<rparr>"
  define s3 where "s3 = s2\<lparr>arrivals := map Data (drop 3 session_replies), sent := sent s2 @ [utf8 password @ crlf_bytes]\<rparr>"
  define s4 where "s4 = s3\<lparr>arrivals := map Data (drop 4 session_replies), authenticated := True\<rparr>"
  define s5 where "s5 = s4\<lparr>sent := sent s4 @ [utf8 (show_interface_command name) @ crlf_bytes]\<rparr>"
  have s1: "easy s1 ?chunks" using assms by (simp add: easy_def s1_def)
  have easy: "easy s2 (map Data (drop 2 session_replies))" "easy s3 (map Data (drop 3 session_replies))"
    "easy s4 (map Data (drop 4 session_replies))" "easy s5 (map Data (drop 4 session_replies))"
    using s1 by (simp_all add: easy_def s2_def s3_def s4_def s5_def)
  have one: "answer c ''Username:'' username s1 = (Inr (), s2)"
    using answers [of s1 "[telnet_banner, ascii ''Username: '']" "map Data (drop 2 session_replies)" "''Username:''" username]
      s1 emulator_marks(1,2) by (simp add: session_replies_def s2_def)
  have two: "answer c ''Password:'' password s2 = (Inr (), s3)"
    using answers [of s2 "[ascii ''Password: '']" "map Data (drop 3 session_replies)" "''Password:''" password]
      easy(1) emulator_marks(3) no_mark [of "''Password:''"] by (simp add: session_replies_def s3_def)
  have three: "await c ''> '' s3 = (Inr (line_end @ telnet_prompt), s3\<lparr>arrivals := map Data (drop 4 session_replies)\<rparr>)"
    using await [of s3 "[line_end @ telnet_prompt]" "map Data (drop 4 session_replies)" "''> ''"]
      easy(2) emulator_marks(4) no_mark [of "''> ''"] by (simp add: session_replies_def)
  have four: "await c ''> '' s5 = (Inr simulated_interface, s5\<lparr>arrivals := []\<rparr>)"
    using await [of s5 "[simulated_interface]" "[]" "''> ''"]
      easy(4) emulator_marks(5) no_mark [of "''> ''"] by (simp add: session_replies_def)
  have "tn_login c s1 = (Inr (), s4)"
    using one two three assms(2) by (simp add: tn_login_def bindW_def catchW_def login_dialogue_def s4_def)
  moreover have "open_socket s = (Inr (), s1)" using assms(6) by (simp add: open_socket_def s1_def)
  ultimately have connect: "tn_connect c s = (Inr (), s4)"
    using assms(1,3) by (simp add: tn_connect_def bindW_def)
  have live: "authenticated s4" "socket_open s4" using easy(3) by (simp_all add: easy_def s4_def)
  have "tn_send (utf8 (show_interface_command name) @ crlf_bytes) s4 = (Inr (), s5)"
    using tn_send_easy [OF easy(3)] by (simp add: s5_def)
  then have "run_command c (show_interface_command name) s = (Inr (utf8_ignore c simulated_interface), s5\<lparr>arrivals := []\<rparr>)"
    using connect live four by (simp add: run_command_def bindW_def catchW_def)
  moreover have "sent s5 = sent s @ session_questions username password name"
    by (simp add: s5_def s4_def s3_def s2_def s1_def session_questions_def)
  ultimately show ?thesis by (simp add: show_interface_def Let_def bindW_def)
qed

lemma recv_sent_line:
  assumes "coming w = Chunk (utf8 s @ crlf_bytes) # rs" and "plain_line s"
  shows "recv_line [] w = (Inr (utf8 s), w\<lparr>coming := rs\<rparr>)"
  using recv_line_chunk [OF assms(1)] assms(2) strip_sent_line [OF assms(2)] by (simp add: crlf_bytes_def plain_line_def)

lemma show_command_response:
  "telnet_response (utf8 (show_interface_command name)) = (simulated_interface, True)"
proof -
  let ?head = "points ''show interface''"
  obtain ext where command: "points (show_interface_command name) = ?head @ ext"
  proof
    show "points (show_interface_command name) = ?head @ (if name = [] then [] else points (CHR 0x20 # name))"
      by (simp add: show_interface_command_def points_def)
  qed
  have head: "?head = 115 # tl ?head" "rev ?head = 101 # tl (rev ?head)" by code_simp+
  have spaces: "\<not> point_space 115" "\<not> point_space 101" by (simp_all add: point_space_def)
  have "dropWhile point_space (?head @ ext) = ?head @ ext"
    by (subst (1 2) head(1)) (simp add: spaces)
  moreover have "dropWhile point_space (rev ?head) = rev ?head" by (subst (1 2) head(2)) (simp add: spaces)
  ultimately have "\<exists>ext'. strip_points (?head @ ext) = ?head @ ext'"
    unfolding strip_points_def by (auto simp: dropWhile_append)
  then obtain ext' where strip: "strip_points (points (show_interface_command name)) = ?head @ ext'" using command by auto
  have "take 14 (?head @ ext') = ?head" by (simp add: points_def)
  moreover have "?head @ ext' \<notin> points ` {''exit'', ''quit'', ''logout''}" by (auto simp: points_def ord_of_def)
  ultimately show ?thesis
    by (simp add: telnet_response_def decode_ignore_utf8 strip Let_def simulated_interface_def)
qed

lemma emulator_session:
  assumes "plain_line username" and "plain_line password" and "plain_line (show_interface_command name)"
    and "coming w = map Chunk (session_questions username password name)" and "writable w = []"
  shows "telnet_emulator username password w = (Inr (), w\<lparr>coming := [], shown := shown w @ session_replies\<rparr>)"
proof -
  let ?u = "Chunk (utf8 username @ crlf_bytes)" and ?p = "Chunk (utf8 password @ crlf_bytes)"
    and ?c = "Chunk (utf8 (show_interface_command name) @ crlf_bytes)"
  have coming: "coming w = [?u, ?p, ?c]" using assms(4) by (simp add: session_questions_def)
  have send: "line_send bs v = (Inr (), v\<lparr>shown := shown v @ [bs]\<rparr>)" if "writable v = []" for bs v
    using that by (simp add: line_send_def)
  let ?v1 = "w\<lparr>shown := shown w @ take 2 session_replies\<rparr>"
  let ?v2 = "w\<lparr>coming := [?p, ?c], shown := shown w @ take 3 session_replies\<rparr>"
  let ?v3 = "w\<lparr>coming := [?c], shown := shown w @ take 4 session_replies\<rparr>"
  have "recv_line [] ?v1 = (Inr (utf8 username), ?v1\<lparr>coming := [?p, ?c]\<rparr>)"
    by (rule recv_sent_line) (simp_all add: coming assms(1))
  moreover have "recv_line [] ?v2 = (Inr (utf8 password), ?v2\<lparr>coming := [?c]\<rparr>)"
    by (rule recv_sent_line) (simp_all add: assms(2))
  ultimately have greeting: "telnet_greeting username password w = (Inr True, ?v2\<lparr>coming := [?c]\<rparr>)"
    using assms(5) by (simp add: telnet_greeting_def bindW_def send session_replies_def decode_ignore_utf8)
  have "recv_line [] ?v3 = (Inr (utf8 (show_interface_command name)), ?v3\<lparr>coming := []\<rparr>)"
    by (rule recv_sent_line) (simp_all add: assms(3))
  moreover have "utf8 (show_interface_command name) \<noteq> []"
    by (simp add: utf8_Nil show_interface_command_def)
  moreover have "command_loop v = (Inr (), v)" if "coming v = []" for v
    using that by (simp add: command_loop.simps [of v] recv_line_silent)
  ultimately have "command_loop ?v3 = (Inr (), w\<lparr>coming := [], shown := shown w @ session_replies\<rparr>)"
    using assms(5) by (subst command_loop.simps) (simp add: show_command_response send session_replies_def)
  then show ?thesis
    using greeting assms(5)
    by (simp add: telnet_emulator_def catchW_def telnet_session_def bindW_def send session_replies_def)
qed

text \<open>
  C39. The Telnet adapter of the gateway and the Telnet emulator have a
  whole session with each other: with the same credentials (lines of at most 254 encoded bytes), what
  each end sends is what makes the other end send its part, and \<open>show_interface\<close> returns the text the
  emulator answers.
\<close>

theorem telnet_adapter_meets_emulator:
  assumes "timeout_of c = Inr d" and "resolve_credentials c = Inr (username, password)"
    and "\<not> socket_open s" and "readings s = []" and "sends s = []"
    and "plain_line username" and "plain_line password" and "plain_line (show_interface_command name)"
  shows "\<exists>questions replies s' w'.
     show_interface c name (s\<lparr>dials := [Some (map Data replies)]\<rparr>)
       = (Inr [(''command'', JStr (show_interface_command name)), (''output'', JStr (utf8_ignore c simulated_interface))], s')
     \<and> sent s' = sent s @ questions
     \<and> telnet_emulator username password \<lparr>coming = map Chunk questions, writable = [], shown = []\<rparr> = (Inr (), w')
     \<and> shown w' = replies"
proof -
  let ?w = "\<lparr>coming = map Chunk (session_questions username password name), writable = [], shown = []\<rparr>"
  obtain s' where "show_interface c name (s\<lparr>dials := [Some (map Data session_replies)]\<rparr>)
      = (Inr [(''command'', JStr (show_interface_command name)), (''output'', JStr (utf8_ignore c simulated_interface))], s')"
    and "sent s' = sent s @ session_questions username password name"
    using adapter_session [of c d username password "s\<lparr>dials := [Some (map Data session_replies)]\<rparr>" name] assms by auto
  moreover have "telnet_emulator username password ?w = (Inr (), ?w\<lparr>coming := [], shown := session_replies\<rparr>)"
    using emulator_session [of username password name ?w] assms(6-8) by simp
  ultimately show ?thesis by fastforce
qed

section \<open>The NETCONF emulator\<close>

text \<open>A message that arrives in one read of its own.\<close>

definition framed_alone :: "bytes \<Rightarrow> bool" where
  "framed_alone m \<longleftrightarrow> split_mark eom (m @ eom) = Some (m, []) \<and> length m \<le> 4000"

text \<open>The requests up to the first one that closes the session.\<close>

fun until_close :: "bytes list \<Rightarrow> bytes list" where
  "until_close [] = []"
| "until_close (m # ms) = (if rpc_kind_of m = CloseSession then [m] else m # until_close ms)"

lemma set_until_close: "set (until_close ms) \<subseteq> set ms"
  by (induction ms) auto

text \<open>An identifier that was read from a request is read from its reply.\<close>

lemma split_mark_start: "prefix mark bs \<Longrightarrow> bs \<noteq> [] \<Longrightarrow> split_mark mark bs = Some ([], drop (length mark) bs)"
  by (cases bs) auto

lemma split_mark_reply:
  "split_mark message_id_mark (ascii ''<rpc-reply '' @ message_id_mark @ rest) = Some (ascii ''<rpc-reply '', rest)"
proof -
  have "split_mark message_id_mark (message_id_mark @ rest) = Some ([], rest)"
    by (subst split_mark_start) (simp_all add: message_id_mark_def ascii_def)
  then show ?thesis
    by (simp add: message_id_mark_def dquote_def ascii_def ord_of_def)
qed

lemma message_id_reply:
  assumes "message_id_of m = Some i"
  shows "message_id_of (rpc_reply i body) = Some i"
proof -
  have i: "34 \<notin> set i"
    using assms by (auto simp: message_id_of_def split: option.splits if_splits dest: set_takeWhileD)
  have "\<exists>rest. rpc_reply i body = ascii ''<rpc-reply '' @ message_id_mark @ i @ 34 # rest"
    by (simp add: rpc_reply_def message_id_mark_def dquote_def ascii_def ord_of_def)
  moreover have "takeWhile (\<lambda>b. b \<noteq> 34) (i @ 34 # rest) = i" for rest
    using i by (subst takeWhile_append2) auto
  ultimately show ?thesis by (auto simp: message_id_of_def split_mark_reply)
qed

lemma eom_not_Nil [simp]: "eom \<noteq> []"
  by (simp add: eom_def ascii_def)

lemma length_eom [simp]: "length eom = 6"
  by (simp add: eom_def)

lemma read_framed_chunk:
  assumes "coming w = Chunk bs # rs" and "split_mark eom bs = Some (m, rest)" and "length bs \<le> 4096"
  shows "read_framed [] w = (Inr (Some m), w\<lparr>coming := rs\<rparr>)"
proof -
  have "bs \<noteq> []" using assms(2) by auto
  moreover have "read_framed bs (w\<lparr>coming := rs\<rparr>) = (Inr (Some m), w\<lparr>coming := rs\<rparr>)"
    using assms(2) by (simp add: read_framed.simps)
  ultimately show ?thesis
    using assms(1,3) by (simp add: read_framed.simps [of "[]"] line_recv_def)
qed

lemma read_framed_alone:
  "coming w = Chunk (m @ eom) # rs \<Longrightarrow> framed_alone m \<Longrightarrow> read_framed [] w = (Inr (Some m), w\<lparr>coming := rs\<rparr>)"
  by (rule read_framed_chunk) (auto simp: framed_alone_def)

lemma rpc_loop_silent: "coming w = [] \<Longrightarrow> rpc_loop w = (Inr (), w)"
  by (simp add: rpc_loop.simps [of w] read_framed.simps [of "[]"] line_recv_def)

lemma rpc_loop_alone:
  assumes "\<forall>m \<in> set ms. framed_alone m \<and> handle_rpc m = Inr (respond m)"
    and "coming w = map (\<lambda>m. Chunk (m @ eom)) ms" and "writable w = []"
  shows "fst (rpc_loop w) = Inr () \<and> shown (snd (rpc_loop w)) = shown w @ map respond (until_close ms)"
  using assms
proof (induction ms arbitrary: w)
  case Nil
  then show ?case by (simp add: rpc_loop_silent)
next
  case (Cons m ms)
  let ?v = "w\<lparr>coming := map (\<lambda>m. Chunk (m @ eom)) ms, shown := shown w @ [respond m]\<rparr>"
  have "read_framed [] w = (Inr (Some m), w\<lparr>coming := map (\<lambda>m. Chunk (m @ eom)) ms\<rparr>)"
    using Cons.prems by (intro read_framed_alone) auto
  then have "rpc_loop w = (if rpc_kind_of m = CloseSession then (Inr (), ?v) else rpc_loop ?v)"
    using Cons.prems by (subst rpc_loop.simps) (simp add: line_send_def)
  then show ?case using Cons.IH [of ?v] Cons.prems by simp
qed

text \<open>
  C40. When every message arrives in a read of its own, the NETCONF
  emulator answers the client's hello with its own and then every request, in order, with one reply
  in which the request's message identifier can be read, up to and including the one that closes the session.
\<close>

theorem netconf_requests_are_answered:
  assumes "\<forall>m \<in> set (hello # ms). framed_alone m"
    and "\<forall>m \<in> set ms. message_id_of m = Some (identifier m) \<and> utf8_points (identifier m) \<noteq> None"
    and "coming w = map (\<lambda>m. Chunk (m @ eom)) (hello # ms)" and "writable w = []" and "shown w = []"
  shows "fst (netconf_loop w) = Inr () \<and> shown (snd (netconf_loop w))
     = server_hello # map (\<lambda>m. rpc_reply (identifier m) (rpc_body (rpc_kind_of m))) (until_close ms)
     \<and> map message_id_of (tl (shown (snd (netconf_loop w)))) = map message_id_of (until_close ms)"
proof -
  have replies: "message_id_of (rpc_reply (identifier m) body) = message_id_of m" if "m \<in> set (until_close ms)" for m body
    using that assms(2) set_until_close [of ms] message_id_reply by fastforce
  let ?v = "w\<lparr>coming := map (\<lambda>m. Chunk (m @ eom)) ms\<rparr>"
  have "read_framed [] w = (Inr (Some hello), ?v)" using assms(1,3) by (intro read_framed_alone) auto
  then have "netconf_loop w = rpc_loop (?v\<lparr>shown := [server_hello]\<rparr>)"
    using assms(4,5) by (simp add: netconf_loop_def bindW_def line_send_def)
  moreover have "\<forall>m \<in> set ms. framed_alone m \<and> handle_rpc m = Inr (rpc_reply (identifier m) (rpc_body (rpc_kind_of m)))"
    using assms(1,2) by (auto simp: handle_rpc_def Let_def)
  ultimately show ?thesis
    using replies rpc_loop_alone [of ms "\<lambda>m. rpc_reply (identifier m) (rpc_body (rpc_kind_of m))" "?v\<lparr>shown := [server_hello]\<rparr>"] assms(4)
    by simp
qed

definition sample_rpc :: "string \<Rightarrow> bytes" where
  "sample_rpc operation = ascii (''<rpc message-id='' @ dquote @ ''101'' @ dquote @ ''><'' @ operation @ ''/></rpc>'')"

lemma sample_identifier: "utf8_points (ascii ''101'') = Some (points ''101'')"
  using utf8_points_utf8 [of "''101''"] utf8_ascii [of "''101''"] by (simp add: ord_of_def)

definition arrive_as :: "bytes list \<Rightarrow> client_line" where
  "arrive_as chunks = \<lparr>coming = map Chunk chunks, writable = [], shown = []\<rparr>"

text \<open>
  What the NETCONF emulator reads beyond the end of a message is
  dropped: a request that arrives together with the hello is never answered, although the same
  request in a read of its own is.
\<close>

theorem pipelined_requests_are_lost:
  "shown (snd (netconf_loop (arrive_as [ascii ''<hello/>'' @ eom @ sample_rpc ''get-config'' @ eom]))) = [server_hello]
   \<and> shown (snd (netconf_loop (arrive_as [ascii ''<hello/>'' @ eom, sample_rpc ''get-config'' @ eom])))
     = [server_hello, rpc_reply (ascii ''101'') (rpc_body GetConfigRpc)]"
proof
  let ?get = "sample_rpc ''get-config''" and ?hello = "ascii ''<hello/>''"
  have rpc: "split_mark eom (?get @ eom) = Some (?get, [])" "split_mark eom (?hello @ eom) = Some (?hello, [])"
    "split_mark eom (?hello @ eom @ ?get @ eom) = Some (?hello, ?get @ eom)"
    "message_id_of ?get = Some (ascii ''101'')" "rpc_kind_of ?get = GetConfigRpc"
    by code_simp+
  then have handle: "handle_rpc ?get = Inr (rpc_reply (ascii ''101'') (rpc_body GetConfigRpc))"
    by (simp add: handle_rpc_def sample_identifier)
  have size: "length ?hello = 8" "length ?get \<le> 60" by (simp_all add: sample_rpc_def dquote_def)
  have "read_framed [] (arrive_as [?hello @ eom @ ?get @ eom]) = (Inr (Some ?hello), (arrive_as [?hello @ eom @ ?get @ eom])\<lparr>coming := []\<rparr>)"
    using rpc(3) size by (intro read_framed_chunk) (auto simp: arrive_as_def)
  then show "shown (snd (netconf_loop (arrive_as [?hello @ eom @ ?get @ eom]))) = [server_hello]"
    by (simp add: netconf_loop_def bindW_def line_send_def rpc_loop_silent arrive_as_def)
  have "read_framed [] (arrive_as [?hello @ eom, ?get @ eom]) = (Inr (Some ?hello), (arrive_as [?hello @ eom, ?get @ eom])\<lparr>coming := [Chunk (?get @ eom)]\<rparr>)"
    using rpc(2) size by (intro read_framed_chunk) (auto simp: arrive_as_def)
  then show "shown (snd (netconf_loop (arrive_as [?hello @ eom, ?get @ eom]))) = [server_hello, rpc_reply (ascii ''101'') (rpc_body GetConfigRpc)]"
    using rpc_loop_alone [of "[?get]" "\<lambda>_. rpc_reply (ascii ''101'') (rpc_body GetConfigRpc)"
        "\<lparr>coming = [Chunk (?get @ eom)], writable = [], shown = [server_hello]\<rparr>"] rpc handle size
    by (simp add: netconf_loop_def bindW_def line_send_def arrive_as_def framed_alone_def)
qed

text \<open>Concrete sessions.\<close>

definition demo_adapter :: telnet_client where
  "demo_adapter = \<lparr>router_info = [(''username'', JStr ''demo-fake-user''), (''password'', JStr ''demo-fake-pass'')],
     setting = (\<lambda>_. None), text_float = (\<lambda>s. if s = ''5'' then Some (Finite 5) else None),
     to_text = sample_services, utf8_ignore = (\<lambda>bs. case decode_ascii bs of Some s \<Rightarrow> s | None \<Rightarrow> [])\<rparr>"

definition fresh_session :: telnet where
  "fresh_session = \<lparr>readings = [], now = 0, arrivals = [], sends = [], sent = [], socket_open = False,
     session_negotiator = None, authenticated = False, dials = []\<rparr>"

theorem telnet_adapter_meets_emulator_witness:
  "\<exists>questions replies s' w'.
     show_interface demo_adapter ''eth0'' (fresh_session\<lparr>dials := [Some (map Data replies)]\<rparr>)
       = (Inr [(''command'', JStr ''show interface eth0''), (''output'', JStr (utf8_ignore demo_adapter simulated_interface))], s')
     \<and> sent s' = questions
     \<and> telnet_emulator ''demo-fake-user'' ''demo-fake-pass'' \<lparr>coming = map Chunk questions, writable = [], shown = []\<rparr> = (Inr (), w')
     \<and> shown w' = replies"
proof -
  have "timeout_of demo_adapter = Inr 5" by (simp add: timeout_of_def demo_adapter_def Let_def)
  moreover have "resolve_credentials demo_adapter = Inr (''demo-fake-user'', ''demo-fake-pass'')" by code_simp
  moreover have "plain_line ''demo-fake-user''" "plain_line ''demo-fake-pass''"
    "plain_line (show_interface_command ''eth0'')"
    by code_simp+
  ultimately show ?thesis
    using telnet_adapter_meets_emulator [of demo_adapter 5 "''demo-fake-user''" "''demo-fake-pass''" fresh_session "''eth0''"]
    by (simp add: fresh_session_def show_interface_command_def)
qed

theorem netconf_requests_are_answered_witness:
  "shown (snd (netconf_loop (arrive_as [ascii ''<hello/>'' @ eom, sample_rpc ''edit-config'' @ eom, sample_rpc ''close-session'' @ eom])))
     = [server_hello, rpc_reply (ascii ''101'') ''<ok/>'', rpc_reply (ascii ''101'') ''<ok/>'']"
proof -
  let ?ms = "[sample_rpc ''edit-config'', sample_rpc ''close-session'']"
  have "list_all (\<lambda>m. split_mark eom (m @ eom) = Some (m, [])) (ascii ''<hello/>'' # ?ms)"
    "list_all (\<lambda>m. message_id_of m = Some (ascii ''101'')) ?ms"
    "map rpc_kind_of ?ms = [EditConfigRpc, CloseSession]"
    by code_simp+
  moreover have "list_all (\<lambda>m. length m \<le> 4000) (ascii ''<hello/>'' # ?ms)" by (simp add: sample_rpc_def dquote_def)
  ultimately show ?thesis
    using netconf_requests_are_answered [of "ascii ''<hello/>''" ?ms "\<lambda>_. ascii ''101''"
        "arrive_as [ascii ''<hello/>'' @ eom, sample_rpc ''edit-config'' @ eom, sample_rpc ''close-session'' @ eom]"]
    by (simp add: framed_alone_def arrive_as_def rpc_body_def sample_identifier)
qed

end
