(* ===== verification/Spec2Isabelle.thy ===== *)
theory Spec2Isabelle
  imports Identity ProfileLaws Configs Factories BatchLaws DeviceDataLaws TelnetLaws ReportLaws AuthSamples HttpSamples
    ConnectConversations LegacyApi DemoSeedingLaws DemoStartLaws EmulatorLaws
begin

text \<open>
  Verification of the network gateway API, a Python service that keeps connection profiles of
  network devices, tests and opens connections to them, and serves a management API, an audit log,
  simulated device data and a set of legacy device routes. This theory imports every other one; it
  describes what they model, what they prove, and what they leave out. Paths are relative to \<open>src/\<close>.

  \<^bold>\<open>How the program is put together.\<close> The HTTP layer (\<open>app/main.py\<close>, \<open>app/routes.py\<close>,
  \<open>app/api/routes\<close>, \<open>app/api/schemas\<close>) asks the authentication service who the caller is, checks
  role, origin and media type, reads the request with a pydantic model and calls one service of
  \<open>app/bl/services\<close>. The services share one store (\<open>app/dal/db/store.py\<close>): a lock, a vault that
  encrypts every secret, and one SQL transaction per operation over the tables of
  \<open>app/dal/db/storage.py\<close>. A batch worker runs connection tests in the background and records its
  results in the same store. A test validates the resolved profile and dials through
  \<open>app/dal/proxy/connectors.py\<close>. The legacy routes look a device up in a second, metadata database
  and run a client of \<open>app/dal/device\<close>. The demo (\<open>demo\<close>) seeds both databases, starts loopback
  peers and emulators, and serves the application against them.

  \<^bold>\<open>Conventions.\<close> A call that may raise returns \<open>Inl\<close> of its exception or \<open>Inr\<close> of its value
  (\<open>bindE\<close>); a program that also changes a state or a stream is an \<open>io\<close> (\<open>bindW\<close>, \<open>catchW\<close>): it
  returns the new world in either case. A transaction of the store is a function of the database
  that is committed only when it returns (\<open>transaction\<close>). Dictionaries are association lists with
  Python's order; JSON is the datatype \<open>json\<close>; Python's integers are \<open>int\<close>, bytes are \<open>8 word\<close>,
  addresses are \<open>32 word\<close> and \<open>128 word\<close>. Characters are the first 256 code points.
  Third-party code is an argument: the cipher (\<open>services\<close> with \<open>vault_law\<close>: what is sealed can be
  read again), JWT signatures, the JSON and XML parsers, pydantic's reading and rendering
  (\<open>web_library\<close> with the laws its documentation states), DNS, TCP, paramiko, ncclient, SQLAlchemy's
  engine, the file system and the clock. \<open>Instance\<close> chooses computable ones for the witnesses.

  \<^bold>\<open>Foundations.\<close> \<open>Prelude\<close>: results, traversals, and the locales \<open>invariant_system\<close> and
  \<open>transactional_system\<close> with what follows for all runs. \<open>PyString\<close>, \<open>PyNumber\<close>, \<open>PyValue\<close>: the parts
  of the Python library the code uses. \<open>Uuid\<close>, \<open>IpAddress\<close>, \<open>Base64\<close>: \<open>uuid\<close>, \<open>ipaddress\<close> (parsing,
  compressed printing, containment, with their round trip) and \<open>base64\<close>. \<open>Wire\<close>: bytes, programs
  with effects and the rules \<open>keeps\<close> and \<open>raises_only\<close> for them, the clock and a byte stream given by
  its answers.

  \<^bold>\<open>The store\<close> (\<open>app/dal/db/storage.py\<close>, \<open>secrets.py\<close>, \<open>store.py\<close>). \<open>Schema\<close>: one record per table
  and the constraints (\<open>schema_ok\<close>, \<open>execute\<close>). \<open>Secrets\<close>: secret fields, public projections, and the two
  redactors: what they remove (every secret that cannot overlap the placeholder) and where they differ. \<open>StoreCore\<close>: transactions, validators, lookup, resolution. \<open>Profiles\<close> and \<open>ProfileLaws\<close>:
  saving and deleting role accounts, proxies and connections; stored secrets stay readable
  (\<open>profiles_ok\<close>), a save is accepted or refused with 400 or 404 and never breaks a constraint, what
  was saved is what is read, and no view shows a secret. \<open>Configs\<close>: operational configurations.
  \<open>Routes\<close> and \<open>RouteLaws\<close>: simulated routes in canonical form. \<open>TxnLog\<close> and \<open>TxnLogLaws\<close>: the audit
  log, its commits together with a change, and its pages. \<open>Jobs\<close> and \<open>JobLaws\<close>: test jobs, their
  encrypted snapshot, their status machine (\<open>job_moves\<close>) and the recovery when the store opens.
  \<open>GatewayLaws\<close>: every operation the services call keeps the invariants of all tables at once.

  \<^bold>\<open>Services.\<close> \<open>Management\<close>, \<open>Batches\<close> and \<open>BatchLaws\<close>: the management and transactions services and
  the batch service; a run always ends its job, an export reads back as CSV. \<open>FakeDevice\<close>,
  \<open>DeviceData\<close> and \<open>DeviceDataLaws\<close>: the fictional device and the audited service over it (locale
  \<open>audited_operation\<close>): a change leaves exactly one record, a refused attempt at most one, and one
  whenever that record is valid. \<open>Settings\<close>, \<open>Identity\<close>: environment
  settings and roles. \<open>Auth\<close>, \<open>AuthLaws\<close>, \<open>AuthSamples\<close>: signed cookies, tokens, the login flow; what makes a
  token acceptable is stated over its claims (\<open>in_force\<close>), apart from the code's test.

  \<^bold>\<open>HTTP.\<close> \<open>WriteModels\<close>, \<open>ResponseModels\<close> and \<open>ModelLaws\<close>: the pydantic models and their
  agreement with the validators of the store. \<open>HttpApi\<close>, \<open>HttpLaws\<close>, \<open>HttpSamples\<close>: every management
  and device-data route, and what any sequence of requests and worker steps keeps.

  \<^bold>\<open>Connections.\<close> \<open>Connectors\<close> and \<open>ConnectorLaws\<close>: the checks of a profile before anything is
  dialled. \<open>Handshakes\<close>: deadline, TCP, SSH, SOCKS5, HTTP CONNECT and the shell of a bastion.
  \<open>ConnectionTests\<close>, \<open>ConnectionTestLaws\<close>, \<open>ReportLaws\<close>: the tests, the books of what they open
  (locale \<open>books\<close>), and their fixed vocabulary. \<open>Telnet\<close> and \<open>TelnetLaws\<close>: the Telnet adapter; its
  negotiator agrees with a declarative reader of the stream.

  \<^bold>\<open>Legacy devices.\<close> \<open>Factories\<close>: device lookup, class and proxy mapping. \<open>DeviceClients\<close> and
  \<open>DeviceClientLaws\<close>: the NETCONF and SSH clients and the controllers, as a history of library calls
  (locale \<open>device_adapter\<close>). \<open>LegacyApi\<close>: the route tables and their guard.

  \<^bold>\<open>The demo.\<close> \<open>Peers\<close>, \<open>PeerProtocols\<close>, \<open>PeerSessions\<close>, \<open>PeerLaws\<close>: the loopback protocol peers,
  with their threads as an inductive step relation. \<open>Conversations\<close> and \<open>ConnectConversations\<close>: both
  ends of a handshake together (locales \<open>endpoint\<close> and \<open>marked_endpoint\<close>, interpreted for the gateway
  and for the peer). \<open>DemoSeeding\<close> and \<open>DemoSeedingLaws\<close>: the seeds of both databases. \<open>DemoStart\<close> and
  \<open>DemoStartLaws\<close>: the checks of the environment, keys and trust files, start and stop. \<open>Emulators\<close>
  and \<open>EmulatorLaws\<close>: the Telnet, SSH and NETCONF emulators.

  \<^bold>\<open>Bounds and termination.\<close> No definition of the program runs on fuel; only the sample decoder of
  \<open>Instance\<close> does, and the length of its input bounds the depth it needs. Loops over a stream end because every
  turn makes what is still to arrive smaller (\<open>to_come\<close>, \<open>still_coming\<close>); a peer with nothing more to
  say is silent, and a read with a time limit then times out. Only the relay of a peer may run for
  ever: it is a \<open>partial_function\<close> over two sides whose arrivals are endless streams
  (\<open>relay_side\<close>). It ends when its peer is stopped or a side that stays readable closes or fails,
  and it does not end between two sides that neither close nor fail. The limits of the code (8192 bytes of a Telnet response, 30 seconds of a deadline, 255 bytes of a
  SOCKS5 field and so on) are those of the source.

  \<^bold>\<open>Assumptions.\<close> Each transaction runs alone, which the lock of the store and SQLite's
  transactions give; the interleaving of requests and worker is the sequence of their
  transactions. The worker of a batch runs its tests one after the other, which is how the pool of
  one thread runs them. Fresh UUIDs are those of a draw that does not repeat, where a property says
  so. Texts are limited to 256 code points, so that properties of Unicode case folding above them
  are not stated.

  \<^bold>\<open>Not modelled.\<close> The set-up of SQLAlchemy engines and of logging (\<open>config/logger.py\<close>), which only
  configures libraries; the static user interface (\<open>app/ui\<close>), which is JavaScript; the client
  classes \<open>nccclient_adva.py\<close>, \<open>nccclient_ceina.py\<close> and \<open>nccclient_iox.py\<close>, which only repeat an
  assignment of their base class; the accept loops of the emulators, which are threads of the
  operating system; argument parsing and printing of the demo programs; tests and documents.
\<close>

end
